(* ===== verification/Prelude.thy ===== *)
theory Prelude
  imports Main "HOL-Library.Char_ord" "HOL-Library.List_Lexorder"
begin

text \<open>
  The part of the Rust standard library that the MiyoriOS crates use, as
  executable functions, with the lemmas the component theories share.

  A Rust \<open>String\<close> or \<open>&str\<close> is its sequence of UTF-8 bytes, an Isabelle
  \<open>string\<close> (a \<open>char\<close> is a byte), so \<open>len()\<close> is \<open>length\<close>.  The operations
  that Rust defines on \<open>char\<close>s (\<open>trim\<close>, \<open>chars().take(n)\<close>, \<open>is_control\<close>)
  go through \<open>chars\<close>, the UTF-8 decoder, and \<open>from_chars\<close>, the encoder.
  An unsigned integer of the source is a \<open>nat\<close>; its width is written out
  where a parse or an addition can leave it.
\<close>

named_theorems str_simps \<open>evaluation of the string operations\<close>

section \<open>Substrings\<close>

definition starts_with :: "'a list \<Rightarrow> 'a list \<Rightarrow> bool" where
  "starts_with p s \<longleftrightarrow> take (length p) s = p"

definition strip_prefix :: "'a list \<Rightarrow> 'a list \<Rightarrow> 'a list option" where
  "strip_prefix p s = (if starts_with p s then Some (drop (length p) s) else None)"

definition strip_suffix :: "'a list \<Rightarrow> 'a list \<Rightarrow> 'a list option" where
  "strip_suffix p s =
     (if length p \<le> length s \<and> drop (length s - length p) s = p
      then Some (take (length s - length p) s) else None)"

fun find_sub :: "'a list \<Rightarrow> 'a list \<Rightarrow> nat option" where
  "find_sub n [] = (if n = [] then Some 0 else None)"
| "find_sub n (c # s) =
     (if starts_with n (c # s) then Some 0 else map_option Suc (find_sub n s))"

fun rfind_sub :: "'a list \<Rightarrow> 'a list \<Rightarrow> nat option" where
  "rfind_sub n [] = (if n = [] then Some 0 else None)"
| "rfind_sub n (c # s) =
     (case rfind_sub n s of
        Some i \<Rightarrow> Some (Suc i)
      | None \<Rightarrow> if starts_with n (c # s) then Some 0 else None)"

definition contains_sub :: "'a list \<Rightarrow> 'a list \<Rightarrow> bool" where
  "contains_sub s n \<longleftrightarrow> find_sub n s \<noteq> None"

lemma starts_with_iff: "starts_with p s \<longleftrightarrow> (\<exists>r. s = p @ r)"
  unfolding starts_with_def by (metis append_eq_conv_conj append_take_drop_id)

lemma starts_with_append [simp]: "starts_with p (p @ r)"
  by (auto simp: starts_with_iff)

lemma starts_with_Nil [simp]: "starts_with [] s"
  by (simp add: starts_with_def)

lemma starts_with_Cons [simp]:
  "starts_with (a # p) (b # s) \<longleftrightarrow> a = b \<and> starts_with p s"
  by (auto simp: starts_with_def)

lemma starts_with_Cons_Nil [simp]: "\<not> starts_with (a # p) []"
  by (simp add: starts_with_def)

lemma strip_prefix_Some: "strip_prefix p s = Some r \<longleftrightarrow> s = p @ r"
  by (auto simp: strip_prefix_def starts_with_iff)

lemma strip_prefix_append [simp]: "strip_prefix p (p @ r) = Some r"
  by (simp add: strip_prefix_Some)

lemma strip_suffix_Some: "strip_suffix p s = Some r \<longleftrightarrow> s = r @ p"
  unfolding strip_suffix_def
  by (auto split: if_splits) (metis append_take_drop_id)

lemma strip_suffix_append [simp]: "strip_suffix p (r @ p) = Some r"
  by (simp add: strip_suffix_Some)

lemma find_sub_SomeD: "find_sub n s = Some i \<Longrightarrow> \<exists>r. s = take i s @ n @ r \<and> i \<le> length s"
proof (induction s arbitrary: i)
  case Nil
  then show ?case by (auto split: if_splits)
next
  case (Cons c s)
  show ?case
  proof (cases "starts_with n (c # s)")
    case True
    with Cons.prems have "i = 0" by simp
    with True show ?thesis by (auto simp: starts_with_iff)
  next
    case False
    with Cons.prems obtain j where j: "i = Suc j" "find_sub n s = Some j" by auto
    from Cons.IH [OF j(2)] obtain r where "s = take j s @ n @ r" "j \<le> length s" by blast
    then show ?thesis using j by (intro exI [of _ r]) simp
  qed
qed

lemma find_sub_append [simp]: "\<exists>i. find_sub n (a @ n @ b) = Some i"
proof (induction a)
  case Nil
  have "starts_with n (n @ b)" by simp
  then show ?case by (cases "n @ b") auto
next
  case (Cons x a)
  then show ?case by auto
qed

lemma contains_sub_iff: "contains_sub s n \<longleftrightarrow> (\<exists>a b. s = a @ n @ b)"
proof
  assume "contains_sub s n"
  then obtain i where "find_sub n s = Some i" by (auto simp: contains_sub_def)
  from find_sub_SomeD [OF this] show "\<exists>a b. s = a @ n @ b" by blast
next
  assume "\<exists>a b. s = a @ n @ b"
  then show "contains_sub s n" by (auto simp: contains_sub_def)
qed

lemma contains_sub_append [simp]: "contains_sub (a @ n @ b) n"
  by (auto simp: contains_sub_iff)


section \<open>Splitting and joining\<close>

text \<open>\<open>str::split(c)\<close>: never empty, one piece more than separators.\<close>

fun split_on :: "'a \<Rightarrow> 'a list \<Rightarrow> 'a list list" where
  "split_on d [] = [[]]"
| "split_on d (c # s) =
     (if c = d then [] # split_on d s
      else (case split_on d s of [] \<Rightarrow> [[c]] | p # ps \<Rightarrow> (c # p) # ps))"

definition strip_cr :: "string \<Rightarrow> string" where
  "strip_cr l = (case strip_suffix [CHR 0x0D] l of Some r \<Rightarrow> r | None \<Rightarrow> l)"

text \<open>
  \<open>str::lines\<close>: pieces between line feeds, a carriage return before the line
  feed dropped; a final piece without a line feed is a line if it is not empty.
\<close>

fun lines_acc :: "string \<Rightarrow> string \<Rightarrow> string list" where
  "lines_acc acc [] = (if acc = [] then [] else [rev acc])"
| "lines_acc acc (c # s) =
     (if c = CHR 0x0A then strip_cr (rev acc) # lines_acc [] s else lines_acc (c # acc) s)"

definition lines :: "string \<Rightarrow> string list" where
  "lines s = lines_acc [] s"

fun join_str :: "'a list \<Rightarrow> 'a list list \<Rightarrow> 'a list" where
  "join_str sep [] = []"
| "join_str sep [x] = x"
| "join_str sep (x # y # ys) = x @ sep @ join_str sep (y # ys)"

lemma split_on_not_Nil [simp]: "split_on d s \<noteq> []"
  by (induction s) (auto split: list.splits)

lemma split_on_no_sep: "d \<notin> set s \<Longrightarrow> split_on d s = [s]"
  by (induction s) auto

lemma split_on_append: "d \<notin> set a \<Longrightarrow> split_on d (a @ d # b) = a # split_on d b"
  by (induction a) auto

lemma split_on_pieces: "p \<in> set (split_on d s) \<Longrightarrow> d \<notin> set p \<and> set p \<subseteq> set s"
proof (induction s arbitrary: p)
  case Nil
  then show ?case by simp
next
  case (Cons c s)
  then show ?case
    by (cases "split_on d s") (auto split: if_splits, blast)
qed

lemma join_split: "join_str [d] (split_on d s) = s"
proof (induction s)
  case Nil
  then show ?case by simp
next
  case (Cons c s)
  obtain p ps where "split_on d s = p # ps" by (cases "split_on d s") auto
  then show ?case using Cons by (cases ps) auto
qed

lemma split_join:
  "\<lbrakk>ps \<noteq> []; \<forall>p \<in> set ps. d \<notin> set p\<rbrakk> \<Longrightarrow> split_on d (join_str [d] ps) = ps"
  by (induction "[d]" ps rule: join_str.induct) (auto simp: split_on_no_sep split_on_append)

lemma lines_acc_line:
  "CHR 0x0A \<notin> set a \<Longrightarrow>
   lines_acc acc (a @ CHR 0x0A # s) = strip_cr (rev acc @ a) # lines_acc [] s"
  by (induction a arbitrary: acc) auto

lemma lines_line: "CHR 0x0A \<notin> set a \<Longrightarrow> lines (a @ CHR 0x0A # s) = strip_cr a # lines s"
  by (simp add: lines_def lines_acc_line)

lemma lines_Nil [simp]: "lines [] = []"
  by (simp add: lines_def)

lemma set_join_str:
  "set (join_str sep ps) \<subseteq> set sep \<union> (\<Union>p \<in> set ps. set p)"
  by (induction sep ps rule: join_str.induct) auto

section \<open>Numbers in text\<close>

definition digit_char :: "nat \<Rightarrow> char" where
  "digit_char d = char_of (48 + d)"

definition is_digit :: "char \<Rightarrow> bool" where
  "is_digit c \<longleftrightarrow> 48 \<le> (of_char c :: nat) \<and> (of_char c :: nat) \<le> 57"

definition digit_val :: "char \<Rightarrow> nat" where
  "digit_val c = of_char c - 48"

text \<open>\<open>Display\<close> of an unsigned integer.\<close>

fun dec :: "nat \<Rightarrow> string" where
  "dec n = (if n < 10 then [digit_char n] else dec (n div 10) @ [digit_char (n mod 10)])"

declare dec.simps [simp del]

text \<open>\<open>{:0w}\<close>: padded on the left with zeros.\<close>

definition dec_pad :: "nat \<Rightarrow> nat \<Rightarrow> string" where
  "dec_pad w n = replicate (w - length (dec n)) (CHR ''0'') @ dec n"

definition hex_digit :: "nat \<Rightarrow> char" where
  "hex_digit d = (if d < 10 then char_of (48 + d) else char_of (87 + d))"

fun hex :: "nat \<Rightarrow> string" where
  "hex n = (if n < 16 then [hex_digit n] else hex (n div 16) @ [hex_digit (n mod 16)])"

declare hex.simps [simp del]

text \<open>\<open>{:02x}\<close>.\<close>

definition hex02 :: "nat \<Rightarrow> string" where
  "hex02 n = replicate (2 - length (hex n)) (CHR ''0'') @ hex n"

text \<open>
  \<open>str::parse::<uN>\<close>: an optional plus sign, then at least one decimal digit;
  overflow of the width is an error.
\<close>

definition digits_val :: "string \<Rightarrow> nat" where
  "digits_val s = foldl (\<lambda>a c. 10 * a + digit_val c) 0 s"

definition parse_uint :: "nat \<Rightarrow> string \<Rightarrow> nat option" where
  "parse_uint bound s =
     (let t = (case s of c # r \<Rightarrow> if c = CHR ''+'' then r else s | [] \<Rightarrow> [])
      in if t \<noteq> [] \<and> list_all is_digit t \<and> digits_val t < bound
         then Some (digits_val t) else None)"

abbreviation parse_u32 :: "string \<Rightarrow> nat option" where
  "parse_u32 \<equiv> parse_uint 4294967296"

abbreviation parse_u64 :: "string \<Rightarrow> nat option" where
  "parse_u64 \<equiv> parse_uint 18446744073709551616"

lemma digit_char_val: "d < 10 \<Longrightarrow> digit_val (digit_char d) = d"
  by (simp add: digit_val_def digit_char_def)

lemma digit_char_digit: "d < 10 \<Longrightarrow> is_digit (digit_char d)"
  by (simp add: is_digit_def digit_char_def)

lemma dec_not_Nil [simp]: "dec n \<noteq> []"
  by (subst dec.simps) simp

lemma dec_digits: "c \<in> set (dec n) \<Longrightarrow> is_digit c"
proof (induction n rule: dec.induct)
  case (1 n)
  then show ?case
    by (subst (asm) (2) dec.simps) (auto split: if_splits simp: digit_char_digit)
qed

lemma digits_val_snoc: "digits_val (s @ [c]) = 10 * digits_val s + digit_val c"
  by (simp add: digits_val_def)

lemma digits_val_dec [simp]: "digits_val (dec n) = n"
proof (induction n rule: dec.induct)
  case (1 n)
  show ?case
  proof (cases "n < 10")
    case True
    then show ?thesis by (subst dec.simps) (simp add: digits_val_def digit_char_val)
  next
    case False
    with 1 show ?thesis by (subst dec.simps) (simp add: digits_val_snoc digit_char_val)
  qed
qed

lemma dec_inject [simp]: "dec m = dec n \<longleftrightarrow> m = n"
  by (metis digits_val_dec)

lemma parse_uint_dec: "n < b \<Longrightarrow> parse_uint b (dec n) = Some n"
proof -
  assume n: "n < b"
  obtain c r where cr: "dec n = c # r" by (cases "dec n") auto
  then have "is_digit c" using dec_digits [of c n] by simp
  then have "c \<noteq> CHR ''+''" by (auto simp: is_digit_def)
  moreover have "list_all is_digit (dec n)" by (auto simp: list_all_iff dec_digits)
  ultimately show ?thesis using n cr
    by (simp add: parse_uint_def Let_def) (metis cr digits_val_dec)
qed

end
