(* ===== verification/Utf8.thy ===== *)
theory Utf8
  imports Prelude
begin

text \<open>
  The UTF-8 view of a Rust string: \<open>chars\<close> decodes the bytes the way
  \<open>str::chars\<close> and \<open>String::from_utf8_lossy\<close> do (a maximal ill-formed prefix
  becomes one U+FFFD), \<open>from_utf8\<close> is the strict check of
  \<open>String::from_utf8\<close>, \<open>from_chars\<close> the encoder.  Above them the
  \<open>char\<close>-level operations the crates use: \<open>trim\<close>, \<open>split_whitespace\<close>,
  \<open>is_control\<close>, \<open>chars().count()\<close> and \<open>chars().take(n)\<close>.
\<close>

abbreviation byte_of :: "char \<Rightarrow> nat" where
  "byte_of c \<equiv> of_char c"

definition is_scalar :: "nat \<Rightarrow> bool" where
  "is_scalar c \<longleftrightarrow> c < 1114112 \<and> \<not> (55296 \<le> c \<and> c \<le> 57343)"

definition utf8_enc :: "nat \<Rightarrow> string" where
  "utf8_enc c =
     (if c < 128 then [char_of c]
      else if c < 2048 then [char_of (192 + c div 64), char_of (128 + c mod 64)]
      else if c < 65536 then
        [char_of (224 + c div 4096), char_of (128 + c div 64 mod 64), char_of (128 + c mod 64)]
      else
        [char_of (240 + c div 262144), char_of (128 + c div 4096 mod 64),
         char_of (128 + c div 64 mod 64), char_of (128 + c mod 64)])"

definition from_chars :: "nat list \<Rightarrow> string" where
  "from_chars cs = concat (map utf8_enc cs)"

definition is_cont :: "nat \<Rightarrow> bool" where
  "is_cont b \<longleftrightarrow> 128 \<le> b \<and> b < 192"

text \<open>The bytes a two-, three- or four-byte sequence may have in second place.\<close>

definition second_ok :: "nat \<Rightarrow> nat \<Rightarrow> bool" where
  "second_ok b b1 \<longleftrightarrow>
     is_cont b1 \<and> (b = 224 \<longrightarrow> 160 \<le> b1) \<and> (b = 237 \<longrightarrow> b1 < 160) \<and>
     (b = 240 \<longrightarrow> 144 \<le> b1) \<and> (b = 244 \<longrightarrow> b1 < 144)"

text \<open>
  One step of the decoder: the scalar value at the front, or nothing, and the
  number of bytes it takes.
\<close>

definition utf8_step :: "string \<Rightarrow> nat option \<times> nat" where
  "utf8_step s = (case s of [] \<Rightarrow> (None, 1) | c # r \<Rightarrow>
     let b = byte_of c in
     if b < 128 then (Some b, 1)
     else if b < 194 \<or> 244 < b then (None, 1)
     else case r of [] \<Rightarrow> (None, 1) | c1 # r1 \<Rightarrow>
       let b1 = byte_of c1 in
       if \<not> second_ok b b1 then (None, 1)
       else if b < 224 then (Some ((b - 192) * 64 + (b1 - 128)), 2)
       else case r1 of [] \<Rightarrow> (None, 2) | c2 # r2 \<Rightarrow>
         let b2 = byte_of c2 in
         if \<not> is_cont b2 then (None, 2)
         else if b < 240 then (Some ((b - 224) * 4096 + (b1 - 128) * 64 + (b2 - 128)), 3)
         else case r2 of [] \<Rightarrow> (None, 3) | c3 # _ \<Rightarrow>
           let b3 = byte_of c3 in
           if \<not> is_cont b3 then (None, 3)
           else (Some ((b - 240) * 262144 + (b1 - 128) * 4096 + (b2 - 128) * 64 + (b3 - 128)), 4))"

lemma utf8_step_pos: "0 < snd (utf8_step s)"
  by (auto simp: utf8_step_def Let_def split: list.splits)

function chars :: "string \<Rightarrow> nat list" where
  "chars s =
     (if s = [] then []
      else (case fst (utf8_step s) of Some c \<Rightarrow> c | None \<Rightarrow> 65533) # chars (drop (snd (utf8_step s)) s))"
  by pat_completeness auto
termination
  by (relation "measure length") (use utf8_step_pos in auto)

declare chars.simps [simp del]

function valid_utf8 :: "string \<Rightarrow> bool" where
  "valid_utf8 s \<longleftrightarrow>
     (if s = [] then True
      else if fst (utf8_step s) = None then False
      else valid_utf8 (drop (snd (utf8_step s)) s))"
  by pat_completeness auto
termination
  by (relation "measure length") (use utf8_step_pos in auto)

declare valid_utf8.simps [simp del]

text \<open>\<open>String::from_utf8\<close> and \<open>String::from_utf8_lossy\<close>.\<close>

definition from_utf8 :: "string \<Rightarrow> string option" where
  "from_utf8 s = (if valid_utf8 s then Some s else None)"

definition from_utf8_lossy :: "string \<Rightarrow> string" where
  "from_utf8_lossy s = from_chars (chars s)"

section \<open>Decoding what was encoded\<close>

lemma byte_of_char_of: "n < 256 \<Longrightarrow> byte_of (char_of n) = n"
  by simp

lemma utf8_step_ascii: "b < 128 \<Longrightarrow> utf8_step (char_of b # r) = (Some b, 1)"
  by (simp add: utf8_step_def Let_def)

lemma utf8_step_enc:
  assumes "is_scalar c"
  shows "utf8_step (utf8_enc c @ r) = (Some c, length (utf8_enc c))"
proof -
  have m: "\<And>x::nat. x mod 64 < 64" by simp
  consider "c < 128" | "128 \<le> c \<and> c < 2048" | "2048 \<le> c \<and> c < 65536" | "65536 \<le> c"
    by linarith
  then show ?thesis
  proof cases
    case 1
    then show ?thesis by (simp add: utf8_enc_def utf8_step_ascii)
  next
    case 2
    define a where "a = c div 64"
    define b where "b = c mod 64"
    have c: "c = a * 64 + b" "b < 64" by (simp_all add: a_def b_def)
    then have "2 \<le> a" "a < 32" using 2 by linarith+
    with c show ?thesis using 2
      by (simp add: utf8_enc_def utf8_step_def Let_def second_ok_def is_cont_def
          flip: a_def b_def)
  next
    case 3
    define a where "a = c div 4096"
    define b where "b = c div 64 mod 64"
    define d where "d = c mod 64"
    have "c div 64 = a * 64 + b"
      unfolding a_def b_def using div_mult_mod_eq [of "c div 64" 64] by (simp add: div_mult2_eq [symmetric])
    moreover have "c = (c div 64) * 64 + d" unfolding d_def by simp
    ultimately have c: "c = a * 4096 + b * 64 + d" by linarith
    have bd: "b < 64" "d < 64" by (simp_all add: b_def d_def)
    have a: "a < 16" "0 < a \<or> 32 \<le> b" "a \<noteq> 13 \<or> b < 32"
      using c bd 3 assms by (auto simp: is_scalar_def)
    have enc: "utf8_enc c = [char_of (224 + a), char_of (128 + b), char_of (128 + d)]"
      using 3 by (simp add: utf8_enc_def a_def b_def d_def)
    have "byte_of (char_of (224 + a)) = 224 + a" "byte_of (char_of (128 + b)) = 128 + b"
      "byte_of (char_of (128 + d)) = 128 + d"
      using a bd by (auto intro: byte_of_char_of)
    then show ?thesis using a bd
      unfolding enc by (auto simp: utf8_step_def Let_def second_ok_def is_cont_def c)
  next
    case 4
    define a where "a = c div 262144"
    define b where "b = c div 4096 mod 64"
    define d where "d = c div 64 mod 64"
    define e where "e = c mod 64"
    have "c div 4096 = a * 64 + b"
      unfolding a_def b_def using div_mult_mod_eq [of "c div 4096" 64] by (simp add: div_mult2_eq [symmetric])
    moreover have "c div 64 = (c div 4096) * 64 + d"
      unfolding d_def using div_mult_mod_eq [of "c div 64" 64] by (simp add: div_mult2_eq [symmetric])
    moreover have "c = (c div 64) * 64 + e" unfolding e_def by simp
    ultimately have c: "c = a * 262144 + b * 4096 + d * 64 + e" by linarith
    have bde: "b < 64" "d < 64" "e < 64" by (simp_all add: b_def d_def e_def)
    have a: "a < 5" "0 < a \<or> 16 \<le> b" "a \<noteq> 4 \<or> b < 16"
      using c bde 4 assms by (auto simp: is_scalar_def)
    have enc: "utf8_enc c =
        [char_of (240 + a), char_of (128 + b), char_of (128 + d), char_of (128 + e)]"
      using 4 by (simp add: utf8_enc_def a_def b_def d_def e_def)
    have "byte_of (char_of (240 + a)) = 240 + a" "byte_of (char_of (128 + b)) = 128 + b"
      "byte_of (char_of (128 + d)) = 128 + d" "byte_of (char_of (128 + e)) = 128 + e"
      using a bde by (auto intro: byte_of_char_of)
    then show ?thesis using a bde
      unfolding enc by (auto simp: utf8_step_def Let_def second_ok_def is_cont_def c)
  qed
qed

lemma utf8_enc_not_Nil [simp]: "utf8_enc c \<noteq> []"
  by (simp add: utf8_enc_def)

lemma chars_Nil [simp]: "chars [] = []"
  by (simp add: chars.simps)

lemma chars_enc: "is_scalar c \<Longrightarrow> chars (utf8_enc c @ r) = c # chars r"
  by (subst chars.simps) (simp add: utf8_step_enc)

lemma chars_from_chars: "list_all is_scalar cs \<Longrightarrow> chars (from_chars cs) = cs"
  by (induction cs) (simp_all add: from_chars_def chars_enc)

lemma valid_utf8_from_chars: "list_all is_scalar cs \<Longrightarrow> valid_utf8 (from_chars cs)"
proof (induction cs)
  case Nil
  then show ?case by (simp add: from_chars_def valid_utf8.simps)
next
  case (Cons c cs)
  then show ?case
    by (subst valid_utf8.simps) (simp add: from_chars_def utf8_step_enc)
qed

lemma from_chars_Nil [simp]: "from_chars [] = []"
  by (simp add: from_chars_def)

lemma from_chars_Cons: "from_chars (c # cs) = utf8_enc c @ from_chars cs"
  by (simp add: from_chars_def)

lemma from_chars_append [simp]: "from_chars (a @ b) = from_chars a @ from_chars b"
  by (simp add: from_chars_def)


section \<open>Operations on characters\<close>

definition char_count :: "string \<Rightarrow> nat" where
  "char_count s = length (chars s)"

definition take_chars :: "nat \<Rightarrow> string \<Rightarrow> string" where
  "take_chars n s = from_chars (take n (chars s))"

definition is_control :: "nat \<Rightarrow> bool" where
  "is_control c \<longleftrightarrow> c < 32 \<or> 127 \<le> c \<and> c < 160"

text \<open>The Unicode property White_Space.\<close>

definition is_whitespace :: "nat \<Rightarrow> bool" where
  "is_whitespace c \<longleftrightarrow>
     9 \<le> c \<and> c \<le> 13 \<or> c = 32 \<or> c = 133 \<or> c = 160 \<or> c = 5760 \<or>
     8192 \<le> c \<and> c \<le> 8202 \<or> c = 8232 \<or> c = 8233 \<or> c = 8239 \<or> c = 8287 \<or> c = 12288"

definition trim :: "string \<Rightarrow> string" where
  "trim s = from_chars (rev (dropWhile is_whitespace (rev (dropWhile is_whitespace (chars s)))))"

fun words_acc :: "nat list \<Rightarrow> nat list \<Rightarrow> nat list list" where
  "words_acc acc [] = (if acc = [] then [] else [rev acc])"
| "words_acc acc (c # cs) =
     (if is_whitespace c
      then (if acc = [] then words_acc [] cs else rev acc # words_acc [] cs)
      else words_acc (c # acc) cs)"

definition split_whitespace :: "string \<Rightarrow> string list" where
  "split_whitespace s = map from_chars (words_acc [] (chars s))"

section \<open>ASCII strings\<close>

definition is_ascii :: "string \<Rightarrow> bool" where
  "is_ascii s \<longleftrightarrow> list_all (\<lambda>c. byte_of c < 128) s"

lemma is_ascii_simps [simp]:
  "is_ascii []" "is_ascii (c # s) \<longleftrightarrow> byte_of c < 128 \<and> is_ascii s"
  "is_ascii (a @ b) \<longleftrightarrow> is_ascii a \<and> is_ascii b"
  by (simp_all add: is_ascii_def)

lemma chars_Cons_ascii: "byte_of c < 128 \<Longrightarrow> chars (c # s) = byte_of c # chars s"
  by (subst chars.simps) (simp add: utf8_step_def)

lemma chars_ascii: "is_ascii s \<Longrightarrow> chars s = map byte_of s"
  by (induction s) (simp_all add: chars_Cons_ascii)

lemma valid_utf8_Cons_ascii: "byte_of c < 128 \<Longrightarrow> valid_utf8 (c # s) = valid_utf8 s"
  by (subst valid_utf8.simps) (simp add: utf8_step_def)

lemma valid_utf8_ascii: "is_ascii s \<Longrightarrow> valid_utf8 s"
proof (induction s)
  case Nil
  show ?case by (simp add: valid_utf8.simps)
next
  case (Cons c s)
  then show ?case by (simp add: valid_utf8_Cons_ascii)
qed

lemma from_chars_bytes: "is_ascii s \<Longrightarrow> from_chars (map byte_of s) = s"
  by (induction s) (simp_all add: from_chars_Cons utf8_enc_def)

lemma chars_append_ascii: "is_ascii a \<Longrightarrow> chars (a @ b) = map byte_of a @ chars b"
  by (induction a) (simp_all add: chars_Cons_ascii)

lemma is_ascii_subset: "\<lbrakk>is_ascii s; set t \<subseteq> set s\<rbrakk> \<Longrightarrow> is_ascii t"
  by (auto simp: is_ascii_def list_all_iff)

lemma is_ascii_dec [simp]: "is_ascii (dec n)"
  by (auto simp: is_ascii_def list_all_iff is_digit_def dest!: dec_digits)

lemma split_whitespace_no_space:
  "\<lbrakk>is_ascii s; s \<noteq> []; \<forall>c \<in> set s. \<not> is_whitespace (byte_of c)\<rbrakk> \<Longrightarrow> split_whitespace s = [s]"
proof -
  assume s: "is_ascii s" "s \<noteq> []" "\<forall>c \<in> set s. \<not> is_whitespace (byte_of c)"
  have "words_acc acc cs = (if rev acc @ cs = [] then [] else [rev acc @ cs])"
    if "\<forall>c \<in> set cs. \<not> is_whitespace c" for acc cs
    using that by (induction cs arbitrary: acc) auto
  from this [of "map byte_of s" "[]"] s show ?thesis
    by (simp add: split_whitespace_def chars_ascii from_chars_bytes)
qed

lemma dropWhile_no: "\<forall>c \<in> set s. \<not> P c \<Longrightarrow> dropWhile P s = s"
  by (cases s) auto

lemma trim_no_space:
  "\<lbrakk>is_ascii s; \<forall>c \<in> set s. \<not> is_whitespace (byte_of c)\<rbrakk> \<Longrightarrow> trim s = s"
  by (simp add: trim_def chars_ascii dropWhile_no from_chars_bytes)

text \<open>A byte outside ASCII never decodes to an ASCII character.\<close>

lemma utf8_step_nonascii:
  "128 \<le> byte_of c \<Longrightarrow> fst (utf8_step (c # s)) = Some v \<Longrightarrow> 128 \<le> v"
  by (auto simp: utf8_step_def Let_def second_ok_def split: list.splits if_splits)

lemma chars_ascii_iff: "list_all (\<lambda>c. c < 128) (chars s) \<longleftrightarrow> is_ascii s"
proof (induction s)
  case Nil
  show ?case by simp
next
  case (Cons c s)
  show ?case
  proof (cases "byte_of c < 128")
    case True
    with Cons show ?thesis by (simp add: chars_Cons_ascii)
  next
    case False
    then have "128 \<le> hd (chars (c # s))"
      using utf8_step_nonascii [of c s] by (subst chars.simps) (auto split: option.split)
    moreover have "chars (c # s) \<noteq> []" by (subst chars.simps) simp
    ultimately show ?thesis using False by (cases "chars (c # s)") auto
  qed
qed

section \<open>Lossy decoding keeps the ASCII bytes and adds none\<close>

lemma of_char_lt: "byte_of c < 256"
  using of_char_eq_iff [of c c] by (metis mod_less_divisor of_char_mod_256 zero_less_numeral)

lemma utf8_step_bound: "fst (utf8_step s) = Some v \<Longrightarrow> v < 2097152"
proof -
  have b: "byte_of c < 256" for c by (rule of_char_lt)
  show "fst (utf8_step s) = Some v \<Longrightarrow> v < 2097152"
    by (auto simp: utf8_step_def Let_def second_ok_def is_cont_def split: list.splits if_splits)
qed

lemma chars_bound: "c \<in> set (chars s) \<Longrightarrow> c < 2097152"
proof (induction s rule: chars.induct)
  case (1 s)
  show ?case
  proof (cases "s = []")
    case False
    then have "chars s = (case fst (utf8_step s) of Some c \<Rightarrow> c | None \<Rightarrow> 65533) # chars (drop (snd (utf8_step s)) s)"
      by (subst chars.simps) simp
    with 1 False utf8_step_bound [of s] show ?thesis by (auto split: option.splits)
  qed (use "1.prems" in simp)
qed

lemma chars_ascii_in: "c \<in> set (chars s) \<Longrightarrow> c < 128 \<Longrightarrow> char_of c \<in> set s"
proof (induction s rule: chars.induct)
  case (1 s)
  show ?case
  proof (cases s)
    case (Cons a t)
    then have e: "chars s = (case fst (utf8_step s) of Some c \<Rightarrow> c | None \<Rightarrow> 65533) # chars (drop (snd (utf8_step s)) s)"
      by (subst chars.simps) simp
    show ?thesis
    proof (cases "c \<in> set (chars (drop (snd (utf8_step s)) s))")
      case True
      with "1.IH" "1.prems"(2) Cons have "char_of c \<in> set (drop (snd (utf8_step s)) s)" by blast
      then show ?thesis by (rule in_set_dropD)
    next
      case False
      with "1.prems" e have c: "fst (utf8_step s) = Some c" by (auto split: option.splits)
      with "1.prems"(2) have "byte_of a < 128"
        using utf8_step_nonascii [of a t c] Cons by (cases "128 \<le> byte_of a") auto
      with c Cons have "c = byte_of a" by (simp add: utf8_step_def Let_def)
      then show ?thesis using Cons by simp
    qed
  qed (use "1.prems" in simp)
qed

lemma utf8_enc_ascii: "c < 2097152 \<Longrightarrow> b \<in> set (utf8_enc c) \<Longrightarrow> byte_of b < 128 \<Longrightarrow> c < 128 \<and> b = char_of c"
  by (auto simp: utf8_enc_def less_mult_imp_div_less split: if_splits)

lemma lossy_ascii:
  assumes "b \<in> set (from_utf8_lossy s)" "byte_of b < 128"
  shows "b \<in> set s"
proof -
  from assms(1) obtain c where c: "c \<in> set (chars s)" "b \<in> set (utf8_enc c)"
    by (auto simp: from_utf8_lossy_def from_chars_def)
  with utf8_enc_ascii [OF chars_bound [OF c(1)] c(2) assms(2)] show ?thesis
    using chars_ascii_in [OF c(1)] by auto
qed

lemma lossy_Nil [simp]: "from_utf8_lossy s = [] \<longleftrightarrow> s = []"
proof -
  have "chars s \<noteq> []" if "s \<noteq> []" using that by (subst chars.simps) simp
  then show ?thesis by (cases "chars s") (auto simp: from_utf8_lossy_def from_chars_Cons)
qed

lemma lossy_is_ascii: "is_ascii s \<Longrightarrow> from_utf8_lossy s = s"
  by (simp add: from_utf8_lossy_def chars_ascii from_chars_bytes)

lemma lossy_eq_ascii:
  assumes "from_utf8_lossy s = t" "is_ascii t"
  shows "s = t"
proof -
  have "is_ascii s"
  proof (rule ccontr)
    assume "\<not> is_ascii s"
    then obtain c where c: "c \<in> set (chars s)" "\<not> c < 128"
      using chars_ascii_iff [of s] by (auto simp: list_all_iff)
    obtain b where b: "b \<in> set (utf8_enc c)" by (cases "utf8_enc c") auto
    then have "b \<in> set t" using assms(1) c(1) by (auto simp: from_utf8_lossy_def from_chars_def)
    then have "byte_of b < 128" using assms(2) by (auto simp: is_ascii_def list_all_iff)
    from utf8_enc_ascii [OF chars_bound [OF c(1)] b this] c(2) show False by simp
  qed
  with assms(1) show ?thesis by (simp add: lossy_is_ascii)
qed

end
