(* ===== verification/Path.thy ===== *)
theory Path
  imports Prelude
begin

text \<open>
  The part of \<open>std::path\<close> the crates use.  A path is its string; \<open>join\<close> and
  \<open>parent\<close> follow the component rules of the Rust documentation (an absolute
  argument of \<open>join\<close> replaces the path; empty and \<open>.\<close> components do not count,
  except a leading \<open>.\<close> of a relative path).
\<close>

abbreviation slash :: char where
  "slash \<equiv> CHR ''/''"

definition is_absolute :: "string \<Rightarrow> bool" where
  "is_absolute p \<longleftrightarrow> starts_with [slash] p"

definition path_join :: "string \<Rightarrow> string \<Rightarrow> string" where
  "path_join p q =
     (if is_absolute q then q
      else if p = [] \<or> last p = slash then p @ q
      else p @ [slash] @ q)"

definition trim_parts :: "string list \<Rightarrow> string list" where
  "trim_parts ps = rev (dropWhile (\<lambda>c. c = [] \<or> c = ''.'') (rev ps))"

definition path_parts :: "string \<Rightarrow> string list" where
  "path_parts p =
     (let ps = split_on slash p in
      if is_absolute p then trim_parts (tl ps)
      else if hd ps = ''.'' then ''.'' # trim_parts (tl ps)
      else trim_parts ps)"

definition path_parent :: "string \<Rightarrow> string option" where
  "path_parent p =
     (let ps = path_parts p in
      if ps = [] then None
      else if is_absolute p then Some (slash # join_str [slash] (trim_parts (butlast ps)))
      else if hd ps = ''.'' \<and> tl ps \<noteq> [] then
        Some (join_str [slash] (''.'' # trim_parts (tl (butlast ps))))
      else Some (join_str [slash] (trim_parts (butlast ps))))"

definition file_name :: "string \<Rightarrow> string option" where
  "file_name p =
     (let ps = path_parts p in
      if ps = [] \<or> last ps = ''.'' \<or> last ps = ''..'' then None else Some (last ps))"

lemma path_join_rel: "p \<noteq> [] \<Longrightarrow> last p \<noteq> slash \<Longrightarrow> \<not> is_absolute q \<Longrightarrow> path_join p q = p @ [slash] @ q"
  by (simp add: path_join_def)

lemma is_absolute_Cons [simp]: "is_absolute (c # s) \<longleftrightarrow> c = slash" "\<not> is_absolute []"
  by (auto simp: is_absolute_def)

lemma not_absolute: "slash \<notin> set q \<Longrightarrow> \<not> is_absolute q"
  by (cases q) auto

text \<open>Joining two file names to one directory keeps them apart.\<close>

lemma path_join_inject:
  "\<lbrakk>\<not> is_absolute q; \<not> is_absolute r\<rbrakk> \<Longrightarrow> path_join p q = path_join p r \<longleftrightarrow> q = r"
  by (auto simp: path_join_def)

lemma path_join_not_Nil: "q \<noteq> [] \<Longrightarrow> path_join p q \<noteq> []"
  by (simp add: path_join_def)

lemma last_path_join: "q \<noteq> [] \<Longrightarrow> last (path_join p q) = last q"
  by (simp add: path_join_def)

lemma split_on_append_sep: "split_on d (a @ d # b) = split_on d a @ split_on d b"
  by (induction a) (auto split: list.splits)

text \<open>The parent of a file joined to a normal absolute directory is the directory.\<close>

lemma path_parent_join:
  assumes "d = slash # t" "trim_parts (split_on slash t) = split_on slash t"
    "q \<noteq> []" "slash \<notin> set q" "q \<noteq> ''.''" "last d \<noteq> slash"
  shows "path_parent (d @ [slash] @ q) = Some d"
proof -
  have s: "split_on slash (t @ slash # q) = split_on slash t @ [q]"
    using assms(4) by (simp add: split_on_append_sep split_on_no_sep)
  have "trim_parts (split_on slash t @ [q]) = split_on slash t @ [q]"
    using assms(3,5) by (simp add: trim_parts_def)
  with s show ?thesis
    using assms(1,2) by (simp add: path_parent_def path_parts_def Let_def join_split)
qed

end
