(* ===== verification/Table.thy ===== *)
theory Table
  imports Main "HOL-Library.AList"
begin

text \<open>
  The interface of the keyed tables the components rely on: the broker's table
  of running proxies, the daemon's view of the file system and of the guests it
  started, the label bar's outputs.  A client uses lookup, insertion and removal
  and the laws between them; the last group adds what enumeration returns.
\<close>

locale kv =
  fixes get :: "'s \<Rightarrow> 'k \<Rightarrow> 'v option"
    and put :: "'k \<Rightarrow> 'v \<Rightarrow> 's \<Rightarrow> 's"
    and del :: "'k \<Rightarrow> 's \<Rightarrow> 's"
  assumes get_put: "get (put k v s) k' = (if k' = k then Some v else get s k')"
    and get_del: "get (del k s) k' = (if k' = k then None else get s k')"
begin

definition all_in :: "('k \<Rightarrow> 'v \<Rightarrow> bool) \<Rightarrow> 's \<Rightarrow> bool" where
  "all_in P s \<longleftrightarrow> (\<forall>k v. get s k = Some v \<longrightarrow> P k v)"

definition domain :: "'s \<Rightarrow> 'k set" where
  "domain s = {k. get s k \<noteq> None}"

lemma all_inD: "all_in P s \<Longrightarrow> get s k = Some v \<Longrightarrow> P k v"
  by (auto simp: all_in_def)

lemma all_in_put: "all_in P s \<Longrightarrow> P k v \<Longrightarrow> all_in P (put k v s)"
  by (auto simp: all_in_def get_put)

lemma all_in_del: "all_in P s \<Longrightarrow> all_in P (del k s)"
  by (auto simp: all_in_def get_del)

lemma domain_put [simp]: "domain (put k v s) = insert k (domain s)"
  by (auto simp: domain_def get_put)

lemma domain_del [simp]: "domain (del k s) = domain s - {k}"
  by (auto simp: domain_def get_del)

lemma get_put_same [simp]: "get (put k v s) k = Some v"
  by (simp add: get_put)

lemma get_put_other: "k' \<noteq> k \<Longrightarrow> get (put k v s) k' = get s k'"
  by (simp add: get_put)

lemma get_del_same [simp]: "get (del k s) k = None"
  by (simp add: get_del)

lemma get_del_other: "k' \<noteq> k \<Longrightarrow> get (del k s) k' = get s k'"
  by (simp add: get_del)

lemma put_del: "get (put k v (del k s)) = get (put k v s)"
  by (rule ext) (simp add: get_put get_del)

lemma del_put: "get (del k (put k v s)) = get (del k s)"
  by (rule ext) (simp add: get_put get_del)

end

locale kv_enum = kv get put del
  for get :: "'s \<Rightarrow> 'k \<Rightarrow> 'v option" and put del +
  fixes entries :: "'s \<Rightarrow> ('k \<times> 'v) list"
    and wf :: "'s \<Rightarrow> bool"
  assumes entries_get: "wf s \<Longrightarrow> (k, v) \<in> set (entries s) \<longleftrightarrow> get s k = Some v"
    and wf_put: "wf s \<Longrightarrow> wf (put k v s)"
    and wf_del: "wf s \<Longrightarrow> wf (del k s)"
begin

lemma entries_all: "wf s \<Longrightarrow> (\<forall>(k, v) \<in> set (entries s). P k v) \<longleftrightarrow> all_in P s"
  by (auto simp: entries_get all_in_def)

lemma entries_put:
  "wf s \<Longrightarrow> (k', v') \<in> set (entries (put k v s)) \<longleftrightarrow>
     (if k' = k then v' = v else (k', v') \<in> set (entries s))"
  by (auto simp: entries_get wf_put get_put)

lemma entries_del:
  "wf s \<Longrightarrow> (k', v') \<in> set (entries (del k s)) \<longleftrightarrow> k' \<noteq> k \<and> (k', v') \<in> set (entries s)"
  by (auto simp: entries_get wf_del get_del)

lemma entries_domain: "wf s \<Longrightarrow> fst ` set (entries s) = domain s"
  using entries_get [of s] by (auto simp: domain_def image_iff Bex_def)

end

section \<open>Association lists provide it\<close>

definition al_get :: "('k \<times> 'v) list \<Rightarrow> 'k \<Rightarrow> 'v option" where
  "al_get = map_of"

definition al_put :: "'k \<Rightarrow> 'v \<Rightarrow> ('k \<times> 'v) list \<Rightarrow> ('k \<times> 'v) list" where
  "al_put k v t = AList.update k v t"

definition al_del :: "'k \<Rightarrow> ('k \<times> 'v) list \<Rightarrow> ('k \<times> 'v) list" where
  "al_del k t = AList.delete k t"

definition al_wf :: "('k \<times> 'v) list \<Rightarrow> bool" where
  "al_wf t \<longleftrightarrow> distinct (map fst t)"

interpretation al: kv_enum al_get al_put al_del id al_wf
proof
  show "al_get (al_put k v s) k' = (if k' = k then Some v else al_get s k')"
    for k and v :: 'v and s and k' :: 'k
    by (simp add: al_get_def al_put_def update_conv)
  show "al_get (al_del k s) k' = (if k' = k then None else al_get s k')"
    for k and s :: "('k \<times> 'v) list" and k' :: 'k
    by (simp add: al_get_def al_del_def delete_conv)
  show "al_wf s \<Longrightarrow> (k, v) \<in> set (id s) \<longleftrightarrow> al_get s k = Some v" for s and k :: 'k and v :: 'v
    by (auto simp: al_wf_def al_get_def)
  show "al_wf s \<Longrightarrow> al_wf (al_put k v s)" for s and k :: 'k and v :: 'v
    by (simp add: al_wf_def al_put_def distinct_update)
  show "al_wf s \<Longrightarrow> al_wf (al_del k s)" for s :: "('k \<times> 'v) list" and k :: 'k
    by (simp add: al_wf_def al_del_def distinct_delete)
qed

lemma al_wf_Nil [simp]: "al_wf []"
  by (simp add: al_wf_def)

lemma al_get_Nil [simp]: "al_get [] k = None"
  by (simp add: al_get_def)

lemma al_get_in: "al_get t k = Some v \<Longrightarrow> (k, v) \<in> set t"
  by (simp add: al_get_def map_of_SomeD)

lemma al_get_None: "al_get t k = None \<longleftrightarrow> k \<notin> fst ` set t"
  by (simp add: al_get_def map_of_eq_None_iff)

end
