(* ===== verification/World.thy ===== *)
theory World
  imports Utf8 Path Table "HOL-Library.Sublist"
begin

text \<open>
  The part of the operating system the daemon acts on, and the shape of its
  operations.  A daemon operation is a function from the world to a result and a
  new world; \<open>bnd\<close> is Rust's \<open>?\<close>, \<open>attempt\<close> keeps a \<open>Result\<close> as a value.

  Every operation that can fail in the real system takes one step of the clock
  \<open>now\<close> and fails when the schedule \<open>fault\<close> of the environment says so, or when
  its own precondition does not hold.  A theorem for all worlds is therefore a
  theorem for every combination of failures.  A failed write may leave anything
  in the file (\<open>junk\<close>), a failed removal of a tree may have removed any part of
  it (\<open>partial\<close>).  Looking whether a path exists does not fail.

  A path is the list of its components; \<open>..\<close> is a component like any other and
  symbolic links are followed nowhere except where the code reads them.
\<close>

type_synonym path = "string list"

definition path_of :: "string \<Rightarrow> path" where
  "path_of s = filter (\<lambda>c. c \<noteq> [] \<and> c \<noteq> ''.'') (split_on slash s)"

definition pjoin :: "path \<Rightarrow> string \<Rightarrow> path" where
  "pjoin p s = (if is_absolute s then path_of s else p @ path_of s)"

definition display :: "path \<Rightarrow> string" where
  "display p = (if p = [] then [slash] else concat (map (\<lambda>c. slash # c) p))"

text \<open>A disk image: the backing file, the LUKS passphrase, the size and what it was seeded from.\<close>

record volume =
  v_backing :: "path option"
  v_key :: "string option"
  v_size :: nat
  v_seed :: "path option"

datatype content = Bytes string | Volume volume

datatype kind = KDir | KFile content | KLink string | KSocket

record node =
  kind :: kind
  mode :: nat
  owner :: nat
  grp :: nat

record link =
  l_uid :: nat
  l_master :: "string option"
  l_isolated :: bool
  l_up :: bool

datatype progress = Waiting | BuildLine string

text \<open>A line of the ruleset given to \<open>nft -f -\<close>; \<open>nft\<close> skips the text of comments.\<close>

datatype nft_line = NftLine string | NftComment

text \<open>
  What a guest answers to one call of its agent: no connection, a stream of bytes
  and read errors, or a failed write of the request.
\<close>

datatype io_error = WouldBlock | TimedOut | OtherIo string

datatype transport = NoConnect io_error | ConnectTimeout | NoWrite io_error | Stream "char list"
  | StreamFails "char list" io_error

text \<open>The environment of a run: all the choices the daemon does not make.\<close>

record env =
  fault :: "nat \<Rightarrow> bool"
  junk :: "nat \<Rightarrow> string option"
  partial :: "nat \<Rightarrow> path \<Rightarrow> bool"
  exits :: "nat \<Rightarrow> bool"
  guest :: "nat \<Rightarrow> transport"
  random :: "nat \<Rightarrow> nat \<Rightarrow> nat"
  secs :: "nat \<Rightarrow> nat"
  console :: "nat \<Rightarrow> string"
  mtime :: "nat \<Rightarrow> nat option"
  umask_file :: nat
  umask_dir :: nat
  disk_len :: "nat \<Rightarrow> nat"

record world =
  env :: env
  now :: nat
  fs :: "(path \<times> node) list"
  links :: "(string \<times> link) list"
  nft :: "nft_line list option"
  procs :: "(nat \<times> string list) list"
  fresh_pid :: nat
  children :: "(string \<times> nat) list"
  sent :: "progress list"
  commands :: "string list list"

type_synonym ('e, 'a) m = "world \<Rightarrow> ('e + 'a) \<times> world"
type_synonym 'a io = "(unit, 'a) m"

definition ret :: "'a \<Rightarrow> ('e, 'a) m" where
  "ret x w = (Inr x, w)"

definition fail :: "'e \<Rightarrow> ('e, 'a) m" where
  "fail e w = (Inl e, w)"

definition bnd :: "('e, 'a) m \<Rightarrow> ('a \<Rightarrow> ('e, 'b) m) \<Rightarrow> ('e, 'b) m" where
  "bnd f k w = (case f w of (Inl e, w') \<Rightarrow> (Inl e, w') | (Inr x, w') \<Rightarrow> k x w')"

definition sq :: "('e, 'a) m \<Rightarrow> ('e, 'b) m \<Rightarrow> ('e, 'b) m" where
  "sq f g = bnd f (\<lambda>_. g)"

definition attempt :: "('e, 'a) m \<Rightarrow> ('f, 'e + 'a) m" where
  "attempt f w = (case f w of (r, w') \<Rightarrow> (Inr r, w'))"

text \<open>\<open>let _ = f\<close>.\<close>

definition ignore :: "('e, 'a) m \<Rightarrow> ('f, unit) m" where
  "ignore f w = (Inr (), snd (f w))"

definition map_err :: "('e \<Rightarrow> 'f) \<Rightarrow> ('e, 'a) m \<Rightarrow> ('f, 'a) m" where
  "map_err g f w = (case f w of (Inl e, w') \<Rightarrow> (Inl (g e), w') | (Inr x, w') \<Rightarrow> (Inr x, w'))"

definition ask :: "(world \<Rightarrow> 'a) \<Rightarrow> ('e, 'a) m" where
  "ask f w = (Inr (f w), w)"

definition tell :: "(world \<Rightarrow> world) \<Rightarrow> ('e, unit) m" where
  "tell f w = (Inr (), f w)"

definition guard :: "bool \<Rightarrow> 'e \<Rightarrow> ('e, unit) m" where
  "guard b e = (if b then ret () else fail e)"

definition of_result :: "'e + 'a \<Rightarrow> ('e, 'a) m" where
  "of_result r w = (r, w)"

fun each :: "('a \<Rightarrow> ('e, 'b) m) \<Rightarrow> 'a list \<Rightarrow> ('e, 'b list) m" where
  "each f [] = ret []"
| "each f (x # xs) = bnd (f x) (\<lambda>y. bnd (each f xs) (\<lambda>ys. ret (y # ys)))"

section \<open>System calls\<close>

definition tick :: "world \<Rightarrow> world" where
  "tick w = w\<lparr>now := now w + 1\<rparr>"

definition faulty :: "world \<Rightarrow> bool" where
  "faulty w \<longleftrightarrow> fault (env w) (now w)"

text \<open>
  A call with precondition \<open>c\<close>, effect \<open>f\<close>, and \<open>g\<close> for what a failure may leave.
\<close>

definition sys :: "(world \<Rightarrow> bool) \<Rightarrow> (world \<Rightarrow> world) \<Rightarrow> (world \<Rightarrow> world) \<Rightarrow> unit io" where
  "sys c f g w =
     (if \<not> c w then (Inl (), tick w)
      else if faulty w then (Inl (), tick (g w))
      else (Inr (), tick (f w)))"

definition query :: "(world \<Rightarrow> 'a option) \<Rightarrow> 'a io" where
  "query f w =
     (case f w of
        Some x \<Rightarrow> if faulty w then (Inl (), tick w) else (Inr x, tick w)
      | None \<Rightarrow> (Inl (), tick w))"

definition node_at :: "path \<Rightarrow> world \<Rightarrow> node option" where
  "node_at p w = al_get (fs w) p"

definition set_node :: "path \<Rightarrow> node \<Rightarrow> world \<Rightarrow> world" where
  "set_node p n w = w\<lparr>fs := al_put p n (fs w)\<rparr>"

definition del_node :: "path \<Rightarrow> world \<Rightarrow> world" where
  "del_node p w = w\<lparr>fs := al_del p (fs w)\<rparr>"

definition is_dir :: "path \<Rightarrow> world \<Rightarrow> bool" where
  "is_dir p w \<longleftrightarrow> p = [] \<or> (case node_at p w of Some n \<Rightarrow> kind n = KDir | None \<Rightarrow> False)"

definition is_file :: "path \<Rightarrow> world \<Rightarrow> bool" where
  "is_file p w \<longleftrightarrow>
     (case node_at p w of Some n \<Rightarrow> (case kind n of KFile _ \<Rightarrow> True | _ \<Rightarrow> False) | None \<Rightarrow> False)"

definition path_exists :: "path \<Rightarrow> world \<Rightarrow> bool" where
  "path_exists p w \<longleftrightarrow> p = [] \<or> node_at p w \<noteq> None"

definition file_len :: "path \<Rightarrow> world \<Rightarrow> nat option" where
  "file_len p w =
     map_option (\<lambda>n. case kind n of KFile (Bytes s) \<Rightarrow> length s | _ \<Rightarrow> disk_len (env w) (now w)) (node_at p w)"

definition bytes_at :: "path \<Rightarrow> world \<Rightarrow> string option" where
  "bytes_at p w =
     (case node_at p w of
        Some n \<Rightarrow> (case kind n of KFile (Bytes s) \<Rightarrow> Some s | _ \<Rightarrow> None)
      | None \<Rightarrow> None)"

definition link_target :: "path \<Rightarrow> world \<Rightarrow> string option" where
  "link_target p w =
     (case node_at p w of
        Some n \<Rightarrow> (case kind n of KLink s \<Rightarrow> Some s | _ \<Rightarrow> None)
      | None \<Rightarrow> None)"

text \<open>\<open>read_to_string\<close> and \<open>read\<close>.\<close>

definition read_to_string :: "path \<Rightarrow> string io" where
  "read_to_string p = query (\<lambda>w. Option.bind (bytes_at p w) from_utf8)"

definition read_bytes :: "path \<Rightarrow> string io" where
  "read_bytes p = query (bytes_at p)"

definition read_link :: "path \<Rightarrow> string io" where
  "read_link p = query (link_target p)"

text \<open>The names in a directory; their order means nothing.\<close>

definition names_in :: "path \<Rightarrow> world \<Rightarrow> string list" where
  "names_in d w = remdups (map last (filter (\<lambda>p. p \<noteq> [] \<and> butlast p = d) (map fst (fs w))))"

definition read_dir :: "path \<Rightarrow> string list io" where
  "read_dir d = query (\<lambda>w. if is_dir d w then Some (names_in d w) else None)"

definition new_dir :: "path \<Rightarrow> world \<Rightarrow> world" where
  "new_dir p w =
     (if path_exists p w then w
      else set_node p \<lparr>kind = KDir, mode = umask_dir (env w), owner = 0, grp = 0\<rparr> w)"

definition prefixes_of :: "path \<Rightarrow> path list" where
  "prefixes_of p = map (\<lambda>n. take n p) [1..<Suc (length p)]"

definition create_dir_all :: "path \<Rightarrow> unit io" where
  "create_dir_all p =
     sys (\<lambda>w. list_all (\<lambda>q. path_exists q w \<longrightarrow> is_dir q w) (prefixes_of p))
       (fold new_dir (prefixes_of p)) id"

definition put_content :: "path \<Rightarrow> content \<Rightarrow> world \<Rightarrow> world" where
  "put_content p c w =
     (case node_at p w of
        Some n \<Rightarrow> set_node p (n\<lparr>kind := KFile c\<rparr>) w
      | None \<Rightarrow> set_node p \<lparr>kind = KFile c, mode = umask_file (env w), owner = 0, grp = 0\<rparr> w)"

definition spoil :: "path \<Rightarrow> world \<Rightarrow> world" where
  "spoil p w = (case junk (env w) (now w) of None \<Rightarrow> w | Some s \<Rightarrow> put_content p (Bytes s) w)"

definition writable :: "path \<Rightarrow> world \<Rightarrow> bool" where
  "writable p w \<longleftrightarrow> p \<noteq> [] \<and> is_dir (butlast p) w \<and> \<not> is_dir p w"

definition write_file :: "path \<Rightarrow> content \<Rightarrow> unit io" where
  "write_file p c = sys (writable p) (put_content p c) (spoil p)"

definition change_node :: "path \<Rightarrow> (node \<Rightarrow> node) \<Rightarrow> world \<Rightarrow> world" where
  "change_node p f w = (case node_at p w of Some n \<Rightarrow> set_node p (f n) w | None \<Rightarrow> w)"

definition set_mode :: "path \<Rightarrow> nat \<Rightarrow> unit io" where
  "set_mode p k = sys (\<lambda>w. node_at p w \<noteq> None) (change_node p (\<lambda>n. n\<lparr>mode := k\<rparr>)) id"

definition chown :: "path \<Rightarrow> nat option \<Rightarrow> nat option \<Rightarrow> unit io" where
  "chown p u g =
     sys (\<lambda>w. node_at p w \<noteq> None)
       (change_node p (\<lambda>n. n\<lparr>owner := case_option (owner n) id u, grp := case_option (grp n) id g\<rparr>)) id"

definition remove_file :: "path \<Rightarrow> unit io" where
  "remove_file p = sys (\<lambda>w. node_at p w \<noteq> None \<and> \<not> is_dir p w) (del_node p) id"

text \<open>
  A removal that fails half way has removed some of the entries, a directory only
  after everything in it, and never the top directory, which goes last.
\<close>

definition all_gone :: "path \<Rightarrow> world \<Rightarrow> bool" where
  "all_gone q w \<longleftrightarrow> list_all (\<lambda>(r, _). prefix q r \<longrightarrow> partial (env w) (now w) r) (fs w)"

definition remove_dir_all :: "path \<Rightarrow> unit io" where
  "remove_dir_all d =
     sys (\<lambda>w. d \<noteq> [] \<and> is_dir d w)
       (\<lambda>w. w\<lparr>fs := filter (\<lambda>(q, _). \<not> prefix d q) (fs w)\<rparr>)
       (\<lambda>w. w\<lparr>fs := filter (\<lambda>(q, _). \<not> (strict_prefix d q \<and> all_gone q w)) (fs w)\<rparr>)"

text \<open>\<open>rename\<close> of a file, and of a directory onto a free name.\<close>

definition rename_file :: "path \<Rightarrow> path \<Rightarrow> unit io" where
  "rename_file p q =
     sys (\<lambda>w. is_file p w \<and> writable q w)
       (\<lambda>w. case node_at p w of Some n \<Rightarrow> set_node q n (del_node p w) | None \<Rightarrow> w) id"

definition move_key :: "path \<Rightarrow> path \<Rightarrow> path \<Rightarrow> path" where
  "move_key p q r = (if prefix p r then q @ drop (length p) r else r)"

definition rename_dir :: "path \<Rightarrow> path \<Rightarrow> unit io" where
  "rename_dir p q =
     sys (\<lambda>w. p \<noteq> [] \<and> is_dir p w \<and> writable q w \<and> \<not> path_exists q w \<and> \<not> prefix p q)
       (\<lambda>w. w\<lparr>fs := map (\<lambda>(r, n). (move_key p q r, n)) (fs w)\<rparr>) id"

definition symlink :: "string \<Rightarrow> path \<Rightarrow> unit io" where
  "symlink s p =
     sys (\<lambda>w. writable p w \<and> node_at p w = None)
       (set_node p \<lparr>kind = KLink s, mode = 511, owner = 0, grp = 0\<rparr>) id"

text \<open>Binding a listening Unix socket makes its node, which must not be there.\<close>

definition bind_socket :: "path \<Rightarrow> unit io" where
  "bind_socket p =
     sys (\<lambda>w. writable p w \<and> node_at p w = None)
       (\<lambda>w. set_node p \<lparr>kind = KSocket, mode = umask_dir (env w), owner = 0, grp = 0\<rparr> w) id"

text \<open>
  An external program: its argument vector is recorded, then it succeeds with its
  effect or fails.
\<close>

definition command :: "string list \<Rightarrow> (world \<Rightarrow> bool) \<Rightarrow> (world \<Rightarrow> world) \<Rightarrow> (world \<Rightarrow> world) \<Rightarrow> unit io" where
  "command argv c f g = sq (tell (\<lambda>w. w\<lparr>commands := commands w @ [argv]\<rparr>)) (sys c f g)"

end
