(* ===== verification/Calculus.thy ===== *)
theory Calculus
  imports World
begin

text \<open>
  Reasoning about daemon operations.  The locale \<open>step_rel\<close> is for statements
  that hold of every run of an operation whatever fails: a reflexive, transitive
  relation between the worlds before and after.  It is interpreted on the
  preservation of an invariant and on agreement on a set of paths.  \<open>hoare\<close> is
  for statements that depend on results.
\<close>

named_theorems frame_intros

locale step_rel =
  fixes R :: "world \<Rightarrow> world \<Rightarrow> bool"
  assumes R_refl: "R w w"
    and R_trans: "\<lbrakk>R w1 w2; R w2 w3\<rbrakk> \<Longrightarrow> R w1 w3"
begin

definition holds :: "('e, 'a) m \<Rightarrow> bool" where
  "holds f \<longleftrightarrow> (\<forall>w. R w (snd (f w)))"

lemma holdsD: "holds f \<Longrightarrow> f w = (r, w') \<Longrightarrow> R w w'"
  unfolding holds_def by (metis snd_conv)

lemma holds_ret: "holds (ret x)"
  by (simp add: holds_def ret_def R_refl)

lemma holds_fail: "holds (fail e)"
  by (simp add: holds_def fail_def R_refl)

lemma holds_ask: "holds (ask f)"
  by (simp add: holds_def ask_def R_refl)

lemma holds_guard: "holds (guard b e)"
  by (simp add: guard_def holds_ret holds_fail)

lemma holds_of_result: "holds (of_result r)"
  by (simp add: holds_def of_result_def R_refl)

lemma holds_bnd:
  assumes "holds f" "\<And>x. holds (k x)"
  shows "holds (bnd f k)"
  unfolding holds_def
proof
  fix w
  show "R w (snd (bnd f k w))"
  proof (cases "f w")
    case (Pair r w1)
    then have "R w w1" using assms(1) holdsD by blast
    then show ?thesis
      using Pair assms(2) R_trans by (cases r) (auto simp: bnd_def holds_def)
  qed
qed

text \<open>When the continuation matters only at the results the operation can have.\<close>

lemma holds_bnd_val:
  assumes "holds f" "\<And>x w w'. f w = (Inr x, w') \<Longrightarrow> holds (k x)"
  shows "holds (bnd f k)"
  unfolding holds_def
proof
  fix w
  show "R w (snd (bnd f k w))"
  proof (cases "f w")
    case (Pair r w1)
    then have r: "R w w1" using assms(1) holdsD by blast
    show ?thesis
    proof (cases r)
      case (Inl e)
      then show ?thesis using Pair r by (simp add: bnd_def)
    next
      case (Inr y)
      then have "holds (k y)" using assms(2) Pair by blast
      then show ?thesis using Pair Inr r R_trans by (auto simp: bnd_def holds_def)
    qed
  qed
qed

lemma holds_sq: "holds f \<Longrightarrow> holds g \<Longrightarrow> holds (sq f g)"
  by (simp add: sq_def holds_bnd)

lemma holds_attempt: "holds f \<Longrightarrow> holds (attempt f)"
  by (auto simp: holds_def attempt_def split: prod.split) (metis snd_conv)

lemma holds_ignore: "holds f \<Longrightarrow> holds (ignore f)"
  by (auto simp: holds_def ignore_def)

lemma holds_map_err: "holds f \<Longrightarrow> holds (map_err g f)"
  by (auto simp: holds_def map_err_def split: prod.split sum.split) (metis snd_conv)+

lemma holds_if: "(b \<Longrightarrow> holds f) \<Longrightarrow> (\<not> b \<Longrightarrow> holds g) \<Longrightarrow> holds (if b then f else g)"
  by simp

lemma holds_option: "(x = None \<Longrightarrow> holds f) \<Longrightarrow> (\<And>y. x = Some y \<Longrightarrow> holds (g y)) \<Longrightarrow> holds (case x of None \<Rightarrow> f | Some y \<Rightarrow> g y)"
  by (cases x) simp_all

lemma holds_sum: "(\<And>y. holds (f y)) \<Longrightarrow> (\<And>y. holds (g y)) \<Longrightarrow> holds (case x of Inl y \<Rightarrow> f y | Inr y \<Rightarrow> g y)"
  by (cases x) simp_all

lemma holds_prod: "(\<And>y z. holds (f y z)) \<Longrightarrow> holds (case x of (y, z) \<Rightarrow> f y z)"
  by (cases x) simp_all

lemma holds_bool: "(b \<Longrightarrow> holds f) \<Longrightarrow> (\<not> b \<Longrightarrow> holds g) \<Longrightarrow> holds (case b of True \<Rightarrow> f | False \<Rightarrow> g)"
  by (cases b) simp_all

lemma holds_list:
  "(xs = [] \<Longrightarrow> holds f) \<Longrightarrow> (\<And>y ys. xs = y # ys \<Longrightarrow> holds (g y ys)) \<Longrightarrow> holds (case xs of [] \<Rightarrow> f | y # ys \<Rightarrow> g y ys)"
  by (cases xs) simp_all

lemma holds_let: "(\<And>y. holds (f y)) \<Longrightarrow> holds (Let x f)"
  by simp

lemma holds_each: "(\<And>x. holds (f x)) \<Longrightarrow> holds (each f xs)"
  by (induction xs) (auto intro: holds_bnd holds_ret)

lemma holds_tell: "(\<And>w. R w (f w)) \<Longrightarrow> holds (tell f)"
  by (simp add: holds_def tell_def)

lemma holds_query: "(\<And>w. R w (tick w)) \<Longrightarrow> holds (query f)"
  by (auto simp: holds_def query_def split: option.split)

lemma holds_sys:
  "\<lbrakk>\<And>w. R w (tick w); \<And>w. c w \<Longrightarrow> R w (f w); \<And>w. c w \<Longrightarrow> R w (g w)\<rbrakk> \<Longrightarrow> holds (sys c f g)"
  unfolding holds_def sys_def by (auto intro: R_trans)

lemmas holds_intros =
  holds_ret holds_fail holds_ask holds_guard holds_of_result holds_bnd holds_sq holds_attempt
  holds_ignore holds_map_err holds_if holds_option holds_sum holds_prod holds_bool holds_list holds_let holds_each

end

section \<open>Agreement on a set of paths\<close>

definition same_at :: "path set \<Rightarrow> world \<Rightarrow> world \<Rightarrow> bool" where
  "same_at S w w' \<longleftrightarrow> (\<forall>p \<in> S. node_at p w' = node_at p w)"

interpretation same: step_rel "same_at S" for S
  by unfold_locales (auto simp: same_at_def)

text \<open>Preservation of an invariant.\<close>

definition keeps :: "(world \<Rightarrow> bool) \<Rightarrow> world \<Rightarrow> world \<Rightarrow> bool" where
  "keeps I w w' \<longleftrightarrow> (I w \<longrightarrow> I w')"

interpretation inv: step_rel "keeps I" for I
  by unfold_locales (auto simp: keeps_def)

section \<open>Looking at the file system after a call\<close>

lemma node_tick [simp]: "node_at p (tick w) = node_at p w"
  by (simp add: node_at_def tick_def)

lemma node_set [simp]: "node_at q (set_node p n w) = (if q = p then Some n else node_at q w)"
  by (simp add: node_at_def set_node_def al.get_put)

lemma node_del [simp]: "node_at q (del_node p w) = (if q = p then None else node_at q w)"
  by (simp add: node_at_def del_node_def al.get_del)

lemma node_new_dir:
  "node_at q (new_dir p w) =
     (if q = p \<and> \<not> path_exists p w
      then Some \<lparr>kind = KDir, mode = umask_dir (env w), owner = 0, grp = 0\<rparr> else node_at q w)"
  by (simp add: new_dir_def)

lemma node_change:
  "node_at q (change_node p f w) = (if q = p then map_option f (node_at q w) else node_at q w)"
  by (auto simp: change_node_def split: option.split)

lemma node_put_content_other: "q \<noteq> p \<Longrightarrow> node_at q (put_content p c w) = node_at q w"
  by (auto simp: put_content_def split: option.split)

lemma node_spoil_other: "q \<noteq> p \<Longrightarrow> node_at q (spoil p w) = node_at q w"
  by (auto simp: spoil_def node_put_content_other split: option.split)

lemma kind_put_content: "\<exists>n. node_at p (put_content p c w) = Some n \<and> kind n = KFile c"
  by (auto simp: put_content_def split: option.split)

lemma al_get_filter: "al_get (filter (\<lambda>(q, _). P q) t) k = (if P k then al_get t k else None)"
  by (induction t) (auto simp: al_get_def)

lemma node_fold_new_dir:
  "node_at q w \<noteq> None \<or> q \<notin> set ps \<Longrightarrow> node_at q (fold new_dir ps w) = node_at q w"
proof (induction ps arbitrary: w)
  case (Cons p ps)
  have "node_at q (new_dir p w) = node_at q w"
    using Cons.prems by (auto simp: node_new_dir path_exists_def)
  with Cons show ?case by auto
qed simp

lemma set_prefixes_of: "set (prefixes_of p) = {q. q \<noteq> [] \<and> prefix q p}"
proof -
  have "q \<in> set (prefixes_of p)" if "q \<noteq> []" "prefix q p" for q
  proof -
    from that have "q = take (length q) p" "1 \<le> length q" "length q < Suc (length p)"
      by (auto simp: prefix_def Suc_le_eq)
    then show ?thesis unfolding prefixes_of_def set_map set_upt by (metis atLeastLessThan_iff image_eqI)
  qed
  then show ?thesis by (auto simp: prefixes_of_def take_is_prefix)
qed

section \<open>What each call leaves alone\<close>

lemma fs_tick [simp]: "fs (tick w) = fs w"
  by (simp add: tick_def)

lemma same_tick: "same_at S w (tick w)"
  by (simp add: same_at_def)

lemma same_sys:
  "\<lbrakk>\<And>w. c w \<Longrightarrow> same_at S w (f w); \<And>w. c w \<Longrightarrow> same_at S w (g w)\<rbrakk> \<Longrightarrow> same.holds S (sys c f g)"
  by (rule same.holds_sys) (simp_all add: same_tick)

lemma same_id: "same_at S w (id w)"
  by (simp add: same_at_def)

lemma same_query [frame_intros]: "same.holds S (query f)"
  by (rule same.holds_query) (rule same_tick)

lemma same_reads [frame_intros]:
  "same.holds S (read_to_string p)" "same.holds S (read_bytes p)" "same.holds S (read_link p)"
  "same.holds S (read_dir p)"
  by (simp_all add: read_to_string_def read_bytes_def read_link_def read_dir_def same_query)

lemma same_put_content: "p \<notin> S \<Longrightarrow> same_at S w (put_content p c w)"
  unfolding same_at_def by (metis node_put_content_other)

lemma same_spoil: "p \<notin> S \<Longrightarrow> same_at S w (spoil p w)"
  unfolding same_at_def by (metis node_spoil_other)

lemma same_change: "p \<notin> S \<Longrightarrow> same_at S w (change_node p f w)"
  unfolding same_at_def by (metis node_change)

lemma same_del: "p \<notin> S \<Longrightarrow> same_at S w (del_node p w)"
  by (auto simp: same_at_def)

lemma same_set: "p \<notin> S \<Longrightarrow> same_at S w (set_node p n w)"
  by (auto simp: same_at_def)

lemma same_write [frame_intros]: "p \<notin> S \<Longrightarrow> same.holds S (write_file p c)"
  unfolding write_file_def by (intro same_sys same_put_content same_spoil)

lemma same_create_dir_all [frame_intros]:
  "(\<And>q. q \<in> S \<Longrightarrow> q \<noteq> [] \<Longrightarrow> \<not> prefix q p) \<Longrightarrow> same.holds S (create_dir_all p)"
  unfolding create_dir_all_def
  by (intro same_sys same_id) (auto simp: same_at_def set_prefixes_of intro!: node_fold_new_dir)

lemma same_set_mode [frame_intros]: "p \<notin> S \<Longrightarrow> same.holds S (set_mode p k)"
  unfolding set_mode_def by (intro same_sys same_change same_id)

lemma same_chown [frame_intros]: "p \<notin> S \<Longrightarrow> same.holds S (chown p u g)"
  unfolding chown_def by (intro same_sys same_change same_id)

lemma same_remove_file [frame_intros]: "p \<notin> S \<Longrightarrow> same.holds S (remove_file p)"
  unfolding remove_file_def by (intro same_sys same_del same_id)

lemma same_filter:
  "(\<And>q. q \<in> S \<Longrightarrow> P q) \<Longrightarrow> same_at S w (w\<lparr>fs := filter (\<lambda>(q, _). P q) (fs w)\<rparr>)"
  by (simp add: same_at_def node_at_def al_get_filter)

lemma same_remove_dir_all [frame_intros]:
  "(\<And>q. q \<in> S \<Longrightarrow> \<not> prefix d q) \<Longrightarrow> same.holds S (remove_dir_all d)"
  unfolding remove_dir_all_def by (intro same_sys same_filter) (auto simp: strict_prefix_def)

lemma same_rename_file [frame_intros]: "p \<notin> S \<Longrightarrow> q \<notin> S \<Longrightarrow> same.holds S (rename_file p q)"
  unfolding rename_file_def
  by (intro same_sys same_id) (auto simp: same_at_def split: option.split)

lemma same_symlink [frame_intros]: "p \<notin> S \<Longrightarrow> same.holds S (symlink s p)"
  unfolding symlink_def by (intro same_sys same_set same_id)

lemma same_rename_dir [frame_intros]:
  assumes "\<And>r. r \<in> S \<Longrightarrow> \<not> prefix p r \<and> \<not> prefix q r"
  shows "same.holds S (rename_dir p q)"
proof -
  have "map_of (map (\<lambda>(r, n). (move_key p q r, n)) t) s = map_of t s" if "s \<in> S" for t :: "(path \<times> node) list" and s
    using assms [OF that] by (induction t) (auto simp: move_key_def)
  then show ?thesis
    unfolding rename_dir_def
    by (intro same_sys same_id) (simp add: same_at_def node_at_def al_get_def)
qed

lemma same_fs: "fs w' = fs w \<Longrightarrow> same_at S w w'"
  by (simp add: same_at_def node_at_def)

lemma same_command [frame_intros]:
  "\<lbrakk>\<And>w. c w \<Longrightarrow> same_at S w (f w); \<And>w. c w \<Longrightarrow> same_at S w (g w)\<rbrakk> \<Longrightarrow> same.holds S (command argv c f g)"
  unfolding command_def
  by (intro same.holds_sq same.holds_tell same_sys) (simp_all add: same_fs)

section \<open>Triples\<close>

definition hoare :: "(world \<Rightarrow> bool) \<Rightarrow> ('e, 'a) m \<Rightarrow> ('a \<Rightarrow> world \<Rightarrow> bool) \<Rightarrow> ('e \<Rightarrow> world \<Rightarrow> bool) \<Rightarrow> bool" where
  "hoare P f Q E \<longleftrightarrow> (\<forall>w. P w \<longrightarrow> (case f w of (Inr x, w') \<Rightarrow> Q x w' | (Inl e, w') \<Rightarrow> E e w'))"

lemma hoare_ret: "(\<And>w. P w \<Longrightarrow> Q x w) \<Longrightarrow> hoare P (ret x) Q E"
  by (simp add: hoare_def ret_def)

lemma hoare_fail: "(\<And>w. P w \<Longrightarrow> E e w) \<Longrightarrow> hoare P (fail e) Q E"
  by (simp add: hoare_def fail_def)

lemma hoare_bnd: "hoare P f R E \<Longrightarrow> (\<And>x. hoare (R x) (k x) Q E) \<Longrightarrow> hoare P (bnd f k) Q E"
  by (fastforce simp: hoare_def bnd_def split: prod.splits sum.splits)

lemma hoare_pre: "hoare P f Q E \<Longrightarrow> (\<And>w. P' w \<Longrightarrow> P w) \<Longrightarrow> hoare P' f Q E"
  by (simp add: hoare_def)

lemma hoare_post:
  "hoare P f Q E \<Longrightarrow> (\<And>x w. Q x w \<Longrightarrow> Q' x w) \<Longrightarrow> (\<And>e w. E e w \<Longrightarrow> E' e w) \<Longrightarrow> hoare P f Q' E'"
  by (fastforce simp: hoare_def split: prod.splits sum.splits)

lemma hoare_ask: "(\<And>w. P w \<Longrightarrow> Q (f w) w) \<Longrightarrow> hoare P (ask f) Q E"
  by (simp add: hoare_def ask_def)

lemma hoareD: "hoare P f Q E \<Longrightarrow> P w \<Longrightarrow> f w = (Inr x, w') \<Longrightarrow> Q x w'"
  by (force simp: hoare_def)

lemma hoare_same:
  assumes "same.holds S f" "\<And>w w'. same_at S w w' \<Longrightarrow> P w \<Longrightarrow> P w'"
  shows "hoare P f (\<lambda>_. P) (\<lambda>_. P)"
  using assms by (fastforce simp: hoare_def same.holds_def split: prod.split sum.split)

lemma hoare_sq: "hoare P f (\<lambda>_. R) E \<Longrightarrow> hoare R g Q E \<Longrightarrow> hoare P (sq f g) Q E"
  unfolding sq_def by (rule hoare_bnd)

lemma hoare_if: "(b \<Longrightarrow> hoare P f Q E) \<Longrightarrow> (\<not> b \<Longrightarrow> hoare P g Q E) \<Longrightarrow> hoare P (if b then f else g) Q E"
  by simp

lemma hoare_guard: "(\<And>w. P w \<Longrightarrow> b \<Longrightarrow> Q () w) \<Longrightarrow> (\<And>w. P w \<Longrightarrow> E e w) \<Longrightarrow> hoare P (guard b e) Q E"
  by (simp add: guard_def hoare_ret hoare_fail)

lemma hoare_option:
  "(x = None \<Longrightarrow> hoare P f Q E) \<Longrightarrow> (\<And>y. x = Some y \<Longrightarrow> hoare P (g y) Q E) \<Longrightarrow>
   hoare P (case x of None \<Rightarrow> f | Some y \<Rightarrow> g y) Q E"
  by (cases x) simp_all

lemma hoare_sum:
  "(\<And>y. x = Inl y \<Longrightarrow> hoare P (f y) Q E) \<Longrightarrow> (\<And>y. x = Inr y \<Longrightarrow> hoare P (g y) Q E) \<Longrightarrow>
   hoare P (case x of Inl y \<Rightarrow> f y | Inr y \<Rightarrow> g y) Q E"
  by (cases x) simp_all

lemma hoare_prod: "(\<And>y z. x = (y, z) \<Longrightarrow> hoare P (f y z) Q E) \<Longrightarrow> hoare P (case x of (y, z) \<Rightarrow> f y z) Q E"
  by (cases x) simp_all

lemma hoare_map_err: "hoare P f Q (\<lambda>e. E (g e)) \<Longrightarrow> hoare P (map_err g f) Q E"
  by (fastforce simp: hoare_def map_err_def split: prod.splits sum.splits)

lemma hoare_attempt:
  "hoare P f (\<lambda>x. Q (Inr x)) (\<lambda>e. Q (Inl e)) \<Longrightarrow> hoare P (attempt f) Q E"
  unfolding hoare_def attempt_def
  by (intro allI impI, rename_tac w, case_tac "f w", rename_tac r w', case_tac r) fastforce+

lemma hoare_ignore: "hoare P f (\<lambda>_. Q ()) (\<lambda>_. Q ()) \<Longrightarrow> hoare P (ignore f) Q E"
  unfolding hoare_def ignore_def
  by (intro allI impI, rename_tac w, case_tac "f w", rename_tac r w', case_tac r) fastforce+

text \<open>Operations that only look: the clock moves, nothing else does.\<close>

definition time_only :: "world \<Rightarrow> world \<Rightarrow> bool" where
  "time_only w w' \<longleftrightarrow> (\<exists>n. w' = w\<lparr>now := n\<rparr>)"

interpretation looks: step_rel time_only
proof
  show "time_only w w" for w
    unfolding time_only_def by (rule exI [of _ "now w"]) simp
  show "time_only w1 w2 \<Longrightarrow> time_only w2 w3 \<Longrightarrow> time_only w1 w3" for w1 w2 w3
    by (auto simp: time_only_def)
qed

lemma time_tick: "time_only w (tick w)"
  by (auto simp: time_only_def tick_def)

lemma time_simps [simp]:
  assumes "time_only w w'"
  shows "node_at p w' = node_at p w" "fs w' = fs w" "links w' = links w" "procs w' = procs w"
    "children w' = children w" "env w' = env w" "nft w' = nft w" "sent w' = sent w"
    "commands w' = commands w" "fresh_pid w' = fresh_pid w"
  using assms by (auto simp: time_only_def node_at_def)

lemma time_same: "time_only w w' \<Longrightarrow> same_at S w w'"
  by (simp add: same_at_def)

lemma looks_query [frame_intros]: "looks.holds (query f)"
  by (rule looks.holds_query) (rule time_tick)

lemma looks_reads [frame_intros]:
  "looks.holds (read_to_string p)" "looks.holds (read_bytes p)" "looks.holds (read_link p)"
  "looks.holds (read_dir p)"
  by (simp_all add: read_to_string_def read_bytes_def read_link_def read_dir_def looks_query)

lemma looks_same: "looks.holds f \<Longrightarrow> same.holds S f"
  by (simp add: looks.holds_def same.holds_def time_same)

lemma query_Inr: "query f w = (Inr y, w') \<Longrightarrow> f w = Some y \<and> time_only w w'"
  by (auto simp: query_def time_tick split: option.splits if_splits)

lemma time_bytes: "time_only w w' \<Longrightarrow> bytes_at p w' = bytes_at p w"
  by (simp add: bytes_at_def)

lemma time_is:
  "time_only w w' \<Longrightarrow> is_file p w' = is_file p w" "time_only w w' \<Longrightarrow> is_dir p w' = is_dir p w"
  "time_only w w' \<Longrightarrow> path_exists p w' = path_exists p w"
  by (simp_all add: is_file_def is_dir_def path_exists_def)

lemma bnd_Inr:
  "bnd f k w = (Inr y, w'') \<longleftrightarrow> (\<exists>x w'. f w = (Inr x, w') \<and> k x w' = (Inr y, w''))"
  by (auto simp: bnd_def split: prod.splits sum.splits)

lemma bnd_Inl:
  "bnd f k w = (Inl e, w'') \<longleftrightarrow>
     f w = (Inl e, w'') \<or> (\<exists>x w'. f w = (Inr x, w') \<and> k x w' = (Inl e, w''))"
  by (auto simp: bnd_def split: prod.splits sum.splits)

end
