(* ===== verification/DaemonLib.thy ===== *)
theory DaemonLib
  imports Utf8
begin

text \<open>
  \<open>components/daemon/src/lib.rs\<close>: the names a space's network side is derived
  from, and the two lookups in the host's account files.  The contents of a file
  are an argument, \<open>None\<close> when it cannot be read as UTF-8.
\<close>

definition space_tap :: "nat \<Rightarrow> string" where
  "space_tap cid = ''tap-space-'' @ dec cid"

definition space_mac :: "nat \<Rightarrow> string" where
  "space_mac cid = ''52:54:00:6d:59:'' @ hex02 cid"

definition space_ipv4 :: "nat \<Rightarrow> string" where
  "space_ipv4 cid = ''10.59.0.'' @ dec cid"

datatype lookup_error = NotRead | BadLine string | NotNumber string | NotFound

fun find_group :: "string \<Rightarrow> string list \<Rightarrow> lookup_error + nat" where
  "find_group name [] = Inl NotFound"
| "find_group name (line # ls) =
     (case split_on (CHR '':'') line of
        f # flds \<Rightarrow>
          if f \<noteq> name then find_group name ls
          else (case flds of
              _ # gid # _ \<Rightarrow>
                (case parse_u32 gid of Some n \<Rightarrow> Inr n | None \<Rightarrow> Inl (NotNumber gid))
            | _ \<Rightarrow> Inl (BadLine line))
      | [] \<Rightarrow> find_group name ls)"

definition lookup_gid :: "string option \<Rightarrow> string \<Rightarrow> lookup_error + nat" where
  "lookup_gid src name = (case src of None \<Rightarrow> Inl NotRead | Some s \<Rightarrow> find_group name (lines s))"

record PasswdEntry =
  pw_gid :: nat
  pw_home :: string

fun find_passwd :: "string \<Rightarrow> string list \<Rightarrow> lookup_error + PasswdEntry" where
  "find_passwd uid_str [] = Inl NotFound"
| "find_passwd uid_str (line # ls) =
     (case split_on (CHR '':'') line of
        _ # _ # u # flds \<Rightarrow>
          if u \<noteq> uid_str then find_passwd uid_str ls
          else (case flds of
              [] \<Rightarrow> Inl (BadLine line)
            | gid # rest \<Rightarrow>
                (case parse_u32 gid of
                   None \<Rightarrow> Inl (NotNumber gid)
                 | Some n \<Rightarrow>
                     (case rest of
                        _ # home # _ \<Rightarrow> Inr \<lparr>pw_gid = n, pw_home = home\<rparr>
                      | _ \<Rightarrow> Inl (BadLine line))))
      | _ \<Rightarrow> find_passwd uid_str ls)"

definition lookup_passwd_entry :: "string option \<Rightarrow> nat \<Rightarrow> lookup_error + PasswdEntry" where
  "lookup_passwd_entry src uid =
     (case src of None \<Rightarrow> Inl NotRead | Some s \<Rightarrow> find_passwd (dec uid) (lines s))"

section \<open>The names are distinct\<close>

lemma space_tap_inject [simp]: "space_tap a = space_tap b \<longleftrightarrow> a = b"
  by (simp add: space_tap_def dec_inject)

lemma space_ipv4_inject [simp]: "space_ipv4 a = space_ipv4 b \<longleftrightarrow> a = b"
  by (simp add: space_ipv4_def dec_inject)

lemma hex_digit_inject: "a < 16 \<Longrightarrow> b < 16 \<Longrightarrow> hex_digit a = hex_digit b \<longleftrightarrow> a = b"
  by (auto simp: hex_digit_def split: if_splits)

lemma zero_char: "CHR ''0'' = char_of (48 :: nat)"
proof -
  have "of_char (CHR ''0'') = (48 :: nat)" by simp
  then show ?thesis by (metis char_of_char)
qed

lemma hex02_eq: "n \<le> 255 \<Longrightarrow> hex02 n = [hex_digit (n div 16), hex_digit (n mod 16)]"
  using zero_char by (cases "n < 16") (simp_all add: hex02_def hex.simps hex_digit_def Let_def)

lemma hex02_inject:
  assumes "a \<le> 255" "b \<le> 255"
  shows "hex02 a = hex02 b \<longleftrightarrow> a = b"
proof
  assume "hex02 a = hex02 b"
  with assms have "a div 16 = b div 16" "a mod 16 = b mod 16"
    by (simp_all add: hex02_eq hex_digit_inject less_mult_imp_div_less)
  then show "a = b" by (metis div_mult_mod_eq)
qed simp

lemma space_mac_inject: "a \<le> 255 \<Longrightarrow> b \<le> 255 \<Longrightarrow> space_mac a = space_mac b \<longleftrightarrow> a = b"
  by (simp add: space_mac_def hex02_inject)

lemma space_mac_length: "cid \<le> 255 \<Longrightarrow> length (space_mac cid) = 17"
  by (simp add: space_mac_def hex02_eq)

end
