(* ===== verification/Config.thy ===== *)
theory Config
  imports Utf8
begin

text \<open>
  \<open>lib/config/src/lib.rs\<close>: the space registry the broker reads, its
  validation, the slug predicate every identifier of the system goes through,
  and the two names derived from a space id (window title prefix and Wayland
  security context).  \<open>basic_toml\<close> is a parameter of \<open>registry_parse\<close>.
\<close>

section \<open>Slugs\<close>

definition is_ascii_lowercase :: "nat \<Rightarrow> bool" where
  "is_ascii_lowercase c \<longleftrightarrow> 97 \<le> c \<and> c \<le> 122"

definition is_ascii_digit :: "nat \<Rightarrow> bool" where
  "is_ascii_digit c \<longleftrightarrow> 48 \<le> c \<and> c \<le> 57"

definition is_safe_slug :: "string \<Rightarrow> bool" where
  "is_safe_slug s \<longleftrightarrow>
     s \<noteq> [] \<and> length s \<le> 32 \<and>
     list_all (\<lambda>c. is_ascii_lowercase c \<or> is_ascii_digit c \<or> c = 45) (chars s)"

definition slug_byte :: "char \<Rightarrow> bool" where
  "slug_byte c \<longleftrightarrow>
     is_ascii_lowercase (byte_of c) \<or> is_ascii_digit (byte_of c) \<or> byte_of c = 45"

lemma slug_ascii: "is_safe_slug s \<Longrightarrow> is_ascii s"
  by (auto simp: is_safe_slug_def is_ascii_lowercase_def is_ascii_digit_def list_all_iff
      simp flip: chars_ascii_iff)

lemma slug_byte_ascii: "slug_byte c \<Longrightarrow> byte_of c < 128"
  by (auto simp: slug_byte_def is_ascii_lowercase_def is_ascii_digit_def)

lemma slug_bytes: "is_safe_slug s \<longleftrightarrow> s \<noteq> [] \<and> length s \<le> 32 \<and> list_all slug_byte s"
proof (cases "is_ascii s")
  case True
  then show ?thesis
    by (simp add: is_safe_slug_def chars_ascii list.pred_map o_def slug_byte_def [abs_def])
next
  case False
  moreover have "list_all slug_byte s \<Longrightarrow> is_ascii s"
    unfolding is_ascii_def by (erule list.pred_mono_strong) (rule slug_byte_ascii)
  ultimately show ?thesis using slug_ascii [of s] by blast
qed

lemma slug_byte_safe:
  "slug_byte c \<Longrightarrow> c \<notin> {CHR ''/'', CHR ''.'', CHR '']'', CHR ''['', CHR '':'', CHR '' '', CHR 0x0A, CHR 0x00}"
  by (auto simp: slug_byte_def is_ascii_lowercase_def is_ascii_digit_def)

lemma slug_no_char: "\<lbrakk>is_safe_slug s; \<not> slug_byte c\<rbrakk> \<Longrightarrow> c \<notin> set s"
  by (auto simp: slug_bytes list_all_iff)

section \<open>The registry\<close>

record space =
  sp_id :: string
  sp_cid :: nat
  sp_label :: string
  sp_color :: string

datatype registry_error =
    NotASlug string
  | ReservedCid nat
  | DuplicateCid nat
  | DuplicateId string
  | BadToml

definition RESERVED_CIDS :: "nat list" where
  "RESERVED_CIDS = [0, 1, 2]"

definition title_prefix :: "space \<Rightarrow> string" where
  "title_prefix s = ''[space:'' @ sp_id s @ ''] ''"

definition secctx_id :: "space \<Rightarrow> string" where
  "secctx_id s = ''org.miyorios.space.'' @ sp_id s"

fun validate_from :: "nat set \<Rightarrow> string set \<Rightarrow> space list \<Rightarrow> registry_error + unit" where
  "validate_from seen_cid seen_id [] = Inr ()"
| "validate_from seen_cid seen_id (s # ss) =
     (if \<not> is_safe_slug (sp_id s) then Inl (NotASlug (sp_id s))
      else if sp_cid s \<in> set RESERVED_CIDS then Inl (ReservedCid (sp_cid s))
      else if sp_cid s \<in> seen_cid then Inl (DuplicateCid (sp_cid s))
      else if sp_id s \<in> seen_id then Inl (DuplicateId (sp_id s))
      else validate_from (insert (sp_cid s) seen_cid) (insert (sp_id s) seen_id) ss)"

definition registry_validate :: "space list \<Rightarrow> registry_error + unit" where
  "registry_validate ss = validate_from {} {} ss"

text \<open>\<open>Registry::parse\<close>; \<open>toml\<close> is \<open>basic_toml::from_str::<Registry>\<close>.\<close>

definition registry_parse :: "(string \<Rightarrow> space list option) \<Rightarrow> string \<Rightarrow> registry_error + space list" where
  "registry_parse toml src =
     (case toml src of
        None \<Rightarrow> Inl BadToml
      | Some ss \<Rightarrow> (case registry_validate ss of Inl e \<Rightarrow> Inl e | Inr _ \<Rightarrow> Inr ss))"

definition by_cid :: "space list \<Rightarrow> nat \<Rightarrow> space option" where
  "by_cid ss cid = find (\<lambda>s. sp_cid s = cid) ss"

text \<open>What validation accepts, as a property of the list.\<close>

definition registry_ok :: "space list \<Rightarrow> bool" where
  "registry_ok ss \<longleftrightarrow>
     list_all (\<lambda>s. is_safe_slug (sp_id s) \<and> 3 \<le> sp_cid s) ss \<and>
     distinct (map sp_cid ss) \<and> distinct (map sp_id ss)"

lemma validate_from_ok:
  "validate_from C I ss = Inr () \<longleftrightarrow>
     registry_ok ss \<and> C \<inter> sp_cid ` set ss = {} \<and> I \<inter> sp_id ` set ss = {}"
proof (induction ss arbitrary: C I)
  case Nil
  show ?case by (simp add: registry_ok_def)
next
  case (Cons s ss)
  have "sp_cid s \<in> set RESERVED_CIDS \<longleftrightarrow> \<not> 3 \<le> sp_cid s"
    by (auto simp: RESERVED_CIDS_def)
  then show ?case by (auto simp: Cons registry_ok_def)
qed

lemma find_SomeI:
  "\<lbrakk>x \<in> set xs; distinct (map f xs)\<rbrakk> \<Longrightarrow> find (\<lambda>y. f y = f x) xs = Some x"
  by (induction xs) (auto simp: image_iff)

lemma find_Some_in: "find P xs = Some x \<Longrightarrow> x \<in> set xs \<and> P x"
  by (auto simp: find_Some_iff)

text \<open>
  Validation accepts exactly the registries in which every id is a safe
  slug, no CID is one of the kernel's 0 to 2, and neither a CID nor an id
  occurs twice.
\<close>

theorem registry_validate_iff: "registry_validate ss = Inr () \<longleftrightarrow> registry_ok ss"
  by (simp add: registry_validate_def validate_from_ok)

lemma by_cid_unique:
  "\<lbrakk>registry_ok ss; s \<in> set ss\<rbrakk> \<Longrightarrow> by_cid ss (sp_cid s) = Some s"
  by (auto simp: by_cid_def registry_ok_def intro: find_SomeI)

lemma by_cid_in: "by_cid ss c = Some s \<Longrightarrow> s \<in> set ss \<and> sp_cid s = c"
  unfolding by_cid_def by (drule find_Some_in) simp

lemma secctx_id_inj: "secctx_id a = secctx_id b \<longleftrightarrow> sp_id a = sp_id b"
  by (simp add: secctx_id_def)

lemma title_prefix_inj: "title_prefix a = title_prefix b \<longleftrightarrow> sp_id a = sp_id b"
  by (simp add: title_prefix_def)

end
