(* ===== verification/Profile.thy ===== *)
theory Profile
  imports Config
begin

text \<open>
  \<open>lib/profile\<close>: the image manifest, its validation, and \<open>export-env\<close>, whose
  output the build script evaluates.  \<open>basic_toml\<close> is the parameter \<open>toml\<close> of
  \<open>manifest_parse\<close>.  An unsigned field is a natural number below its width.
\<close>

definition BUILDERS :: "string list" where
  "BUILDERS = [''mmdebstrap'']"

definition MODES :: "string list" where
  "MODES = [''app'', ''session'']"

definition LEVELS :: "string list" where
  "LEVELS = [''standard'', ''reduced'']"

definition GPUS :: "string list" where
  "GPUS = [''none'', ''virtio-gpu-venus'']"

record Keyring =
  k_path :: string
  k_sha256 :: string

record Blob =
  b_path :: string
  b_sha256 :: string
  b_into :: string
  b_strip :: nat

record MFile =
  f_path :: string
  f_sha256 :: string
  f_into :: string
  f_mode :: string

record Base =
  builder :: string
  suite :: string
  sources :: "string list"
  packages :: "string list"
  firmware_include :: "string list"
  keyring :: "Keyring option"
  blob :: "Blob list"
  mfile :: "MFile list"

record App =
  app_mode :: string
  app_command :: string

record Resources =
  memory_mb :: nat
  cpus :: nat
  disk_gb :: nat
  data_mb :: nat

record Isolation =
  level :: string
  gpu :: string
  reason :: string

record Manifest =
  m_id :: string
  description :: string
  base :: Base
  app :: App
  resources :: Resources
  isolation :: Isolation
  via :: string

datatype manifest_error =
    MBadToml
  | MBadId string
  | MControlChar string
  | MBadBuilder string
  | MBadSuite string
  | MNoPackages
  | MNoSources
  | MBadSource string
  | MBadFirmware string
  | MBadMode string
  | MRelativeCommand string
  | MBadLevel string
  | MBadGpu string
  | MGpuNeedsReduced string
  | MReducedNeedsReason
  | MBadVia string
  | MResourcesTooSmall
  | MBadSha256 string
  | MRelativeInto string
  | MDotDotInto string
  | MBadFileMode string

definition check :: "bool \<Rightarrow> manifest_error \<Rightarrow> manifest_error + unit" where
  "check b e = (if b then Inr () else Inl e)"

text \<open>The checks of \<open>validate\<close> run in order and the first failure is returned.\<close>

fun first_error :: "(manifest_error + unit) list \<Rightarrow> manifest_error + unit" where
  "first_error [] = Inr ()"
| "first_error (c # cs) = (case c of Inl e \<Rightarrow> Inl e | Inr _ \<Rightarrow> first_error cs)"

definition is_firmware_slug :: "string \<Rightarrow> bool" where
  "is_firmware_slug s \<longleftrightarrow>
     s \<noteq> [] \<and>
     list_all (\<lambda>c. is_ascii_lowercase c \<or> is_ascii_digit c \<or> c = 95 \<or> c = 45) (chars s)"

definition check_no_control :: "string \<Rightarrow> string \<Rightarrow> manifest_error + unit" where
  "check_no_control value field =
     check (\<not> list_ex is_control (chars value)) (MControlChar field)"

definition cp_hexdigit :: "nat \<Rightarrow> bool" where
  "cp_hexdigit c \<longleftrightarrow> 48 \<le> c \<and> c \<le> 57 \<or> 65 \<le> c \<and> c \<le> 70 \<or> 97 \<le> c \<and> c \<le> 102"

definition check_sha256 :: "string \<Rightarrow> string \<Rightarrow> manifest_error + unit" where
  "check_sha256 value what =
     check (length value = 64 \<and> list_all cp_hexdigit (chars value)) (MBadSha256 what)"

definition check_mode :: "string \<Rightarrow> string \<Rightarrow> manifest_error + unit" where
  "check_mode value what =
     check (length value = 4 \<and> list_all (\<lambda>c. 48 \<le> c \<and> c \<le> 55) (chars value)) (MBadFileMode what)"

definition indexed :: "string \<Rightarrow> nat \<Rightarrow> string" where
  "indexed name i = name @ ''['' @ dec i @ '']''"

definition check_into :: "string \<Rightarrow> string \<Rightarrow> (manifest_error + unit) list" where
  "check_into into what =
     [check (starts_with ''/'' into) (MRelativeInto what),
      check (''..'' \<notin> set (split_on (CHR ''/'') into)) (MDotDotInto what)]"

text \<open>The control-character block of \<open>validate\<close>.\<close>

definition control_checks :: "Manifest \<Rightarrow> (manifest_error + unit) list" where
  "control_checks m =
     [check_no_control (description m) ''description'',
      check_no_control (builder (base m)) ''base.builder'',
      check_no_control (suite (base m)) ''base.suite''] @
     map (\<lambda>(i, s). check_no_control s (indexed ''sources'' i)) (enumerate 0 (sources (base m))) @
     map (\<lambda>(i, p). check_no_control p (indexed ''packages'' i)) (enumerate 0 (packages (base m))) @
     (case keyring (base m) of None \<Rightarrow> [] | Some k \<Rightarrow> [check_no_control (k_path k) ''keyring.path'']) @
     concat (map (\<lambda>(i, b). [check_no_control (b_path b) (indexed ''blob'' i @ ''.path''),
                             check_no_control (b_into b) (indexed ''blob'' i @ ''.into'')])
       (enumerate 0 (blob (base m)))) @
     concat (map (\<lambda>(i, f). [check_no_control (f_path f) (indexed ''file'' i @ ''.path''),
                             check_no_control (f_into f) (indexed ''file'' i @ ''.into'')])
       (enumerate 0 (mfile (base m)))) @
     [check_no_control (app_mode (app m)) ''app.mode'',
      check_no_control (app_command (app m)) ''app.command'',
      check_no_control (level (isolation m)) ''isolation.level'',
      check_no_control (gpu (isolation m)) ''isolation.gpu'',
      check_no_control (reason (isolation m)) ''isolation.reason'',
      check_no_control (via m) ''network.via'']"

text \<open>The checks after it.\<close>

definition content_checks :: "Manifest \<Rightarrow> (manifest_error + unit) list" where
  "content_checks m =
     [check (builder (base m) \<in> set BUILDERS) (MBadBuilder (builder (base m))),
      check (is_safe_slug (suite (base m))) (MBadSuite (suite (base m))),
      check (packages (base m) \<noteq> []) MNoPackages,
      check (sources (base m) \<noteq> []) MNoSources] @
     map (\<lambda>l. check (starts_with ''deb '' l \<and> contains_sub l ''://'') (MBadSource l)) (sources (base m)) @
     map (\<lambda>f. check (is_firmware_slug f) (MBadFirmware f)) (firmware_include (base m)) @
     [check (app_mode (app m) \<in> set MODES) (MBadMode (app_mode (app m))),
      check (starts_with ''/'' (app_command (app m))) (MRelativeCommand (app_command (app m))),
      check (level (isolation m) \<in> set LEVELS) (MBadLevel (level (isolation m))),
      check (gpu (isolation m) \<in> set GPUS) (MBadGpu (gpu (isolation m))),
      check (\<not> (gpu (isolation m) \<noteq> ''none'' \<and> level (isolation m) \<noteq> ''reduced''))
        (MGpuNeedsReduced (gpu (isolation m))),
      check (\<not> (level (isolation m) = ''reduced'' \<and> trim (reason (isolation m)) = []))
        MReducedNeedsReason,
      check (via m = ''miyori-net'') (MBadVia (via m)),
      check (\<not> (memory_mb (resources m) < 256 \<or> cpus (resources m) < 1 \<or> disk_gb (resources m) < 1))
        MResourcesTooSmall] @
     (case keyring (base m) of None \<Rightarrow> [] | Some k \<Rightarrow> [check_sha256 (k_sha256 k) ''keyring'']) @
     concat (map (\<lambda>b. check_sha256 (b_sha256 b) (b_path b) # check_into (b_into b) (b_path b))
       (blob (base m))) @
     concat (map (\<lambda>f. (check_sha256 (f_sha256 f) (f_path f) # check_into (f_into f) (f_path f)) @
         [check_mode (f_mode f) (f_path f)])
       (mfile (base m)))"

definition manifest_validate :: "Manifest \<Rightarrow> manifest_error + unit" where
  "manifest_validate m =
     first_error (check (is_safe_slug (m_id m)) (MBadId (m_id m)) # control_checks m @ content_checks m)"

definition manifest_parse :: "(string \<Rightarrow> Manifest option) \<Rightarrow> string \<Rightarrow> manifest_error + Manifest" where
  "manifest_parse toml src =
     (case toml src of
        None \<Rightarrow> Inl MBadToml
      | Some m \<Rightarrow> (case manifest_validate m of Inl e \<Rightarrow> Inl e | Inr _ \<Rightarrow> Inr m))"

section \<open>What validation guarantees\<close>

definition clean :: "string \<Rightarrow> bool" where
  "clean s \<longleftrightarrow> \<not> list_ex is_control (chars s)"

definition into_ok :: "string \<Rightarrow> bool" where
  "into_ok p \<longleftrightarrow> starts_with ''/'' p \<and> ''..'' \<notin> set (split_on (CHR ''/'') p)"

definition sha_ok :: "string \<Rightarrow> bool" where
  "sha_ok s \<longleftrightarrow> length s = 64 \<and> list_all cp_hexdigit (chars s)"

definition mode_ok :: "string \<Rightarrow> bool" where
  "mode_ok s \<longleftrightarrow> length s = 4 \<and> list_all (\<lambda>c. 48 \<le> c \<and> c \<le> 55) (chars s)"

definition isolation_ok :: "Manifest \<Rightarrow> bool" where
  "isolation_ok m \<longleftrightarrow>
     level (isolation m) \<in> set LEVELS \<and> gpu (isolation m) \<in> set GPUS \<and>
     (gpu (isolation m) = ''none'' \<or> level (isolation m) = ''reduced'') \<and>
     (level (isolation m) = ''standard'' \<or> trim (reason (isolation m)) \<noteq> []) \<and>
     via m = ''miyori-net''"

definition base_ok :: "Base \<Rightarrow> bool" where
  "base_ok b \<longleftrightarrow>
     builder b \<in> set BUILDERS \<and> is_safe_slug (suite b) \<and> packages b \<noteq> [] \<and> sources b \<noteq> [] \<and>
     list_all (\<lambda>l. starts_with ''deb '' l \<and> contains_sub l ''://'' \<and> clean l) (sources b) \<and>
     list_all clean (packages b) \<and> list_all is_firmware_slug (firmware_include b) \<and>
     (case keyring b of None \<Rightarrow> True | Some k \<Rightarrow> clean (k_path k) \<and> sha_ok (k_sha256 k)) \<and>
     list_all (\<lambda>x. clean (b_path x) \<and> clean (b_into x) \<and> sha_ok (b_sha256 x) \<and> into_ok (b_into x)) (blob b) \<and>
     list_all (\<lambda>x. clean (f_path x) \<and> clean (f_into x) \<and> sha_ok (f_sha256 x) \<and> into_ok (f_into x) \<and>
       mode_ok (f_mode x)) (mfile b)"

definition manifest_ok :: "Manifest \<Rightarrow> bool" where
  "manifest_ok m \<longleftrightarrow>
     is_safe_slug (m_id m) \<and> clean (description m) \<and> base_ok (base m) \<and>
     app_mode (app m) \<in> set MODES \<and> starts_with ''/'' (app_command (app m)) \<and> clean (app_command (app m)) \<and>
     isolation_ok m \<and> clean (reason (isolation m)) \<and>
     256 \<le> memory_mb (resources m) \<and> 1 \<le> cpus (resources m) \<and> 1 \<le> disk_gb (resources m)"

definition all_ok :: "(manifest_error + unit) list \<Rightarrow> bool" where
  "all_ok cs \<longleftrightarrow> list_all (\<lambda>c. c = Inr ()) cs"

lemma all_ok_simps [simp]:
  "all_ok []" "all_ok (c # cs) \<longleftrightarrow> c = Inr () \<and> all_ok cs" "all_ok (a @ b) \<longleftrightarrow> all_ok a \<and> all_ok b"
  by (simp_all add: all_ok_def)

lemma all_ok_map [simp]: "all_ok (map f xs) \<longleftrightarrow> list_all (\<lambda>x. f x = Inr ()) xs"
  by (simp add: all_ok_def list_all_iff)

lemma all_ok_concat_map [simp]: "all_ok (concat (map f xs)) \<longleftrightarrow> list_all (\<lambda>x. all_ok (f x)) xs"
  by (induction xs) simp_all

lemma first_error_ok: "first_error cs = Inr () \<longleftrightarrow> all_ok cs"
  by (induction cs) (auto split: sum.splits)

lemma check_ok [simp]: "check b e = Inr () \<longleftrightarrow> b"
  by (simp add: check_def)

lemma check_no_control_ok [simp]: "check_no_control s f = Inr () \<longleftrightarrow> clean s"
  by (simp add: check_no_control_def clean_def)

lemma check_sha256_ok [simp]: "check_sha256 s f = Inr () \<longleftrightarrow> sha_ok s"
  by (simp add: check_sha256_def sha_ok_def)

lemma check_mode_ok [simp]: "check_mode s f = Inr () \<longleftrightarrow> mode_ok s"
  by (simp add: check_mode_def mode_ok_def)

lemma check_into_ok [simp]: "all_ok (check_into s f) \<longleftrightarrow> into_ok s"
  by (simp add: check_into_def into_ok_def)

lemma list_all_enumerate: "list_all (\<lambda>x. P (snd x)) (enumerate n xs) \<longleftrightarrow> list_all P xs"
  by (induction xs arbitrary: n) auto

lemma all_ok_option [simp]:
  "all_ok (case x of None \<Rightarrow> [] | Some k \<Rightarrow> [f k]) \<longleftrightarrow> (case x of None \<Rightarrow> True | Some k \<Rightarrow> f k = Inr ())"
  by (cases x) simp_all

lemma control_checks_ok:
  "all_ok (control_checks m) \<longleftrightarrow>
     clean (description m) \<and> clean (builder (base m)) \<and> clean (suite (base m)) \<and>
     list_all clean (sources (base m)) \<and> list_all clean (packages (base m)) \<and>
     (case keyring (base m) of None \<Rightarrow> True | Some k \<Rightarrow> clean (k_path k)) \<and>
     list_all (\<lambda>b. clean (b_path b) \<and> clean (b_into b)) (blob (base m)) \<and>
     list_all (\<lambda>b. clean (f_path b) \<and> clean (f_into b)) (mfile (base m)) \<and>
     clean (app_mode (app m)) \<and> clean (app_command (app m)) \<and> clean (level (isolation m)) \<and>
     clean (gpu (isolation m)) \<and> clean (reason (isolation m)) \<and> clean (via m)"
  unfolding control_checks_def
  by (simp add: case_prod_unfold list_all_enumerate [of clean]
      list_all_enumerate [of "\<lambda>b. clean (b_path b) \<and> clean (b_into b)"]
      list_all_enumerate [of "\<lambda>b. clean (f_path b) \<and> clean (f_into b)"] cong: option.case_cong)

lemma content_checks_ok:
  "all_ok (content_checks m) \<longleftrightarrow>
     builder (base m) \<in> set BUILDERS \<and> is_safe_slug (suite (base m)) \<and>
     packages (base m) \<noteq> [] \<and> sources (base m) \<noteq> [] \<and>
     list_all (\<lambda>l. starts_with ''deb '' l \<and> contains_sub l ''://'') (sources (base m)) \<and>
     list_all is_firmware_slug (firmware_include (base m)) \<and>
     app_mode (app m) \<in> set MODES \<and> starts_with ''/'' (app_command (app m)) \<and>
     level (isolation m) \<in> set LEVELS \<and> gpu (isolation m) \<in> set GPUS \<and>
     \<not> (gpu (isolation m) \<noteq> ''none'' \<and> level (isolation m) \<noteq> ''reduced'') \<and>
     \<not> (level (isolation m) = ''reduced'' \<and> trim (reason (isolation m)) = []) \<and>
     via m = ''miyori-net'' \<and>
     \<not> (memory_mb (resources m) < 256 \<or> cpus (resources m) < 1 \<or> disk_gb (resources m) < 1) \<and>
     (case keyring (base m) of None \<Rightarrow> True | Some k \<Rightarrow> sha_ok (k_sha256 k)) \<and>
     list_all (\<lambda>b. sha_ok (b_sha256 b) \<and> into_ok (b_into b)) (blob (base m)) \<and>
     list_all (\<lambda>b. sha_ok (f_sha256 b) \<and> into_ok (f_into b) \<and> mode_ok (f_mode b)) (mfile (base m))"
  unfolding content_checks_def
  by (simp only: all_ok_simps all_ok_map all_ok_concat_map all_ok_option check_ok check_into_ok
      check_sha256_ok check_mode_ok conj_assoc simp_thms)

lemma ascii_clean: "is_ascii s \<Longrightarrow> clean s \<longleftrightarrow> list_all (\<lambda>c. \<not> is_control (byte_of c)) s"
  by (simp add: clean_def chars_ascii list_ex_iff list_all_iff)

lemma slug_clean: "is_safe_slug s \<Longrightarrow> clean s"
  using slug_ascii [of s]
  by (auto simp: ascii_clean slug_bytes list_all_iff slug_byte_def is_control_def
      is_ascii_lowercase_def is_ascii_digit_def)

lemma literal_clean: "s \<in> set (BUILDERS @ MODES @ LEVELS @ GPUS @ [''miyori-net'']) \<Longrightarrow> clean s"
  by (auto simp: BUILDERS_def MODES_def LEVELS_def GPUS_def ascii_clean is_control_def)

lemma list_all_conj: "list_all (\<lambda>x. P x \<and> Q x) xs \<longleftrightarrow> list_all P xs \<and> list_all Q xs"
  by (induction xs) auto

lemma case_option_conj:
  "(case x of None \<Rightarrow> True | Some k \<Rightarrow> P k \<and> Q k) \<longleftrightarrow>
     (case x of None \<Rightarrow> True | Some k \<Rightarrow> P k) \<and> (case x of None \<Rightarrow> True | Some k \<Rightarrow> Q k)"
  by (cases x) auto

lemma manifest_validate_ok: "manifest_validate m = Inr () \<longleftrightarrow> manifest_ok m"
proof -
  have "manifest_validate m = Inr () \<longleftrightarrow>
      is_safe_slug (m_id m) \<and> all_ok (control_checks m) \<and> all_ok (content_checks m)"
    by (simp add: manifest_validate_def first_error_ok del: first_error.simps)
  also have "\<dots> \<longleftrightarrow> manifest_ok m" (is "?l \<longleftrightarrow> ?r")
  proof
    assume ?l
    then show ?r
      unfolding control_checks_ok content_checks_ok manifest_ok_def base_ok_def isolation_ok_def
        list_all_conj case_option_conj not_less not_not de_Morgan_conj de_Morgan_disj
      by (elim conjE, intro conjI) (assumption | auto simp: LEVELS_def)+
  next
    assume ok: ?r
    then have "clean (suite (base m))" "clean (builder (base m))" "clean (app_mode (app m))"
        "clean (level (isolation m))" "clean (gpu (isolation m))" "clean (via m)"
      unfolding manifest_ok_def base_ok_def isolation_ok_def
      by (simp_all add: slug_clean literal_clean)
    with ok show ?l
      unfolding control_checks_ok content_checks_ok manifest_ok_def base_ok_def isolation_ok_def
        list_all_conj case_option_conj not_less not_not de_Morgan_conj de_Morgan_disj
      by (elim conjE, intro conjI) (assumption | auto)+
  qed
  finally show ?thesis .
qed

text \<open>
  A manifest is accepted exactly when every field satisfies its rule.  In
  particular the host's graphics stack goes only to a profile that declares
  itself \<open>reduced\<close> and gives a reason to show, the only way out is
  \<open>miyori-net\<close>, every digest is 64 hex digits, and no unpacking target is
  relative or has a \<open>..\<close> component.
\<close>

theorem manifest_validate_iff: "manifest_validate m = Inr () \<longleftrightarrow> manifest_ok m"
  by (rule manifest_validate_ok)

lemma manifest_parse_ok: "manifest_parse toml src = Inr m \<Longrightarrow> manifest_ok m"
  using manifest_validate_ok [of m]
  by (auto simp: manifest_parse_def split: option.splits sum.splits)

end
