(* ===== verification/Ids.thy ===== *)
theory Ids
  imports Config
begin

text \<open>
  \<open>lib/proto/src/ids.rs\<close>: the three newtypes of the control protocol.  Each is
  built only by its \<open>new\<close>, which \<open>Deserialize\<close> calls too, so a value that came
  off the wire has passed the same check.
\<close>

datatype SpaceId = SpaceId (id_str: string)
datatype Color = Color (color_str: string)
datatype Label = Label (label_str: string)

datatype id_error = UnsafeSlug string | BadColor string | UnsafeLabel string

instantiation SpaceId :: linorder
begin

definition less_eq_SpaceId :: "SpaceId \<Rightarrow> SpaceId \<Rightarrow> bool" where
  "a \<le> b \<longleftrightarrow> id_str a \<le> id_str b"

definition less_SpaceId :: "SpaceId \<Rightarrow> SpaceId \<Rightarrow> bool" where
  "a < b \<longleftrightarrow> id_str a < id_str b"

instance
  by intro_classes (auto simp: less_eq_SpaceId_def less_SpaceId_def SpaceId.expand)

end

definition SpaceId_new :: "string \<Rightarrow> id_error + SpaceId" where
  "SpaceId_new s = (if is_safe_slug s then Inr (SpaceId s) else Inl (UnsafeSlug s))"

definition is_hexdigit :: "char \<Rightarrow> bool" where
  "is_hexdigit c \<longleftrightarrow>
     48 \<le> byte_of c \<and> byte_of c \<le> 57 \<or> 65 \<le> byte_of c \<and> byte_of c \<le> 70 \<or>
     97 \<le> byte_of c \<and> byte_of c \<le> 102"

definition is_rrggbb :: "string \<Rightarrow> bool" where
  "is_rrggbb s \<longleftrightarrow> length s = 7 \<and> s ! 0 = CHR ''#'' \<and> list_all is_hexdigit (drop 1 s)"

definition Color_new :: "string \<Rightarrow> id_error + Color" where
  "Color_new s = (if is_rrggbb s then Inr (Color s) else Inl (BadColor s))"

definition Label_new :: "string \<Rightarrow> id_error + Label" where
  "Label_new s = (if is_safe_slug s then Inr (Label s) else Inl (UnsafeLabel s))"

text \<open>Values of the newtypes that their constructor can have produced.\<close>

definition id_ok :: "SpaceId \<Rightarrow> bool" where
  "id_ok i \<longleftrightarrow> is_safe_slug (id_str i)"

definition color_ok :: "Color \<Rightarrow> bool" where
  "color_ok c \<longleftrightarrow> is_rrggbb (color_str c)"

definition label_ok :: "Label \<Rightarrow> bool" where
  "label_ok l \<longleftrightarrow> is_safe_slug (label_str l)"

lemma SpaceId_new_Inr [simp]: "SpaceId_new s = Inr i \<longleftrightarrow> i = SpaceId s \<and> id_ok i"
  by (auto simp: SpaceId_new_def id_ok_def)

lemma Color_new_Inr [simp]: "Color_new s = Inr i \<longleftrightarrow> i = Color s \<and> color_ok i"
  by (auto simp: Color_new_def color_ok_def)

lemma Label_new_Inr [simp]: "Label_new s = Inr i \<longleftrightarrow> i = Label s \<and> label_ok i"
  by (auto simp: Label_new_def label_ok_def)

lemma id_str_inject: "id_str a = id_str b \<longleftrightarrow> a = b"
  by (cases a; cases b) simp

text \<open>
  A slug is a single path component: no separator, no dot, no NUL; joining it to
  a directory stays in that directory.
\<close>

lemma id_no_slash: "id_ok i \<Longrightarrow> CHR ''/'' \<notin> set (id_str i)"
  using slug_byte_safe [of "CHR ''/''"] slug_no_char [of "id_str i" "CHR ''/''"] by (auto simp: id_ok_def)

lemma id_no_dot: "id_ok i \<Longrightarrow> CHR ''.'' \<notin> set (id_str i)"
  using slug_byte_safe [of "CHR ''.''"] slug_no_char [of "id_str i" "CHR ''.''"] by (auto simp: id_ok_def)

lemma id_not_Nil: "id_ok i \<Longrightarrow> id_str i \<noteq> []"
  by (simp add: id_ok_def is_safe_slug_def)

end
