(* ===== verification/Json.thy ===== *)
theory Json
  imports Main
begin

text \<open>
  \<open>serde_json::Value\<close> as the crates use it.  A value is the tree the text
  denotes; an object keeps its members in text order, duplicates included,
  because \<open>read_request\<close> looks at the text twice: \<open>Value::get\<close> sees the last of
  several equal keys (\<open>jget\<close>), the derived deserialisers see them all.
  The text-level parser and printer of \<open>serde_json\<close> are parameters of the
  definitions that use them.
\<close>

datatype num = PosInt nat | NegInt int | Float string

datatype json =
    JNull
  | JBool bool
  | JNum num
  | JStr string
  | JArr "json list"
  | JObj "(string \<times> json) list"

definition jget :: "string \<Rightarrow> json \<Rightarrow> json option" where
  "jget k v = (case v of JObj kvs \<Rightarrow> map_of (rev kvs) k | _ \<Rightarrow> None)"

definition as_str :: "json \<Rightarrow> string option" where
  "as_str v = (case v of JStr s \<Rightarrow> Some s | _ \<Rightarrow> None)"

definition as_bool :: "json \<Rightarrow> bool option" where
  "as_bool v = (case v of JBool b \<Rightarrow> Some b | _ \<Rightarrow> None)"

definition as_u64 :: "json \<Rightarrow> nat option" where
  "as_u64 v = (case v of JNum (PosInt n) \<Rightarrow> Some n | _ \<Rightarrow> None)"

definition as_i64 :: "json \<Rightarrow> int option" where
  "as_i64 v =
     (case v of
        JNum (PosInt n) \<Rightarrow> if n < 9223372036854775808 then Some (int n) else None
      | JNum (NegInt i) \<Rightarrow> Some i
      | _ \<Rightarrow> None)"

definition as_array :: "json \<Rightarrow> json list option" where
  "as_array v = (case v of JArr xs \<Rightarrow> Some xs | _ \<Rightarrow> None)"

definition is_object :: "json \<Rightarrow> bool" where
  "is_object v = (case v of JObj _ \<Rightarrow> True | _ \<Rightarrow> False)"

definition jopt :: "('a \<Rightarrow> json) \<Rightarrow> 'a option \<Rightarrow> json" where
  "jopt f x = (case x of None \<Rightarrow> JNull | Some y \<Rightarrow> f y)"

abbreviation jnat :: "nat \<Rightarrow> json" where
  "jnat n \<equiv> JNum (PosInt n)"

lemma jget_obj [simp]: "jget k (JObj kvs) = map_of (rev kvs) k"
  by (simp add: jget_def)

lemma jget_other [simp]:
  "jget k JNull = None" "jget k (JBool b) = None" "jget k (JNum n) = None"
  "jget k (JStr s) = None" "jget k (JArr xs) = None"
  by (simp_all add: jget_def)

lemma as_str_simps [simp]:
  "as_str (JStr s) = Some s" "as_str JNull = None" "as_str (JBool b) = None"
  "as_str (JNum n) = None" "as_str (JArr xs) = None" "as_str (JObj kvs) = None"
  by (simp_all add: as_str_def)

lemma as_str_Some: "as_str v = Some s \<longleftrightarrow> v = JStr s"
  by (cases v) (auto simp: as_str_def)

lemma as_bool_simps [simp]:
  "as_bool (JBool b) = Some b" "as_bool JNull = None" "as_bool (JStr s) = None"
  "as_bool (JNum n) = None" "as_bool (JArr xs) = None" "as_bool (JObj kvs) = None"
  by (simp_all add: as_bool_def)

lemma as_bool_Some: "as_bool v = Some b \<longleftrightarrow> v = JBool b"
  by (cases v) (auto simp: as_bool_def)

lemma as_array_simps [simp]:
  "as_array (JArr xs) = Some xs" "as_array JNull = None" "as_array (JBool b) = None"
  "as_array (JStr s) = None" "as_array (JNum n) = None" "as_array (JObj kvs) = None"
  by (simp_all add: as_array_def)

lemma as_u64_simps [simp]: "as_u64 (jnat n) = Some n" "as_u64 JNull = None" "as_u64 (JStr s) = None"
  by (simp_all add: as_u64_def)

lemma jopt_simps [simp]: "jopt f None = JNull" "jopt f (Some x) = f x"
  by (simp_all add: jopt_def)

end
