(* ===== verification/Store.thy ===== *)
theory Store
  imports Calculus DaemonLib Profile Ids Json
begin

text \<open>
  \<open>components/daemon/src/store.rs\<close>: the spaces the daemon knows, one directory
  with a \<open>config.toml\<close> each.  There is no other copy of that state: every
  operation loads the store from the disk.  \<open>basic_toml\<close> and the text parser of
  \<open>serde_json\<close> are the record \<open>libs\<close>;
  what the derived \<open>Deserialize\<close> of \<open>SpaceConfig\<close> adds to it (the validating
  newtypes of \<open>proto\<close>) is \<open>config_of_raw\<close>.
\<close>

record raw_config =
  r_id :: string
  r_profile :: string
  r_digest :: string
  r_cid :: nat
  r_uid :: nat
  r_label :: string
  r_color :: string
  r_created :: string
  r_clean :: "bool option"
  r_encrypted :: bool

record libs =
  toml_config :: "string \<Rightarrow> raw_config option"
  print_config :: "raw_config \<Rightarrow> string"
  toml_manifest :: "string \<Rightarrow> Manifest option"
  toml_registry :: "string \<Rightarrow> space list option"
  print_registry :: "space list \<Rightarrow> string"
  json_parse :: "string \<Rightarrow> json option"

record SpaceConfig =
  c_id :: SpaceId
  c_profile :: SpaceId
  c_digest :: string
  c_cid :: nat
  c_uid :: nat
  c_label :: Label
  c_color :: Color
  c_created :: string
  c_clean :: "bool option"
  c_encrypted :: bool

definition UID_BASE :: nat where
  "UID_BASE = 70000"

definition MAX_CID :: nat where
  "MAX_CID = 255"

definition NET_CID :: nat where
  "NET_CID = 9"

definition MIYORI_NET_ID :: string where
  "MIYORI_NET_ID = ''miyori-net''"

definition raw_of_config :: "SpaceConfig \<Rightarrow> raw_config" where
  "raw_of_config c =
     \<lparr>r_id = id_str (c_id c), r_profile = id_str (c_profile c), r_digest = c_digest c, r_cid = c_cid c,
      r_uid = c_uid c, r_label = label_str (c_label c), r_color = color_str (c_color c),
      r_created = c_created c, r_clean = c_clean c, r_encrypted = c_encrypted c\<rparr>"

definition config_of_raw :: "raw_config \<Rightarrow> SpaceConfig option" where
  "config_of_raw r =
     (case (SpaceId_new (r_id r), SpaceId_new (r_profile r), Label_new (r_label r), Color_new (r_color r)) of
        (Inr i, Inr p, Inr l, Inr k) \<Rightarrow>
          Some \<lparr>c_id = i, c_profile = p, c_digest = r_digest r, c_cid = r_cid r, c_uid = r_uid r,
                c_label = l, c_color = k, c_created = r_created r, c_clean = r_clean r,
                c_encrypted = r_encrypted r\<rparr>
      | _ \<Rightarrow> None)"

definition config_of :: "libs \<Rightarrow> string \<Rightarrow> SpaceConfig option" where
  "config_of x src = Option.bind (toml_config x src) config_of_raw"

definition config_to :: "libs \<Rightarrow> SpaceConfig \<Rightarrow> string" where
  "config_to x c = print_config x (raw_of_config c)"

record Store =
  state_dir :: path
  spaces :: "SpaceConfig list"

section \<open>The calendar\<close>

definition civil_from_days :: "int \<Rightarrow> int \<times> int \<times> int" where
  "civil_from_days z0 =
     (let z = z0 + 719468;
          era = z div 146097;
          doe = z - era * 146097;
          yoe = (doe - doe div 1460 + doe div 36524 - doe div 146096) div 365;
          y = yoe + era * 400;
          doy = doe - (365 * yoe + yoe div 4 - yoe div 100);
          mp = (5 * doy + 2) div 153;
          d = doy - (153 * mp + 2) div 5 + 1;
          m = (if mp < 10 then mp + 3 else mp - 9)
      in (if m \<le> 2 then y + 1 else y, m, d))"

definition rfc3339_from_epoch :: "nat \<Rightarrow> string" where
  "rfc3339_from_epoch t =
     (let days = t div 86400;
          rem = t mod 86400;
          (y, m, d) = civil_from_days (int days)
      in dec_pad 4 (nat y) @ ''-'' @ dec_pad 2 (nat m) @ ''-'' @ dec_pad 2 (nat d) @ ''T'' @
         dec_pad 2 (rem div 3600) @ '':'' @ dec_pad 2 ((rem mod 3600) div 60) @ '':'' @
         dec_pad 2 (rem mod 60) @ ''Z'')"

definition now_rfc3339 :: "('e, string) m" where
  "now_rfc3339 = ask (\<lambda>w. rfc3339_from_epoch (secs (env w) (now w)))"

section \<open>Operations\<close>

definition spaces_dir :: "path \<Rightarrow> path" where
  "spaces_dir st = st @ [''spaces'']"

definition space_dir :: "path \<Rightarrow> SpaceId \<Rightarrow> path" where
  "space_dir st i = pjoin (spaces_dir st) (id_str i)"

definition config_path :: "path \<Rightarrow> path" where
  "config_path d = d @ [''config.toml'']"

definition load_entry :: "libs \<Rightarrow> path \<Rightarrow> string \<Rightarrow> SpaceConfig option io" where
  "load_entry x d name =
     bnd (ask (is_file (config_path (d @ [name])))) (\<lambda>present.
       if \<not> present then ret None
       else bnd (read_to_string (config_path (d @ [name]))) (\<lambda>src.
         case config_of x src of None \<Rightarrow> fail () | Some c \<Rightarrow> ret (Some c)))"

definition sort_spaces :: "SpaceConfig list \<Rightarrow> SpaceConfig list" where
  "sort_spaces cs = sort_key c_id cs"

definition store_load :: "libs \<Rightarrow> path \<Rightarrow> Store io" where
  "store_load x st =
     bnd (ask (path_exists (spaces_dir st))) (\<lambda>present.
       if \<not> present then ret \<lparr>state_dir = st, spaces = []\<rparr>
       else bnd (read_dir (spaces_dir st)) (\<lambda>names.
         bnd (each (load_entry x (spaces_dir st)) names) (\<lambda>cs.
           ret \<lparr>state_dir = st, spaces = sort_spaces (List.map_filter id cs)\<rparr>)))"

definition store_get :: "Store \<Rightarrow> SpaceId \<Rightarrow> SpaceConfig option" where
  "store_get s i = find (\<lambda>c. c_id c = i) (spaces s)"

text \<open>\<open>/sys/class/net/<name>\<close> exists exactly for the links of the host.\<close>

definition in_sysfs :: "string \<Rightarrow> world \<Rightarrow> bool" where
  "in_sysfs name w \<longleftrightarrow> al_get (links w) name \<noteq> None"

definition cid_free :: "SpaceConfig list \<Rightarrow> world \<Rightarrow> nat \<Rightarrow> bool" where
  "cid_free cs w cid \<longleftrightarrow>
     cid \<noteq> NET_CID \<and> list_all (\<lambda>c. c_cid c \<noteq> cid) cs \<and> \<not> in_sysfs (space_tap cid) w"

definition allocate_cid :: "SpaceConfig list \<Rightarrow> nat io" where
  "allocate_cid cs =
     bnd (ask (\<lambda>w. find (cid_free cs w) [3..<Suc MAX_CID])) (\<lambda>r.
       case r of None \<Rightarrow> fail () | Some cid \<Rightarrow> ret cid)"

definition passwd_path :: path where
  "passwd_path = [''etc'', ''passwd'']"

definition uid_in_passwd :: "nat \<Rightarrow> string \<Rightarrow> bool" where
  "uid_in_passwd uid src \<longleftrightarrow>
     list_ex (\<lambda>line. case split_on (CHR '':'') line of
       _ # _ # u # _ \<Rightarrow> u = dec uid | _ \<Rightarrow> False) (lines src)"

definition ensure_uid_is_free :: "nat \<Rightarrow> unit io" where
  "ensure_uid_is_free uid =
     bnd (read_to_string passwd_path) (\<lambda>src. guard (\<not> uid_in_passwd uid src) ())"

definition write_config_atomically :: "libs \<Rightarrow> path \<Rightarrow> SpaceConfig \<Rightarrow> unit io" where
  "write_config_atomically x d c =
     sq (write_file (d @ [''config.toml.tmp'']) (Bytes (config_to x c)))
    (sq (set_mode (d @ [''config.toml.tmp'']) 420)
        (rename_file (d @ [''config.toml.tmp'']) (config_path d)))"

definition create_space ::
  "libs \<Rightarrow> Store \<Rightarrow> SpaceId \<Rightarrow> SpaceId \<Rightarrow> string \<Rightarrow> Label \<Rightarrow> Color \<Rightarrow> bool \<Rightarrow> (Store \<times> SpaceConfig) io" where
  "create_space x s i p digest l k enc =
     sq (guard (id_str i \<noteq> MIYORI_NET_ID) ())
    (sq (guard (store_get s i = None) ())
    (bnd (allocate_cid (spaces s)) (\<lambda>cid.
     sq (ensure_uid_is_free (UID_BASE + cid))
    (bnd now_rfc3339 (\<lambda>created.
     let c = \<lparr>c_id = i, c_profile = p, c_digest = digest, c_cid = cid, c_uid = UID_BASE + cid,
              c_label = l, c_color = k, c_created = created, c_clean = None, c_encrypted = enc\<rparr>;
         d = space_dir (state_dir s) i
     in sq (create_dir_all d)
       (sq (write_config_atomically x d c)
       (ret (s\<lparr>spaces := sort_spaces (spaces s @ [c])\<rparr>, c))))))))"

text \<open>\<open>position\<close> and an update or a \<open>remove\<close> there.\<close>

fun update_first :: "('a \<Rightarrow> bool) \<Rightarrow> ('a \<Rightarrow> 'a) \<Rightarrow> 'a list \<Rightarrow> 'a list" where
  "update_first P f [] = []"
| "update_first P f (x # xs) = (if P x then f x # xs else x # update_first P f xs)"

fun remove_first :: "('a \<Rightarrow> bool) \<Rightarrow> 'a list \<Rightarrow> 'a list" where
  "remove_first P [] = []"
| "remove_first P (x # xs) = (if P x then xs else x # remove_first P xs)"

definition update_space :: "libs \<Rightarrow> Store \<Rightarrow> SpaceId \<Rightarrow> (SpaceConfig \<Rightarrow> SpaceConfig) \<Rightarrow> Store io" where
  "update_space x s i f =
     (case store_get s i of
        None \<Rightarrow> fail ()
      | Some c \<Rightarrow>
          sq (write_config_atomically x (space_dir (state_dir s) i) (f c))
             (ret (s\<lparr>spaces := update_first (\<lambda>b. c_id b = i) f (spaces s)\<rparr>)))"

definition set_clean_shutdown :: "libs \<Rightarrow> Store \<Rightarrow> SpaceId \<Rightarrow> bool \<Rightarrow> Store io" where
  "set_clean_shutdown x s i b = update_space x s i (\<lambda>c. c\<lparr>c_clean := Some b\<rparr>)"

definition set_digest :: "libs \<Rightarrow> Store \<Rightarrow> SpaceId \<Rightarrow> string \<Rightarrow> Store io" where
  "set_digest x s i digest = update_space x s i (\<lambda>c. c\<lparr>c_digest := digest\<rparr>)"

definition remove_space :: "Store \<Rightarrow> SpaceId \<Rightarrow> Store io" where
  "remove_space s i =
     (case store_get s i of
        None \<Rightarrow> fail ()
      | Some _ \<Rightarrow>
          sq (remove_dir_all (space_dir (state_dir s) i))
             (ret (s\<lparr>spaces := remove_first (\<lambda>c. c_id c = i) (spaces s)\<rparr>)))"

end
