(* ===== verification/StoreInv.thy ===== *)
theory StoreInv
  imports Store
begin

text \<open>
  The invariant of the daemon's state on disk and its preservation by the
  operations of \<open>Store\<close>, whatever call of theirs fails.  \<open>libs_ok\<close> is what the
  daemon relies on of \<open>basic_toml\<close>: the text of a printed configuration or
  registry is UTF-8 and reads back as the same value.
\<close>

definition libs_ok :: "libs \<Rightarrow> bool" where
  "libs_ok x \<longleftrightarrow>
     (\<forall>r. valid_utf8 (print_config x r) \<and> toml_config x (print_config x r) = Some r) \<and>
     (\<forall>ss. valid_utf8 (print_registry x ss) \<and> toml_registry x (print_registry x ss) = Some ss)"

definition config_at :: "libs \<Rightarrow> path \<Rightarrow> string \<Rightarrow> world \<Rightarrow> SpaceConfig option" where
  "config_at x st d w =
     Option.bind (Option.bind (bytes_at (config_path (spaces_dir st @ [d])) w) from_utf8) (config_of x)"

definition config_ok :: "SpaceConfig \<Rightarrow> bool" where
  "config_ok c \<longleftrightarrow>
     id_ok (c_id c) \<and> id_ok (c_profile c) \<and> label_ok (c_label c) \<and> color_ok (c_color c) \<and>
     id_str (c_id c) \<noteq> MIYORI_NET_ID \<and> 3 \<le> c_cid c \<and> c_cid c \<le> MAX_CID \<and> c_cid c \<noteq> NET_CID \<and>
     c_uid c = UID_BASE + c_cid c"

definition has_config :: "path \<Rightarrow> string \<Rightarrow> world \<Rightarrow> bool" where
  "has_config st d w \<longleftrightarrow> is_file (config_path (spaces_dir st @ [d])) w"

text \<open>
  Every configuration on disk is readable, lies in the directory of its own id,
  has a CID of the allowed range and the uid derived from it, and no two have the
  same CID.
\<close>

definition store_ok :: "libs \<Rightarrow> path \<Rightarrow> world \<Rightarrow> bool" where
  "store_ok x st w \<longleftrightarrow>
     (\<forall>d. has_config st d w \<longrightarrow>
        is_dir (spaces_dir st) w \<and> is_dir (spaces_dir st @ [d]) w \<and>
        (\<exists>c. config_at x st d w = Some c \<and> config_ok c \<and> id_str (c_id c) = d)) \<and>
     (\<forall>d d' c c'. config_at x st d w = Some c \<and> config_at x st d' w = Some c' \<and> c_cid c = c_cid c' \<longrightarrow> d = d')"

text \<open>The paths it depends on.\<close>

definition store_paths :: "path \<Rightarrow> path set" where
  "store_paths st =
     {spaces_dir st} \<union> range (\<lambda>d. spaces_dir st @ [d]) \<union> range (\<lambda>d. config_path (spaces_dir st @ [d]))"

lemma store_ok_same: "same_at (store_paths st) w w' \<Longrightarrow> store_ok x st w \<Longrightarrow> store_ok x st w'"
  by (simp add: store_ok_def same_at_def store_paths_def has_config_def config_at_def is_file_def is_dir_def
      bytes_at_def ball_Un)

lemma config_at_same: "same_at (store_paths st) w w' \<Longrightarrow> config_at x st d w' = config_at x st d w"
  by (simp add: same_at_def store_paths_def config_at_def bytes_at_def ball_Un)

lemma config_at_file: "config_at x st d w = Some c \<Longrightarrow> has_config st d w"
  by (auto simp: config_at_def has_config_def bytes_at_def is_file_def split: option.splits kind.splits content.splits)

lemma config_at_ok:
  "store_ok x st w \<Longrightarrow> config_at x st d w = Some c \<Longrightarrow> config_ok c \<and> id_str (c_id c) = d"
  using config_at_file [of x st d w c] by (auto simp: store_ok_def)

section \<open>Loading\<close>

definition entry :: "libs \<Rightarrow> path \<Rightarrow> string \<Rightarrow> world \<Rightarrow> SpaceConfig option" where
  "entry x st d w = (if has_config st d w then config_at x st d w else None)"

lemma entry_config: "entry x st d w = config_at x st d w"
  using config_at_file [of x st d w] by (cases "config_at x st d w") (auto simp: entry_def)

lemma load_entry_Inr:
  "load_entry x (spaces_dir st) d w = (Inr r, w') \<Longrightarrow> r = config_at x st d w \<and> time_only w w'"
  using entry_config [of x st d w]
  by (auto simp: load_entry_def entry_def has_config_def config_at_def bnd_Inr bind_eq_Some_conv ask_def ret_def fail_def
      read_to_string_def time_bytes looks.R_refl dest!: query_Inr split: if_splits option.splits)

lemma time_config: "time_only w w' \<Longrightarrow> config_at x st d w' = config_at x st d w"
  by (simp add: config_at_def time_bytes)

lemma each_load_Inr:
  "each (load_entry x (spaces_dir st)) names w = (Inr cs, w') \<Longrightarrow>
   cs = map (\<lambda>d. config_at x st d w) names \<and> time_only w w'"
proof (induction names arbitrary: w w' cs)
  case Nil
  then show ?case by (simp add: ret_def looks.R_refl)
next
  case (Cons d names)
  then obtain c w1 cs1 where "load_entry x (spaces_dir st) d w = (Inr c, w1)"
      "each (load_entry x (spaces_dir st)) names w1 = (Inr cs1, w')" "cs = c # cs1"
    by (auto simp: bnd_Inr ret_def)
  with Cons.IH [OF this(2)] show ?case
    using load_entry_Inr [of x st d w c w1] time_config [of w w1] looks.R_trans [of w w1 w'] by auto
qed

lemma looks_load: "looks.holds (store_load x st)"
  unfolding store_load_def load_entry_def
  by (intro looks.holds_intros frame_intros)

text \<open>What a loaded store is of the disk.\<close>

definition on_disk :: "libs \<Rightarrow> path \<Rightarrow> world \<Rightarrow> SpaceConfig set" where
  "on_disk x st w = {c. \<exists>d. config_at x st d w = Some c}"

definition loaded :: "libs \<Rightarrow> Store \<Rightarrow> world \<Rightarrow> bool" where
  "loaded x s w \<longleftrightarrow>
     store_ok x (state_dir s) w \<and> set (spaces s) = on_disk x (state_dir s) w \<and>
     distinct (map c_id (spaces s)) \<and> distinct (map c_cid (spaces s)) \<and> sorted (map c_id (spaces s))"

lemma loaded_store_ok: "loaded x s w \<Longrightarrow> store_ok x (state_dir s) w"
  by (simp add: loaded_def)

lemma loaded_same: "same_at (store_paths (state_dir s)) w w' \<Longrightarrow> loaded x s w \<Longrightarrow> loaded x s w'"
  using store_ok_same [of "state_dir s" w w' x] config_at_same [of "state_dir s" w w' x]
  by (simp add: loaded_def on_disk_def)

lemma node_in_names: "node_at (D @ [d]) w \<noteq> None \<Longrightarrow> d \<in> set (names_in D w)"
proof -
  assume "node_at (D @ [d]) w \<noteq> None"
  then have "D @ [d] \<in> set (map fst (fs w))"
    by (simp add: node_at_def al_get_def map_of_eq_None_iff)
  then have "D @ [d] \<in> set (filter (\<lambda>p. p \<noteq> [] \<and> butlast p = D) (map fst (fs w)))" by simp
  then have "last (D @ [d]) \<in> set (names_in D w)"
    unfolding names_in_def set_remdups set_map by (rule imageI)
  then show ?thesis by simp
qed

lemma map_filter_id: "List.map_filter id (map f xs) = List.map_filter f xs"
  by (induction xs) (auto simp: List.map_filter_simps split: option.split)

lemma set_map_filter: "set (List.map_filter f xs) = {y. \<exists>x \<in> set xs. f x = Some y}"
  by (induction xs) (auto simp: List.map_filter_simps split: option.splits)

lemma distinct_map_filter:
  "distinct xs \<Longrightarrow> (\<And>a b y z. a \<in> set xs \<Longrightarrow> b \<in> set xs \<Longrightarrow> f a = Some y \<Longrightarrow> f b = Some z \<Longrightarrow> g y = g z \<Longrightarrow> a = b) \<Longrightarrow>
   distinct (map g (List.map_filter f xs))"
proof (induction xs)
  case (Cons a xs)
  show ?case
  proof (cases "f a")
    case None
    with Cons show ?thesis by (simp add: List.map_filter_simps)
  next
    case (Some y)
    have "g y \<notin> g ` set (List.map_filter f xs)"
      using Cons.prems Some by (fastforce simp: set_map_filter)
    with Cons Some show ?thesis by (simp add: List.map_filter_simps)
  qed
qed (simp add: List.map_filter_simps)

lemma distinct_insort:
  "distinct (map g (insort_key f x xs)) \<longleftrightarrow> g x \<notin> g ` set xs \<and> distinct (map g xs)"
  by (induction xs) (auto simp: set_insort_key)

lemma distinct_sort_key: "distinct (map g (sort_key f xs)) \<longleftrightarrow> distinct (map g xs)"
  by (induction xs) (simp_all add: distinct_insort)

lemma sort_spaces_simps [simp]:
  "set (sort_spaces cs) = set cs" "sorted (map c_id (sort_spaces cs))"
  "distinct (map g (sort_spaces cs)) \<longleftrightarrow> distinct (map g cs)"
  by (simp_all add: sort_spaces_def distinct_sort_key)

lemma load_ok:
  assumes ok: "store_ok x st w" and run: "store_load x st w = (Inr s, w')"
  shows "loaded x s w' \<and> state_dir s = st \<and> time_only w w'"
proof -
  have t: "time_only w w'" using run looks_load looks.holdsD by blast
  have ok': "store_ok x st w'" using store_ok_same [OF time_same [OF t] ok] .
  have disk: "on_disk x st w' = on_disk x st w" using t by (simp add: on_disk_def time_config)
  have listed: "is_dir (spaces_dir st) w \<and> d \<in> set (names_in (spaces_dir st) w)"
    if "config_at x st d w = Some c" for d c
  proof -
    from config_at_file [OF that] ok have "is_dir (spaces_dir st) w" "is_dir (spaces_dir st @ [d]) w"
      by (auto simp: store_ok_def)
    then show ?thesis
      by (auto simp: is_dir_def intro: node_in_names split: option.splits)
  qed
  show ?thesis
  proof (cases "path_exists (spaces_dir st) w")
    case False
    then have none: "config_at x st d w = None" for d
      using listed by (cases "config_at x st d w") (auto simp: is_dir_def path_exists_def split: option.splits)
    from False run have "s = \<lparr>state_dir = st, spaces = []\<rparr>"
      by (auto simp: store_load_def bnd_Inr ask_def ret_def)
    then show ?thesis using ok' t disk none by (simp add: loaded_def on_disk_def)
  next
    case True
    with run obtain names w1 cs w2 where
        r: "read_dir (spaces_dir st) w = (Inr names, w1)"
          "each (load_entry x (spaces_dir st)) names w1 = (Inr cs, w2)"
          "s = \<lparr>state_dir = st, spaces = sort_spaces (List.map_filter id cs)\<rparr>"
      by (auto simp: store_load_def bnd_Inr ask_def ret_def)
    from r(1) have n: "names = names_in (spaces_dir st) w" "time_only w w1"
      by (auto simp: read_dir_def dest!: query_Inr split: if_splits)
    then have "cs = map (\<lambda>d. config_at x st d w) names"
      using each_load_Inr [OF r(2)] time_config [OF n(2)] by auto
    then have cs: "List.map_filter id cs = List.map_filter (\<lambda>d. config_at x st d w) names"
      by (simp add: map_filter_id)
    have "set (List.map_filter id cs) = on_disk x st w"
      using listed n(1) by (auto simp: cs set_map_filter on_disk_def) 
    moreover have "distinct names" by (simp add: n(1) names_in_def)
    then have "distinct (map c_cid (List.map_filter id cs))" "distinct (map c_id (List.map_filter id cs))"
      unfolding cs using ok config_at_ok [OF ok]
      by (auto intro!: distinct_map_filter simp: store_ok_def) metis
    ultimately show ?thesis using ok' t disk r(3) by (simp add: loaded_def)
  qed
qed

section \<open>The operations\<close>

abbreviation tmp_path :: "path \<Rightarrow> path" where
  "tmp_path d \<equiv> d @ [''config.toml.tmp'']"

lemma sys_Inr: "sys c f g w = (Inr u, w') \<longleftrightarrow> c w \<and> \<not> faulty w \<and> w' = tick (f w)"
  by (auto simp: sys_def)

lemma sys_Inl: "sys c f g w = (Inl u, w') \<longleftrightarrow> (\<not> c w \<and> w' = tick w) \<or> (c w \<and> faulty w \<and> w' = tick (g w))"
  by (auto simp: sys_def)

lemma sq_cases:
  assumes "sq f g w = (r, w'')"
  obtains (first) e where "f w = (Inl e, w'')" "r = Inl e" | (both) y w' where "f w = (Inr y, w')" "g w' = (r, w'')"
  using assms by (auto simp: sq_def bnd_def split: prod.splits sum.splits)

lemma bnd_cases:
  assumes "bnd f k w = (r, w'')"
  obtains (first) e where "f w = (Inl e, w'')" "r = Inl e" | (both) y w' where "f w = (Inr y, w')" "k y w' = (r, w'')"
  using assms by (auto simp: bnd_def split: prod.splits sum.splits)

lemma config_ne_tmp [simp]: "config_path d \<noteq> tmp_path d'" "tmp_path d' \<noteq> config_path d"
  by (simp_all add: config_path_def)

lemma bytes_put_content: "bytes_at p (put_content p (Bytes t) w) = Some t"
  by (auto simp: bytes_at_def put_content_def split: option.split)

lemma bytes_tick [simp]: "bytes_at p (tick w) = bytes_at p w"
  by (simp add: bytes_at_def)

lemma bytes_change_mode: "bytes_at p (change_node q (\<lambda>n. n\<lparr>mode := k\<rparr>) w) = bytes_at p w"
  by (auto simp: bytes_at_def node_change split: option.split)

lemma write_config_outcome:
  assumes "write_config_atomically x d c w = (r, w')"
  shows "(\<forall>p. p \<noteq> tmp_path d \<and> p \<noteq> config_path d \<longrightarrow> node_at p w' = node_at p w) \<and>
    (isl r \<longrightarrow> node_at (config_path d) w' = node_at (config_path d) w) \<and>
    (\<not> isl r \<longrightarrow> bytes_at (config_path d) w' = Some (config_to x c))"
proof -
  have outw: "same_at (- {tmp_path d}) u u'"
    if "write_file (tmp_path d) (Bytes (config_to x c)) u = (q, u')" for u q u'
    using same.holdsD [OF same_write that] by simp
  have outm: "same_at (- {tmp_path d}) u u'" if "set_mode (tmp_path d) 420 u = (q, u')" for u q u'
    using same.holdsD [OF same_set_mode that] by simp
  have wr: "bytes_at (tmp_path d) u' = Some (config_to x c)"
    if "write_file (tmp_path d) (Bytes (config_to x c)) u = (Inr y, u')" for u u' y
    using that by (auto simp: write_file_def sys_Inr bytes_put_content)
  have md: "bytes_at (tmp_path d) u' = bytes_at (tmp_path d) u"
    if "set_mode (tmp_path d) 420 u = (Inr y, u')" for u u' y
    using that by (auto simp: set_mode_def sys_Inr bytes_change_mode)
  have rn: "(\<forall>p. p \<noteq> tmp_path d \<and> p \<noteq> config_path d \<longrightarrow> node_at p u' = node_at p u) \<and>
      (isl q \<longrightarrow> node_at (config_path d) u' = node_at (config_path d) u) \<and>
      (\<not> isl q \<longrightarrow> bytes_at (config_path d) u' = bytes_at (tmp_path d) u)"
    if "rename_file (tmp_path d) (config_path d) u = (q, u')" for u u' q
    using that
    by (cases q) (auto simp: rename_file_def sys_Inr sys_Inl bytes_at_def is_file_def split: option.splits)
  from assms show ?thesis
    unfolding write_config_atomically_def
  proof (cases rule: sq_cases)
    case (first e)
    then show ?thesis using outw [OF first(1)] by (auto simp: same_at_def)
  next
    case (both y w1)
    note one = outw [OF both(1)] wr [OF both(1)]
    from both(2) show ?thesis
    proof (cases rule: sq_cases)
      case (first e)
      then show ?thesis using one outm [OF first(1)] by (auto simp: same_at_def)
    next
      case two: (both z w2)
      note two' = outm [OF two(1)] md [OF two(1)] rn [OF two(2)]
      from one two' show ?thesis by (auto simp: same_at_def bytes_at_def)
    qed
  qed
qed

lemma space_dir_slug: "id_ok i \<Longrightarrow> space_dir st i = spaces_dir st @ [id_str i]"
  using id_no_slash [of i] id_no_dot [of i] id_not_Nil [of i]
  by (auto simp: space_dir_def pjoin_def path_of_def split_on_no_sep not_absolute)

lemma config_path_inject [simp]:
  "config_path (D @ [d]) = config_path (D @ [d']) \<longleftrightarrow> d = d'"
  by (simp add: config_path_def)

lemma spaces_ne [simp]:
  "config_path (D @ [d]) \<noteq> D" "config_path (D @ [d]) \<noteq> D @ [d']" "D \<noteq> config_path (D @ [d])"
  "D @ [d'] \<noteq> config_path (D @ [d])" "tmp_path (D @ [d]) \<noteq> D" "tmp_path (D @ [d]) \<noteq> D @ [d']"
  by (auto simp: config_path_def)

lemma config_at_node:
  "node_at (config_path (spaces_dir st @ [d])) w' = node_at (config_path (spaces_dir st @ [d])) w \<Longrightarrow>
   config_at x st d w' = config_at x st d w \<and> (has_config st d w' \<longleftrightarrow> has_config st d w)"
  by (simp add: config_at_def bytes_at_def has_config_def is_file_def)

lemma is_dir_node: "node_at p w' = node_at p w \<Longrightarrow> is_dir p w' = is_dir p w"
  by (simp add: is_dir_def)

text \<open>Fewer configurations, and directories still there.\<close>

lemma store_ok_shrink:
  assumes ok: "store_ok x st w"
    and "\<And>d. has_config st d w' \<Longrightarrow>
      node_at (config_path (spaces_dir st @ [d])) w' = node_at (config_path (spaces_dir st @ [d])) w \<and>
      is_dir (spaces_dir st) w' \<and> is_dir (spaces_dir st @ [d]) w'"
  shows "store_ok x st w'"
proof -
  have c: "config_at x st d w' = config_at x st d w" if "has_config st d w'" for d
    using assms(2) [OF that] config_at_node by blast
  show ?thesis
    unfolding store_ok_def
  proof (intro conjI allI impI)
    fix d assume h: "has_config st d w'"
    then have "has_config st d w" using assms(2) [OF h] config_at_node by blast
    then show "\<exists>c. config_at x st d w' = Some c \<and> config_ok c \<and> id_str (c_id c) = d"
      using ok c [OF h] by (auto simp: store_ok_def)
    show "is_dir (spaces_dir st) w'" "is_dir (spaces_dir st @ [d]) w'" using assms(2) [OF h] by auto
  next
    fix d d' e e'
    assume "config_at x st d w' = Some e \<and> config_at x st d' w' = Some e' \<and> c_cid e = c_cid e'"
    then have "config_at x st d w = Some e" "config_at x st d' w = Some e'" "c_cid e = c_cid e'"
      using c config_at_file by metis+
    then show "d = d'" using ok by (auto simp: store_ok_def)
  qed
qed

lemma store_ok_remove:
  assumes "remove_dir_all (spaces_dir st @ [e]) w = (r, w')" "store_ok x st w"
  shows "store_ok x st w' \<and> (\<forall>d. d \<noteq> e \<longrightarrow> config_at x st d w' = config_at x st d w) \<and>
    (\<not> isl r \<longrightarrow> \<not> has_config st e w')"
proof -
  let ?c = "\<lambda>d. config_path (spaces_dir st @ [d])"
  have pre: "prefix (spaces_dir st @ [e]) (?c d) \<longleftrightarrow> d = e" for d
    by (auto simp: config_path_def)
  have dirs: "\<not> strict_prefix (spaces_dir st @ [e]) (spaces_dir st @ [d])" for d
    by (auto simp: strict_prefix_def)
  have top: "\<not> prefix (spaces_dir st @ [e]) (spaces_dir st)" by (auto simp: prefix_def)
  consider (same) "r = Inl ()" "\<And>p. node_at p w' = node_at p w"
    | (all) "r = Inr ()" "\<And>p. node_at p w' = (if prefix (spaces_dir st @ [e]) p then None else node_at p w)"
    | (part) "r = Inl ()"
        "\<And>p. node_at p w' = (if strict_prefix (spaces_dir st @ [e]) p \<and> all_gone p w then None else node_at p w)"
    using assms(1)
    by (cases r) (auto simp: remove_dir_all_def sys_Inr sys_Inl node_at_def al_get_filter)
  then show ?thesis
  proof cases
    case same
    then have "same_at (store_paths st) w w'" by (simp add: same_at_def)
    then show ?thesis
      using same(1) store_ok_same [OF _ assms(2)] config_at_same [of st w w' x] by simp
  next
    case all
    have gone: "\<not> has_config st e w'" using all(2) [of "?c e"] by (simp add: has_config_def is_file_def pre)
    have keep: "node_at (?c d) w' = node_at (?c d) w" "is_dir (spaces_dir st @ [d]) w' = is_dir (spaces_dir st @ [d]) w"
      if "d \<noteq> e" for d
      using all(2) [of "?c d"] all(2) [of "spaces_dir st @ [d]"] that by (auto simp: pre is_dir_def)
    have "is_dir (spaces_dir st) w' = is_dir (spaces_dir st) w"
      using all(2) [of "spaces_dir st"] top by (simp add: is_dir_def)
    then have "store_ok x st w'"
    proof (intro store_ok_shrink [OF assms(2)])
      fix d assume h: "has_config st d w'" and s: "is_dir (spaces_dir st) w' = is_dir (spaces_dir st) w"
      then have "d \<noteq> e" using gone by auto
      then show "node_at (?c d) w' = node_at (?c d) w \<and> is_dir (spaces_dir st) w' \<and> is_dir (spaces_dir st @ [d]) w'"
        using keep [of d] h s config_at_node [OF keep(1)] assms(2) by (auto simp: store_ok_def)
    qed
    then show ?thesis using gone keep(1) config_at_node by blast
  next
    case part
    have keep: "node_at (?c d) w' = node_at (?c d) w \<or> (d = e \<and> \<not> has_config st d w')" for d
      using part(2) [of "?c d"] by (auto simp: has_config_def is_file_def strict_prefix_def pre)
    have dir: "is_dir (spaces_dir st @ [d]) w' = is_dir (spaces_dir st @ [d]) w"
      "is_dir (spaces_dir st) w' = is_dir (spaces_dir st) w" for d
      using part(2) [of "spaces_dir st @ [d]"] part(2) [of "spaces_dir st"] dirs top
      by (simp_all add: is_dir_def strict_prefix_def)
    have "store_ok x st w'"
    proof (rule store_ok_shrink [OF assms(2)])
      fix d assume h: "has_config st d w'"
      then have n: "node_at (?c d) w' = node_at (?c d) w" using keep by blast
      with h config_at_node [OF n] assms(2)
      show "node_at (?c d) w' = node_at (?c d) w \<and> is_dir (spaces_dir st) w' \<and> is_dir (spaces_dir st @ [d]) w'"
        unfolding dir by (auto simp: store_ok_def)
    qed
    moreover have "config_at x st d w' = config_at x st d w" if "d \<noteq> e" for d
      using keep [of d] that config_at_node by blast
    ultimately show ?thesis using part(1) by simp
  qed
qed

lemma config_of_to: "libs_ok x \<Longrightarrow> config_ok c \<Longrightarrow> config_of x (config_to x c) = Some c"
  by (cases c; cases "c_id c"; cases "c_profile c"; cases "c_label c"; cases "c_color c")
    (auto simp: config_of_def config_to_def libs_ok_def raw_of_config_def config_of_raw_def config_ok_def
      SpaceId_new_def Label_new_def Color_new_def id_ok_def label_ok_def color_ok_def)

lemma config_to_utf8: "libs_ok x \<Longrightarrow> from_utf8 (config_to x c) = Some (config_to x c)"
  by (simp add: libs_ok_def config_to_def from_utf8_def)

lemma store_ok_write:
  assumes run: "write_config_atomically x (spaces_dir st @ [e]) c w = (r, w')"
    and ok: "store_ok x st w" "libs_ok x" "config_ok c" "id_str (c_id c) = e"
    and dirs: "is_dir (spaces_dir st) w" "is_dir (spaces_dir st @ [e]) w"
    and new: "\<And>d b. config_at x st d w = Some b \<Longrightarrow> d \<noteq> e \<Longrightarrow> c_cid b \<noteq> c_cid c"
  shows "store_ok x st w' \<and> (\<forall>d. d \<noteq> e \<longrightarrow> config_at x st d w' = config_at x st d w) \<and>
    config_at x st e w' = (if isl r then config_at x st e w else Some c) \<and>
    is_dir (spaces_dir st) w' \<and> is_dir (spaces_dir st @ [e]) w'"
proof -
  let ?c = "\<lambda>d. config_path (spaces_dir st @ [d])"
  note out = write_config_outcome [OF run]
  have other: "node_at (?c d) w' = node_at (?c d) w" if "d \<noteq> e" for d
    using out that config_path_inject by (metis config_ne_tmp(1))
  then have same: "config_at x st d w' = config_at x st d w" if "d \<noteq> e" for d
    using that config_at_node by blast
  have dir: "is_dir (spaces_dir st @ [d]) w' = is_dir (spaces_dir st @ [d]) w"
    "is_dir (spaces_dir st) w' = is_dir (spaces_dir st) w" for d
    using out by (auto intro!: is_dir_node)
  have mine: "config_at x st e w' = (if isl r then config_at x st e w else Some c)"
  proof (cases "isl r")
    case True
    then show ?thesis using out config_at_node [of st e w' w x] by simp
  next
    case False
    then show ?thesis
      using out config_of_to [OF ok(2,3)] config_to_utf8 [OF ok(2)] by (simp add: config_at_def)
  qed
  have "store_ok x st w'"
  proof (cases "isl r")
    case True
    then have n: "node_at (?c d) w' = node_at (?c d) w" for d using out other by (cases "d = e") auto
    show ?thesis
      using config_at_node [OF n] ok(1) dir by (intro store_ok_shrink [OF ok(1)]) (auto simp: n store_ok_def)
  next
    case False
    show ?thesis
      unfolding store_ok_def
    proof (intro conjI allI impI)
      fix d assume h: "has_config st d w'"
      show "is_dir (spaces_dir st) w'" using dir dirs by simp
      show "is_dir (spaces_dir st @ [d]) w'"
        using h dir dirs config_at_node [OF other] ok(1) by (cases "d = e") (auto simp: store_ok_def)
      show "\<exists>c. config_at x st d w' = Some c \<and> config_ok c \<and> id_str (c_id c) = d"
        using h mine False ok same [of d] config_at_node [OF other] by (cases "d = e") (auto simp: store_ok_def)
    next
      fix d d' b b'
      assume a: "config_at x st d w' = Some b \<and> config_at x st d' w' = Some b' \<and> c_cid b = c_cid b'"
      show "d = d'"
        using a mine False same [of d] same [of d'] new ok(1)
        by (cases "d = e"; cases "d' = e") (auto simp: store_ok_def; metis)+
    qed
  qed
  then show ?thesis using same mine dir dirs by simp
qed

lemma is_dir_fold:
  "is_dir q w \<or> (q \<in> set ps \<and> (path_exists q w \<longrightarrow> is_dir q w)) \<Longrightarrow> is_dir q (fold new_dir ps w)"
proof (induction ps arbitrary: w)
  case (Cons p ps)
  have "is_dir q (new_dir p w) \<or> (q \<in> set ps \<and> (path_exists q (new_dir p w) \<longrightarrow> is_dir q (new_dir p w)))"
    using Cons.prems by (auto simp: is_dir_def path_exists_def node_new_dir split: option.splits)
  with Cons.IH show ?case by simp
qed simp

lemma store_ok_mkdir:
  assumes "create_dir_all (spaces_dir st @ [e]) w = (r, w')" "store_ok x st w"
  shows "store_ok x st w' \<and> (\<forall>d. config_at x st d w' = config_at x st d w) \<and>
    (\<not> isl r \<longrightarrow> is_dir (spaces_dir st) w' \<and> is_dir (spaces_dir st @ [e]) w')"
proof -
  let ?p = "spaces_dir st @ [e]"
  have cfg: "config_path (spaces_dir st @ [d]) \<notin> set (prefixes_of ?p)" for d
  proof
    assume "config_path (spaces_dir st @ [d]) \<in> set (prefixes_of ?p)"
    then have "length (config_path (spaces_dir st @ [d])) \<le> length ?p"
      by (auto simp: set_prefixes_of dest: prefix_length_le)
    then show False by (simp add: config_path_def)
  qed
  have ndir: "node_at (config_path (spaces_dir st @ [d])) w' = node_at (config_path (spaces_dir st @ [d])) w" for d
    using assms(1) cfg [of d] by (cases r) (auto simp: create_dir_all_def sys_Inr sys_Inl node_fold_new_dir)
  have mono: "is_dir q w \<Longrightarrow> is_dir q w'" for q
    using assms(1) is_dir_fold [of q w] by (cases r) (auto simp: create_dir_all_def sys_Inr sys_Inl is_dir_def)
  have "store_ok x st w'"
    using mono config_at_node [OF ndir] assms(2)
    by (intro store_ok_shrink [OF assms(2)]) (auto simp: ndir store_ok_def)
  moreover have "is_dir q w'" if "\<not> isl r" "q \<noteq> []" "prefix q ?p" for q
    using assms(1) that is_dir_fold [of q w "prefixes_of ?p"] set_prefixes_of [of ?p]
    by (cases r) (auto simp: create_dir_all_def sys_Inr list_all_iff is_dir_def)
  ultimately show ?thesis using config_at_node [OF ndir] by (auto simp: spaces_dir_def)
qed

section \<open>Triples for the operations\<close>

lemma loaded_get:
  "loaded x s w \<Longrightarrow> store_get s i = Some c \<Longrightarrow>
     config_at x (state_dir s) (id_str i) w = Some c \<and> config_ok c \<and> c_id c = i \<and> c \<in> set (spaces s)"
proof -
  assume l: "loaded x s w" and g: "store_get s i = Some c"
  from g have c: "c \<in> set (spaces s)" "c_id c = i" unfolding store_get_def by (auto dest: find_Some_in)
  with l obtain d where "config_at x (state_dir s) d w = Some c" by (auto simp: loaded_def on_disk_def)
  moreover from this l have "config_ok c \<and> id_str (c_id c) = d"
    using config_at_ok by (auto simp: loaded_def)
  ultimately show ?thesis using c by auto
qed

lemma loaded_get_None:
  assumes "loaded x s w" "store_get s i = None"
  shows "config_at x (state_dir s) (id_str i) w = None"
proof (rule ccontr)
  assume "config_at x (state_dir s) (id_str i) w \<noteq> None"
  then obtain c where c: "config_at x (state_dir s) (id_str i) w = Some c" by auto
  then have "c \<in> set (spaces s)" "c_id c = i"
    using assms(1) config_at_ok [OF _ c] id_str_inject by (auto simp: loaded_def on_disk_def)
  with assms(2) show False by (auto simp: store_get_def find_None_iff)
qed

lemma loaded_other:
  "loaded x s w \<Longrightarrow> config_at x (state_dir s) d w = Some b \<Longrightarrow> b \<in> set (spaces s) \<and> id_str (c_id b) = d"
  using config_at_ok by (auto simp: loaded_def on_disk_def)

lemma loaded_config_ok: "loaded x s w \<Longrightarrow> c \<in> set (spaces s) \<Longrightarrow> config_ok c"
proof -
  assume l: "loaded x s w" and "c \<in> set (spaces s)"
  then obtain d where "config_at x (state_dir s) d w = Some c" by (auto simp: loaded_def on_disk_def)
  from config_at_ok [OF loaded_store_ok [OF l] this] show "config_ok c" by blast
qed

lemma load_hoare:
  "hoare (store_ok x st) (store_load x st) (\<lambda>s w. loaded x s w \<and> state_dir s = st) (\<lambda>_. store_ok x st)"
  unfolding hoare_def
proof (intro allI impI)
  fix w assume ok: "store_ok x st w"
  show "case store_load x st w of (Inl e, w') \<Rightarrow> store_ok x st w'
    | (Inr s, w') \<Rightarrow> loaded x s w' \<and> state_dir s = st"
  proof (cases "store_load x st w")
    case (Pair r w')
    then have "time_only w w'" using looks_load looks.holdsD by blast
    then have "store_ok x st w'" using store_ok_same time_same ok by blast
    then show ?thesis using Pair load_ok [OF ok] by (cases r) auto
  qed
qed

lemma loaded_put:
  assumes l: "loaded x s w" and c: "config_ok c" "id_str (c_id c) = e"
    and new: "\<And>b. b \<in> set (spaces s) \<Longrightarrow> id_str (c_id b) \<noteq> e \<Longrightarrow> c_cid b \<noteq> c_cid c"
    and w': "store_ok x (state_dir s) w'"
      "\<And>d. config_at x (state_dir s) d w' = (if d = e then Some c else config_at x (state_dir s) d w)"
    and t: "set t = insert c {b \<in> set (spaces s). id_str (c_id b) \<noteq> e}" "distinct (map c_id t)"
      "distinct (map c_cid t)" "sorted (map c_id t)"
  shows "loaded x (s\<lparr>spaces := t\<rparr>) w'"
proof -
  have "on_disk x (state_dir s) w' = set t"
  proof (intro set_eqI iffI)
    fix b assume "b \<in> on_disk x (state_dir s) w'"
    then obtain d where d: "config_at x (state_dir s) d w' = Some b" by (auto simp: on_disk_def)
    show "b \<in> set t"
    proof (cases "d = e")
      case True
      then show ?thesis using d w'(2) t(1) by simp
    next
      case False
      then show ?thesis using d w'(2) [of d] loaded_other [OF l, of d b] t(1) by auto
    qed
  next
    fix b assume "b \<in> set t"
    then consider "b = c" | "b \<in> set (spaces s)" "id_str (c_id b) \<noteq> e" using t(1) by auto
    then show "b \<in> on_disk x (state_dir s) w'"
    proof cases
      case 1
      then show ?thesis using w'(2) [of e] by (auto simp: on_disk_def)
    next
      case 2
      then obtain d where "config_at x (state_dir s) d w = Some b" using l by (auto simp: loaded_def on_disk_def)
      moreover from loaded_other [OF l this] have "d \<noteq> e" using 2 by auto
      ultimately show ?thesis using w'(2) [of d] by (auto simp: on_disk_def)
    qed
  qed
  then show ?thesis using w'(1) t by (simp add: loaded_def)
qed

text \<open>The CID search: in range, not the network VM's, used by no space, its tap name free, and the least such.\<close>

lemma allocate_cid_Inr:
  assumes "allocate_cid cs w = (Inr cid, w')"
  shows "w' = w \<and> 3 \<le> cid \<and> cid \<le> MAX_CID \<and> cid_free cs w cid \<and>
    (\<forall>n. 3 \<le> n \<and> n < cid \<longrightarrow> \<not> cid_free cs w n)"
proof -
  from assms have f: "find (cid_free cs w) [3..<Suc MAX_CID] = Some cid" "w' = w"
    by (auto simp: allocate_cid_def bnd_Inr ask_def ret_def fail_def simp del: upt_Suc split: option.splits)
  then obtain i where i: "i < length [3..<Suc MAX_CID]" "cid_free cs w ([3..<Suc MAX_CID] ! i)"
      "cid = [3..<Suc MAX_CID] ! i" "\<forall>j<i. \<not> cid_free cs w ([3..<Suc MAX_CID] ! j)"
    unfolding find_Some_iff by blast
  then have cid: "cid = 3 + i" "i < Suc MAX_CID - 3" by (simp_all del: upt_Suc)
  have "\<not> cid_free cs w n" if "3 \<le> n" "n < cid" for n
  proof -
    have "n - 3 < i" "[3..<Suc MAX_CID] ! (n - 3) = n" using that cid by (simp_all del: upt_Suc)
    with i(4) show ?thesis by metis
  qed
  then show ?thesis using i cid f(2) by auto
qed

lemma allocate_cid_Inl:
  "allocate_cid cs w = (Inl u, w') \<Longrightarrow> w' = w \<and> (\<forall>n. 3 \<le> n \<and> n \<le> MAX_CID \<longrightarrow> \<not> cid_free cs w n)"
  by (cases "find (cid_free cs w) [3..<Suc MAX_CID]")
    (auto simp: allocate_cid_def bnd_def ask_def ret_def fail_def find_None_iff simp del: upt_Suc)

lemma hoare_looks:
  assumes "looks.holds f" "\<And>w. P w \<Longrightarrow> loaded x s w" "\<And>w. loaded x s w \<Longrightarrow> P w"
  shows "hoare P f (\<lambda>_. P) (\<lambda>_. store_ok x (state_dir s))"
proof (rule hoare_post [OF hoare_same [OF looks_same [OF assms(1)], of "store_paths (state_dir s)" P]])
  show "same_at (store_paths (state_dir s)) w w' \<Longrightarrow> P w \<Longrightarrow> P w'" for w w'
    using assms(2,3) loaded_same by blast
qed (auto simp: loaded_store_ok assms(2))

lemma mkdir_hoare:
  "hoare (loaded x s) (create_dir_all (spaces_dir (state_dir s) @ [e]))
     (\<lambda>_ w. loaded x s w \<and> is_dir (spaces_dir (state_dir s)) w \<and> is_dir (spaces_dir (state_dir s) @ [e]) w)
     (\<lambda>_. store_ok x (state_dir s))"
  unfolding hoare_def
proof (intro allI impI)
  fix w assume l: "loaded x s w"
  show "case create_dir_all (spaces_dir (state_dir s) @ [e]) w of
      (Inl u, w') \<Rightarrow> store_ok x (state_dir s) w'
    | (Inr u, w') \<Rightarrow> loaded x s w' \<and> is_dir (spaces_dir (state_dir s)) w' \<and>
        is_dir (spaces_dir (state_dir s) @ [e]) w'"
  proof (cases "create_dir_all (spaces_dir (state_dir s) @ [e]) w")
    case (Pair r w')
    from store_ok_mkdir [OF Pair loaded_store_ok [OF l]] l show ?thesis
      using Pair by (cases r) (auto simp: loaded_def on_disk_def)
  qed
qed

definition fresh_config :: "Store \<Rightarrow> SpaceConfig \<Rightarrow> bool" where
  "fresh_config s c \<longleftrightarrow>
     config_ok c \<and> store_get s (c_id c) = None \<and> (\<forall>b \<in> set (spaces s). c_cid b \<noteq> c_cid c)"

lemma get_sort:
  "c_id c = i \<Longrightarrow> distinct (map c_id (c # cs)) \<Longrightarrow> find (\<lambda>b. c_id b = i) (sort_spaces (cs @ [c])) = Some c"
  using find_SomeI [of c "sort_spaces (cs @ [c])" c_id] by auto

lemma write_new_hoare:
  assumes x: "libs_ok x" and c: "fresh_config s c"
  shows "hoare (\<lambda>w. loaded x s w \<and> is_dir (spaces_dir (state_dir s)) w \<and>
        is_dir (spaces_dir (state_dir s) @ [id_str (c_id c)]) w)
     (write_config_atomically x (spaces_dir (state_dir s) @ [id_str (c_id c)]) c)
     (\<lambda>_. loaded x (s\<lparr>spaces := sort_spaces (spaces s @ [c])\<rparr>)) (\<lambda>_. store_ok x (state_dir s))"
  unfolding hoare_def
proof (intro allI impI, elim conjE)
  fix w assume l: "loaded x s w" and dirs: "is_dir (spaces_dir (state_dir s)) w"
    "is_dir (spaces_dir (state_dir s) @ [id_str (c_id c)]) w"
  let ?e = "id_str (c_id c)"
  let ?s = "s\<lparr>spaces := sort_spaces (spaces s @ [c])\<rparr>"
  have ids: "id_str (c_id b) \<noteq> ?e" if "b \<in> set (spaces s)" for b
    using c that by (auto simp: fresh_config_def store_get_def find_None_iff id_str_inject)
  show "case write_config_atomically x (spaces_dir (state_dir s) @ [?e]) c w of
      (Inl u, w') \<Rightarrow> store_ok x (state_dir s) w' | (Inr u, w') \<Rightarrow> loaded x ?s w'"
  proof (cases "write_config_atomically x (spaces_dir (state_dir s) @ [?e]) c w")
    case (Pair r w')
    have out: "store_ok x (state_dir s) w' \<and>
      (\<forall>d. d \<noteq> ?e \<longrightarrow> config_at x (state_dir s) d w' = config_at x (state_dir s) d w) \<and>
      config_at x (state_dir s) ?e w' = (if isl r then config_at x (state_dir s) ?e w else Some c)"
      using store_ok_write [OF Pair loaded_store_ok [OF l] x _ _ dirs] c loaded_other [OF l]
      by (auto simp: fresh_config_def)
    have "loaded x ?s w'" if "\<not> isl r"
    proof (rule loaded_put [OF l, of c ?e])
      show "config_ok c" using c by (simp add: fresh_config_def)
      show "distinct (map c_id (sort_spaces (spaces s @ [c])))"
      proof -
        have "c_id c \<notin> c_id ` set (spaces s)" using ids by fastforce
        then show ?thesis using l by (simp add: loaded_def)
      qed
      show "distinct (map c_cid (sort_spaces (spaces s @ [c])))"
        using l c by (auto simp: loaded_def fresh_config_def)
      show "c_cid b \<noteq> c_cid c" if "b \<in> set (spaces s)" for b
        using that c by (simp add: fresh_config_def)
      show "config_at x (state_dir s) d w' = (if d = ?e then Some c else config_at x (state_dir s) d w)" for d
        using out \<open>\<not> isl r\<close> by simp
    qed (use out ids in auto)
    then show ?thesis using Pair out by (cases r) auto
  qed
qed

lemma create_space_hoare:
  assumes x: "libs_ok x" and ok: "id_ok i" "id_ok p" "label_ok l" "color_ok k"
  shows "hoare (loaded x s) (create_space x s i p digest l k enc)
    (\<lambda>(s', c) w. loaded x s' w \<and> state_dir s' = state_dir s \<and> fresh_config s c \<and> c_id c = i \<and>
       c_profile c = p \<and> c_digest c = digest \<and> c_label c = l \<and> c_color c = k \<and>
       c_encrypted c = enc \<and> c_clean c = None \<and>
       s' = s\<lparr>spaces := sort_spaces (spaces s @ [c])\<rparr>)
    (\<lambda>_. store_ok x (state_dir s))"
proof -
  let ?E = "\<lambda>_ :: unit. store_ok x (state_dir s)"
  let ?cid_ok = "\<lambda>cid. 3 \<le> cid \<and> cid \<le> MAX_CID \<and> cid \<noteq> NET_CID \<and> (\<forall>b \<in> set (spaces s). c_cid b \<noteq> cid)"
  have alloc: "hoare (loaded x s) (allocate_cid (spaces s)) (\<lambda>cid w. loaded x s w \<and> ?cid_ok cid) ?E"
    unfolding hoare_def
    by (auto split: prod.split sum.split dest!: allocate_cid_Inr allocate_cid_Inl
        simp: cid_free_def list_all_iff loaded_store_ok)
  have uid: "hoare (loaded x s) (ensure_uid_is_free u) (\<lambda>_. loaded x s) ?E" for u
    unfolding ensure_uid_is_free_def
    by (rule hoare_looks) (auto intro!: looks.holds_intros frame_intros)
  have clock: "hoare (loaded x s) now_rfc3339 (\<lambda>_. loaded x s) ?E"
    unfolding now_rfc3339_def by (rule hoare_ask)
  have save: "hoare (loaded x s)
      (sq (create_dir_all (space_dir (state_dir s) i))
        (sq (write_config_atomically x (space_dir (state_dir s) i) c)
          (ret (s\<lparr>spaces := sort_spaces (spaces s @ [c])\<rparr>, c))))
      (\<lambda>(s', c') w. loaded x s' w \<and> state_dir s' = state_dir s \<and> c' = c \<and>
        s' = s\<lparr>spaces := sort_spaces (spaces s @ [c])\<rparr>) ?E"
    if "fresh_config s c" "c_id c = i" for c
    unfolding space_dir_slug [OF ok(1)]
    using write_new_hoare [OF x that(1)] that(2)
    by (intro hoare_sq [OF mkdir_hoare] hoare_sq [OF write_new_hoare [OF x that(1), unfolded that(2)]] hoare_ret)
      simp
  have rest: "hoare (loaded x s)
      (bnd (allocate_cid (spaces s)) (\<lambda>cid. sq (ensure_uid_is_free (UID_BASE + cid))
        (bnd now_rfc3339 (\<lambda>created. let c = \<lparr>c_id = i, c_profile = p, c_digest = digest, c_cid = cid,
            c_uid = UID_BASE + cid, c_label = l, c_color = k, c_created = created, c_clean = None,
            c_encrypted = enc\<rparr>; d = space_dir (state_dir s) i
          in sq (create_dir_all d) (sq (write_config_atomically x d c)
            (ret (s\<lparr>spaces := sort_spaces (spaces s @ [c])\<rparr>, c)))))))
      (\<lambda>(s', c) w. loaded x s' w \<and> state_dir s' = state_dir s \<and> fresh_config s c \<and> c_id c = i \<and>
       c_profile c = p \<and> c_digest c = digest \<and> c_label c = l \<and> c_color c = k \<and>
       c_encrypted c = enc \<and> c_clean c = None \<and> s' = s\<lparr>spaces := sort_spaces (spaces s @ [c])\<rparr>) ?E"
    if free: "id_str i \<noteq> MIYORI_NET_ID" "store_get s i = None"
  proof (rule hoare_bnd [OF alloc])
    fix cid
    let ?c = "\<lambda>created. \<lparr>c_id = i, c_profile = p, c_digest = digest, c_cid = cid,
            c_uid = UID_BASE + cid, c_label = l, c_color = k, c_created = created, c_clean = None,
            c_encrypted = enc\<rparr>"
    show "hoare (\<lambda>w. loaded x s w \<and> ?cid_ok cid)
       (sq (ensure_uid_is_free (UID_BASE + cid))
        (bnd now_rfc3339 (\<lambda>created. let c = ?c created; d = space_dir (state_dir s) i
          in sq (create_dir_all d) (sq (write_config_atomically x d c)
            (ret (s\<lparr>spaces := sort_spaces (spaces s @ [c])\<rparr>, c))))))
       (\<lambda>(s', c) w. loaded x s' w \<and> state_dir s' = state_dir s \<and> fresh_config s c \<and> c_id c = i \<and>
       c_profile c = p \<and> c_digest c = digest \<and> c_label c = l \<and> c_color c = k \<and>
       c_encrypted c = enc \<and> c_clean c = None \<and> s' = s\<lparr>spaces := sort_spaces (spaces s @ [c])\<rparr>) ?E"
    proof (cases "?cid_ok cid")
      case True
      then have f: "fresh_config s (?c created)" for created
        using free ok by (auto simp: fresh_config_def config_ok_def)
      show ?thesis
        unfolding Let_def
        by (rule hoare_pre, rule hoare_sq [OF uid], rule hoare_bnd [OF clock],
            rule hoare_post [OF save [OF f]]) (use f in auto)
    next
      case False
      then show ?thesis by (auto simp: hoare_def)
    qed
  qed
  show ?thesis
    unfolding create_space_def guard_def
    using rest loaded_store_ok
    by (auto simp: sq_def bnd_def hoare_def ret_def fail_def split: if_splits)
qed

lemma update_first_facts:
  assumes "distinct (map c_id cs)" "c \<in> set cs" "c_id c = i" "c_id (f c) = i" "c_cid (f c) = c_cid c"
  shows "set (update_first (\<lambda>b. c_id b = i) f cs) = insert (f c) {b \<in> set cs. c_id b \<noteq> i}"
    "map c_id (update_first (\<lambda>b. c_id b = i) f cs) = map c_id cs"
    "map c_cid (update_first (\<lambda>b. c_id b = i) f cs) = map c_cid cs"
proof -
  have "set (update_first (\<lambda>b. c_id b = i) f cs) = insert (f c) {b \<in> set cs. c_id b \<noteq> i} \<and>
      map c_id (update_first (\<lambda>b. c_id b = i) f cs) = map c_id cs \<and>
      map c_cid (update_first (\<lambda>b. c_id b = i) f cs) = map c_cid cs"
    using assms(1,2)
  proof (induction cs)
    case (Cons a cs)
    show ?case
    proof (cases "c_id a = i")
      case True
      with Cons.prems assms(3) have "a = c" by (auto simp: image_iff)
      moreover have "i \<notin> c_id ` set cs" using Cons.prems True by auto
      ultimately show ?thesis using assms by (auto simp: image_iff)
    next
      case False
      with Cons show ?thesis using assms(3) by auto
    qed
  qed simp
  then show "set (update_first (\<lambda>b. c_id b = i) f cs) = insert (f c) {b \<in> set cs. c_id b \<noteq> i}"
    "map c_id (update_first (\<lambda>b. c_id b = i) f cs) = map c_id cs"
    "map c_cid (update_first (\<lambda>b. c_id b = i) f cs) = map c_cid cs" by auto
qed

lemma remove_first_facts:
  assumes "distinct (map c_id cs)"
  shows "set (remove_first (\<lambda>b. c_id b = i) cs) = {b \<in> set cs. c_id b \<noteq> i} \<and>
    remove_first (\<lambda>b. c_id b = i) cs = filter (\<lambda>b. c_id b \<noteq> i) cs"
  using assms
proof (induction cs)
  case (Cons a cs)
  then show ?case
    by (cases "c_id a = i") (auto simp: image_iff intro!: filter_True [symmetric])
qed simp

lemma update_space_hoare:
  assumes x: "libs_ok x"
    and f: "\<And>c. config_ok c \<Longrightarrow> config_ok (f c)" "\<And>c. c_id (f c) = c_id c" "\<And>c. c_cid (f c) = c_cid c"
  shows "hoare (loaded x s) (update_space x s i f)
    (\<lambda>s' w. loaded x s' w \<and> state_dir s' = state_dir s \<and>
       spaces s' = update_first (\<lambda>b. c_id b = i) f (spaces s) \<and>
       config_at x (state_dir s) (id_str i) w = map_option f (store_get s i))
    (\<lambda>_. loaded x s)"
  unfolding hoare_def
proof (intro allI impI)
  fix w assume l: "loaded x s w"
  let ?Q = "\<lambda>s' w. loaded x s' w \<and> state_dir s' = state_dir s \<and>
       spaces s' = update_first (\<lambda>b. c_id b = i) f (spaces s) \<and>
       config_at x (state_dir s) (id_str i) w = map_option f (store_get s i)"
  show "case update_space x s i f w of (Inl u, w') \<Rightarrow> loaded x s w' | (Inr s', w') \<Rightarrow> ?Q s' w'"
  proof (cases "store_get s i")
    case None
    then show ?thesis using l by (simp add: update_space_def fail_def)
  next
    case (Some c)
    let ?e = "id_str i"
    note g = loaded_get [OF l Some]
    have dirs: "is_dir (spaces_dir (state_dir s)) w" "is_dir (spaces_dir (state_dir s) @ [?e]) w"
      using g config_at_file [of x "state_dir s" ?e w c] l by (auto simp: loaded_def store_ok_def)
    have sd: "space_dir (state_dir s) i = spaces_dir (state_dir s) @ [?e]"
      using g by (auto simp: config_ok_def intro: space_dir_slug)
    have dc: "b = c" if "b \<in> set (spaces s)" "c_cid b = c_cid c" for b
      using l g that by (auto simp: loaded_def distinct_map inj_on_def)
    show ?thesis
    proof (cases "write_config_atomically x (space_dir (state_dir s) i) (f c) w")
      case (Pair r w')
      have new: "c_cid b \<noteq> c_cid (f c)" if "config_at x (state_dir s) d w = Some b" "d \<noteq> ?e" for d b
        using loaded_other [OF l that(1)] that(2) g dc f(3) by metis
      have out: "store_ok x (state_dir s) w' \<and>
        (\<forall>d. d \<noteq> ?e \<longrightarrow> config_at x (state_dir s) d w' = config_at x (state_dir s) d w) \<and>
        config_at x (state_dir s) ?e w' = (if isl r then config_at x (state_dir s) ?e w else Some (f c))"
        using store_ok_write [OF Pair [unfolded sd] loaded_store_ok [OF l] x f(1) _ dirs new] g f(2) by auto
      let ?t = "update_first (\<lambda>b. c_id b = i) f (spaces s)"
      have t: "set ?t = insert (f c) {b \<in> set (spaces s). c_id b \<noteq> i}"
          "map c_id ?t = map c_id (spaces s)" "map c_cid ?t = map c_cid (spaces s)"
        using update_first_facts [of "spaces s" c i f] g f l by (auto simp: loaded_def)
      have "loaded x (s\<lparr>spaces := ?t\<rparr>) w'" if "\<not> isl r"
      proof (rule loaded_put [OF l, of "f c" ?e])
        show "config_ok (f c)" using f g by blast
        show "id_str (c_id (f c)) = ?e" using f g by simp
        show "c_cid b \<noteq> c_cid (f c)" if "b \<in> set (spaces s)" "id_str (c_id b) \<noteq> ?e" for b
          using that dc g f(3) by metis
        show "set ?t = insert (f c) {b \<in> set (spaces s). id_str (c_id b) \<noteq> ?e}"
          using t(1) by (simp add: id_str_inject)
        show "config_at x (state_dir s) d w' = (if d = ?e then Some (f c) else config_at x (state_dir s) d w)" for d
          using out that by simp
        show "distinct (map c_id ?t)" "distinct (map c_cid ?t)" "sorted (map c_id ?t)"
          using l unfolding t by (auto simp: loaded_def)
      qed (use out in auto)
      moreover have "loaded x s w'" if "isl r"
      proof -
        have "config_at x (state_dir s) d w' = config_at x (state_dir s) d w" for d
          using out that by (cases "d = ?e") auto
        then show ?thesis using l out by (simp add: loaded_def on_disk_def)
      qed
      ultimately show ?thesis
        using Pair Some out by (cases r) (auto simp: update_space_def sq_def bnd_def ret_def)
    qed
  qed
qed

lemma remove_space_hoare:
  "hoare (loaded x s) (remove_space s i)
    (\<lambda>s' w. loaded x s' w \<and> s' = s\<lparr>spaces := remove_first (\<lambda>c. c_id c = i) (spaces s)\<rparr> \<and>
       config_at x (state_dir s) (id_str i) w = None)
    (\<lambda>_. store_ok x (state_dir s))"
  unfolding hoare_def
proof (intro allI impI)
  fix w assume l: "loaded x s w"
  let ?t = "remove_first (\<lambda>c. c_id c = i) (spaces s)"
  let ?Q = "\<lambda>s' w. loaded x s' w \<and> s' = s\<lparr>spaces := ?t\<rparr> \<and> config_at x (state_dir s) (id_str i) w = None"
  show "case remove_space s i w of (Inl u, w') \<Rightarrow> store_ok x (state_dir s) w' | (Inr s', w') \<Rightarrow> ?Q s' w'"
  proof (cases "store_get s i")
    case None
    then show ?thesis using l by (simp add: remove_space_def fail_def loaded_store_ok)
  next
    case (Some c)
    let ?e = "id_str i"
    note g = loaded_get [OF l Some]
    have sd: "space_dir (state_dir s) i = spaces_dir (state_dir s) @ [?e]"
      using g by (auto simp: config_ok_def intro: space_dir_slug)
    show ?thesis
    proof (cases "remove_dir_all (space_dir (state_dir s) i) w")
      case (Pair r w')
      note out = store_ok_remove [OF Pair [unfolded sd] loaded_store_ok [OF l]]
      have none: "config_at x (state_dir s) ?e w' = None" if "\<not> isl r"
        using out that config_at_file [of x "state_dir s" ?e w'] by (cases "config_at x (state_dir s) ?e w'") auto
      have t: "set ?t = {b \<in> set (spaces s). c_id b \<noteq> i}" "?t = filter (\<lambda>b. c_id b \<noteq> i) (spaces s)"
        using remove_first_facts [of "spaces s" i] l by (auto simp: loaded_def)
      have "loaded x (s\<lparr>spaces := ?t\<rparr>) w'" if "\<not> isl r"
      proof -
        have "on_disk x (state_dir s) w' = set ?t"
        proof (intro set_eqI iffI)
          fix b assume "b \<in> on_disk x (state_dir s) w'"
          then obtain d where d: "config_at x (state_dir s) d w' = Some b" by (auto simp: on_disk_def)
          then have "d \<noteq> ?e" using none [OF that] by auto
          then show "b \<in> set ?t" using d out loaded_other [OF l, of d b] t(1) by auto
        next
          fix b assume b: "b \<in> set ?t"
          then obtain d where d: "config_at x (state_dir s) d w = Some b"
            using l t(1) by (auto simp: loaded_def on_disk_def)
          moreover have "d \<noteq> ?e" using loaded_other [OF l d] b t(1) by (auto simp: id_str_inject)
          ultimately have "config_at x (state_dir s) d w' = Some b" using out by simp
          then show "b \<in> on_disk x (state_dir s) w'" by (auto simp: on_disk_def)
        qed
        moreover have "distinct (map c_id ?t) \<and> distinct (map c_cid ?t) \<and> sorted (map c_id ?t)"
          using l unfolding t(2) by (auto simp: loaded_def distinct_map_filter sorted_filter distinct_map inj_on_def)
        ultimately show ?thesis using out by (simp add: loaded_def)
      qed
      then show ?thesis
        using Pair Some out none by (cases r) (auto simp: remove_space_def sq_def bnd_def ret_def)
    qed
  qed
qed

end
