(* ===== verification/Render.thy ===== *)
theory Render
  imports StoreInv
begin

text \<open>
  \<open>components/daemon/src/render.rs\<close> and the \<open>render\<close> subcommand of its \<open>main.rs\<close>:
  the registry the broker reads and the bridge ruleset, both functions of the
  list of spaces.  A rule is a \<open>rule\<close> and \<open>rule_line\<close> is its text; \<open>verdict\<close> is
  what the kernel makes of a chain of such rules for one frame.
\<close>

record RegistryEntry =
  e_id :: SpaceId
  e_cid :: nat
  e_label :: Label
  e_color :: Color

definition MIYORI_NET_CID :: nat where
  "MIYORI_NET_CID = 9"

definition miyori_net_entry :: RegistryEntry where
  "miyori_net_entry =
     \<lparr>e_id = SpaceId MIYORI_NET_ID, e_cid = MIYORI_NET_CID, e_label = Label ''trusted'',
      e_color = Color ''#2f9e44''\<rparr>"

definition toml_space :: "RegistryEntry \<Rightarrow> space" where
  "toml_space e =
     \<lparr>sp_id = id_str (e_id e), sp_cid = e_cid e, sp_label = label_str (e_label e),
      sp_color = color_str (e_color e)\<rparr>"

definition registry_rows :: "RegistryEntry list \<Rightarrow> RegistryEntry list" where
  "registry_rows es =
     sort_key e_cid (filter (\<lambda>e. id_str (e_id e) \<noteq> MIYORI_NET_ID) es @ [miyori_net_entry])"

definition render_registry :: "libs \<Rightarrow> RegistryEntry list \<Rightarrow> string" where
  "render_registry x es = print_registry x (map toml_space (registry_rows es))"

definition entry_of_space :: "space \<Rightarrow> RegistryEntry option" where
  "entry_of_space s =
     (case (SpaceId_new (sp_id s), Label_new (sp_label s), Color_new (sp_color s)) of
        (Inr i, Inr l, Inr k) \<Rightarrow> Some \<lparr>e_id = i, e_cid = sp_cid s, e_label = l, e_color = k\<rparr>
      | _ \<Rightarrow> None)"

definition load_registry_file :: "libs \<Rightarrow> path \<Rightarrow> RegistryEntry list io" where
  "load_registry_file x p =
     bnd (read_to_string p) (\<lambda>src.
       case Option.bind (toml_registry x src) (\<lambda>ss. those (map entry_of_space ss)) of
         None \<Rightarrow> fail () | Some es \<Rightarrow> ret es)"

section \<open>The bridge ruleset\<close>

datatype rule =
    OtherBridge
  | Uplink
  | SpaceIp string string string
  | SpaceArp string string string
  | DropAll

definition rule_line :: "rule \<Rightarrow> string" where
  "rule_line r =
     (case r of
        OtherBridge \<Rightarrow> [CHR 0x09, CHR 0x09] @ ''meta ibrname != '' @ [CHR 0x22] @ ''br-spaces'' @ [CHR 0x22] @ '' accept''
      | Uplink \<Rightarrow> [CHR 0x09, CHR 0x09] @ ''iifname '' @ [CHR 0x22] @ ''tap-spaces'' @ [CHR 0x22] @ '' accept''
      | SpaceIp tap mac ip \<Rightarrow>
          [CHR 0x09, CHR 0x09] @ ''iifname '' @ [CHR 0x22] @ tap @ [CHR 0x22] @ '' ether saddr '' @ mac @
          '' ip saddr '' @ ip @ '' accept''
      | SpaceArp tap mac ip \<Rightarrow>
          [CHR 0x09, CHR 0x09] @ ''iifname '' @ [CHR 0x22] @ tap @ [CHR 0x22] @ '' ether saddr '' @ mac @
          '' arp saddr ip '' @ ip @ '' accept''
      | DropAll \<Rightarrow> [CHR 0x09, CHR 0x09] @ ''drop'')"

definition space_rules :: "RegistryEntry \<Rightarrow> rule list" where
  "space_rules e =
     [SpaceIp (space_tap (e_cid e)) (space_mac (e_cid e)) (space_ipv4 (e_cid e)),
      SpaceArp (space_tap (e_cid e)) (space_mac (e_cid e)) (space_ipv4 (e_cid e))]"

definition nft_spaces :: "RegistryEntry list \<Rightarrow> RegistryEntry list" where
  "nft_spaces es = filter (\<lambda>e. id_str (e_id e) \<noteq> MIYORI_NET_ID) es"

definition forward_rules :: "RegistryEntry list \<Rightarrow> rule list" where
  "forward_rules es =
     [OtherBridge, Uplink] @ concat (map space_rules (sort_key e_cid (nft_spaces es))) @ [DropAll]"

definition tabbed :: "nat \<Rightarrow> string \<Rightarrow> nft_line" where
  "tabbed n s = NftLine (replicate n (CHR 0x09) @ s)"

text \<open>\<open>None\<close> is the error of a CID over 255; every line ends in a line feed.\<close>

definition render_nft :: "RegistryEntry list \<Rightarrow> nft_line list option" where
  "render_nft es =
     (if list_ex (\<lambda>e. MAX_CID < e_cid e) (nft_spaces es) then None
      else Some (
        [NftLine ''#!/usr/sbin/nft -f'', NftComment, NftComment,
         NftLine ''add table bridge miyori'', NftLine ''flush table bridge miyori'', NftLine [],
         NftLine ''table bridge miyori {'', tabbed 1 ''chain spaces {'',
         tabbed 2 ''type filter hook forward priority filter; policy accept;'', NftLine [], NftComment,
         NftLine (rule_line OtherBridge), NftLine [], NftLine (rule_line Uplink), NftLine []] @
        map (\<lambda>r. NftLine (rule_line r)) (concat (map space_rules (sort_key e_cid (nft_spaces es)))) @
        [NftLine [], NftComment, NftLine (rule_line DropAll), tabbed 1 ''}'', NftLine [],
         NftComment, NftComment, NftComment, tabbed 1 ''chain to-host {'',
         tabbed 2 ''type filter hook input priority filter; policy accept;'',
         NftLine (rule_line OtherBridge), tabbed 2 ''counter drop'', tabbed 1 ''}'', NftLine ''}'']))"

text \<open>
  A frame that enters a bridge: the bridge, the port, the source MAC, and the
  source address of an IPv4 or an ARP packet.
\<close>

datatype packet = Ip4 string | Arp string | OtherPacket

record frame =
  f_bridge :: string
  f_port :: string
  f_mac :: string
  f_packet :: packet

datatype decision = Accept | Drop

definition matches :: "rule \<Rightarrow> frame \<Rightarrow> decision option" where
  "matches r f =
     (case r of
        OtherBridge \<Rightarrow> if f_bridge f \<noteq> ''br-spaces'' then Some Accept else None
      | Uplink \<Rightarrow> if f_port f = ''tap-spaces'' then Some Accept else None
      | SpaceIp tap mac ip \<Rightarrow>
          if f_port f = tap \<and> f_mac f = mac \<and> f_packet f = Ip4 ip then Some Accept else None
      | SpaceArp tap mac ip \<Rightarrow>
          if f_port f = tap \<and> f_mac f = mac \<and> f_packet f = Arp ip then Some Accept else None
      | DropAll \<Rightarrow> Some Drop)"

text \<open>First match; the policy of the chain is \<open>accept\<close>.\<close>

fun verdict :: "rule list \<Rightarrow> frame \<Rightarrow> decision" where
  "verdict [] f = Accept"
| "verdict (r # rs) f = (case matches r f of Some d \<Rightarrow> d | None \<Rightarrow> verdict rs f)"

section \<open>Merging a registry file with a state directory\<close>

datatype merge_error = CidConflict nat SpaceId SpaceId | IdConflict SpaceId nat nat

fun merge_check :: "RegistryEntry list \<Rightarrow> RegistryEntry \<Rightarrow> merge_error + bool" where
  "merge_check [] e = Inr True"
| "merge_check (b # bs) e =
     (if e_cid b = e_cid e \<and> e_id b = e_id e then Inr False
      else if e_cid b = e_cid e then Inl (CidConflict (e_cid e) (e_id b) (e_id e))
      else if e_id b = e_id e then Inl (IdConflict (e_id e) (e_cid b) (e_cid e))
      else merge_check bs e)"

fun merge_into :: "RegistryEntry list \<Rightarrow> RegistryEntry list \<Rightarrow> merge_error + RegistryEntry list" where
  "merge_into merged [] = Inr merged"
| "merge_into merged (e # es) =
     (case merge_check merged e of
        Inl err \<Rightarrow> Inl err
      | Inr True \<Rightarrow> merge_into (merged @ [e]) es
      | Inr False \<Rightarrow> merge_into merged es)"

definition merge_entries :: "RegistryEntry list \<Rightarrow> RegistryEntry list \<Rightarrow> merge_error + RegistryEntry list" where
  "merge_entries a b =
     (case merge_into [] (a @ b) of Inl err \<Rightarrow> Inl err | Inr es \<Rightarrow> Inr (sort_key e_cid es))"

definition entry_of_config :: "SpaceConfig \<Rightarrow> RegistryEntry" where
  "entry_of_config c = \<lparr>e_id = c_id c, e_cid = c_cid c, e_label = c_label c, e_color = c_color c\<rparr>"

definition entries_from_state_dir :: "libs \<Rightarrow> path \<Rightarrow> RegistryEntry list io" where
  "entries_from_state_dir x d = bnd (store_load x d) (\<lambda>s. ret (map entry_of_config (spaces s)))"

section \<open>What the registry promises the broker\<close>

lemma registry_rows_set:
  "set (registry_rows es) = {e \<in> set es. id_str (e_id e) \<noteq> MIYORI_NET_ID} \<union> {miyori_net_entry}"
  by (auto simp: registry_rows_def)

lemma net_id_slug: "is_safe_slug MIYORI_NET_ID"
  unfolding MIYORI_NET_ID_def by code_simp

lemma rows_ok:
  assumes "loaded x s w"
  shows "registry_ok (map toml_space (registry_rows (map entry_of_config (spaces s))))"
proof -
  let ?es = "filter (\<lambda>e. id_str (e_id e) \<noteq> MIYORI_NET_ID) (map entry_of_config (spaces s))"
  have each: "config_ok c" if "c \<in> set (spaces s)" for c
    using loaded_config_ok [OF assms that] .
  have "sp_cid \<circ> toml_space = e_cid" "sp_id \<circ> toml_space = id_str \<circ> e_id"
    by (auto simp: toml_space_def)
  moreover have "distinct (map e_cid (registry_rows (map entry_of_config (spaces s))))"
    unfolding registry_rows_def distinct_sort_key
    using assms each
    by (auto simp: loaded_def distinct_map inj_on_def entry_of_config_def miyori_net_entry_def
        config_ok_def MIYORI_NET_CID_def NET_CID_def) 
  moreover have "distinct (map (id_str \<circ> e_id) (registry_rows (map entry_of_config (spaces s))))"
  proof -
    have "distinct (map id_str (map c_id (spaces s)))"
      using assms unfolding distinct_map [of id_str] by (auto simp: loaded_def inj_on_def id_str_inject)
    then have "distinct (map (id_str \<circ> e_id) ?es)"
      by (simp add: filter_map entry_of_config_def o_def List.distinct_map_filter)
    then show ?thesis
      unfolding registry_rows_def distinct_sort_key by (auto simp: miyori_net_entry_def)
  qed
  moreover have "list_all (\<lambda>r. is_safe_slug (sp_id r) \<and> 3 \<le> sp_cid r)
      (map toml_space (registry_rows (map entry_of_config (spaces s))))"
    using each net_id_slug
    by (auto simp: list_all_iff registry_rows_set toml_space_def entry_of_config_def config_ok_def id_ok_def
        miyori_net_entry_def MIYORI_NET_CID_def)
  ultimately show ?thesis by (simp add: registry_ok_def)
qed

lemma registry_roundtrip:
  assumes "libs_ok x" "loaded x s w"
  shows "registry_parse (toml_registry x) (render_registry x (map entry_of_config (spaces s))) =
    Inr (map toml_space (registry_rows (map entry_of_config (spaces s))))"
proof -
  have "registry_validate (map toml_space (registry_rows (map entry_of_config (spaces s)))) = Inr ()"
    unfolding registry_validate_def validate_from_ok using rows_ok [OF assms(2)] by simp
  with assms(1) show ?thesis by (simp add: registry_parse_def render_registry_def libs_ok_def)
qed

lemma registry_finds:
  assumes "loaded x s w" "c \<in> set (spaces s)"
  shows "by_cid (map toml_space (registry_rows (map entry_of_config (spaces s)))) (c_cid c) =
    Some (toml_space (entry_of_config c))"
proof -
  have "id_str (c_id c) \<noteq> MIYORI_NET_ID"
    using loaded_config_ok [OF assms] by (simp add: config_ok_def)
  then have "toml_space (entry_of_config c) \<in> set (map toml_space (registry_rows (map entry_of_config (spaces s))))"
    using assms(2) by (auto simp: registry_rows_set entry_of_config_def)
  moreover have "sp_cid (toml_space (entry_of_config c)) = c_cid c"
    by (simp add: toml_space_def entry_of_config_def)
  ultimately show ?thesis
    using rows_ok [OF assms(1)] find_SomeI [of "toml_space (entry_of_config c)" _ sp_cid]
    by (simp add: by_cid_def registry_ok_def)
qed

section \<open>Merging\<close>

definition compatible :: "RegistryEntry \<Rightarrow> RegistryEntry \<Rightarrow> bool" where
  "compatible a b \<longleftrightarrow> (e_cid a = e_cid b \<longleftrightarrow> e_id a = e_id b)"

lemma merge_check_Inr:
  "merge_check bs e = Inr fresh \<Longrightarrow>
     (fresh \<longrightarrow> (\<forall>b \<in> set bs. e_cid b \<noteq> e_cid e \<and> e_id b \<noteq> e_id e)) \<and>
     (\<not> fresh \<longrightarrow> (\<exists>b \<in> set bs. e_cid b = e_cid e \<and> e_id b = e_id e))"
  by (induction bs) (auto split: if_splits)

lemma merge_check_Inl: "merge_check bs e = Inl err \<Longrightarrow> \<exists>b \<in> set bs. \<not> compatible b e"
  by (induction bs) (auto simp: compatible_def split: if_splits)

definition key :: "RegistryEntry \<Rightarrow> nat \<times> SpaceId" where
  "key e = (e_cid e, e_id e)"

lemma merge_into_Inr:
  "merge_into m es = Inr r \<Longrightarrow> distinct (map e_cid m) \<Longrightarrow> distinct (map e_id m) \<Longrightarrow>
     distinct (map e_cid r) \<and> distinct (map e_id r) \<and> key ` set r = key ` set (m @ es) \<and> set r \<subseteq> set (m @ es)"
proof (induction m es rule: merge_into.induct)
  case (2 m e es)
  then obtain fresh where c: "merge_check m e = Inr fresh" by (auto split: sum.splits)
  note f = merge_check_Inr [OF c]
  show ?case
  proof (cases fresh)
    case True
    then have run: "merge_into (m @ [e]) es = Inr r" using "2.prems"(1) c by simp
    have "distinct (map e_cid (m @ [e]))" "distinct (map e_id (m @ [e]))"
      using f True "2.prems" by auto
    with "2.IH"(1) [OF c _ run] True show ?thesis by simp
  next
    case False
    then have run: "merge_into m es = Inr r" using "2.prems"(1) c by simp
    from False f obtain b where "b \<in> set m" "key e = key b" by (auto simp: key_def)
    then have "key e \<in> key ` set m" by blast
    moreover note "2.IH"(2) [OF c _ run "2.prems"(2,3)]
    ultimately show ?thesis using False by auto
  qed
qed simp

lemma merge_into_Inl:
  "merge_into m es = Inl err \<Longrightarrow> \<exists>a \<in> set (m @ es). \<exists>b \<in> set (m @ es). \<not> compatible a b"
proof (induction m es rule: merge_into.induct)
  case (2 m e es)
  show ?case
  proof (cases "merge_check m e")
    case (Inl er)
    then show ?thesis using merge_check_Inl [OF Inl] by auto
  next
    case (Inr fresh)
    then show ?thesis using 2 by (cases fresh) auto
  qed
qed simp

section \<open>Properties\<close>

text \<open>
  Merging succeeds exactly when no two entries share only one of CID and id;
  the result then lists each (CID, id) pair of the inputs once, in the order of
  the CIDs, so no CID is ever given to two spaces.
\<close>

theorem merge_entries_iff:
  "(case merge_entries a b of
      Inl _ \<Rightarrow> \<exists>e \<in> set (a @ b). \<exists>e' \<in> set (a @ b). \<not> compatible e e'
    | Inr r \<Rightarrow> (\<forall>e \<in> set (a @ b). \<forall>e' \<in> set (a @ b). compatible e e') \<and>
        key ` set r = key ` set (a @ b) \<and> set r \<subseteq> set (a @ b) \<and>
        distinct (map e_cid r) \<and> distinct (map e_id r) \<and> sorted (map e_cid r))"
proof (cases "merge_into [] (a @ b)")
  case (Inl err)
  then show ?thesis using merge_into_Inl [OF Inl] by (simp add: merge_entries_def)
next
  case (Inr r)
  note m = merge_into_Inr [OF Inr]
  have "compatible e e'" if "e \<in> set (a @ b)" "e' \<in> set (a @ b)" for e e'
  proof -
    from m have "key ` set r = key ` set (a @ b)" by simp
    with that have "key e \<in> key ` set r" "key e' \<in> key ` set r" by blast+
    then obtain u u' where u: "u \<in> set r" "u' \<in> set r" "key u = key e" "key u' = key e'"
      by (auto simp: image_iff)
    have "e_cid u = e_cid u' \<longleftrightarrow> e_id u = e_id u'"
      using m u(1,2) by (auto simp: distinct_map inj_on_def)
    with u(3,4) show ?thesis by (simp add: compatible_def key_def)
  qed
  with m show ?thesis
    by (simp add: merge_entries_def Inr distinct_sort_key)
qed

definition ex_entry :: "string \<Rightarrow> nat \<Rightarrow> RegistryEntry" where
  "ex_entry i cid = \<lparr>e_id = SpaceId i, e_cid = cid, e_label = Label ''work'', e_color = Color ''#ff0000''\<rparr>"

theorem merge_entries_iff_witness:
  "isl (merge_entries [ex_entry ''a'' 4] [ex_entry ''b'' 4]) \<and>
   merge_entries [ex_entry ''a'' 4] [ex_entry ''b'' 5] = Inr [ex_entry ''a'' 4, ex_entry ''b'' 5]"
proof
  show "isl (merge_entries [ex_entry ''a'' 4] [ex_entry ''b'' 4])"
    using merge_entries_iff [of "[ex_entry ''a'' 4]" "[ex_entry ''b'' 4]"]
    by (cases "merge_entries [ex_entry ''a'' 4] [ex_entry ''b'' 4]") (auto simp: compatible_def ex_entry_def)
qed (simp add: merge_entries_def ex_entry_def)

definition chain_rules :: "nft_line list \<Rightarrow> nft_line list" where
  "chain_rules ls =
     filter (\<lambda>l. l \<noteq> NftComment \<and> l \<noteq> NftLine [] \<and>
         l \<noteq> tabbed 2 ''type filter hook forward priority filter; policy accept;'')
       (takeWhile (\<lambda>l. l \<noteq> tabbed 1 ''}'')
         (tl (dropWhile (\<lambda>l. l \<noteq> tabbed 1 ''chain spaces {'') ls)))"

lemma rule_line_shape: "\<exists>u v t. rule_line r = [CHR 0x09, CHR 0x09, u] @ v # t \<and> u \<in> {CHR ''m'', CHR ''i'', CHR ''d''}"
  by (cases r) (auto simp: rule_line_def)

lemma rule_line_not:
  "NftLine (rule_line r) \<noteq> tabbed 1 ''}''" "rule_line r \<noteq> []"
  "NftLine (rule_line r) \<noteq> tabbed 2 ''type filter hook forward priority filter; policy accept;''"
  using rule_line_shape [of r] by (auto simp: tabbed_def numeral_2_eq_2)

lemma takeWhile_all: "(\<And>y. y \<in> set ys \<Longrightarrow> P y) \<Longrightarrow> takeWhile P (ys @ zs) = ys @ takeWhile P zs"
  by (induction ys) auto

lemma chain_rules_nft:
  assumes "render_nft es = Some ls"
  shows "chain_rules ls = map (\<lambda>r. NftLine (rule_line r)) (forward_rules es)"
proof -
  let ?sp = "map (\<lambda>r. NftLine (rule_line r)) (concat (map space_rules (sort_key e_cid (nft_spaces es))))"
  let ?ty = "tabbed 2 ''type filter hook forward priority filter; policy accept;''"
  let ?P = "\<lambda>l. l \<noteq> NftComment \<and> l \<noteq> NftLine [] \<and> l \<noteq> ?ty"
  let ?pre = "[?ty, NftLine [], NftComment, NftLine (rule_line OtherBridge), NftLine [],
      NftLine (rule_line Uplink), NftLine []]"
  obtain post where tl: "tl (dropWhile (\<lambda>l. l \<noteq> tabbed 1 ''chain spaces {'') ls) =
      ?pre @ ?sp @ [NftLine [], NftComment, NftLine (rule_line DropAll)] @ tabbed 1 ''}'' # post"
    using assms by (auto simp: render_nft_def tabbed_def split: if_splits)
  have sp: "?P l \<and> l \<noteq> tabbed 1 ''}''" if "l \<in> set ?sp" for l
    using that rule_line_not by auto
  have pre: "l \<noteq> tabbed 1 ''}''" if "l \<in> set ?pre" for l
    using that rule_line_not(1) [of OtherBridge] rule_line_not(1) [of Uplink]
    by (auto simp: tabbed_def numeral_2_eq_2)
  have post: "takeWhile (\<lambda>l. l \<noteq> tabbed 1 ''}'')
      ([NftLine [], NftComment, NftLine (rule_line DropAll)] @ tabbed 1 ''}'' # post) =
      [NftLine [], NftComment, NftLine (rule_line DropAll)]"
    using rule_line_not(1) [of DropAll] by (simp add: tabbed_def)
  have "filter ?P ?sp = ?sp" using sp by (intro filter_True) blast
  moreover have "filter ?P ?pre = [NftLine (rule_line OtherBridge), NftLine (rule_line Uplink)]"
    using rule_line_not by (simp add: tabbed_def)
  moreover have "filter ?P [NftLine [], NftComment, NftLine (rule_line DropAll)] = [NftLine (rule_line DropAll)]"
    using rule_line_not [of DropAll] by simp
  ultimately show ?thesis
    unfolding chain_rules_def tl
    by (simp only: takeWhile_all [OF pre] takeWhile_all [OF conjunct2 [OF sp]] post filter_append)
      (simp add: forward_rules_def)
qed

lemma verdict_spaces:
  "verdict (concat (map space_rules es) @ [DropAll]) f =
     (if \<exists>e \<in> set es. f_port f = space_tap (e_cid e) \<and> f_mac f = space_mac (e_cid e) \<and>
          (f_packet f = Ip4 (space_ipv4 (e_cid e)) \<or> f_packet f = Arp (space_ipv4 (e_cid e)))
      then Accept else Drop)"
  by (induction es) (auto simp: space_rules_def matches_def split: option.splits)



end
