(* ===== verification/Net.thy ===== *)
theory Net
  imports Render
begin

text \<open>
  \<open>components/daemon/src/net.rs\<close>: the tap of a space, the registry file and the
  bridge ruleset, and what \<open>net-status\<close> reports.  Each external command is
  recorded with its arguments; \<open>ip\<close> and \<open>bridge\<close> act on the links of the world.
\<close>

definition BRIDGE :: string where
  "BRIDGE = ''br-spaces''"

definition CAPTIVE_BRIDGE :: string where
  "CAPTIVE_BRIDGE = ''br-captive''"

definition CONSOLE_TAIL_BYTES :: nat where
  "CONSOLE_TAIL_BYTES = 64 * 1024"

definition RULESET_MAX_CHARS :: nat where
  "RULESET_MAX_CHARS = 120 * 1024"

definition log_command :: "string list \<Rightarrow> ('e, unit) m" where
  "log_command argv = tell (\<lambda>w. w\<lparr>commands := commands w @ [argv]\<rparr>)"

text \<open>\<open>ip link show\<close>; not being able to run it counts as no such link.\<close>

definition link_exists :: "string \<Rightarrow> ('e, bool) m" where
  "link_exists name =
     sq (log_command [''ip'', ''link'', ''show'', name])
        (\<lambda>w. (Inr (in_sysfs name w \<and> \<not> faulty w), tick w))"

definition bridge_exists :: "('e, bool) m" where
  "bridge_exists = link_exists BRIDGE"

definition change_link :: "string \<Rightarrow> (link \<Rightarrow> link) \<Rightarrow> world \<Rightarrow> world" where
  "change_link name f w =
     (case al_get (links w) name of
        None \<Rightarrow> w | Some l \<Rightarrow> w\<lparr>links := al_put name (f l) (links w)\<rparr>)"

definition ip_tuntap_add :: "string \<Rightarrow> nat \<Rightarrow> unit io" where
  "ip_tuntap_add tap uid =
     command [''ip'', ''tuntap'', ''add'', ''dev'', tap, ''mode'', ''tap'', ''user'', dec uid]
       (\<lambda>w. \<not> in_sysfs tap w)
       (\<lambda>w. w\<lparr>links := al_put tap \<lparr>l_uid = uid, l_master = None, l_isolated = False, l_up = False\<rparr> (links w)\<rparr>)
       id"

definition ip_set_master :: "string \<Rightarrow> string \<Rightarrow> unit io" where
  "ip_set_master tap br =
     command [''ip'', ''link'', ''set'', tap, ''master'', br]
       (\<lambda>w. in_sysfs tap w \<and> in_sysfs br w) (change_link tap (\<lambda>l. l\<lparr>l_master := Some br\<rparr>)) id"

definition bridge_isolate :: "string \<Rightarrow> unit io" where
  "bridge_isolate tap =
     command [''bridge'', ''link'', ''set'', ''dev'', tap, ''isolated'', ''on'']
       (\<lambda>w. case al_get (links w) tap of None \<Rightarrow> False | Some l \<Rightarrow> l_master l \<noteq> None)
       (change_link tap (\<lambda>l. l\<lparr>l_isolated := True\<rparr>)) id"

definition ip_set_up :: "string \<Rightarrow> unit io" where
  "ip_set_up tap =
     command [''ip'', ''link'', ''set'', tap, ''up''] (in_sysfs tap) (change_link tap (\<lambda>l. l\<lparr>l_up := True\<rparr>)) id"

definition create_tap :: "nat \<Rightarrow> nat \<Rightarrow> unit io" where
  "create_tap cid uid =
     (let tap = space_tap cid in
      sq (ip_tuntap_add tap uid)
     (sq (ip_set_master tap BRIDGE)
     (sq (bridge_isolate tap)
         (ip_set_up tap))))"

definition delete_tap :: "nat \<Rightarrow> unit io" where
  "delete_tap cid =
     (let tap = space_tap cid in
      command [''ip'', ''link'', ''del'', tap] (in_sysfs tap) (\<lambda>w. w\<lparr>links := al_del tap (links w)\<rparr>) id)"

definition reap_leftover_tap :: "nat \<Rightarrow> unit io" where
  "reap_leftover_tap cid =
     bnd (link_exists (space_tap cid)) (\<lambda>there. if there then delete_tap cid else ret ())"

section \<open>The registry file and the ruleset\<close>

definition write_atomically :: "path \<Rightarrow> string \<Rightarrow> unit io" where
  "write_atomically p s =
     (if p = [] then fail ()
      else
        let parent = butlast p; tmp = parent @ [''.'' @ last p @ ''.tmp'']
        in sq (create_dir_all parent) (sq (write_file tmp (Bytes s)) (rename_file tmp p)))"

definition apply_nft :: "nft_line list \<Rightarrow> unit io" where
  "apply_nft ls = command [''nft'', ''-f'', ''-''] (\<lambda>w. True) (\<lambda>w. w\<lparr>nft := Some ls\<rparr>) id"

definition refresh :: "libs \<Rightarrow> Store \<Rightarrow> path \<Rightarrow> unit io" where
  "refresh x s registry_path =
     (let es = map entry_of_config (spaces s) in
      sq (write_atomically registry_path (render_registry x es))
         (case render_nft es of None \<Rightarrow> fail () | Some ls \<Rightarrow> apply_nft ls))"

section \<open>Observation\<close>

record TapStatus =
  ts_name :: string
  ts_isolated :: "bool option"

definition parse_isolated_flag :: "string \<Rightarrow> bool option" where
  "parse_isolated_flag raw =
     (if trim raw = ''0'' then Some False else if trim raw = ''1'' then Some True else None)"

text \<open>\<open>brport/isolated\<close> exists for a link that is a port of a bridge.\<close>

definition brport_isolated :: "string \<Rightarrow> world \<Rightarrow> string option" where
  "brport_isolated name w =
     (case al_get (links w) name of
        Some l \<Rightarrow>
          (if l_master l = None then None
           else Some ((if l_isolated l then ''1'' else ''0'') @ [CHR 0x0A]))
      | None \<Rightarrow> None)"

definition tap_status :: "string \<Rightarrow> ('e, TapStatus) m" where
  "tap_status name =
     bnd (attempt (query (brport_isolated name))) (\<lambda>r.
       ret \<lparr>ts_name = name,
            ts_isolated = (case r of Inr raw \<Rightarrow> parse_isolated_flag raw | Inl _ \<Rightarrow> None)\<rparr>)"

definition list_space_taps :: "('e, TapStatus list) m" where
  "list_space_taps =
     bnd (attempt (query (\<lambda>w. Some (remdups (map fst (links w)))))) (\<lambda>r.
       case r of
         Inl _ \<Rightarrow> ret []
       | Inr names \<Rightarrow>
           bnd (each tap_status (filter (starts_with ''tap-space-'') names)) (\<lambda>ts.
             ret (sort_key ts_name ts)))"

record PciStatus =
  pci_address :: string
  pci_present :: bool
  pci_driver :: "string option"

definition pci_devices :: path where
  "pci_devices = [''sys'', ''bus'', ''pci'', ''devices'']"

definition pci_status :: "string \<Rightarrow> ('e, PciStatus) m" where
  "pci_status addr =
     bnd (attempt (read_link (pjoin pci_devices addr @ [''driver'']))) (\<lambda>r.
     bnd (ask (path_exists (pjoin pci_devices addr))) (\<lambda>present.
       ret \<lparr>pci_address = addr, pci_present = present,
            pci_driver = (case r of Inr t \<Rightarrow> map_option from_utf8_lossy (file_name t) | Inl _ \<Rightarrow> None)\<rparr>))"

record TunnelBlock =
  ifc :: string
  t_set :: string
  route :: string

record MiyoriNetStatus =
  mn_running :: bool
  mn_pid :: "nat option"
  mn_uplink :: "string option"
  mn_tunnel :: "TunnelBlock option"

text \<open>The bytes of \<open>/proc/<pid>/cmdline\<close>: every argument ends in NUL.\<close>

definition cmdline_of :: "string list \<Rightarrow> string" where
  "cmdline_of argv = concat (map (\<lambda>a. a @ [CHR 0x00]) argv)"

definition cmdline_is_miyori_net :: "string \<Rightarrow> bool" where
  "cmdline_is_miyori_net cmdline \<longleftrightarrow>
     contains_sub cmdline ''qemu-system-x86_64'' \<and> contains_sub cmdline ''MIYORI_UPLINK=''"

definition find_miyori_net :: "world \<Rightarrow> (nat \<times> string) option" where
  "find_miyori_net w =
     find (\<lambda>(pid, cmdline). cmdline_is_miyori_net cmdline)
       (map (\<lambda>(pid, argv). (pid, cmdline_of argv)) (procs w))"

fun find_map :: "('a \<Rightarrow> 'b option) \<Rightarrow> 'a list \<Rightarrow> 'b option" where
  "find_map f [] = None"
| "find_map f (y # ys) = (case f y of Some z \<Rightarrow> Some z | None \<Rightarrow> find_map f ys)"

definition parse_uplink :: "string \<Rightarrow> string option" where
  "parse_uplink cmdline =
     find_map (strip_prefix ''MIYORI_UPLINK='')
       (split_whitespace (map (\<lambda>c. if c = CHR 0x00 then CHR '' '' else c) (from_utf8_lossy cmdline)))"

definition console_path_of :: "nat \<Rightarrow> ('e, path option) m" where
  "console_path_of pid =
     bnd (attempt (read_link [''proc'', dec pid, ''fd'', ''1''])) (\<lambda>r.
       case r of
         Inl _ \<Rightarrow> ret None
       | Inr t \<Rightarrow> ask (\<lambda>w. if is_absolute t \<and> is_file (path_of t) w then Some (path_of t) else None))"

definition tail_bytes :: "nat \<Rightarrow> string \<Rightarrow> string" where
  "tail_bytes cap s = take cap (drop (length s - cap) s)"

definition read_console_tail :: "path \<Rightarrow> nat \<Rightarrow> ('e, string option) m" where
  "read_console_tail p cap =
     bnd (attempt (read_bytes p)) (\<lambda>r.
       ret (case r of Inl _ \<Rightarrow> None | Inr s \<Rightarrow> Some (from_utf8_lossy (tail_bytes cap s))))"

definition TUNNEL_BEGIN :: string where
  "TUNNEL_BEGIN = ''---MIYORI-TUNNEL-BEGIN---''"

definition TUNNEL_END :: string where
  "TUNNEL_END = ''---MIYORI-TUNNEL-END---''"

type_synonym tunnel_acc = "string option \<times> string option \<times> string option"

definition tunnel_line :: "tunnel_acc \<Rightarrow> string \<Rightarrow> tunnel_acc" where
  "tunnel_line acc l =
     (let line = trim l in
      case acc of (i, s, r) \<Rightarrow>
        (case strip_prefix ''TUNNEL-IFC:'' line of
           Some v \<Rightarrow> (Some (trim v), s, r)
         | None \<Rightarrow>
             (case strip_prefix ''TUNNEL-SET:'' line of
                Some v \<Rightarrow> (i, Some (trim v), r)
              | None \<Rightarrow>
                  (case strip_prefix ''TUNNEL-ROUTE:'' line of
                     Some v \<Rightarrow> (i, s, Some (trim v))
                   | None \<Rightarrow> (i, s, r)))))"

definition parse_last_tunnel_block :: "string \<Rightarrow> TunnelBlock option" where
  "parse_last_tunnel_block text =
     (case rfind_sub TUNNEL_BEGIN text of
        None \<Rightarrow> None
      | Some start \<Rightarrow>
          (let body = drop (start + length TUNNEL_BEGIN) text in
           case find_sub TUNNEL_END body of
             None \<Rightarrow> None
           | Some stop \<Rightarrow>
               (case foldl tunnel_line (None, None, None) (lines (take stop body)) of
                  (Some i, Some s, Some r) \<Rightarrow> Some \<lparr>ifc = i, t_set = s, route = r\<rparr>
                | _ \<Rightarrow> None)))"

definition miyori_net_status :: "('e, MiyoriNetStatus) m" where
  "miyori_net_status =
     bnd (ask find_miyori_net) (\<lambda>r.
       case r of
         None \<Rightarrow> ret \<lparr>mn_running = False, mn_pid = None, mn_uplink = None, mn_tunnel = None\<rparr>
       | Some (pid, cmdline) \<Rightarrow>
           bnd (console_path_of pid) (\<lambda>p.
           bnd (case p of None \<Rightarrow> ret None | Some q \<Rightarrow> read_console_tail q CONSOLE_TAIL_BYTES) (\<lambda>text.
             ret \<lparr>mn_running = True, mn_pid = Some pid, mn_uplink = parse_uplink cmdline,
                  mn_tunnel = Option.bind text parse_last_tunnel_block\<rparr>)))"

record RulesetStatus =
  rs_available :: bool
  rs_text :: string
  rs_truncated_from :: "nat option"

text \<open>\<open>no_reason\<close> is the fixed Russian text for an empty standard error.\<close>

definition ruleset_from_output :: "string \<Rightarrow> bool \<Rightarrow> string \<Rightarrow> string \<Rightarrow> nat \<Rightarrow> RulesetStatus" where
  "ruleset_from_output no_reason success out err max_chars =
     (let raw = (if success then from_utf8_lossy out
                 else let reason = from_utf8_lossy err
                      in if trim reason = [] then no_reason else reason);
          n = char_count raw
      in if max_chars < n
         then \<lparr>rs_available = success, rs_text = take_chars max_chars raw, rs_truncated_from = Some n\<rparr>
         else \<lparr>rs_available = success, rs_text = raw, rs_truncated_from = None\<rparr>)"

end
