(* ===== verification/Qemu.thy ===== *)
theory Qemu
  imports Net
begin

text \<open>
  \<open>components/daemon/src/qemu.rs\<close>: the command line of a space's VM, its start,
  and how the daemon recognises the process later, by a pid file and the command
  line found under \<open>/proc\<close>.
\<close>

definition DEFAULT_GUI_PORT :: nat where
  "DEFAULT_GUI_PORT = 1700"

definition DEFAULT_FLOOD_SECONDS :: nat where
  "DEFAULT_FLOOD_SECONDS = 0"

definition DEFAULT_NETROLE :: string where
  "DEFAULT_NETROLE = ''none''"

record SpaceRun =
  sr_id :: string
  sr_cid :: nat
  sr_uid :: nat
  sr_template_dir :: path
  sr_overlay :: path
  sr_data :: path
  sr_data_mb :: nat
  sr_memory_mb :: nat
  sr_cpus :: nat
  sr_isolation_level :: string
  sr_gpu :: string
  sr_nonce :: string
  sr_app_command :: string
  sr_kvm_gid :: nat

datatype SpaceState = Stopped | Running | Unresponsive

definition build_append :: "SpaceRun \<Rightarrow> string" where
  "build_append run =
     join_str '' ''
       [''console=hvc0'', ''root=/dev/vda'', ''rw'', ''init=/usr/local/bin/miyori-init'',
        ''MIYORI_PORT='' @ dec DEFAULT_GUI_PORT,
        ''MIYORI_CID='' @ dec (sr_cid run),
        ''MIYORI_FLOOD_SECONDS='' @ dec DEFAULT_FLOOD_SECONDS,
        ''MIYORI_NETROLE='' @ DEFAULT_NETROLE,
        ''MIYORI_PEER_IP='', ''MIYORI_HOST_IPS='', ''MIYORI_ECHO_URL='',
        ''MIYORI_NONCE='' @ sr_nonce run,
        ''MIYORI_APP='' @ sr_app_command run,
        ''MIYORI_APP_AUTOSTART=0'']"

definition setpriv_args :: "nat \<Rightarrow> nat \<Rightarrow> string list" where
  "setpriv_args uid gid =
     [''setpriv'', ''--reuid'', dec uid, ''--regid'', dec gid, ''--clear-groups'', ''--no-new-privs'', ''--'']"

definition encrypt_suffix :: "path option \<Rightarrow> string" where
  "encrypt_suffix secret = (case secret of Some _ \<Rightarrow> '',encrypt.key-secret=sec0'' | None \<Rightarrow> [])"

definition qemu_args :: "SpaceRun \<Rightarrow> path option \<Rightarrow> string list" where
  "qemu_args run secret =
     [''qemu-system-x86_64'', ''-M'', ''microvm,acpi=off,rtc=off'', ''-enable-kvm'', ''-cpu'', ''host'',
      ''-m'', dec (sr_memory_mb run), ''-smp'', dec (sr_cpus run), ''-nodefaults'', ''-no-user-config'',
      ''-nographic'', ''-kernel'', display (sr_template_dir run @ [''vmlinuz'']),
      ''-initrd'', display (sr_template_dir run @ [''initrd.img'']), ''-append'', build_append run] @
     (case secret of
        Some p \<Rightarrow> [''-object'', ''secret,id=sec0,file='' @ display p @ '',format=raw'']
      | None \<Rightarrow> []) @
     [''-drive'', ''id=root,file='' @ display (sr_overlay run) @ '',format=qcow2,if=none,readonly=off'' @
        encrypt_suffix secret,
      ''-device'', ''virtio-blk-device,drive=root''] @
     (if 0 < sr_data_mb run then
        [''-drive'', ''id=data,file='' @ display (sr_data run) @ '',format=qcow2,if=none,readonly=off'' @
           encrypt_suffix secret,
         ''-device'', ''virtio-blk-device,drive=data'']
      else []) @
     [''-device'', ''vhost-vsock-device,guest-cid='' @ dec (sr_cid run),
      ''-netdev'', ''tap,id=net0,ifname='' @ space_tap (sr_cid run) @ '',script=no,downscript=no'',
      ''-device'', ''virtio-net-device,netdev=net0,mac='' @ space_mac (sr_cid run),
      ''-device'', ''virtio-serial-device'', ''-chardev'', ''stdio,id=con'',
      ''-device'', ''virtconsole,chardev=con''] @
     (if sr_gpu run = ''virtio-gpu-venus'' then
        [''-device'', ''virtio-gpu-gl-device,hostmem=256M,blob=true,venus=true'',
         ''-object'', ''memory-backend-memfd,id=mem,size='' @ dec (sr_memory_mb run) @ ''M,share=on'',
         ''-machine'', ''memory-backend=mem'']
      else [])"

definition qemu_argv :: "SpaceRun \<Rightarrow> path option \<Rightarrow> string list" where
  "qemu_argv run secret = setpriv_args (sr_uid run) (sr_kvm_gid run) @ qemu_args run secret"

text \<open>
  Starting the process: \<open>setpriv\<close> is replaced by the program after \<open>--\<close>, so that
  is what \<open>/proc/<pid>/cmdline\<close> shows.
\<close>

definition spawn_process :: "string list \<Rightarrow> string list \<Rightarrow> nat io" where
  "spawn_process argv exec =
     bnd (ask fresh_pid) (\<lambda>pid.
       sq (command argv (\<lambda>w. True)
            (\<lambda>w. w\<lparr>procs := al_put pid exec (procs w), fresh_pid := fresh_pid w + 1\<rparr>) id)
          (ret pid))"

definition pid_path :: "path \<Rightarrow> string \<Rightarrow> path" where
  "pid_path run i = pjoin run i @ [''qemu.pid'']"

definition log_path :: "path \<Rightarrow> string \<Rightarrow> path" where
  "log_path st i = pjoin (spaces_dir st) i @ [''last-run.log'']"

text \<open>What the VM writes to its console from then on is \<open>console\<close>.\<close>

definition qemu_spawn :: "SpaceRun \<Rightarrow> path \<Rightarrow> path \<Rightarrow> path option \<Rightarrow> nat io" where
  "qemu_spawn run run_dir st secret =
     sq (create_dir_all (pjoin (spaces_dir st) (sr_id run)))
    (sq (write_file (log_path st (sr_id run)) (Bytes []))
    (sq (create_dir_all (pjoin run_dir (sr_id run)))
    (bnd (spawn_process (qemu_argv run secret) (qemu_args run secret)) (\<lambda>pid.
     sq (tell (\<lambda>w. put_content (log_path st (sr_id run)) (Bytes (console (env w) (now w))) w))
    (sq (write_file (pid_path run_dir (sr_id run)) (Bytes (dec pid)))
        (ret pid))))))"

definition cmdline_identifies_space :: "string \<Rightarrow> nat \<Rightarrow> bool" where
  "cmdline_identifies_space cmdline cid \<longleftrightarrow>
     contains_sub cmdline ''qemu-system-x86_64'' \<and> contains_sub cmdline (''guest-cid='' @ dec cid)"

definition proc_cmdline :: "nat \<Rightarrow> world \<Rightarrow> string" where
  "proc_cmdline pid w = (case al_get (procs w) pid of Some argv \<Rightarrow> cmdline_of argv | None \<Rightarrow> [])"

definition pid_of :: "path \<Rightarrow> string \<Rightarrow> nat \<Rightarrow> ('e, nat option) m" where
  "pid_of run_dir i cid =
     bnd (attempt (read_to_string (pid_path run_dir i))) (\<lambda>r.
       case r of
         Inl _ \<Rightarrow> ret None
       | Inr raw \<Rightarrow>
           (case parse_u32 (trim raw) of
              None \<Rightarrow> ret None
            | Some pid \<Rightarrow>
                ask (\<lambda>w. if cmdline_identifies_space (proc_cmdline pid w) cid then Some pid else None)))"

definition state_of :: "path \<Rightarrow> string \<Rightarrow> nat \<Rightarrow> ('e, SpaceState) m" where
  "state_of run_dir i cid =
     bnd (pid_of run_dir i cid) (\<lambda>p. ret (case p of Some _ \<Rightarrow> Running | None \<Rightarrow> Stopped))"

text \<open>
  \<open>try_wait\<close> on a child: whether it has exited.  It may do so at any moment, and a
  process that has exited has no command line any more.
\<close>

definition try_wait :: "nat \<Rightarrow> ('e, bool) m" where
  "try_wait pid w =
     (let gone = al_get (procs w) pid = None \<or> exits (env w) (now w)
      in (Inr gone, tick (if gone then w\<lparr>procs := al_del pid (procs w)\<rparr> else w)))"

definition kill_process :: "nat \<Rightarrow> ('e, unit) m" where
  "kill_process pid = tell (\<lambda>w. tick (w\<lparr>procs := al_del pid (procs w)\<rparr>))"

end
