(* ===== verification/Frame.thy ===== *)
theory Frame
  imports Utf8
begin

text \<open>
  \<open>lib/proto/src/lib.rs\<close>: \<open>read_capped_line\<close>, the byte-wise reader both
  protocols use.  A reader is the sequence of results its next one-byte reads
  give: a byte, or an I/O error; the empty sequence is end of file.
\<close>

datatype rd = RByte char | RErr

datatype frame_error =
    ReadFailed
  | ClosedEarly
  | TooLong nat
  | ControlByte char
  | NotUtf8

definition is_ascii_control :: "char \<Rightarrow> bool" where
  "is_ascii_control c \<longleftrightarrow> byte_of c < 32 \<or> byte_of c = 127"

fun read_capped :: "nat \<Rightarrow> string \<Rightarrow> rd list \<Rightarrow> (frame_error + string) \<times> rd list" where
  "read_capped limit buf [] = (Inl ClosedEarly, [])"
| "read_capped limit buf (RErr # r) = (Inl ReadFailed, r)"
| "read_capped limit buf (RByte b # r) =
     (if limit < length buf + 1 then (Inl (TooLong limit), r)
      else if b = CHR 0x0A then
        (case from_utf8 buf of Some s \<Rightarrow> (Inr s, r) | None \<Rightarrow> (Inl NotUtf8, r))
      else if is_ascii_control b then (Inl (ControlByte b), r)
      else read_capped limit (buf @ [b]) r)"

definition read_capped_line :: "nat \<Rightarrow> rd list \<Rightarrow> (frame_error + string) \<times> rd list" where
  "read_capped_line limit r = read_capped limit [] r"

definition no_control :: "string \<Rightarrow> bool" where
  "no_control s \<longleftrightarrow> list_all (\<lambda>c. \<not> is_ascii_control c) s"

lemma newline_control: "is_ascii_control (CHR 0x0A)"
  by (simp add: is_ascii_control_def)

lemma no_control_no_newline: "no_control s \<Longrightarrow> CHR 0x0A \<notin> set s"
  using newline_control by (auto simp: no_control_def list_all_iff)

lemma read_capped_Inr:
  "read_capped limit buf r = (Inr s, r') \<Longrightarrow>
   \<exists>t. s = buf @ t \<and> r = map RByte t @ RByte (CHR 0x0A) # r' \<and>
       no_control t \<and> length s < limit \<and> valid_utf8 s"
proof (induction limit buf r rule: read_capped.induct)
  case (3 limit buf b r)
  show ?case
  proof (cases "b = CHR 0x0A")
    case True
    with "3.prems" show ?thesis
      by (intro exI [of _ "[]"])
        (auto simp: from_utf8_def no_control_def split: if_splits)
  next
    case False
    with "3.prems" have b: "\<not> limit < length buf + 1" "\<not> is_ascii_control b"
      and "read_capped limit (buf @ [b]) r = (Inr s, r')"
      by (auto split: if_splits)
    with "3.IH" False obtain t where "s = (buf @ [b]) @ t"
      "r = map RByte t @ RByte (CHR 0x0A) # r'" "no_control t" "length s < limit" "valid_utf8 s"
      by blast
    with b show ?thesis by (intro exI [of _ "b # t"]) (simp add: no_control_def)
  qed
qed simp_all

lemma read_capped_frame:
  "\<lbrakk>no_control t; length (buf @ t) < limit; valid_utf8 (buf @ t)\<rbrakk> \<Longrightarrow>
   read_capped limit buf (map RByte t @ RByte (CHR 0x0A) # r) = (Inr (buf @ t), r)"
proof (induction t arbitrary: buf)
  case Nil
  then show ?case by (simp add: from_utf8_def)
next
  case (Cons c t)
  then have "c \<noteq> CHR 0x0A" using newline_control by (auto simp: no_control_def)
  with Cons show ?case by (simp add: no_control_def)
qed

lemma read_capped_consumed:
  "\<lbrakk>read_capped limit buf r = (res, r'); length buf \<le> limit\<rbrakk> \<Longrightarrow>
   \<exists>u. r = u @ r' \<and> length buf + length u \<le> limit + 1"
proof (induction limit buf r rule: read_capped.induct)
  case (3 limit buf b r)
  show ?case
  proof (cases "limit < length buf + 1 \<or> b = CHR 0x0A \<or> is_ascii_control b")
    case True
    with "3.prems" have "r' = r"
      by (auto split: if_splits option.splits)
    with "3.prems" show ?thesis by (intro exI [of _ "[RByte b]"]) simp
  next
    case False
    with "3.prems" have "read_capped limit (buf @ [b]) r = (res, r')" by simp
    with "3.IH" False obtain u where "r = u @ r'" "length (buf @ [b]) + length u \<le> limit + 1"
      by fastforce
    then show ?thesis by (intro exI [of _ "RByte b # u"]) simp
  qed
qed auto

lemma read_capped_line_frame:
  "\<lbrakk>no_control s; length s < limit; valid_utf8 s\<rbrakk> \<Longrightarrow>
     read_capped_line limit (map RByte s @ RByte (CHR 0x0A) # r) = (Inr s, r)"
  using read_capped_frame [of s "[]" limit r] by (simp add: read_capped_line_def)

text \<open>
  A frame is accepted exactly when it is a line of valid UTF-8 without
  ASCII control bytes whose text is shorter than the limit; what the reader
  gives back is that text, and what it leaves is everything after the line feed
  (so a second request on the connection stays unread).
\<close>

theorem read_capped_line_iff:
  "read_capped_line limit r = (Inr s, r') \<longleftrightarrow>
     r = map RByte s @ RByte (CHR 0x0A) # r' \<and> no_control s \<and> length s < limit \<and> valid_utf8 s"
  using read_capped_frame [of s "[]" limit r']
  by (auto simp: read_capped_line_def dest!: read_capped_Inr)

text \<open>
  Whatever the peer sends, the reader takes at most one byte more than the
  limit from the connection before it answers, so an oversized frame is refused
  without being buffered.
\<close>

theorem read_capped_line_bounded:
  "\<exists>u. r = u @ snd (read_capped_line limit r) \<and> length u \<le> limit + 1"
proof -
  obtain res r' where 1: "read_capped_line limit r = (res, r')" by force
  from read_capped_consumed [OF this [unfolded read_capped_line_def]]
  show ?thesis using 1 by auto
qed

end
