(* ===== verification/AgentProto.thy ===== *)
theory AgentProto
  imports Frame Json
begin

text \<open>
  \<open>lib/proto/src/agent.rs\<close>: the frames between the daemon and the agent inside a
  guest.  \<open>serde\<close>'s derived deserialisers also take the sequence form of a struct
  (fields in order, trailing \<open>default\<close> ones optional) and of an internally tagged
  enum (tag first), so both forms are here.
\<close>

definition MAX_AGENT_REPLY_BYTES :: nat where
  "MAX_AGENT_REPLY_BYTES = 4 * 1024"

datatype AgentRequest = Health | Shutdown | ExecApp

fun cmd_str :: "AgentRequest \<Rightarrow> string" where
  "cmd_str Health = ''health''"
| "cmd_str Shutdown = ''shutdown''"
| "cmd_str ExecApp = ''exec-app''"

definition cmd_of :: "string \<Rightarrow> AgentRequest option" where
  "cmd_of s =
     (if s = ''health'' then Some Health
      else if s = ''shutdown'' then Some Shutdown
      else if s = ''exec-app'' then Some ExecApp
      else None)"

definition agent_request_json :: "AgentRequest \<Rightarrow> json" where
  "agent_request_json c = JObj [(''cmd'', JStr (cmd_str c))]"

definition agent_request_of :: "json \<Rightarrow> AgentRequest option" where
  "agent_request_of v =
     (case v of
        JObj [(k, JStr s)] \<Rightarrow> if k = ''cmd'' then cmd_of s else None
      | JArr [JStr s] \<Rightarrow> cmd_of s
      | _ \<Rightarrow> None)"

record AgentReply =
  nonce :: string
  ok :: bool
  detail :: "string option"
  data_unmounted :: "bool option"

definition agent_reply_json :: "AgentReply \<Rightarrow> json" where
  "agent_reply_json r =
     JObj [(''nonce'', JStr (nonce r)), (''ok'', JBool (ok r)),
           (''detail'', jopt JStr (detail r)), (''data_unmounted'', jopt JBool (data_unmounted r))]"

definition opt_str_of :: "json option \<Rightarrow> string option option" where
  "opt_str_of v =
     (case v of None \<Rightarrow> Some None | Some JNull \<Rightarrow> Some None
      | Some (JStr s) \<Rightarrow> Some (Some s) | _ \<Rightarrow> None)"

definition opt_bool_of :: "json option \<Rightarrow> bool option option" where
  "opt_bool_of v =
     (case v of None \<Rightarrow> Some None | Some JNull \<Rightarrow> Some None
      | Some (JBool b) \<Rightarrow> Some (Some b) | _ \<Rightarrow> None)"

definition reply_of_fields ::
  "json option \<Rightarrow> json option \<Rightarrow> json option \<Rightarrow> json option \<Rightarrow> AgentReply option" where
  "reply_of_fields n k d u =
     (case (Option.bind n as_str, Option.bind k as_bool, opt_str_of d, opt_bool_of u) of
        (Some n', Some k', Some d', Some u') \<Rightarrow>
          Some \<lparr>nonce = n', ok = k', detail = d', data_unmounted = u'\<rparr>
      | _ \<Rightarrow> None)"

definition nth_opt :: "'a list \<Rightarrow> nat \<Rightarrow> 'a option" where
  "nth_opt xs i = (if i < length xs then Some (xs ! i) else None)"

definition agent_reply_of :: "json \<Rightarrow> AgentReply option" where
  "agent_reply_of v =
     (case v of
        JObj kvs \<Rightarrow>
          (if distinct (map fst kvs) \<and>
              set (map fst kvs) \<subseteq> {''nonce'', ''ok'', ''detail'', ''data_unmounted''}
           then reply_of_fields (map_of kvs ''nonce'') (map_of kvs ''ok'')
                  (map_of kvs ''detail'') (map_of kvs ''data_unmounted'')
           else None)
      | JArr xs \<Rightarrow>
          (if length xs \<le> 4
           then reply_of_fields (nth_opt xs 0) (nth_opt xs 1) (nth_opt xs 2) (nth_opt xs 3)
           else None)
      | _ \<Rightarrow> None)"

datatype agent_frame_error = AgentFrame frame_error | BadReply

definition read_agent_reply ::
  "(string \<Rightarrow> json option) \<Rightarrow> rd list \<Rightarrow> agent_frame_error + AgentReply" where
  "read_agent_reply parse r =
     (case fst (read_capped_line MAX_AGENT_REPLY_BYTES r) of
        Inl e \<Rightarrow> Inl (AgentFrame e)
      | Inr line \<Rightarrow>
          (case Option.bind (parse line) agent_reply_of of
             Some reply \<Rightarrow> Inr reply
           | None \<Rightarrow> Inl BadReply))"

lemma cmd_of_str [simp]: "cmd_of (cmd_str c) = Some c"
  by (cases c) (simp_all add: cmd_of_def)

lemma agent_request_roundtrip: "agent_request_of (agent_request_json c) = Some c"
  by (simp add: agent_request_of_def agent_request_json_def)

lemma agent_reply_roundtrip: "agent_reply_of (agent_reply_json r) = Some r"
  by (cases "detail r"; cases "data_unmounted r")
    (simp_all add: agent_reply_of_def agent_reply_json_def reply_of_fields_def opt_str_of_def opt_bool_of_def)

text \<open>
  A reply without a nonce, or with a field the struct does not have, is not a
  reply.
\<close>

lemma agent_reply_needs_nonce:
  "map_of kvs ''nonce'' = None \<Longrightarrow> agent_reply_of (JObj kvs) = None"
  by (simp add: agent_reply_of_def reply_of_fields_def)

lemma agent_reply_unknown_field:
  "\<lbrakk>k \<in> set (map fst kvs); k \<notin> {''nonce'', ''ok'', ''detail'', ''data_unmounted''}\<rbrakk> \<Longrightarrow>
   agent_reply_of (JObj kvs) = None"
  by (auto simp: agent_reply_of_def)

end
