(* ===== verification/AgentHost.thy ===== *)
theory AgentHost
  imports Qemu AgentProto
begin

text \<open>
  \<open>components/daemon/src/agent.rs\<close>: the daemon's calls to the agent in a guest.
  Everything the guest sends is untrusted: \<open>guest\<close> of the environment gives, for
  the moment of the call, what the connection does.
\<close>

datatype health_cause = IoCause io_error | FrameCause agent_frame_error

datatype HealthError = Timeout | NonceMismatch | Io health_cause

definition to_health_error :: "io_error \<Rightarrow> HealthError" where
  "to_health_error e =
     (case e of WouldBlock \<Rightarrow> Timeout | TimedOut \<Rightarrow> Timeout | OtherIo _ \<Rightarrow> Io (IoCause e))"

text \<open>The I/O error of a stream that breaks is the one in the chain of causes.\<close>

definition read_error_to_health_error :: "agent_frame_error \<Rightarrow> io_error option \<Rightarrow> HealthError" where
  "read_error_to_health_error e broken =
     (if e = AgentFrame ReadFailed \<and> broken \<in> {Some WouldBlock, Some TimedOut} then Timeout
      else Io (FrameCause e))"

definition reply_from :: "libs \<Rightarrow> transport \<Rightarrow> HealthError + AgentReply" where
  "reply_from x t =
     (case t of
        NoConnect e \<Rightarrow> Inl (to_health_error e)
      | ConnectTimeout \<Rightarrow> Inl Timeout
      | NoWrite e \<Rightarrow> Inl (to_health_error e)
      | Stream s \<Rightarrow>
          (case read_agent_reply (json_parse x) (map RByte s) of
             Inl e \<Rightarrow> Inl (read_error_to_health_error e None) | Inr r \<Rightarrow> Inr r)
      | StreamFails s err \<Rightarrow>
          (case read_agent_reply (json_parse x) (map RByte s @ [RErr]) of
             Inl e \<Rightarrow> Inl (read_error_to_health_error e (Some err)) | Inr r \<Rightarrow> Inr r))"

definition call_agent :: "libs \<Rightarrow> nat \<Rightarrow> string \<Rightarrow> AgentRequest \<Rightarrow> (HealthError, AgentReply) m" where
  "call_agent x cid expected_nonce request w =
     ((case reply_from x (guest (env w) (now w)) of
         Inl e \<Rightarrow> Inl e
       | Inr r \<Rightarrow> if nonce r \<noteq> expected_nonce then Inl NonceMismatch else Inr r),
      tick w)"

definition agent_health :: "libs \<Rightarrow> nat \<Rightarrow> string \<Rightarrow> (HealthError, unit) m" where
  "agent_health x cid n = bnd (call_agent x cid n Health) (\<lambda>_. ret ())"

definition agent_shutdown :: "libs \<Rightarrow> nat \<Rightarrow> string \<Rightarrow> (HealthError, AgentReply) m" where
  "agent_shutdown x cid n = call_agent x cid n Shutdown"

definition agent_exec_app :: "libs \<Rightarrow> nat \<Rightarrow> string \<Rightarrow> (HealthError, AgentReply) m" where
  "agent_exec_app x cid n = call_agent x cid n ExecApp"

definition nonce_path :: "path \<Rightarrow> string \<Rightarrow> path" where
  "nonce_path run i = pjoin run i @ [''nonce'']"

definition observed_state :: "libs \<Rightarrow> path \<Rightarrow> string \<Rightarrow> nat \<Rightarrow> ('e, SpaceState) m" where
  "observed_state x run i cid =
     bnd (state_of run i cid) (\<lambda>s.
       if s \<noteq> Running then ret s
       else bnd (attempt (read_to_string (nonce_path run i))) (\<lambda>r.
         case r of
           Inl _ \<Rightarrow> ret Unresponsive
         | Inr raw \<Rightarrow>
             bnd (attempt (agent_health x cid (trim raw))) (\<lambda>h.
               ret (case h of Inr _ \<Rightarrow> Running | Inl _ \<Rightarrow> Unresponsive))))"

lemma call_agent_nonce:
  "call_agent x cid n req w = (Inr r, w') \<Longrightarrow> nonce r = n \<and> reply_from x (guest (env w) (now w)) = Inr r"
  by (auto simp: call_agent_def split: sum.splits if_splits)

end
