(* ===== verification/Observe.thy ===== *)
theory Observe
  imports Net
begin

text \<open>
  \<open>components/daemon/src/observe.rs\<close>: what \<open>describe\<close> reports about a running
  space: resident memory, uptime and the end of its console log, which the guest
  wrote and which is cleaned before it is shown.
\<close>

definition TAIL_WINDOW_BYTES :: nat where
  "TAIL_WINDOW_BYTES = 64 * 1024"

definition LOG_TAIL_MAX_LINES :: nat where
  "LOG_TAIL_MAX_LINES = 40"

definition LOG_TAIL_MAX_LINE_CHARS :: nat where
  "LOG_TAIL_MAX_LINE_CHARS = 300"

fun rss_of_lines :: "string list \<Rightarrow> nat option" where
  "rss_of_lines [] = None"
| "rss_of_lines (l # ls) =
     (case strip_prefix ''VmRSS:'' l of
        Some rest \<Rightarrow> (case split_whitespace rest of [] \<Rightarrow> None | t # _ \<Rightarrow> parse_u64 t)
      | None \<Rightarrow> rss_of_lines ls)"

definition parse_vm_rss_kib :: "string \<Rightarrow> nat option" where
  "parse_vm_rss_kib status = rss_of_lines (lines status)"

definition rss_kib :: "nat \<Rightarrow> ('e, nat option) m" where
  "rss_kib pid =
     bnd (attempt (read_to_string [''proc'', dec pid, ''status''])) (\<lambda>r.
       ret (case r of Inl _ \<Rightarrow> None | Inr s \<Rightarrow> parse_vm_rss_kib s))"

text \<open>The time a file was last written is not part of the world; \<open>mtime\<close> gives it, in seconds.\<close>

definition uptime_secs :: "nat option \<Rightarrow> nat \<Rightarrow> nat option" where
  "uptime_secs modified t = (case modified of None \<Rightarrow> None | Some m \<Rightarrow> if m \<le> t then Some (t - m) else None)"

definition sanitize_line :: "nat \<Rightarrow> string \<Rightarrow> string" where
  "sanitize_line max_chars l = from_chars (take max_chars (filter (\<lambda>c. \<not> is_control c) (chars l)))"

text \<open>From the second line on when the window does not start at the beginning of the file.\<close>

definition log_window :: "string \<Rightarrow> string option" where
  "log_window s =
     (let start = length s - TAIL_WINDOW_BYTES; buf = drop start s in
      if 0 < start then
        (case dropWhile (\<lambda>b. b \<noteq> CHR 0x0A) buf of [] \<Rightarrow> None | _ # rest \<Rightarrow> Some rest)
      else Some buf)"

definition sanitized_lines :: "nat \<Rightarrow> nat \<Rightarrow> string \<Rightarrow> string list" where
  "sanitized_lines max_lines max_chars s =
     (case log_window s of
        None \<Rightarrow> []
      | Some buf \<Rightarrow>
          (let ls = lines (from_utf8_lossy buf)
           in map (sanitize_line max_chars) (drop (length ls - max_lines) ls)))"

definition tail_sanitized :: "path \<Rightarrow> nat \<Rightarrow> nat \<Rightarrow> ('e, string list) m" where
  "tail_sanitized p max_lines max_chars =
     bnd (attempt (read_bytes p)) (\<lambda>r.
       ret (case r of Inl _ \<Rightarrow> [] | Inr s \<Rightarrow> sanitized_lines max_lines max_chars s))"

end
