(* ===== verification/BuildHost.thy ===== *)
theory BuildHost
  imports Net
begin

text \<open>
  \<open>components/daemon/src/build.rs\<close>: running the image builder as the build user.
  Its lines come from two readers into one channel; their interleaving and its
  outcome are the environment's choice (\<open>built\<close>).
\<close>

definition build_argv :: "nat \<Rightarrow> nat \<Rightarrow> path \<Rightarrow> string list" where
  "build_argv uid gid profile_dir =
     [''setpriv'', ''--reuid'', dec uid, ''--regid'', dec gid, ''--clear-groups'', ''--'',
      ''bash'', ''tools/build-profile.sh'', display profile_dir]"

record built =
  b_lines :: "string list"
  b_digest :: string
  b_files :: "(string \<times> content) list"

text \<open>What a successful build leaves under \<open>MIYORI_OUT_DIR\<close>: a directory per digest and \<open>latest\<close>.\<close>

definition put_built :: "path \<Rightarrow> string \<Rightarrow> built \<Rightarrow> world \<Rightarrow> world" where
  "put_built out profile b w =
     (let d = out @ [profile, b_digest b] in
      set_node (out @ [profile, ''latest'']) \<lparr>kind = KLink (b_digest b), mode = 511, owner = 0, grp = 0\<rparr>
        (fold (\<lambda>(name, c). put_content (d @ [name]) c) (b_files b)
          (fold new_dir (prefixes_of d) w)))"

definition run_streaming :: "string list \<Rightarrow> path \<Rightarrow> string \<Rightarrow> built \<Rightarrow> unit io" where
  "run_streaming argv out profile b =
     sq (tell (\<lambda>w. w\<lparr>sent := sent w @ map BuildLine (b_lines b)\<rparr>))
        (command argv (\<lambda>w. True) (put_built out profile b) (put_built out profile b))"

definition digest_from_out_dir :: "path \<Rightarrow> string \<Rightarrow> string io" where
  "digest_from_out_dir out profile =
     bnd (read_link (pjoin out profile @ [''latest''])) (\<lambda>t.
       case file_name t of None \<Rightarrow> fail () | Some n \<Rightarrow> ret (from_utf8_lossy n))"

end
