(* ===== verification/Control.thy ===== *)
theory Control
  imports Ids Frame Json
begin

text \<open>
  \<open>lib/proto/src/control.rs\<close>: the request language of the control socket, its
  two-stage parser (closed list of operations first, then a strict derived
  deserialiser), the error codes and the responder that writes progress frames
  and exactly one terminal frame.  \<open>serde_json\<close>'s text parser is the parameter
  \<open>parse\<close> of \<open>read_request\<close>; what the \<open>serde\<close> attributes of \<open>Request\<close> ask for
  (internal tag \<open>op\<close>, kebab case, unknown and repeated fields refused,
  \<open>default\<close> for the optional ones) is written out in \<open>request_of\<close>.
\<close>

definition MAX_REQUEST_FRAME_BYTES :: nat where
  "MAX_REQUEST_FRAME_BYTES = 8 * 1024"

definition KNOWN_OPS :: "string list" where
  "KNOWN_OPS =
     [''list'', ''describe'', ''build'', ''create'', ''start'', ''stop'', ''open-window'',
      ''reset-system'', ''reset-all'', ''update-image'', ''destroy'', ''net-status'', ''profiles'']"

datatype Request =
    List
  | Describe SpaceId
  | Build SpaceId
  | Create (cr_space: SpaceId) (cr_profile: SpaceId) (cr_label: Label) (cr_color: Color)
      (cr_seed: "string option") (cr_passphrase: "string option")
  | Start SpaceId "string option"
  | Stop SpaceId
  | OpenWindow SpaceId
  | ResetSystem SpaceId "string option"
  | ResetAll SpaceId "string option"
  | UpdateImage SpaceId "string option"
  | Destroy SpaceId
  | NetStatus
  | Profiles

datatype ErrorCode =
    BadRequest
  | UnknownOp
  | SpaceNotFound
  | SpaceExists
  | ProfileNotFound
  | TemplateNotFound
  | SpaceRunning
  | SpaceStopped
  | NoBridge
  | AgentTimeout
  | WrongPassphrase
  | Internal

text \<open>\<open>#[serde(rename_all = "kebab-case")]\<close> on \<open>ErrorCode\<close>.\<close>

fun code_str :: "ErrorCode \<Rightarrow> string" where
  "code_str BadRequest = ''bad-request''"
| "code_str UnknownOp = ''unknown-op''"
| "code_str SpaceNotFound = ''space-not-found''"
| "code_str SpaceExists = ''space-exists''"
| "code_str ProfileNotFound = ''profile-not-found''"
| "code_str TemplateNotFound = ''template-not-found''"
| "code_str SpaceRunning = ''space-running''"
| "code_str SpaceStopped = ''space-stopped''"
| "code_str NoBridge = ''no-bridge''"
| "code_str AgentTimeout = ''agent-timeout''"
| "code_str WrongPassphrase = ''wrong-passphrase''"
| "code_str Internal = ''internal''"

lemma code_str_inj: "code_str a = code_str b \<longleftrightarrow> a = b"
  by (cases a; cases b) simp_all

text \<open>The message of a refused request, by its template.\<close>

datatype req_msg =
    MsgFrame frame_error
  | MsgNotJson
  | MsgUnknownOp "string option"
  | MsgBadFields

section \<open>Deserialising a request\<close>

text \<open>
  The members other than the tag: every key allowed, none twice (a repeated known
  field and an unknown field are both errors of the derived visitor).
\<close>

definition fields_ok :: "string list \<Rightarrow> (string \<times> json) list \<Rightarrow> bool" where
  "fields_ok allowed kvs \<longleftrightarrow> distinct (map fst kvs) \<and> set (map fst kvs) \<subseteq> set allowed"

definition f_id :: "string \<Rightarrow> (string \<times> json) list \<Rightarrow> SpaceId option" where
  "f_id k kvs =
     (case map_of kvs k of
        Some (JStr s) \<Rightarrow> (case SpaceId_new s of Inr i \<Rightarrow> Some i | Inl _ \<Rightarrow> None)
      | _ \<Rightarrow> None)"

definition f_label :: "string \<Rightarrow> (string \<times> json) list \<Rightarrow> Label option" where
  "f_label k kvs =
     (case map_of kvs k of
        Some (JStr s) \<Rightarrow> (case Label_new s of Inr i \<Rightarrow> Some i | Inl _ \<Rightarrow> None)
      | _ \<Rightarrow> None)"

definition f_color :: "string \<Rightarrow> (string \<times> json) list \<Rightarrow> Color option" where
  "f_color k kvs =
     (case map_of kvs k of
        Some (JStr s) \<Rightarrow> (case Color_new s of Inr i \<Rightarrow> Some i | Inl _ \<Rightarrow> None)
      | _ \<Rightarrow> None)"

text \<open>\<open>#[serde(default)] Option<String>\<close>.\<close>

definition f_opt :: "string \<Rightarrow> (string \<times> json) list \<Rightarrow> string option option" where
  "f_opt k kvs =
     (case map_of kvs k of
        None \<Rightarrow> Some None
      | Some JNull \<Rightarrow> Some None
      | Some (JStr s) \<Rightarrow> Some (Some s)
      | Some _ \<Rightarrow> None)"

definition with_space :: "(string \<times> json) list \<Rightarrow> (SpaceId \<Rightarrow> Request) \<Rightarrow> Request option" where
  "with_space kvs mk = (if fields_ok [''space''] kvs then map_option mk (f_id ''space'' kvs) else None)"

definition with_space_pass ::
  "(string \<times> json) list \<Rightarrow> (SpaceId \<Rightarrow> string option \<Rightarrow> Request) \<Rightarrow> Request option" where
  "with_space_pass kvs mk =
     (if fields_ok [''space'', ''passphrase''] kvs
      then (case (f_id ''space'' kvs, f_opt ''passphrase'' kvs) of
              (Some i, Some p) \<Rightarrow> Some (mk i p)
            | _ \<Rightarrow> None)
      else None)"

definition create_of :: "(string \<times> json) list \<Rightarrow> Request option" where
  "create_of kvs =
     (if fields_ok [''space'', ''profile'', ''label'', ''color'', ''seed'', ''passphrase''] kvs
      then (case (f_id ''space'' kvs, f_id ''profile'' kvs, f_label ''label'' kvs,
                  f_color ''color'' kvs, f_opt ''seed'' kvs, f_opt ''passphrase'' kvs) of
              (Some i, Some p, Some l, Some c, Some sd, Some pw) \<Rightarrow> Some (Create i p l c sd pw)
            | _ \<Rightarrow> None)
      else None)"

definition request_fields :: "string \<Rightarrow> (string \<times> json) list \<Rightarrow> Request option" where
  "request_fields tag kvs =
     (if tag = ''list'' then (if kvs = [] then Some List else None)
      else if tag = ''describe'' then with_space kvs Describe
      else if tag = ''build'' then
        (if fields_ok [''profile''] kvs then map_option Build (f_id ''profile'' kvs) else None)
      else if tag = ''create'' then create_of kvs
      else if tag = ''start'' then with_space_pass kvs Start
      else if tag = ''stop'' then with_space kvs Stop
      else if tag = ''open-window'' then with_space kvs OpenWindow
      else if tag = ''reset-system'' then with_space_pass kvs ResetSystem
      else if tag = ''reset-all'' then with_space_pass kvs ResetAll
      else if tag = ''update-image'' then with_space_pass kvs UpdateImage
      else if tag = ''destroy'' then with_space kvs Destroy
      else if tag = ''net-status'' then (if kvs = [] then Some NetStatus else None)
      else if tag = ''profiles'' then (if kvs = [] then Some Profiles else None)
      else None)"

text \<open>
  The internally tagged enum: the tag exactly once, a string; the other members
  go to the variant.  (The sequence form \<open>serde\<close> would also take never gets
  here: \<open>read_request\<close> has already found a key \<open>op\<close>.)
\<close>

definition request_of :: "json \<Rightarrow> Request option" where
  "request_of v =
     (case v of
        JObj kvs \<Rightarrow>
          (case filter (\<lambda>kv. fst kv = ''op'') kvs of
             [(_, JStr tag)] \<Rightarrow> request_fields tag (filter (\<lambda>kv. fst kv \<noteq> ''op'') kvs)
           | _ \<Rightarrow> None)
      | _ \<Rightarrow> None)"

definition parse_request :: "(string \<Rightarrow> json option) \<Rightarrow> string \<Rightarrow> (ErrorCode \<times> req_msg) + Request" where
  "parse_request parse line =
     (case parse line of
        None \<Rightarrow> Inl (BadRequest, MsgNotJson)
      | Some v \<Rightarrow>
          (let op = Option.bind (jget ''op'' v) as_str
           in if (case op of Some t \<Rightarrow> t \<in> set KNOWN_OPS | None \<Rightarrow> False)
              then (case request_of v of
                      Some r \<Rightarrow> Inr r
                    | None \<Rightarrow> Inl (BadRequest, MsgBadFields))
              else Inl (UnknownOp, MsgUnknownOp op)))"

definition read_request ::
  "(string \<Rightarrow> json option) \<Rightarrow> rd list \<Rightarrow> ((ErrorCode \<times> req_msg) + Request) \<times> rd list" where
  "read_request parse r =
     (case read_capped_line MAX_REQUEST_FRAME_BYTES r of
        (Inl e, r') \<Rightarrow> (Inl (BadRequest, MsgFrame e), r')
      | (Inr line, r') \<Rightarrow> (parse_request parse line, r'))"

section \<open>The responder\<close>

text \<open>
  \<open>Responder\<close> owns a writer; its frames are JSON values, one per line.
  \<open>finish\<close> takes the responder by value, so a handler can add progress frames
  before it and nothing after it.
\<close>

definition progress_frame :: "string \<Rightarrow> json" where
  "progress_frame message = JObj [(''progress'', JStr message)]"

definition finish_frame :: "(ErrorCode \<times> string) + json \<Rightarrow> json" where
  "finish_frame result =
     (case result of
        Inr data \<Rightarrow> JObj [(''ok'', JBool True), (''data'', data)]
      | Inl (code, message) \<Rightarrow>
          JObj [(''ok'', JBool False), (''code'', JStr (code_str code)), (''message'', JStr message)])"

text \<open>Everything a connection writes: the progress messages, then the terminal frame.\<close>

definition response_frames :: "string list \<Rightarrow> (ErrorCode \<times> string) + json \<Rightarrow> json list" where
  "response_frames ps result = map progress_frame ps @ [finish_frame result]"


section \<open>What an accepted request guarantees\<close>

definition opt_list :: "'a option \<Rightarrow> 'a list" where
  "opt_list x = (case x of None \<Rightarrow> [] | Some y \<Rightarrow> [y])"

text \<open>The ids, labels and colours a request carries are all values of their newtypes.\<close>

fun request_ok :: "Request \<Rightarrow> bool" where
  "request_ok List = True"
| "request_ok (Describe i) = id_ok i"
| "request_ok (Build p) = id_ok p"
| "request_ok (Create i p l c sd pw) = (id_ok i \<and> id_ok p \<and> label_ok l \<and> color_ok c)"
| "request_ok (Start i pw) = id_ok i"
| "request_ok (Stop i) = id_ok i"
| "request_ok (OpenWindow i) = id_ok i"
| "request_ok (ResetSystem i pw) = id_ok i"
| "request_ok (ResetAll i pw) = id_ok i"
| "request_ok (UpdateImage i pw) = id_ok i"
| "request_ok (Destroy i) = id_ok i"
| "request_ok NetStatus = True"
| "request_ok Profiles = True"

lemma f_id_Some: "f_id k kvs = Some i \<Longrightarrow> id_ok i"
  by (auto simp: f_id_def split: option.splits json.splits sum.splits)

lemma f_label_Some: "f_label k kvs = Some i \<Longrightarrow> label_ok i"
  by (auto simp: f_label_def split: option.splits json.splits sum.splits)

lemma f_color_Some: "f_color k kvs = Some i \<Longrightarrow> color_ok i"
  by (auto simp: f_color_def split: option.splits json.splits sum.splits)

lemma with_space_Some:
  "with_space kvs mk = Some r \<Longrightarrow> \<exists>i. r = mk i \<and> id_ok i"
  by (auto simp: with_space_def dest: f_id_Some split: if_splits)

lemma with_space_pass_Some:
  "with_space_pass kvs mk = Some r \<Longrightarrow> \<exists>i p. r = mk i p \<and> id_ok i"
  by (auto simp: with_space_pass_def dest: f_id_Some split: if_splits option.splits)

lemma create_of_Some: "create_of kvs = Some r \<Longrightarrow> request_ok r"
  by (auto simp: create_of_def dest: f_id_Some f_label_Some f_color_Some split: if_splits option.splits)

lemma request_fields_ok: "request_fields tag kvs = Some r \<Longrightarrow> request_ok r"
  by (auto simp: request_fields_def
      dest!: with_space_Some with_space_pass_Some create_of_Some f_id_Some split: if_splits)

lemma request_of_ok: "request_of v = Some r \<Longrightarrow> request_ok r"
  by (auto simp: request_of_def dest: request_fields_ok split: json.splits list.splits)

lemma parse_request_ok: "parse_request parse line = Inr r \<Longrightarrow> request_ok r"
  by (auto simp: parse_request_def Let_def dest: request_of_ok split: option.splits if_splits)

text \<open>
  C21.  A request that gets past the reader carries only validated identifiers,
  labels and colours, whatever bytes arrived and whatever the JSON parser made
  of them: no handler of the daemon ever sees a path separator or a dot in a
  space or profile name.
\<close>

theorem read_request_validated:
  assumes "read_request parse r = (Inr req, r')"
  shows "request_ok req"
  using assms by (auto simp: read_request_def intro: parse_request_ok split: prod.splits sum.splits)


section \<open>The JSON form of a request\<close>

definition pass_field :: "string option \<Rightarrow> (string \<times> json) list" where
  "pass_field p = (case p of None \<Rightarrow> [] | Some s \<Rightarrow> [(''passphrase'', JStr s)])"

definition seed_field :: "string option \<Rightarrow> (string \<times> json) list" where
  "seed_field p = (case p of None \<Rightarrow> [] | Some s \<Rightarrow> [(''seed'', JStr s)])"

abbreviation op_space :: "string \<Rightarrow> SpaceId \<Rightarrow> (string \<times> json) list" where
  "op_space op i \<equiv> [(''op'', JStr op), (''space'', JStr (id_str i))]"

fun request_json :: "Request \<Rightarrow> json" where
  "request_json List = JObj [(''op'', JStr ''list'')]"
| "request_json (Describe i) = JObj (op_space ''describe'' i)"
| "request_json (Build p) = JObj [(''op'', JStr ''build''), (''profile'', JStr (id_str p))]"
| "request_json (Create i p l c sd pw) =
     JObj (op_space ''create'' i @
       [(''profile'', JStr (id_str p)), (''label'', JStr (label_str l)), (''color'', JStr (color_str c))]
       @ seed_field sd @ pass_field pw)"
| "request_json (Start i pw) = JObj (op_space ''start'' i @ pass_field pw)"
| "request_json (Stop i) = JObj (op_space ''stop'' i)"
| "request_json (OpenWindow i) = JObj (op_space ''open-window'' i)"
| "request_json (ResetSystem i pw) = JObj (op_space ''reset-system'' i @ pass_field pw)"
| "request_json (ResetAll i pw) = JObj (op_space ''reset-all'' i @ pass_field pw)"
| "request_json (UpdateImage i pw) = JObj (op_space ''update-image'' i @ pass_field pw)"
| "request_json (Destroy i) = JObj (op_space ''destroy'' i)"
| "request_json NetStatus = JObj [(''op'', JStr ''net-status'')]"
| "request_json Profiles = JObj [(''op'', JStr ''profiles'')]"

lemma SpaceId_new_ok: "id_ok i \<Longrightarrow> SpaceId_new (id_str i) = Inr i"
  by (cases i) simp

lemma Label_new_ok: "label_ok i \<Longrightarrow> Label_new (label_str i) = Inr i"
  by (cases i) simp

lemma Color_new_ok: "color_ok i \<Longrightarrow> Color_new (color_str i) = Inr i"
  by (cases i) simp

lemmas newtype_ok = SpaceId_new_ok Label_new_ok Color_new_ok

lemmas request_of_defs =
  request_of_def request_fields_def with_space_def with_space_pass_def create_of_def
  fields_ok_def f_id_def f_label_def f_color_def f_opt_def pass_field_def seed_field_def

lemma request_of_json: "request_ok r \<Longrightarrow> request_of (request_json r) = Some r"
  by (cases r) (auto simp: request_of_defs newtype_ok split: option.splits)

lemma request_json_op:
  "\<exists>t \<in> set KNOWN_OPS. jget ''op'' (request_json r) = Some (JStr t)"
  by (cases r) (auto simp: KNOWN_OPS_def pass_field_def seed_field_def split: option.splits)

text \<open>
  C23.  Every request value the daemon can handle has a JSON form that
  \<open>read_request\<close> maps back to it: the closed list \<open>KNOWN_OPS\<close> and the strict
  deserialiser agree on all thirteen operations.  \<open>parse\<close> and \<open>print\<close> are the
  JSON library, of which only that it reads back what it printed, on one line of
  valid UTF-8, is used.
\<close>

theorem request_roundtrip:
  assumes "request_ok req" and "parse (print (request_json req)) = Some (request_json req)"
    and "no_control (print (request_json req))" and "valid_utf8 (print (request_json req))"
    and "length (print (request_json req)) < MAX_REQUEST_FRAME_BYTES"
  shows "read_request parse (map RByte (print (request_json req)) @ RByte (CHR 0x0A) # rest)
           = (Inr req, rest)"
proof -
  have "read_capped_line MAX_REQUEST_FRAME_BYTES
      (map RByte (print (request_json req)) @ RByte (CHR 0x0A) # rest)
      = (Inr (print (request_json req)), rest)"
    using assms(3-5) by (simp add: read_capped_line_frame)
  moreover have "parse_request parse (print (request_json req)) = Inr req"
    using assms(1,2) request_json_op [of req]
    by (auto simp: parse_request_def request_of_json)
  ultimately show ?thesis by (simp add: read_request_def)
qed

theorem request_roundtrip_witness:
  "read_request (\<lambda>l. if l = ''{op:list}'' then Some (request_json List) else None)
     (map RByte ''{op:list}'' @ RByte (CHR 0x0A) # [RErr]) = (Inr List, [RErr])"
proof -
  have h: "no_control ''{op:list}''" "valid_utf8 ''{op:list}''"
    by (simp_all add: no_control_def is_ascii_control_def valid_utf8_ascii)
  show ?thesis
    using request_roundtrip [of List "\<lambda>l. if l = ''{op:list}'' then Some (request_json List) else None"
        "\<lambda>_. ''{op:list}''" "[RErr]"] h
    by (simp add: MAX_REQUEST_FRAME_BYTES_def)
qed

definition sample_start :: "json" where
  "sample_start = JObj [(''op'', JStr ''stop''), (''space'', JStr ''web-1'')]"

theorem read_request_validated_witness:
  "read_request (\<lambda>_. Some sample_start) (map RByte ''x'' @ [RByte (CHR 0x0A)])
     = (Inr (Stop (SpaceId ''web-1'')), []) \<and> request_ok (Stop (SpaceId ''web-1''))"
proof -
  have 1: "read_request (\<lambda>_. Some sample_start) (map RByte ''x'' @ [RByte (CHR 0x0A)])
     = (Inr (Stop (SpaceId ''web-1'')), [])"
    by (simp add: read_request_def read_capped_line_def MAX_REQUEST_FRAME_BYTES_def from_utf8_def
        valid_utf8_ascii is_ascii_control_def parse_request_def sample_start_def KNOWN_OPS_def
        request_of_defs SpaceId_new_def slug_bytes slug_byte_def is_ascii_lowercase_def is_ascii_digit_def)
  from read_request_validated [OF 1] 1 show ?thesis by simp
qed

end
