(* ===== verification/Ops.thy ===== *)
theory Ops
  imports AgentHost Observe BuildHost Control
begin

text \<open>
  \<open>components/daemon/src/ops.rs\<close>: the handlers of the control socket.  A handler
  that changes state holds \<open>Ctx::lock\<close> from its first line to its last, so it is
  one function on the world.  Text for the operator is the constructor of its
  message (\<open>op_msg\<close>, \<open>detail\<close>, \<open>app_report\<close>), with what the message quotes; an
  error that the source only logs has become \<open>Internal\<close>.
\<close>

record Ctx =
  cx_state :: path
  cx_run :: path
  cx_registry :: path
  cx_build_uid :: "nat option"
  cx_socket_gid :: "nat option"
  cx_thread :: string
  cx_libs :: libs
  cx_built :: built
  cx_uplink :: string
  cx_no_reason :: string

datatype op_msg =
    MsgInternal
  | MsgEmptyPassphrase
  | MsgReservedId SpaceId
  | MsgExists SpaceId
  | MsgSpaceNotFound SpaceId
  | MsgAlreadyRunning SpaceId
  | MsgNotRunning SpaceId
  | MsgStopFirst SpaceId
  | MsgNoBridge
  | MsgTemplateMissing path
  | MsgNoSingleTemplate string path
  | MsgNoLatest string path
  | MsgWrongPassphrase SpaceId
  | MsgDiedAtOnce SpaceId
  | MsgDiedStarting SpaceId
  | MsgNeedsPassphrase
  | MsgNotEncrypted
  | MsgNonceUnreadable
  | MsgAgentSays string
  | MsgAgentRefusedWindow
  | MsgAgentUnreachable HealthError
  | MsgProfileNotFound string
  | MsgSeedNoData
  | MsgSeedRelative string
  | MsgSeedNotDir string
  | MsgSeedMissing string

datatype detail =
    DSays string
  | DUnmounted
  | DNotConfirmed
  | DNonceUnreadable
  | DUnreachable HealthError
  | DWindowOpened
  | DUpToDate
  | DUpdated

datatype app_report =
    AppStarted
  | AppDied
  | AppNoAnswer HealthError
  | AppSays string
  | AppRefused
  | AppFailed HealthError

type_synonym 'a op = "(ErrorCode \<times> op_msg, 'a) m"

definition internal :: "('e, 'a) m \<Rightarrow> 'a op" where
  "internal f = map_err (\<lambda>_. (Internal, MsgInternal)) f"

definition refuse :: "ErrorCode \<Rightarrow> op_msg \<Rightarrow> 'a op" where
  "refuse c m = fail (c, m)"

section \<open>Shared helpers\<close>

definition load_store :: "Ctx \<Rightarrow> Store op" where
  "load_store cx = internal (store_load (cx_libs cx) (cx_state cx))"

definition space_or_not_found :: "Store \<Rightarrow> SpaceId \<Rightarrow> SpaceConfig op" where
  "space_or_not_found s i =
     (case store_get s i of Some c \<Rightarrow> ret c | None \<Rightarrow> refuse SpaceNotFound (MsgSpaceNotFound i))"

definition manifest_path :: "path \<Rightarrow> string \<Rightarrow> path" where
  "manifest_path st profile = pjoin (st @ [''profiles'']) profile @ [''manifest.toml'']"

text \<open>\<open>Manifest::load\<close>.\<close>

definition manifest_load :: "libs \<Rightarrow> path \<Rightarrow> (manifest_error option, Manifest) m" where
  "manifest_load x p =
     bnd (map_err (\<lambda>_. None) (read_to_string p)) (\<lambda>src.
       map_err Some (of_result (manifest_parse (toml_manifest x) src)))"

definition load_manifest :: "Ctx \<Rightarrow> string \<Rightarrow> Manifest op" where
  "load_manifest cx profile =
     bnd (ask (is_file (manifest_path (cx_state cx) profile))) (\<lambda>present.
       if \<not> present then refuse ProfileNotFound (MsgProfileNotFound profile)
       else internal (manifest_load (cx_libs cx) (manifest_path (cx_state cx) profile)))"

definition template_dir_path :: "path \<Rightarrow> string \<Rightarrow> string \<Rightarrow> path" where
  "template_dir_path st profile digest = pjoin (pjoin (st @ [''templates'']) profile) digest"

text \<open>The digest that the symbolic link \<open>latest\<close> names.\<close>

definition via_latest :: "path \<Rightarrow> ('e, string option) m" where
  "via_latest latest =
     bnd (ask (\<lambda>w. link_target latest w \<noteq> None)) (\<lambda>is_link.
       if \<not> is_link then ret None
       else bnd (attempt (read_link latest)) (\<lambda>r.
         ret (case r of Inr t \<Rightarrow> map_option from_utf8_lossy (file_name t) | Inl _ \<Rightarrow> None)))"

definition resolve_template_digest :: "path \<Rightarrow> string \<Rightarrow> string op" where
  "resolve_template_digest st profile =
     (let dir = pjoin (st @ [''templates'']) profile in
      bnd (via_latest (dir @ [''latest''])) (\<lambda>v.
        case v of
          Some digest \<Rightarrow> ret digest
        | None \<Rightarrow>
            bnd (attempt (read_dir dir)) (\<lambda>r.
            bnd (ask (\<lambda>w. case r of
                Inl _ \<Rightarrow> []
              | Inr names \<Rightarrow>
                  map from_utf8_lossy (filter (\<lambda>n. n \<noteq> ''latest'' \<and> is_dir (dir @ [n]) w) names))) (\<lambda>cands.
              case cands of
                [only] \<Rightarrow> ret only
              | _ \<Rightarrow> refuse TemplateNotFound (MsgNoSingleTemplate profile dir)))))"

definition resolve_latest_digest :: "path \<Rightarrow> string \<Rightarrow> string op" where
  "resolve_latest_digest st profile =
     (let dir = pjoin (st @ [''templates'']) profile in
      bnd (via_latest (dir @ [''latest''])) (\<lambda>v.
        case v of
          Some digest \<Rightarrow> ret digest
        | None \<Rightarrow> refuse TemplateNotFound (MsgNoLatest profile dir)))"

definition template_dir_is_complete :: "path \<Rightarrow> world \<Rightarrow> bool" where
  "template_dir_is_complete d w \<longleftrightarrow>
     list_all (\<lambda>n. is_file (d @ [n]) w) [''root.qcow2'', ''vmlinuz'', ''initrd.img'', ''MANIFEST'']"

definition require_passphrase_matches_encryption :: "bool \<Rightarrow> string option \<Rightarrow> unit op" where
  "require_passphrase_matches_encryption encrypted passphrase =
     (if encrypted \<and> passphrase = None then refuse BadRequest MsgNeedsPassphrase
      else if \<not> encrypted \<and> passphrase \<noteq> None then refuse BadRequest MsgNotEncrypted
      else ret ())"

definition reject_if_running :: "Ctx \<Rightarrow> SpaceId \<Rightarrow> nat \<Rightarrow> unit op" where
  "reject_if_running cx i cid =
     bnd (state_of (cx_run cx) (id_str i) cid) (\<lambda>s.
       if s = Running then refuse SpaceRunning (MsgStopFirst i) else ret ())"

definition group_path :: path where
  "group_path = [''etc'', ''group'']"

definition lookup_kvm_gid :: "nat op" where
  "lookup_kvm_gid =
     internal (bnd (attempt (read_to_string group_path)) (\<lambda>r.
       of_result (lookup_gid (case r of Inr s \<Rightarrow> Some s | Inl _ \<Rightarrow> None) ''kvm'')))"

definition resolve_build_uid :: "Ctx \<Rightarrow> nat op" where
  "resolve_build_uid cx =
     (case cx_build_uid cx of
        Some uid \<Rightarrow> ret uid
      | None \<Rightarrow> internal (query (\<lambda>w. map_option owner (node_at (cx_state cx @ [''profiles'']) w))))"

definition passwd_entry :: "nat \<Rightarrow> PasswdEntry op" where
  "passwd_entry uid =
     internal (bnd (attempt (read_to_string passwd_path)) (\<lambda>r.
       of_result (lookup_passwd_entry (case r of Inr s \<Rightarrow> Some s | Inl _ \<Rightarrow> None) uid)))"

definition resolve_build_gid :: "nat \<Rightarrow> nat op" where
  "resolve_build_gid uid = bnd (passwd_entry uid) (\<lambda>e. ret (pw_gid e))"

definition resolve_build_home :: "nat \<Rightarrow> string op" where
  "resolve_build_home uid = bnd (passwd_entry uid) (\<lambda>e. ret (pw_home e))"

definition prepare_staging_dir :: "path \<Rightarrow> nat \<Rightarrow> unit io" where
  "prepare_staging_dir d uid = sq (create_dir_all d) (chown d (Some uid) None)"

definition cleanup_staging :: "path \<Rightarrow> ('e, unit) m" where
  "cleanup_staging d = ignore (remove_dir_all d)"

section \<open>Secrets and nonces\<close>

definition secrets_dir :: "path \<Rightarrow> path" where
  "secrets_dir run = run @ [''secrets'']"

definition space_secret_dir :: "path \<Rightarrow> string \<Rightarrow> path" where
  "space_secret_dir run i = pjoin (secrets_dir run) i"

definition pass_file :: "path \<Rightarrow> string \<Rightarrow> path" where
  "pass_file run i = space_secret_dir run i @ [''pass'']"

definition write_running_secret :: "path \<Rightarrow> string \<Rightarrow> nat \<Rightarrow> string \<Rightarrow> path io" where
  "write_running_secret run i uid passphrase =
     sq (create_dir_all (secrets_dir run))
    (sq (set_mode (secrets_dir run) 457)
    (sq (ignore (remove_dir_all (space_secret_dir run i)))
    (sq (create_dir_all (space_secret_dir run i))
    (sq (set_mode (space_secret_dir run i) 448)
    (sq (write_file (pass_file run i) (Bytes passphrase))
    (sq (chown (pass_file run i) (Some uid) None)
    (sq (set_mode (pass_file run i) 256)
    (sq (chown (space_secret_dir run i) (Some uid) None)
    (sq (set_mode (space_secret_dir run i) 320)
        (ret (pass_file run i)))))))))))"

definition remove_running_secret :: "path \<Rightarrow> string \<Rightarrow> ('e, unit) m" where
  "remove_running_secret run i =
     sq (ignore (set_mode (space_secret_dir run i) 448)) (ignore (remove_dir_all (space_secret_dir run i)))"

definition qemu_img_secret_path :: "Ctx \<Rightarrow> path" where
  "qemu_img_secret_path cx = cx_run cx @ [''.qemu-img-secrets'', ''sec-'' @ cx_thread cx]"

definition write_qemu_img_secret :: "Ctx \<Rightarrow> string \<Rightarrow> path io" where
  "write_qemu_img_secret cx passphrase =
     (let dir = cx_run cx @ [''.qemu-img-secrets'']; p = qemu_img_secret_path cx in
      sq (create_dir_all dir)
     (sq (set_mode dir 448)
     (sq (write_file p (Bytes passphrase))
     (sq (set_mode p 384)
         (ret p)))))"

definition opt_secret :: "Ctx \<Rightarrow> string option \<Rightarrow> path option io" where
  "opt_secret cx passphrase =
     (case passphrase of
        Some pp \<Rightarrow> bnd (write_qemu_img_secret cx pp) (\<lambda>p. ret (Some p))
      | None \<Rightarrow> ret None)"

definition cleanup_qemu_img_secret :: "path option \<Rightarrow> ('e, unit) m" where
  "cleanup_qemu_img_secret secret =
     (case secret of Some p \<Rightarrow> ignore (remove_file p) | None \<Rightarrow> ret ())"

definition generate_nonce :: "string io" where
  "generate_nonce =
     query (\<lambda>w. Some (concat (map (\<lambda>j. hex02 (random (env w) (now w) j mod 256)) [0..<16])))"

definition write_nonce :: "path \<Rightarrow> string \<Rightarrow> unit io" where
  "write_nonce p n = sq (write_file p (Bytes n)) (set_mode p 384)"

definition read_nonce :: "path \<Rightarrow> string \<Rightarrow> string io" where
  "read_nonce run i =
     bnd (read_to_string (nonce_path run i)) (\<lambda>raw.
       if trim raw = [] then fail () else ret (trim raw))"

section \<open>Volumes\<close>

definition secret_object :: "path option \<Rightarrow> string list" where
  "secret_object secret =
     (case secret of
        Some p \<Rightarrow> [''--object'', ''secret,id=sec0,file='' @ display p @ '',format=raw'']
      | None \<Rightarrow> [])"

definition luks_option :: "path option \<Rightarrow> string list" where
  "luks_option secret =
     (case secret of Some _ \<Rightarrow> [''-o'', ''encrypt.format=luks,encrypt.key-secret=sec0''] | None \<Rightarrow> [])"

definition qemu_img_convert_argv :: "path \<Rightarrow> path \<Rightarrow> path option \<Rightarrow> string list" where
  "qemu_img_convert_argv raw qcow2 secret =
     [''qemu-img'', ''convert''] @ secret_object secret @ [''-O'', ''qcow2''] @ luks_option secret @
     [display raw, display qcow2]"

definition qemu_img_overlay_argv :: "path \<Rightarrow> path \<Rightarrow> path option \<Rightarrow> string list" where
  "qemu_img_overlay_argv backing overlay secret =
     [''qemu-img'', ''create''] @ secret_object secret @
     [''-f'', ''qcow2'', ''-b'', display backing, ''-F'', ''qcow2''] @ luks_option secret @ [display overlay]"

definition qemu_img_blank_argv :: "path \<Rightarrow> nat \<Rightarrow> path option \<Rightarrow> string list" where
  "qemu_img_blank_argv p size_mb secret =
     [''qemu-img'', ''create''] @ secret_object secret @ [''-f'', ''qcow2''] @ luks_option secret @
     [display p, dec size_mb @ ''M'']"

text \<open>\<open>qemu-img\<close> takes the passphrase from the secret file, byte for byte.\<close>

definition secret_key :: "path option \<Rightarrow> world \<Rightarrow> string option" where
  "secret_key secret w = Option.bind secret (\<lambda>p. bytes_at p w)"

definition secret_there :: "path option \<Rightarrow> world \<Rightarrow> bool" where
  "secret_there secret w \<longleftrightarrow> (case secret of Some p \<Rightarrow> bytes_at p w \<noteq> None | None \<Rightarrow> True)"

definition qemu_img_overlay :: "path \<Rightarrow> path \<Rightarrow> path option \<Rightarrow> unit io" where
  "qemu_img_overlay backing overlay secret =
     command (qemu_img_overlay_argv backing overlay secret)
       (\<lambda>w. is_file backing w \<and> secret_there secret w \<and> writable overlay w)
       (\<lambda>w. put_content overlay
          (Volume \<lparr>v_backing = Some backing, v_key = secret_key secret w, v_size = 0, v_seed = None\<rparr>) w)
       (spoil overlay)"

definition qemu_img_blank :: "path \<Rightarrow> nat \<Rightarrow> path option \<Rightarrow> unit io" where
  "qemu_img_blank p size_mb secret =
     command (qemu_img_blank_argv p size_mb secret)
       (\<lambda>w. secret_there secret w \<and> writable p w)
       (\<lambda>w. put_content p
          (Volume \<lparr>v_backing = None, v_key = secret_key secret w, v_size = size_mb, v_seed = None\<rparr>) w)
       (spoil p)"

definition volume_at :: "path \<Rightarrow> world \<Rightarrow> volume option" where
  "volume_at p w =
     (case node_at p w of
        Some n \<Rightarrow> (case kind n of KFile (Volume v) \<Rightarrow> Some v | _ \<Rightarrow> None)
      | None \<Rightarrow> None)"

definition qemu_img_convert :: "path \<Rightarrow> path \<Rightarrow> path option \<Rightarrow> unit io" where
  "qemu_img_convert raw qcow2 secret =
     command (qemu_img_convert_argv raw qcow2 secret)
       (\<lambda>w. volume_at raw w \<noteq> None \<and> secret_there secret w \<and> writable qcow2 w)
       (\<lambda>w. case volume_at raw w of
          Some v \<Rightarrow> put_content qcow2 (Volume (v\<lparr>v_key := secret_key secret w\<rparr>)) w | None \<Rightarrow> w)
       (spoil qcow2)"

definition own_and_lock_down :: "path \<Rightarrow> nat \<Rightarrow> unit io" where
  "own_and_lock_down p uid = sq (chown p (Some uid) None) (set_mode p 384)"

record SeedSpec =
  seed_dir :: path
  seed_uid :: nat
  seed_gid :: nat

definition validate_seed_dir :: "string \<Rightarrow> nat \<Rightarrow> path op" where
  "validate_seed_dir raw data_size =
     (if data_size = 0 then refuse BadRequest MsgSeedNoData
      else if \<not> is_absolute raw then refuse BadRequest (MsgSeedRelative raw)
      else bnd (attempt (query (\<lambda>w. if path_exists (path_of raw) w then Some (is_dir (path_of raw) w) else None)))
        (\<lambda>r. case r of
           Inr True \<Rightarrow> ret (path_of raw)
         | Inr False \<Rightarrow> refuse BadRequest (MsgSeedNotDir raw)
         | Inl _ \<Rightarrow> refuse BadRequest (MsgSeedMissing raw)))"

definition mkfs_seed_argv :: "SeedSpec \<Rightarrow> path \<Rightarrow> string list" where
  "mkfs_seed_argv spec raw =
     [''setpriv'', ''--reuid'', dec (seed_uid spec), ''--regid'', dec (seed_gid spec), ''--clear-groups'', ''--'',
      ''mkfs.ext4'', ''-q'', ''-d'', display (seed_dir spec), display raw]"

definition mkfs_seed :: "SeedSpec \<Rightarrow> path \<Rightarrow> unit io" where
  "mkfs_seed spec raw =
     command (mkfs_seed_argv spec raw) (\<lambda>w. volume_at raw w \<noteq> None)
       (\<lambda>w. case volume_at raw w of
          Some v \<Rightarrow> put_content raw (Volume (v\<lparr>v_seed := Some (seed_dir spec)\<rparr>)) w | None \<Rightarrow> w)
       (spoil raw)"

definition truncate_raw :: "path \<Rightarrow> nat \<Rightarrow> unit io" where
  "truncate_raw p size_mb =
     sq (write_file p (Bytes []))
        (sys (\<lambda>w. True)
          (put_content p (Volume \<lparr>v_backing = None, v_key = None, v_size = size_mb, v_seed = None\<rparr>)) id)"

definition seed_data_volume :: "path \<Rightarrow> path \<Rightarrow> nat \<Rightarrow> SeedSpec \<Rightarrow> path option \<Rightarrow> unit io" where
  "seed_data_volume d data data_size spec secret =
     (let staging = d @ [''.seed-staging'']; raw = staging @ [''data.raw''] in
      sq (prepare_staging_dir staging (seed_uid spec))
     (sq (set_mode staging 448)
     (bnd (attempt
         (sq (truncate_raw raw data_size)
         (sq (chown raw (Some (seed_uid spec)) (Some (seed_gid spec)))
         (sq (mkfs_seed spec raw)
             (qemu_img_convert raw data secret))))) (\<lambda>r.
      sq (cleanup_staging staging) (of_result r)))))"

definition overlay_path :: "path \<Rightarrow> path" where
  "overlay_path d = d @ [''system-overlay.qcow2'']"

definition data_path :: "path \<Rightarrow> path" where
  "data_path d = d @ [''data.qcow2'']"

definition create_volumes ::
  "path \<Rightarrow> path \<Rightarrow> nat \<Rightarrow> nat \<Rightarrow> SeedSpec option \<Rightarrow> path option \<Rightarrow> unit io" where
  "create_volumes template_dir d uid data_size seed secret =
     sq (qemu_img_overlay (template_dir @ [''root.qcow2'']) (overlay_path d) secret)
    (sq (own_and_lock_down (overlay_path d) uid)
        (if 0 < data_size then
           sq (case seed of
                 Some spec \<Rightarrow> seed_data_volume d (data_path d) data_size spec secret
               | None \<Rightarrow> qemu_img_blank (data_path d) data_size secret)
              (own_and_lock_down (data_path d) uid)
         else ret ()))"

end
