(* ===== verification/Handlers.thy ===== *)
theory Handlers
  imports Ops
begin

text \<open>
  The handlers of \<open>components/daemon/src/ops.rs\<close>.  What a handler answers is an
  \<open>op_reply\<close>; \<open>Replies\<close> turns it into the JSON of the protocol.
\<close>

record list_row =
  lr_space :: SpaceConfig
  lr_state :: SpaceState
  lr_isolation :: "(string \<times> string) option"

record profile_row =
  pr_name :: string
  pr_template :: bool
  pr_manifest :: "manifest_error option + Manifest"

record description =
  de_space :: SpaceConfig
  de_state :: SpaceState
  de_manifest :: Manifest
  de_manifest_path :: path
  de_data_bytes :: "nat option"
  de_rss_kib :: "nat option"
  de_uptime :: "nat option"
  de_log_tail :: "string list"

record net_report =
  nr_bridge :: bool
  nr_captive :: bool
  nr_taps :: "TapStatus list"
  nr_pci :: PciStatus
  nr_miyori_net :: MiyoriNetStatus
  nr_ruleset :: RulesetStatus

datatype op_reply =
    RList "list_row list"
  | RProfiles "profile_row list"
  | RDescribe description
  | RBuilt SpaceId string path
  | RCreated SpaceId nat nat
  | RStarted SpaceId nat app_report
  | RStopped SpaceId bool detail
  | RWindow SpaceId detail
  | RSpace SpaceId
  | RUpdated SpaceId string string detail
  | RNet net_report

section \<open>Reading\<close>

definition list_row_of :: "Ctx \<Rightarrow> SpaceConfig \<Rightarrow> list_row op" where
  "list_row_of cx c =
     bnd (attempt (load_manifest cx (id_str (c_profile c)))) (\<lambda>r.
     bnd (observed_state (cx_libs cx) (cx_run cx) (id_str (c_id c)) (c_cid c)) (\<lambda>st.
       ret \<lparr>lr_space = c, lr_state = st,
            lr_isolation = (case r of Inr m \<Rightarrow> Some (level (isolation m), reason (isolation m))
                            | Inl _ \<Rightarrow> None)\<rparr>))"

definition op_list :: "Ctx \<Rightarrow> op_reply op" where
  "op_list cx =
     bnd (load_store cx) (\<lambda>s.
     bnd (each (list_row_of cx) (spaces s)) (\<lambda>rows. ret (RList rows)))"

definition describe_profile :: "Ctx \<Rightarrow> string \<Rightarrow> profile_row op" where
  "describe_profile cx profile =
     bnd (attempt (resolve_template_digest (cx_state cx) profile)) (\<lambda>t.
     bnd (attempt (manifest_load (cx_libs cx) (manifest_path (cx_state cx) profile))) (\<lambda>m.
       ret \<lparr>pr_name = profile, pr_template = \<not> isl t, pr_manifest = m\<rparr>))"

definition op_profiles :: "Ctx \<Rightarrow> op_reply op" where
  "op_profiles cx =
     (let dir = cx_state cx @ [''profiles''] in
      bnd (ask (path_exists dir)) (\<lambda>present.
      bnd (if \<not> present then ret []
           else bnd (internal (read_dir dir)) (\<lambda>names.
             ask (\<lambda>w. map from_utf8_lossy (filter (\<lambda>n. is_dir (dir @ [n]) w) names)))) (\<lambda>names.
      bnd (each (describe_profile cx) (sort names)) (\<lambda>rows. ret (RProfiles rows)))))"

definition op_describe :: "Ctx \<Rightarrow> SpaceId \<Rightarrow> op_reply op" where
  "op_describe cx i =
     bnd (load_store cx) (\<lambda>s.
     bnd (space_or_not_found s i) (\<lambda>c.
     bnd (load_manifest cx (id_str (c_profile c))) (\<lambda>m.
     bnd (ask (file_len (data_path (space_dir (cx_state cx) i)))) (\<lambda>data.
     bnd (observed_state (cx_libs cx) (cx_run cx) (id_str (c_id c)) (c_cid c)) (\<lambda>st.
     bnd (pid_of (cx_run cx) (id_str i) (c_cid c)) (\<lambda>pid.
     bnd (case pid of Some p \<Rightarrow> rss_kib p | None \<Rightarrow> ret None) (\<lambda>rss.
     bnd (ask (\<lambda>w. case pid of
            Some _ \<Rightarrow> uptime_secs (mtime (env w) (now w)) (secs (env w) (now w)) | None \<Rightarrow> None)) (\<lambda>up.
     bnd (tail_sanitized (log_path (cx_state cx) (id_str i)) LOG_TAIL_MAX_LINES LOG_TAIL_MAX_LINE_CHARS) (\<lambda>tl.
       ret (RDescribe \<lparr>de_space = c, de_state = st, de_manifest = m,
              de_manifest_path = manifest_path (cx_state cx) (id_str (c_profile c)),
              de_data_bytes = data, de_rss_kib = rss, de_uptime = up, de_log_tail = tl\<rparr>))))))))))"

definition op_net_status :: "Ctx \<Rightarrow> op_reply op" where
  "op_net_status cx =
     bnd list_space_taps (\<lambda>taps.
     bnd (pci_status (cx_uplink cx)) (\<lambda>pci.
     bnd miyori_net_status (\<lambda>mn.
     bnd (\<lambda>w. (Inr (\<not> faulty w, nft w), tick w)) (\<lambda>(success, rules).
     bnd bridge_exists (\<lambda>br.
     bnd (link_exists CAPTIVE_BRIDGE) (\<lambda>cap.
     bnd (ask (\<lambda>w. console (env w) (now w))) (\<lambda>out.
       ret (RNet \<lparr>nr_bridge = br, nr_captive = cap, nr_taps = taps, nr_pci = pci, nr_miyori_net = mn,
              nr_ruleset = ruleset_from_output (cx_no_reason cx) success out out RULESET_MAX_CHARS\<rparr>))))))))"

section \<open>Creating, building\<close>

definition seed_spec_of :: "Ctx \<Rightarrow> Manifest \<Rightarrow> string option \<Rightarrow> SeedSpec option op" where
  "seed_spec_of cx m seed =
     (case seed of
        None \<Rightarrow> ret None
      | Some raw \<Rightarrow>
          bnd (validate_seed_dir raw (data_mb (resources m))) (\<lambda>d.
          bnd (resolve_build_uid cx) (\<lambda>uid.
          bnd (resolve_build_gid uid) (\<lambda>gid.
            ret (Some \<lparr>seed_dir = d, seed_uid = uid, seed_gid = gid\<rparr>)))))"

definition with_secret :: "Ctx \<Rightarrow> string option \<Rightarrow> (path option \<Rightarrow> unit io) \<Rightarrow> unit io" where
  "with_secret cx passphrase f =
     bnd (opt_secret cx passphrase) (\<lambda>secret.
     bnd (attempt (f secret)) (\<lambda>r.
     sq (cleanup_qemu_img_secret secret) (of_result r)))"

definition op_create ::
  "Ctx \<Rightarrow> SpaceId \<Rightarrow> SpaceId \<Rightarrow> Label \<Rightarrow> Color \<Rightarrow> string option \<Rightarrow> string option \<Rightarrow> op_reply op" where
  "op_create cx i profile l k seed passphrase =
     (if passphrase = Some [] then refuse BadRequest MsgEmptyPassphrase
      else if id_str i = MIYORI_NET_ID then refuse BadRequest (MsgReservedId i)
      else
      bnd (load_store cx) (\<lambda>s.
      if store_get s i \<noteq> None then refuse SpaceExists (MsgExists i)
      else
      bnd (load_manifest cx (id_str profile)) (\<lambda>m.
      bnd (resolve_template_digest (cx_state cx) (id_str profile)) (\<lambda>digest.
      bnd (seed_spec_of cx m seed) (\<lambda>spec.
      bnd (internal (create_space (cx_libs cx) s i profile digest l k (passphrase \<noteq> None))) (\<lambda>(s', c).
      bnd (attempt
          (sq (with_secret cx passphrase
                (create_volumes (template_dir_path (cx_state cx) (id_str profile) digest)
                  (space_dir (cx_state cx) i) (c_uid c) (data_mb (resources m)) spec))
              (refresh (cx_libs cx) s' (cx_registry cx)))) (\<lambda>r.
      case r of
        Inl _ \<Rightarrow> sq (ignore (remove_space s' i)) (refuse Internal MsgInternal)
      | Inr _ \<Rightarrow> ret (RCreated (c_id c) (c_cid c) (c_uid c)))))))))"

definition staging_dir :: "Ctx \<Rightarrow> string \<Rightarrow> path" where
  "staging_dir cx profile =
     cx_state cx @ [''templates'', ''.staging'', profile @ ''-'' @ cx_thread cx]"

definition own_dir_and_its_entries_as_root :: "path \<Rightarrow> unit io" where
  "own_dir_and_its_entries_as_root d =
     sq (chown d (Some 0) (Some 0))
        (bnd (read_dir d) (\<lambda>names.
           bnd (each (\<lambda>n. chown (d @ [n]) (Some 0) (Some 0)) names) (\<lambda>_. ret ())))"

definition finalize_template :: "path \<Rightarrow> path \<Rightarrow> unit io" where
  "finalize_template built final =
     bnd (ask (is_dir final)) (\<lambda>there.
       if there then ret ()
       else sq (create_dir_all (butlast final))
           (sq (rename_dir built final)
               (own_dir_and_its_entries_as_root final)))"

definition relink_latest :: "path \<Rightarrow> string \<Rightarrow> unit io" where
  "relink_latest d digest = sq (ignore (remove_file (d @ [''latest'']))) (symlink digest (d @ [''latest'']))"

definition op_build :: "Ctx \<Rightarrow> SpaceId \<Rightarrow> op_reply op" where
  "op_build cx profile =
     (let p = id_str profile; staging = staging_dir cx p in
      bnd (load_manifest cx p) (\<lambda>_.
      bnd (resolve_build_uid cx) (\<lambda>uid.
      bnd (resolve_build_gid uid) (\<lambda>gid.
      bnd (resolve_build_home uid) (\<lambda>home.
      sq (internal (prepare_staging_dir staging uid))
     (bnd (attempt (run_streaming (build_argv uid gid (pjoin (cx_state cx @ [''profiles'']) p)) staging home
            (cx_built cx))) (\<lambda>r.
      if isl r then sq (cleanup_staging staging) (refuse Internal MsgInternal)
      else
      bnd (attempt (digest_from_out_dir staging p)) (\<lambda>d.
      case d of
        Inl _ \<Rightarrow> sq (cleanup_staging staging) (refuse Internal MsgInternal)
      | Inr digest \<Rightarrow>
          (let final = template_dir_path (cx_state cx) p digest in
           bnd (attempt (finalize_template (pjoin (pjoin staging p) digest) final)) (\<lambda>f.
           if isl f then sq (cleanup_staging staging) (refuse Internal MsgInternal)
           else
             sq (ignore (relink_latest (pjoin (cx_state cx @ [''templates'']) p) digest))
            (sq (cleanup_staging staging)
                (ret (RBuilt profile digest final)))))))))))))"

section \<open>Starting\<close>

definition AGENT_START_DEADLINE :: nat where
  "AGENT_START_DEADLINE = 20"

text \<open>Each round sleeps 300 ms, so the deadline of 20 s has passed after this many.\<close>

definition AGENT_ROUNDS :: nat where
  "AGENT_ROUNDS = 67"

fun poll_agent :: "libs \<Rightarrow> nat \<Rightarrow> string \<Rightarrow> (HealthError, bool) m \<Rightarrow> nat \<Rightarrow> nat \<Rightarrow> (HealthError, app_report option) m" where
  "poll_agent x cid n alive t0 rounds =
     bnd (attempt (agent_health x cid n)) (\<lambda>h.
       case h of
         Inr _ \<Rightarrow> ret None
       | Inl e \<Rightarrow>
           (case rounds of
              0 \<Rightarrow> ret (Some (AppNoAnswer e))
            | Suc k \<Rightarrow>
                bnd (ask (\<lambda>w. secs (env w) (now w) - t0 < AGENT_START_DEADLINE)) (\<lambda>early.
                if \<not> early then ret (Some (AppNoAnswer e))
                else bnd alive (\<lambda>a.
                  if \<not> a then ret (Some AppDied)
                  else sq (tell (\<lambda>w. w\<lparr>sent := sent w @ [Waiting]\<rparr>)) (poll_agent x cid n alive t0 k)))))"

declare poll_agent.simps [simp del]

definition start_app_via_agent ::
  "libs \<Rightarrow> nat \<Rightarrow> string \<Rightarrow> (HealthError, bool) m \<Rightarrow> (HealthError, app_report) m" where
  "start_app_via_agent x cid n alive =
     bnd (ask (\<lambda>w. secs (env w) (now w))) (\<lambda>t0.
     bnd (poll_agent x cid n alive t0 AGENT_ROUNDS) (\<lambda>r.
       case r of
         Some report \<Rightarrow> ret report
       | None \<Rightarrow>
           bnd (attempt (agent_exec_app x cid n)) (\<lambda>e.
             ret (case e of
                Inr reply \<Rightarrow>
                  (if ok reply then AppStarted
                   else case detail reply of Some d \<Rightarrow> AppSays d | None \<Rightarrow> AppRefused)
              | Inl err \<Rightarrow> AppFailed err))))"

text \<open>The source compares the text of the report with \<open>started\<close>, whoever wrote it.\<close>

definition reads_started :: "app_report \<Rightarrow> bool" where
  "reads_started r \<longleftrightarrow> r = AppStarted \<or> r = AppSays ''started''"

definition child_alive :: "SpaceId \<Rightarrow> ('e, bool) m" where
  "child_alive i =
     bnd (ask (\<lambda>w. al_get (children w) (id_str i))) (\<lambda>c.
       case c of None \<Rightarrow> ret False | Some pid \<Rightarrow> bnd (try_wait pid) (\<lambda>gone. ret (\<not> gone)))"

definition prepare_space_run_dir :: "path \<Rightarrow> nat option \<Rightarrow> unit io" where
  "prepare_space_run_dir d gid =
     (let gui = d @ [''gui''] in
      sq (create_dir_all d)
     (sq (set_mode d 493)
     (sq (create_dir_all gui)
         (case gid of
            None \<Rightarrow> ret ()
          | Some g \<Rightarrow> sq (chown gui None (Some g)) (set_mode gui 504)))))"

definition last_lines :: "nat \<Rightarrow> 'a list \<Rightarrow> 'a list" where
  "last_lines n xs = drop (length xs - n) xs"

definition tail_of :: "path \<Rightarrow> ('e, string) m" where
  "tail_of p =
     bnd (attempt (read_to_string p)) (\<lambda>r.
       ret (join_str [CHR 0x0A] (last_lines 5 (lines (case r of Inr s \<Rightarrow> s | Inl _ \<Rightarrow> [])))))"

definition qemu_died_of_wrong_passphrase :: "string \<Rightarrow> bool" where
  "qemu_died_of_wrong_passphrase log_tail \<longleftrightarrow> contains_sub log_tail ''Invalid password, cannot unlock any keyslot''"

definition kill_and_reap :: "Ctx \<Rightarrow> string \<Rightarrow> ('e, unit) m" where
  "kill_and_reap cx i =
     bnd (ask (\<lambda>w. al_get (children w) i)) (\<lambda>h.
     sq (tell (\<lambda>w. w\<lparr>children := al_del i (children w)\<rparr>))
    (sq (case h of
           Some pid \<Rightarrow> kill_process pid
         | None \<Rightarrow>
             bnd (attempt (read_to_string (pid_path (cx_run cx) i))) (\<lambda>r.
               case Option.bind (case r of Inr s \<Rightarrow> Some (trim s) | Inl _ \<Rightarrow> None) parse_u32 of
                 None \<Rightarrow> ret ()
               | Some pid \<Rightarrow>
                   ignore (command [''kill'', ''-KILL'', dec pid] (\<lambda>w. al_get (procs w) pid \<noteq> None)
                     (\<lambda>w. w\<lparr>procs := al_del pid (procs w)\<rparr>) id)))
        (ignore (remove_file (pid_path (cx_run cx) i)))))"

text \<open>The error for a VM that died, by the end of its log.\<close>

definition death_error :: "SpaceId \<Rightarrow> op_msg \<Rightarrow> string \<Rightarrow> op_reply op" where
  "death_error i other log_tail =
     (if qemu_died_of_wrong_passphrase log_tail then refuse WrongPassphrase (MsgWrongPassphrase i)
      else refuse Internal other)"

definition run_of :: "Ctx \<Rightarrow> SpaceConfig \<Rightarrow> Manifest \<Rightarrow> string \<Rightarrow> nat \<Rightarrow> SpaceRun" where
  "run_of cx c m n gid =
     (let d = space_dir (cx_state cx) (c_id c) in
      \<lparr>sr_id = id_str (c_id c), sr_cid = c_cid c, sr_uid = c_uid c,
       sr_template_dir = template_dir_path (cx_state cx) (id_str (c_profile c)) (c_digest c),
       sr_overlay = overlay_path d, sr_data = data_path d, sr_data_mb = data_mb (resources m),
       sr_memory_mb = memory_mb (resources m), sr_cpus = cpus (resources m),
       sr_isolation_level = level (isolation m), sr_gpu = gpu (isolation m), sr_nonce = n,
       sr_app_command = app_command (app m), sr_kvm_gid = gid\<rparr>)"

definition started_vm :: "Ctx \<Rightarrow> SpaceConfig \<Rightarrow> SpaceRun \<Rightarrow> nat \<Rightarrow> op_reply op" where
  "started_vm cx c run pid =
     (let i = c_id c; log = log_path (cx_state cx) (id_str i) in
      bnd (try_wait pid) (\<lambda>gone.
      if gone then
        sq (ignore (delete_tap (c_cid c)))
       (sq (ignore (remove_file (pid_path (cx_run cx) (id_str i))))
       (sq (remove_running_secret (cx_run cx) (id_str i))
           (bnd (tail_of log) (death_error i (MsgDiedAtOnce i)))))
      else
        sq (tell (\<lambda>w. w\<lparr>children := al_put (id_str i) pid (children w)\<rparr>))
       (bnd (map_err (\<lambda>_. (Internal, MsgInternal))
              (start_app_via_agent (cx_libs cx) (c_cid c) (sr_nonce run) (child_alive i))) (\<lambda>report.
        bnd (if reads_started report then ret True else child_alive i) (\<lambda>still_alive.
        if still_alive then ret (RStarted i (c_cid c) report)
        else
          sq (kill_and_reap cx (id_str i))
         (sq (ignore (delete_tap (c_cid c)))
         (sq (remove_running_secret (cx_run cx) (id_str i))
             (bnd (tail_of log) (death_error i (MsgDiedStarting i))))))))))"

definition opt_running_secret :: "Ctx \<Rightarrow> SpaceConfig \<Rightarrow> string option \<Rightarrow> path option io" where
  "opt_running_secret cx c passphrase =
     (case passphrase of
        Some pp \<Rightarrow> bnd (write_running_secret (cx_run cx) (id_str (c_id c)) (c_uid c) pp) (\<lambda>p. ret (Some p))
      | None \<Rightarrow> ret None)"

definition launch_vm :: "Ctx \<Rightarrow> SpaceConfig \<Rightarrow> Manifest \<Rightarrow> string \<Rightarrow> nat \<Rightarrow> string option \<Rightarrow> op_reply op" where
  "launch_vm cx c m n gid passphrase =
     bnd (attempt (opt_running_secret cx c passphrase)) (\<lambda>r.
     case r of
       Inl _ \<Rightarrow> sq (ignore (delete_tap (c_cid c))) (refuse Internal MsgInternal)
     | Inr secret \<Rightarrow>
         (let run = run_of cx c m n gid in
          bnd (attempt (qemu_spawn run (cx_run cx) (cx_state cx) secret)) (\<lambda>r.
          case r of
            Inr pid \<Rightarrow> started_vm cx c run pid
          | Inl _ \<Rightarrow>
              sq (ignore (delete_tap (c_cid c)))
             (sq (remove_running_secret (cx_run cx) (id_str (c_id c)))
                 (refuse Internal MsgInternal)))))"

definition op_start :: "Ctx \<Rightarrow> SpaceId \<Rightarrow> string option \<Rightarrow> op_reply op" where
  "op_start cx i passphrase =
     bnd (load_store cx) (\<lambda>s.
     bnd (space_or_not_found s i) (\<lambda>c.
     sq (require_passphrase_matches_encryption (c_encrypted c) passphrase)
    (bnd (state_of (cx_run cx) (id_str i) (c_cid c)) (\<lambda>st.
     if st = Running then refuse SpaceRunning (MsgAlreadyRunning i)
     else
     bnd bridge_exists (\<lambda>br.
     if \<not> br then refuse NoBridge MsgNoBridge
     else
     bnd (load_manifest cx (id_str (c_profile c))) (\<lambda>m.
     (let td = template_dir_path (cx_state cx) (id_str (c_profile c)) (c_digest c) in
     bnd (ask (is_file (td @ [''root.qcow2'']))) (\<lambda>complete.
     if \<not> complete then refuse TemplateNotFound (MsgTemplateMissing td)
     else
     bnd lookup_kvm_gid (\<lambda>gid.
     bnd (internal generate_nonce) (\<lambda>n.
     sq (internal (prepare_space_run_dir (pjoin (cx_run cx) (id_str i)) (cx_socket_gid cx)))
    (sq (internal (write_nonce (nonce_path (cx_run cx) (id_str i)) n))
    (sq (internal (reap_leftover_tap (c_cid c)))
    (sq (internal (create_tap (c_cid c) (c_uid c)))
        (launch_vm cx c m n gid passphrase))))))))))))))"

section \<open>Stopping and the rest\<close>

definition shutdown_via_agent :: "Ctx \<Rightarrow> string \<Rightarrow> nat \<Rightarrow> ('e, bool \<times> detail) m" where
  "shutdown_via_agent cx i cid =
     bnd (attempt (read_nonce (cx_run cx) i)) (\<lambda>r.
     case r of
       Inl _ \<Rightarrow> ret (False, DNonceUnreadable)
     | Inr n \<Rightarrow>
         bnd (attempt (agent_shutdown (cx_libs cx) cid n)) (\<lambda>a.
           ret (case a of
              Inl e \<Rightarrow> (False, DUnreachable e)
            | Inr reply \<Rightarrow>
                if ok reply \<and> data_unmounted reply = Some True
                then (True, case AgentReply.detail reply of Some d \<Rightarrow> DSays d | None \<Rightarrow> DUnmounted)
                else (False, case AgentReply.detail reply of Some d \<Rightarrow> DSays d | None \<Rightarrow> DNotConfirmed))))"

definition op_stop :: "Ctx \<Rightarrow> SpaceId \<Rightarrow> op_reply op" where
  "op_stop cx i =
     bnd (load_store cx) (\<lambda>s.
     bnd (space_or_not_found s i) (\<lambda>c.
     bnd (state_of (cx_run cx) (id_str i) (c_cid c)) (\<lambda>st.
     if st \<noteq> Running then refuse SpaceStopped (MsgNotRunning i)
     else
     bnd (shutdown_via_agent cx (id_str i) (c_cid c)) (\<lambda>(graceful, d).
     sq (kill_and_reap cx (id_str i))
    (sq (internal (delete_tap (c_cid c)))
    (sq (remove_running_secret (cx_run cx) (id_str i))
    (sq (internal (set_clean_shutdown (cx_libs cx) s i graceful))
        (ret (RStopped i graceful d)))))))))"

definition op_open_window :: "Ctx \<Rightarrow> SpaceId \<Rightarrow> op_reply op" where
  "op_open_window cx i =
     bnd (load_store cx) (\<lambda>s.
     bnd (space_or_not_found s i) (\<lambda>c.
     bnd (state_of (cx_run cx) (id_str i) (c_cid c)) (\<lambda>st.
     if st \<noteq> Running then refuse SpaceStopped (MsgNotRunning i)
     else
     bnd (map_err (\<lambda>_. (AgentTimeout, MsgNonceUnreadable)) (read_nonce (cx_run cx) (id_str i))) (\<lambda>n.
     bnd (attempt (agent_exec_app (cx_libs cx) (c_cid c) n)) (\<lambda>a.
     case a of
       Inr reply \<Rightarrow>
         if ok reply
         then ret (RWindow i (case AgentReply.detail reply of Some d \<Rightarrow> DSays d | None \<Rightarrow> DWindowOpened))
         else refuse AgentTimeout (case AgentReply.detail reply of Some d \<Rightarrow> MsgAgentSays d | None \<Rightarrow> MsgAgentRefusedWindow)
     | Inl e \<Rightarrow> refuse AgentTimeout (MsgAgentUnreachable e))))))"

definition op_reset_system :: "Ctx \<Rightarrow> SpaceId \<Rightarrow> string option \<Rightarrow> op_reply op" where
  "op_reset_system cx i passphrase =
     bnd (load_store cx) (\<lambda>s.
     bnd (space_or_not_found s i) (\<lambda>c.
     sq (require_passphrase_matches_encryption (c_encrypted c) passphrase)
    (sq (reject_if_running cx i (c_cid c))
    (let td = template_dir_path (cx_state cx) (id_str (c_profile c)) (c_digest c);
         overlay = overlay_path (space_dir (cx_state cx) i) in
     sq (internal (with_secret cx passphrase (\<lambda>secret.
          sq (qemu_img_overlay (td @ [''root.qcow2'']) overlay secret) (own_and_lock_down overlay (c_uid c)))))
        (ret (RSpace i))))))"

definition op_reset_all :: "Ctx \<Rightarrow> SpaceId \<Rightarrow> string option \<Rightarrow> op_reply op" where
  "op_reset_all cx i passphrase =
     bnd (load_store cx) (\<lambda>s.
     bnd (space_or_not_found s i) (\<lambda>c.
     sq (require_passphrase_matches_encryption (c_encrypted c) passphrase)
    (sq (reject_if_running cx i (c_cid c))
    (bnd (load_manifest cx (id_str (c_profile c))) (\<lambda>m.
     let td = template_dir_path (cx_state cx) (id_str (c_profile c)) (c_digest c) in
     sq (internal (with_secret cx passphrase
          (create_volumes td (space_dir (cx_state cx) i) (c_uid c) (data_mb (resources m)) None)))
        (ret (RSpace i)))))))"

definition op_update_image :: "Ctx \<Rightarrow> SpaceId \<Rightarrow> string option \<Rightarrow> op_reply op" where
  "op_update_image cx i passphrase =
     bnd (load_store cx) (\<lambda>s.
     bnd (space_or_not_found s i) (\<lambda>c.
     sq (require_passphrase_matches_encryption (c_encrypted c) passphrase)
    (sq (reject_if_running cx i (c_cid c))
    (bnd (resolve_latest_digest (cx_state cx) (id_str (c_profile c))) (\<lambda>new.
     if new = c_digest c then ret (RUpdated i (c_digest c) new DUpToDate)
     else
     (let td = template_dir_path (cx_state cx) (id_str (c_profile c)) new;
          overlay = overlay_path (space_dir (cx_state cx) i) in
     bnd (ask (template_dir_is_complete td)) (\<lambda>complete.
     if \<not> complete then refuse TemplateNotFound (MsgTemplateMissing td)
     else
     sq (internal (with_secret cx passphrase (\<lambda>secret.
          sq (qemu_img_overlay (td @ [''root.qcow2'']) overlay secret) (own_and_lock_down overlay (c_uid c)))))
    (sq (internal (set_digest (cx_libs cx) s i new))
        (ret (RUpdated i (c_digest c) new DUpdated))))))))))"

definition op_destroy :: "Ctx \<Rightarrow> SpaceId \<Rightarrow> op_reply op" where
  "op_destroy cx i =
     bnd (load_store cx) (\<lambda>s.
     bnd (space_or_not_found s i) (\<lambda>c.
     sq (reject_if_running cx i (c_cid c))
    (sq (internal (reap_leftover_tap (c_cid c)))
    (bnd (internal (remove_space s i)) (\<lambda>s'.
     sq (internal (refresh (cx_libs cx) s' (cx_registry cx)))
        (ret (RSpace i)))))))"

definition dispatch :: "Ctx \<Rightarrow> Request \<Rightarrow> op_reply op" where
  "dispatch cx req =
     (case req of
        List \<Rightarrow> op_list cx
      | Describe i \<Rightarrow> op_describe cx i
      | Build p \<Rightarrow> op_build cx p
      | Create i p l k sd pw \<Rightarrow> op_create cx i p l k sd pw
      | Start i pw \<Rightarrow> op_start cx i pw
      | Stop i \<Rightarrow> op_stop cx i
      | OpenWindow i \<Rightarrow> op_open_window cx i
      | ResetSystem i pw \<Rightarrow> op_reset_system cx i pw
      | ResetAll i pw \<Rightarrow> op_reset_all cx i pw
      | UpdateImage i pw \<Rightarrow> op_update_image cx i pw
      | Destroy i \<Rightarrow> op_destroy cx i
      | NetStatus \<Rightarrow> op_net_status cx
      | Profiles \<Rightarrow> op_profiles cx)"

end
