(* ===== verification/Example.thy ===== *)
theory Example
  imports Handlers
begin

text \<open>
  A concrete host: a text format that stands for the one of \<open>basic_toml\<close> and
  meets \<open>libs_ok\<close>, a context, and a world with one profile and its template.  The
  witnesses of the daemon's properties are about it.
\<close>

section \<open>A text format\<close>

text \<open>A list of strings as text: two letters a byte, a comma after each string.\<close>

definition letters :: "char \<Rightarrow> string" where
  "letters c = [char_of (97 + byte_of c div 16), char_of (97 + byte_of c mod 16)]"

fun unletters :: "string \<Rightarrow> string" where
  "unletters (a # b # r) = char_of ((byte_of a - 97) * 16 + (byte_of b - 97)) # unletters r"
| "unletters _ = []"

definition pack :: "string list \<Rightarrow> string" where
  "pack xs = concat (map (\<lambda>s. concat (map letters s) @ [CHR '','']) xs)"

definition unpack :: "string \<Rightarrow> string list" where
  "unpack s = map unletters (butlast (split_on (CHR '','') s))"

lemma letters_range: "c \<in> set (letters b) \<Longrightarrow> 97 \<le> byte_of c \<and> byte_of c < 113"
proof -
  have "byte_of b < 256" by simp
  then have "byte_of b div 16 < 16" by (simp add: less_mult_imp_div_less)
  then show "c \<in> set (letters b) \<Longrightarrow> 97 \<le> byte_of c \<and> byte_of c < 113"
    by (auto simp: letters_def byte_of_char_of)
qed

lemma unletters_letters: "unletters (concat (map letters s)) = s"
proof (induction s)
  case (Cons c s)
  have "byte_of c < 256" by simp
  then have "byte_of c div 16 < 16" by (simp add: less_mult_imp_div_less)
  then have "(97 + byte_of c div 16 :: nat) < 256" "(97 + byte_of c mod 16 :: nat) < 256" by auto
  then show ?case using Cons by (simp add: letters_def byte_of_char_of)
qed simp

lemma unpack_pack: "unpack (pack xs) = xs"
proof -
  have "split_on (CHR '','') (pack xs) = map (\<lambda>s. concat (map letters s)) xs @ [[]]"
  proof (induction xs)
    case (Cons s xs)
    have "CHR '','' \<notin> set (concat (map letters s))" using letters_range by fastforce
    then show ?case using Cons by (simp add: pack_def split_on_append)
  qed (simp add: pack_def)
  then show ?thesis by (simp add: unpack_def unletters_letters butlast_append o_def)
qed

lemma pack_ascii: "valid_utf8 (pack xs)"
proof (rule valid_utf8_ascii)
  have "byte_of c < 128" if "c \<in> set (pack xs)" for c
  proof -
    from that have "c = CHR '','' \<or> (\<exists>b. c \<in> set (letters b))" by (auto simp: pack_def split: if_splits)
    then show ?thesis using letters_range by fastforce
  qed
  then show "is_ascii (pack xs)" by (simp add: is_ascii_def list_all_iff)
qed

definition bool_text :: "bool option \<Rightarrow> string" where
  "bool_text b = (case b of None \<Rightarrow> [] | Some True \<Rightarrow> ''t'' | Some False \<Rightarrow> ''f'')"

definition text_bool :: "string \<Rightarrow> bool option" where
  "text_bool s = (if s = [] then None else Some (s = ''t''))"

definition config_text :: "raw_config \<Rightarrow> string" where
  "config_text r =
     pack [r_id r, r_profile r, r_digest r, dec (r_cid r), dec (r_uid r), r_label r, r_color r, r_created r,
       bool_text (r_clean r), bool_text (Some (r_encrypted r))]"

definition text_config :: "string \<Rightarrow> raw_config option" where
  "text_config s =
     (case unpack s of
        [i, p, g, c, u, l, k, t, b, e] \<Rightarrow>
          Some \<lparr>r_id = i, r_profile = p, r_digest = g, r_cid = digits_val c, r_uid = digits_val u, r_label = l,
                r_color = k, r_created = t, r_clean = text_bool b, r_encrypted = (e = ''t'')\<rparr>
      | _ \<Rightarrow> None)"

definition space_text :: "space \<Rightarrow> string" where
  "space_text s = pack [sp_id s, dec (sp_cid s), sp_label s, sp_color s]"

definition text_space :: "string \<Rightarrow> space option" where
  "text_space t =
     (case unpack t of
        [i, c, l, k] \<Rightarrow> Some \<lparr>sp_id = i, sp_cid = digits_val c, sp_label = l, sp_color = k\<rparr> | _ \<Rightarrow> None)"

definition registry_text :: "space list \<Rightarrow> string" where
  "registry_text ss = pack (map space_text ss)"

definition text_registry :: "string \<Rightarrow> space list option" where
  "text_registry t = those (map text_space (unpack t))"

section \<open>The host\<close>

definition ex_manifest :: Manifest where
  "ex_manifest =
     \<lparr>m_id = ''web'', description = [], base = \<lparr>builder = ''mmdebstrap'', suite = ''trixie'',
        sources = [''deb http://deb.debian.org/debian trixie main''], packages = [''firefox-esr''],
        firmware_include = [], keyring = None, blob = [], mfile = []\<rparr>,
      app = \<lparr>app_mode = ''app'', app_command = ''/usr/bin/firefox''\<rparr>,
      resources = \<lparr>memory_mb = 2048, cpus = 2, disk_gb = 8, data_mb = 512\<rparr>,
      isolation = \<lparr>level = ''standard'', gpu = ''none'', reason = []\<rparr>, via = ''miyori-net''\<rparr>"

lemma ex_manifest_ok: "manifest_validate ex_manifest = Inr ()"
  by code_simp

text \<open>The agent of every guest answers with the nonce of zeros.\<close>

definition ex_reply :: json where
  "ex_reply =
     JObj [(''nonce'', JStr (replicate 32 (CHR ''0''))), (''ok'', JBool True), (''data_unmounted'', JBool True)]"

definition ex_libs :: libs where
  "ex_libs =
     \<lparr>toml_config = text_config, print_config = config_text, toml_manifest = (\<lambda>_. Some ex_manifest),
      toml_registry = text_registry, print_registry = registry_text, json_parse = (\<lambda>_. Some ex_reply)\<rparr>"

lemma libs_ok_ex: "libs_ok ex_libs"
proof -
  have b: "text_bool (bool_text b) = b" for b
    by (cases b) (auto simp: bool_text_def text_bool_def split: bool.split)
  have e: "(bool_text (Some a) = ''t'') = a" for a
    by (auto simp: bool_text_def split: bool.split)
  have "text_config (config_text r) = Some r" for r
    by (simp add: text_config_def config_text_def unpack_pack b e)
  moreover have "text_registry (registry_text ss) = Some ss" for ss
  proof -
    have "those (map text_space (map space_text ss)) = Some ss"
      by (induction ss) (simp_all add: text_space_def space_text_def unpack_pack)
    then show ?thesis by (simp add: text_registry_def registry_text_def unpack_pack)
  qed
  ultimately show ?thesis
    by (simp add: libs_ok_def ex_libs_def config_text_def registry_text_def pack_ascii)
qed

definition ex_ctx :: Ctx where
  "ex_ctx =
     \<lparr>cx_state = [''var'', ''lib'', ''miyori''], cx_run = [''run'', ''miyori''],
      cx_registry = [''run'', ''miyori'', ''registry.toml''], cx_build_uid = Some 1000, cx_socket_gid = None,
      cx_thread = ''1'', cx_libs = ex_libs, cx_built = \<lparr>b_lines = [], b_digest = ''d2'', b_files = []\<rparr>,
      cx_uplink = ''0000:02:00.0'', cx_no_reason = ''no reason''\<rparr>"

definition ex_env :: env where
  "ex_env =
     \<lparr>fault = (\<lambda>_. False), junk = (\<lambda>_. None), partial = (\<lambda>_ _. False), exits = (\<lambda>_. False),
      guest = (\<lambda>_. Stream [CHR ''x'', CHR 0x0A]), random = (\<lambda>_ _. 0), secs = (\<lambda>n. n), console = (\<lambda>_. []), mtime = (\<lambda>_. None),
      umask_file = 420, umask_dir = 493, disk_len = (\<lambda>_. 196616)\<rparr>"

definition ex_dir :: "path \<Rightarrow> path \<times> node" where
  "ex_dir p = (p, \<lparr>kind = KDir, mode = 493, owner = 0, grp = 0\<rparr>)"

definition ex_file :: "path \<Rightarrow> content \<Rightarrow> path \<times> node" where
  "ex_file p c = (p, \<lparr>kind = KFile c, mode = 420, owner = 0, grp = 0\<rparr>)"

definition ex_root :: content where
  "ex_root = Volume \<lparr>v_backing = None, v_key = None, v_size = 8192, v_seed = None\<rparr>"

text \<open>One profile \<open>web\<close> with a template \<open>d1\<close>, no space yet.\<close>

definition ex_fs :: "(path \<times> node) list" where
  "ex_fs =
     (let st = cx_state ex_ctx; t = st @ [''templates'', ''web'', ''d1''] in
      [ex_dir [''etc''], ex_file [''etc'', ''passwd''] (Bytes ''root:x:0:0::/root:''),
       ex_file [''etc'', ''group''] (Bytes ''kvm:x:36:''),
       ex_dir [''run''], ex_dir (cx_run ex_ctx), ex_dir st, ex_dir (st @ [''profiles'']), ex_dir (st @ [''profiles'', ''web'']),
       ex_file (st @ [''profiles'', ''web'', ''manifest.toml'']) (Bytes []),
       ex_dir (st @ [''templates'']), ex_dir (st @ [''templates'', ''web'']), ex_dir t,
       ex_file (t @ [''root.qcow2'']) ex_root, ex_file (t @ [''vmlinuz'']) (Bytes []),
       ex_file (t @ [''initrd.img'']) (Bytes []), ex_file (t @ [''MANIFEST'']) (Bytes [])])"

definition ex_link :: "string \<times> link" where
  "ex_link = (''br-spaces'', \<lparr>l_uid = 0, l_master = None, l_isolated = False, l_up = True\<rparr>)"

definition ex_world :: world where
  "ex_world =
     \<lparr>env = ex_env, now = 0, fs = ex_fs, links = [ex_link], nft = None, procs = [], fresh_pid = 100,
      children = [], sent = [], commands = []\<rparr>"

text \<open>With one space \<open>w\<close>, which is stopped.\<close>

definition ex_config :: SpaceConfig where
  "ex_config =
     \<lparr>c_id = SpaceId ''w'', c_profile = SpaceId ''web'', c_digest = ''d1'', c_cid = 3, c_uid = 70003,
      c_label = Label ''work'', c_color = Color ''#ff0000'', c_created = [], c_clean = None, c_encrypted = False\<rparr>"

definition ex_space_fs :: "(path \<times> node) list" where
  "ex_space_fs =
     (let d = cx_state ex_ctx @ [''spaces''] in
      [ex_dir d, ex_dir (d @ [''w'']),
       ex_file (d @ [''w'', ''config.toml'']) (Bytes (config_to ex_libs ex_config)),
       ex_file (d @ [''w'', ''system-overlay.qcow2'']) ex_root, ex_file (d @ [''w'', ''data.qcow2'']) ex_root])"

definition ex_world1 :: world where
  "ex_world1 = ex_world\<lparr>fs := ex_fs @ ex_space_fs\<rparr>"

text \<open>The same space while its VM runs.\<close>

definition ex_world2 :: world where
  "ex_world2 = ex_world1\<lparr>
     fs := fs ex_world1 @ [ex_dir (cx_run ex_ctx @ [''w'']), ex_file (cx_run ex_ctx @ [''w'', ''qemu.pid'']) (Bytes ''99''),
       ex_file (cx_run ex_ctx @ [''w'', ''nonce'']) (Bytes (replicate 32 (CHR ''0'')))],
     procs := [(99, [''qemu-system-x86_64'', ''vhost-vsock-device,guest-cid=3''])], children := [(''w'', 99)]\<rparr>"

lemma request_ok_ex:
  "id_ok (SpaceId ''w'')" "id_ok (SpaceId ''v'')" "id_ok (SpaceId ''web'')" "label_ok (Label ''work'')"
  "color_ok (Color ''#ff0000'')"
  by code_simp+

end
