(* ===== verification/OpsFrame.thy ===== *)
theory OpsFrame
  imports Example
begin

text \<open>
  Which files a handler can change, whatever fails.  A set of paths below the
  directory of the spaces is \<open>inside\<close>; the lemmas say that an operation leaves it
  alone when the few files the operation works on are not in it.
\<close>

definition ctx_ok :: "Ctx \<Rightarrow> bool" where
  "ctx_ok cx \<longleftrightarrow>
     \<not> prefix (cx_run cx) (spaces_dir (cx_state cx)) \<and> \<not> prefix (spaces_dir (cx_state cx)) (cx_run cx) \<and>
     \<not> prefix (spaces_dir (cx_state cx)) (cx_registry cx)"

definition inside :: "Ctx \<Rightarrow> path set \<Rightarrow> bool" where
  "inside cx S \<longleftrightarrow> (\<forall>q \<in> S. prefix (spaces_dir (cx_state cx)) q)"

text \<open>A path with nothing of the set at it, below it or above it.\<close>

definition clear_of :: "path \<Rightarrow> path set \<Rightarrow> bool" where
  "clear_of p S \<longleftrightarrow> (\<forall>q \<in> S. \<not> prefix p q \<and> \<not> prefix q p)"

lemma clear_of_notin: "clear_of p S \<Longrightarrow> p \<notin> S"
  by (auto simp: clear_of_def)

lemma clear_of_append: "clear_of p S \<Longrightarrow> clear_of (p @ r) S"
  unfolding clear_of_def by (metis append_prefixD prefix_same_cases prefixI)

lemma clear_apart:
  assumes "inside cx S" "\<not> prefix p (spaces_dir (cx_state cx))" "\<not> prefix (spaces_dir (cx_state cx)) p"
  shows "clear_of p S"
  unfolding clear_of_def
proof (intro ballI conjI notI)
  fix q assume "q \<in> S"
  then have D: "prefix (spaces_dir (cx_state cx)) q" using assms(1) by (auto simp: inside_def)
  { assume "prefix p q"
    with D assms(2,3) show False using prefix_same_cases by blast }
  { assume "prefix q p"
    with D assms(3) show False using prefix_order.trans by blast }
qed

lemma clear_run: "ctx_ok cx \<Longrightarrow> inside cx S \<Longrightarrow> clear_of (cx_run cx) S"
  by (rule clear_apart) (auto simp: ctx_ok_def)

lemma clear_templates: "inside cx S \<Longrightarrow> clear_of (cx_state cx @ [''templates'']) S"
  by (rule clear_apart) (auto simp: spaces_dir_def)

lemma pjoin_id: "id_ok i \<Longrightarrow> pjoin p (id_str i) = p @ [id_str i]"
  using id_no_slash [of i] id_no_dot [of i] id_not_Nil [of i]
  by (auto simp: pjoin_def path_of_def split_on_no_sep not_absolute)

lemma space_dir_in: "id_ok i \<Longrightarrow> space_dir st i = st @ [''spaces'', id_str i]"
  by (simp add: space_dir_slug spaces_dir_def)

section \<open>System calls and a clear path\<close>

lemma clear_mkdir: "clear_of p S \<Longrightarrow> same.holds S (create_dir_all p)"
  by (rule same_create_dir_all) (auto simp: clear_of_def)

lemma clear_rmdir: "clear_of p S \<Longrightarrow> same.holds S (remove_dir_all p)"
  by (rule same_remove_dir_all) (auto simp: clear_of_def)

lemmas clear_intros =
  same.holds_intros frame_intros clear_mkdir clear_rmdir clear_of_notin clear_of_append

lemma same_fs_tell: "(\<And>w. fs (f w) = fs w) \<Longrightarrow> same.holds S (tell f)"
  by (rule same.holds_tell) (simp add: same_fs)

lemma same_net_command:
  "(\<And>w. fs (f w) = fs w) \<Longrightarrow> (\<And>w. fs (g w) = fs w) \<Longrightarrow> same.holds S (command argv c f g)"
  by (rule same_command) (simp_all add: same_fs)

lemma same_links [frame_intros]:
  "same.holds S (create_tap cid uid)" "same.holds S (delete_tap cid)" "same.holds S (link_exists name)"
  "same.holds S (reap_leftover_tap cid)" "same.holds S bridge_exists" "same.holds S (apply_nft ls)"
proof -
  have c: "fs (change_link t f w) = fs w" for t f w
    by (simp add: change_link_def split: option.split)
  show d: "same.holds S (delete_tap cid)"
    unfolding delete_tap_def Let_def by (rule same_net_command) simp_all
  show l: "same.holds S (link_exists name)" for name
    unfolding link_exists_def log_command_def
    by (intro same.holds_sq same_fs_tell) (simp_all add: same.holds_def same_fs)
  show "same.holds S (create_tap cid uid)"
    unfolding create_tap_def Let_def ip_tuntap_add_def ip_set_master_def bridge_isolate_def ip_set_up_def
    by (intro same.holds_sq same_net_command) (simp_all add: c)
  show "same.holds S (reap_leftover_tap cid)"
    unfolding reap_leftover_tap_def by (intro same.holds_intros l d)
  show "same.holds S bridge_exists" by (simp add: bridge_exists_def l)
  show "same.holds S (apply_nft ls)"
    unfolding apply_nft_def by (rule same_net_command) simp_all
qed

lemma same_processes [frame_intros]:
  "same.holds S (try_wait pid)" "same.holds S (kill_process pid)" "same.holds S (child_alive i)"
  "same.holds S (call_agent x cid n req)"
proof -
  show t: "same.holds S (try_wait pid)" for pid
    by (simp add: same.holds_def try_wait_def Let_def same_fs)
  show "same.holds S (kill_process pid)"
    unfolding kill_process_def by (rule same_fs_tell) simp
  show "same.holds S (call_agent x cid n req)"
    by (simp add: same.holds_def call_agent_def same_fs)
  show "same.holds S (child_alive i)"
    unfolding child_alive_def by (intro same.holds_intros t)
qed

lemma same_agent [frame_intros]:
  "same.holds S (agent_health x cid n)" "same.holds S (agent_shutdown x cid n)"
  "same.holds S (agent_exec_app x cid n)"
  unfolding agent_health_def agent_shutdown_def agent_exec_app_def
  by (intro same.holds_intros frame_intros)+

lemma same_poll: "same.holds S alive \<Longrightarrow> same.holds S (poll_agent x cid n alive t0 k)"
proof (induction k)
  case 0
  then show ?case by (subst poll_agent.simps) (auto intro!: same.holds_intros frame_intros)
next
  case (Suc k)
  then show ?case
    by (subst poll_agent.simps) (auto intro!: same.holds_intros frame_intros same_fs_tell)
qed

lemma same_start_app [frame_intros]:
  "same.holds S alive \<Longrightarrow> same.holds S (start_app_via_agent x cid n alive)"
  unfolding start_app_via_agent_def
  by (intro same.holds_intros frame_intros same_poll)

section \<open>Operations that only read files\<close>

lemma same_reading [frame_intros]:
  "same.holds S (store_load x st)" "same.holds S (pid_of run i cid)" "same.holds S (state_of run i cid)"
  "same.holds S (manifest_load x p)" "same.holds S (via_latest p)" "same.holds S (rss_kib pid)"
  "same.holds S (tail_sanitized p n m)" "same.holds S (tail_of p)" "same.holds S (read_nonce run i)"
  "same.holds S generate_nonce"
proof -
  show "same.holds S (store_load x st)" by (rule looks_same [OF looks_load])
  show p: "same.holds S (pid_of run i cid)" for run i cid
    unfolding pid_of_def by (intro same.holds_intros frame_intros)
  show "same.holds S (state_of run i cid)"
    unfolding state_of_def by (intro same.holds_intros p)
  show "same.holds S (manifest_load x p)" "same.holds S (via_latest p)" "same.holds S (rss_kib pid)"
    "same.holds S (tail_sanitized p n m)" "same.holds S (tail_of p)" "same.holds S (read_nonce run i)"
    "same.holds S generate_nonce"
    unfolding manifest_load_def via_latest_def rss_kib_def tail_sanitized_def tail_of_def read_nonce_def
      generate_nonce_def
    by (intro same.holds_intros frame_intros)+
qed

lemma same_ops [frame_intros]:
  "same.holds S f \<Longrightarrow> same.holds S (internal f)" "same.holds S (refuse c msg)"
  by (auto simp: internal_def refuse_def intro: same.holds_intros)

lemma same_helpers [frame_intros]:
  "same.holds S (load_store cx)" "same.holds S (space_or_not_found s i)" "same.holds S (load_manifest cx p)"
  "same.holds S (resolve_template_digest st p)" "same.holds S (resolve_latest_digest st p)"
  "same.holds S (require_passphrase_matches_encryption b pw)" "same.holds S (reject_if_running cx i cid)"
  "same.holds S lookup_kvm_gid" "same.holds S (resolve_build_uid cx)" "same.holds S (passwd_entry uid)"
  "same.holds S (observed_state x run j cid)" "same.holds S (death_error i msg t)"
  unfolding load_store_def space_or_not_found_def load_manifest_def resolve_template_digest_def
    resolve_latest_digest_def require_passphrase_matches_encryption_def reject_if_running_def
    lookup_kvm_gid_def resolve_build_uid_def passwd_entry_def observed_state_def death_error_def Let_def
  by (intro same.holds_intros frame_intros)+

lemma same_helpers2 [frame_intros]:
  "same.holds S (resolve_build_gid uid)" "same.holds S (resolve_build_home uid)"
  "same.holds S (seed_spec_of cx m seed)" "same.holds S (shutdown_via_agent cx j cid)"
  unfolding resolve_build_gid_def resolve_build_home_def seed_spec_of_def validate_seed_dir_def
    shutdown_via_agent_def
  by (intro same.holds_intros frame_intros)+

lemma same_observation [frame_intros]:
  "same.holds S list_space_taps" "same.holds S (pci_status addr)" "same.holds S miyori_net_status"
  unfolding list_space_taps_def tap_status_def pci_status_def miyori_net_status_def console_path_of_def
    read_console_tail_def
  by (intro same.holds_intros frame_intros)+

section \<open>Operations that write\<close>

lemma same_spawn [frame_intros]: "same.holds S (spawn_process argv exec)"
  unfolding spawn_process_def by (intro same.holds_intros same_net_command) simp_all

lemma clear_prefix: "clear_of p S \<Longrightarrow> prefix p q \<Longrightarrow> clear_of q S"
  by (metis clear_of_append prefixE)

lemma clear_own: "clear_of (cx_run cx) S \<Longrightarrow> clear_of (space_secret_dir (cx_run cx) (id_str i)) S" if "id_ok i"
  using that by (simp add: space_secret_dir_def secrets_dir_def pjoin_id clear_of_append)

lemma clear_run_dir: "clear_of (cx_run cx) S \<Longrightarrow> clear_of (pjoin (cx_run cx) (id_str i)) S" if "id_ok i"
  using that by (simp add: pjoin_id clear_of_append)

lemma same_secrets:
  assumes "clear_of (cx_run cx) S" "id_ok i"
  shows "same.holds S (write_running_secret (cx_run cx) (id_str i) uid pp)"
    "same.holds S (remove_running_secret (cx_run cx) (id_str i))"
    "same.holds S (write_qemu_img_secret cx pp)" "same.holds S (opt_secret cx pw)"
    "same.holds S (cleanup_qemu_img_secret (Some (qemu_img_secret_path cx)))"
    "same.holds S (write_nonce (nonce_path (cx_run cx) (id_str i)) n)"
    "same.holds S (prepare_space_run_dir (pjoin (cx_run cx) (id_str i)) gid)"
    "same.holds S (kill_and_reap cx (id_str i))"
proof -
  note r = assms(1) clear_own [OF assms(2,1)] clear_run_dir [OF assms(2,1)]
  show "same.holds S (write_running_secret (cx_run cx) (id_str i) uid pp)"
    unfolding write_running_secret_def pass_file_def secrets_dir_def
    by (intro clear_intros r)
  show "same.holds S (remove_running_secret (cx_run cx) (id_str i))"
    unfolding remove_running_secret_def by (intro clear_intros r)
  show w: "same.holds S (write_qemu_img_secret cx pp)" for pp
    unfolding write_qemu_img_secret_def qemu_img_secret_path_def Let_def by (intro clear_intros r)
  show "same.holds S (opt_secret cx pw)"
    unfolding opt_secret_def by (intro same.holds_intros w)
  show "same.holds S (cleanup_qemu_img_secret (Some (qemu_img_secret_path cx)))"
    unfolding cleanup_qemu_img_secret_def qemu_img_secret_path_def option.case
    by (intro clear_intros r)
  show "same.holds S (write_nonce (nonce_path (cx_run cx) (id_str i)) n)"
    unfolding write_nonce_def nonce_path_def by (intro clear_intros r)
  show "same.holds S (prepare_space_run_dir (pjoin (cx_run cx) (id_str i)) gid)"
    unfolding prepare_space_run_dir_def Let_def by (intro clear_intros r)
  show "same.holds S (kill_and_reap cx (id_str i))"
    unfolding kill_and_reap_def pid_path_def
    by (intro clear_intros same_fs_tell same_net_command same_processes r) (simp_all add: same_fs same_processes)
qed

text \<open>The secret file a volume operation sees is the one it cleans up.\<close>

lemma opt_secret_Inr:
  "opt_secret cx pw w = (Inr secret, w') \<Longrightarrow>
     secret = (case pw of None \<Rightarrow> None | Some _ \<Rightarrow> Some (qemu_img_secret_path cx))"
  by (auto simp: opt_secret_def write_qemu_img_secret_def Let_def sq_def bnd_Inr ret_def split: option.splits)

lemma same_with_secret:
  assumes "clear_of (cx_run cx) S" "\<And>secret. same.holds S (f secret)"
  shows "same.holds S (with_secret cx pw f)"
  unfolding with_secret_def
proof (rule same.holds_bnd_val)
  have o: "same.holds S (write_qemu_img_secret cx pp)" for pp
    unfolding write_qemu_img_secret_def qemu_img_secret_path_def Let_def
    by (intro clear_intros assms(1))
  show "same.holds S (opt_secret cx pw)" unfolding opt_secret_def by (intro same.holds_intros o)
next
  fix secret w w' assume "opt_secret cx pw w = (Inr secret, w')"
  then have c: "same.holds S (cleanup_qemu_img_secret secret)"
    unfolding opt_secret_Inr cleanup_qemu_img_secret_def qemu_img_secret_path_def
    by (cases pw) (auto dest!: opt_secret_Inr intro!: clear_intros assms(1) simp: qemu_img_secret_path_def)
  show "same.holds S (bnd (attempt (f secret)) (\<lambda>r. sq (cleanup_qemu_img_secret secret) (of_result r)))"
    by (intro same.holds_intros c assms(2))
qed

lemma same_volume [frame_intros]:
  "p \<notin> S \<Longrightarrow> same.holds S (qemu_img_overlay b p secret)" "p \<notin> S \<Longrightarrow> same.holds S (qemu_img_blank p n secret)"
  "p \<notin> S \<Longrightarrow> same.holds S (qemu_img_convert b p secret)" "p \<notin> S \<Longrightarrow> same.holds S (own_and_lock_down p uid)"
  "p \<notin> S \<Longrightarrow> same.holds S (mkfs_seed spec p)" "p \<notin> S \<Longrightarrow> same.holds S (truncate_raw p n)"
  unfolding qemu_img_overlay_def qemu_img_blank_def qemu_img_convert_def own_and_lock_down_def
    mkfs_seed_def truncate_raw_def
  by (auto intro!: same.holds_intros frame_intros same_put_content same_spoil same_sys
      simp: same_id same_fs split: option.split)

lemma same_staging:
  "clear_of d S \<Longrightarrow> same.holds S (prepare_staging_dir d uid)" "clear_of d S \<Longrightarrow> same.holds S (cleanup_staging d)"
  unfolding prepare_staging_dir_def cleanup_staging_def by (intro clear_intros; assumption)+

lemma same_create_volumes:
  assumes "clear_of d S"
  shows "same.holds S (create_volumes td d uid n seed secret)"
proof -
  have s: "same.holds S (seed_data_volume d (data_path d) n spec secret)" for spec
    unfolding seed_data_volume_def Let_def data_path_def
    by (intro clear_intros same_volume same_staging assms)
  show ?thesis
    unfolding create_volumes_def overlay_path_def
    by (intro clear_intros same_volume s) (use assms in \<open>simp_all add: data_path_def clear_of_notin clear_of_append\<close>)
qed

section \<open>Handlers\<close>

text \<open>
  \<open>beside\<close>: the set has none of the files that a handler writes in the directory
  of the space \<open>i\<close> while it keeps the data, its configuration (\<open>no_config\<close>)
  apart.  \<open>apart\<close>: it has nothing of that directory at all.
\<close>

definition beside :: "Ctx \<Rightarrow> SpaceId \<Rightarrow> path set \<Rightarrow> bool" where
  "beside cx i S \<longleftrightarrow>
     ctx_ok cx \<and> inside cx S \<and> id_ok i \<and>
     (let d = space_dir (cx_state cx) i in
      (\<forall>q \<in> S. \<not> prefix q d) \<and> overlay_path d \<notin> S \<and> log_path (cx_state cx) (id_str i) \<notin> S)"

definition no_config :: "Ctx \<Rightarrow> SpaceId \<Rightarrow> path set \<Rightarrow> bool" where
  "no_config cx i S \<longleftrightarrow>
     config_path (space_dir (cx_state cx) i) \<notin> S \<and> space_dir (cx_state cx) i @ [''config.toml.tmp''] \<notin> S"

definition apart :: "Ctx \<Rightarrow> SpaceId \<Rightarrow> path set \<Rightarrow> bool" where
  "apart cx i S \<longleftrightarrow> ctx_ok cx \<and> inside cx S \<and> id_ok i \<and> clear_of (space_dir (cx_state cx) i) S"

lemma log_path_in: "id_ok i \<Longrightarrow> log_path st (id_str i) = space_dir st i @ [''last-run.log'']"
  by (simp add: log_path_def space_dir_def)

lemma apart_beside: "apart cx i S \<Longrightarrow> beside cx i S"
  unfolding apart_def beside_def Let_def overlay_path_def
  by (auto simp: log_path_in dest: clear_of_notin [OF clear_of_append]) (simp add: clear_of_def)

lemma apart_no_config: "apart cx i S \<Longrightarrow> no_config cx i S"
  unfolding apart_def no_config_def config_path_def
  by (auto dest: clear_of_notin [OF clear_of_append])

lemma load_store_dir: "load_store cx w = (Inr s, w') \<Longrightarrow> state_dir s = cx_state cx"
  by (auto simp: load_store_def internal_def map_err_def store_load_def bnd_def ask_def ret_def
      split: prod.splits sum.splits if_splits)

lemma get_id: "space_or_not_found s i w = (Inr c, w') \<Longrightarrow> c_id c = i"
  by (auto simp: space_or_not_found_def refuse_def ret_def fail_def store_get_def find_Some_iff
      split: option.splits)

lemma same_update:
  "config_path (space_dir (state_dir s) i) \<notin> S \<Longrightarrow> space_dir (state_dir s) i @ [''config.toml.tmp''] \<notin> S \<Longrightarrow>
   same.holds S (update_space x s i f)"
  unfolding update_space_def write_config_atomically_def
  by (intro same.holds_intros frame_intros) simp_all

lemma same_remove_space: "clear_of (space_dir (state_dir s) i) S \<Longrightarrow> same.holds S (remove_space s i)"
  unfolding remove_space_def by (intro clear_intros) simp_all

lemma same_create_space: "clear_of (space_dir (state_dir s) i) S \<Longrightarrow> same.holds S (create_space x s i p g l k e)"
  unfolding create_space_def write_config_atomically_def allocate_cid_def ensure_uid_is_free_def
    now_rfc3339_def Let_def config_path_def
  by (intro clear_intros) simp_all

lemma same_refresh:
  assumes "ctx_ok cx" "inside cx S"
  shows "same.holds S (refresh x s (cx_registry cx))"
proof -
  let ?r = "cx_registry cx" and ?d = "spaces_dir (cx_state cx)"
  have below: "prefix ?d q" if "q \<in> S" for q using assms(2) that by (simp add: inside_def)
  have r: "\<not> prefix ?d ?r" using assms(1) by (simp add: ctx_ok_def)
  have parent: "\<not> prefix ?d (butlast ?r)" using r prefix_order.trans prefixeq_butlast by blast
  have tmp: "butlast ?r @ [''.'' @ last ?r @ ''.tmp''] \<notin> S"
  proof
    assume "butlast ?r @ [''.'' @ last ?r @ ''.tmp''] \<in> S"
    from below [OF this] parent show False by (auto simp: spaces_dir_def)
  qed
  have reg: "?r \<notin> S" using below r by blast
  have "same.holds S (create_dir_all (butlast ?r))"
    using below parent by (intro same_create_dir_all) (meson prefix_order.trans)
  then show ?thesis
    unfolding refresh_def write_atomically_def Let_def
    using tmp reg by (intro same.holds_intros same_write same_rename_file same_links) simp_all
qed

lemma same_op_start:
  assumes b: "beside cx i S"
  shows "same.holds S (op_start cx i pw)"
proof -
  have i: "id_ok i" and r: "clear_of (cx_run cx) S"
    using b clear_run by (auto simp: beside_def)
  have vm: "same.holds S (started_vm cx c run pid)" if "c_id c = i" for c run pid
    unfolding started_vm_def that pid_path_def Let_def
    by (intro clear_intros same_links same_processes same_fs_tell same_secrets same_start_app same_reading same_helpers
        clear_run_dir i r) simp_all
  have spawn: "same.holds S (qemu_spawn (run_of cx c m n g) (cx_run cx) (cx_state cx) secret)"
    if "c_id c = i" for c m n g secret
  proof -
    have log: "same.holds S (tell (\<lambda>w. put_content (log_path (cx_state cx) (id_str i)) (Bytes (console (env w) (now w))) w))"
      using b by (intro same.holds_tell same_put_content) (simp add: beside_def Let_def)
    have dir: "same.holds S (create_dir_all (pjoin (spaces_dir (cx_state cx)) (id_str i)))"
      using b by (intro same_create_dir_all) (simp add: beside_def Let_def space_dir_def)
    have w: "same.holds S (write_file (log_path (cx_state cx) (id_str i)) c)" for c
      using b by (intro same_write) (simp add: beside_def Let_def)
    show ?thesis
      unfolding qemu_spawn_def run_of_def pid_path_def Let_def SpaceRun.simps that
      by (intro same.holds_intros log dir w same_spawn clear_mkdir clear_run_dir i r same_write clear_of_notin
          clear_of_append)
  qed
  have launch: "same.holds S (launch_vm cx c m n g pw)" if "c_id c = i" for c m n g
    unfolding launch_vm_def opt_running_secret_def Let_def that
    by (intro clear_intros same_links same_secrets vm spawn i r same_ops that)
  show ?thesis
    unfolding op_start_def Let_def
    by (rule same.holds_bnd, rule same_helpers, rule same.holds_bnd_val, rule same_helpers)
      (intro clear_intros same_ops same_helpers same_links same_reading same_secrets i r launch, drule get_id, assumption)
qed

lemma same_op_stop:
  assumes b: "beside cx i S" "no_config cx i S"
  shows "same.holds S (op_stop cx i)"
proof -
  have i: "id_ok i" and r: "clear_of (cx_run cx) S"
    using b clear_run by (auto simp: beside_def)
  have u: "same.holds S (update_space x s i f)" if "state_dir s = cx_state cx" for x s f
    using b that by (intro same_update) (simp_all add: no_config_def)
  show ?thesis
    unfolding op_stop_def Let_def set_clean_shutdown_def
    by (rule same.holds_bnd_val, rule same_helpers)
      (intro clear_intros same_ops same_helpers same_helpers2 same_links same_reading same_secrets i r u, drule load_store_dir, assumption)
qed

lemma same_op_open_window: "same.holds S (op_open_window cx i)"
  unfolding op_open_window_def by (intro clear_intros same_ops same_helpers same_reading same_agent)

lemma same_overlay:
  assumes "beside cx i S"
  shows "same.holds S (with_secret cx pw (\<lambda>secret. sq (qemu_img_overlay b (overlay_path (space_dir (cx_state cx) i)) secret)
    (own_and_lock_down (overlay_path (space_dir (cx_state cx) i)) uid)))"
  using assms clear_run
  by (intro same_with_secret same.holds_intros same_volume) (auto simp: beside_def Let_def)

lemma same_op_reset_system: "beside cx i S \<Longrightarrow> same.holds S (op_reset_system cx i pw)"
  unfolding op_reset_system_def Let_def
  by (intro clear_intros same_ops same_helpers same_overlay)

lemma same_op_update_image:
  assumes b: "beside cx i S" "no_config cx i S"
  shows "same.holds S (op_update_image cx i pw)"
proof -
  have u: "same.holds S (update_space x s i f)" if "state_dir s = cx_state cx" for x s f
    using b that by (intro same_update) (simp_all add: no_config_def)
  show ?thesis
    unfolding op_update_image_def Let_def set_digest_def
    by (rule same.holds_bnd_val, rule same_helpers)
      (intro clear_intros same_ops same_helpers same_overlay b u, drule load_store_dir, assumption)
qed

lemma same_op_reset_all: "apart cx i S \<Longrightarrow> same.holds S (op_reset_all cx i pw)"
  unfolding op_reset_all_def Let_def
  by (intro clear_intros same_ops same_helpers same_with_secret same_create_volumes)
    (auto simp: apart_def clear_run)

lemma same_op_destroy: "apart cx i S \<Longrightarrow> same.holds S (op_destroy cx i)"
  unfolding op_destroy_def
  by (rule same.holds_bnd_val, rule same_helpers)
    (intro clear_intros same_ops same_helpers same_links same_remove_space same_refresh;
     auto simp: apart_def dest: load_store_dir)

lemma create_space_dir: "create_space x s i p g l k e w = (Inr (s', c), w') \<Longrightarrow> state_dir s' = state_dir s"
  by (auto simp: create_space_def sq_def bnd_Inr Let_def ret_def)

lemma same_op_create:
  assumes a: "apart cx i S"
  shows "same.holds S (op_create cx i p l k seed pw)"
proof -
  have r: "clear_of (cx_run cx) S" and d: "clear_of (space_dir (cx_state cx) i) S"
    using a clear_run by (auto simp: apart_def)
  have rest: "same.holds S (bnd (attempt
          (sq (with_secret cx pw
                (create_volumes td (space_dir (cx_state cx) i) uid n spec))
              (refresh (cx_libs cx) s' (cx_registry cx)))) (\<lambda>r.
      case r of
        Inl _ \<Rightarrow> sq (ignore (remove_space s' i)) (refuse Internal MsgInternal)
      | Inr _ \<Rightarrow> ret reply))" if "state_dir s' = cx_state cx" for td uid n spec s' reply
    using a that
    by (intro same.holds_intros same_with_secret same_create_volumes same_refresh same_remove_space same_ops r d)
      (simp_all add: apart_def d)
  have make: "same.holds S (bnd (internal (create_space (cx_libs cx) s i p g l k e)) (\<lambda>(s', c). f s' c))"
    if dir: "state_dir s = cx_state cx" and f: "\<And>s' c. state_dir s' = cx_state cx \<Longrightarrow> same.holds S (f s' c)"
    for s g e f
  proof (rule same.holds_bnd_val)
    show "same.holds S (internal (create_space (cx_libs cx) s i p g l k e))"
      using d dir by (intro same_ops same_create_space) simp
    show "same.holds S (case r of (s', c) \<Rightarrow> f s' c)"
      if "internal (create_space (cx_libs cx) s i p g l k e) w = (Inr r, w')" for r w w'
    proof (cases r)
      case (Pair s' c)
      with that obtain w0 where "create_space (cx_libs cx) s i p g l k e w = (Inr (s', c), w0)"
        by (auto simp: internal_def map_err_def split: prod.splits sum.splits)
      from create_space_dir [OF this] dir show ?thesis by (simp add: Pair f)
    qed
  qed
  show ?thesis
    unfolding op_create_def
    by (intro same.holds_if same_ops, rule same.holds_bnd_val, rule same_helpers)
      (intro same.holds_if same.holds_bnd same_ops same_helpers same_helpers2 make rest, drule load_store_dir; assumption)
qed

section \<open>Building\<close>

lemma pjoin_single:
  assumes "slash \<notin> set n" "n \<noteq> []" "n \<noteq> ''.''"
  shows "pjoin p n = p @ [n]"
  using assms by (simp add: pjoin_def path_of_def split_on_no_sep not_absolute)

lemma trim_parts_set: "set (trim_parts ps) \<subseteq> set ps"
  by (auto simp: trim_parts_def dest: set_dropWhileD)

lemma trim_parts_last: "trim_parts ps \<noteq> [] \<Longrightarrow> last (trim_parts ps) \<noteq> []"
  using hd_dropWhile [of "\<lambda>c. c = [] \<or> c = ''.''" "rev ps"] by (auto simp: trim_parts_def last_rev)

lemma path_parts_no_slash: "c \<in> set (path_parts p) \<Longrightarrow> slash \<notin> set c"
proof -
  assume "c \<in> set (path_parts p)"
  then have "c = ''.'' \<or> c \<in> set (split_on slash p)"
    using trim_parts_set list.set_sel(2) [OF split_on_not_Nil, of _ slash p]
    by (fastforce simp: path_parts_def Let_def split: if_splits)
  then show ?thesis using split_on_pieces by fastforce
qed

lemma file_name_single:
  assumes "file_name t = Some n"
  shows "slash \<notin> set n" "n \<noteq> []" "n \<noteq> ''.''" "n \<noteq> ''..''"
proof -
  have parts: "path_parts t \<noteq> []" "n = last (path_parts t)" "n \<noteq> ''.''" "n \<noteq> ''..''"
    using assms by (auto simp: file_name_def Let_def split: if_splits)
  then show "slash \<notin> set n" using path_parts_no_slash last_in_set by blast
  show "n \<noteq> []"
    using parts trim_parts_last by (auto simp: path_parts_def Let_def split: if_splits)
  show "n \<noteq> ''.''" "n \<noteq> ''..''" by (fact parts)+
qed

text \<open>The digest a build ends with is one file name.\<close>

lemma digest_single:
  assumes "digest_from_out_dir out profile w = (Inr digest, w')"
  shows "pjoin p digest = p @ [digest]" "digest \<noteq> ''..''"
proof -
  from assms obtain t n where n: "file_name t = Some n" "digest = from_utf8_lossy n"
    by (auto simp: digest_from_out_dir_def bnd_Inr ret_def fail_def split: option.splits)
  have "slash \<notin> set digest" using n file_name_single lossy_ascii [of slash n] by auto
  moreover have "digest \<noteq> ''.''" "digest \<noteq> ''..''"
    using n file_name_single lossy_eq_ascii [of n] by (force simp: is_ascii_def)+
  ultimately show "pjoin p digest = p @ [digest]" "digest \<noteq> ''..''"
    using n file_name_single by (auto intro: pjoin_single)
qed

lemma same_put_built:
  assumes "clear_of out S"
  shows "same_at S w (put_built out profile b w)"
proof -
  have d: "clear_of (out @ [profile, b_digest b]) S" using assms by (rule clear_of_append)
  have dirs: "same_at S w (fold new_dir (prefixes_of (out @ [profile, b_digest b])) w)" for w
    using d unfolding same_at_def
    by (intro ballI node_fold_new_dir disjI2) (auto simp: set_prefixes_of clear_of_def)
  have files: "same_at S w (fold (\<lambda>(name, c). put_content ((out @ [profile, b_digest b]) @ [name]) c) fs w)" for fs w
  proof (induction fs arbitrary: w)
    case Nil
    show ?case using same_id by simp
  next
    case (Cons f fs)
    show ?case
      using same.R_trans [OF same_put_content [OF clear_of_notin [OF clear_of_append [OF d]]] Cons.IH]
      by (cases f) simp
  qed
  have "out @ [profile, ''latest''] \<notin> S" using assms clear_of_notin clear_of_append by blast
  then show ?thesis
    unfolding put_built_def Let_def
    using same.R_trans [OF dirs files] same.R_trans same_set by blast
qed

lemma same_run_streaming:
  "clear_of out S \<Longrightarrow> same.holds S (run_streaming argv out profile b)"
  unfolding run_streaming_def
  by (intro same.holds_intros same_fs_tell same_command same_put_built) simp_all

lemma same_op_build:
  assumes "ctx_ok cx" "inside cx S" "id_ok profile"
  shows "same.holds S (op_build cx profile)"
proof -
  have t: "clear_of (cx_state cx @ [''templates'']) S" by (rule clear_templates) (fact assms)
  have st: "clear_of (staging_dir cx p) S" for p
    using clear_of_append [OF t] by (simp add: staging_dir_def)
  have fin: "same.holds S (finalize_template (pjoin (pjoin (staging_dir cx (id_str profile)) (id_str profile)) digest)
      (template_dir_path (cx_state cx) (id_str profile) digest))"
    if "digest_from_out_dir (staging_dir cx (id_str profile)) (id_str profile) w = (Inr digest, w')" for digest w w'
  proof -
    note d = digest_single(1) [OF that]
    have td: "template_dir_path (cx_state cx) (id_str profile) digest = cx_state cx @ [''templates'', id_str profile, digest]"
      using assms(3) by (simp add: template_dir_path_def pjoin_id d)
    have f: "clear_of (cx_state cx @ [''templates'', id_str profile, digest]) S" for digest
      using clear_of_append [OF t] by simp
    have e: "clear_of (cx_state cx @ [''templates'', id_str profile, digest, n]) S" for n
      using clear_of_append [OF t] by simp
    have b: "clear_of (pjoin (pjoin (staging_dir cx (id_str profile)) (id_str profile)) digest) S"
      using clear_of_append [OF st] by (simp add: pjoin_id assms(3) d)
    have u: "clear_of (cx_state cx @ [''templates'', id_str profile]) S"
      using clear_of_append [OF t] by simp
    have mv: "same.holds S (rename_dir (pjoin (pjoin (staging_dir cx (id_str profile)) (id_str profile)) digest)
        (cx_state cx @ [''templates'', id_str profile, digest]))"
      using f b by (intro same_rename_dir) (simp add: clear_of_def)
    show ?thesis
      unfolding finalize_template_def own_dir_and_its_entries_as_root_def td
      by (intro same.holds_intros mv same_chown same_reads clear_mkdir)
        (use f e u in \<open>simp_all add: butlast_append clear_of_notin\<close>)
  qed
  have link: "same.holds S (relink_latest (pjoin (cx_state cx @ [''templates'']) (id_str profile)) digest)" for digest
    unfolding relink_latest_def pjoin_id [OF assms(3)]
    by (intro clear_intros t)
  have tail: "same.holds S (bnd (attempt (digest_from_out_dir (staging_dir cx (id_str profile)) (id_str profile)))
      (\<lambda>d. case d of Inl e \<Rightarrow> f e | Inr digest \<Rightarrow> g digest))"
    if "\<And>e. same.holds S (f e)"
      "\<And>digest w w'. digest_from_out_dir (staging_dir cx (id_str profile)) (id_str profile) w = (Inr digest, w') \<Longrightarrow>
         same.holds S (g digest)" for f g
  proof (rule same.holds_bnd_val)
    show "same.holds S (attempt (digest_from_out_dir (staging_dir cx (id_str profile)) (id_str profile)))"
      unfolding digest_from_out_dir_def by (intro same.holds_intros frame_intros)
    show "same.holds S (case r of Inl e \<Rightarrow> f e | Inr digest \<Rightarrow> g digest)"
      if "attempt (digest_from_out_dir (staging_dir cx (id_str profile)) (id_str profile)) w = (Inr r, w')" for r w w'
      using that by (auto simp: attempt_def split: prod.splits sum.splits
          intro: \<open>\<And>e. same.holds S (f e)\<close>
           \<open>\<And>digest w w'. digest_from_out_dir (staging_dir cx (id_str profile)) (id_str profile) w = (Inr digest, w') \<Longrightarrow>
              same.holds S (g digest)\<close>)
  qed
  show ?thesis
    unfolding op_build_def Let_def
    by (intro same.holds_bnd same.holds_sq same.holds_if same_ops same_helpers same_helpers2 same_staging st
        same.holds_attempt same_run_streaming tail fin link same.holds_ignore same.holds_ret)
qed

section \<open>Every request\<close>

text \<open>The space a request is about.\<close>

fun about :: "Request \<Rightarrow> SpaceId option" where
  "about List = None"
| "about (Describe i) = Some i"
| "about (Build p) = None"
| "about (Create i p l k sd pw) = Some i"
| "about (Start i pw) = Some i"
| "about (Stop i) = Some i"
| "about (OpenWindow i) = Some i"
| "about (ResetSystem i pw) = Some i"
| "about (ResetAll i pw) = Some i"
| "about (UpdateImage i pw) = Some i"
| "about (Destroy i) = Some i"
| "about NetStatus = None"
| "about Profiles = None"

text \<open>The requests that replace or remove the data of their space.\<close>

fun replaces_data :: "Request \<Rightarrow> bool" where
  "replaces_data (Create i p l k sd pw) = True"
| "replaces_data (ResetAll i pw) = True"
| "replaces_data (Destroy i) = True"
| "replaces_data _ = False"

lemma same_reading_ops:
  "same.holds S (op_list cx)" "same.holds S (op_describe cx i)" "same.holds S (op_net_status cx)"
  "same.holds S (op_profiles cx)"
proof -
  have n: "same.holds S (\<lambda>w. (Inr (\<not> faulty w, nft w), tick w))"
    by (simp add: same.holds_def same_tick)
  show "same.holds S (op_list cx)" "same.holds S (op_describe cx i)" "same.holds S (op_net_status cx)"
    "same.holds S (op_profiles cx)"
    unfolding op_list_def list_row_of_def op_describe_def op_net_status_def op_profiles_def
      describe_profile_def Let_def
    by (intro same.holds_intros same_helpers same_reading same_observation same_links same_ops same_reads n)+
qed

lemma same_dispatch:
  assumes "ctx_ok cx" "inside cx S" "request_ok req"
    and "\<And>i. about req = Some i \<Longrightarrow> beside cx i S \<and> no_config cx i S"
    and "\<And>i. about req = Some i \<Longrightarrow> replaces_data req \<Longrightarrow> apart cx i S"
  shows "same.holds S (dispatch cx req)"
  using assms
  by (cases req)
    (simp_all add: dispatch_def same_reading_ops same_op_build same_op_create same_op_start same_op_stop
      same_op_open_window same_op_reset_system same_op_reset_all same_op_update_image same_op_destroy)

lemma space_dirs_apart: "id_ok i \<Longrightarrow> id_ok j \<Longrightarrow> i \<noteq> j \<Longrightarrow> prefix (space_dir st j) q \<Longrightarrow>
  \<not> prefix (space_dir st i) q \<and> \<not> prefix q (space_dir st i)"
  by (auto simp: space_dir_slug prefix_def id_str_inject append_eq_append_conv2)

text \<open>
  C3.  A request about one space leaves every file below the directory of every
  other space as it was, and a request about no space leaves all of them: their
  content, owner and mode.  This holds for every world, so whichever calls fail
  and whatever a guest answers, a failed \<open>Create\<close> rolled back and a half-done
  \<open>Destroy\<close> included.
\<close>

theorem other_spaces_untouched:
  assumes "ctx_ok cx" "request_ok req" "id_ok j" "about req \<noteq> Some j"
    and "prefix (space_dir (cx_state cx) j) q"
  shows "node_at q (snd (dispatch cx req w)) = node_at q w"
proof -
  let ?S = "{q. prefix (space_dir (cx_state cx) j) q}"
  have ins: "inside cx ?S"
    using assms(3) by (auto simp: inside_def space_dir_slug dest: append_prefixD)
  have "apart cx i ?S" if "about req = Some i" for i
  proof -
    have "id_ok i" using that assms(2) by (cases req) auto
    then show ?thesis
      using that assms(1,3,4) ins space_dirs_apart by (auto simp: apart_def clear_of_def)
  qed
  then have "same.holds ?S (dispatch cx req)"
    using assms(1,2) ins by (intro same_dispatch) (auto intro: apart_beside apart_no_config)
  then show ?thesis using assms(5) by (simp add: same.holds_def same_at_def)
qed

lemma ctx_ok_ex: "ctx_ok ex_ctx"
  by (simp add: ctx_ok_def ex_ctx_def spaces_dir_def)

theorem other_spaces_untouched_witness:
  "node_at (data_path (space_dir (cx_state ex_ctx) (SpaceId ''w'')))
     (snd (dispatch ex_ctx (Destroy (SpaceId ''v'')) ex_world1)) =
   node_at (data_path (space_dir (cx_state ex_ctx) (SpaceId ''w''))) ex_world1"
  by (rule other_spaces_untouched [where j = "SpaceId ''w''"])
    (simp_all add: ctx_ok_ex request_ok_ex data_path_def)

text \<open>
  C4.  The data volume of a space is the same after every request except
  \<open>Create\<close>, \<open>ResetAll\<close> and \<open>Destroy\<close> of that space, whichever calls fail:
  \<open>ResetSystem\<close> and \<open>UpdateImage\<close> replace the system overlay only, and no way
  of starting or stopping a space writes its data file.
\<close>

theorem data_untouched:
  assumes "ctx_ok cx" "request_ok req" "id_ok j" "about req = Some j \<Longrightarrow> \<not> replaces_data req"
  shows "node_at (data_path (space_dir (cx_state cx) j)) (snd (dispatch cx req w)) =
    node_at (data_path (space_dir (cx_state cx) j)) w"
proof -
  let ?p = "data_path (space_dir (cx_state cx) j)"
  have ins: "inside cx {?p}"
    using assms(3) by (auto simp: inside_def space_dir_slug data_path_def)
  have ids: "id_ok i" if "about req = Some i" for i
    using that assms(2) by (cases req) auto
  have far: "apart cx i {?p}" if "about req = Some i" "i \<noteq> j" for i
    using ids [OF that(1)] that assms(1,3) ins space_dirs_apart [of i j "cx_state cx" ?p]
    by (auto simp: apart_def clear_of_def data_path_def)
  have near: "beside cx j {?p} \<and> no_config cx j {?p}" if "about req = Some j"
    using assms(1,3) ins by (auto simp: beside_def no_config_def Let_def data_path_def config_path_def overlay_path_def log_path_in)
  have "same.holds {?p} (dispatch cx req)"
    using assms ins far near apart_beside apart_no_config by (intro same_dispatch) blast+
  then show ?thesis by (simp add: same.holds_def same_at_def)
qed

theorem data_untouched_witness:
  "node_at (data_path (space_dir (cx_state ex_ctx) (SpaceId ''w'')))
     (snd (dispatch ex_ctx (ResetSystem (SpaceId ''w'') None) ex_world1)) =
   node_at (data_path (space_dir (cx_state ex_ctx) (SpaceId ''w''))) ex_world1"
  by (rule data_untouched) (simp_all add: ctx_ok_ex request_ok_ex)

end
