(* ===== verification/OpsInv.thy ===== *)
theory OpsInv
  imports OpsFrame
begin

text \<open>
  What the handlers keep of the daemon's state on disk: the invariant \<open>store_ok\<close>
  survives every request, whichever of its calls fail.
\<close>

section \<open>Steps that keep the configurations\<close>

definition keep_cfg :: "path \<Rightarrow> world \<Rightarrow> world \<Rightarrow> bool" where
  "keep_cfg st w w' \<longleftrightarrow>
     (\<forall>d. node_at (config_path (spaces_dir st @ [d])) w' = node_at (config_path (spaces_dir st @ [d])) w) \<and>
     (is_dir (spaces_dir st) w \<longrightarrow> is_dir (spaces_dir st) w') \<and>
     (\<forall>d. is_dir (spaces_dir st @ [d]) w \<longrightarrow> is_dir (spaces_dir st @ [d]) w')"

interpretation cfg: step_rel "keep_cfg st" for st
  by unfold_locales (simp_all add: keep_cfg_def)

lemma keep_cfg_same: "same_at (store_paths st) w w' \<Longrightarrow> keep_cfg st w w'"
  by (auto simp: keep_cfg_def same_at_def store_paths_def is_dir_def)

lemma cfg_same: "same.holds (store_paths st) f \<Longrightarrow> cfg.holds st f"
  by (simp add: cfg.holds_def same.holds_def keep_cfg_same)

lemma keep_cfg_config: "keep_cfg st w w' \<Longrightarrow> config_at x st d w' = config_at x st d w"
  by (simp add: keep_cfg_def config_at_def bytes_at_def)

lemma keep_cfg_ok:
  assumes "keep_cfg st w w'" "store_ok x st w"
  shows "store_ok x st w'"
proof (rule store_ok_shrink [OF assms(2)])
  fix d assume "has_config st d w'"
  then have "has_config st d w" using assms(1) by (simp add: keep_cfg_def has_config_def is_file_def)
  then show "node_at (config_path (spaces_dir st @ [d])) w' = node_at (config_path (spaces_dir st @ [d])) w \<and>
      is_dir (spaces_dir st) w' \<and> is_dir (spaces_dir st @ [d]) w'"
    using assms by (simp add: keep_cfg_def store_ok_def)
qed

lemma keep_cfg_loaded: "keep_cfg (state_dir s) w w' \<Longrightarrow> loaded x s w \<Longrightarrow> loaded x s w'"
  by (simp add: loaded_def on_disk_def keep_cfg_ok keep_cfg_config)

lemma hoare_cfg:
  assumes "cfg.holds (state_dir s) f" "\<And>w. P w \<Longrightarrow> loaded x s w"
  shows "hoare P f (\<lambda>_. loaded x s) (\<lambda>_. loaded x s)"
  unfolding hoare_def
  using assms cfg.holdsD keep_cfg_loaded by (fastforce split: prod.split sum.split)

lemma cfg_mkdir:
  assumes "\<And>d. \<not> prefix (config_path (spaces_dir st @ [d])) p"
  shows "cfg.holds st (create_dir_all p)"
  unfolding create_dir_all_def
proof (rule cfg.holds_sys)
  show "keep_cfg st w (fold new_dir (prefixes_of p) w)" for w
    using assms is_dir_fold
    by (auto simp: keep_cfg_def set_prefixes_of intro!: node_fold_new_dir)
qed (simp_all add: keep_cfg_def is_dir_def)

lemma cfg_mkdir_inside: "id_ok i \<Longrightarrow> cfg.holds st (create_dir_all (space_dir st i))"
  by (rule cfg_mkdir) (auto simp: space_dir_slug config_path_def dest: prefix_length_le)

lemma store_paths_inside: "inside cx (store_paths (cx_state cx))"
  by (auto simp: inside_def store_paths_def config_path_def)

section \<open>The handlers that change a space in place\<close>

lemma notin_store_paths:
  "id_ok i \<Longrightarrow> n \<noteq> ''config.toml'' \<Longrightarrow> space_dir st i @ [n] \<notin> store_paths st"
  by (auto simp: store_paths_def space_dir_slug config_path_def)

lemma cfg_reply: "cfg.holds st (refuse c m)"
  unfolding refuse_def by (rule cfg.holds_fail)

lemma cfg_internal: "cfg.holds st f \<Longrightarrow> cfg.holds st (internal f)"
  unfolding internal_def by (rule cfg.holds_map_err)

lemma cfg_op_start:
  assumes cx: "ctx_ok cx" and i: "id_ok i"
  shows "cfg.holds (cx_state cx) (op_start cx i pw)"
proof -
  let ?S = "store_paths (cx_state cx)"
  note r = clear_run [OF cx store_paths_inside]
  have vm: "cfg.holds (cx_state cx) (started_vm cx c run pid)" if "c_id c = i" for c run pid
    unfolding started_vm_def that pid_path_def Let_def
    by (rule cfg_same, intro clear_intros same_links same_processes same_fs_tell same_secrets same_start_app
        same_reading same_helpers clear_run_dir i r) simp_all
  have spawn: "cfg.holds (cx_state cx) (qemu_spawn (run_of cx c m n g) (cx_run cx) (cx_state cx) secret)"
    if "c_id c = i" for c m n g secret
  proof -
    have log: "log_path (cx_state cx) (id_str i) \<notin> ?S"
      using i by (simp add: log_path_in notin_store_paths)
    have t: "same.holds ?S (tell (\<lambda>w. put_content (log_path (cx_state cx) (id_str i)) (Bytes (console (env w) (now w))) w))"
      using log by (intro same.holds_tell same_put_content)
    have w: "same.holds ?S (write_file (log_path (cx_state cx) (id_str i)) c)" for c
      using log by (rule same_write)
    have d: "cfg.holds (cx_state cx) (create_dir_all (pjoin (spaces_dir (cx_state cx)) (id_str i)))"
      using cfg_mkdir_inside [OF i] by (simp add: space_dir_def)
    show ?thesis
      unfolding qemu_spawn_def run_of_def pid_path_def Let_def SpaceRun.simps that
      by (intro cfg.holds_sq d cfg_same [OF w] cfg_same [OF clear_mkdir] cfg.holds_bnd cfg_same [OF same_spawn]
          cfg_same [OF t] cfg_same [OF same_write] cfg.holds_ret clear_run_dir clear_of_notin clear_of_append i r)
  qed
  have launch: "cfg.holds (cx_state cx) (launch_vm cx c m n g pw)" if "c_id c = i" for c m n g
  proof -
    have s: "same.holds ?S (opt_running_secret cx c pw)"
      unfolding opt_running_secret_def that by (intro same.holds_intros same_secrets i r)
    show ?thesis
      unfolding launch_vm_def Let_def that
      by (intro cfg.holds_bnd cfg.holds_sum cfg.holds_sq cfg.holds_attempt cfg_same [OF s] cfg.holds_ignore
          cfg_same [OF same_links(2)] cfg_reply spawn vm that cfg_same [OF same_secrets(2)] r i)
  qed
  show ?thesis
    unfolding op_start_def Let_def
    by (rule cfg.holds_bnd, rule cfg_same, rule same_helpers, rule cfg.holds_bnd_val, rule cfg_same, rule same_helpers)
      (intro cfg.holds_sq cfg.holds_bnd cfg.holds_if cfg_reply launch cfg_internal
        cfg_same [OF same_helpers(6)] cfg_same [OF same_reading(3)] cfg_same [OF same_links(5)]
        cfg_same [OF same_helpers(3)] cfg_same [OF same_helpers(8)] cfg_same [OF same_reading(10)]
        cfg_same [OF same_secrets(6)] cfg_same [OF same_secrets(7)] cfg_same [OF same_links(4)]
        cfg_same [OF same_links(1)] cfg.holds_ask i r, drule get_id, assumption)
qed

lemma cfg_volume:
  assumes "ctx_ok cx" "id_ok i"
  shows "cfg.holds (cx_state cx) (with_secret cx pw (\<lambda>secret.
      sq (qemu_img_overlay b (overlay_path (space_dir (cx_state cx) i)) secret)
        (own_and_lock_down (overlay_path (space_dir (cx_state cx) i)) uid)))"
    "cfg.holds (cx_state cx) (with_secret cx pw (create_volumes td (space_dir (cx_state cx) i) uid n seed))"
proof -
  let ?S = "store_paths (cx_state cx)" and ?d = "space_dir (cx_state cx) i"
  note r = clear_run [OF assms(1) store_paths_inside]
  have ov: "overlay_path ?d \<notin> ?S" and da: "data_path ?d \<notin> ?S"
    using assms(2) by (simp_all add: overlay_path_def data_path_def notin_store_paths)
  show "cfg.holds (cx_state cx) (with_secret cx pw (\<lambda>secret.
      sq (qemu_img_overlay b (overlay_path ?d) secret) (own_and_lock_down (overlay_path ?d) uid)))"
    by (rule cfg_same) (intro same_with_secret same.holds_intros same_volume r ov)
  let ?g = "?d @ [''.seed-staging'']"
  have g: "?g \<notin> ?S" using assms(2) by (simp add: notin_store_paths)
  have raw: "?g @ [''data.raw''] \<notin> ?S"
    using assms(2) by (auto simp: store_paths_def space_dir_slug config_path_def)
  have mk: "cfg.holds (cx_state cx) (create_dir_all ?g)"
    using assms(2) by (intro cfg_mkdir) (auto simp: space_dir_slug config_path_def prefix_def append_eq_append_conv2 Cons_eq_append_conv)
  have rm: "same.holds ?S (remove_dir_all ?g)"
    using assms(2) by (intro same_remove_dir_all)
      (auto simp: store_paths_def space_dir_slug config_path_def prefix_def append_eq_append_conv2 Cons_eq_append_conv)
  have sec: "same.holds ?S (opt_secret cx pw)" "same.holds ?S (cleanup_qemu_img_secret (Some (qemu_img_secret_path cx)))"
    using same_secrets(4,5) [OF r assms(2)] by blast+
  have seed: "cfg.holds (cx_state cx) (seed_data_volume ?d (data_path ?d) n spec secret)" for spec secret
    unfolding seed_data_volume_def prepare_staging_dir_def cleanup_staging_def Let_def
    by (intro cfg.holds_sq cfg.holds_bnd mk cfg.holds_attempt cfg.holds_ignore cfg.holds_of_result
        cfg_same [OF same_chown] cfg_same [OF same_set_mode] cfg_same [OF same_volume(6)] cfg_same [OF same_volume(5)]
        cfg_same [OF same_volume(3)] cfg_same [OF rm] g raw da)
  have vols: "cfg.holds (cx_state cx) (create_volumes td ?d uid n seed secret)" for secret
    unfolding create_volumes_def
    by (intro cfg.holds_sq cfg.holds_if cfg.holds_option cfg.holds_ret seed cfg_same [OF same_volume(1)]
        cfg_same [OF same_volume(4)] cfg_same [OF same_volume(2)] ov da)
  show "cfg.holds (cx_state cx) (with_secret cx pw (create_volumes td ?d uid n seed))"
    unfolding with_secret_def
  proof (rule cfg.holds_bnd_val [OF cfg_same [OF sec(1)]])
    fix secret w w' assume "opt_secret cx pw w = (Inr secret, w')"
    then have "cfg.holds (cx_state cx) (cleanup_qemu_img_secret secret :: (unit, unit) m)"
      using opt_secret_Inr cfg_same [OF sec(2)]
      by (cases pw) (fastforce simp: cleanup_qemu_img_secret_def intro: cfg.holds_ret)+
    then show "cfg.holds (cx_state cx) (bnd (attempt (create_volumes td ?d uid n seed secret))
        (\<lambda>r. sq (cleanup_qemu_img_secret secret) (of_result r)))"
      by (intro cfg.holds_bnd cfg.holds_sq cfg.holds_attempt cfg.holds_of_result vols)
  qed
qed

lemma cfg_op_reset:
  assumes "ctx_ok cx" "id_ok i"
  shows "cfg.holds (cx_state cx) (op_reset_system cx i pw)" "cfg.holds (cx_state cx) (op_reset_all cx i pw)"
  unfolding op_reset_system_def op_reset_all_def Let_def
  by (intro cfg.holds_sq cfg.holds_bnd cfg_internal cfg_volume assms cfg.holds_ret cfg_same [OF same_helpers(1)]
      cfg_same [OF same_helpers(2)] cfg_same [OF same_helpers(6)] cfg_same [OF same_helpers(7)]
      cfg_same [OF same_helpers(3)])+

section \<open>The handlers that change the store\<close>

lemma hoare_pure: "(b \<Longrightarrow> hoare P f Q E) \<Longrightarrow> hoare (\<lambda>w. P w \<and> b) f Q E"
  by (cases b) (simp_all add: hoare_def)

lemma load_store_hoare:
  "hoare (store_ok (cx_libs cx) (cx_state cx)) (load_store cx)
     (\<lambda>s w. loaded (cx_libs cx) s w \<and> state_dir s = cx_state cx) (\<lambda>_. store_ok (cx_libs cx) (cx_state cx))"
  unfolding load_store_def internal_def by (rule hoare_map_err) (rule load_hoare)

lemma hoare_get:
  "(\<And>c. store_get s i = Some c \<Longrightarrow> hoare P (k c) Q E) \<Longrightarrow> (\<And>e w. P w \<Longrightarrow> E e w) \<Longrightarrow>
   hoare P (bnd (space_or_not_found s i) k) Q E"
  by (cases "store_get s i")
    (auto simp: space_or_not_found_def refuse_def hoare_def bnd_def ret_def fail_def)

text \<open>A step that keeps the configurations, in front of the rest.\<close>

lemma hoare_step:
  assumes "cfg.holds (state_dir s) f" "\<And>r. hoare (loaded x s) (k r) Q E" "\<And>e w. loaded x s w \<Longrightarrow> E e w"
  shows "hoare (loaded x s) (bnd f k) Q E"
  by (rule hoare_bnd [where R = "\<lambda>_. loaded x s"], rule hoare_post [OF hoare_cfg [OF assms(1)]])
    (use assms(2,3) in auto)

lemma hoare_step_sq:
  assumes "cfg.holds (state_dir s) f" "hoare (loaded x s) k Q E" "\<And>e w. loaded x s w \<Longrightarrow> E e w"
  shows "hoare (loaded x s) (sq f k) Q E"
  unfolding sq_def using assms by (rule hoare_step)

lemma hoare_internal: "hoare P f Q (\<lambda>_. E') \<Longrightarrow> hoare P (internal f) Q (\<lambda>_. E')"
  unfolding internal_def by (rule hoare_map_err)

lemma hoare_refuse: "(\<And>e w. P w \<Longrightarrow> E e w) \<Longrightarrow> hoare P (refuse c m) Q E"
  by (simp add: refuse_def hoare_fail)

lemma op_stop_hoare:
  assumes x: "libs_ok (cx_libs cx)" and cx: "ctx_ok cx" and i: "id_ok i"
  shows "hoare (store_ok (cx_libs cx) (cx_state cx)) (op_stop cx i)
    (\<lambda>r w. \<exists>b d s. r = RStopped i b d \<and> loaded (cx_libs cx) s w \<and> state_dir s = cx_state cx \<and>
       map_option c_clean (config_at (cx_libs cx) (cx_state cx) (id_str i) w) = Some (Some b))
    (\<lambda>_. store_ok (cx_libs cx) (cx_state cx))"
  unfolding op_stop_def
proof (rule hoare_bnd [OF load_store_hoare], rule hoare_pure, rule hoare_get)
  fix s c assume st: "state_dir s = cx_state cx" and c: "store_get s i = Some c"
  let ?E = "\<lambda>_. store_ok (cx_libs cx) (cx_state cx)"
  let ?Q = "\<lambda>r w. \<exists>b d s. r = RStopped i b d \<and> loaded (cx_libs cx) s w \<and> state_dir s = cx_state cx \<and>
       map_option c_clean (config_at (cx_libs cx) (cx_state cx) (id_str i) w) = Some (Some b)"
  note r = clear_run [OF cx store_paths_inside]
  have e: "loaded (cx_libs cx) s w \<Longrightarrow> ?E e w" for e w using st loaded_store_ok [of _ s] by metis
  have u: "hoare (loaded (cx_libs cx) s) (sq (internal (set_clean_shutdown (cx_libs cx) s i b)) (ret (RStopped i b d)))
      ?Q ?E" for b d
    unfolding set_clean_shutdown_def
    by (rule hoare_sq [where R = "?Q (RStopped i b d)"], rule hoare_internal, rule hoare_post [OF update_space_hoare [OF x]])
      (auto simp: config_ok_def st c intro!: hoare_ret intro: e)
  have f: "cfg.holds (state_dir s) (shutdown_via_agent cx (id_str i) (c_cid c))"
    "cfg.holds (state_dir s) (kill_and_reap cx (id_str i))" "cfg.holds (state_dir s) (internal (delete_tap (c_cid c)))"
    "cfg.holds (state_dir s) (remove_running_secret (cx_run cx) (id_str i))"
    "cfg.holds (state_dir s) (state_of (cx_run cx) (id_str i) (c_cid c))"
    unfolding st
    by (intro cfg_same cfg_internal same_helpers2 same_secrets same_links same_reading r i)+
  show "hoare (loaded (cx_libs cx) s)
     (bnd (state_of (cx_run cx) (id_str i) (c_cid c)) (\<lambda>st.
     if st \<noteq> Running then refuse SpaceStopped (MsgNotRunning i)
     else
     bnd (shutdown_via_agent cx (id_str i) (c_cid c)) (\<lambda>(graceful, d).
     sq (kill_and_reap cx (id_str i))
    (sq (internal (delete_tap (c_cid c)))
    (sq (remove_running_secret (cx_run cx) (id_str i))
    (sq (internal (set_clean_shutdown (cx_libs cx) s i graceful))
        (ret (RStopped i graceful d)))))))) ?Q ?E"
    by (intro hoare_step f hoare_if hoare_refuse e hoare_prod hoare_step_sq u)
qed (metis loaded_store_ok)

lemma op_update_image_hoare:
  assumes x: "libs_ok (cx_libs cx)" and cx: "ctx_ok cx" and i: "id_ok i"
  shows "hoare (store_ok (cx_libs cx) (cx_state cx)) (op_update_image cx i pw)
    (\<lambda>r w. \<exists>old new d s. r = RUpdated i old new d \<and> loaded (cx_libs cx) s w \<and> state_dir s = cx_state cx \<and>
       map_option c_digest (config_at (cx_libs cx) (cx_state cx) (id_str i) w) = Some new)
    (\<lambda>_. store_ok (cx_libs cx) (cx_state cx))"
  unfolding op_update_image_def Let_def
proof (rule hoare_bnd [OF load_store_hoare], rule hoare_pure, rule hoare_get)
  fix s c assume st: "state_dir s = cx_state cx" and c: "store_get s i = Some c"
  let ?E = "\<lambda>_. store_ok (cx_libs cx) (cx_state cx)"
  let ?Q = "\<lambda>r w. \<exists>old new d s. r = RUpdated i old new d \<and> loaded (cx_libs cx) s w \<and> state_dir s = cx_state cx \<and>
       map_option c_digest (config_at (cx_libs cx) (cx_state cx) (id_str i) w) = Some new"
  let ?p = "id_str (c_profile c)" and ?ov = "overlay_path (space_dir (cx_state cx) i)"
  let ?td = "template_dir_path (cx_state cx) ?p"
  have e: "loaded (cx_libs cx) s w \<Longrightarrow> ?E e w" for e w using st loaded_store_ok [of _ s] by metis
  have u: "hoare (loaded (cx_libs cx) s) (sq (internal (set_digest (cx_libs cx) s i new))
      (ret (RUpdated i old new d))) ?Q ?E" for old new d
    unfolding set_digest_def
    by (rule hoare_sq [where R = "?Q (RUpdated i old new d)"], rule hoare_internal,
        rule hoare_post [OF update_space_hoare [OF x]])
      (auto simp: config_ok_def st c intro!: hoare_ret intro: e)
  have same: "hoare (loaded (cx_libs cx) s) (ret (RUpdated i (c_digest c) new d)) ?Q ?E"
    if "new = c_digest c" for new d
    using loaded_get [OF _ c] st that by (intro hoare_ret) fastforce
  have f: "cfg.holds (state_dir s) (require_passphrase_matches_encryption (c_encrypted c) pw)"
    "cfg.holds (state_dir s) (reject_if_running cx i (c_cid c))"
    "cfg.holds (state_dir s) (resolve_latest_digest (cx_state cx) ?p)"
    "cfg.holds (state_dir s) (ask (template_dir_is_complete td))"
    "cfg.holds (state_dir s) (internal (with_secret cx pw (\<lambda>secret. sq (qemu_img_overlay b ?ov secret)
       (own_and_lock_down ?ov uid))))" for td b uid
    unfolding st by (intro cfg_same cfg_internal cfg_volume same_helpers same.holds_ask cx i)+
  show "hoare (loaded (cx_libs cx) s)
    (sq (require_passphrase_matches_encryption (c_encrypted c) pw)
    (sq (reject_if_running cx i (c_cid c))
    (bnd (resolve_latest_digest (cx_state cx) ?p) (\<lambda>new.
     if new = c_digest c then ret (RUpdated i (c_digest c) new DUpToDate)
     else bnd (ask (template_dir_is_complete (?td new))) (\<lambda>complete.
       if \<not> complete then refuse TemplateNotFound (MsgTemplateMissing (?td new))
       else sq (internal (with_secret cx pw (\<lambda>secret.
            sq (qemu_img_overlay (?td new @ [''root.qcow2'']) ?ov secret) (own_and_lock_down ?ov (c_uid c)))))
         (sq (internal (set_digest (cx_libs cx) s i new))
             (ret (RUpdated i (c_digest c) new DUpdated)))))))) ?Q ?E"
    by (intro u same hoare_step_sq hoare_step f hoare_if hoare_refuse e)
qed (metis loaded_store_ok)

section \<open>The registry and the ruleset after a refresh\<close>

text \<open>The registry file and the ruleset in the kernel are those of the store.\<close>

definition in_sync :: "Ctx \<Rightarrow> Store \<Rightarrow> world \<Rightarrow> bool" where
  "in_sync cx s w \<longleftrightarrow>
     bytes_at (cx_registry cx) w = Some (render_registry (cx_libs cx) (map entry_of_config (spaces s))) \<and>
     nft w = render_nft (map entry_of_config (spaces s)) \<and> render_nft (map entry_of_config (spaces s)) \<noteq> None"

lemma nft_sys: "nft (tick w) = nft w"
  by (simp add: tick_def)

lemma bytes_fs: "fs w' = fs w \<Longrightarrow> bytes_at p w' = bytes_at p w"
  by (simp add: bytes_at_def node_at_def)

lemma write_atomically_Inr:
  assumes "write_atomically p t w = (Inr u, w')"
  shows "bytes_at p w' = Some t"
proof -
  define tmp where "tmp = butlast p @ [''.'' @ last p @ ''.tmp'']"
  from assms obtain w1 where
    w: "w' = tick (case node_at tmp (tick (put_content tmp (Bytes t) w1)) of
        Some n \<Rightarrow> set_node p n (del_node tmp (tick (put_content tmp (Bytes t) w1)))
      | None \<Rightarrow> tick (put_content tmp (Bytes t) w1))"
    unfolding write_atomically_def tmp_def [symmetric] Let_def write_file_def rename_file_def
    by (auto simp: fail_def sq_def bnd_Inr sys_Inr split: if_splits)
  obtain n where "node_at tmp (put_content tmp (Bytes t) w1) = Some n" "kind n = KFile (Bytes t)"
    using kind_put_content by blast
  then show ?thesis unfolding w by (simp add: bytes_at_def)
qed

lemma refresh_Inr:
  assumes "refresh (cx_libs cx) s (cx_registry cx) w = (Inr u, w')"
  shows "in_sync cx s w'"
proof -
  let ?es = "map entry_of_config (spaces s)"
  from assms obtain w1 where w1: "write_atomically (cx_registry cx) (render_registry (cx_libs cx) ?es) w = (Inr (), w1)"
    and n: "(case render_nft ?es of None \<Rightarrow> fail () | Some ls \<Rightarrow> apply_nft ls) w1 = (Inr u, w')"
    unfolding refresh_def Let_def sq_def bnd_Inr by (metis (full_types) old.unit.exhaust)
  from n obtain ls where ls: "render_nft ?es = Some ls" and a: "apply_nft ls w1 = (Inr u, w')"
    by (cases "render_nft ?es") (auto simp: fail_def)
  from a have f: "fs w' = fs w1" and "nft w' = Some ls"
    by (auto simp: apply_nft_def command_def sq_def bnd_Inr tell_def sys_Inr nft_sys)
  then show ?thesis
    using write_atomically_Inr [OF w1] ls bytes_fs [OF f] by (simp add: in_sync_def)
qed

lemma refresh_hoare:
  assumes "ctx_ok cx" "state_dir s = cx_state cx"
  shows "hoare (loaded (cx_libs cx) s) (refresh (cx_libs cx) s (cx_registry cx))
    (\<lambda>_ w. loaded (cx_libs cx) s w \<and> in_sync cx s w) (\<lambda>_. loaded (cx_libs cx) s)"
proof -
  have "cfg.holds (state_dir s) (refresh (cx_libs cx) s (cx_registry cx))"
    unfolding assms(2) by (intro cfg_same same_refresh assms store_paths_inside)
  then have "hoare (loaded (cx_libs cx) s) (refresh (cx_libs cx) s (cx_registry cx))
    (\<lambda>_. loaded (cx_libs cx) s) (\<lambda>_. loaded (cx_libs cx) s)"
    by (rule hoare_cfg)
  then show ?thesis
    unfolding hoare_def using refresh_Inr by (fastforce split: prod.splits sum.splits)
qed

text \<open>What the broker reads of it: every space is found by its CID, under its own id.\<close>

lemma sync_registry:
  assumes "libs_ok (cx_libs cx)" "loaded (cx_libs cx) s w" "in_sync cx s w" "c \<in> set (spaces s)"
  shows "\<exists>src rows. bytes_at (cx_registry cx) w = Some src \<and> registry_parse (toml_registry (cx_libs cx)) src = Inr rows \<and>
    by_cid rows (c_cid c) = Some (toml_space (entry_of_config c))"
  using assms registry_roundtrip [OF assms(1,2)] registry_finds [OF assms(2,4)]
  by (auto simp: in_sync_def)

lemma hoare_some: "(\<And>w. P w \<Longrightarrow> hoare P f Q E) \<Longrightarrow> hoare P f Q E"
  by (auto simp: hoare_def)

section \<open>Destroying and creating\<close>

lemma op_destroy_hoare:
  assumes x: "libs_ok (cx_libs cx)" and cx: "ctx_ok cx" and i: "id_ok i"
  shows "hoare (store_ok (cx_libs cx) (cx_state cx)) (op_destroy cx i)
    (\<lambda>r w. r = RSpace i \<and> (\<exists>s. loaded (cx_libs cx) s w \<and> state_dir s = cx_state cx \<and> store_get s i = None \<and>
       in_sync cx s w))
    (\<lambda>_. store_ok (cx_libs cx) (cx_state cx))"
  unfolding op_destroy_def
proof (rule hoare_bnd [OF load_store_hoare], rule hoare_pure, rule hoare_get)
  fix s c assume st: "state_dir s = cx_state cx" and c: "store_get s i = Some c"
  let ?E = "\<lambda>_. store_ok (cx_libs cx) (cx_state cx)"
  let ?Q = "\<lambda>r w. r = RSpace i \<and> (\<exists>s. loaded (cx_libs cx) s w \<and> state_dir s = cx_state cx \<and>
     store_get s i = None \<and> in_sync cx s w)"
  let ?s = "s\<lparr>spaces := remove_first (\<lambda>c. c_id c = i) (spaces s)\<rparr>"
  have e: "loaded (cx_libs cx) s w \<Longrightarrow> ?E e w" for e w using st loaded_store_ok [of _ s] by metis
  have rest: "hoare (loaded (cx_libs cx) ?s) (sq (internal (refresh (cx_libs cx) ?s (cx_registry cx))) (ret (RSpace i)))
      ?Q ?E" if "store_get ?s i = None"
  proof (rule hoare_sq [where R = "\<lambda>w. loaded (cx_libs cx) ?s w \<and> in_sync cx ?s w"])
    show "hoare (loaded (cx_libs cx) ?s) (internal (refresh (cx_libs cx) ?s (cx_registry cx)))
        (\<lambda>_ w. loaded (cx_libs cx) ?s w \<and> in_sync cx ?s w) ?E"
      by (rule hoare_internal, rule hoare_post [OF refresh_hoare [OF cx]])
        (use loaded_store_ok [of _ ?s] in \<open>auto simp: st\<close>)
    show "hoare (\<lambda>w. loaded (cx_libs cx) ?s w \<and> in_sync cx ?s w) (ret (RSpace i)) ?Q ?E"
      using that st by (intro hoare_ret) fastforce
  qed
  have rm: "hoare (loaded (cx_libs cx) s) (bnd (internal (remove_space s i)) (\<lambda>s'.
      sq (internal (refresh (cx_libs cx) s' (cx_registry cx))) (ret (RSpace i)))) ?Q ?E"
  proof (rule hoare_bnd [where R = "\<lambda>s' w. loaded (cx_libs cx) ?s w \<and> (s' = ?s \<and>
      config_at (cx_libs cx) (cx_state cx) (id_str i) w = None)"])
    show "hoare (loaded (cx_libs cx) s) (internal (remove_space s i)) (\<lambda>s' w. loaded (cx_libs cx) ?s w \<and>
        (s' = ?s \<and> config_at (cx_libs cx) (cx_state cx) (id_str i) w = None)) ?E"
      by (rule hoare_internal, rule hoare_post [OF remove_space_hoare]) (auto simp: st)
    fix s'
    show "hoare (\<lambda>w. loaded (cx_libs cx) ?s w \<and> (s' = ?s \<and>
        config_at (cx_libs cx) (cx_state cx) (id_str i) w = None))
        (sq (internal (refresh (cx_libs cx) s' (cx_registry cx))) (ret (RSpace i))) ?Q ?E"
    proof (rule hoare_some)
      fix w assume w: "loaded (cx_libs cx) ?s w \<and> (s' = ?s \<and>
        config_at (cx_libs cx) (cx_state cx) (id_str i) w = None)"
      then have "store_get ?s i = None"
        using loaded_get [of "cx_libs cx" ?s w i] st by (cases "store_get ?s i") auto
      note rest [OF this]
      moreover have "s' = ?s" using w by blast
      ultimately show "hoare (\<lambda>w. loaded (cx_libs cx) ?s w \<and> (s' = ?s \<and>
        config_at (cx_libs cx) (cx_state cx) (id_str i) w = None))
        (sq (internal (refresh (cx_libs cx) s' (cx_registry cx))) (ret (RSpace i))) ?Q ?E"
        by (metis (no_types, lifting) hoare_pre)
    qed
  qed
  have f: "cfg.holds (state_dir s) (reject_if_running cx i (c_cid c))"
    "cfg.holds (state_dir s) (internal (reap_leftover_tap (c_cid c)))"
    unfolding st by (intro cfg_same cfg_internal same_helpers same_links)+
  show "hoare (loaded (cx_libs cx) s)
    (sq (reject_if_running cx i (c_cid c))
    (sq (internal (reap_leftover_tap (c_cid c)))
    (bnd (internal (remove_space s i)) (\<lambda>s'.
     sq (internal (refresh (cx_libs cx) s' (cx_registry cx)))
        (ret (RSpace i)))))) ?Q ?E"
    by (intro hoare_step_sq f e rm)
qed (metis loaded_store_ok)

lemma load_manifest_cfg: "cfg.holds st (load_manifest cx p)" "cfg.holds st (resolve_template_digest cst p)"
  "cfg.holds st (seed_spec_of cx m seed)"
  by (intro cfg_same same_helpers same_helpers2)+

text \<open>What \<open>Create\<close> answers, and what is then so.\<close>

definition new_space ::
  "SpaceId \<Rightarrow> SpaceId \<Rightarrow> Label \<Rightarrow> Color \<Rightarrow> string option \<Rightarrow> SpaceConfig \<Rightarrow> bool" where
  "new_space i p l k pw c \<longleftrightarrow>
     c_id c = i \<and> c_profile c = p \<and> c_label c = l \<and> c_color c = k \<and> c_encrypted c = (pw \<noteq> None) \<and> c_clean c = None"

definition created ::
  "Ctx \<Rightarrow> SpaceId \<Rightarrow> SpaceId \<Rightarrow> Label \<Rightarrow> Color \<Rightarrow> string option \<Rightarrow> op_reply \<Rightarrow> world \<Rightarrow> bool" where
  "created cx i p l k pw r w \<longleftrightarrow>
     (\<exists>s c. r = RCreated (c_id c) (c_cid c) (c_uid c) \<and> loaded (cx_libs cx) s w \<and> state_dir s = cx_state cx \<and>
        store_get s i = Some c \<and> new_space i p l k pw c \<and> in_sync cx s w)"

lemma op_create_hoare:
  assumes x: "libs_ok (cx_libs cx)" and cx: "ctx_ok cx"
    and ok: "id_ok i" "id_ok p" "label_ok l" "color_ok k"
  shows "hoare (store_ok (cx_libs cx) (cx_state cx)) (op_create cx i p l k seed pw)
    (created cx i p l k pw)
    (\<lambda>_. store_ok (cx_libs cx) (cx_state cx))"
proof -
  let ?E = "\<lambda>_. store_ok (cx_libs cx) (cx_state cx)"
  let ?Q = "created cx i p l k pw"
  have e: "loaded (cx_libs cx) s w \<Longrightarrow> ?E e w" if "state_dir s = cx_state cx" for s e w
    using that loaded_store_ok [of _ s] by metis
  have fin: "hoare (loaded (cx_libs cx) s)
      (bnd (attempt (sq (with_secret cx pw (create_volumes td (space_dir (cx_state cx) i) uid n spec))
              (refresh (cx_libs cx) s (cx_registry cx)))) (\<lambda>r.
      case r of
        Inl _ \<Rightarrow> sq (ignore (remove_space s i)) (refuse Internal MsgInternal)
      | Inr _ \<Rightarrow> ret (RCreated (c_id c) (c_cid c) (c_uid c)))) ?Q ?E"
    if st: "state_dir s = cx_state cx" and c: "store_get s i = Some c" "new_space i p l k pw c" for s c td uid n spec
  proof (rule hoare_bnd [where R = "\<lambda>r w. loaded (cx_libs cx) s w \<and> (\<not> isl r \<longrightarrow> in_sync cx s w)"])
    have v: "cfg.holds (state_dir s) (with_secret cx pw (create_volumes td (space_dir (cx_state cx) i) uid n spec))"
      unfolding st by (intro cfg_volume cx ok)
    show "hoare (loaded (cx_libs cx) s) (attempt (sq (with_secret cx pw
          (create_volumes td (space_dir (cx_state cx) i) uid n spec)) (refresh (cx_libs cx) s (cx_registry cx))))
        (\<lambda>r w. loaded (cx_libs cx) s w \<and> (\<not> isl r \<longrightarrow> in_sync cx s w)) ?E"
      by (rule hoare_attempt, rule hoare_step_sq [OF v], rule hoare_post [OF refresh_hoare [OF cx st]]) auto
    have undo: "hoare (loaded (cx_libs cx) s) (sq (ignore (remove_space s i)) (refuse Internal MsgInternal)) ?Q ?E"
      by (rule hoare_sq [where R = "store_ok (cx_libs cx) (cx_state cx)"], rule hoare_ignore,
          rule hoare_post [OF remove_space_hoare])
        (use loaded_store_ok in \<open>auto simp: st hoare_refuse dest: loaded_store_ok\<close>)
    show "hoare (\<lambda>w. loaded (cx_libs cx) s w \<and> (\<not> isl r \<longrightarrow> in_sync cx s w))
        (case r of
        Inl _ \<Rightarrow> sq (ignore (remove_space s i)) (refuse Internal MsgInternal)
      | Inr _ \<Rightarrow> ret (RCreated (c_id c) (c_cid c) (c_uid c))) ?Q ?E" for r
      proof (cases r)
        case (Inr u)
        have "created cx i p l k pw (RCreated (c_id c) (c_cid c) (c_uid c)) w"
          if "loaded (cx_libs cx) s w" "in_sync cx s w" for w
          unfolding created_def using that st c by blast
        then show ?thesis using Inr by (auto intro!: hoare_ret)
      qed (simp add: undo)
  qed
  have make: "hoare (loaded (cx_libs cx) s)
     (bnd (internal (create_space (cx_libs cx) s i p digest l k (pw \<noteq> None))) (\<lambda>(s', c).
      bnd (attempt
          (sq (with_secret cx pw
                (create_volumes (td digest) (space_dir (cx_state cx) i) (c_uid c) n spec))
              (refresh (cx_libs cx) s' (cx_registry cx)))) (\<lambda>r.
      case r of
        Inl _ \<Rightarrow> sq (ignore (remove_space s' i)) (refuse Internal MsgInternal)
      | Inr _ \<Rightarrow> ret (RCreated (c_id c) (c_cid c) (c_uid c))))) ?Q ?E"
    if st: "state_dir s = cx_state cx" for s digest td n spec
  proof (rule hoare_bnd [where R = "\<lambda>(s', c) w. loaded (cx_libs cx) s' w \<and>
      (state_dir s' = cx_state cx \<and> store_get s' i = Some c \<and> new_space i p l k pw c)"])
    show "hoare (loaded (cx_libs cx) s) (internal (create_space (cx_libs cx) s i p digest l k (pw \<noteq> None)))
        (\<lambda>(s', c) w. loaded (cx_libs cx) s' w \<and>
          (state_dir s' = cx_state cx \<and> store_get s' i = Some c \<and> new_space i p l k pw c)) ?E"
    proof (rule hoare_internal, rule hoare_post [OF create_space_hoare [OF x ok]], clarify)
      fix s' c w
      assume "loaded (cx_libs cx) (s\<lparr>spaces := sort_spaces (spaces s @ [c])\<rparr>) w"
      then have "distinct (map c_id (c # spaces s))" by (simp add: loaded_def)
      then have "store_get (s\<lparr>spaces := sort_spaces (spaces s @ [c])\<rparr>) (c_id c) = Some c"
        using get_sort [of c "c_id c" "spaces s"] by (simp add: store_get_def)
      moreover assume "c_encrypted c = (pw \<noteq> None)" "c_clean c = None"
      ultimately show "state_dir (s\<lparr>spaces := sort_spaces (spaces s @ [c])\<rparr>) = cx_state cx \<and>
          store_get (s\<lparr>spaces := sort_spaces (spaces s @ [c])\<rparr>) (c_id c) = Some c \<and>
          new_space (c_id c) (c_profile c) (c_label c) (c_color c) pw c"
        using st by (simp add: new_space_def)
    qed (simp add: st)
  qed (auto intro!: hoare_pure fin split: prod.split)
  show ?thesis
    unfolding op_create_def
  proof (intro hoare_if hoare_refuse hoare_bnd [OF load_store_hoare] hoare_pure)
    fix s :: Store assume st: "state_dir s = cx_state cx"
    note f = load_manifest_cfg [of "state_dir s"]
    show "hoare (loaded (cx_libs cx) s)
     (bnd (load_manifest cx (id_str p)) (\<lambda>m.
      bnd (resolve_template_digest (cx_state cx) (id_str p)) (\<lambda>digest.
      bnd (seed_spec_of cx m seed) (\<lambda>spec.
      bnd (internal (create_space (cx_libs cx) s i p digest l k (pw \<noteq> None))) (\<lambda>(s', c).
      bnd (attempt
          (sq (with_secret cx pw
                (create_volumes (template_dir_path (cx_state cx) (id_str p) digest)
                  (space_dir (cx_state cx) i) (c_uid c) (data_mb (resources m)) spec))
              (refresh (cx_libs cx) s' (cx_registry cx)))) (\<lambda>r.
      case r of
        Inl _ \<Rightarrow> sq (ignore (remove_space s' i)) (refuse Internal MsgInternal)
      | Inr _ \<Rightarrow> ret (RCreated (c_id c) (c_cid c) (c_uid c)))))))) ?Q ?E"
      by (intro make [OF st] hoare_step f e [OF st])
  qed (metis loaded_store_ok)+
qed

section \<open>Every request keeps the invariant\<close>

lemma keeps_cfg: "cfg.holds st f \<Longrightarrow> hoare (store_ok x st) f (\<lambda>_. store_ok x st) (\<lambda>_. store_ok x st)"
  unfolding hoare_def
  using cfg.holdsD keep_cfg_ok by (fastforce split: prod.split sum.split)

lemma hoare_case:
  "hoare P f Q E \<Longrightarrow> P w \<Longrightarrow> (case f w of (Inl e, w') \<Rightarrow> E e w' | (Inr x, w') \<Rightarrow> Q x w')"
  by (simp add: hoare_def)

lemma hoare_anyway:
  "hoare P f (\<lambda>_. Q) (\<lambda>_. Q) \<Longrightarrow> P w \<Longrightarrow> Q (snd (f w))"
  by (cases "f w", rename_tac r w', case_tac r) (auto simp: hoare_def)

lemma keeps_loaded:
  assumes "hoare P f Q (\<lambda>_. store_ok x st)" "\<And>r w. Q r w \<Longrightarrow> \<exists>s. loaded x s w \<and> state_dir s = st"
  shows "hoare P f (\<lambda>_. store_ok x st) (\<lambda>_. store_ok x st)"
  by (rule hoare_post [OF assms(1)]) (use assms(2) loaded_store_ok in blast)+

lemma dispatch_keeps:
  assumes "libs_ok (cx_libs cx)" "ctx_ok cx" "request_ok req"
  shows "hoare (store_ok (cx_libs cx) (cx_state cx)) (dispatch cx req)
    (\<lambda>_. store_ok (cx_libs cx) (cx_state cx)) (\<lambda>_. store_ok (cx_libs cx) (cx_state cx))"
proof (cases req)
  case (Create i p l k sd pw)
  then show ?thesis
    using assms by (simp add: dispatch_def) (rule keeps_loaded [OF op_create_hoare], auto simp: created_def)
next
  case (Stop i)
  then show ?thesis using assms keeps_loaded [OF op_stop_hoare] by (auto simp: dispatch_def)
next
  case (UpdateImage i pw)
  then show ?thesis using assms keeps_loaded [OF op_update_image_hoare] by (auto simp: dispatch_def)
next
  case (Destroy i)
  then show ?thesis using assms keeps_loaded [OF op_destroy_hoare] by (auto simp: dispatch_def)
next
  case (Start i pw)
  then show ?thesis using assms cfg_op_start by (auto simp: dispatch_def intro!: keeps_cfg)
next
  case (ResetSystem i pw)
  then show ?thesis using assms cfg_op_reset by (auto simp: dispatch_def intro!: keeps_cfg)
next
  case (ResetAll i pw)
  then show ?thesis using assms cfg_op_reset by (auto simp: dispatch_def intro!: keeps_cfg)
qed (use assms in \<open>auto simp: dispatch_def intro!: keeps_cfg cfg_same same_reading_ops same_op_build
      same_op_open_window store_paths_inside\<close>)

text \<open>
  C1.  The state of the spaces on disk is consistent after every request if it was
  before: each configuration readable and in the directory of its own id, its CID
  between 3 and 255, not the network VM's and used by no other space, its uid the
  one derived from the CID.  The request may be any request that got past the
  reader, and any of its system calls, commands and agent calls may fail.
\<close>

theorem requests_keep_store_ok:
  assumes "libs_ok (cx_libs cx)" "ctx_ok cx" "request_ok req"
    and "store_ok (cx_libs cx) (cx_state cx) w"
  shows "store_ok (cx_libs cx) (cx_state cx) (snd (dispatch cx req w))"
  using hoare_anyway [OF dispatch_keeps [OF assms(1-3)] assms(4)] .

lemmas ex_defs =
  ex_world_def ex_world1_def ex_space_fs_def ex_fs_def ex_ctx_def config_path_def spaces_dir_def ex_dir_def
  ex_file_def Let_def node_at_def al_get_def

lemma config_ok_ex: "config_ok ex_config"
  using request_ok_ex by (simp add: config_ok_def ex_config_def MIYORI_NET_ID_def MAX_CID_def NET_CID_def UID_BASE_def)

lemma ex_ctx_libs [simp]: "cx_libs ex_ctx = ex_libs"
  by (simp add: ex_ctx_def)

lemma config_at_ex: "config_at ex_libs (cx_state ex_ctx) ''w'' ex_world1 = Some ex_config"
proof -
  have "bytes_at (config_path (spaces_dir (cx_state ex_ctx) @ [''w''])) ex_world1 = Some (config_to ex_libs ex_config)"
    by (simp add: bytes_at_def ex_defs)
  then show ?thesis
    by (simp add: config_at_def config_to_utf8 [OF libs_ok_ex] config_of_to [OF libs_ok_ex config_ok_ex])
qed

lemma store_ok_single:
  assumes "\<And>d. has_config st d w \<longleftrightarrow> d = e" "config_at x st e w = Some c" "config_ok c" "id_str (c_id c) = e"
    "is_dir (spaces_dir st) w" "is_dir (spaces_dir st @ [e]) w"
  shows "store_ok x st w"
proof -
  have "d = e" if "config_at x st d w = Some b" for d b
    using that config_at_file assms(1) by blast
  then show ?thesis unfolding store_ok_def using assms by metis
qed

lemma store_ok_ex: "store_ok ex_libs (cx_state ex_ctx) ex_world" "store_ok ex_libs (cx_state ex_ctx) ex_world1"
proof -
  have "\<not> has_config (cx_state ex_ctx) d ex_world" for d
    by (simp add: has_config_def is_file_def ex_defs)
  then show "store_ok ex_libs (cx_state ex_ctx) ex_world"
    using config_at_file by (fastforce simp: store_ok_def)
  have h: "has_config (cx_state ex_ctx) d ex_world1 \<longleftrightarrow> d = ''w''" for d
    by (simp add: has_config_def is_file_def ex_defs)
  note config_at_ex
  moreover have "is_dir (spaces_dir (cx_state ex_ctx)) ex_world1" "is_dir (spaces_dir (cx_state ex_ctx) @ [''w'']) ex_world1"
    by (simp_all add: is_dir_def ex_defs)
  ultimately show "store_ok ex_libs (cx_state ex_ctx) ex_world1"
    by (intro store_ok_single [OF h _ config_ok_ex]) (simp_all add: ex_config_def)
qed

theorem requests_keep_store_ok_witness:
  "store_ok ex_libs (cx_state ex_ctx) (snd (dispatch ex_ctx (Destroy (SpaceId ''w'')) ex_world1))"
  using requests_keep_store_ok [of ex_ctx "Destroy (SpaceId ''w'')" ex_world1] libs_ok_ex ctx_ok_ex request_ok_ex
    store_ok_ex by simp

lemma created_registered:
  assumes "libs_ok (cx_libs cx)" "created cx i p l k pw r w'"
  shows "\<exists>s c src rows.
    r = RCreated i (c_cid c) (c_uid c) \<and> new_space i p l k pw c \<and>
    loaded (cx_libs cx) s w' \<and> c \<in> set (spaces s) \<and>
    nft w' = render_nft (map entry_of_config (spaces s)) \<and>
    render_nft (map entry_of_config (spaces s)) \<noteq> None \<and>
    bytes_at (cx_registry cx) w' = Some src \<and> registry_parse (toml_registry (cx_libs cx)) src = Inr rows \<and>
    (\<forall>b \<in> set (spaces s). by_cid rows (c_cid b) = Some (toml_space (entry_of_config b)))"
proof -
  from assms(2) obtain s c where s: "r = RCreated (c_id c) (c_cid c) (c_uid c)" "loaded (cx_libs cx) s w'"
      "state_dir s = cx_state cx" "store_get s i = Some c" "new_space i p l k pw c" "in_sync cx s w'"
    by (auto simp: created_def)
  note c = loaded_get [OF s(2,4)]
  have "\<exists>src rows. bytes_at (cx_registry cx) w' = Some src \<and> registry_parse (toml_registry (cx_libs cx)) src = Inr rows \<and>
      (\<forall>b \<in> set (spaces s). by_cid rows (c_cid b) = Some (toml_space (entry_of_config b)))"
    using s(6) registry_roundtrip [OF assms(1) s(2)] registry_finds [OF s(2)] by (auto simp: in_sync_def)
  then obtain src rows where "bytes_at (cx_registry cx) w' = Some src"
      "registry_parse (toml_registry (cx_libs cx)) src = Inr rows"
      "\<forall>b \<in> set (spaces s). by_cid rows (c_cid b) = Some (toml_space (entry_of_config b))"
    by blast
  then show ?thesis
    using s c unfolding in_sync_def by (intro exI [of _ s] exI [of _ c] exI [of _ src] exI [of _ rows]) simp
qed

text \<open>
  C5.  After a \<open>Create\<close> that reports success, the space is in the store with the
  profile, label and colour of the request, encrypted exactly when a passphrase
  came with it, and the registry file and the kernel's ruleset are those of the
  new store: the broker that reads the registry finds every space of the store by
  its CID, under the space's own id, label and colour.
\<close>

theorem create_registers:
  assumes "libs_ok (cx_libs cx)" "ctx_ok cx" "request_ok (Create i p l k sd pw)"
    and "store_ok (cx_libs cx) (cx_state cx) w"
  shows "case dispatch cx (Create i p l k sd pw) w of
      (Inl _, w') \<Rightarrow> store_ok (cx_libs cx) (cx_state cx) w'
    | (Inr r, w') \<Rightarrow>
        (\<exists>s c src rows.
          r = RCreated i (c_cid c) (c_uid c) \<and> new_space i p l k pw c \<and>
          loaded (cx_libs cx) s w' \<and> c \<in> set (spaces s) \<and>
          nft w' = render_nft (map entry_of_config (spaces s)) \<and>
          render_nft (map entry_of_config (spaces s)) \<noteq> None \<and>
          bytes_at (cx_registry cx) w' = Some src \<and> registry_parse (toml_registry (cx_libs cx)) src = Inr rows \<and>
          (\<forall>b \<in> set (spaces s). by_cid rows (c_cid b) = Some (toml_space (entry_of_config b))))"
proof -
  have "hoare (store_ok (cx_libs cx) (cx_state cx)) (op_create cx i p l k sd pw)
      (\<lambda>r w'. \<exists>s c src rows.
          r = RCreated i (c_cid c) (c_uid c) \<and> new_space i p l k pw c \<and>
          loaded (cx_libs cx) s w' \<and> c \<in> set (spaces s) \<and>
          nft w' = render_nft (map entry_of_config (spaces s)) \<and>
          render_nft (map entry_of_config (spaces s)) \<noteq> None \<and>
          bytes_at (cx_registry cx) w' = Some src \<and> registry_parse (toml_registry (cx_libs cx)) src = Inr rows \<and>
          (\<forall>b \<in> set (spaces s). by_cid rows (c_cid b) = Some (toml_space (entry_of_config b))))
      (\<lambda>_. store_ok (cx_libs cx) (cx_state cx))"
    by (rule hoare_post [OF op_create_hoare [OF assms(1,2)]])
      (use assms(3) created_registered [OF assms(1)] in simp_all)
  from hoare_case [OF this assms(4)] show ?thesis by (simp add: dispatch_def)
qed

lemma destroyed_unregistered:
  assumes "libs_ok (cx_libs cx)"
    and s: "loaded (cx_libs cx) s w'" "state_dir s = cx_state cx" "store_get s i = None" "in_sync cx s w'"
  shows "\<exists>s src rows. loaded (cx_libs cx) s w' \<and> i \<notin> c_id ` set (spaces s) \<and>
    config_at (cx_libs cx) (cx_state cx) (id_str i) w' = None \<and>
    nft w' = render_nft (map entry_of_config (spaces s)) \<and>
    render_nft (map entry_of_config (spaces s)) \<noteq> None \<and>
    bytes_at (cx_registry cx) w' = Some src \<and> registry_parse (toml_registry (cx_libs cx)) src = Inr rows \<and>
    sp_id ` set rows = insert MIYORI_NET_ID (id_str ` c_id ` set (spaces s))"
proof -
  have "id_str (c_id c) \<noteq> MIYORI_NET_ID" if "c \<in> set (spaces s)" for c
    using loaded_config_ok [OF s(1) that] by (simp add: config_ok_def)
  then have "sp_id ` set (map toml_space (registry_rows (map entry_of_config (spaces s)))) =
      insert MIYORI_NET_ID (id_str ` c_id ` set (spaces s))"
    by (force simp: registry_rows_set toml_space_def entry_of_config_def miyori_net_entry_def image_image image_iff)
  moreover have "i \<notin> c_id ` set (spaces s)" using s(3) by (auto simp: store_get_def find_None_iff)
  ultimately show ?thesis
    using s registry_roundtrip [OF assms(1) s(1)] loaded_get_None [OF s(1,3)] unfolding in_sync_def
    by (intro exI [of _ s] exI [of _ "render_registry (cx_libs cx) (map entry_of_config (spaces s))"]
        exI [of _ "map toml_space (registry_rows (map entry_of_config (spaces s)))"]) simp
qed


theorem create_registers_witness:
  "case dispatch ex_ctx (Create (SpaceId ''v'') (SpaceId ''web'') (Label ''work'') (Color ''#ff0000'') None None) ex_world1 of
      (Inl _, w') \<Rightarrow> store_ok ex_libs (cx_state ex_ctx) w'
    | (Inr r, w') \<Rightarrow> (\<exists>cid uid src. r = RCreated (SpaceId ''v'') cid uid \<and> bytes_at (cx_registry ex_ctx) w' = Some src)"
  using create_registers [of ex_ctx "SpaceId ''v''" "SpaceId ''web''" "Label ''work''" "Color ''#ff0000''" None None ex_world1]
    libs_ok_ex ctx_ok_ex request_ok_ex store_ok_ex
  by (auto simp: ex_ctx_libs split: prod.splits sum.splits)


end
