(* ===== verification/OpsGuard.thy ===== *)
theory OpsGuard
  imports OpsInv
begin

text \<open>
  When a handler refuses.  A world is \<open>calm\<close> when no call of the environment
  fails; the guards of the handlers are stated for such worlds, because a guard
  that cannot read the file it looks at lets the request pass.
\<close>

definition calm :: "world \<Rightarrow> bool" where
  "calm w \<longleftrightarrow> (\<forall>n. \<not> fault (env w) n)"

lemma calm_time: "time_only w w' \<Longrightarrow> calm w \<Longrightarrow> calm w'"
  by (simp add: calm_def)

lemma calm_query: "calm w \<Longrightarrow> f w = Some x \<Longrightarrow> query f w = (Inr x, tick w)"
  by (simp add: query_def calm_def faulty_def)

lemma store_ok_time: "time_only w w' \<Longrightarrow> store_ok x st w \<Longrightarrow> store_ok x st w'"
  using store_ok_same time_same by blast

lemma calm_load_entry:
  assumes "calm w" "store_ok x st w"
  shows "\<exists>c w'. load_entry x (spaces_dir st) d w = (Inr c, w') \<and> time_only w w'"
proof (cases "has_config st d w")
  case True
  then obtain c where c: "config_at x st d w = Some c" using assms(2) by (auto simp: store_ok_def)
  then obtain src where src: "Option.bind (bytes_at (config_path (spaces_dir st @ [d])) w) from_utf8 = Some src"
    "config_of x src = Some c" by (auto simp: config_at_def bind_eq_Some_conv)
  have "read_to_string (config_path (spaces_dir st @ [d])) w = (Inr src, tick w)"
    unfolding read_to_string_def by (rule calm_query [OF assms(1)]) (rule src(1))
  then show ?thesis
    using True src
    by (simp add: load_entry_def bnd_def ask_def has_config_def ret_def time_tick)
next
  case False
  then show ?thesis
    using looks.R_refl by (auto simp: load_entry_def bnd_def ask_def has_config_def ret_def)
qed

lemma calm_each:
  assumes "calm w" "store_ok x st w"
  shows "\<exists>cs w'. each (load_entry x (spaces_dir st)) ds w = (Inr cs, w') \<and> time_only w w'"
  using assms
proof (induction ds arbitrary: w)
  case Nil
  then show ?case using looks.R_refl by (auto simp: ret_def)
next
  case (Cons d ds)
  obtain c w1 where 1: "load_entry x (spaces_dir st) d w = (Inr c, w1)" "time_only w w1"
    using calm_load_entry [OF Cons.prems] by blast
  obtain cs w2 where 2: "each (load_entry x (spaces_dir st)) ds w1 = (Inr cs, w2)" "time_only w1 w2"
    using Cons.IH [OF calm_time [OF 1(2) Cons.prems(1)] store_ok_time [OF 1(2) Cons.prems(2)]] by blast
  show ?case using 1(1) 2(1) looks.R_trans [OF 1(2) 2(2)] by (simp add: bnd_def ret_def)
qed

text \<open>In a calm world with a space the store can be loaded, and it has the space.\<close>

lemma calm_load:
  assumes "calm w" "store_ok (cx_libs cx) (cx_state cx) w" "config_at (cx_libs cx) (cx_state cx) (id_str i) w = Some c"
  shows "\<exists>s w'. load_store cx w = (Inr s, w') \<and> time_only w w' \<and> store_get s i = Some c"
proof -
  let ?x = "cx_libs cx" and ?st = "cx_state cx"
  have dir: "is_dir (spaces_dir ?st) w"
    using assms(2) config_at_file [OF assms(3)] by (simp add: store_ok_def)
  then have present: "path_exists (spaces_dir ?st) w"
    by (auto simp: is_dir_def path_exists_def split: option.splits)
  have rd: "read_dir (spaces_dir ?st) w = (Inr (names_in (spaces_dir ?st) w), tick w)"
    using dir calm_query [OF assms(1), of "\<lambda>w. if is_dir (spaces_dir ?st) w then Some (names_in (spaces_dir ?st) w) else None"]
    by (simp add: read_dir_def)
  obtain cs w' where e: "each (load_entry ?x (spaces_dir ?st)) (names_in (spaces_dir ?st) w) (tick w) = (Inr cs, w')"
      "time_only (tick w) w'"
    using calm_each calm_time [OF time_tick assms(1)] store_ok_time [OF time_tick assms(2)] by blast
  let ?s = "\<lparr>state_dir = ?st, spaces = sort_spaces (List.map_filter id cs)\<rparr>"
  have l: "load_store cx w = (Inr ?s, w')"
    using present rd e by (simp add: load_store_def internal_def map_err_def store_load_def bnd_def ask_def ret_def)
  have t: "time_only w w'" using looks.R_trans [OF time_tick e(2)] .
  have "loaded ?x ?s w'"
    using hoareD [OF load_store_hoare assms(2) l] by simp
  moreover have "config_at ?x ?st (id_str i) w' = Some c"
    using time_config [OF t] assms(3) by simp
  ultimately have "store_get ?s i = Some c"
    using loaded_get_None [of ?x ?s w' i] loaded_get [of ?x ?s w' i] by (cases "store_get ?s i") auto
  then show ?thesis using l t by blast
qed

text \<open>The VM of a space runs: its pid file names a process with its command line.\<close>

definition vm_runs :: "Ctx \<Rightarrow> SpaceConfig \<Rightarrow> world \<Rightarrow> bool" where
  "vm_runs cx c w \<longleftrightarrow>
     (case Option.bind (bytes_at (pid_path (cx_run cx) (id_str (c_id c))) w) from_utf8 of
        None \<Rightarrow> False
      | Some raw \<Rightarrow>
          (case parse_u32 (trim raw) of
             None \<Rightarrow> False
           | Some pid \<Rightarrow> cmdline_identifies_space (proc_cmdline pid w) (c_cid c)))"

lemma calm_state:
  assumes "calm w"
  shows "\<exists>w'. state_of (cx_run cx) (id_str (c_id c)) (c_cid c) w =
      (Inr (if vm_runs cx c w then Running else Stopped), w') \<and> time_only w w'"
proof -
  let ?p = "pid_path (cx_run cx) (id_str (c_id c))"
  have pc: "proc_cmdline pid (tick w) = proc_cmdline pid w" for pid
    by (simp add: proc_cmdline_def tick_def)
  show ?thesis
  proof (cases "Option.bind (bytes_at ?p w) from_utf8")
    case None
    then have "read_to_string ?p w = (Inl (), tick w)" by (simp add: read_to_string_def query_def)
    then show ?thesis
      using None time_tick by (simp add: state_of_def pid_of_def bnd_def attempt_def ret_def vm_runs_def)
  next
    case (Some raw)
    then have "read_to_string ?p w = (Inr raw, tick w)"
      using calm_query [OF assms, of "\<lambda>w. Option.bind (bytes_at ?p w) from_utf8"] by (simp add: read_to_string_def)
    then show ?thesis
      using Some time_tick pc
      by (auto simp: state_of_def pid_of_def bnd_def attempt_def ret_def ask_def vm_runs_def split: option.split)
  qed
qed

section \<open>What a running space refuses\<close>

text \<open>The requests that must not meet a running VM, and whether their passphrase is the right kind.\<close>

fun wants_stopped :: "Request \<Rightarrow> bool" where
  "wants_stopped (Start i pw) = True"
| "wants_stopped (ResetSystem i pw) = True"
| "wants_stopped (ResetAll i pw) = True"
| "wants_stopped (UpdateImage i pw) = True"
| "wants_stopped (Destroy i) = True"
| "wants_stopped _ = False"

fun pass_fits :: "Request \<Rightarrow> SpaceConfig \<Rightarrow> bool" where
  "pass_fits (Start i pw) c = (c_encrypted c = (pw \<noteq> None))"
| "pass_fits (ResetSystem i pw) c = (c_encrypted c = (pw \<noteq> None))"
| "pass_fits (ResetAll i pw) c = (c_encrypted c = (pw \<noteq> None))"
| "pass_fits (UpdateImage i pw) c = (c_encrypted c = (pw \<noteq> None))"
| "pass_fits _ c = True"

lemma require_result:
  "require_passphrase_matches_encryption enc pw w =
     (if enc = (pw \<noteq> None) then Inr ()
      else Inl (BadRequest, if enc then MsgNeedsPassphrase else MsgNotEncrypted), w)"
  by (auto simp: require_passphrase_matches_encryption_def refuse_def fail_def ret_def)

lemma bnd_first:
  "f w = (Inl e, w') \<Longrightarrow> bnd f k w = (Inl e, w')" "f w = (Inr x, w') \<Longrightarrow> bnd f k w = k x w'"
  by (simp_all add: bnd_def)

lemma get_result: "store_get s i = Some c \<Longrightarrow> space_or_not_found s i w = (Inr c, w)"
  by (simp add: space_or_not_found_def ret_def)

lemma calm_reject:
  assumes "calm w" "vm_runs cx c w"
  shows "\<exists>w'. reject_if_running cx (c_id c) (c_cid c) w = (Inl (SpaceRunning, MsgStopFirst (c_id c)), w') \<and>
    time_only w w'"
proof -
  obtain w' where "state_of (cx_run cx) (id_str (c_id c)) (c_cid c) w =
      (Inr Running :: (ErrorCode \<times> op_msg) + SpaceState, w')" "time_only w w'"
    using calm_state [OF assms(1), of cx c] assms(2) by auto
  then show ?thesis by (simp add: reject_if_running_def bnd_def refuse_def fail_def)
qed

lemma vm_runs_time: "time_only w w' \<Longrightarrow> vm_runs cx c w' = vm_runs cx c w"
  by (simp add: vm_runs_def time_bytes proc_cmdline_def cong: option.case_cong)


lemma ex2_same: "same_at (store_paths (cx_state ex_ctx)) ex_world1 ex_world2"
  by (auto simp: same_at_def store_paths_def ex_world2_def ex_defs)

lemma ex2_ok: "store_ok ex_libs (cx_state ex_ctx) ex_world2"
  "config_at ex_libs (cx_state ex_ctx) ''w'' ex_world2 = Some ex_config"
proof -
  show "store_ok ex_libs (cx_state ex_ctx) ex_world2"
    using store_ok_same [OF ex2_same store_ok_ex(2)] .
  show "config_at ex_libs (cx_state ex_ctx) ''w'' ex_world2 = Some ex_config"
    using config_at_same [OF ex2_same] config_at_ex by simp
qed

lemma ex2_runs: "vm_runs ex_ctx ex_config ex_world2"
proof -
  have "bytes_at (pid_path (cx_run ex_ctx) (id_str (c_id ex_config))) ex_world2 = Some ''99''"
    by (simp add: bytes_at_def ex_world2_def ex_config_def pid_path_def pjoin_def path_of_def ex_defs)
  moreover have "is_ascii ''99''" by (simp add: is_ascii_def)
  then have "from_utf8 ''99'' = Some ''99''" "trim ''99'' = ''99''"
    by (simp_all add: from_utf8_def valid_utf8_ascii trim_no_space is_whitespace_def)
  moreover have "parse_u32 ''99'' = Some 99"
    by (simp add: parse_uint_def digits_val_def is_digit_def digit_val_def)
  moreover have "dec 3 = ''3''" by code_simp
  then have "cmdline_identifies_space (cmdline_of [''qemu-system-x86_64'', ''vhost-vsock-device,guest-cid=3'']) 3"
    by (simp add: cmdline_identifies_space_def cmdline_of_def contains_sub_def)
  ultimately show ?thesis
    by (simp add: vm_runs_def proc_cmdline_def ex_world2_def al_get_def ex_config_def)
qed


end
