(* ===== verification/OpsVolumes.thy ===== *)
theory OpsVolumes
  imports OpsGuard
begin

text \<open>
  What the disks of a space are after the handlers that make them: whose they
  are, what they are based on and whose passphrase opens them.
\<close>

section \<open>Triples with a frame\<close>

definition rests_on :: "path set \<Rightarrow> (world \<Rightarrow> bool) \<Rightarrow> bool" where
  "rests_on S R \<longleftrightarrow> (\<forall>w w'. same_at S w w' \<longrightarrow> R w \<longrightarrow> R w')"

lemma hoare_frame:
  assumes "hoare P f Q E" "same.holds S f" "rests_on S R"
  shows "hoare (\<lambda>w. P w \<and> R w) f (\<lambda>r w. Q r w \<and> R w) (\<lambda>_ _. True)"
  unfolding hoare_def
proof (intro allI impI, elim conjE)
  fix w assume p: "P w" and r: "R w"
  obtain a w' where a: "f w = (a, w')" by force
  then have "R w'" using same.holdsD [OF assms(2) a] assms(3) r by (auto simp: rests_on_def)
  then show "case f w of (Inl x, w') \<Rightarrow> True | (Inr x, w') \<Rightarrow> Q x w' \<and> R w'"
    using a assms(1) p by (cases a) (force simp: hoare_def)+
qed

lemma hoare_keep:
  assumes "same.holds S f" "rests_on S R"
  shows "hoare R f (\<lambda>_. R) (\<lambda>_ _. True)"
  using hoare_frame [OF _ assms, of "\<lambda>_. True" "\<lambda>_ _. True" "\<lambda>_ _. True"] by (simp add: hoare_def split: prod.splits sum.splits)

lemma hoare_weak: "hoare P f Q E \<Longrightarrow> hoare P f Q (\<lambda>_ _. True)"
  by (erule hoare_post) auto

text \<open>A disk with its owner, readable and writable by the owner alone.\<close>

definition locked_volume :: "path \<Rightarrow> nat \<Rightarrow> volume \<Rightarrow> world \<Rightarrow> bool" where
  "locked_volume p uid v w \<longleftrightarrow>
     (\<exists>n. node_at p w = Some n \<and> kind n = KFile (Volume v) \<and> owner n = uid \<and> mode n = 384)"

lemma rests_locked: "p \<in> S \<Longrightarrow> rests_on S (locked_volume p uid v)"
  by (simp add: rests_on_def same_at_def locked_volume_def)

lemma rests_volume: "p \<in> S \<Longrightarrow> rests_on S (\<lambda>w. volume_at p w = v)"
  by (simp add: rests_on_def same_at_def volume_at_def)

lemma rests_secret: "(\<And>p. secret = Some p \<Longrightarrow> p \<in> S) \<Longrightarrow> rests_on S (\<lambda>w. secret_key secret w = k)"
  by (cases secret) (simp_all add: rests_on_def same_at_def secret_key_def bytes_at_def)

lemma rests_conj: "rests_on S P \<Longrightarrow> rests_on S Q \<Longrightarrow> rests_on S (\<lambda>w. P w \<and> Q w)"
  by (auto simp: rests_on_def)

lemma rests_mono: "rests_on S P \<Longrightarrow> S \<subseteq> T \<Longrightarrow> rests_on T P"
  by (auto simp: rests_on_def same_at_def)

lemma volume_put [simp]: "volume_at p (put_content q (Volume v) w) = (if p = q then Some v else volume_at p w)"
proof (cases "p = q")
  case True
  obtain n where "node_at q (put_content q (Volume v) w) = Some n" "kind n = KFile (Volume v)"
    using kind_put_content by blast
  then show ?thesis using True by (simp add: volume_at_def)
qed (simp add: volume_at_def node_put_content_other)

lemma volume_tick [simp]: "volume_at p (tick w) = volume_at p w"
  by (simp add: volume_at_def)

lemma volume_fs: "fs w' = fs w \<Longrightarrow> volume_at p w' = volume_at p w"
  by (simp add: volume_at_def node_at_def)

lemma secret_fs: "fs w' = fs w \<Longrightarrow> secret_key s w' = secret_key s w"
  by (cases s) (simp_all add: secret_key_def bytes_at_def node_at_def)

lemma volume_change [simp]:
  "(\<And>n. kind (f n) = kind n) \<Longrightarrow> volume_at p (change_node q f w) = volume_at p w"
  by (auto simp: volume_at_def node_change split: option.split)

section \<open>The volume commands\<close>

lemma command_hoare:
  assumes "\<And>w. P w \<Longrightarrow> c (w\<lparr>commands := commands w @ [argv]\<rparr>) \<Longrightarrow> Q () (tick (f (w\<lparr>commands := commands w @ [argv]\<rparr>)))"
  shows "hoare P (command argv c f g) Q (\<lambda>_ _. True)"
  using assms by (auto simp: hoare_def command_def sq_def bnd_def tell_def sys_def)

lemma sys_hoare: "(\<And>w. P w \<Longrightarrow> c w \<Longrightarrow> Q () (tick (f w))) \<Longrightarrow> hoare P (sys c f g) Q (\<lambda>_ _. True)"
  by (auto simp: hoare_def sys_def)

lemma overlay_hoare:
  "hoare (\<lambda>w. secret_key secret w = k) (qemu_img_overlay b p secret)
     (\<lambda>_ w. volume_at p w = Some \<lparr>v_backing = Some b, v_key = k, v_size = 0, v_seed = None\<rparr>) (\<lambda>_ _. True)"
  unfolding qemu_img_overlay_def
  by (rule command_hoare) (simp add: secret_fs [of "_\<lparr>commands := _\<rparr>"])

lemma blank_hoare:
  "hoare (\<lambda>w. secret_key secret w = k) (qemu_img_blank p n secret)
     (\<lambda>_ w. volume_at p w = Some \<lparr>v_backing = None, v_key = k, v_size = n, v_seed = None\<rparr>) (\<lambda>_ _. True)"
  unfolding qemu_img_blank_def
  by (rule command_hoare) (simp add: secret_fs [of "_\<lparr>commands := _\<rparr>"])

lemma convert_hoare:
  "hoare (\<lambda>w. volume_at raw w = Some v \<and> secret_key secret w = k) (qemu_img_convert raw p secret)
     (\<lambda>_ w. volume_at p w = Some (v\<lparr>v_key := k\<rparr>)) (\<lambda>_ _. True)"
  unfolding qemu_img_convert_def
  by (rule command_hoare)
    (simp add: secret_fs [of "_\<lparr>commands := _\<rparr>"] volume_fs [of "_\<lparr>commands := _\<rparr>"])

lemma mkfs_hoare:
  "hoare (\<lambda>w. volume_at raw w = Some v) (mkfs_seed spec raw)
     (\<lambda>_ w. volume_at raw w = Some (v\<lparr>v_seed := Some (seed_dir spec)\<rparr>)) (\<lambda>_ _. True)"
  unfolding mkfs_seed_def
  by (rule command_hoare) (simp add: volume_fs [of "_\<lparr>commands := _\<rparr>"])

lemma truncate_hoare:
  "hoare (\<lambda>_. True) (truncate_raw p n)
     (\<lambda>_ w. volume_at p w = Some \<lparr>v_backing = None, v_key = None, v_size = n, v_seed = None\<rparr>) (\<lambda>_ _. True)"
  unfolding truncate_raw_def
  by (rule hoare_sq [where R = "\<lambda>_. True"]) (simp_all add: sys_hoare write_file_def)

lemma chown_hoare:
  "hoare (\<lambda>w. volume_at p w = v) (chown q u g) (\<lambda>_ w. volume_at p w = v) (\<lambda>_ _. True)"
  unfolding chown_def by (rule sys_hoare) simp

lemma set_mode_hoare:
  "hoare (\<lambda>w. volume_at p w = v) (set_mode q k) (\<lambda>_ w. volume_at p w = v) (\<lambda>_ _. True)"
  unfolding set_mode_def by (rule sys_hoare) simp

lemma lock_hoare:
  "hoare (\<lambda>w. volume_at p w = Some v) (own_and_lock_down p uid) (\<lambda>_. locked_volume p uid v) (\<lambda>_ _. True)"
  unfolding own_and_lock_down_def chown_def set_mode_def
  by (rule hoare_sq [where R = "\<lambda>w. \<exists>n. node_at p w = Some n \<and> kind n = KFile (Volume v) \<and> owner n = uid"])
    (rule sys_hoare; auto simp: volume_at_def locked_volume_def node_change
       split: option.splits kind.splits content.splits)+

section \<open>The disks of a space\<close>

lemma same_seed_data:
  assumes "clear_of (d @ [''.seed-staging'']) S" "data \<notin> S"
  shows "same.holds S (seed_data_volume d data n spec secret)"
proof -
  have raw: "(d @ [''.seed-staging'']) @ [''data.raw''] \<notin> S" "d @ [''.seed-staging''] \<notin> S"
    using assms clear_of_append clear_of_notin by blast+
  show ?thesis
    unfolding seed_data_volume_def Let_def
    by (intro same.holds_intros same_set_mode same_chown same_volume same_staging assms raw)
qed

text \<open>A triple in front of the rest, with the secret kept.\<close>

lemma secret_frame_sq:
  assumes "hoare V f (\<lambda>_. V') E" "same.holds (set_option secret) f"
    and "hoare (\<lambda>w. V' w \<and> secret_key secret w = k) g Q (\<lambda>_ _. True)"
  shows "hoare (\<lambda>w. V w \<and> secret_key secret w = k) (sq f g) Q (\<lambda>_ _. True)"
  by (rule hoare_sq [OF hoare_frame [OF assms(1,2) rests_secret] assms(3)]) simp

lemma hoare_anything: "hoare P f (\<lambda>_ _. True) (\<lambda>_ _. True)"
  by (simp add: hoare_def split: prod.split sum.split)

lemma seed_hoare:
  assumes "clear_of d (set_option secret)"
  shows "hoare (\<lambda>w. secret_key secret w = k) (seed_data_volume d (data_path d) n spec secret)
    (\<lambda>_ w. volume_at (data_path d) w = Some \<lparr>v_backing = None, v_key = k, v_size = n, v_seed = Some (seed_dir spec)\<rparr>)
    (\<lambda>_ _. True)"
proof -
  let ?g = "d @ [''.seed-staging'']" and ?S = "set_option secret"
  let ?raw = "?g @ [''data.raw'']" and ?K = "\<lambda>w. secret_key secret w = k"
  let ?v = "\<lparr>v_backing = None, v_key = None, v_size = n, v_seed = None\<rparr>"
  let ?D = "\<lambda>w. volume_at (data_path d) w = Some \<lparr>v_backing = None, v_key = k, v_size = n, v_seed = Some (seed_dir spec)\<rparr>"
  note g = clear_of_append [OF assms]
  note n = g [THEN clear_of_notin]
  have raw: "?raw \<notin> ?S" using n by simp
  have rm: "same.holds {data_path d} (cleanup_staging ?g)"
    by (intro same_staging) (simp add: clear_of_def data_path_def)
  have work: "hoare ?K
      (sq (truncate_raw ?raw n) (sq (chown ?raw (Some (seed_uid spec)) (Some (seed_gid spec)))
         (sq (mkfs_seed spec ?raw) (qemu_img_convert ?raw (data_path d) secret)))) (\<lambda>_. ?D) (\<lambda>_ _. True)"
  proof -
    have 4: "hoare (\<lambda>w. volume_at ?raw w = Some (?v\<lparr>v_seed := Some (seed_dir spec)\<rparr>) \<and> ?K w)
        (qemu_img_convert ?raw (data_path d) secret) (\<lambda>_. ?D) (\<lambda>_ _. True)"
      by (rule hoare_post [OF convert_hoare]) simp_all
    have 3: "hoare (\<lambda>w. volume_at ?raw w = Some ?v \<and> ?K w)
        (sq (mkfs_seed spec ?raw) (qemu_img_convert ?raw (data_path d) secret)) (\<lambda>_. ?D) (\<lambda>_ _. True)"
      by (rule secret_frame_sq [OF mkfs_hoare _ 4]) (intro same_volume raw)
    have 2: "hoare (\<lambda>w. volume_at ?raw w = Some ?v \<and> ?K w)
        (sq (chown ?raw (Some (seed_uid spec)) (Some (seed_gid spec)))
          (sq (mkfs_seed spec ?raw) (qemu_img_convert ?raw (data_path d) secret))) (\<lambda>_. ?D) (\<lambda>_ _. True)"
      by (rule secret_frame_sq [OF chown_hoare _ 3]) (intro same_chown raw)
    have "hoare (\<lambda>w. True \<and> ?K w)
      (sq (truncate_raw ?raw n) (sq (chown ?raw (Some (seed_uid spec)) (Some (seed_gid spec)))
         (sq (mkfs_seed spec ?raw) (qemu_img_convert ?raw (data_path d) secret)))) (\<lambda>_. ?D) (\<lambda>_ _. True)"
      by (rule secret_frame_sq [OF truncate_hoare _ 2]) (intro same_volume raw)
    then show ?thesis by simp
  qed
  show ?thesis
    unfolding seed_data_volume_def Let_def
  proof (rule hoare_sq [where R = ?K])
    show "hoare ?K (prepare_staging_dir ?g (seed_uid spec)) (\<lambda>_. ?K) (\<lambda>_ _. True)"
      by (rule hoare_keep [OF same_staging(1) [OF g] rests_secret]) simp
    show "hoare ?K (sq (set_mode ?g 448) (bnd (attempt
         (sq (truncate_raw ?raw n) (sq (chown ?raw (Some (seed_uid spec)) (Some (seed_gid spec)))
         (sq (mkfs_seed spec ?raw) (qemu_img_convert ?raw (data_path d) secret))))) (\<lambda>r.
      sq (cleanup_staging ?g) (of_result r)))) (\<lambda>_. ?D) (\<lambda>_ _. True)"
    proof (rule hoare_sq [where R = ?K])
      show "hoare ?K (set_mode ?g 448) (\<lambda>_. ?K) (\<lambda>_ _. True)"
        by (rule hoare_keep [OF same_set_mode [of _ ?S] rests_secret]) (use n in simp_all)
      show "hoare ?K (bnd (attempt
         (sq (truncate_raw ?raw n) (sq (chown ?raw (Some (seed_uid spec)) (Some (seed_gid spec)))
         (sq (mkfs_seed spec ?raw) (qemu_img_convert ?raw (data_path d) secret))))) (\<lambda>r.
          sq (cleanup_staging ?g) (of_result r))) (\<lambda>_. ?D) (\<lambda>_ _. True)"
      proof (rule hoare_bnd [where R = "\<lambda>r w. isl r \<or> ?D w"])
        show "hoare ?K (attempt (sq (truncate_raw ?raw n) (sq (chown ?raw (Some (seed_uid spec)) (Some (seed_gid spec)))
            (sq (mkfs_seed spec ?raw) (qemu_img_convert ?raw (data_path d) secret)))))
            (\<lambda>r w. isl r \<or> ?D w) (\<lambda>_ _. True)"
          by (rule hoare_attempt, rule hoare_post [OF work]) simp_all
        show "hoare (\<lambda>w. isl r \<or> ?D w) (sq (cleanup_staging ?g) (of_result r)) (\<lambda>_. ?D) (\<lambda>_ _. True)" for r
        proof (cases r)
          case (Inl e)
          then show ?thesis by (simp add: hoare_def sq_def bnd_def of_result_def split: prod.split sum.split)
        next
          case (Inr u)
          have "hoare ?D (cleanup_staging ?g) (\<lambda>_. ?D) (\<lambda>_ _. True)"
            by (rule hoare_keep [OF rm rests_volume]) simp
          then show ?thesis
            unfolding Inr by (intro hoare_sq [where R = ?D]) (simp_all add: hoare_def of_result_def)
        qed
      qed
    qed
  qed
qed

text \<open>Both disks of a space made by \<open>create_volumes\<close>.\<close>

definition data_volume :: "string option \<Rightarrow> nat \<Rightarrow> SeedSpec option \<Rightarrow> volume" where
  "data_volume pp n seed = \<lparr>v_backing = None, v_key = pp, v_size = n, v_seed = map_option seed_dir seed\<rparr>"

definition overlay_volume :: "path \<Rightarrow> string option \<Rightarrow> volume" where
  "overlay_volume td pp = \<lparr>v_backing = Some (td @ [''root.qcow2'']), v_key = pp, v_size = 0, v_seed = None\<rparr>"

definition space_disks ::
  "path \<Rightarrow> path \<Rightarrow> nat \<Rightarrow> nat \<Rightarrow> SeedSpec option \<Rightarrow> string option \<Rightarrow> world \<Rightarrow> bool" where
  "space_disks td d uid n seed pp w \<longleftrightarrow>
     locked_volume (overlay_path d) uid (overlay_volume td pp) w \<and>
     (0 < n \<longrightarrow> locked_volume (data_path d) uid (data_volume pp n seed) w)"

lemma rests_disks: "overlay_path d \<in> S \<Longrightarrow> data_path d \<in> S \<Longrightarrow> rests_on S (space_disks td d uid n seed pp)"
  by (auto simp: rests_on_def same_at_def space_disks_def locked_volume_def)

lemma create_volumes_hoare:
  assumes "clear_of d (set_option secret)"
  shows "hoare (\<lambda>w. secret_key secret w = k) (create_volumes td d uid n seed secret)
    (\<lambda>_. space_disks td d uid n seed k) (\<lambda>_ _. True)"
proof -
  let ?o = "overlay_path d" and ?a = "data_path d"
  let ?O = "locked_volume ?o uid (overlay_volume td k)" and ?K = "\<lambda>w. secret_key secret w = k"
  note g = clear_of_append [OF assms]
  have n: "?o \<notin> set_option secret" "?a \<notin> set_option secret"
    using g [THEN clear_of_notin] by (simp_all add: overlay_path_def data_path_def)
  have oa: "?a \<noteq> ?o" by (simp add: overlay_path_def data_path_def)
  have over: "hoare ?K (qemu_img_overlay (td @ [''root.qcow2'']) ?o secret)
      (\<lambda>_ w. volume_at ?o w = Some (overlay_volume td k)) (\<lambda>_ _. True)"
    unfolding overlay_volume_def by (rule overlay_hoare)
  have data: "hoare ?K (case seed of
        Some spec \<Rightarrow> seed_data_volume d ?a n spec secret | None \<Rightarrow> qemu_img_blank ?a n secret)
      (\<lambda>_ w. volume_at ?a w = Some (data_volume k n seed)) (\<lambda>_ _. True)"
    using seed_hoare [OF assms] blank_hoare by (cases seed) (simp_all add: data_volume_def)
  have frame: "same.holds {?o} (case seed of
        Some spec \<Rightarrow> seed_data_volume d ?a n spec secret | None \<Rightarrow> qemu_img_blank ?a n secret)"
    by (intro same.holds_option same_seed_data same_volume)
      (simp_all add: oa clear_of_def overlay_path_def data_path_def)
  have rest: "hoare (\<lambda>w. ?K w \<and> ?O w) (if 0 < n then
           sq (case seed of
                 Some spec \<Rightarrow> seed_data_volume d ?a n spec secret
               | None \<Rightarrow> qemu_img_blank ?a n secret)
              (own_and_lock_down ?a uid)
         else ret ()) (\<lambda>_. space_disks td d uid n seed k) (\<lambda>_ _. True)"
  proof (rule hoare_if)
    have 2: "hoare (\<lambda>w. volume_at ?a w = Some (data_volume k n seed) \<and> ?O w) (own_and_lock_down ?a uid)
        (\<lambda>_ w. locked_volume ?a uid (data_volume k n seed) w \<and> ?O w) (\<lambda>_ _. True)"
      by (rule hoare_frame [OF lock_hoare, of "{?o}"], intro same_volume) (simp_all add: oa rests_locked)
    have 1: "hoare (\<lambda>w. ?K w \<and> ?O w) (case seed of
                 Some spec \<Rightarrow> seed_data_volume d ?a n spec secret
               | None \<Rightarrow> qemu_img_blank ?a n secret) (\<lambda>_ w. volume_at ?a w = Some (data_volume k n seed) \<and> ?O w)
        (\<lambda>_ _. True)"
      by (rule hoare_frame [OF data frame rests_locked]) simp
    have "hoare (\<lambda>w. ?K w \<and> ?O w) (sq (case seed of
                 Some spec \<Rightarrow> seed_data_volume d ?a n spec secret
               | None \<Rightarrow> qemu_img_blank ?a n secret)
              (own_and_lock_down ?a uid)) (\<lambda>_ w. locked_volume ?a uid (data_volume k n seed) w \<and> ?O w) (\<lambda>_ _. True)"
      by (rule hoare_sq [OF 1 2])
    then show "hoare (\<lambda>w. ?K w \<and> ?O w) (sq (case seed of
                 Some spec \<Rightarrow> seed_data_volume d ?a n spec secret
               | None \<Rightarrow> qemu_img_blank ?a n secret)
              (own_and_lock_down ?a uid)) (\<lambda>_. space_disks td d uid n seed k) (\<lambda>_ _. True)"
      by (rule hoare_post) (simp_all add: space_disks_def)
    show "\<not> 0 < n \<Longrightarrow> hoare (\<lambda>w. ?K w \<and> ?O w) (ret ()) (\<lambda>_. space_disks td d uid n seed k) (\<lambda>_ _. True)"
      by (intro hoare_ret) (simp add: space_disks_def)
  qed
  have lock: "hoare (\<lambda>w. volume_at ?o w = Some (overlay_volume td k) \<and> ?K w) (sq (own_and_lock_down ?o uid)
      (if 0 < n then
           sq (case seed of
                 Some spec \<Rightarrow> seed_data_volume d ?a n spec secret
               | None \<Rightarrow> qemu_img_blank ?a n secret)
              (own_and_lock_down ?a uid)
         else ret ())) (\<lambda>_. space_disks td d uid n seed k) (\<lambda>_ _. True)"
    by (rule secret_frame_sq [OF lock_hoare], intro same_volume n, rule hoare_pre [OF rest]) simp
  have "hoare (\<lambda>w. ?K w \<and> ?K w) (create_volumes td d uid n seed secret) (\<lambda>_. space_disks td d uid n seed k) (\<lambda>_ _. True)"
    unfolding create_volumes_def
    by (rule secret_frame_sq [OF over _ lock]) (intro same_volume n)
  then show ?thesis by simp
qed

text \<open>The secret file holds the passphrase while the volumes are made.\<close>

lemma with_secret_hoare:
  assumes "\<And>secret. set_option secret \<subseteq> {qemu_img_secret_path cx} \<Longrightarrow>
      hoare (\<lambda>w. secret_key secret w = pw) (f secret) (\<lambda>_. V) (\<lambda>_ _. True)"
    and "rests_on S V" "qemu_img_secret_path cx \<notin> S"
  shows "hoare (\<lambda>_. True) (with_secret cx pw f) (\<lambda>_. V) (\<lambda>_ _. True)"
  unfolding with_secret_def
proof (rule hoare_bnd [where R = "\<lambda>secret w. secret_key secret w = pw \<and> set_option secret \<subseteq> {qemu_img_secret_path cx}"])
  show "hoare (\<lambda>_. True) (opt_secret cx pw)
      (\<lambda>secret w. secret_key secret w = pw \<and> set_option secret \<subseteq> {qemu_img_secret_path cx}) (\<lambda>_ _. True)"
    by (cases pw) (auto simp: hoare_def opt_secret_def write_qemu_img_secret_def Let_def sq_def bnd_def ret_def
        write_file_def set_mode_def sys_def secret_key_def bytes_put_content bytes_change_mode
        split: prod.splits sum.splits if_splits)
  fix secret
  show "hoare (\<lambda>w. secret_key secret w = pw \<and> set_option secret \<subseteq> {qemu_img_secret_path cx})
      (bnd (attempt (f secret)) (\<lambda>r. sq (cleanup_qemu_img_secret secret) (of_result r))) (\<lambda>_. V) (\<lambda>_ _. True)"
  proof (rule hoare_pure, rule hoare_bnd [where R = "\<lambda>r w. isl r \<or> V w"])
    assume s: "set_option secret \<subseteq> {qemu_img_secret_path cx}"
    show "hoare (\<lambda>w. secret_key secret w = pw) (attempt (f secret)) (\<lambda>r w. isl r \<or> V w) (\<lambda>_ _. True)"
      by (rule hoare_attempt, rule hoare_post [OF assms(1) [OF s]]) simp_all
    have c: "same.holds S (cleanup_qemu_img_secret secret)"
      using s assms(3) unfolding cleanup_qemu_img_secret_def
      by (intro same.holds_option same.holds_ignore same_remove_file same.holds_ret) auto
    show "hoare (\<lambda>w. isl r \<or> V w) (sq (cleanup_qemu_img_secret secret) (of_result r)) (\<lambda>_. V) (\<lambda>_ _. True)" for r
    proof (cases r)
      case (Inl e)
      then show ?thesis by (simp add: hoare_def sq_def bnd_def of_result_def split: prod.split sum.split)
    next
      case (Inr u)
      have "hoare V (cleanup_qemu_img_secret secret) (\<lambda>_. V) (\<lambda>_ _. True)"
        by (rule hoare_keep [OF c assms(2)])
      then show ?thesis
        unfolding Inr by (intro hoare_sq [where R = V]) (simp_all add: hoare_def of_result_def)
    qed
  qed
qed

section \<open>What the handlers leave\<close>

lemma secret_clear:
  assumes "ctx_ok cx" "id_ok i" "set_option secret \<subseteq> {qemu_img_secret_path cx}"
  shows "clear_of (space_dir (cx_state cx) i) (set_option secret)"
proof -
  have "clear_of (cx_run cx) {q. prefix (space_dir (cx_state cx) i) q}"
    using assms(2) by (intro clear_run [OF assms(1)]) (auto simp: inside_def space_dir_slug dest: append_prefixD)
  then have "\<not> prefix (cx_run cx) (space_dir (cx_state cx) i)" "\<not> prefix (space_dir (cx_state cx) i) (cx_run cx)"
    by (auto simp: clear_of_def)
  then have "\<not> prefix (cx_run cx @ r) (space_dir (cx_state cx) i)" "\<not> prefix (space_dir (cx_state cx) i) (cx_run cx @ r)" for r
    using prefix_same_cases [of "space_dir (cx_state cx) i" "cx_run cx @ r" "cx_run cx"] by (auto dest: append_prefixD)
  then show ?thesis
    using assms(3) by (auto simp: clear_of_def qemu_img_secret_path_def)
qed

lemma secret_not_in:
  "ctx_ok cx \<Longrightarrow> id_ok i \<Longrightarrow> qemu_img_secret_path cx \<notin> {overlay_path (space_dir (cx_state cx) i), data_path (space_dir (cx_state cx) i)}"
  using secret_clear [of cx i "Some (qemu_img_secret_path cx)"]
  by (auto simp: clear_of_def overlay_path_def data_path_def prefix_def)

lemma with_volumes_hoare:
  assumes "ctx_ok cx" "id_ok i"
  shows "hoare (\<lambda>_. True) (with_secret cx pw (create_volumes td (space_dir (cx_state cx) i) uid n seed))
    (\<lambda>_. space_disks td (space_dir (cx_state cx) i) uid n seed pw) (\<lambda>_ _. True)"
  by (rule with_secret_hoare [OF create_volumes_hoare [OF secret_clear [OF assms]] rests_disks
        secret_not_in [OF assms]]) auto

lemma with_overlay_hoare:
  assumes "ctx_ok cx" "id_ok i"
  shows "hoare (\<lambda>_. True) (with_secret cx pw (\<lambda>secret.
      sq (qemu_img_overlay (td @ [''root.qcow2'']) (overlay_path (space_dir (cx_state cx) i)) secret)
        (own_and_lock_down (overlay_path (space_dir (cx_state cx) i)) uid)))
    (\<lambda>_. locked_volume (overlay_path (space_dir (cx_state cx) i)) uid (overlay_volume td pw)) (\<lambda>_ _. True)"
proof (rule with_secret_hoare [OF _ rests_locked secret_not_in [OF assms]])
  show "hoare (\<lambda>w. secret_key secret w = pw)
      (sq (qemu_img_overlay (td @ [''root.qcow2'']) (overlay_path (space_dir (cx_state cx) i)) secret)
        (own_and_lock_down (overlay_path (space_dir (cx_state cx) i)) uid))
    (\<lambda>_. locked_volume (overlay_path (space_dir (cx_state cx) i)) uid (overlay_volume td pw)) (\<lambda>_ _. True)" for secret
    unfolding overlay_volume_def by (rule hoare_sq [OF overlay_hoare lock_hoare])
qed simp

text \<open>The manifest a handler reads.\<close>

definition manifest_at :: "Ctx \<Rightarrow> SpaceId \<Rightarrow> world \<Rightarrow> Manifest option" where
  "manifest_at cx p w =
     (case Option.bind (bytes_at (manifest_path (cx_state cx) (id_str p)) w) from_utf8 of
        None \<Rightarrow> None
      | Some src \<Rightarrow> (case manifest_parse (toml_manifest (cx_libs cx)) src of Inr m \<Rightarrow> Some m | Inl _ \<Rightarrow> None))"

lemma load_manifest_Inr: "load_manifest cx (id_str p) w = (Inr m, w') \<Longrightarrow> manifest_at cx p w = Some m"
  by (auto simp: load_manifest_def internal_def manifest_load_def manifest_at_def read_to_string_def query_def
      map_err_def bnd_def ask_def of_result_def refuse_def fail_def
      split: option.splits sum.splits if_splits prod.splits)

lemma manifest_time: "time_only w w' \<Longrightarrow> manifest_at cx p w' = manifest_at cx p w"
  by (simp add: manifest_at_def time_bytes)

lemma looks_load_store: "looks.holds (load_store cx)"
  unfolding load_store_def internal_def by (intro looks.holds_map_err looks_load)

lemma hoare_true_bnd:
  "(\<And>x. hoare (\<lambda>_. True) (k x) Q (\<lambda>_ _. True)) \<Longrightarrow> hoare P (bnd f k) Q (\<lambda>_ _. True)"
  by (rule hoare_bnd [where R = "\<lambda>_ _. True"]) (auto simp: hoare_anything)

lemma hoare_true_val:
  assumes "\<And>x w w'. f w = (Inr x, w') \<Longrightarrow> B x" "\<And>x. B x \<Longrightarrow> hoare (\<lambda>_. True) (k x) Q (\<lambda>_ _. True)"
  shows "hoare P (bnd f k) Q (\<lambda>_ _. True)"
proof (rule hoare_bnd [where R = "\<lambda>x _. B x"])
  show "hoare P f (\<lambda>x _. B x) (\<lambda>_ _. True)"
    using assms(1) by (fastforce simp: hoare_def split: prod.split sum.split)
  show "hoare (\<lambda>_. B x) (k x) Q (\<lambda>_ _. True)" for x
    using assms(2) [of x] by (cases "B x") (simp_all add: hoare_def)
qed

lemma create_space_fields:
  "create_space x s i p g l k e w = (Inr (s', c), w') \<Longrightarrow> c_id c = i \<and> state_dir s' = state_dir s"
  by (auto simp: create_space_def sq_def bnd_Inr Let_def ret_def)

lemma refuse_Inr [simp]: "refuse c m w \<noteq> (Inr x, w')"
  by (simp add: refuse_def fail_def)

lemma validate_seed_dir_Inr:
  assumes "validate_seed_dir raw n w = (Inr d, w')"
  shows "d = path_of raw"
proof -
  obtain r :: "unit + bool" and w1 where "(case r of Inr True \<Rightarrow> ret (path_of raw)
         | Inr False \<Rightarrow> refuse BadRequest (MsgSeedNotDir raw)
         | Inl _ \<Rightarrow> refuse BadRequest (MsgSeedMissing raw)) w1 = (Inr d, w')"
    using assms by (simp only: validate_seed_dir_def if_distribR refuse_Inr bnd_Inr split: if_split_asm) blast
  then show ?thesis
    by (cases r; cases "projr r") (simp_all add: ret_def)
qed

lemma seed_spec_Inr: "seed_spec_of cx m seed w = (Inr spec, w') \<Longrightarrow> map_option seed_dir spec = map_option path_of seed"
  by (cases seed) (auto simp: seed_spec_of_def ret_def bnd_Inr dest: validate_seed_dir_Inr)

lemma internal_Inr: "internal f w = (Inr x, w') \<longleftrightarrow> f w = (Inr x, w')"
  by (auto simp: internal_def map_err_def split: prod.splits sum.splits)

lemma create_disks_hoare:
  assumes "ctx_ok cx" "id_ok i"
  shows "hoare (\<lambda>w. manifest_at cx p w = M) (op_create cx i p l k sd pw)
    (\<lambda>r w. \<exists>cid uid m digest spec. r = RCreated i cid uid \<and> M = Some m \<and>
       map_option seed_dir spec = map_option path_of sd \<and>
       space_disks (template_dir_path (cx_state cx) (id_str p) digest) (space_dir (cx_state cx) i) uid
         (data_mb (resources m)) spec pw w) (\<lambda>_ _. True)"
proof -
  let ?d = "space_dir (cx_state cx) i" and ?td = "template_dir_path (cx_state cx) (id_str p)"
  let ?Q = "\<lambda>r w. \<exists>cid uid m digest spec. r = RCreated i cid uid \<and> M = Some m \<and>
       map_option seed_dir spec = map_option path_of sd \<and>
       space_disks (?td digest) ?d uid (data_mb (resources m)) spec pw w"
  let ?P = "\<lambda>w. manifest_at cx p w = M"
  have fin: "hoare (\<lambda>_. True) (bnd (attempt
          (sq (with_secret cx pw (create_volumes (?td digest) ?d (c_uid c) (data_mb (resources m)) spec))
              (refresh (cx_libs cx) s' (cx_registry cx)))) (\<lambda>r.
      case r of
        Inl _ \<Rightarrow> sq (ignore (remove_space s' i)) (refuse Internal MsgInternal)
      | Inr _ \<Rightarrow> ret (RCreated (c_id c) (c_cid c) (c_uid c)))) ?Q (\<lambda>_ _. True)"
    if "M = Some m" "map_option seed_dir spec = map_option path_of sd" "c_id c = i" for m digest spec s' c
  proof (rule hoare_bnd [where R = "\<lambda>r w. isl r \<or> space_disks (?td digest) ?d (c_uid c) (data_mb (resources m)) spec pw w"])
    have "inside cx {overlay_path ?d, data_path ?d}"
      using assms(2) by (auto simp: inside_def space_dir_slug overlay_path_def data_path_def)
    then have "hoare (\<lambda>_. True) (sq (with_secret cx pw (create_volumes (?td digest) ?d (c_uid c) (data_mb (resources m)) spec))
              (refresh (cx_libs cx) s' (cx_registry cx)))
        (\<lambda>_. space_disks (?td digest) ?d (c_uid c) (data_mb (resources m)) spec pw) (\<lambda>_ _. True)"
      by (intro hoare_sq [OF with_volumes_hoare [OF assms]] hoare_keep [OF same_refresh [OF assms(1)] rests_disks
            [where S = "{overlay_path ?d, data_path ?d}"]]) simp_all
    then show "hoare (\<lambda>_. True) (attempt
          (sq (with_secret cx pw (create_volumes (?td digest) ?d (c_uid c) (data_mb (resources m)) spec))
              (refresh (cx_libs cx) s' (cx_registry cx))))
        (\<lambda>r w. isl r \<or> space_disks (?td digest) ?d (c_uid c) (data_mb (resources m)) spec pw w) (\<lambda>_ _. True)"
      by (rule hoare_attempt [OF hoare_post]) simp_all
    show "hoare (\<lambda>w. isl r \<or> space_disks (?td digest) ?d (c_uid c) (data_mb (resources m)) spec pw w)
        (case r of
        Inl _ \<Rightarrow> sq (ignore (remove_space s' i)) (refuse Internal MsgInternal)
      | Inr _ \<Rightarrow> ret (RCreated (c_id c) (c_cid c) (c_uid c))) ?Q (\<lambda>_ _. True)" for r
    proof (cases r)
      case (Inl e)
      then show ?thesis
        by (simp add: hoare_def sq_def bnd_def refuse_def fail_def split: prod.split sum.split)
    next
      case (Inr u)
      then show ?thesis using that by (auto intro!: hoare_ret)
    qed
  qed
  have make: "hoare (\<lambda>_. True) (bnd (internal (create_space (cx_libs cx) s i p digest l k (pw \<noteq> None))) (\<lambda>(s', c).
      bnd (attempt
          (sq (with_secret cx pw (create_volumes (?td digest) ?d (c_uid c) (data_mb (resources m)) spec))
              (refresh (cx_libs cx) s' (cx_registry cx)))) (\<lambda>r.
      case r of
        Inl _ \<Rightarrow> sq (ignore (remove_space s' i)) (refuse Internal MsgInternal)
      | Inr _ \<Rightarrow> ret (RCreated (c_id c) (c_cid c) (c_uid c))))) ?Q (\<lambda>_ _. True)"
    if "M = Some m" "map_option seed_dir spec = map_option path_of sd" for s digest m spec
  proof (rule hoare_true_val [where B = "\<lambda>r. c_id (snd r) = i"])
    show "internal (create_space (cx_libs cx) s i p digest l k (pw \<noteq> None)) w = (Inr r, w') \<Longrightarrow> c_id (snd r) = i" for r w w'
      by (cases r) (auto simp: internal_Inr dest: create_space_fields)
    show "c_id (snd r) = i \<Longrightarrow> hoare (\<lambda>_. True) (case r of (s', c) \<Rightarrow>
      bnd (attempt
          (sq (with_secret cx pw (create_volumes (?td digest) ?d (c_uid c) (data_mb (resources m)) spec))
              (refresh (cx_libs cx) s' (cx_registry cx)))) (\<lambda>r.
      case r of
        Inl _ \<Rightarrow> sq (ignore (remove_space s' i)) (refuse Internal MsgInternal)
      | Inr _ \<Rightarrow> ret (RCreated (c_id c) (c_cid c) (c_uid c)))) ?Q (\<lambda>_ _. True)" for r
      by (cases r) (simp only: prod.case, rule fin [OF that(1,2)], simp)
  qed
  show ?thesis
    unfolding op_create_def
  proof (intro hoare_if)
    show "hoare ?P (refuse c m) ?Q (\<lambda>_ _. True)" for c m by (simp add: hoare_refuse)
    show "hoare ?P (refuse c m) ?Q (\<lambda>_ _. True)" for c m by (simp add: hoare_refuse)
    have ld: "hoare ?P (load_store cx) (\<lambda>_. ?P) (\<lambda>_ _. True)"
      using looks_load_store looks.holdsD manifest_time
      by (fastforce simp: hoare_def split: prod.split sum.split)
    have lm: "hoare ?P (load_manifest cx (id_str p)) (\<lambda>m w. M = Some m) (\<lambda>_ _. True)"
      using load_manifest_Inr by (force simp: hoare_def split: prod.split sum.split)
    show "hoare ?P
     (bnd (load_store cx) (\<lambda>s.
      if store_get s i \<noteq> None then refuse SpaceExists (MsgExists i)
      else
      bnd (load_manifest cx (id_str p)) (\<lambda>m.
      bnd (resolve_template_digest (cx_state cx) (id_str p)) (\<lambda>digest.
      bnd (seed_spec_of cx m sd) (\<lambda>spec.
      bnd (internal (create_space (cx_libs cx) s i p digest l k (pw \<noteq> None))) (\<lambda>(s', c).
      bnd (attempt
          (sq (with_secret cx pw (create_volumes (?td digest) ?d (c_uid c) (data_mb (resources m)) spec))
              (refresh (cx_libs cx) s' (cx_registry cx)))) (\<lambda>r.
      case r of
        Inl _ \<Rightarrow> sq (ignore (remove_space s' i)) (refuse Internal MsgInternal)
      | Inr _ \<Rightarrow> ret (RCreated (c_id c) (c_cid c) (c_uid c))))))))) ?Q (\<lambda>_ _. True)"
    proof (rule hoare_bnd [OF ld], rule hoare_if, simp add: hoare_refuse, rule hoare_bnd [OF lm])
      fix s m
      show "hoare (\<lambda>w. M = Some m) (bnd (resolve_template_digest (cx_state cx) (id_str p)) (\<lambda>digest.
      bnd (seed_spec_of cx m sd) (\<lambda>spec.
      bnd (internal (create_space (cx_libs cx) s i p digest l k (pw \<noteq> None))) (\<lambda>(s', c).
      bnd (attempt
          (sq (with_secret cx pw (create_volumes (?td digest) ?d (c_uid c) (data_mb (resources m)) spec))
              (refresh (cx_libs cx) s' (cx_registry cx)))) (\<lambda>r.
      case r of
        Inl _ \<Rightarrow> sq (ignore (remove_space s' i)) (refuse Internal MsgInternal)
      | Inr _ \<Rightarrow> ret (RCreated (c_id c) (c_cid c) (c_uid c))))))) ?Q (\<lambda>_ _. True)"
      proof (cases "M = Some m")
        case True
        show ?thesis
          by (rule hoare_true_bnd, rule hoare_true_val [OF seed_spec_Inr make [OF True]])
      qed (simp add: hoare_def)
    qed
  qed
qed

section \<open>Resetting and updating\<close>

lemma looks_guards:
  "looks.holds (require_passphrase_matches_encryption b pw)" "looks.holds (reject_if_running cx i cid)"
  unfolding require_passphrase_matches_encryption_def reject_if_running_def refuse_def state_of_def pid_of_def
  by (intro looks.holds_intros looks_reads)+

lemma hoare_conj:
  assumes "hoare P f Q E" "hoare P' f Q' E'"
  shows "hoare (\<lambda>w. P w \<and> P' w) f (\<lambda>r w. Q r w \<and> Q' r w) (\<lambda>e w. E e w \<and> E' e w)"
  using assms by (fastforce simp: hoare_def split: prod.splits sum.splits)

lemma hoare_cfg_and:
  assumes "cfg.holds (state_dir s) f" "hoare (\<lambda>_. True) f (\<lambda>r. V r) (\<lambda>_ _. True)"
  shows "hoare (loaded x s) f (\<lambda>r w. loaded x s w \<and> V r w) (\<lambda>_. loaded x s)"
  using hoare_conj [OF hoare_cfg [OF assms(1), of "loaded x s" x] assms(2)] by simp

text \<open>
  The handlers that work on one space: they load the store, find the space, and
  are back at its configuration when they refuse.
\<close>

lemma hoare_look:
  assumes "looks.holds f" "\<And>w w'. time_only w w' \<Longrightarrow> P w \<Longrightarrow> P w'" "\<And>e w. P w \<Longrightarrow> E e w"
  shows "hoare P f (\<lambda>_. P) E"
  using assms looks.holdsD by (fastforce simp: hoare_def split: prod.split sum.split)

lemma hoare_of_space_any:
  assumes "\<And>s. state_dir s = cx_state cx \<Longrightarrow> store_get s i = Some c \<Longrightarrow>
      hoare (\<lambda>w. loaded (cx_libs cx) s w \<and> R w) (k s c) Q E"
    and R: "\<And>w w'. time_only w w' \<Longrightarrow> R w \<Longrightarrow> R w'"
    and E: "\<And>e w. config_at (cx_libs cx) (cx_state cx) (id_str i) w = Some c \<Longrightarrow> E e w"
  shows "hoare (\<lambda>w. store_ok (cx_libs cx) (cx_state cx) w \<and>
      config_at (cx_libs cx) (cx_state cx) (id_str i) w = Some c \<and> R w)
    (bnd (load_store cx) (\<lambda>s. bnd (space_or_not_found s i) (k s))) Q E"
proof (rule hoare_bnd)
  let ?C = "\<lambda>w. config_at (cx_libs cx) (cx_state cx) (id_str i) w = Some c"
  have "hoare (\<lambda>w. ?C w \<and> R w) (load_store cx) (\<lambda>_ w. ?C w \<and> R w) (\<lambda>_. ?C)"
    by (rule hoare_look [OF looks_load_store]) (use R time_config in auto)
  from hoare_conj [OF load_store_hoare this]
  show "hoare (\<lambda>w. store_ok (cx_libs cx) (cx_state cx) w \<and> ?C w \<and> R w) (load_store cx)
      (\<lambda>s w. (loaded (cx_libs cx) s w \<and> ?C w \<and> R w) \<and> state_dir s = cx_state cx) E"
    by (rule hoare_post) (use E in auto)
  fix s
  show "hoare (\<lambda>w. (loaded (cx_libs cx) s w \<and> ?C w \<and> R w) \<and> state_dir s = cx_state cx)
      (bnd (space_or_not_found s i) (k s)) Q E"
  proof (rule hoare_pure, rule hoare_some)
    fix w assume st: "state_dir s = cx_state cx" and w: "loaded (cx_libs cx) s w \<and> ?C w \<and> R w"
    then have c: "store_get s i = Some c"
      using loaded_get_None [of "cx_libs cx" s w i] loaded_get [of "cx_libs cx" s w i]
      by (cases "store_get s i") auto
    show "hoare (\<lambda>w. loaded (cx_libs cx) s w \<and> ?C w \<and> R w) (bnd (space_or_not_found s i) (k s)) Q E"
      using assms(1) [OF st c] by (simp add: space_or_not_found_def c hoare_def bnd_def ret_def)
  qed
qed

lemma hoare_of_space:
  assumes "\<And>s. state_dir s = cx_state cx \<Longrightarrow> store_get s i = Some c \<Longrightarrow>
      hoare (\<lambda>w. loaded (cx_libs cx) s w \<and> R w) (k s c) Q (\<lambda>_. loaded (cx_libs cx) s)"
    and "\<And>w w'. time_only w w' \<Longrightarrow> R w \<Longrightarrow> R w'"
  shows "hoare (\<lambda>w. store_ok (cx_libs cx) (cx_state cx) w \<and>
      config_at (cx_libs cx) (cx_state cx) (id_str i) w = Some c \<and> R w)
    (bnd (load_store cx) (\<lambda>s. bnd (space_or_not_found s i) (k s))) Q
    (\<lambda>_ w. config_at (cx_libs cx) (cx_state cx) (id_str i) w = Some c)"
proof (rule hoare_of_space_any)
  fix s assume s: "state_dir s = cx_state cx" "store_get s i = Some c"
  show "hoare (\<lambda>w. loaded (cx_libs cx) s w \<and> R w) (k s c) Q
      (\<lambda>_ w. config_at (cx_libs cx) (cx_state cx) (id_str i) w = Some c)"
    by (rule hoare_post [OF assms(1) [OF s]]) (use loaded_get [OF _ s(2)] s in auto)
qed (use assms(2) in auto)

lemmas hoare_of_space' = hoare_of_space [where R = "\<lambda>_. True", simplified]

lemma new_overlay_hoare:
  assumes "ctx_ok cx" "id_ok i" "state_dir s = cx_state cx"
  shows "hoare (loaded x s) (internal (with_secret cx pw (\<lambda>secret.
      sq (qemu_img_overlay (td @ [''root.qcow2'']) (overlay_path (space_dir (cx_state cx) i)) secret)
        (own_and_lock_down (overlay_path (space_dir (cx_state cx) i)) uid))))
    (\<lambda>_ w. loaded x s w \<and> locked_volume (overlay_path (space_dir (cx_state cx) i)) uid (overlay_volume td pw) w)
    (\<lambda>_. loaded x s)"
proof (rule hoare_internal)
  let ?f = "with_secret cx pw (\<lambda>secret.
      sq (qemu_img_overlay (td @ [''root.qcow2'']) (overlay_path (space_dir (cx_state cx) i)) secret)
        (own_and_lock_down (overlay_path (space_dir (cx_state cx) i)) uid))"
  have "cfg.holds (state_dir s) ?f" unfolding assms(3) by (intro cfg_volume assms)
  from hoare_cfg_and [OF this with_overlay_hoare [OF assms(1,2)]]
  show "hoare (loaded x s) ?f
     (\<lambda>_ w. loaded x s w \<and> locked_volume (overlay_path (space_dir (cx_state cx) i)) uid (overlay_volume td pw) w)
     (\<lambda>_. loaded x s)" .
qed

lemma update_image_hoare:
  assumes x: "libs_ok (cx_libs cx)" and cx: "ctx_ok cx" and i: "id_ok i"
  shows "hoare (\<lambda>w. store_ok (cx_libs cx) (cx_state cx) w \<and>
      config_at (cx_libs cx) (cx_state cx) (id_str i) w = Some c) (op_update_image cx i pw)
    (\<lambda>r w. \<exists>new d. r = RUpdated i (c_digest c) new d \<and>
       config_at (cx_libs cx) (cx_state cx) (id_str i) w = Some (c\<lparr>c_digest := new\<rparr>) \<and>
       (new \<noteq> c_digest c \<longrightarrow> locked_volume (overlay_path (space_dir (cx_state cx) i)) (c_uid c)
          (overlay_volume (template_dir_path (cx_state cx) (id_str (c_profile c)) new) pw) w))
    (\<lambda>_ w. config_at (cx_libs cx) (cx_state cx) (id_str i) w = Some c)"
  unfolding op_update_image_def Let_def
proof (rule hoare_of_space')
  fix s assume st: "state_dir s = cx_state cx" and c: "store_get s i = Some c"
  let ?E = "\<lambda>_. loaded (cx_libs cx) s"
  let ?p = "id_str (c_profile c)" and ?ov = "overlay_path (space_dir (cx_state cx) i)"
  let ?td = "template_dir_path (cx_state cx) ?p"
  let ?C = "\<lambda>new w. config_at (cx_libs cx) (cx_state cx) (id_str i) w = Some (c\<lparr>c_digest := new\<rparr>)"
  let ?L = "\<lambda>new. locked_volume ?ov (c_uid c) (overlay_volume (?td new) pw)"
  let ?Q = "\<lambda>r w. \<exists>new d. r = RUpdated i (c_digest c) new d \<and> ?C new w \<and> (new \<noteq> c_digest c \<longrightarrow> ?L new w)"
  have u: "hoare (\<lambda>w. loaded (cx_libs cx) s w \<and> ?L new w) (sq (internal (set_digest (cx_libs cx) s i new))
      (ret (RUpdated i (c_digest c) new d))) ?Q ?E" for new d
  proof (rule hoare_sq [where R = "\<lambda>w. ?C new w \<and> ?L new w"])
    have "hoare (loaded (cx_libs cx) s) (set_digest (cx_libs cx) s i new) (\<lambda>_. ?C new) ?E"
      unfolding set_digest_def
      by (rule hoare_post [OF update_space_hoare [OF x]]) (auto simp: config_ok_def st c)
    moreover have "same.holds {?ov} (set_digest (cx_libs cx) s i new)"
      unfolding set_digest_def by (intro same_update) (simp_all add: overlay_path_def config_path_def)
    then have "hoare (?L new) (set_digest (cx_libs cx) s i new) (\<lambda>_. ?L new) (\<lambda>_ _. True)"
      by (rule hoare_keep) (simp add: rests_locked)
    ultimately show "hoare (\<lambda>w. loaded (cx_libs cx) s w \<and> ?L new w) (internal (set_digest (cx_libs cx) s i new))
        (\<lambda>_ w. ?C new w \<and> ?L new w) ?E"
      by (intro hoare_internal) (rule hoare_post [OF hoare_conj], auto)
  qed (auto intro!: hoare_ret)
  have same: "hoare (loaded (cx_libs cx) s) (ret (RUpdated i (c_digest c) new d)) ?Q ?E"
    if "new = c_digest c" for new d
    using loaded_get [OF _ c] st that by (intro hoare_ret) auto
  have f: "cfg.holds (state_dir s) (require_passphrase_matches_encryption (c_encrypted c) pw)"
    "cfg.holds (state_dir s) (reject_if_running cx i (c_cid c))"
    "cfg.holds (state_dir s) (resolve_latest_digest (cx_state cx) ?p)"
    "cfg.holds (state_dir s) (ask (template_dir_is_complete td))" for td
    by (intro cfg_same same_helpers same.holds_ask)+
  show "hoare (loaded (cx_libs cx) s)
    (sq (require_passphrase_matches_encryption (c_encrypted c) pw)
    (sq (reject_if_running cx i (c_cid c))
    (bnd (resolve_latest_digest (cx_state cx) ?p) (\<lambda>new.
     if new = c_digest c then ret (RUpdated i (c_digest c) new DUpToDate)
     else bnd (ask (template_dir_is_complete (?td new))) (\<lambda>complete.
       if \<not> complete then refuse TemplateNotFound (MsgTemplateMissing (?td new))
       else sq (internal (with_secret cx pw (\<lambda>secret.
            sq (qemu_img_overlay (?td new @ [''root.qcow2'']) ?ov secret) (own_and_lock_down ?ov (c_uid c)))))
         (sq (internal (set_digest (cx_libs cx) s i new))
             (ret (RUpdated i (c_digest c) new DUpdated)))))))) ?Q ?E"
    by (intro hoare_sq [OF new_overlay_hoare [OF cx i st] u] same hoare_step_sq hoare_step f hoare_if hoare_refuse)
qed

text \<open>Both disks made anew.\<close>

lemma reset_all_hoare:
  assumes cx: "ctx_ok cx" and i: "id_ok i"
  shows "hoare (\<lambda>w. store_ok (cx_libs cx) (cx_state cx) w \<and>
      config_at (cx_libs cx) (cx_state cx) (id_str i) w = Some c \<and> manifest_at cx (c_profile c) w = M)
    (op_reset_all cx i pw)
    (\<lambda>r w. r = RSpace i \<and> (\<exists>m. M = Some m \<and>
       space_disks (template_dir_path (cx_state cx) (id_str (c_profile c)) (c_digest c))
       (space_dir (cx_state cx) i) (c_uid c) (data_mb (resources m)) None pw w))
    (\<lambda>_ w. config_at (cx_libs cx) (cx_state cx) (id_str i) w = Some c)"
  unfolding op_reset_all_def Let_def
proof (rule hoare_of_space)
  fix s :: Store assume st: "state_dir s = cx_state cx"
  let ?M = "\<lambda>w. manifest_at cx (c_profile c) w = M"
  let ?P = "\<lambda>w. loaded (cx_libs cx) s w \<and> ?M w"
  let ?E = "\<lambda>_. loaded (cx_libs cx) s" and ?d = "space_dir (cx_state cx) i"
  let ?td = "template_dir_path (cx_state cx) (id_str (c_profile c)) (c_digest c)"
  let ?Q = "\<lambda>r w. r = RSpace i \<and> (\<exists>m. M = Some m \<and> space_disks ?td ?d (c_uid c) (data_mb (resources m)) None pw w)"
  have t: "time_only w w' \<Longrightarrow> ?P w \<Longrightarrow> ?P w'" for w w'
    using keep_cfg_loaded [OF keep_cfg_same [OF time_same]] by (simp add: manifest_time)
  have look: "hoare ?P f (\<lambda>_. ?P) ?E" if "looks.holds f" for f :: "'a op"
    by (rule hoare_look [OF that]) (use t in auto)
  have "hoare ?M (load_manifest cx (id_str (c_profile c))) (\<lambda>m _. M = Some m) (\<lambda>_ _. True)"
    using load_manifest_Inr by (force simp: hoare_def split: prod.split sum.split)
  from hoare_conj [OF hoare_cfg [OF cfg_same [OF same_helpers(3)]] this, of "loaded (cx_libs cx) s"]
  have m: "hoare ?P (load_manifest cx (id_str (c_profile c))) (\<lambda>m w. loaded (cx_libs cx) s w \<and> M = Some m) ?E"
    by (simp add: hoare_def split: prod.splits sum.splits)
  have v: "hoare (loaded (cx_libs cx) s) (sq (internal (with_secret cx pw
          (create_volumes ?td ?d (c_uid c) (data_mb (resources m)) None))) (ret (RSpace i))) ?Q ?E"
    if "M = Some m" for m
  proof (rule hoare_sq [where R = "space_disks ?td ?d (c_uid c) (data_mb (resources m)) None pw"], rule hoare_internal)
    let ?f = "with_secret cx pw (create_volumes ?td ?d (c_uid c) (data_mb (resources m)) None)"
    have "cfg.holds (state_dir s) ?f" unfolding st by (intro cfg_volume cx i)
    from hoare_cfg_and [OF this with_volumes_hoare [OF cx i]]
    show "hoare (loaded (cx_libs cx) s) ?f (\<lambda>_. space_disks ?td ?d (c_uid c) (data_mb (resources m)) None pw) ?E"
      by (rule hoare_post) auto
  qed (use that in \<open>auto intro!: hoare_ret\<close>)
  show "hoare ?P
    (sq (require_passphrase_matches_encryption (c_encrypted c) pw)
    (sq (reject_if_running cx i (c_cid c))
    (bnd (load_manifest cx (id_str (c_profile c))) (\<lambda>m.
     sq (internal (with_secret cx pw (create_volumes ?td ?d (c_uid c) (data_mb (resources m)) None)))
        (ret (RSpace i)))))) ?Q ?E"
    by (intro hoare_sq [OF look] hoare_bnd [OF m] hoare_pure v looks_guards)
qed (simp add: manifest_time)

text \<open>
  C11.  A \<open>Create\<close> that reports success has made the disks of the space as its
  manifest asks: an overlay over the root of a template of its profile and, when
  the profile has a data size, a data disk of that size seeded from the requested
  directory.  Both are owned by the uid of the space, closed to everyone else, and
  opened by the passphrase of the request: with none, they are not encrypted.
\<close>

theorem create_disks:
  assumes "ctx_ok cx" "id_ok i"
  shows "case dispatch cx (Create i p l k sd pw) w of
      (Inl _, w') \<Rightarrow> True
    | (Inr r, w') \<Rightarrow>
        (\<exists>cid uid m digest spec. r = RCreated i cid uid \<and> manifest_at cx p w = Some m \<and>
          map_option seed_dir spec = map_option path_of sd \<and>
          space_disks (template_dir_path (cx_state cx) (id_str p) digest) (space_dir (cx_state cx) i) uid
            (data_mb (resources m)) spec pw w')"
  using hoare_case [OF create_disks_hoare [OF assms] refl] by (simp add: dispatch_def)

text \<open>
  C12.  \<open>UpdateImage\<close> goes from one consistent pair of configuration and overlay to
  the next.  When it reports a new digest, the configuration holds it and nothing
  else in it changed, and the overlay is a fresh one over the root of the template
  of that digest, with the passphrase of the request; when it fails, at whatever
  step, the configuration is the one before.
\<close>

theorem update_image_config:
  assumes "libs_ok (cx_libs cx)" "ctx_ok cx" "id_ok i" "store_ok (cx_libs cx) (cx_state cx) w"
    and "config_at (cx_libs cx) (cx_state cx) (id_str i) w = Some c"
  shows "case dispatch cx (UpdateImage i pw) w of
      (Inl _, w') \<Rightarrow> config_at (cx_libs cx) (cx_state cx) (id_str i) w' = Some c
    | (Inr r, w') \<Rightarrow>
        (\<exists>new d. r = RUpdated i (c_digest c) new d \<and>
          config_at (cx_libs cx) (cx_state cx) (id_str i) w' = Some (c\<lparr>c_digest := new\<rparr>) \<and>
          (new \<noteq> c_digest c \<longrightarrow> locked_volume (overlay_path (space_dir (cx_state cx) i)) (c_uid c)
            (overlay_volume (template_dir_path (cx_state cx) (id_str (c_profile c)) new) pw) w'))"
  unfolding dispatch_def Request.case by (rule hoare_case [OF update_image_hoare [OF assms(1-3)]]) (use assms in simp)

text \<open>
  A \<open>ResetAll\<close> that reports success has replaced both disks of the space by
  new ones of the sizes in its manifest, over the template in its configuration, with no seed, owned by the uid in
  the configuration and opened by the passphrase of the request; one that fails has
  left the configuration alone.
\<close>

theorem reset_all_disks:
  assumes "ctx_ok cx" "id_ok i" "store_ok (cx_libs cx) (cx_state cx) w"
    and "config_at (cx_libs cx) (cx_state cx) (id_str i) w = Some c"
  shows "case dispatch cx (ResetAll i pw) w of
      (Inl _, w') \<Rightarrow> config_at (cx_libs cx) (cx_state cx) (id_str i) w' = Some c
    | (Inr r, w') \<Rightarrow> r = RSpace i \<and>
        (\<exists>m. manifest_at cx (c_profile c) w = Some m \<and>
          space_disks (template_dir_path (cx_state cx) (id_str (c_profile c)) (c_digest c))
          (space_dir (cx_state cx) i) (c_uid c) (data_mb (resources m)) None pw w')"
  unfolding dispatch_def Request.case by (rule hoare_case [OF reset_all_hoare [OF assms(1,2)]]) (use assms in simp)

theorem create_disks_witness:
  "case dispatch ex_ctx (Create (SpaceId ''v'') (SpaceId ''web'') (Label ''work'') (Color ''#ff0000'') None None) ex_world1 of
      (Inl _, w') \<Rightarrow> True
    | (Inr r, w') \<Rightarrow> (\<exists>uid td. locked_volume (overlay_path (space_dir (cx_state ex_ctx) (SpaceId ''v''))) uid
        (overlay_volume td None) w')"
  using create_disks [where cx = ex_ctx and i = "SpaceId ''v''" and p = "SpaceId ''web''" and l = "Label ''work''"
      and k = "Color ''#ff0000''" and sd = None and pw = None and w = ex_world1]
    ctx_ok_ex request_ok_ex
  by (auto simp: space_disks_def split: prod.splits sum.splits)

theorem update_image_config_witness:
  "case dispatch ex_ctx (UpdateImage (SpaceId ''w'') None) ex_world1 of
      (Inl _, w') \<Rightarrow> config_at ex_libs (cx_state ex_ctx) ''w'' w' = Some ex_config
    | (Inr r, w') \<Rightarrow> (\<exists>new. config_at ex_libs (cx_state ex_ctx) ''w'' w' = Some (ex_config\<lparr>c_digest := new\<rparr>))"
  using update_image_config [of ex_ctx "SpaceId ''w''" ex_world1 ex_config None]
    libs_ok_ex ctx_ok_ex request_ok_ex store_ok_ex config_at_ex
  by (auto simp: ex_ctx_libs split: prod.splits sum.splits)

theorem reset_all_disks_witness:
  "case dispatch ex_ctx (ResetAll (SpaceId ''w'') None) ex_world1 of
      (Inl _, w') \<Rightarrow> config_at ex_libs (cx_state ex_ctx) ''w'' w' = Some ex_config
    | (Inr r, w') \<Rightarrow> r = RSpace (SpaceId ''w'')"
  using reset_all_disks [of ex_ctx "SpaceId ''w''" ex_world1 ex_config None]
    libs_ok_ex ctx_ok_ex request_ok_ex store_ok_ex config_at_ex
  by (auto simp: ex_ctx_libs split: prod.splits sum.splits)

end
