(* ===== verification/OpsStop.thy ===== *)
theory OpsStop
  imports OpsVolumes
begin

text \<open>
  When a stop counts as clean: only the guest that knows the nonce of this start
  can say so.
\<close>

text \<open>At the moment \<open>t\<close> the guest answered with the nonce \<open>n\<close> that its data disk is unmounted.\<close>

definition unmount_confirmed :: "libs \<Rightarrow> env \<Rightarrow> nat \<Rightarrow> string \<Rightarrow> bool" where
  "unmount_confirmed x e t n \<longleftrightarrow>
     (\<exists>r. reply_from x (guest e t) = Inr r \<and> AgentReply.nonce r = n \<and> AgentReply.ok r \<and> data_unmounted r = Some True)"

text \<open>The nonce the daemon keeps for a space.\<close>

definition nonce_at :: "Ctx \<Rightarrow> SpaceId \<Rightarrow> world \<Rightarrow> string option" where
  "nonce_at cx i w =
     (case Option.bind (bytes_at (nonce_path (cx_run cx) (id_str i)) w) from_utf8 of
        None \<Rightarrow> None
      | Some raw \<Rightarrow> if trim raw = [] then None else Some (trim raw))"

text \<open>What a request cannot change by looking: the nonce file and the environment.\<close>

definition quiet :: "Ctx \<Rightarrow> SpaceId \<Rightarrow> string option \<Rightarrow> env \<Rightarrow> world \<Rightarrow> bool" where
  "quiet cx i N e w \<longleftrightarrow> nonce_at cx i w = N \<and> env w = e"

lemma quiet_time: "time_only w w' \<Longrightarrow> quiet cx i N e w \<Longrightarrow> quiet cx i N e w'"
  by (simp add: quiet_def nonce_at_def time_bytes)

lemma hoare_quiet: "looks.holds f \<Longrightarrow> hoare (quiet cx i N e) f (\<lambda>_. quiet cx i N e) (\<lambda>_ _. True)"
  by (rule hoare_look) (use quiet_time in auto)

lemma looks_of_space:
  "looks.holds (space_or_not_found s i)" "looks.holds (state_of run j cid)" "looks.holds (read_nonce run j)"
  unfolding space_or_not_found_def refuse_def state_of_def pid_of_def read_nonce_def
  by (intro looks.holds_intros looks_reads)+

lemma read_nonce_hoare:
  "hoare (quiet cx i N e) (read_nonce (cx_run cx) (id_str i)) (\<lambda>n w. N = Some n \<and> quiet cx i N e w) (\<lambda>_ _. True)"
proof -
  have "hoare (\<lambda>w. nonce_at cx i w = N) (read_nonce (cx_run cx) (id_str i)) (\<lambda>n _. N = Some n) (\<lambda>_ _. True)"
    by (auto simp: hoare_def read_nonce_def bnd_def read_to_string_def query_def ret_def fail_def nonce_at_def
        split: option.splits if_splits)
  from hoare_conj [OF hoare_quiet [OF looks_of_space(3)] this, of cx i N e]
  have "hoare (\<lambda>w. quiet cx i N e w \<and> nonce_at cx i w = N) (read_nonce (cx_run cx) (id_str i))
      (\<lambda>n w. N = Some n \<and> quiet cx i N e w) (\<lambda>_ _. True)"
    by (rule hoare_post) auto
  then show ?thesis by (rule hoare_pre) (simp add: quiet_def)
qed

abbreviation confirmed :: "Ctx \<Rightarrow> string option \<Rightarrow> env \<Rightarrow> bool" where
  "confirmed cx N e \<equiv> \<exists>t n. N = Some n \<and> unmount_confirmed (cx_libs cx) e t n"

lemma shutdown_hoare:
  "hoare (quiet cx i N e) (shutdown_via_agent cx (id_str i) cid) (\<lambda>r _. fst r \<longrightarrow> confirmed cx N e) (\<lambda>_ _. True)"
  unfolding shutdown_via_agent_def
proof (rule hoare_bnd [where R = "\<lambda>r w. case r of Inl _ \<Rightarrow> True | Inr n \<Rightarrow> N = Some n \<and> quiet cx i N e w"])
  show "hoare (quiet cx i N e) (attempt (read_nonce (cx_run cx) (id_str i)))
      (\<lambda>r w. case r of Inl _ \<Rightarrow> True | Inr n \<Rightarrow> N = Some n \<and> quiet cx i N e w) (\<lambda>_ _. True)"
    by (rule hoare_attempt, rule hoare_post [OF read_nonce_hoare]) auto
  have call: "hoare (\<lambda>w. N = Some n \<and> quiet cx i N e w) (attempt (agent_shutdown (cx_libs cx) cid n))
      (\<lambda>a _. \<forall>r. a = Inr r \<longrightarrow> AgentReply.ok r \<longrightarrow> data_unmounted r = Some True \<longrightarrow> confirmed cx N e)
      (\<lambda>_ _. True)" for n
  proof (rule hoare_attempt, rule hoare_post)
    show "hoare (\<lambda>w. N = Some n \<and> quiet cx i N e w) (agent_shutdown (cx_libs cx) cid n)
        (\<lambda>r _. AgentReply.ok r \<longrightarrow> data_unmounted r = Some True \<longrightarrow> confirmed cx N e) (\<lambda>_ _. True)"
      using call_agent_nonce
      by (fastforce simp: hoare_def agent_shutdown_def quiet_def unmount_confirmed_def split: prod.split sum.split)
  qed simp_all
  show "hoare (\<lambda>w. case r of Inl _ \<Rightarrow> True | Inr n \<Rightarrow> N = Some n \<and> quiet cx i N e w) (case r of
       Inl _ \<Rightarrow> ret (False, DNonceUnreadable)
     | Inr n \<Rightarrow>
         bnd (attempt (agent_shutdown (cx_libs cx) cid n)) (\<lambda>a.
           ret (case a of
              Inl e \<Rightarrow> (False, DUnreachable e)
            | Inr reply \<Rightarrow>
                if AgentReply.ok reply \<and> data_unmounted reply = Some True
                then (True, case AgentReply.detail reply of Some d \<Rightarrow> DSays d | None \<Rightarrow> DUnmounted)
                else (False, case AgentReply.detail reply of Some d \<Rightarrow> DSays d | None \<Rightarrow> DNotConfirmed))))
      (\<lambda>r _. fst r \<longrightarrow> confirmed cx N e) (\<lambda>_ _. True)" for r
    by (cases r) (auto intro!: hoare_ret hoare_bnd [OF call] split: sum.splits if_splits)
qed

lemma hoare_after:
  "hoare (\<lambda>_. B) g Q (\<lambda>_ _. True) \<Longrightarrow> hoare (\<lambda>_. B) (sq f g) Q (\<lambda>_ _. True)"
  by (rule hoare_sq [where R = "\<lambda>_. B"]) (auto simp: hoare_def split: prod.split sum.split)

lemma stop_confirmed_hoare:
  "hoare (quiet cx i N e) (op_stop cx i) (\<lambda>r _. \<forall>j d. r = RStopped j True d \<longrightarrow> confirmed cx N e) (\<lambda>_ _. True)"
proof -
  have rest: "hoare (\<lambda>_. g \<longrightarrow> confirmed cx N e) (sq f1 (sq f2 (sq f3 (sq f4 (ret (RStopped i g d))))))
      (\<lambda>r _. \<forall>j d. r = RStopped j True d \<longrightarrow> confirmed cx N e) (\<lambda>_ _. True)" for g d f1 f2 f3 f4
    by (intro hoare_after hoare_ret) auto
  have shut: "hoare (quiet cx i N e) (bnd (shutdown_via_agent cx (id_str i) cid) (\<lambda>(graceful, d).
     sq (kill_and_reap cx (id_str i))
    (sq (internal (delete_tap cid))
    (sq (remove_running_secret (cx_run cx) (id_str i))
    (sq (internal (set_clean_shutdown (cx_libs cx) s i graceful))
        (ret (RStopped i graceful d))))))) (\<lambda>r _. \<forall>j d. r = RStopped j True d \<longrightarrow> confirmed cx N e) (\<lambda>_ _. True)"
    for s cid
    by (rule hoare_bnd [OF shutdown_hoare], rule hoare_prod, simp only: fst_conv, rule rest)
  show ?thesis
    unfolding op_stop_def
    by (rule hoare_bnd [OF hoare_quiet [OF looks_load_store]], rule hoare_bnd [OF hoare_quiet [OF looks_of_space(1)]],
        rule hoare_bnd [OF hoare_quiet [OF looks_of_space(2)]], rule hoare_if, simp add: hoare_refuse, rule shut)
qed

text \<open>
  C9.  After a \<open>Stop\<close> that reports success, the configuration on disk says whether
  the shutdown was clean as the reply does.  It says so only when a guest
  answered with the nonce the daemon had written for this start of the space and
  reported success and an unmounted data disk; a guest that cannot prove the
  nonce, or does not answer, is an unclean shutdown.  A \<open>Stop\<close> that fails leaves the
  store as consistent as it was.
\<close>

theorem stop_records_shutdown:
  assumes "libs_ok (cx_libs cx)" "ctx_ok cx" "id_ok i" "store_ok (cx_libs cx) (cx_state cx) w"
  shows "case dispatch cx (Stop i) w of
      (Inl _, w') \<Rightarrow> store_ok (cx_libs cx) (cx_state cx) w'
    | (Inr r, w') \<Rightarrow> \<exists>clean d. r = RStopped i clean d \<and>
        map_option c_clean (config_at (cx_libs cx) (cx_state cx) (id_str i) w') = Some (Some clean) \<and>
        (clean \<longrightarrow> (\<exists>t n. nonce_at cx i w = Some n \<and> unmount_confirmed (cx_libs cx) (env w) t n))"
proof -
  have "hoare (\<lambda>w'. store_ok (cx_libs cx) (cx_state cx) w' \<and> quiet cx i (nonce_at cx i w) (env w) w') (op_stop cx i)
      (\<lambda>r w'. \<exists>clean d. r = RStopped i clean d \<and>
        map_option c_clean (config_at (cx_libs cx) (cx_state cx) (id_str i) w') = Some (Some clean) \<and>
        (clean \<longrightarrow> confirmed cx (nonce_at cx i w) (env w)))
      (\<lambda>_. store_ok (cx_libs cx) (cx_state cx))"
    by (rule hoare_post [OF hoare_conj [OF op_stop_hoare [OF assms(1-3)] stop_confirmed_hoare]]) auto
  then show ?thesis
    unfolding dispatch_def Request.case by (rule hoare_case) (use assms(4) in \<open>simp add: quiet_def\<close>)
qed

theorem stop_records_shutdown_witness:
  "case dispatch ex_ctx (Stop (SpaceId ''w'')) ex_world2 of
      (Inl _, w') \<Rightarrow> store_ok ex_libs (cx_state ex_ctx) w'
    | (Inr r, w') \<Rightarrow> \<exists>clean d. r = RStopped (SpaceId ''w'') clean d"
  using stop_records_shutdown [of ex_ctx "SpaceId ''w''" ex_world2] libs_ok_ex ctx_ok_ex request_ok_ex ex2_ok
  by (auto simp: ex_ctx_libs split: prod.splits sum.splits)

end
