(* ===== verification/ExportEnv.thy ===== *)
theory ExportEnv
  imports Profile
begin

text \<open>
  \<open>lib/profile/src/main.rs\<close>: the \<open>export-env\<close> subcommand prints assignments that the
  image builder passes to the shell's \<open>eval\<close>.  \<open>sh_run\<close> is a reader of that
  fragment of the POSIX shell: a name, \<open>=\<close>, and a word in which the only special
  characters are the single quote and, outside quotes, the backslash; anything
  else outside quotes is refused, because there the shell would act on it.
\<close>

definition shell_quote :: "string \<Rightarrow> string" where
  "shell_quote v =
     [CHR 0x27] @
     concat (map (\<lambda>c. if c = CHR 0x27 then [CHR 0x27, CHR 0x5C, CHR 0x27, CHR 0x27] else [c]) v) @
     [CHR 0x27]"

definition nth_var :: "string \<Rightarrow> nat \<Rightarrow> string \<Rightarrow> string" where
  "nth_var p i s = p @ dec i @ s"

definition env_vars :: "Manifest \<Rightarrow> (string \<times> string) list" where
  "env_vars m =
     [(''MIYORI_ID'', m_id m),
      (''MIYORI_BUILDER'', builder (base m)),
      (''MIYORI_SUITE'', suite (base m)),
      (''MIYORI_PACKAGES'', join_str '','' (packages (base m))),
      (''MIYORI_FIRMWARE'', join_str '' '' (firmware_include (base m))),
      (''MIYORI_SOURCE_COUNT'', dec (length (sources (base m))))] @
     map (\<lambda>(i, l). (nth_var ''MIYORI_SOURCE_'' i [], l)) (enumerate 0 (sources (base m))) @
     [(''MIYORI_MODE'', app_mode (app m)),
      (''MIYORI_COMMAND'', app_command (app m)),
      (''MIYORI_MEMORY_MB'', dec (memory_mb (resources m))),
      (''MIYORI_CPUS'', dec (cpus (resources m))),
      (''MIYORI_DISK_GB'', dec (disk_gb (resources m))),
      (''MIYORI_DATA_MB'', dec (data_mb (resources m))),
      (''MIYORI_LEVEL'', level (isolation m)),
      (''MIYORI_GPU'', gpu (isolation m)),
      (''MIYORI_KEYRING_PATH'', case keyring (base m) of Some k \<Rightarrow> k_path k | None \<Rightarrow> []),
      (''MIYORI_KEYRING_SHA256'', case keyring (base m) of Some k \<Rightarrow> k_sha256 k | None \<Rightarrow> []),
      (''MIYORI_BLOB_COUNT'', dec (length (blob (base m))))] @
     concat (map (\<lambda>(i, b).
       [(nth_var ''MIYORI_BLOB_'' i ''_PATH'', b_path b),
        (nth_var ''MIYORI_BLOB_'' i ''_SHA256'', b_sha256 b),
        (nth_var ''MIYORI_BLOB_'' i ''_INTO'', b_into b),
        (nth_var ''MIYORI_BLOB_'' i ''_STRIP'', dec (b_strip b))]) (enumerate 0 (blob (base m)))) @
     [(''MIYORI_FILE_COUNT'', dec (length (mfile (base m))))] @
     concat (map (\<lambda>(i, f).
       [(nth_var ''MIYORI_FILE_'' i ''_PATH'', f_path f),
        (nth_var ''MIYORI_FILE_'' i ''_SHA256'', f_sha256 f),
        (nth_var ''MIYORI_FILE_'' i ''_INTO'', f_into f),
        (nth_var ''MIYORI_FILE_'' i ''_MODE'', f_mode f)]) (enumerate 0 (mfile (base m))))"

definition put_var :: "string \<times> string \<Rightarrow> string" where
  "put_var kv = fst kv @ ''='' @ shell_quote (snd kv) @ [CHR 0x0A]"

definition export_env :: "Manifest \<Rightarrow> string" where
  "export_env m = concat (map put_var (env_vars m))"

text \<open>The program: its one subcommand; \<open>read\<close> is the file system.\<close>

datatype profile_main_error =
    NoManifestPath
  | UnknownSubcommand "string option"
  | ManifestUnread
  | ManifestRefused manifest_error

definition profile_main ::
  "(string \<Rightarrow> string option) \<Rightarrow> (string \<Rightarrow> Manifest option) \<Rightarrow> string list \<Rightarrow> profile_main_error + string" where
  "profile_main read toml args =
     (case args of
        [] \<Rightarrow> Inl (UnknownSubcommand None)
      | c # rest \<Rightarrow>
          if c \<noteq> ''export-env'' then Inl (UnknownSubcommand (Some c))
          else
            (case rest of
               [] \<Rightarrow> Inl NoManifestPath
             | p # _ \<Rightarrow>
                 (case read p of
                    None \<Rightarrow> Inl ManifestUnread
                  | Some src \<Rightarrow>
                      (case manifest_parse toml src of
                         Inl e \<Rightarrow> Inl (ManifestRefused e)
                       | Inr m \<Rightarrow> Inr (export_env m)))))"

lemma profile_main_valid:
  "profile_main read toml args = Inr t \<Longrightarrow> \<exists>m. manifest_validate m = Inr () \<and> t = export_env m"
  by (auto simp: profile_main_def manifest_parse_def split: list.splits if_splits option.splits sum.splits)

section \<open>The shell's reading of it\<close>

definition name_char :: "char \<Rightarrow> bool" where
  "name_char c \<longleftrightarrow>
     65 \<le> byte_of c \<and> byte_of c \<le> 90 \<or> 48 \<le> byte_of c \<and> byte_of c \<le> 57 \<or> c = CHR ''_''"

datatype sh_state = SName | SOut | SIn | SEsc

fun sh_run :: "sh_state \<Rightarrow> string \<Rightarrow> string \<Rightarrow> string \<Rightarrow> (string \<times> string) list option" where
  "sh_run SName n v [] = (if n = [] then Some [] else None)"
| "sh_run SName n v (c # s) =
     (if c = CHR ''='' \<and> n \<noteq> [] then sh_run SOut n [] s
      else if name_char c then sh_run SName (n @ [c]) [] s
      else None)"
| "sh_run SOut n v [] = None"
| "sh_run SOut n v (c # s) =
     (if c = CHR 0x27 then sh_run SIn n v s
      else if c = CHR 0x5C then sh_run SEsc n v s
      else if c = CHR 0x0A then map_option (Cons (n, v)) (sh_run SName [] [] s)
      else None)"
| "sh_run SIn n v [] = None"
| "sh_run SIn n v (c # s) =
     (if c = CHR 0x27 then sh_run SOut n v s else sh_run SIn n (v @ [c]) s)"
| "sh_run SEsc n v [] = None"
| "sh_run SEsc n v (c # s) = (if c = CHR 0x0A then None else sh_run SOut n (v @ [c]) s)"

lemma name_char_not_eq: "name_char c \<Longrightarrow> c \<noteq> CHR ''=''"
  by (auto simp: name_char_def)

lemma sh_run_name:
  "list_all name_char k \<Longrightarrow> n @ k \<noteq> [] \<Longrightarrow> sh_run SName n v (k @ CHR ''='' # s) = sh_run SOut (n @ k) [] s"
  by (induction k arbitrary: n v) (auto dest: name_char_not_eq)

lemma sh_run_quoted:
  "sh_run SIn n v (concat (map (\<lambda>c. if c = CHR 0x27 then [CHR 0x27, CHR 0x5C, CHR 0x27, CHR 0x27]
                                  else [c]) w) @ [CHR 0x27] @ s) = sh_run SOut n (v @ w) s"
  by (induction w arbitrary: v) auto

lemma sh_run_put:
  assumes "list_all name_char k" "k \<noteq> []"
  shows "sh_run SName [] [] (put_var (k, v) @ s) = map_option (Cons (k, v)) (sh_run SName [] [] s)"
  using assms sh_run_quoted [of k "[]" v "CHR 0x0A # s"]
  by (simp add: put_var_def shell_quote_def sh_run_name)

lemma sh_run_all:
  "list_all (\<lambda>kv. fst kv \<noteq> [] \<and> list_all name_char (fst kv)) kvs \<Longrightarrow>
   sh_run SName [] [] (concat (map put_var kvs)) = Some kvs"
  by (induction kvs) (auto simp: sh_run_put)

lemma name_char_dec: "list_all name_char (dec n)"
  using dec_digits [of _ n] by (auto simp: list_all_iff name_char_def is_digit_def)

lemma nth_var_name:
  "list_all name_char (nth_var p i s) \<longleftrightarrow> list_all name_char p \<and> list_all name_char s"
  by (simp add: nth_var_def name_char_dec)

lemma nth_var_not_Nil: "p \<noteq> [] \<Longrightarrow> nth_var p i s \<noteq> []"
  by (simp add: nth_var_def)

lemma list_all_enum_map:
  "(\<And>i x. P (f (i, x))) \<Longrightarrow> list_all P (map f xs)"
  "(\<And>i x. list_all P (g (i, x))) \<Longrightarrow> list_all P (concat (map g xs))"
  by (induction xs) auto

lemma env_names:
  "list_all (\<lambda>kv. fst kv \<noteq> [] \<and> list_all name_char (fst kv)) (env_vars m)"
  unfolding env_vars_def list_all_append
  by (intro conjI list_all_enum_map)
    (simp_all add: nth_var_name nth_var_not_Nil name_char_def)

text \<open>
  C20.  Whatever the manifest holds, quotes and line feeds included, the shell
  reads the output of \<open>export-env\<close> as exactly the intended assignments: no value
  ends its word early and nothing outside a quoted value reaches the shell.
\<close>

theorem export_env_eval: "sh_run SName [] [] (export_env m) = Some (env_vars m)"
  unfolding export_env_def by (rule sh_run_all [OF env_names])

end
