(* ===== verification/Sandbox.thy ===== *)
theory Sandbox
  imports Path
begin

text \<open>
  \<open>lib/sandbox\<close>: the command line that puts a space's waypipe proxy into
  \<open>systemd-run\<close> and \<open>bwrap\<close>.  \<open>bw_read\<close> is bubblewrap's reading of its options
  (the ones used here, any other is refused), so that what the proxy can see is
  a statement about the argument vector.
\<close>

record SandboxSpec =
  space_id :: string
  socket :: string
  secctx :: string
  sb_title_prefix :: string
  waypipe :: string
  wayland_socket :: string
  memory_max_mb :: nat
  tasks_max :: nat
  cpu_quota_pct :: nat

definition SANDBOX_RUNTIME :: string where
  "SANDBOX_RUNTIME = ''/run/wp''"

definition SANDBOX_WAYLAND :: string where
  "SANDBOX_WAYLAND = ''wayland-0''"

definition socket_dir :: "SandboxSpec \<Rightarrow> string" where
  "socket_dir s = (case path_parent (socket s) of Some d \<Rightarrow> d | None \<Rightarrow> ''/run/miyorios'')"

definition SYSTEM_DIRS :: "string list" where
  "SYSTEM_DIRS = [''/usr'', ''/lib'', ''/lib64'', ''/bin'', ''/sbin'', ''/etc/ld.so.cache'']"

definition build_command :: "SandboxSpec \<Rightarrow> string list" where
  "build_command s =
     [''systemd-run'', ''--user'', ''--scope'', ''--collect'',
      ''--unit=miyori-gui-'' @ space_id s,
      ''--property=MemoryMax='' @ dec (memory_max_mb s) @ ''M'',
      ''--property=TasksMax='' @ dec (tasks_max s),
      ''--property=CPUQuota='' @ dec (cpu_quota_pct s) @ ''%'',
      ''--'', ''bwrap'', ''--unshare-all'', ''--unshare-net'', ''--die-with-parent'',
      ''--new-session'', ''--clearenv''] @
     concat (map (\<lambda>d. [''--ro-bind-try'', d, d]) SYSTEM_DIRS) @
     [''--proc'', ''/proc'', ''--dev'', ''/dev'', ''--tmpfs'', ''/tmp'',
      ''--tmpfs'', SANDBOX_RUNTIME,
      ''--ro-bind'', wayland_socket s, SANDBOX_RUNTIME @ ''/'' @ SANDBOX_WAYLAND,
      ''--bind'', socket_dir s, socket_dir s,
      ''--setenv'', ''XDG_RUNTIME_DIR'', SANDBOX_RUNTIME,
      ''--setenv'', ''WAYLAND_DISPLAY'', SANDBOX_WAYLAND,
      ''--'', waypipe s, ''--no-gpu'', ''-c'', ''none'', ''--secctx'', secctx s,
      ''--title-prefix'', sb_title_prefix s, ''--socket'', socket s, ''client'']"

section \<open>What bubblewrap makes of it\<close>

record bw =
  bw_flags :: "string list"
  bw_ro :: "(string \<times> string) list"
  bw_rw :: "(string \<times> string) list"
  bw_fresh :: "string list"
  bw_env :: "(string \<times> string) list"
  bw_cmd :: "string list"

definition bw_empty :: bw where
  "bw_empty = \<lparr>bw_flags = [], bw_ro = [], bw_rw = [], bw_fresh = [], bw_env = [], bw_cmd = []\<rparr>"

definition bw_flag_names :: "string list" where
  "bw_flag_names =
     [''--unshare-all'', ''--unshare-net'', ''--die-with-parent'', ''--new-session'', ''--clearenv'']"

fun bw_read :: "bw \<Rightarrow> string list \<Rightarrow> bw option" where
  "bw_read b [] = None"
| "bw_read b (x # xs) =
     (if x = ''--'' then Some (b\<lparr>bw_cmd := xs\<rparr>)
      else if x \<in> set bw_flag_names then bw_read (b\<lparr>bw_flags := bw_flags b @ [x]\<rparr>) xs
      else (case xs of
          [] \<Rightarrow> None
        | a # ys \<Rightarrow>
            if x \<in> set [''--proc'', ''--dev'', ''--tmpfs''] then
              bw_read (b\<lparr>bw_fresh := bw_fresh b @ [a]\<rparr>) ys
            else (case ys of
                [] \<Rightarrow> None
              | c # zs \<Rightarrow>
                  if x \<in> set [''--ro-bind'', ''--ro-bind-try''] then
                    bw_read (b\<lparr>bw_ro := bw_ro b @ [(a, c)]\<rparr>) zs
                  else if x = ''--bind'' then bw_read (b\<lparr>bw_rw := bw_rw b @ [(a, c)]\<rparr>) zs
                  else if x = ''--setenv'' then bw_read (b\<lparr>bw_env := bw_env b @ [(a, c)]\<rparr>) zs
                  else None)))"

text \<open>\<open>systemd-run\<close> runs what follows the first \<open>--\<close>.\<close>

definition scope_cmd :: "string list \<Rightarrow> string list" where
  "scope_cmd argv = drop 1 (dropWhile (\<lambda>x. x \<noteq> ''--'') argv)"

definition bw_of :: "string list \<Rightarrow> bw option" where
  "bw_of argv =
     (case scope_cmd argv of x # xs \<Rightarrow> if x = ''bwrap'' then bw_read bw_empty xs else None
      | [] \<Rightarrow> None)"

text \<open>
  C18.  Whatever the names in the specification, the proxy's namespace is closed:
  its network is unshared and its environment cleared, the host directories it
  can write are the space's own socket directory and nothing else, the only
  things it can read besides the system libraries is the compositor's socket
  (at \<open>/run/wp/wayland-0\<close>), its runtime directory is a fresh tmpfs, and the
  process run there is waypipe without GPU access, under the space's security
  context and title prefix.
\<close>

theorem sandbox_closed:
  "bw_of (build_command s) = Some
     \<lparr>bw_flags = bw_flag_names,
      bw_ro = map (\<lambda>d. (d, d)) SYSTEM_DIRS @ [(wayland_socket s, ''/run/wp/wayland-0'')],
      bw_rw = [(socket_dir s, socket_dir s)],
      bw_fresh = [''/proc'', ''/dev'', ''/tmp'', ''/run/wp''],
      bw_env = [(''XDG_RUNTIME_DIR'', ''/run/wp''), (''WAYLAND_DISPLAY'', ''wayland-0'')],
      bw_cmd = [waypipe s, ''--no-gpu'', ''-c'', ''none'', ''--secctx'', secctx s, ''--title-prefix'',
                sb_title_prefix s, ''--socket'', socket s, ''client'']\<rparr>"
  unfolding build_command_def bw_of_def scope_cmd_def
  by (simp add: SYSTEM_DIRS_def bw_empty_def bw_flag_names_def SANDBOX_RUNTIME_def SANDBOX_WAYLAND_def)

end
