(* ===== verification/Broker.thy ===== *)
theory Broker
  imports Config Sandbox Table
begin

unbundle bit_operations_syntax

text \<open>
  \<open>components/guid/src/broker.rs\<close>: the GUI broker.  A connection from a guest is
  identified by the CID the kernel reports; the broker finds the space in the
  registry, makes sure that the space's sandboxed proxy runs, and holds a lease on
  it until the connection ends.  A watchdog kills the proxies whose guest is gone.

  \<open>bst\<close> is the broker's table with the part of the system it acts on: the
  children it spawned (running or dead, until they are waited for), the socket
  files, and the modes of the directories.  What the system answers during one
  \<open>ensure_proxy\<close> is an \<open>env\<close>.  The table's mutex is held for a whole
  \<open>ensure_proxy\<close>, \<open>release_proxy\<close> and \<open>reap_dead_proxies\<close>, so each is one step.
\<close>

definition GUI_SUBDIR :: string where
  "GUI_SUBDIR = ''gui''"

record BrokerConfig =
  run_dir :: string
  cfg_waypipe :: string
  cfg_wayland_socket :: string
  cfg_memory_max_mb :: nat
  cfg_tasks_max :: nat
  cfg_cpu_quota_pct :: nat

record Proxy =
  child :: nat
  leases :: nat
  px_socket :: string
  px_cid :: nat

record bst =
  started :: "(string \<times> Proxy) list"
  procs :: "(nat \<times> bool) list"
  next_pid :: nat
  socks :: "string list"
  dir_modes :: "(string \<times> nat) list"
  spawned :: "SandboxSpec list"

record env =
  e_mkdir :: bool
  e_new_mode :: nat
  e_stat :: bool
  e_chmod :: bool
  e_spawn :: bool
  e_polls :: "nat \<Rightarrow> bool"

datatype broker_error =
    RegistryBroken registry_error
  | UnregisteredCid nat
  | SocketWithoutDir
  | NoMkdir
  | NoStat
  | NoChmod
  | NoSpawn
  | NoSocket

section \<open>Operations\<close>

definition socket_path :: "BrokerConfig \<Rightarrow> space \<Rightarrow> string" where
  "socket_path cfg sp =
     path_join (path_join (path_join (run_dir cfg) (sp_id sp)) GUI_SUBDIR) ''gui.sock''"

definition resolve :: "(string \<Rightarrow> space list option) \<Rightarrow> string \<Rightarrow> nat \<Rightarrow> registry_error + space option" where
  "resolve toml src cid =
     (case registry_parse toml src of Inl e \<Rightarrow> Inl e | Inr reg \<Rightarrow> Inr (by_cid reg cid))"

definition dir_mode_is_private :: "nat \<Rightarrow> bool" where
  "dir_mode_is_private mode \<longleftrightarrow> mode AND 7 = 0"

fun poll_socket :: "(nat \<Rightarrow> bool) \<Rightarrow> nat \<Rightarrow> nat \<Rightarrow> bool" where
  "poll_socket polls i 0 = False"
| "poll_socket polls i (Suc n) = (polls i \<or> poll_socket polls (Suc i) n)"

definition wait_for_socket :: "(nat \<Rightarrow> bool) \<Rightarrow> bool" where
  "wait_for_socket polls = poll_socket polls 0 100"

definition running :: "nat \<Rightarrow> bst \<Rightarrow> bool" where
  "running p b \<longleftrightarrow> al_get (procs b) p = Some True"

definition remove_sock :: "string \<Rightarrow> bst \<Rightarrow> bst" where
  "remove_sock s b = b\<lparr>socks := filter (\<lambda>x. x \<noteq> s) (socks b)\<rparr>"

definition kill :: "nat \<Rightarrow> bst \<Rightarrow> bst" where
  "kill p b = b\<lparr>procs := map (\<lambda>(q, r). (q, r \<and> q \<noteq> p)) (procs b)\<rparr>"

definition wait :: "nat \<Rightarrow> bst \<Rightarrow> bst" where
  "wait p b = b\<lparr>procs := al_del p (procs b)\<rparr>"

text \<open>What \<open>release_proxy\<close> and \<open>reap_dead_proxies\<close> do with an entry that goes.\<close>

definition drop_proxy :: "string \<Rightarrow> bst \<Rightarrow> bst" where
  "drop_proxy k b =
     (case al_get (started b) k of
        None \<Rightarrow> b
      | Some px \<Rightarrow>
          remove_sock (px_socket px) (wait (child px) (kill (child px) (b\<lparr>started := al_del k (started b)\<rparr>))))"

definition sandbox_spec :: "BrokerConfig \<Rightarrow> space \<Rightarrow> string \<Rightarrow> SandboxSpec" where
  "sandbox_spec cfg sp s =
     \<lparr>space_id = sp_id sp, socket = s, secctx = secctx_id sp, sb_title_prefix = title_prefix sp,
      waypipe = cfg_waypipe cfg, wayland_socket = cfg_wayland_socket cfg,
      memory_max_mb = cfg_memory_max_mb cfg, tasks_max = cfg_tasks_max cfg,
      cpu_quota_pct = cfg_cpu_quota_pct cfg\<rparr>"

definition mkdir :: "env \<Rightarrow> string \<Rightarrow> bst \<Rightarrow> bst" where
  "mkdir e d b =
     (case al_get (dir_modes b) d of
        Some _ \<Rightarrow> b | None \<Rightarrow> b\<lparr>dir_modes := al_put d (e_new_mode e) (dir_modes b)\<rparr>)"

definition dir_mode :: "string \<Rightarrow> bst \<Rightarrow> nat" where
  "dir_mode d b = (case al_get (dir_modes b) d of Some m \<Rightarrow> m | None \<Rightarrow> 0)"

definition launch :: "BrokerConfig \<Rightarrow> env \<Rightarrow> space \<Rightarrow> string \<Rightarrow> nat \<Rightarrow> bst \<Rightarrow> (broker_error + unit) \<times> bst" where
  "launch cfg e sp s carried b =
     (if \<not> e_spawn e then (Inl NoSpawn, b)
      else
        let pid = next_pid b;
            b1 = b\<lparr>procs := al_put pid True (procs b), next_pid := Suc pid,
                   spawned := spawned b @ [sandbox_spec cfg sp s]\<rparr>
        in if \<not> wait_for_socket (e_polls e) then (Inl NoSocket, b1)
           else (Inr (), b1\<lparr>socks := s # socks b1,
                   started := al_put (sp_id sp)
                     \<lparr>child = pid, leases = carried + 1, px_socket = s, px_cid = sp_cid sp\<rparr>
                     (started b1)\<rparr>))"

definition spawn_fresh ::
  "BrokerConfig \<Rightarrow> env \<Rightarrow> space \<Rightarrow> string \<Rightarrow> nat \<Rightarrow> bst \<Rightarrow> (broker_error + unit) \<times> bst" where
  "spawn_fresh cfg e sp s carried b =
     (case path_parent s of
        None \<Rightarrow> (Inl SocketWithoutDir, b)
      | Some d \<Rightarrow>
          if \<not> e_mkdir e then (Inl NoMkdir, b)
          else
            let b1 = mkdir e d b in
            if \<not> e_stat e then (Inl NoStat, b1)
            else if dir_mode_is_private (dir_mode d b1) then
              launch cfg e sp s carried (remove_sock s b1)
            else if \<not> e_chmod e then (Inl NoChmod, b1)
            else launch cfg e sp s carried
                   (remove_sock s (b1\<lparr>dir_modes := al_put d 448 (dir_modes b1)\<rparr>)))"

definition ensure_proxy ::
  "BrokerConfig \<Rightarrow> env \<Rightarrow> space \<Rightarrow> string \<Rightarrow> bst \<Rightarrow> (broker_error + unit) \<times> bst" where
  "ensure_proxy cfg e sp s b =
     (case al_get (started b) (sp_id sp) of
        None \<Rightarrow> spawn_fresh cfg e sp s 0 b
      | Some px \<Rightarrow>
          if running (child px) b \<and> s \<in> set (socks b) then
            (Inr (), b\<lparr>started := al_put (sp_id sp) (px\<lparr>leases := leases px + 1\<rparr>) (started b)\<rparr>)
          else
            let b1 = b\<lparr>started := al_del (sp_id sp) (started b)\<rparr>;
                b2 = (if running (child px) b then kill (child px) b1 else b1)
            in spawn_fresh cfg e sp s (leases px) (wait (child px) b2))"

text \<open>\<open>saturating_sub\<close> is subtraction on natural numbers.\<close>

definition release_proxy :: "string \<Rightarrow> bst \<Rightarrow> bst" where
  "release_proxy k b =
     (case al_get (started b) k of
        None \<Rightarrow> b
      | Some px \<Rightarrow>
          let n = leases px - 1;
              b1 = b\<lparr>started := al_put k (px\<lparr>leases := n\<rparr>) (started b)\<rparr>
          in if n > 0 then b1 else drop_proxy k b1)"

text \<open>A probe answers \<open>None\<close> when it connects, and otherwise the error number.\<close>

definition ENODEV :: int where
  "ENODEV = 19"

definition cid_is_gone :: "int option \<Rightarrow> bool" where
  "cid_is_gone err \<longleftrightarrow> err = Some ENODEV"

definition dead_ids :: "(nat \<Rightarrow> int option option) \<Rightarrow> bst \<Rightarrow> string list" where
  "dead_ids probe b =
     map fst (filter (\<lambda>(_, px). case probe (px_cid px) of None \<Rightarrow> False | Some e \<Rightarrow> cid_is_gone e)
       (started b))"

definition reap_dead_proxies :: "(nat \<Rightarrow> int option option) \<Rightarrow> bst \<Rightarrow> bst" where
  "reap_dead_proxies probe b = fold drop_proxy (dead_ids probe b) b"

text \<open>\<open>handle\<close> up to the point where the lease is held.\<close>

definition handle_open ::
  "BrokerConfig \<Rightarrow> (string \<Rightarrow> space list option) \<Rightarrow> string \<Rightarrow> env \<Rightarrow> nat \<Rightarrow> bst \<Rightarrow>
     (broker_error + space) \<times> bst" where
  "handle_open cfg toml src e cid b =
     (case resolve toml src cid of
        Inl err \<Rightarrow> (Inl (RegistryBroken err), b)
      | Inr None \<Rightarrow> (Inl (UnregisteredCid cid), b)
      | Inr (Some sp) \<Rightarrow>
          (case ensure_proxy cfg e sp (socket_path cfg sp) b of
             (Inl err, b') \<Rightarrow> (Inl err, b')
           | (Inr _, b') \<Rightarrow> (Inr sp, b')))"

section \<open>The broker as a transition system\<close>

text \<open>
  \<open>conns\<close> is the list of the spaces of the connections that hold a lease, one
  entry per connection thread.  A lease is dropped when \<open>handle\<close> returns, whether
  connecting to the proxy failed or the copy ended.
\<close>

record sys =
  br :: bst
  conns :: "string list"

definition init_bst :: bst where
  "init_bst = \<lparr>started = [], procs = [], next_pid = 1, socks = [], dir_modes = [], spawned = []\<rparr>"

definition init_sys :: sys where
  "init_sys = \<lparr>br = init_bst, conns = []\<rparr>"

inductive sys_step :: "BrokerConfig \<Rightarrow> (string \<Rightarrow> space list option) \<Rightarrow> sys \<Rightarrow> sys \<Rightarrow> bool"
  for cfg toml where
  opened: "handle_open cfg toml src e cid (br s) = (Inr sp, b) \<Longrightarrow>
     sys_step cfg toml s (s\<lparr>br := b, conns := sp_id sp # conns s\<rparr>)"
| refused: "handle_open cfg toml src e cid (br s) = (Inl err, b) \<Longrightarrow> sys_step cfg toml s (s\<lparr>br := b\<rparr>)"
| closed: "k \<in> set (conns s) \<Longrightarrow>
     sys_step cfg toml s (s\<lparr>br := release_proxy k (br s), conns := remove1 k (conns s)\<rparr>)"
| watchdog: "sys_step cfg toml s (s\<lparr>br := reap_dead_proxies probe (br s)\<rparr>)"
| proxy_exits: "sys_step cfg toml s (s\<lparr>br := kill p (br s)\<rparr>)"
| socket_vanishes: "sys_step cfg toml s (s\<lparr>br := remove_sock f (br s)\<rparr>)"

definition reachable :: "BrokerConfig \<Rightarrow> (string \<Rightarrow> space list option) \<Rightarrow> sys \<Rightarrow> bool" where
  "reachable cfg toml s \<longleftrightarrow> (sys_step cfg toml)\<^sup>*\<^sup>* init_sys s"

section \<open>What each operation does to the table\<close>

lemma started_simps [simp]:
  "started (kill p b) = started b" "started (wait p b) = started b"
  "started (remove_sock f b) = started b" "started (mkdir e d b) = started b"
  "spawned (kill p b) = spawned b" "spawned (wait p b) = spawned b"
  "spawned (remove_sock f b) = spawned b" "spawned (mkdir e d b) = spawned b"
  "next_pid (kill p b) = next_pid b" "next_pid (wait p b) = next_pid b"
  "next_pid (remove_sock f b) = next_pid b" "next_pid (mkdir e d b) = next_pid b"
  "dir_modes (kill p b) = dir_modes b" "dir_modes (wait p b) = dir_modes b"
  "dir_modes (remove_sock f b) = dir_modes b"
  by (simp_all add: kill_def wait_def remove_sock_def mkdir_def split: option.split)

lemma drop_proxy_simps [simp]:
  "al_get (started (drop_proxy k b)) k' = (if k' = k then None else al_get (started b) k')"
  "spawned (drop_proxy k b) = spawned b" "next_pid (drop_proxy k b) = next_pid b"
  "dir_modes (drop_proxy k b) = dir_modes b"
  by (auto simp: drop_proxy_def al.get_del split: option.split)

lemma fold_drop_simps [simp]:
  "al_get (started (fold drop_proxy ks b)) k' = (if k' \<in> set ks then None else al_get (started b) k')"
  "spawned (fold drop_proxy ks b) = spawned b" "next_pid (fold drop_proxy ks b) = next_pid b"
  "dir_modes (fold drop_proxy ks b) = dir_modes b"
  by (induction ks arbitrary: b) auto

text \<open>The entry a launch makes, and the table otherwise untouched.\<close>

definition new_proxy :: "space \<Rightarrow> string \<Rightarrow> nat \<Rightarrow> bst \<Rightarrow> Proxy" where
  "new_proxy sp s carried b =
     \<lparr>child = next_pid b, leases = carried + 1, px_socket = s, px_cid = sp_cid sp\<rparr>"

lemma launch_ok:
  "launch cfg e sp s c b = (Inr u, b') \<Longrightarrow>
     started b' = al_put (sp_id sp) (new_proxy sp s c b) (started b) \<and>
     next_pid b' = Suc (next_pid b) \<and> spawned b' = spawned b @ [sandbox_spec cfg sp s] \<and>
     dir_modes b' = dir_modes b"
  by (auto simp: launch_def Let_def new_proxy_def split: if_splits)

lemma launch_fails:
  "launch cfg e sp s c b = (Inl err, b') \<Longrightarrow>
     started b' = started b \<and> next_pid b \<le> next_pid b' \<and> dir_modes b' = dir_modes b \<and>
     (spawned b' = spawned b \<or> spawned b' = spawned b @ [sandbox_spec cfg sp s])"
  by (auto simp: launch_def Let_def split: if_splits)

lemma spawn_fresh_fails:
  "spawn_fresh cfg e sp s c b = (Inl err, b') \<Longrightarrow>
     started b' = started b \<and> next_pid b \<le> next_pid b'"
  by (auto simp: spawn_fresh_def Let_def dest!: launch_fails split: option.splits if_splits)

lemma spawn_fresh_ok:
  "spawn_fresh cfg e sp s c b = (Inr u, b') \<Longrightarrow>
     started b' = al_put (sp_id sp) (new_proxy sp s c b) (started b) \<and> next_pid b' = Suc (next_pid b)"
  by (auto simp: spawn_fresh_def Let_def new_proxy_def dest!: launch_ok split: option.splits if_splits)

definition keeps_private :: "bst \<Rightarrow> bst \<Rightarrow> bool" where
  "keeps_private b b' \<longleftrightarrow>
     (\<forall>d m. al_get (dir_modes b) d = Some m \<and> dir_mode_is_private m \<longrightarrow>
        (\<exists>m'. al_get (dir_modes b') d = Some m' \<and> dir_mode_is_private m'))"

definition spec_ok :: "BrokerConfig \<Rightarrow> bst \<Rightarrow> SandboxSpec \<Rightarrow> bool" where
  "spec_ok cfg b x \<longleftrightarrow>
     (\<exists>sp d m. is_safe_slug (sp_id sp) \<and> x = sandbox_spec cfg sp (socket_path cfg sp) \<and>
        path_parent (socket x) = Some d \<and> al_get (dir_modes b) d = Some m \<and> dir_mode_is_private m)"

lemma private_448: "dir_mode_is_private 448"
  by (simp add: dir_mode_is_private_def)

lemma mkdir_mode: "al_get (dir_modes (mkdir e d b)) d = Some (dir_mode d (mkdir e d b))"
  by (auto simp: mkdir_def dir_mode_def split: option.split)

lemma mkdir_keeps: "keeps_private b (mkdir e d b)"
  by (auto simp: keeps_private_def mkdir_def al.get_put split: option.split)

lemma chmod_keeps: "keeps_private b (b\<lparr>dir_modes := al_put d 448 (dir_modes b)\<rparr>)"
  by (auto simp: keeps_private_def al.get_put private_448)

lemma keeps_refl [simp]: "dir_modes b' = dir_modes b \<Longrightarrow> keeps_private b b'"
  by (simp add: keeps_private_def)

lemma keeps_trans: "keeps_private a b \<Longrightarrow> keeps_private b c \<Longrightarrow> keeps_private a c"
  by (fastforce simp: keeps_private_def)

lemma spec_ok_keeps: "spec_ok cfg b x \<Longrightarrow> keeps_private b b' \<Longrightarrow> spec_ok cfg b' x"
  by (fastforce simp: spec_ok_def keeps_private_def)

lemma launch_spawned:
  assumes "launch cfg e sp s c b = (r, b')"
  shows "dir_modes b' = dir_modes b \<and> set (spawned b') \<subseteq> insert (sandbox_spec cfg sp s) (set (spawned b))"
  using assms by (cases r) (auto dest: launch_ok launch_fails)

lemma spawn_fresh_specs:
  assumes "spawn_fresh cfg e sp s c b = (r, b')" "s = socket_path cfg sp" "is_safe_slug (sp_id sp)"
    and "\<forall>x \<in> set (spawned b). spec_ok cfg b x"
  shows "\<forall>x \<in> set (spawned b'). spec_ok cfg b' x"
proof (cases "path_parent s")
  case None
  with assms show ?thesis by (auto simp: spawn_fresh_def)
next
  case (Some d)
  define b1 where "b1 = mkdir e d b"
  have b1: "\<forall>x \<in> set (spawned b1). spec_ok cfg b1 x"
    using assms(4) spec_ok_keeps [OF _ mkdir_keeps [of b e d]] by (auto simp: b1_def)
  have go: "\<forall>x \<in> set (spawned b'). spec_ok cfg b' x"
    if l: "launch cfg e sp s c b2 = (r, b')" and b2: "\<forall>x \<in> set (spawned b2). spec_ok cfg b2 x"
      and m: "al_get (dir_modes b2) d = Some m" "dir_mode_is_private m" for b2 m
  proof
    fix x assume "x \<in> set (spawned b')"
    with launch_spawned [OF l] have "x = sandbox_spec cfg sp s \<or> x \<in> set (spawned b2)" by auto
    moreover have "spec_ok cfg b2 (sandbox_spec cfg sp s)"
      using m Some assms(2,3) by (auto simp: spec_ok_def sandbox_spec_def)
    ultimately have "spec_ok cfg b2 x" using b2 by auto
    then show "spec_ok cfg b' x" using launch_spawned [OF l] by (rule_tac spec_ok_keeps) auto
  qed
  let ?p = "dir_mode_is_private (dir_mode d b1)"
  consider (stop) "b' = b" | (stop1) "b' = b1"
    | (priv) "?p" "launch cfg e sp s c (remove_sock s b1) = (r, b')"
    | (chmod) "launch cfg e sp s c (remove_sock s (b1\<lparr>dir_modes := al_put d 448 (dir_modes b1)\<rparr>)) = (r, b')"
    using assms(1) Some by (auto simp: spawn_fresh_def Let_def b1_def split: if_splits)
  then show ?thesis
  proof cases
    case stop
    then show ?thesis using assms(4) by simp
  next
    case stop1
    then show ?thesis using b1 by simp
  next
    case priv
    show ?thesis
    proof (rule go [OF priv(2)])
      show "\<forall>x \<in> set (spawned (remove_sock s b1)). spec_ok cfg (remove_sock s b1) x"
        using b1 by (auto intro: spec_ok_keeps [OF _ keeps_refl])
      show "al_get (dir_modes (remove_sock s b1)) d = Some (dir_mode d b1)"
        using mkdir_mode [of e d b] by (simp add: b1_def)
      show "dir_mode_is_private (dir_mode d b1)" by (rule priv(1))
    qed
  next
    case chmod
    show ?thesis
    proof (rule go [OF chmod])
      show "\<forall>x \<in> set (spawned (remove_sock s (b1\<lparr>dir_modes := al_put d 448 (dir_modes b1)\<rparr>))).
          spec_ok cfg (remove_sock s (b1\<lparr>dir_modes := al_put d 448 (dir_modes b1)\<rparr>)) x"
        using b1 chmod_keeps [of b1 d] by (auto intro: spec_ok_keeps simp: keeps_private_def)
      show "al_get (dir_modes (remove_sock s (b1\<lparr>dir_modes := al_put d 448 (dir_modes b1)\<rparr>))) d = Some 448"
        by (simp add: al.get_put)
    qed (rule private_448)
  qed
qed

text \<open>Removing the stale entry first, as \<open>ensure_proxy\<close> does.\<close>

definition unstale :: "space \<Rightarrow> Proxy \<Rightarrow> bst \<Rightarrow> bst" where
  "unstale sp px b =
     wait (child px) (if running (child px) b then kill (child px) (b\<lparr>started := al_del (sp_id sp) (started b)\<rparr>)
       else b\<lparr>started := al_del (sp_id sp) (started b)\<rparr>)"

lemma unstale_simps [simp]:
  "started (unstale sp px b) = al_del (sp_id sp) (started b)" "next_pid (unstale sp px b) = next_pid b"
  "spawned (unstale sp px b) = spawned b" "dir_modes (unstale sp px b) = dir_modes b"
  by (simp_all add: unstale_def)

lemma ensure_proxy_cases:
  assumes "ensure_proxy cfg e sp s b = (r, b')"
  obtains (fresh) "al_get (started b) (sp_id sp) = None" "spawn_fresh cfg e sp s 0 b = (r, b')"
  | (shared) px where "al_get (started b) (sp_id sp) = Some px" "r = Inr ()"
      "b' = b\<lparr>started := al_put (sp_id sp) (px\<lparr>leases := leases px + 1\<rparr>) (started b)\<rparr>"
  | (stale) px where "al_get (started b) (sp_id sp) = Some px"
      "spawn_fresh cfg e sp s (leases px) (unstale sp px b) = (r, b')"
  using assms by (auto simp: ensure_proxy_def unstale_def Let_def split: option.splits if_splits)

lemma ensure_specs:
  assumes "ensure_proxy cfg e sp s b = (r, b')" "s = socket_path cfg sp" "is_safe_slug (sp_id sp)"
    and ok: "\<forall>x \<in> set (spawned b). spec_ok cfg b x"
  shows "\<forall>x \<in> set (spawned b'). spec_ok cfg b' x"
proof -
  have same: "\<forall>x \<in> set (spawned c). spec_ok cfg c x"
    if "spawned c = spawned b" "dir_modes c = dir_modes b" for c
    using ok that by (auto intro: spec_ok_keeps [OF _ keeps_refl])
  from assms(1) show ?thesis
  proof (cases rule: ensure_proxy_cases)
    case fresh
    then show ?thesis using spawn_fresh_specs [OF _ assms(2,3) ok] by blast
  next
    case (shared px)
    then show ?thesis by (intro same) simp_all
  next
    case (stale px)
    show ?thesis by (rule spawn_fresh_specs [OF stale(2) assms(2,3) same]) simp_all
  qed
qed

section \<open>Invariants\<close>

definition table_ok :: "BrokerConfig \<Rightarrow> bst \<Rightarrow> bool" where
  "table_ok cfg b \<longleftrightarrow>
     al.all_in (\<lambda>k px. is_safe_slug k \<and> child px < next_pid b \<and>
       px_socket px = path_join (path_join (path_join (run_dir cfg) k) GUI_SUBDIR) ''gui.sock'')
       (started b) \<and>
     (\<forall>k k' px px'. al_get (started b) k = Some px \<and> al_get (started b) k' = Some px' \<and>
        child px = child px' \<longrightarrow> k = k')"

definition leases_ok :: "bst \<Rightarrow> string list \<Rightarrow> bool" where
  "leases_ok b cs \<longleftrightarrow>
     al.all_in (\<lambda>k px. 1 \<le> leases px \<and> leases px \<le> count_list cs k) (started b)"

lemma table_ok_mono:
  assumes ok: "table_ok cfg b" and n: "next_pid b \<le> next_pid b'"
    and old: "\<And>k px. al_get (started b') k = Some px \<Longrightarrow>
      \<exists>px0. al_get (started b) k = Some px0 \<and> child px = child px0 \<and> px_socket px = px_socket px0"
  shows "table_ok cfg b'"
  unfolding table_ok_def al.all_in_def
proof (intro conjI allI impI)
  fix k px
  assume "al_get (started b') k = Some px"
  from old [OF this] obtain px0 where "al_get (started b) k = Some px0" "child px = child px0"
      "px_socket px = px_socket px0" by blast
  moreover from this(1) ok have "is_safe_slug k" "child px0 < next_pid b"
    "px_socket px0 = path_join (path_join (path_join (run_dir cfg) k) GUI_SUBDIR) ''gui.sock''"
    by (auto simp: table_ok_def al.all_in_def)
  ultimately show "is_safe_slug k" "child px < next_pid b'"
    "px_socket px = path_join (path_join (path_join (run_dir cfg) k) GUI_SUBDIR) ''gui.sock''"
    using n by simp_all
next
  fix k k' px px'
  assume "al_get (started b') k = Some px \<and> al_get (started b') k' = Some px' \<and> child px = child px'"
  then obtain px0 px1 where "al_get (started b) k = Some px0" "al_get (started b) k' = Some px1"
      "child px0 = child px1"
    using old [of k px] old [of k' px'] by auto
  then show "k = k'" using ok by (auto simp: table_ok_def)
qed

lemma leases_ok_mono:
  "\<lbrakk>leases_ok b cs; \<And>k px. al_get (started b') k = Some px \<Longrightarrow> al_get (started b) k = Some px;
    \<And>k. count_list cs k \<le> count_list cs' k\<rbrakk> \<Longrightarrow> leases_ok b' cs'"
  unfolding leases_ok_def al.all_in_def by (metis order_trans)

lemma table_ok_new:
  assumes "table_ok cfg b" "is_safe_slug (sp_id sp)" "s = socket_path cfg sp"
    "started b' = al_put (sp_id sp) (new_proxy sp s c b) (started b)" "next_pid b' = Suc (next_pid b)"
  shows "table_ok cfg b'"
  using assms unfolding table_ok_def al.all_in_def new_proxy_def socket_path_def
  by (intro conjI allI impI) (fastforce simp: al.get_put split: if_splits)+

lemma leases_ok_new:
  assumes "leases_ok b cs" "l \<le> count_list cs (sp_id sp)"
    "started b' = al_put (sp_id sp) (new_proxy sp s l b) (started b)"
  shows "leases_ok b' (sp_id sp # cs)"
  using assms unfolding leases_ok_def al.all_in_def new_proxy_def
  by (auto simp: al.get_put)

lemma unstale_ok:
  "table_ok cfg b \<Longrightarrow> table_ok cfg (unstale sp px b)"
  "leases_ok b cs \<Longrightarrow> leases_ok (unstale sp px b) cs"
  by (erule table_ok_mono leases_ok_mono; simp add: al.get_del split: if_splits)+

lemma ensure_table_ok:
  assumes "ensure_proxy cfg e sp s b = (r, b')" "table_ok cfg b" "is_safe_slug (sp_id sp)"
    "s = socket_path cfg sp"
  shows "table_ok cfg b'"
proof -
  have sf: "table_ok cfg b'" if "spawn_fresh cfg e sp s c b0 = (r, b')" "table_ok cfg b0" for c b0
  proof (cases r)
    case (Inl err)
    with that show ?thesis
      by (auto dest!: spawn_fresh_fails intro: table_ok_mono)
  next
    case (Inr u)
    with that show ?thesis
      using assms(3,4) by (auto dest!: spawn_fresh_ok intro: table_ok_new)
  qed
  from assms(1) show ?thesis
  proof (cases rule: ensure_proxy_cases)
    case fresh
    then show ?thesis using sf assms(2) by blast
  next
    case (shared px)
    then show ?thesis
      by (intro table_ok_mono [OF assms(2)]) (auto simp: al.get_put split: if_splits)
  next
    case (stale px)
    then show ?thesis using sf unstale_ok(1) assms(2) by blast
  qed
qed

lemma ensure_leases_ok:
  assumes "ensure_proxy cfg e sp s b = (r, b')" "leases_ok b cs"
  shows "leases_ok b' (if isl r then cs else sp_id sp # cs)"
proof -
  have sf: ?thesis
    if sp: "spawn_fresh cfg e sp s c b0 = (r, b')" and l: "leases_ok b0 cs" "c \<le> count_list cs (sp_id sp)"
    for c b0
  proof (cases r)
    case (Inl err)
    with sp l show ?thesis
      by (auto dest!: spawn_fresh_fails intro: leases_ok_mono)
  next
    case (Inr u)
    with sp l show ?thesis
      by (auto dest!: spawn_fresh_ok intro: leases_ok_new)
  qed
  from assms(1) show ?thesis
  proof (cases rule: ensure_proxy_cases)
    case fresh
    then show ?thesis using sf assms(2) by simp
  next
    case (shared px)
    then show ?thesis
      using assms(2) by (auto simp: leases_ok_def al.all_in_def al.get_put)
  next
    case (stale px)
    then have "leases px \<le> count_list cs (sp_id sp)"
      using assms(2) by (auto simp: leases_ok_def al.all_in_def)
    then show ?thesis using sf stale(2) unstale_ok(2) assms(2) by blast
  qed
qed

lemma release_table_ok: "table_ok cfg b \<Longrightarrow> table_ok cfg (release_proxy k b)"
  by (erule table_ok_mono) (auto simp: release_proxy_def Let_def al.get_put split: option.splits if_splits)

lemma count_list_remove1:
  "count_list (remove1 x xs) y = (if x = y then count_list xs y - 1 else count_list xs y)"
  by (induction xs) (auto simp: count_list_0_iff Suc_diff_1 neq0_conv [symmetric] simp del: neq0_conv)

lemma release_leases_ok:
  "leases_ok b cs \<Longrightarrow> k \<in> set cs \<Longrightarrow> leases_ok (release_proxy k b) (remove1 k cs)"
  unfolding leases_ok_def al.all_in_def
  by (auto simp: release_proxy_def Let_def al.get_put al.get_del count_list_remove1
      split: option.splits if_splits intro!: diff_le_mono)

definition sys_ok :: "BrokerConfig \<Rightarrow> sys \<Rightarrow> bool" where
  "sys_ok cfg s \<longleftrightarrow>
     table_ok cfg (br s) \<and> leases_ok (br s) (conns s) \<and> (\<forall>x \<in> set (spawned (br s)). spec_ok cfg (br s) x)"

lemma resolve_slug: "resolve toml src cid = Inr (Some sp) \<Longrightarrow> is_safe_slug (sp_id sp) \<and> sp_cid sp = cid"
  by (auto simp: resolve_def registry_parse_def registry_validate_def dest!: by_cid_in
      simp: validate_from_ok registry_ok_def list_all_iff split: sum.splits option.splits)

lemma handle_open_cases:
  assumes "handle_open cfg toml src e cid b = (r, b')"
  obtains (same) err where "r = Inl err" "b' = b"
  | (ensured) sp u where "is_safe_slug (sp_id sp)" "sp_cid sp = cid"
      "resolve toml src cid = Inr (Some sp)"
      "ensure_proxy cfg e sp (socket_path cfg sp) b = (u, b')" "isl u = isl r" "\<not> isl r \<Longrightarrow> r = Inr sp"
  using assms resolve_slug [of toml src cid]
  by (auto simp: handle_open_def split: sum.splits option.splits prod.splits)

lemma handle_open_ok:
  assumes "handle_open cfg toml src e cid (br s) = (r, b')" "sys_ok cfg s"
  shows "sys_ok cfg (s\<lparr>br := b', conns := (case r of Inl _ \<Rightarrow> conns s | Inr sp \<Rightarrow> sp_id sp # conns s)\<rparr>)"
  using assms(1)
proof (cases rule: handle_open_cases)
  case (same err)
  then show ?thesis using assms(2) by simp
next
  case (ensured sp u)
  then show ?thesis
    using assms(2) ensure_table_ok [OF ensured(4)] ensure_leases_ok [OF ensured(4)]
      ensure_specs [OF ensured(4)]
    by (cases r) (auto simp: sys_ok_def split: if_splits)
qed

lemma sys_ok_sub:
  assumes "sys_ok cfg s" "\<And>k px. al_get (started b) k = Some px \<Longrightarrow> al_get (started (br s)) k = Some px"
    "next_pid b = next_pid (br s)" "spawned b = spawned (br s)" "dir_modes b = dir_modes (br s)"
  shows "sys_ok cfg (s\<lparr>br := b\<rparr>)"
  using assms unfolding sys_ok_def
  by (auto intro: table_ok_mono leases_ok_mono spec_ok_keeps [OF _ keeps_refl])

lemma release_simps [simp]:
  "spawned (release_proxy k b) = spawned b" "dir_modes (release_proxy k b) = dir_modes b"
  by (auto simp: release_proxy_def Let_def split: option.split)

lemma sys_step_ok: "sys_step cfg toml s s' \<Longrightarrow> sys_ok cfg s \<Longrightarrow> sys_ok cfg s'"
proof (induction rule: sys_step.induct)
  case (opened src e cid s sp b)
  then show ?case using handle_open_ok [OF opened.hyps] by simp
next
  case (refused src e cid s err b)
  then show ?case using handle_open_ok [OF refused.hyps] by simp
next
  case (closed k s)
  then show ?case
    by (auto simp: sys_ok_def release_table_ok release_leases_ok intro: spec_ok_keeps [OF _ keeps_refl])
next
  case (watchdog s probe)
  then show ?case
    by (rule sys_ok_sub) (auto simp: reap_dead_proxies_def split: if_splits)
qed (auto elim: sys_ok_sub)

lemma reachable_ok: "reachable cfg toml s \<Longrightarrow> sys_ok cfg s"
  unfolding reachable_def
proof (induction rule: rtranclp_induct)
  case base
  show ?case
    by (simp add: sys_ok_def init_sys_def init_bst_def table_ok_def leases_ok_def al.all_in_def)
next
  case (step s t)
  then show ?case using sys_step_ok by blast
qed

section \<open>Properties\<close>

text \<open>A run for the examples: one space, a guest that connects, and an answer for every call.\<close>

definition ex_cfg :: BrokerConfig where
  "ex_cfg = \<lparr>run_dir = ''/run/miyorios'', cfg_waypipe = ''/usr/local/lib/miyorios/waypipe'',
     cfg_wayland_socket = ''/run/user/1000/wayland-1'', cfg_memory_max_mb = 512, cfg_tasks_max = 64,
     cfg_cpu_quota_pct = 50\<rparr>"

definition ex_toml :: "string \<Rightarrow> space list option" where
  "ex_toml src = Some [\<lparr>sp_id = ''w'', sp_cid = 4, sp_label = ''W'', sp_color = ''#00ff00''\<rparr>]"

definition ex_env :: "bool \<Rightarrow> env" where
  "ex_env up = \<lparr>e_mkdir = True, e_new_mode = 493, e_stat = True, e_chmod = True, e_spawn = True,
     e_polls = (\<lambda>i. up)\<rparr>"

definition ex_open :: "bool \<Rightarrow> sys \<Rightarrow> sys" where
  "ex_open up s =
     (case handle_open ex_cfg ex_toml [] (ex_env up) 4 (br s) of
        (Inl _, b) \<Rightarrow> s\<lparr>br := b\<rparr> | (Inr sp, b) \<Rightarrow> s\<lparr>br := b, conns := sp_id sp # conns s\<rparr>)"

definition ex_close :: "string \<Rightarrow> sys \<Rightarrow> sys" where
  "ex_close k s = s\<lparr>br := release_proxy k (br s), conns := remove1 k (conns s)\<rparr>"

definition ex_watchdog :: "sys \<Rightarrow> sys" where
  "ex_watchdog s = s\<lparr>br := reap_dead_proxies (\<lambda>cid. Some (Some ENODEV)) (br s)\<rparr>"

lemma ex_steps:
  "reachable ex_cfg ex_toml init_sys"
  "reachable ex_cfg ex_toml s \<Longrightarrow> reachable ex_cfg ex_toml (ex_open up s)"
  "reachable ex_cfg ex_toml s \<Longrightarrow> k \<in> set (conns s) \<Longrightarrow> reachable ex_cfg ex_toml (ex_close k s)"
  "reachable ex_cfg ex_toml s \<Longrightarrow> reachable ex_cfg ex_toml (ex_watchdog s)"
  by (auto simp: reachable_def ex_open_def ex_close_def ex_watchdog_def split: prod.split sum.split
      intro: rtranclp.rtrancl_into_rtrancl sys_step.intros)

lemma ex_opened:
  "conns (ex_open True init_sys) = [''w'']"
  "length (spawned (br (ex_open True init_sys))) = 1"
  "map_option child (al_get (started (br (ex_open True init_sys))) ''w'') = Some 1"
  by code_simp+

text \<open>
  C15.  The broker authenticates a guest by its CID alone: when a connection is
  accepted, the space it is attached to is the one entry of a valid registry that
  has the peer's CID, and a connection from a CID that no entry has is refused
  with nothing spawned, killed or created.
\<close>

theorem broker_authenticates:
  "(case handle_open cfg toml src e cid b of
      (Inr sp, b') \<Rightarrow>
        (\<exists>reg. registry_parse toml src = Inr reg \<and> {s \<in> set reg. sp_cid s = cid} = {sp})
    | (Inl (UnregisteredCid c), b') \<Rightarrow>
        c = cid \<and> b' = b \<and> (\<exists>reg. registry_parse toml src = Inr reg \<and> cid \<notin> sp_cid ` set reg)
    | (Inl (RegistryBroken err), b') \<Rightarrow> b' = b \<and> registry_parse toml src = Inl err
    | (Inl _, b') \<Rightarrow> True)"
proof -
  have uniq: "{s \<in> set reg. sp_cid s = cid} = {sp}"
    if "registry_parse toml src = Inr reg" "by_cid reg cid = Some sp" for reg sp
  proof -
    from that(1) have "distinct (map sp_cid reg)"
      by (auto simp: registry_parse_def registry_validate_def validate_from_ok registry_ok_def
          split: option.splits sum.splits)
    moreover from that(2) have "sp \<in> set reg" "sp_cid sp = cid" by (auto dest: by_cid_in)
    ultimately show ?thesis by (auto simp: distinct_map inj_on_def)
  qed
  have none: "cid \<notin> sp_cid ` set reg" if "by_cid reg cid = None" for reg
    using that by (auto simp: by_cid_def find_None_iff)
  have ens: "ensure_proxy cfg e sp f b \<noteq> (Inl (UnregisteredCid c), b')"
    "ensure_proxy cfg e sp f b \<noteq> (Inl (RegistryBroken g), b')" for sp f b' c g
    by (auto simp: ensure_proxy_def spawn_fresh_def launch_def Let_def split: option.splits if_splits)
  show ?thesis
    using ens uniq none
    by (auto simp: handle_open_def resolve_def split: prod.split sum.split option.split broker_error.split)
qed





lemma kill_get: "al_get (procs (kill p b)) q = map_option (\<lambda>r. r \<and> q \<noteq> p) (al_get (procs b) q)"
proof -
  have "map_of (map (\<lambda>(q, r). (q, r \<and> q \<noteq> p)) xs) q = map_option (\<lambda>r. r \<and> q \<noteq> p) (map_of xs q)" for xs
    by (induction xs) auto
  then show ?thesis by (simp add: kill_def al_get_def)
qed

lemma running_other: "p \<noteq> q \<Longrightarrow> running p (wait q (kill q b)) = running p b"
  using kill_get [of q b p]
  by (auto simp: running_def wait_def al.get_del kill_def)

lemma running_cong: "procs b' = procs b \<Longrightarrow> running p b' = running p b"
  by (simp add: running_def)

lemma slug_path:
  assumes "is_safe_slug k"
  shows "\<not> is_absolute k" "k \<noteq> []" "last k \<noteq> slash"
proof -
  have "slash \<notin> set k" "k \<noteq> []"
    using slug_no_char [OF assms, of slash] assms slug_byte_safe [of slash] by (auto simp: is_safe_slug_def)
  then show "k \<noteq> []" "\<not> is_absolute k" "last k \<noteq> slash"
    by (simp, simp add: not_absolute, metis last_in_set)
qed

lemma socket_of_slug:
  "is_safe_slug k \<Longrightarrow>
   path_join (path_join (path_join r k) GUI_SUBDIR) ''gui.sock'' = path_join r k @ ''/gui/gui.sock''"
  using slug_path [of k] path_join_not_Nil [of k r] last_path_join [of k r]
  by (simp add: path_join_rel GUI_SUBDIR_def)

lemma drop_proxy_other:
  assumes "table_ok cfg b" "al_get (started b) k' = Some px'" "k' \<noteq> k"
  shows "running (child px') (drop_proxy k b) = running (child px') b \<and>
    (px_socket px' \<in> set (socks (drop_proxy k b)) \<longleftrightarrow> px_socket px' \<in> set (socks b))"
proof (cases "al_get (started b) k")
  case None
  then show ?thesis by (simp add: drop_proxy_def)
next
  case (Some px)
  then have ch: "child px' \<noteq> child px"
    using assms unfolding table_ok_def by metis
  have "px_socket px' \<noteq> px_socket px"
  proof -
    have "is_safe_slug k" "is_safe_slug k'"
      "px_socket px = path_join (path_join (path_join (run_dir cfg) k) GUI_SUBDIR) ''gui.sock''"
      "px_socket px' = path_join (path_join (path_join (run_dir cfg) k') GUI_SUBDIR) ''gui.sock''"
      using assms Some unfolding table_ok_def al.all_in_def by blast+
    then show ?thesis
      using assms(3) slug_path(1) [of k] slug_path(1) [of k']
      by (simp add: socket_of_slug path_join_inject)
  qed
  moreover have "running (child px') (drop_proxy k b) = running (child px') b"
    using Some running_other [OF ch, of "b\<lparr>started := al_del k (started b)\<rparr>"]
    by (simp add: drop_proxy_def running_def remove_sock_def)
  ultimately show ?thesis using Some by (simp add: drop_proxy_def remove_sock_def kill_def wait_def)
qed

text \<open>
  When a lease ends, every other space keeps its proxy and its socket; and
  when it was the space's last lease, the proxy is out of the table, killed and
  waited for (no zombie is left) and its socket file is gone.
\<close>

theorem broker_release:
  assumes "reachable cfg toml s" "al_get (started (br s)) k = Some px"
  shows "(\<forall>k' px'. k' \<noteq> k \<and> al_get (started (br s)) k' = Some px' \<longrightarrow>
      al_get (started (release_proxy k (br s))) k' = Some px' \<and>
      running (child px') (release_proxy k (br s)) = running (child px') (br s) \<and>
      (px_socket px' \<in> set (socks (release_proxy k (br s))) \<longleftrightarrow> px_socket px' \<in> set (socks (br s))))
    \<and> (leases px = 1 \<longrightarrow>
      al_get (started (release_proxy k (br s))) k = None \<and>
      al_get (procs (release_proxy k (br s))) (child px) = None \<and>
      px_socket px \<notin> set (socks (release_proxy k (br s))))
    \<and> (leases px > 1 \<longrightarrow>
      al_get (started (release_proxy k (br s))) k = Some (px\<lparr>leases := leases px - 1\<rparr>) \<and>
      procs (release_proxy k (br s)) = procs (br s))"
proof -
  let ?b = "br s"
  define b1 where "b1 = ?b\<lparr>started := al_put k (px\<lparr>leases := leases px - 1\<rparr>) (started ?b)\<rparr>"
  have b1 [simp]: "started b1 = al_put k (px\<lparr>leases := leases px - 1\<rparr>) (started ?b)"
    "procs b1 = procs ?b" "socks b1 = socks ?b" "next_pid b1 = next_pid ?b"
    by (simp_all add: b1_def)
  have ok: "table_ok cfg ?b" using reachable_ok [OF assms(1)] by (simp add: sys_ok_def)
  then have ok1: "table_ok cfg b1"
    using assms(2) by (rule_tac table_ok_mono [OF ok]) (auto simp: al.get_put split: if_splits)
  have rel: "release_proxy k ?b = (if leases px > 1 then b1 else drop_proxy k b1)"
    using assms(2) by (simp add: release_proxy_def Let_def b1_def)
  have gone: "al_get (procs (drop_proxy k b1)) (child px) = None \<and>
      px_socket px \<notin> set (socks (drop_proxy k b1))"
    by (simp add: drop_proxy_def wait_def remove_sock_def al.get_del)
  have other: "al_get (started (release_proxy k ?b)) k' = Some px' \<and>
      running (child px') (release_proxy k ?b) = running (child px') ?b \<and>
      (px_socket px' \<in> set (socks (release_proxy k ?b)) \<longleftrightarrow> px_socket px' \<in> set (socks ?b))"
    if "k' \<noteq> k" "al_get (started ?b) k' = Some px'" for k' px'
    using that drop_proxy_other [OF ok1 _ that(1), of px'] running_cong [OF b1(2)]
    by (simp add: rel al.get_put)
  show ?thesis using other gone rel by (auto simp: al.get_put)
qed

theorem broker_release_witness:
  "al_get (procs (release_proxy ''w'' (br (ex_open True init_sys)))) 1 = None"
proof -
  obtain px where "al_get (started (br (ex_open True init_sys))) ''w'' = Some px"
      "child px = 1" "leases px = 1"
  proof -
    have "map_option (\<lambda>p. (child p, leases p)) (al_get (started (br (ex_open True init_sys))) ''w'') = Some (1, 1)"
      by code_simp
    then show ?thesis using that by auto
  qed
  with broker_release [OF ex_steps(2) [OF ex_steps(1)] this(1)] show ?thesis by simp
qed

text \<open>
  The leases are counted per space and not per proxy.  After the watchdog
  has removed the proxy of a dead guest, a new guest of the same space gets a new
  proxy with one lease, and the old connection, when it ends, gives that lease
  back: the new proxy is killed while its own connection is open.
\<close>

theorem broker_lease_of_other:
  "\<exists>s. reachable ex_cfg ex_toml s \<and> conns s = [''w'', ''w''] \<and>
     (\<exists>px. al_get (started (br s)) ''w'' = Some px \<and> leases px = 1 \<and> running (child px) (br s)) \<and>
     conns (ex_close ''w'' s) = [''w''] \<and> started (br (ex_close ''w'' s)) = [] \<and>
     procs (br (ex_close ''w'' s)) = []"
proof (intro exI conjI)
  let ?s = "ex_open True (ex_watchdog (ex_open True init_sys))"
  show "reachable ex_cfg ex_toml ?s" by (intro ex_steps)
  show "conns ?s = [''w'', ''w'']" by code_simp
  show "al_get (started (br ?s)) ''w'' = Some \<lparr>child = 2, leases = 1,
      px_socket = ''/run/miyorios/w/gui/gui.sock'', px_cid = 4\<rparr>" by code_simp
  show "running (child \<lparr>child = 2, leases = 1, px_socket = ''/run/miyorios/w/gui/gui.sock'',
      px_cid = 4\<rparr>) (br ?s)" by code_simp
  show "conns (ex_close ''w'' ?s) = [''w'']" "started (br (ex_close ''w'' ?s)) = []"
    "procs (br (ex_close ''w'' ?s)) = []" by code_simp+
qed simp

text \<open>
  When waypipe does not create its socket within the hundred polls, the
  connection is refused but the sandbox that was started stays: it runs, no entry
  of the table refers to it, and no operation of the broker will stop it.
\<close>

theorem broker_leaks_slow_proxy:
  "\<exists>s p. reachable ex_cfg ex_toml s \<and> conns s = [] \<and> started (br s) = [] \<and> running p (br s)"
proof (intro exI conjI)
  show "reachable ex_cfg ex_toml (ex_open False init_sys)" by (intro ex_steps)
  show "conns (ex_open False init_sys) = []" "started (br (ex_open False init_sys)) = []"
    "running 1 (br (ex_open False init_sys))" by code_simp+
qed

end
