(* ===== verification/Args.thy ===== *)
theory Args
  imports Utf8
begin

text \<open>
  What the entry points of the programs have in common: the errors of a command line,
  which ends with the first of them.
\<close>

datatype arg_error = NoValue string | UnknownArg string | BadValue string string

text \<open>\<open>args.next().context("... without a value")?\<close> and the rest of the loop.\<close>

definition with_value :: "string \<Rightarrow> string list \<Rightarrow> (string \<Rightarrow> string list \<Rightarrow> arg_error + 'a) \<Rightarrow> arg_error + 'a" where
  "with_value a rest f = (case rest of [] \<Rightarrow> Inl (NoValue a) | v # vs \<Rightarrow> f v vs)"

lemma with_value_simps [simp]:
  "with_value a [] f = Inl (NoValue a)" "with_value a (v # vs) f = f v vs"
  by (simp_all add: with_value_def)

lemma with_value_cong [fundef_cong]:
  assumes "a = b" "rest = rest'" "\<And>v vs. rest' = v # vs \<Longrightarrow> f v vs = g v vs"
  shows "with_value a rest f = with_value b rest' g"
  using assms by (cases rest') simp_all

end
