(* ===== verification/GuidMain.thy ===== *)
theory GuidMain
  imports Broker Args
begin

text \<open>
  \<open>components/guid/src/main.rs\<close> and \<open>peer.rs\<close>: the arguments and environment of the
  broker, and its accept loop.  A connection whose CID the kernel does not tell is
  closed; every other one is \<open>handle\<close>, which the model of the broker takes step by step.
\<close>

fun guid_args :: "string list \<Rightarrow> string \<times> nat \<Rightarrow> arg_error + string \<times> nat" where
  "guid_args [] c = Inr c"
| "guid_args (a # rest) c =
     (if a = ''--registry'' then with_value a rest (\<lambda>v vs. guid_args vs (v, snd c))
      else if a = ''--port'' then
        with_value a rest (\<lambda>v vs.
          case parse_u32 v of None \<Rightarrow> Inl (BadValue a v) | Some p \<Rightarrow> guid_args vs (fst c, p))
      else Inl (UnknownArg a))"

datatype guid_error = GuidArgs arg_error | NoRuntimeDir | NoDisplay | NotBound

text \<open>The compositor of the operator's session, and the limits of every proxy.\<close>

definition guid_config :: "(string \<Rightarrow> string option) \<Rightarrow> guid_error + BrokerConfig" where
  "guid_config env_var =
     (case env_var ''XDG_RUNTIME_DIR'' of
        None \<Rightarrow> Inl NoRuntimeDir
      | Some d \<Rightarrow>
          (case env_var ''WAYLAND_DISPLAY'' of
             None \<Rightarrow> Inl NoDisplay
           | Some n \<Rightarrow> Inr
               \<lparr>run_dir = ''/run/miyorios'', cfg_waypipe = ''/usr/local/lib/miyorios/waypipe'',
                cfg_wayland_socket = path_join d n, cfg_memory_max_mb = 512, cfg_tasks_max = 64,
                cfg_cpu_quota_pct = 50\<rparr>))"

text \<open>What \<open>accept\<close> and \<open>peer_addr\<close> give: the CID is the kernel's word.\<close>

datatype accepted = AcceptError | NoPeer | Peer nat

definition peer_cid :: "accepted \<Rightarrow> nat option" where
  "peer_cid a = (case a of Peer cid \<Rightarrow> Some cid | _ \<Rightarrow> None)"

text \<open>
  A connection, the registry as its handler reads it, and what the system answers to
  the handler.
\<close>

type_synonym arrival = "accepted \<times> string \<times> env"

definition arrive :: "BrokerConfig \<Rightarrow> (string \<Rightarrow> space list option) \<Rightarrow> arrival \<Rightarrow> sys \<Rightarrow> sys" where
  "arrive cfg toml a s =
     (case a of (conn, src, e) \<Rightarrow>
        (case peer_cid conn of
           None \<Rightarrow> s
         | Some cid \<Rightarrow>
             (case handle_open cfg toml src e cid (br s) of
                (Inl _, b) \<Rightarrow> s\<lparr>br := b\<rparr>
              | (Inr sp, b) \<Rightarrow> s\<lparr>br := b, conns := sp_id sp # conns s\<rparr>)))"

text \<open>The registry, the port and the state after these arrivals.\<close>

definition guid_main ::
  "string list \<Rightarrow> (string \<Rightarrow> string option) \<Rightarrow> bool \<Rightarrow> (string \<Rightarrow> space list option) \<Rightarrow> arrival list \<Rightarrow>
     guid_error + string \<times> nat \<times> sys" where
  "guid_main args env_var bound toml arrivals =
     (case guid_args args (''/etc/miyorios/spaces.toml'', 1700) of
        Inl e \<Rightarrow> Inl (GuidArgs e)
      | Inr (registry, port) \<Rightarrow>
          (case guid_config env_var of
             Inl e \<Rightarrow> Inl e
           | Inr cfg \<Rightarrow>
               if bound then Inr (registry, port, fold (arrive cfg toml) arrivals init_sys) else Inl NotBound))"

text \<open>The loop only takes steps of the broker, so what holds of its reachable states holds here.\<close>

lemma arrive_reachable: "reachable cfg toml s \<Longrightarrow> reachable cfg toml (arrive cfg toml a s)"
  by (auto simp: reachable_def arrive_def split: prod.split sum.split option.split
      intro: rtranclp.rtrancl_into_rtrancl sys_step.intros)

lemma arrivals_reachable:
  "reachable cfg toml s \<Longrightarrow> reachable cfg toml (fold (arrive cfg toml) arrivals s)"
  by (induction arrivals arbitrary: s) (simp_all add: arrive_reachable)

lemma guid_main_reachable:
  assumes "guid_main args env_var bound toml arrivals = Inr (registry, port, s)"
  shows "\<exists>cfg. guid_config env_var = Inr cfg \<and> reachable cfg toml s \<and> sys_ok cfg s"
proof -
  from assms obtain cfg where "guid_config env_var = Inr cfg" "s = fold (arrive cfg toml) arrivals init_sys"
    by (auto simp: guid_main_def split: sum.splits if_splits prod.splits)
  moreover have "reachable cfg toml s"
    unfolding calculation(2) by (rule arrivals_reachable) (simp add: reachable_def)
  ultimately show ?thesis using reachable_ok by blast
qed

text \<open>A peer the kernel does not name leaves no trace.\<close>

lemma unnamed_peer: "peer_cid conn = None \<Longrightarrow> arrive cfg toml (conn, src, e) s = s"
  by (simp add: arrive_def)

end
