(* ===== verification/DaemonTexts.thy ===== *)
theory DaemonTexts
  imports Utf8
begin

text \<open>
  The texts the daemon builds its refusals and reports from (\<open>ops.rs\<close>, \<open>agent.rs\<close>,
  \<open>control.rs\<close> and the frame reader), as \<open>Texts\<close>.
\<close>

section \<open>Texts of errors of the agent, as the daemon words them\<close>

definition TXT_D_TIMEOUT :: string where
  "TXT_D_TIMEOUT = from_chars
    [1072, 1075, 1077, 1085, 1090, 32, 1085, 1077, 32, 1086, 1090, 1074, 1077, 1090, 1080, 1083, 32,
     1079, 1072, 32, 1086, 1090, 1074, 1077, 1076, 1105, 1085, 1085, 1086, 1077, 32, 1074, 1088,
     1077, 1084, 1103]"

definition TXT_D_NONCE :: string where
  "TXT_D_NONCE = from_chars
    [1072, 1075, 1077, 1085, 1090, 32, 1086, 1090, 1074, 1077, 1090, 1080, 1083, 32, 1095, 1091,
     1078, 1080, 1084, 32, 110, 111, 110, 99, 101]"

section \<open>Texts of the refusals of the daemon\<close>

definition TXT_D_INTERNAL :: string where
  "TXT_D_INTERNAL = from_chars
    [1074, 1085, 1091, 1090, 1088, 1077, 1085, 1085, 1103, 1103, 32, 1086, 1096, 1080, 1073, 1082,
     1072, 32, 1076, 1077, 1084, 1086, 1085, 1072]"

definition TXT_D_EMPTY_PASS :: string where
  "TXT_D_EMPTY_PASS = from_chars
    [1087, 1072, 1088, 1086, 1083, 1100, 32, 1089, 1087, 1077, 1081, 1089, 1072, 32, 1085, 1077, 32,
     1084, 1086, 1078, 1077, 1090, 32, 1073, 1099, 1090, 1100, 32, 1087, 1091, 1089, 1090, 1099,
     1084]"

definition TXT_D_RESERVED :: string where
  "TXT_D_RESERVED = from_chars
    [34, 32, 1079, 1072, 1088, 1077, 1079, 1077, 1088, 1074, 1080, 1088, 1086, 1074, 1072, 1085, 32,
     1079, 1072, 32, 1089, 1077, 1090, 1077, 1074, 1086, 1081, 32, 86, 77]"

definition TXT_D_SPACE :: string where
  "TXT_D_SPACE = from_chars
    [1089, 1087, 1077, 1081, 1089, 32, 34]"

definition TXT_D_EXISTS :: string where
  "TXT_D_EXISTS = from_chars
    [34, 32, 1091, 1078, 1077, 32, 1089, 1091, 1097, 1077, 1089, 1090, 1074, 1091, 1077, 1090]"

definition TXT_D_NOT_FOUND :: string where
  "TXT_D_NOT_FOUND = from_chars
    [34, 32, 1085, 1077, 32, 1085, 1072, 1081, 1076, 1077, 1085]"

definition TXT_D_RUNNING :: string where
  "TXT_D_RUNNING = from_chars
    [34, 32, 1091, 1078, 1077, 32, 1079, 1072, 1087, 1091, 1097, 1077, 1085]"

definition TXT_D_STOPPED :: string where
  "TXT_D_STOPPED = from_chars
    [34, 32, 1085, 1077, 32, 1079, 1072, 1087, 1091, 1097, 1077, 1085]"

definition TXT_D_STOP_FIRST :: string where
  "TXT_D_STOP_FIRST = from_chars
    [34, 32, 1079, 1072, 1087, 1091, 1097, 1077, 1085, 44, 32, 1089, 1085, 1072, 1095, 1072, 1083,
     1072, 32, 115, 116, 111, 112]"

definition TXT_D_NO_BRIDGE :: string where
  "TXT_D_NO_BRIDGE = from_chars
    [1085, 1077, 1090, 32, 1084, 1086, 1089, 1090, 1072, 32, 34]"

definition TXT_D_FIXTURE :: string where
  "TXT_D_FIXTURE = from_chars
    [34, 58, 32, 1089, 1085, 1072, 1095, 1072, 1083, 1072, 32, 1087, 1086, 1076, 1085, 1080, 1084,
     1080, 32, 1092, 1080, 1082, 1089, 1090, 1091, 1088, 1091, 32, 8212, 32, 115, 117, 100, 111, 32,
     98, 97, 115, 104, 32, 99, 111, 109, 112, 111, 110, 101, 110, 116, 115, 47, 110, 101, 116, 47,
     110, 101, 116, 45, 102, 105, 120, 116, 117, 114, 101, 46, 115, 104, 32, 117, 112]"

definition TXT_D_TEMPLATE :: string where
  "TXT_D_TEMPLATE = from_chars
    [1096, 1072, 1073, 1083, 1086, 1085, 32]"

definition TXT_D_INCOMPLETE :: string where
  "TXT_D_INCOMPLETE = from_chars
    [32, 1086, 1090, 1089, 1091, 1090, 1089, 1090, 1074, 1091, 1077, 1090, 32, 1080, 1083, 1080, 32,
     1085, 1077, 1087, 1086, 1083, 1086, 1085]"

definition TXT_D_FOR_PROFILE :: string where
  "TXT_D_FOR_PROFILE = from_chars
    [1076, 1083, 1103, 32, 1087, 1088, 1086, 1092, 1080, 1083, 1103, 32, 34]"

definition TXT_D_NO_SINGLE :: string where
  "TXT_D_NO_SINGLE = from_chars
    [34, 32, 1085, 1077, 32, 1085, 1072, 1081, 1076, 1077, 1085, 32, 1088, 1086, 1074, 1085, 1086,
     32, 1086, 1076, 1080, 1085, 32, 1096, 1072, 1073, 1083, 1086, 1085, 32, 1074, 32]"

definition TXT_D_BUILD :: string where
  "TXT_D_BUILD = from_chars
    [59, 32, 1089, 1086, 1073, 1077, 1088, 1080, 58, 32, 98, 97, 115, 104, 32, 116, 111, 111, 108,
     115, 47, 98, 117, 105, 108, 100, 45, 112, 114, 111, 102, 105, 108, 101, 46, 115, 104, 32, 112,
     114, 111, 102, 105, 108, 101, 115, 47]"

definition TXT_D_NO_LATEST :: string where
  "TXT_D_NO_LATEST = from_chars
    [34, 32, 1085, 1077, 1090, 32, 108, 97, 116, 101, 115, 116, 32, 1074, 32]"

definition TXT_D_WRONG_PASS :: string where
  "TXT_D_WRONG_PASS = from_chars
    [1085, 1077, 1074, 1077, 1088, 1085, 1099, 1081, 32, 1087, 1072, 1088, 1086, 1083, 1100, 32,
     1089, 1087, 1077, 1081, 1089, 1072, 32, 34]"

definition TXT_D_QEMU :: string where
  "TXT_D_QEMU = from_chars
    [81, 69, 77, 85, 32, 1089, 1087, 1077, 1081, 1089, 1072, 32, 34]"

definition TXT_D_DIED_AT_ONCE :: string where
  "TXT_D_DIED_AT_ONCE = from_chars
    [34, 32, 1079, 1072, 1074, 1077, 1088, 1096, 1080, 1083, 1089, 1103, 32, 1089, 1088, 1072, 1079,
     1091, 32, 1087, 1086, 1089, 1083, 1077, 32, 1079, 1072, 1087, 1091, 1089, 1082, 1072, 59, 32,
     1087, 1088, 1080, 1095, 1080, 1085, 1072, 32, 1074, 32, 1078, 1091, 1088, 1085, 1072, 1083,
     1077, 32, 1087, 1086, 1089, 1083, 1077, 1076, 1085, 1077, 1075, 1086, 32, 1079, 1072, 1087,
     1091, 1089, 1082, 1072]"

definition TXT_D_DIED_STARTING :: string where
  "TXT_D_DIED_STARTING = from_chars
    [34, 32, 1091, 1084, 1077, 1088, 32, 1074, 1086, 32, 1074, 1088, 1077, 1084, 1103, 32, 1079,
     1072, 1087, 1091, 1089, 1082, 1072, 59, 32, 1087, 1088, 1080, 1095, 1080, 1085, 1072, 32, 1074,
     32, 1078, 1091, 1088, 1085, 1072, 1083, 1077, 32, 1087, 1086, 1089, 1083, 1077, 1076, 1085,
     1077, 1075, 1086, 32, 1079, 1072, 1087, 1091, 1089, 1082, 1072]"

definition TXT_D_NEEDS_PASS :: string where
  "TXT_D_NEEDS_PASS = from_chars
    [1089, 1087, 1077, 1081, 1089, 1091, 32, 1085, 1091, 1078, 1077, 1085, 32, 1087, 1072, 1088,
     1086, 1083, 1100]"

definition TXT_D_NOT_ENCRYPTED :: string where
  "TXT_D_NOT_ENCRYPTED = from_chars
    [1089, 1087, 1077, 1081, 1089, 32, 1085, 1077, 32, 1079, 1072, 1096, 1080, 1092, 1088, 1086,
     1074, 1072, 1085]"

definition TXT_D_NONCE_UNREAD :: string where
  "TXT_D_NONCE_UNREAD = from_chars
    [110, 111, 110, 99, 101, 32, 1089, 1087, 1077, 1081, 1089, 1072, 32, 1085, 1077, 32, 1095, 1080,
     1090, 1072, 1077, 1090, 1089, 1103, 58, 32]"

definition TXT_D_NO_WINDOW :: string where
  "TXT_D_NO_WINDOW = from_chars
    [1072, 1075, 1077, 1085, 1090, 32, 1086, 1090, 1082, 1072, 1079, 1072, 1083, 1089, 1103, 32,
     1086, 1090, 1082, 1088, 1099, 1074, 1072, 1090, 1100, 32, 1086, 1082, 1085, 1086]"

definition TXT_D_UNREACHABLE :: string where
  "TXT_D_UNREACHABLE = from_chars
    [1072, 1075, 1077, 1085, 1090, 32, 1085, 1077, 1076, 1086, 1089, 1090, 1080, 1078, 1080, 1084,
     58, 32]"

definition TXT_D_PROFILE :: string where
  "TXT_D_PROFILE = from_chars
    [1087, 1088, 1086, 1092, 1080, 1083, 1100, 32, 34]"

definition TXT_D_NO_DATA :: string where
  "TXT_D_NO_DATA = from_chars
    [1091, 32, 1087, 1088, 1086, 1092, 1080, 1083, 1103, 32, 100, 97, 116, 97, 95, 109, 98, 32, 61,
     32, 48, 58, 32, 1082, 1083, 1072, 1089, 1090, 1100, 32, 1087, 1088, 1080, 1089, 1083, 1072,
     1085, 1085, 1099, 1077, 32, 1092, 1072, 1081, 1083, 1099, 32, 1085, 1077, 1082, 1091, 1076,
     1072]"

definition TXT_D_RELATIVE :: string where
  "TXT_D_RELATIVE = from_chars
    [34, 32, 1076, 1086, 1083, 1078, 1077, 1085, 32, 1073, 1099, 1090, 1100, 32, 1072, 1073, 1089,
     1086, 1083, 1102, 1090, 1085, 1099, 1084, 32, 1087, 1091, 1090, 1105, 1084]"

definition TXT_D_NOT_DIR :: string where
  "TXT_D_NOT_DIR = from_chars
    [34, 32, 1085, 1077, 32, 1103, 1074, 1083, 1103, 1077, 1090, 1089, 1103, 32, 1082, 1072, 1090,
     1072, 1083, 1086, 1075, 1086, 1084]"

definition TXT_D_MISSING :: string where
  "TXT_D_MISSING = from_chars
    [34, 32, 1085, 1077, 32, 1089, 1091, 1097, 1077, 1089, 1090, 1074, 1091, 1077, 1090]"

section \<open>Texts of the report about an application\<close>

definition TXT_D_APP_DIED :: string where
  "TXT_D_APP_DIED = from_chars
    [113, 101, 109, 117, 32, 1085, 1077, 32, 1076, 1086, 1078, 1080, 1083, 32, 1076, 1086, 32, 1086,
     1090, 1074, 1077, 1090, 1072, 32, 1072, 1075, 1077, 1085, 1090, 1072]"

definition TXT_D_APP_NO_ANSWER :: string where
  "TXT_D_APP_NO_ANSWER = from_chars
    [1072, 1075, 1077, 1085, 1090, 32, 1085, 1077, 32, 1086, 1090, 1074, 1077, 1090, 1080, 1083, 32,
     1079, 1072, 32, 1086, 1090, 1074, 1077, 1076, 1105, 1085, 1085, 1086, 1077, 32, 1074, 1088,
     1077, 1084, 1103, 58, 32]"

definition TXT_D_APP_REFUSED :: string where
  "TXT_D_APP_REFUSED = from_chars
    [1072, 1075, 1077, 1085, 1090, 32, 1086, 1090, 1082, 1072, 1079, 1072, 1083, 1089, 1103, 32,
     1079, 1072, 1087, 1091, 1089, 1082, 1072, 1090, 1100, 32, 1087, 1088, 1080, 1083, 1086, 1078,
     1077, 1085, 1080, 1077]"

definition TXT_D_APP_FAILED :: string where
  "TXT_D_APP_FAILED = from_chars
    [1085, 1077, 32, 1091, 1076, 1072, 1083, 1086, 1089, 1100, 32, 1079, 1072, 1087, 1091, 1089,
     1090, 1080, 1090, 1100, 32, 1087, 1088, 1080, 1083, 1086, 1078, 1077, 1085, 1080, 1077, 58, 32]"

section \<open>Texts of the refusals of a frame\<close>

definition TXT_D_READ :: string where
  "TXT_D_READ = from_chars
    [1086, 1096, 1080, 1073, 1082, 1072, 32, 1095, 1090, 1077, 1085, 1080, 1103, 32, 1082, 1072,
     1076, 1088, 1072]"

definition TXT_D_CLOSED :: string where
  "TXT_D_CLOSED = from_chars
    [1089, 1086, 1077, 1076, 1080, 1085, 1077, 1085, 1080, 1077, 32, 1079, 1072, 1082, 1088, 1099,
     1083, 1086, 1089, 1100, 32, 1076, 1086, 32, 1079, 1072, 1074, 1077, 1088, 1096, 1077, 1085,
     1080, 1103, 32, 1089, 1090, 1088, 1086, 1082, 1080, 32, 1089, 1080, 1084, 1074, 1086, 1083,
     1086, 1084, 32, 92, 110]"

definition TXT_D_LIMIT :: string where
  "TXT_D_LIMIT = from_chars
    [1082, 1072, 1076, 1088, 32, 1087, 1088, 1077, 1074, 1099, 1096, 1072, 1077, 1090, 32, 1083,
     1080, 1084, 1080, 1090, 32]"

definition TXT_D_BYTES :: string where
  "TXT_D_BYTES = from_chars
    [32, 1073, 1072, 1081, 1090]"

definition TXT_D_CONTROL :: string where
  "TXT_D_CONTROL = from_chars
    [1082, 1072, 1076, 1088, 32, 1089, 1086, 1076, 1077, 1088, 1078, 1080, 1090, 32, 1079, 1072,
     1087, 1088, 1077, 1097, 1105, 1085, 1085, 1099, 1081, 32, 1091, 1087, 1088, 1072, 1074, 1083,
     1103, 1102, 1097, 1080, 1081, 32, 1073, 1072, 1081, 1090, 32, 48, 120]"

definition TXT_D_UTF8 :: string where
  "TXT_D_UTF8 = from_chars
    [1082, 1072, 1076, 1088, 32, 1085, 1077, 32, 1103, 1074, 1083, 1103, 1077, 1090, 1089, 1103, 32,
     1082, 1086, 1088, 1088, 1077, 1082, 1090, 1085, 1099, 1084, 32, 85, 84, 70, 45, 56]"

definition TXT_D_NOT_JSON :: string where
  "TXT_D_NOT_JSON = from_chars
    [1079, 1072, 1087, 1088, 1086, 1089, 32, 1085, 1077, 32, 1103, 1074, 1083, 1103, 1077, 1090,
     1089, 1103, 32, 1082, 1086, 1088, 1088, 1077, 1082, 1090, 1085, 1099, 1084, 32, 74, 83, 79, 78,
     58, 32]"

definition TXT_D_OP :: string where
  "TXT_D_OP = from_chars
    [1086, 1087, 1077, 1088, 1072, 1094, 1080, 1103, 32]"

definition TXT_D_UNKNOWN :: string where
  "TXT_D_UNKNOWN = from_chars
    [32, 1085, 1077, 1080, 1079, 1074, 1077, 1089, 1090, 1085, 1072]"

definition TXT_D_BAD_REQUEST :: string where
  "TXT_D_BAD_REQUEST = from_chars
    [1085, 1077, 1082, 1086, 1088, 1088, 1077, 1082, 1090, 1085, 1099, 1081, 32, 1079, 1072, 1087,
     1088, 1086, 1089, 58, 32]"

lemmas daemon_texts =
  TXT_D_TIMEOUT_def TXT_D_NONCE_def TXT_D_INTERNAL_def TXT_D_EMPTY_PASS_def TXT_D_RESERVED_def
  TXT_D_SPACE_def TXT_D_EXISTS_def TXT_D_NOT_FOUND_def TXT_D_RUNNING_def TXT_D_STOPPED_def
  TXT_D_STOP_FIRST_def TXT_D_NO_BRIDGE_def TXT_D_FIXTURE_def TXT_D_TEMPLATE_def TXT_D_INCOMPLETE_def
  TXT_D_FOR_PROFILE_def TXT_D_NO_SINGLE_def TXT_D_BUILD_def TXT_D_NO_LATEST_def TXT_D_WRONG_PASS_def
  TXT_D_QEMU_def TXT_D_DIED_AT_ONCE_def TXT_D_DIED_STARTING_def TXT_D_NEEDS_PASS_def
  TXT_D_NOT_ENCRYPTED_def TXT_D_NONCE_UNREAD_def TXT_D_NO_WINDOW_def TXT_D_UNREACHABLE_def
  TXT_D_PROFILE_def TXT_D_NO_DATA_def TXT_D_RELATIVE_def TXT_D_NOT_DIR_def TXT_D_MISSING_def
  TXT_D_APP_DIED_def TXT_D_APP_NO_ANSWER_def TXT_D_APP_REFUSED_def TXT_D_APP_FAILED_def
  TXT_D_READ_def TXT_D_CLOSED_def TXT_D_LIMIT_def TXT_D_BYTES_def TXT_D_CONTROL_def TXT_D_UTF8_def
  TXT_D_NOT_JSON_def TXT_D_OP_def TXT_D_UNKNOWN_def TXT_D_BAD_REQUEST_def

end
