(* ===== verification/Texts.thy ===== *)
theory Texts
  imports Utf8
begin

text \<open>
  The Russian texts of the program, as lists of Unicode scalar values: a string of
  the model is its UTF-8 bytes, which \<open>from_chars\<close> gives.
\<close>

section \<open>Texts of the label bar\<close>

definition TXT_HOST :: string where
  "TXT_HOST = from_chars
    [1093, 1086, 1089, 1090]"

definition TXT_SPACE :: string where
  "TXT_SPACE = from_chars
    [1089, 1087, 1077, 1081, 1089, 32]"

definition TXT_NO_SPACE :: string where
  "TXT_NO_SPACE = from_chars
    [1086, 1082, 1085, 1086, 32, 1073, 1077, 1079, 32, 1089, 1087, 1077, 1081, 1089, 1072, 58, 32]"

definition TXT_UNKNOWN_TO_DAEMON :: string where
  "TXT_UNKNOWN_TO_DAEMON = from_chars
    [32, 1076, 1077, 1084, 1086, 1085, 1091, 32, 1085, 1077, 1080, 1079, 1074, 1077, 1089, 1090,
     1077, 1085]"

definition TXT_CLAIMS :: string where
  "TXT_CLAIMS = from_chars
    [1086, 1082, 1085, 1086, 32, 1079, 1072, 1103, 1074, 1083, 1103, 1077, 1090, 32, 1089, 1087,
     1077, 1081, 1089, 32]"

definition TXT_NO_CHECK :: string where
  "TXT_NO_CHECK = from_chars
    [44, 32, 1087, 1088, 1086, 1074, 1077, 1088, 1080, 1090, 1100, 32, 1085, 1077, 1095, 1077, 1084]"

definition TXT_FOCUS_UNKNOWN :: string where
  "TXT_FOCUS_UNKNOWN = from_chars
    [1092, 1086, 1082, 1091, 1089, 32, 1077, 1097, 1105, 32, 1085, 1077, 32, 1086, 1087, 1088, 1077,
     1076, 1077, 1083, 1105, 1085]"

definition TXT_LIST_NOT_ARRAY :: string where
  "TXT_LIST_NOT_ARRAY = from_chars
    [108, 105, 115, 116, 32, 1074, 1077, 1088, 1085, 1091, 1083, 32, 1085, 1077, 32, 1084, 1072,
     1089, 1089, 1080, 1074]"

definition TXT_SPACE_NO_FIELD :: string where
  "TXT_SPACE_NO_FIELD = from_chars
    [1089, 1087, 1077, 1081, 1089, 32, 1073, 1077, 1079, 32, 1087, 1086, 1083, 1103, 32]"

definition TXT_ALL_CLOSED :: string where
  "TXT_ALL_CLOSED = from_chars
    [1074, 1089, 1077, 32, 1087, 1086, 1074, 1077, 1088, 1093, 1085, 1086, 1089, 1090, 1080, 32,
     1087, 1086, 1083, 1086, 1089, 1099, 32, 1079, 1072, 1082, 1088, 1099, 1090, 1099, 32, 1082,
     1086, 1084, 1087, 1086, 1079, 1080, 1090, 1086, 1088, 1086, 1084]"

definition TXT_NIRI_ENDED :: string where
  "TXT_NIRI_ENDED = from_chars
    [110, 105, 114, 105, 32, 109, 115, 103, 32, 101, 118, 101, 110, 116, 45, 115, 116, 114, 101, 97,
     109, 58, 32, 1087, 1086, 1090, 1086, 1082, 32, 1089, 1086, 1073, 1099, 1090, 1080, 1081, 32,
     1079, 1072, 1082, 1086, 1085, 1095, 1080, 1083, 1089, 1103]"

section \<open>Texts of the agent in the guest\<close>

definition TXT_UNMOUNTED :: string where
  "TXT_UNMOUNTED = from_chars
    [1090, 1086, 1084, 32, 1086, 1090, 1084, 1086, 1085, 1090, 1080, 1088, 1086, 1074, 1072, 1085]"

definition TXT_NOT_UNMOUNTED :: string where
  "TXT_NOT_UNMOUNTED = from_chars
    [1085, 1077, 32, 1091, 1076, 1072, 1083, 1086, 1089, 1100, 32, 1086, 1090, 1084, 1086, 1085,
     1090, 1080, 1088, 1086, 1074, 1072, 1090, 1100, 32, 47, 100, 97, 116, 97]"

definition TXT_BAD_REQUEST :: string where
  "TXT_BAD_REQUEST = from_chars
    [1085, 1077, 1088, 1072, 1089, 1087, 1086, 1079, 1085, 1072, 1085, 1085, 1099, 1081, 32, 1079,
     1072, 1087, 1088, 1086, 1089, 32, 1086, 1090, 32, 1093, 1086, 1089, 1090, 1072]"

section \<open>Texts of the replies of the daemon\<close>

definition TXT_LEVEL_UNKNOWN :: string where
  "TXT_LEVEL_UNKNOWN = from_chars
    [1085, 1077, 1080, 1079, 1074, 1077, 1089, 1090, 1077, 1085]"

definition TXT_MANIFEST_UNREAD :: string where
  "TXT_MANIFEST_UNREAD = from_chars
    [1084, 1072, 1085, 1080, 1092, 1077, 1089, 1090, 32, 1087, 1088, 1086, 1092, 1080, 1083, 1103,
     32, 1085, 1077, 32, 1095, 1080, 1090, 1072, 1077, 1090, 1089, 1103]"

definition TXT_WINDOW_OPENED :: string where
  "TXT_WINDOW_OPENED = from_chars
    [1086, 1082, 1085, 1086, 32, 1086, 1090, 1082, 1088, 1099, 1090, 1086]"

definition TXT_UP_TO_DATE :: string where
  "TXT_UP_TO_DATE = from_chars
    [1089, 1087, 1077, 1081, 1089, 32, 1091, 1078, 1077, 32, 1085, 1072, 32, 1090, 1077, 1082, 1091,
     1097, 1077, 1084, 32, 1086, 1073, 1088, 1072, 1079, 1077]"

definition TXT_UPDATED :: string where
  "TXT_UPDATED = from_chars
    [1086, 1073, 1088, 1072, 1079, 32, 1086, 1073, 1085, 1086, 1074, 1083, 1105, 1085, 44, 32, 47,
     100, 97, 116, 97, 32, 1085, 1077, 32, 1090, 1088, 1086, 1085, 1091, 1090]"

definition TXT_COUNTERS :: string where
  "TXT_COUNTERS = from_chars
    [1085, 1077, 1076, 1086, 1089, 1090, 1091, 1087, 1085, 1099, 32, 1089, 32, 1093, 1086, 1089,
     1090, 1072]"

definition TXT_NOT_CONFIRMED :: string where
  "TXT_NOT_CONFIRMED = from_chars
    [1072, 1075, 1077, 1085, 1090, 32, 1085, 1077, 32, 1087, 1086, 1076, 1090, 1074, 1077, 1088,
     1076, 1080, 1083, 32, 1088, 1072, 1079, 1084, 1086, 1085, 1090, 1080, 1088, 1086, 1074, 1072,
     1085, 1080, 1077, 32, 1090, 1086, 1084, 1072]"

section \<open>Texts of the views of the manager\<close>

definition TXT_NOT_SPACES :: string where
  "TXT_NOT_SPACES = from_chars
    [1076, 1077, 1084, 1086, 1085, 32, 1074, 1077, 1088, 1085, 1091, 1083, 32, 1085, 1077, 1086,
     1078, 1080, 1076, 1072, 1085, 1085, 1099, 1081, 32, 1086, 1090, 1074, 1077, 1090, 32, 1074,
     1084, 1077, 1089, 1090, 1086, 32, 1089, 1087, 1080, 1089, 1082, 1072, 32, 1089, 1087, 1077,
     1081, 1089, 1086, 1074]"

definition TXT_BAD_SPACE :: string where
  "TXT_BAD_SPACE = from_chars
    [1076, 1077, 1084, 1086, 1085, 32, 1087, 1088, 1080, 1089, 1083, 1072, 1083, 32, 1089, 1087,
     1077, 1081, 1089, 32, 1073, 1077, 1079, 32, 1086, 1073, 1103, 1079, 1072, 1090, 1077, 1083,
     1100, 1085, 1086, 1075, 1086, 32, 1087, 1086, 1083, 1103]"

definition TXT_NOT_PROFILES :: string where
  "TXT_NOT_PROFILES = from_chars
    [1076, 1077, 1084, 1086, 1085, 32, 1074, 1077, 1088, 1085, 1091, 1083, 32, 1085, 1077, 1086,
     1078, 1080, 1076, 1072, 1085, 1085, 1099, 1081, 32, 1086, 1090, 1074, 1077, 1090, 32, 1074,
     1084, 1077, 1089, 1090, 1086, 32, 1089, 1087, 1080, 1089, 1082, 1072, 32, 1087, 1088, 1086,
     1092, 1080, 1083, 1077, 1081]"

definition TXT_BAD_PROFILE :: string where
  "TXT_BAD_PROFILE = from_chars
    [1076, 1077, 1084, 1086, 1085, 32, 1087, 1088, 1080, 1089, 1083, 1072, 1083, 32, 1087, 1088,
     1086, 1092, 1080, 1083, 1100, 32, 1073, 1077, 1079, 32, 1086, 1073, 1103, 1079, 1072, 1090,
     1077, 1083, 1100, 1085, 1086, 1075, 1086, 32, 1087, 1086, 1083, 1103]"

definition TXT_NOT_DETAIL :: string where
  "TXT_NOT_DETAIL = from_chars
    [1076, 1077, 1084, 1086, 1085, 32, 1074, 1077, 1088, 1085, 1091, 1083, 32, 1085, 1077, 1086,
     1078, 1080, 1076, 1072, 1085, 1085, 1099, 1081, 32, 1086, 1090, 1074, 1077, 1090, 32, 1074,
     1084, 1077, 1089, 1090, 1086, 32, 1086, 1087, 1080, 1089, 1072, 1085, 1080, 1103, 32, 1089,
     1087, 1077, 1081, 1089, 1072]"

definition TXT_NOT_NET :: string where
  "TXT_NOT_NET = from_chars
    [1076, 1077, 1084, 1086, 1085, 32, 1074, 1077, 1088, 1085, 1091, 1083, 32, 1085, 1077, 1086,
     1078, 1080, 1076, 1072, 1085, 1085, 1099, 1081, 32, 1086, 1090, 1074, 1077, 1090, 32, 1074,
     1084, 1077, 1089, 1090, 1086, 32, 1089, 1090, 1072, 1090, 1091, 1089, 1072, 32, 1089, 1077,
     1090, 1080]"

definition TXT_DASH :: string where
  "TXT_DASH = from_chars
    [8212]"

definition KEY_PROFILE :: string where
  "KEY_PROFILE = from_chars
    [1055, 1088, 1086, 1092, 1080, 1083, 1100]"

definition KEY_DESCRIPTION :: string where
  "KEY_DESCRIPTION = from_chars
    [1054, 1087, 1080, 1089, 1072, 1085, 1080, 1077]"

definition KEY_STATE :: string where
  "KEY_STATE = from_chars
    [1057, 1086, 1089, 1090, 1086, 1103, 1085, 1080, 1077]"

definition KEY_CREATED :: string where
  "KEY_CREATED = from_chars
    [1057, 1086, 1079, 1076, 1072, 1085]"

definition KEY_APP :: string where
  "KEY_APP = from_chars
    [1055, 1088, 1080, 1083, 1086, 1078, 1077, 1085, 1080, 1077]"

definition KEY_TEMPLATE :: string where
  "KEY_TEMPLATE = from_chars
    [1064, 1072, 1073, 1083, 1086, 1085]"

definition KEY_MANIFEST :: string where
  "KEY_MANIFEST = from_chars
    [1052, 1072, 1085, 1080, 1092, 1077, 1089, 1090]"

definition KEY_NETWORK :: string where
  "KEY_NETWORK = from_chars
    [1057, 1077, 1090, 1100]"

definition KEY_LEVEL :: string where
  "KEY_LEVEL = from_chars
    [1059, 1088, 1086, 1074, 1077, 1085, 1100, 32, 1080, 1079, 1086, 1083, 1103, 1094, 1080, 1080]"

definition KEY_MEMORY :: string where
  "KEY_MEMORY = from_chars
    [1055, 1072, 1084, 1103, 1090, 1100]"

definition KEY_DATA :: string where
  "KEY_DATA = from_chars
    [1058, 1086, 1084, 32, 1076, 1072, 1085, 1085, 1099, 1093]"

definition KEY_DISK :: string where
  "KEY_DISK = from_chars
    [1044, 1080, 1089, 1082]"

definition KEY_ENCRYPTION :: string where
  "KEY_ENCRYPTION = from_chars
    [1064, 1080, 1092, 1088, 1086, 1074, 1072, 1085, 1080, 1077, 32, 1076, 1080, 1089, 1082, 1072]"

definition KEY_UPTIME :: string where
  "KEY_UPTIME = from_chars
    [1042, 1088, 1077, 1084, 1103, 32, 1088, 1072, 1073, 1086, 1090, 1099]"

definition KEY_CLEAN :: string where
  "KEY_CLEAN = from_chars
    [1063, 1080, 1089, 1090, 1099, 1081, 32, 1086, 1089, 1090, 1072, 1085, 1086, 1074]"

definition TXT_MIDDOT :: string where
  "TXT_MIDDOT = from_chars
    [32, 183, 32]"

definition TXT_REDUCED_NO_REASON :: string where
  "TXT_REDUCED_NO_REASON = from_chars
    [114, 101, 100, 117, 99, 101, 100, 32, 8212, 32, 1087, 1088, 1080, 1095, 1080, 1085, 1072, 32,
     1085, 1077, 32, 1091, 1082, 1072, 1079, 1072, 1085, 1072, 32, 1074, 32, 1084, 1072, 1085, 1080,
     1092, 1077, 1089, 1090, 1077]"

definition TXT_REDUCED :: string where
  "TXT_REDUCED = from_chars
    [114, 101, 100, 117, 99, 101, 100, 32, 8212, 32]"

definition TXT_ORDERED :: string where
  "TXT_ORDERED = from_chars
    [1079, 1072, 1082, 1072, 1079, 1072, 1085, 1086, 32]"

definition TXT_ACTUAL :: string where
  "TXT_ACTUAL = from_chars
    [32, 183, 32, 1092, 1072, 1082, 1090, 1080, 1095, 1077, 1089, 1082, 1080, 32]"

definition TXT_MIB :: string where
  "TXT_MIB = from_chars
    [32, 1052, 1080, 1041]"

definition TXT_FILE :: string where
  "TXT_FILE = from_chars
    [32, 183, 32, 1092, 1072, 1081, 1083, 32]"

definition TXT_YES :: string where
  "TXT_YES = from_chars
    [1076, 1072]"

definition TXT_NO :: string where
  "TXT_NO = from_chars
    [1085, 1077, 1090]"

definition TXT_GIB :: string where
  "TXT_GIB = from_chars
    [32, 1043, 1080, 1041]"

definition TXT_HOURS :: string where
  "TXT_HOURS = from_chars
    [32, 1095, 32]"

definition TXT_MIN :: string where
  "TXT_MIN = from_chars
    [32, 1084, 1080, 1085]"

definition TXT_MINUTES :: string where
  "TXT_MINUTES = from_chars
    [32, 1084, 1080, 1085, 32]"

definition TXT_SEC :: string where
  "TXT_SEC = from_chars
    [32, 1089]"

definition TXT_NEVER_STOPPED :: string where
  "TXT_NEVER_STOPPED = from_chars
    [1077, 1097, 1105, 32, 1085, 1077, 32, 1086, 1089, 1090, 1072, 1085, 1072, 1074, 1083, 1080,
     1074, 1072, 1083, 1080]"

definition KEY_BRIDGE :: string where
  "KEY_BRIDGE = from_chars
    [1052, 1086, 1089, 1090, 32]"

definition TXT_ISOLATED :: string where
  "TXT_ISOLATED = from_chars
    [1080, 1079, 1086, 1083, 1080, 1088, 1086, 1074, 1072, 1085]"

definition TXT_NOT_ISOLATED :: string where
  "TXT_NOT_ISOLATED = from_chars
    [1085, 1077, 32, 1080, 1079, 1086, 1083, 1080, 1088, 1086, 1074, 1072, 1085]"

definition KEY_PCI :: string where
  "KEY_PCI = from_chars
    [1040, 1087, 1083, 1080, 1085, 1082, 32, 80, 67, 73]"

definition TXT_DRIVER :: string where
  "TXT_DRIVER = from_chars
    [32, 183, 32, 1076, 1088, 1072, 1081, 1074, 1077, 1088, 32]"

definition TXT_PLUGGED :: string where
  "TXT_PLUGGED = from_chars
    [1087, 1086, 1076, 1082, 1083, 1102, 1095, 1077, 1085]"

definition TXT_NOT_PLUGGED :: string where
  "TXT_NOT_PLUGGED = from_chars
    [1085, 1077, 32, 1087, 1086, 1076, 1082, 1083, 1102, 1095, 1077, 1085]"

definition TXT_UP :: string where
  "TXT_UP = from_chars
    [1087, 1086, 1076, 1085, 1103, 1090]"

definition TXT_NOT_UP :: string where
  "TXT_NOT_UP = from_chars
    [1085, 1077, 32, 1087, 1086, 1076, 1085, 1103, 1090]"

definition KEY_NET_UPLINK :: string where
  "KEY_NET_UPLINK = from_chars
    [109, 105, 121, 111, 114, 105, 45, 110, 101, 116, 32, 1072, 1087, 1083, 1080, 1085, 1082]"

definition KEY_NET_TUNNEL :: string where
  "KEY_NET_TUNNEL = from_chars
    [109, 105, 121, 111, 114, 105, 45, 110, 101, 116, 32, 1090, 1091, 1085, 1085, 1077, 1083, 1100]"

definition KEY_KILLSWITCH :: string where
  "KEY_KILLSWITCH = from_chars
    [1057, 1095, 1105, 1090, 1095, 1080, 1082, 1080, 32, 107, 105, 108, 108, 45, 115, 119, 105, 116,
     99, 104]"

definition TXT_NO_RULESET :: string where
  "TXT_NO_RULESET = from_chars
    [114, 117, 108, 101, 115, 101, 116, 32, 1085, 1077, 1076, 1086, 1089, 1090, 1091, 1087, 1077,
     1085, 32, 1076, 1083, 1103, 32, 1095, 1090, 1077, 1085, 1080, 1103]"

definition TXT_SHOWN :: string where
  "TXT_SHOWN = from_chars
    [1087, 1086, 1082, 1072, 1079, 1072, 1085, 1086, 32]"

definition TXT_OF :: string where
  "TXT_OF = from_chars
    [32, 1080, 1079, 32]"

definition TXT_CHARS_CUT :: string where
  "TXT_CHARS_CUT = from_chars
    [32, 1089, 1080, 1084, 1074, 1086, 1083, 1086, 1074, 32, 8212, 32, 114, 117, 108, 101, 115, 101,
     116, 32, 1086, 1073, 1088, 1077, 1079, 1072, 1085]"

section \<open>Texts of the window of the manager\<close>

definition TXT_EMPTY :: string where
  "TXT_EMPTY = from_chars
    [1085, 1077, 32, 1084, 1086, 1078, 1077, 1090, 32, 1073, 1099, 1090, 1100, 32, 1087, 1091, 1089,
     1090, 1099, 1084]"

definition TXT_SLUG :: string where
  "TXT_SLUG = from_chars
    [1090, 1086, 1083, 1100, 1082, 1086, 32, 1089, 1090, 1088, 1086, 1095, 1085, 1099, 1077, 32,
     1083, 1072, 1090, 1080, 1085, 1089, 1082, 1080, 1077, 32, 1073, 1091, 1082, 1074, 1099, 44, 32,
     1094, 1080, 1092, 1088, 1099, 32, 1080, 32, 1076, 1077, 1092, 1080, 1089, 44, 32, 1085, 1077,
     32, 1076, 1083, 1080, 1085, 1085, 1077, 1077, 32, 51, 50]"

definition TXT_SPACE_Q :: string where
  "TXT_SPACE_Q = from_chars
    [1089, 1087, 1077, 1081, 1089, 32, 171]"

definition TXT_EXISTS :: string where
  "TXT_EXISTS = from_chars
    [187, 32, 1091, 1078, 1077, 32, 1089, 1091, 1097, 1077, 1089, 1090, 1074, 1091, 1077, 1090]"

definition TXT_COLOR_FORMAT :: string where
  "TXT_COLOR_FORMAT = from_chars
    [1094, 1074, 1077, 1090, 32, 1076, 1086, 1083, 1078, 1077, 1085, 32, 1073, 1099, 1090, 1100, 32,
     1074, 32, 1092, 1086, 1088, 1084, 1072, 1090, 1077, 32, 35, 114, 114, 103, 103, 98, 98]"

definition TXT_PASSPHRASES :: string where
  "TXT_PASSPHRASES = from_chars
    [1087, 1072, 1088, 1086, 1083, 1100, 32, 1080, 32, 1087, 1086, 1076, 1090, 1074, 1077, 1088,
     1078, 1076, 1077, 1085, 1080, 1077, 32, 1085, 1077, 32, 1089, 1086, 1074, 1087, 1072, 1076,
     1072, 1102, 1090]"

definition TXT_NOT_BUILT :: string where
  "TXT_NOT_BUILT = from_chars
    [32, 8212, 32, 1086, 1073, 1088, 1072, 1079, 32, 1085, 1077, 32, 1089, 1086, 1073, 1088, 1072,
     1085]"

definition TXT_UNREADABLE :: string where
  "TXT_UNREADABLE = from_chars
    [32, 8212, 32, 1084, 1072, 1085, 1080, 1092, 1077, 1089, 1090, 32, 1085, 1077, 32, 1095, 1080,
     1090, 1072, 1077, 1090, 1089, 1103]"

definition TXT_DESTROY :: string where
  "TXT_DESTROY = from_chars
    [1059, 1076, 1072, 1083, 1080, 1090, 1100, 32, 1089, 1087, 1077, 1081, 1089, 32, 171]"

definition TXT_DESTROY_END :: string where
  "TXT_DESTROY_END = from_chars
    [187, 32, 1073, 1077, 1079, 1074, 1086, 1079, 1074, 1088, 1072, 1090, 1085, 1086, 63, 32, 1044,
     1077, 1081, 1089, 1090, 1074, 1080, 1077, 32, 1085, 1077, 1086, 1073, 1088, 1072, 1090, 1080,
     1084, 1086, 46]"

definition TXT_RESET_ALL :: string where
  "TXT_RESET_ALL = from_chars
    [1057, 1073, 1088, 1086, 1089, 1080, 1090, 1100, 32, 1089, 1087, 1077, 1081, 1089, 32, 171]"

definition TXT_RESET_ALL_END :: string where
  "TXT_RESET_ALL_END = from_chars
    [187, 32, 1087, 1086, 1083, 1085, 1086, 1089, 1090, 1100, 1102, 32, 8212, 32, 1089, 1080, 1089,
     1090, 1077, 1084, 1091, 32, 1080, 32, 1076, 1072, 1085, 1085, 1099, 1077, 63, 32, 1044, 1077,
     1081, 1089, 1090, 1074, 1080, 1077, 32, 1085, 1077, 1086, 1073, 1088, 1072, 1090, 1080, 1084,
     1086, 46, 32, 1053, 1086, 1074, 1099, 1081, 32, 47, 100, 97, 116, 97, 32, 1073, 1091, 1076,
     1077, 1090, 32, 1087, 1091, 1089, 1090, 1099, 1084, 58, 32, 1087, 1086, 1074, 1090, 1086, 1088,
     1085, 1086, 1075, 1086, 32, 1079, 1072, 1089, 1077, 1074, 1072, 32, 1092, 1072, 1081, 1083,
     1072, 1084, 1080, 32, 1085, 1077, 32, 1073, 1091, 1076, 1077, 1090, 46]"

definition TXT_RESET_SYSTEM :: string where
  "TXT_RESET_SYSTEM = from_chars
    [1057, 1073, 1088, 1086, 1089, 1080, 1090, 1100, 32, 1089, 1080, 1089, 1090, 1077, 1084, 1085,
     1099, 1081, 32, 1089, 1083, 1086, 1081, 32, 1089, 1087, 1077, 1081, 1089, 1072, 32, 171]"

definition TXT_RESET_SYSTEM_END :: string where
  "TXT_RESET_SYSTEM_END = from_chars
    [187, 63, 32, 1044, 1072, 1085, 1085, 1099, 1077, 32, 1089, 1087, 1077, 1081, 1089, 1072, 32,
     1085, 1077, 32, 1079, 1072, 1090, 1088, 1072, 1075, 1080, 1074, 1072, 1102, 1090, 1089, 1103,
     46]"

definition TXT_UPDATE :: string where
  "TXT_UPDATE = from_chars
    [1054, 1073, 1085, 1086, 1074, 1080, 1090, 1100, 32, 1086, 1073, 1088, 1072, 1079, 32, 1089,
     1087, 1077, 1081, 1089, 1072, 32, 171]"

definition TXT_UPDATE_END :: string where
  "TXT_UPDATE_END = from_chars
    [187, 32, 1085, 1072, 32, 1090, 1077, 1082, 1091, 1097, 1080, 1081, 32, 1096, 1072, 1073, 1083,
     1086, 1085, 32, 1087, 1088, 1086, 1092, 1080, 1083, 1103, 63, 32, 1042, 1089, 1105, 44, 32,
     1095, 1090, 1086, 32, 1091, 1089, 1090, 1072, 1085, 1086, 1074, 1083, 1077, 1085, 1086, 32,
     1074, 32, 1089, 1080, 1089, 1090, 1077, 1084, 1091, 32, 1074, 1088, 1091, 1095, 1085, 1091,
     1102, 32, 1087, 1086, 1074, 1077, 1088, 1093, 32, 1086, 1073, 1088, 1072, 1079, 1072, 44, 32,
     1073, 1091, 1076, 1077, 1090, 32, 1087, 1086, 1090, 1077, 1088, 1103, 1085, 1086, 46, 32, 1058,
     1086, 1084, 32, 47, 100, 97, 116, 97, 32, 1085, 1077, 32, 1079, 1072, 1090, 1088, 1072, 1075,
     1080, 1074, 1072, 1077, 1090, 1089, 1103, 46]"

definition TXT_LOADING_DETAIL :: string where
  "TXT_LOADING_DETAIL = from_chars
    [1047, 1072, 1075, 1088, 1091, 1079, 1082, 1072, 32, 1089, 1074, 1077, 1076, 1077, 1085, 1080,
     1081, 8230]"

definition TXT_LOADING_SPACES :: string where
  "TXT_LOADING_SPACES = from_chars
    [1047, 1072, 1075, 1088, 1091, 1079, 1082, 1072, 32, 1089, 1087, 1077, 1081, 1089, 1086, 1074,
     8230]"

definition TXT_NO_SPACES_CLICK :: string where
  "TXT_NO_SPACES_CLICK = from_chars
    [1057, 1087, 1077, 1081, 1089, 1086, 1074, 32, 1087, 1086, 1082, 1072, 32, 1085, 1077, 1090, 46,
     32, 1053, 1072, 1078, 1084, 1080, 1090, 1077, 32, 171, 1057, 1086, 1079, 1076, 1072, 1090,
     1100, 32, 1089, 1087, 1077, 1081, 1089, 187, 46]"

definition TXT_NO_MATCH :: string where
  "TXT_NO_MATCH = from_chars
    [1053, 1077, 1090, 32, 1089, 1087, 1077, 1081, 1089, 1086, 1074, 44, 32, 1087, 1086, 1076, 1093,
     1086, 1076, 1103, 1097, 1080, 1093, 32, 1087, 1086, 1076, 32, 1092, 1080, 1083, 1100, 1090,
     1088, 46]"

definition TXT_NO_SPACES_FIRST :: string where
  "TXT_NO_SPACES_FIRST = from_chars
    [1057, 1087, 1077, 1081, 1089, 1086, 1074, 32, 1087, 1086, 1082, 1072, 32, 1085, 1077, 1090, 46,
     32, 1057, 1086, 1079, 1076, 1072, 1081, 1090, 1077, 32, 1087, 1077, 1088, 1074, 1099, 1081, 46]"

definition TXT_NOT_FOUND :: string where
  "TXT_NOT_FOUND = from_chars
    [1053, 1080, 1095, 1077, 1075, 1086, 32, 1085, 1077, 32, 1085, 1072, 1081, 1076, 1077, 1085,
     1086, 46]"

definition TXT_IN_PROGRESS :: string where
  "TXT_IN_PROGRESS = from_chars
    [1042, 1099, 1087, 1086, 1083, 1085, 1103, 1077, 1090, 1089, 1103, 8230]"

definition TXT_ELLIPSIS :: string where
  "TXT_ELLIPSIS = from_chars
    [8230]"

definition TXT_DONE :: string where
  "TXT_DONE = from_chars
    [58, 32, 1074, 1099, 1087, 1086, 1083, 1085, 1077, 1085, 1086]"

definition TXT_CREATING :: string where
  "TXT_CREATING = from_chars
    [1089, 1086, 1079, 1076, 1072, 1085, 1080, 1077, 32, 1089, 1087, 1077, 1081, 1089, 1072, 32]"

definition TXT_STARTING :: string where
  "TXT_STARTING = from_chars
    [1047, 1072, 1087, 1091, 1089, 1082, 32]"

definition TXT_BUILDING :: string where
  "TXT_BUILDING = from_chars
    [1057, 1073, 1086, 1088, 1082, 1072, 32, 1086, 1073, 1088, 1072, 1079, 1072, 32]"

definition TXT_CONNECTED :: string where
  "TXT_CONNECTED = from_chars
    [1044, 1077, 1084, 1086, 1085, 32, 1087, 1086, 1076, 1082, 1083, 1102, 1095, 1105, 1085]"

definition TXT_DISCONNECTED :: string where
  "TXT_DISCONNECTED = from_chars
    [1044, 1077, 1084, 1086, 1085, 32, 1085, 1077, 1076, 1086, 1089, 1090, 1091, 1087, 1077, 1085]"

definition TXT_CONNECTING :: string where
  "TXT_CONNECTING = from_chars
    [1055, 1086, 1076, 1082, 1083, 1102, 1095, 1077, 1085, 1080, 1077, 32, 1082, 32, 1076, 1077,
     1084, 1086, 1085, 1091, 8230]"

definition TXT_SPACES_UNAVAILABLE :: string where
  "TXT_SPACES_UNAVAILABLE = from_chars
    [1057, 1087, 1077, 1081, 1089, 1099, 32, 1085, 1077, 1076, 1086, 1089, 1090, 1091, 1087, 1085,
     1099, 46, 32, 1054, 1078, 1080, 1076, 1072, 1077, 1084, 32, 1087, 1086, 1076, 1082, 1083, 1102,
     1095, 1077, 1085, 1080, 1103, 32, 1082, 32, 1076, 1077, 1084, 1086, 1085, 1091, 46]"

definition TXT_LABEL_IS :: string where
  "TXT_LABEL_IS = from_chars
    [1052, 1077, 1090, 1082, 1072, 58, 32]"

definition TXT_PROFILE_IS :: string where
  "TXT_PROFILE_IS = from_chars
    [1055, 1088, 1086, 1092, 1080, 1083, 1100, 32]"

definition TXT_NO_PROFILES :: string where
  "TXT_NO_PROFILES = from_chars
    [1055, 1088, 1086, 1092, 1080, 1083, 1077, 1081, 32, 1087, 1086, 1082, 1072, 32, 1085, 1077,
     1090, 46, 32, 1044, 1086, 1073, 1072, 1074, 1100, 1090, 1077, 32, 1087, 1088, 1086, 1092, 1080,
     1083, 1100, 32, 1074, 32, 1082, 1072, 1090, 1072, 1083, 1086, 1075, 32, 1087, 1088, 1086, 1092,
     1080, 1083, 1077, 1081, 32, 1076, 1077, 1084, 1086, 1085, 1072, 46]"

definition TXT_LOADING_PROFILES :: string where
  "TXT_LOADING_PROFILES = from_chars
    [1047, 1072, 1075, 1088, 1091, 1079, 1082, 1072, 32, 1087, 1088, 1086, 1092, 1080, 1083, 1077,
     1081, 8230]"

definition TXT_READY :: string where
  "TXT_READY = from_chars
    [1054, 1073, 1088, 1072, 1079, 32, 1075, 1086, 1090, 1086, 1074, 32, 183, 32, 1091, 1088, 1086,
     1074, 1077, 1085, 1100, 32]"

definition TXT_READY_END :: string where
  "TXT_READY_END = from_chars
    [10, 1053, 1086, 1074, 1072, 1103, 32, 1089, 1073, 1086, 1088, 1082, 1072, 32, 1085, 1077, 32,
     1084, 1077, 1085, 1103, 1077, 1090, 32, 1091, 1078, 1077, 32, 1089, 1086, 1079, 1076, 1072,
     1085, 1085, 1099, 1077, 32, 1089, 1087, 1077, 1081, 1089, 1099, 46]"

definition TXT_NOT_READY :: string where
  "TXT_NOT_READY = from_chars
    [1054, 1073, 1088, 1072, 1079, 32, 1077, 1097, 1105, 32, 1085, 1077, 32, 1089, 1086, 1073, 1088,
     1072, 1085, 32, 183, 32, 1091, 1088, 1086, 1074, 1077, 1085, 1100, 32]"

definition TXT_NOT_READY_END :: string where
  "TXT_NOT_READY_END = from_chars
    [10, 1057, 1086, 1073, 1077, 1088, 1080, 1090, 1077, 32, 1077, 1075, 1086, 32, 1087, 1077, 1088,
     1077, 1076, 32, 1089, 1086, 1079, 1076, 1072, 1085, 1080, 1077, 1084, 32, 1089, 1087, 1077,
     1081, 1089, 1072, 46]"

definition TXT_MANIFEST_BAD :: string where
  "TXT_MANIFEST_BAD = from_chars
    [1052, 1072, 1085, 1080, 1092, 1077, 1089, 1090, 32, 1085, 1077, 32, 1095, 1080, 1090, 1072,
     1077, 1090, 1089, 1103, 58, 32]"

definition TXT_ROW_BAD :: string where
  "TXT_ROW_BAD = from_chars
    [1054, 1096, 1080, 1073, 1082, 1072, 32, 1084, 1072, 1085, 1080, 1092, 1077, 1089, 1090, 1072]"

definition TXT_ROW_READY :: string where
  "TXT_ROW_READY = from_chars
    [1054, 1073, 1088, 1072, 1079, 32, 1075, 1086, 1090, 1086, 1074]"

definition TXT_ROW_BUILD :: string where
  "TXT_ROW_BUILD = from_chars
    [1053, 1091, 1078, 1085, 1072, 32, 1089, 1073, 1086, 1088, 1082, 1072]"

definition TXT_PROFILES_UNAVAILABLE :: string where
  "TXT_PROFILES_UNAVAILABLE = from_chars
    [1055, 1088, 1086, 1092, 1080, 1083, 1080, 32, 1085, 1077, 1076, 1086, 1089, 1090, 1091, 1087,
     1085, 1099, 58, 32]"

definition TXT_NO_PROFILE :: string where
  "TXT_NO_PROFILE = from_chars
    [1085, 1077, 1090, 32, 1076, 1086, 1089, 1090, 1091, 1087, 1085, 1099, 1093, 32, 1087, 1088,
     1086, 1092, 1080, 1083, 1077, 1081]"

definition TXT_HINT_BUILD :: string where
  "TXT_HINT_BUILD = from_chars
    [1086, 1073, 1088, 1072, 1079, 32, 1101, 1090, 1086, 1075, 1086, 32, 1087, 1088, 1086, 1092,
     1080, 1083, 1103, 32, 1077, 1097, 1105, 32, 1085, 1077, 32, 1089, 1086, 1073, 1088, 1072, 1085,
     46]"

definition TXT_HINT_BAD :: string where
  "TXT_HINT_BAD = from_chars
    [1084, 1072, 1085, 1080, 1092, 1077, 1089, 1090, 32, 1087, 1088, 1086, 1092, 1080, 1083, 1103,
     32, 1085, 1077, 32, 1095, 1080, 1090, 1072, 1077, 1090, 1089, 1103, 58, 32]"

definition TXT_ENTER_PASSPHRASE :: string where
  "TXT_ENTER_PASSPHRASE = from_chars
    [1042, 1074, 1077, 1076, 1080, 1090, 1077, 32, 1087, 1072, 1088, 1086, 1083, 1100, 32, 1076,
     1083, 1103, 32, 1096, 1080, 1092, 1088, 1086, 1074, 1072, 1085, 1080, 1103, 46]"

definition TXT_YOUR_SPACE :: string where
  "TXT_YOUR_SPACE = from_chars
    [1042, 1072, 1096, 32, 1085, 1086, 1074, 1099, 1081, 32, 1089, 1087, 1077, 1081, 1089]"

definition TXT_CHOOSE_PROFILE :: string where
  "TXT_CHOOSE_PROFILE = from_chars
    [1042, 1099, 1073, 1077, 1088, 1080, 1090, 1077, 32, 1087, 1088, 1086, 1092, 1080, 1083, 1100]"

definition TXT_WITH_LABEL :: string where
  "TXT_WITH_LABEL = from_chars
    [32, 183, 32, 1084, 1077, 1090, 1082, 1072, 32]"

definition TXT_ENCRYPTED :: string where
  "TXT_ENCRYPTED = from_chars
    [1057, 32, 1096, 1080, 1092, 1088, 1086, 1074, 1072, 1085, 1080, 1077, 1084]"

definition TXT_PLAIN :: string where
  "TXT_PLAIN = from_chars
    [1041, 1077, 1079, 32, 1096, 1080, 1092, 1088, 1086, 1074, 1072, 1085, 1080, 1103]"

definition TXT_STATE_RUNNING :: string where
  "TXT_STATE_RUNNING = from_chars
    [1056, 1072, 1073, 1086, 1090, 1072, 1077, 1090]"

definition TXT_STATE_STOPPED :: string where
  "TXT_STATE_STOPPED = from_chars
    [1054, 1089, 1090, 1072, 1085, 1086, 1074, 1083, 1077, 1085]"

definition TXT_STATE_UNRESPONSIVE :: string where
  "TXT_STATE_UNRESPONSIVE = from_chars
    [1053, 1077, 32, 1086, 1090, 1074, 1077, 1095, 1072, 1077, 1090]"

definition TXT_WARNING :: string where
  "TXT_WARNING = from_chars
    [9888, 32]"

definition TXT_SINCE_START :: string where
  "TXT_SINCE_START = from_chars
    [1057, 32, 1084, 1086, 1084, 1077, 1085, 1090, 1072, 32, 1079, 1072, 1087, 1091, 1089, 1082, 1072]"

definition TXT_PROFILES_LOADING :: string where
  "TXT_PROFILES_LOADING = from_chars
    [1055, 1088, 1086, 1092, 1080, 1083, 1080, 32, 1079, 1072, 1075, 1088, 1091, 1078, 1072, 1102,
     1090, 1089, 1103, 8230]"

definition TXT_THE_SPACE :: string where
  "TXT_THE_SPACE = from_chars
    [1057, 1087, 1077, 1081, 1089, 32, 171]"

definition TXT_IS_ENCRYPTED :: string where
  "TXT_IS_ENCRYPTED = from_chars
    [187, 32, 1079, 1072, 1096, 1080, 1092, 1088, 1086, 1074, 1072, 1085, 46, 32, 1042, 1074, 1077,
     1076, 1080, 1090, 1077, 32, 1087, 1072, 1088, 1086, 1083, 1100, 46]"

definition TXT_IS_CREATED :: string where
  "TXT_IS_CREATED = from_chars
    [187, 32, 1089, 1086, 1079, 1076, 1072, 1085, 46, 32, 1047, 1072, 1087, 1091, 1089, 1090, 1080,
     1090, 1100, 32, 1089, 1077, 1081, 1095, 1072, 1089, 63]"

section \<open>Texts of the printed report of the manager\<close>

definition TXT_P_NO_SPACES :: string where
  "TXT_P_NO_SPACES = from_chars
    [1057, 1055, 1045, 1049, 1057, 1067, 32, 1053, 1045, 1044, 1054, 1057, 1058, 1059, 1055, 1053,
     1067, 58, 32]"

definition TXT_P_DASH :: string where
  "TXT_P_DASH = from_chars
    [32, 8212, 32]"

definition TXT_P_SPACE :: string where
  "TXT_P_SPACE = from_chars
    [1057, 1055, 1045, 1049, 1057, 32]"

definition TXT_P_PROFILE :: string where
  "TXT_P_PROFILE = from_chars
    [32, 183, 32, 1087, 1088, 1086, 1092, 1080, 1083, 1100, 32]"

definition TXT_P_LEVEL :: string where
  "TXT_P_LEVEL = from_chars
    [32, 183, 32, 1091, 1088, 1086, 1074, 1077, 1085, 1100, 32]"

definition TXT_P_NO_DETAIL :: string where
  "TXT_P_NO_DETAIL = from_chars
    [32, 32, 1044, 1045, 1058, 1040, 1051, 1048, 32, 1053, 1045, 1044, 1054, 1057, 1058, 1059, 1055,
     1053, 1067, 58, 32]"

definition TXT_P_LOG :: string where
  "TXT_P_LOG = from_chars
    [32, 32, 1078, 1091, 1088, 1085, 1072, 1083, 124, 32]"

definition TXT_P_NO_NET :: string where
  "TXT_P_NO_NET = from_chars
    [1057, 1045, 1058, 1068, 32, 1053, 1045, 1044, 1054, 1057, 1058, 1059, 1055, 1053, 1040, 58, 32]"

definition TXT_P_NET :: string where
  "TXT_P_NET = from_chars
    [1057, 1045, 1058, 1068, 32]"

definition TXT_P_RULESET :: string where
  "TXT_P_RULESET = from_chars
    [1057, 1045, 1058, 1068, 32, 114, 117, 108, 101, 115, 101, 116, 58, 32]"

section \<open>Texts of the daemon at work\<close>

definition TXT_WAIT_AGENT :: string where
  "TXT_WAIT_AGENT = from_chars
    [1078, 1076, 1105, 1084, 32, 1072, 1075, 1077, 1085, 1090, 1072, 32, 1075, 1086, 1089, 1090, 1103]"

lemmas texts =
  TXT_HOST_def TXT_SPACE_def TXT_NO_SPACE_def TXT_UNKNOWN_TO_DAEMON_def TXT_CLAIMS_def
  TXT_NO_CHECK_def TXT_FOCUS_UNKNOWN_def TXT_LIST_NOT_ARRAY_def TXT_SPACE_NO_FIELD_def
  TXT_ALL_CLOSED_def TXT_NIRI_ENDED_def TXT_UNMOUNTED_def TXT_NOT_UNMOUNTED_def TXT_BAD_REQUEST_def
  TXT_LEVEL_UNKNOWN_def TXT_MANIFEST_UNREAD_def TXT_WINDOW_OPENED_def TXT_UP_TO_DATE_def
  TXT_UPDATED_def TXT_COUNTERS_def TXT_NOT_CONFIRMED_def TXT_NOT_SPACES_def TXT_BAD_SPACE_def
  TXT_NOT_PROFILES_def TXT_BAD_PROFILE_def TXT_NOT_DETAIL_def TXT_NOT_NET_def TXT_DASH_def
  KEY_PROFILE_def KEY_DESCRIPTION_def KEY_STATE_def KEY_CREATED_def KEY_APP_def KEY_TEMPLATE_def
  KEY_MANIFEST_def KEY_NETWORK_def KEY_LEVEL_def KEY_MEMORY_def KEY_DATA_def KEY_DISK_def
  KEY_ENCRYPTION_def KEY_UPTIME_def KEY_CLEAN_def TXT_MIDDOT_def TXT_REDUCED_NO_REASON_def
  TXT_REDUCED_def TXT_ORDERED_def TXT_ACTUAL_def TXT_MIB_def TXT_FILE_def TXT_YES_def TXT_NO_def
  TXT_GIB_def TXT_HOURS_def TXT_MIN_def TXT_MINUTES_def TXT_SEC_def TXT_NEVER_STOPPED_def
  KEY_BRIDGE_def TXT_ISOLATED_def TXT_NOT_ISOLATED_def KEY_PCI_def TXT_DRIVER_def TXT_PLUGGED_def
  TXT_NOT_PLUGGED_def TXT_UP_def TXT_NOT_UP_def KEY_NET_UPLINK_def KEY_NET_TUNNEL_def
  KEY_KILLSWITCH_def TXT_NO_RULESET_def TXT_SHOWN_def TXT_OF_def TXT_CHARS_CUT_def TXT_EMPTY_def
  TXT_SLUG_def TXT_SPACE_Q_def TXT_EXISTS_def TXT_COLOR_FORMAT_def TXT_PASSPHRASES_def
  TXT_NOT_BUILT_def TXT_UNREADABLE_def TXT_DESTROY_def TXT_DESTROY_END_def TXT_RESET_ALL_def
  TXT_RESET_ALL_END_def TXT_RESET_SYSTEM_def TXT_RESET_SYSTEM_END_def TXT_UPDATE_def
  TXT_UPDATE_END_def TXT_LOADING_DETAIL_def TXT_LOADING_SPACES_def TXT_NO_SPACES_CLICK_def
  TXT_NO_MATCH_def TXT_NO_SPACES_FIRST_def TXT_NOT_FOUND_def TXT_IN_PROGRESS_def TXT_ELLIPSIS_def
  TXT_DONE_def TXT_CREATING_def TXT_STARTING_def TXT_BUILDING_def TXT_CONNECTED_def
  TXT_DISCONNECTED_def TXT_CONNECTING_def TXT_SPACES_UNAVAILABLE_def TXT_LABEL_IS_def
  TXT_PROFILE_IS_def TXT_NO_PROFILES_def TXT_LOADING_PROFILES_def TXT_READY_def TXT_READY_END_def
  TXT_NOT_READY_def TXT_NOT_READY_END_def TXT_MANIFEST_BAD_def TXT_ROW_BAD_def TXT_ROW_READY_def
  TXT_ROW_BUILD_def TXT_PROFILES_UNAVAILABLE_def TXT_NO_PROFILE_def TXT_HINT_BUILD_def
  TXT_HINT_BAD_def TXT_ENTER_PASSPHRASE_def TXT_YOUR_SPACE_def TXT_CHOOSE_PROFILE_def
  TXT_WITH_LABEL_def TXT_ENCRYPTED_def TXT_PLAIN_def TXT_STATE_RUNNING_def TXT_STATE_STOPPED_def
  TXT_STATE_UNRESPONSIVE_def TXT_WARNING_def TXT_SINCE_START_def TXT_PROFILES_LOADING_def
  TXT_THE_SPACE_def TXT_IS_ENCRYPTED_def TXT_IS_CREATED_def TXT_P_NO_SPACES_def TXT_P_DASH_def
  TXT_P_SPACE_def TXT_P_PROFILE_def TXT_P_LEVEL_def TXT_P_NO_DETAIL_def TXT_P_LOG_def
  TXT_P_NO_NET_def TXT_P_NET_def TXT_P_RULESET_def TXT_WAIT_AGENT_def

end
