(* ===== verification/LabelStrip.thy ===== *)
theory LabelStrip
  imports Texts Ids Sandbox "HOL-Library.Word"
begin

unbundle bit_operations_syntax

text \<open>
  \<open>components/label/src/space.rs\<close>, \<open>strip.rs\<close> and \<open>bar.rs\<close>: which space the bar
  at the top of the screen names for the focused window, and how it looks.  The
  cgroup of a process, which systemd sets on the host, decides; the title, which
  the guest writes, never does.  \<open>proc\<close> is what reading \<open>/proc/<pid>/cgroup\<close>
  gives.
\<close>

section \<open>The space of a window\<close>

text \<open>\<open>line.rsplit('/').next()\<close>: there always is a last piece.\<close>

definition scope_id :: "string \<Rightarrow> string option" where
  "scope_id line =
     Option.bind (strip_prefix ''miyori-gui-'' (last (split_on (CHR ''/'') line))) (strip_suffix ''.scope'')"

fun scan_cgroup :: "string list \<Rightarrow> string option" where
  "scan_cgroup [] = None"
| "scan_cgroup (line # ls) =
     (case scope_id line of
        Some i \<Rightarrow> if i \<noteq> [] then Some i else scan_cgroup ls
      | None \<Rightarrow> scan_cgroup ls)"

definition space_from_cgroup :: "string \<Rightarrow> string option" where
  "space_from_cgroup cgroup = scan_cgroup (lines cgroup)"

definition space_from_title :: "string \<Rightarrow> string option" where
  "space_from_title title =
     (case strip_prefix ''[space:'' title of
        None \<Rightarrow> None
      | Some rest \<Rightarrow>
          (case find_sub ''] '' rest of
             None \<Rightarrow> None
           | Some n \<Rightarrow> if n = 0 then None else Some (take n rest)))"

datatype CgroupSpace = CgSpace string | NotASpace | Unreadable

definition space_of_pid :: "(nat \<Rightarrow> string option) \<Rightarrow> nat \<Rightarrow> CgroupSpace" where
  "space_of_pid proc pid =
     (case proc pid of
        None \<Rightarrow> Unreadable
      | Some cgroup \<Rightarrow> (case space_from_cgroup cgroup of Some i \<Rightarrow> CgSpace i | None \<Rightarrow> NotASpace))"

section \<open>The strip\<close>

record Window =
  w_id :: nat
  w_title :: string
  w_pid :: "nat option"

datatype Focus = FUnknown | FNone | FWindow Window

record SpaceInfo =
  si_id :: string
  si_color :: string
  si_level :: string
  si_state :: string

datatype Strip =
    SHost
  | SSpace string string string
  | SOrphan string
  | SUnknown string
  | SUnverified string
  | SFocusUnknown

definition resolve_space :: "string \<Rightarrow> SpaceInfo list \<Rightarrow> Strip" where
  "resolve_space i spaces =
     (case find (\<lambda>s. si_id s = i) spaces of
        Some info \<Rightarrow>
          if si_state info = ''running'' \<or> si_state info = ''unresponsive''
          then SSpace (si_id info) (si_color info) (si_level info)
          else SOrphan i
      | None \<Rightarrow> SUnknown i)"

definition strip_for :: "Focus \<Rightarrow> (nat \<Rightarrow> string option) \<Rightarrow> SpaceInfo list \<Rightarrow> Strip" where
  "strip_for focus proc spaces =
     (case focus of
        FUnknown \<Rightarrow> SFocusUnknown
      | FNone \<Rightarrow> SHost
      | FWindow w \<Rightarrow>
          (case (case w_pid w of Some pid \<Rightarrow> space_of_pid proc pid | None \<Rightarrow> Unreadable) of
             CgSpace i \<Rightarrow> resolve_space i spaces
           | NotASpace \<Rightarrow> SHost
           | Unreadable \<Rightarrow>
               (case space_from_title (w_title w) of Some claimed \<Rightarrow> SUnverified claimed | None \<Rightarrow> SHost)))"

section \<open>The bar\<close>

type_synonym color = "32 word"

record BarContent =
  bar_text :: string
  background :: color
  foreground :: color

definition HOST_BACKGROUND :: color where
  "HOST_BACKGROUND = 0xff202020"

definition ANOMALY_BACKGROUND :: color where
  "ANOMALY_BACKGROUND = 0xffd78f00"

definition FALLBACK_COLOR :: color where
  "FALLBACK_COLOR = 0xffff00ff"

definition hex_val :: "char \<Rightarrow> nat option" where
  "hex_val c =
     (let b = byte_of c in
      if 48 \<le> b \<and> b \<le> 57 then Some (b - 48)
      else if 97 \<le> b \<and> b \<le> 102 then Some (b - 87)
      else if 65 \<le> b \<and> b \<le> 70 then Some (b - 55)
      else None)"

fun hex_digits :: "nat \<Rightarrow> string \<Rightarrow> nat option" where
  "hex_digits acc [] = Some acc"
| "hex_digits acc (c # cs) =
     (case hex_val c of None \<Rightarrow> None | Some d \<Rightarrow> hex_digits (acc * 16 + d) cs)"

text \<open>\<open>u32::from_str_radix(s, 16)\<close>, which takes a plus sign.\<close>

definition parse_hex_u32 :: "string \<Rightarrow> nat option" where
  "parse_hex_u32 s =
     (let ds = (case s of c # r \<Rightarrow> if c = CHR ''+'' then r else s | [] \<Rightarrow> []) in
      if ds = [] then None
      else case hex_digits 0 ds of Some n \<Rightarrow> if n < 2 ^ 32 then Some n else None | None \<Rightarrow> None)"

definition parse_color :: "string \<Rightarrow> color option" where
  "parse_color s =
     (case strip_prefix ''#'' s of
        None \<Rightarrow> None
      | Some h \<Rightarrow>
          if length h \<noteq> 6 then None
          else map_option (\<lambda>rgb. 0xff000000 OR of_nat rgb) (parse_hex_u32 h))"

definition brightness :: "color \<Rightarrow> color" where
  "brightness c =
     (let r = drop_bit 16 c AND 0xff; g = drop_bit 8 c AND 0xff; b = c AND 0xff
      in (299 * r + 587 * g + 114 * b) div 1000)"

definition foreground_for_background :: "color \<Rightarrow> color" where
  "foreground_for_background bg = (if brightness bg > 128 then 0xff000000 else 0xffffffff)"

definition bar_on :: "color \<Rightarrow> string \<Rightarrow> BarContent" where
  "bar_on bg t = \<lparr>bar_text = t, background = bg, foreground = foreground_for_background bg\<rparr>"

definition bar_content :: "Strip \<Rightarrow> BarContent" where
  "bar_content s =
     (case s of
        SHost \<Rightarrow> bar_on HOST_BACKGROUND TXT_HOST
      | SSpace i c l \<Rightarrow>
          (let bg = (case parse_color c of Some x \<Rightarrow> x | None \<Rightarrow> FALLBACK_COLOR)
           in \<lparr>bar_text = TXT_SPACE @ i @ '': '' @ l, background = bg, foreground = foreground_for_background bg\<rparr>)
      | SOrphan i \<Rightarrow> bar_on ANOMALY_BACKGROUND (TXT_NO_SPACE @ i)
      | SUnknown i \<Rightarrow> bar_on ANOMALY_BACKGROUND (TXT_SPACE @ i @ TXT_UNKNOWN_TO_DAEMON)
      | SUnverified c \<Rightarrow> bar_on ANOMALY_BACKGROUND (TXT_CLAIMS @ c @ TXT_NO_CHECK)
      | SFocusUnknown \<Rightarrow> bar_on ANOMALY_BACKGROUND TXT_FOCUS_UNKNOWN)"

section \<open>What the bar says is true\<close>

lemma resolve_SSpace:
  "resolve_space j spaces = SSpace i c l \<longleftrightarrow>
     j = i \<and> (\<exists>info. find (\<lambda>s. si_id s = i) spaces = Some info \<and>
        si_state info \<in> {''running'', ''unresponsive''} \<and> si_color info = c \<and> si_level info = l)"
proof -
  have e: "find (\<lambda>s. si_id s = j) spaces = Some info \<Longrightarrow> si_id info = j" for info
    by (auto simp: find_Some_iff)
  show ?thesis
  proof (cases "find (\<lambda>s. si_id s = j) spaces")
    case (Some info)
    then show ?thesis using e [OF Some] by (cases "j = i") (simp_all add: resolve_space_def)
  qed (auto simp: resolve_space_def)
qed

text \<open>
  The bar names a space exactly when the focused window's process is, by its
  cgroup, in the scope of that space, and the daemon lists the space as running or
  unresponsive; colour and level are the daemon's.
\<close>

theorem strip_names_space_iff:
  "strip_for f proc spaces = SSpace i c l \<longleftrightarrow>
     (\<exists>w pid cg info. f = FWindow w \<and> w_pid w = Some pid \<and> proc pid = Some cg \<and>
        space_from_cgroup cg = Some i \<and> find (\<lambda>s. si_id s = i) spaces = Some info \<and>
        si_state info \<in> {''running'', ''unresponsive''} \<and> si_color info = c \<and> si_level info = l)"
  by (cases f) (auto simp: strip_for_def resolve_SSpace space_of_pid_def split: option.splits)

text \<open>
  A title decides nothing that can be checked: whatever a window is called, the
  bar is the same as for any other title, unless its cgroup cannot be read; and then
  a title that names a space only gets the warning that nobody can verify it.
\<close>

theorem title_confirms_nothing:
  "(case w_pid w of None \<Rightarrow> None | Some pid \<Rightarrow> proc pid) \<noteq> None \<and>
     strip_for (FWindow (w\<lparr>w_title := t\<rparr>)) proc spaces = strip_for (FWindow w) proc spaces \<or>
   (case w_pid w of None \<Rightarrow> None | Some pid \<Rightarrow> proc pid) = None \<and>
     strip_for (FWindow (w\<lparr>w_title := t\<rparr>)) proc spaces =
       (case space_from_title t of None \<Rightarrow> SHost | Some claimed \<Rightarrow> SUnverified claimed)"
  by (auto simp: strip_for_def space_of_pid_def split: option.splits CgroupSpace.splits)

text \<open>The scope \<open>systemd-run --scope --unit=u\<close> makes is called \<open>u.scope\<close>.\<close>

definition unit_arg :: "string list \<Rightarrow> string option" where
  "unit_arg argv = Option.bind (find (starts_with ''--unit='') argv) (strip_prefix ''--unit='')"

lemma unit_of_sandbox: "unit_arg (build_command s) = Some (''miyori-gui-'' @ space_id s)"
  by (simp add: unit_arg_def build_command_def strip_prefix_def)

lemma scope_line:
  assumes "CHR ''/'' \<notin> set i"
  shows "scope_id (p @ ''/miyori-gui-'' @ i @ ''.scope'') = Some i"
proof -
  have l: "last (split_on (CHR ''/'') (a @ CHR ''/'' # b)) = b" if "CHR ''/'' \<notin> set b" for a b :: string
  proof -
    have "split_on (CHR ''/'') (a @ CHR ''/'' # b) = split_on (CHR ''/'') a @ [b]"
      using that by (induction a rule: split_on.induct [of _ "CHR ''/''"]) (auto simp: split_on_no_sep split: list.splits)
    then show ?thesis by simp
  qed
  have "last (split_on (CHR ''/'') (p @ ''/miyori-gui-'' @ i @ ''.scope'')) = ''miyori-gui-'' @ i @ ''.scope''"
    using l [of "''miyori-gui-'' @ i @ ''.scope''" p] assms by simp
  then show ?thesis
    unfolding scope_id_def by (simp only: strip_prefix_append) simp
qed

lemma scope_cgroup:
  assumes "id_ok (SpaceId i)" "CHR 0x0A \<notin> set p"
  shows "space_from_cgroup (p @ ''/miyori-gui-'' @ i @ ''.scope'' @ [CHR 0x0A]) = Some i"
proof -
  let ?l = "p @ ''/miyori-gui-'' @ i @ ''.scope''"
  have i: "CHR ''/'' \<notin> set i" "i \<noteq> []" "CHR 0x0A \<notin> set i"
    using id_no_slash [OF assms(1)] id_not_Nil [OF assms(1)] slug_no_char [of i "CHR 0x0A"]
      slug_byte_safe [of "CHR 0x0A"] assms(1) by (auto simp: id_ok_def)
  have "lines (?l @ CHR 0x0A # []) = [strip_cr ?l]"
    using i assms(2) by (subst lines_line) auto
  moreover have "strip_cr ?l = ?l"
  proof (cases "strip_suffix [CHR 0x0D] ?l")
    case (Some r)
    then have "last ?l = last (r @ [CHR 0x0D])" by (simp only: strip_suffix_Some)
    then show ?thesis by simp
  qed (simp add: strip_cr_def)
  ultimately show ?thesis
    using scope_line [OF i(1), of p] i(2) by (simp add: space_from_cgroup_def)
qed

text \<open>
  C27.  The sandbox and the bar agree: a window of the proxy that the broker starts for
  a space, in the scope named by its own \<open>systemd-run\<close> arguments, is shown as that
  space, with the colour and level the daemon lists for it.
\<close>

theorem proxy_window_named:
  assumes "id_ok (SpaceId (space_id s))" "unit_arg (build_command s) = Some u" "CHR 0x0A \<notin> set p"
    and "w_pid w = Some pid" "proc pid = Some (p @ ''/'' @ u @ ''.scope'' @ [CHR 0x0A])"
    and "find (\<lambda>x. si_id x = space_id s) spaces = Some info" "si_state info \<in> {''running'', ''unresponsive''}"
  shows "strip_for (FWindow w) proc spaces = SSpace (space_id s) (si_color info) (si_level info)"
proof -
  have "space_from_cgroup (p @ ''/'' @ u @ ''.scope'' @ [CHR 0x0A]) = Some (space_id s)"
  proof -
    have u: "u = ''miyori-gui-'' @ space_id s" using assms(2) by (simp add: unit_of_sandbox)
    show ?thesis using scope_cgroup [OF assms(1,3)] by (simp add: u)
  qed
  then show ?thesis
    using assms(4-7) by (simp add: strip_for_def space_of_pid_def resolve_SSpace)
qed

section \<open>The bar can be read\<close>

lemma channel_le: "unat (x AND 0xff :: color) \<le> 255"
  using word_and_le1 [of x "0xff"] by (simp add: word_le_nat_alt)

lemma unat_brightness:
  "unat (brightness c) =
     (299 * unat (drop_bit 16 c AND 0xff) + 587 * unat (drop_bit 8 c AND 0xff) + 114 * unat (c AND 0xff)) div 1000"
  "unat (brightness c) \<le> 255"
proof -
  let ?r = "drop_bit 16 c AND 0xff" and ?g = "drop_bit 8 c AND 0xff" and ?b = "c AND 0xff"
  let ?n = "299 * unat ?r + 587 * unat ?g + 114 * unat ?b"
  have n: "?n \<le> 255000"
    using channel_le [of "drop_bit 16 c"] channel_le [of "drop_bit 8 c"] channel_le [of c] by linarith
  have w: "299 * ?r + 587 * ?g + 114 * ?b = word_of_nat ?n" by simp
  have k: "unat (word_of_nat k :: color) = k" if "k < 2 ^ 32" for k
    using that by (simp add: unsigned_of_nat take_bit_nat_eq_self)
  have "?n < 2 ^ 32" by (rule le_less_trans [OF n]) simp
  then have "unat (word_of_nat ?n :: color) = ?n" by (rule k)
  then show e: "unat (brightness c) = ?n div 1000"
    unfolding brightness_def Let_def w unat_div by simp
  show "unat (brightness c) \<le> 255" unfolding e using n by simp
qed


lemma ex_id: "id_ok (SpaceId ''web'')"
  by code_simp

theorem proxy_window_named_witness:
  "strip_for (FWindow \<lparr>w_id = 1, w_title = [], w_pid = Some 7\<rparr>)
     (\<lambda>_. Some (''0::/user.slice'' @ ''/'' @ ''miyori-gui-web'' @ ''.scope'' @ [CHR 0x0A]))
     [\<lparr>si_id = ''web'', si_color = ''#ff0000'', si_level = ''standard'', si_state = ''running''\<rparr>]
   = SSpace ''web'' ''#ff0000'' ''standard''"
  using proxy_window_named [of "\<lparr>space_id = ''web'', socket = [], secctx = [], sb_title_prefix = [], waypipe = [],
      wayland_socket = [], memory_max_mb = 1, tasks_max = 1, cpu_quota_pct = 1\<rparr>" "''miyori-gui-web''" "''0::/user.slice''"
      "\<lparr>w_id = 1, w_title = [], w_pid = Some 7\<rparr>" 7
      "\<lambda>_. Some (''0::/user.slice'' @ ''/'' @ ''miyori-gui-web'' @ ''.scope'' @ [CHR 0x0A])"
      "[\<lparr>si_id = ''web'', si_color = ''#ff0000'', si_level = ''standard'', si_state = ''running''\<rparr>]"
      "\<lparr>si_id = ''web'', si_color = ''#ff0000'', si_level = ''standard'', si_state = ''running''\<rparr>"]
    ex_id by (simp add: unit_of_sandbox)


end
