(* ===== verification/Niri.thy ===== *)
theory Niri
  imports LabelStrip Json
begin

text \<open>
  \<open>components/label/src/niri.rs\<close>: the events of the compositor and the map of
  windows the bar keeps.  \<open>jp\<close> is \<open>serde_json::from_str\<close>; the result of a line
  that is no event of the expected shape is an error value, and the bar skips it.
\<close>

section \<open>Events\<close>

datatype Event =
    WindowsChanged "Window list" "nat option"
  | WindowOpenedOrChanged Window bool
  | WindowClosed nat
  | WindowFocusChanged "nat option"
  | OtherEvent

datatype niri_error =
    LineNotJson
  | WindowNoId
  | PidNotNumber
  | PidTooBig
  | NoWindowsArray
  | NoWindow
  | ClosedNoId
  | FocusNoId
  | FocusIdNotNumber

definition window_is_focused :: "json \<Rightarrow> bool" where
  "window_is_focused v =
     (case Option.bind (jget ''is_focused'' v) as_bool of Some b \<Rightarrow> b | None \<Rightarrow> False)"

definition window_from_value :: "json \<Rightarrow> niri_error + Window" where
  "window_from_value v =
     (case Option.bind (jget ''id'' v) as_u64 of
        None \<Rightarrow> Inl WindowNoId
      | Some i \<Rightarrow>
          (let t = (case Option.bind (jget ''title'' v) as_str of Some t \<Rightarrow> t | None \<Rightarrow> [])
           in case jget ''pid'' v of
                None \<Rightarrow> Inr \<lparr>w_id = i, w_title = t, w_pid = None\<rparr>
              | Some p \<Rightarrow>
                  if p = JNull then Inr \<lparr>w_id = i, w_title = t, w_pid = None\<rparr>
                  else case as_u64 p of
                         None \<Rightarrow> Inl PidNotNumber
                       | Some n \<Rightarrow>
                           if n < 2 ^ 32 then Inr \<lparr>w_id = i, w_title = t, w_pid = Some n\<rparr>
                           else Inl PidTooBig))"

fun windows_from_values :: "json list \<Rightarrow> niri_error + Window list" where
  "windows_from_values [] = Inr []"
| "windows_from_values (v # vs) =
     (case window_from_value v of
        Inl e \<Rightarrow> Inl e
      | Inr w \<Rightarrow> (case windows_from_values vs of Inl e \<Rightarrow> Inl e | Inr ws \<Rightarrow> Inr (w # ws)))"

definition parse_value :: "json \<Rightarrow> niri_error + Event" where
  "parse_value v =
     (case jget ''WindowsChanged'' v of
        Some payload \<Rightarrow>
          (case Option.bind (jget ''windows'' payload) as_array of
             None \<Rightarrow> Inl NoWindowsArray
           | Some raws \<Rightarrow>
               (case windows_from_values raws of
                  Inl e \<Rightarrow> Inl e
                | Inr ws \<Rightarrow>
                    Inr (WindowsChanged ws
                      (map_option (\<lambda>p. w_id (snd p)) (find (\<lambda>p. window_is_focused (fst p)) (zip raws ws))))))
      | None \<Rightarrow>
     (case jget ''WindowOpenedOrChanged'' v of
        Some payload \<Rightarrow>
          (case jget ''window'' payload of
             None \<Rightarrow> Inl NoWindow
           | Some raw \<Rightarrow>
               (case window_from_value raw of
                  Inl e \<Rightarrow> Inl e
                | Inr w \<Rightarrow> Inr (WindowOpenedOrChanged w (window_is_focused raw))))
      | None \<Rightarrow>
     (case jget ''WindowClosed'' v of
        Some payload \<Rightarrow>
          (case Option.bind (jget ''id'' payload) as_u64 of
             None \<Rightarrow> Inl ClosedNoId
           | Some i \<Rightarrow> Inr (WindowClosed i))
      | None \<Rightarrow>
     (case jget ''WindowFocusChanged'' v of
        Some payload \<Rightarrow>
          (case jget ''id'' payload of
             None \<Rightarrow> Inl FocusNoId
           | Some i \<Rightarrow>
               if i = JNull then Inr (WindowFocusChanged None)
               else case as_u64 i of
                      None \<Rightarrow> Inl FocusIdNotNumber
                    | Some n \<Rightarrow> Inr (WindowFocusChanged (Some n)))
      | None \<Rightarrow> Inr OtherEvent))))"

definition parse_event :: "(string \<Rightarrow> json option) \<Rightarrow> string \<Rightarrow> niri_error + Event" where
  "parse_event jp line =
     (case jp line of None \<Rightarrow> Inl LineNotJson | Some v \<Rightarrow> parse_value v)"

section \<open>The window map\<close>

datatype FocusId = FidUnknown | FidNone | FidWindow nat

record WindowMap =
  wm_windows :: "nat \<rightharpoonup> Window"
  wm_focus :: FocusId

definition empty_windows :: WindowMap where
  "empty_windows = \<lparr>wm_windows = Map.empty, wm_focus = FidUnknown\<rparr>"

definition focus_id :: "nat option \<Rightarrow> FocusId" where
  "focus_id f = (case f of Some i \<Rightarrow> FidWindow i | None \<Rightarrow> FidNone)"

text \<open>A snapshot is collected into a \<open>HashMap\<close>: of two windows with one id the last stays.\<close>

definition apply_event :: "Event \<Rightarrow> WindowMap \<Rightarrow> WindowMap" where
  "apply_event e m =
     (case e of
        WindowsChanged ws f \<Rightarrow>
          m\<lparr>wm_windows := map_of (rev (map (\<lambda>w. (w_id w, w)) ws)), wm_focus := focus_id f\<rparr>
      | WindowOpenedOrChanged w b \<Rightarrow>
          (let m1 = m\<lparr>wm_windows := (wm_windows m)(w_id w \<mapsto> w)\<rparr>
           in if b then m1\<lparr>wm_focus := FidWindow (w_id w)\<rparr> else m1)
      | WindowClosed i \<Rightarrow>
          (let m1 = m\<lparr>wm_windows := (wm_windows m)(i := None)\<rparr>
           in if wm_focus m1 = FidWindow i then m1\<lparr>wm_focus := FidNone\<rparr> else m1)
      | WindowFocusChanged f \<Rightarrow> m\<lparr>wm_focus := focus_id f\<rparr>
      | OtherEvent \<Rightarrow> m)"

definition focus :: "WindowMap \<Rightarrow> Focus" where
  "focus m =
     (case wm_focus m of
        FidUnknown \<Rightarrow> FUnknown
      | FidNone \<Rightarrow> FNone
      | FidWindow i \<Rightarrow> (case wm_windows m i of Some w \<Rightarrow> FWindow w | None \<Rightarrow> FNone))"

section \<open>What the map says of a stream of events\<close>

text \<open>
  The specification reads the stream only: what one event says of the focus, what
  it says of one window, and the latest word on each.
\<close>

definition says_focus :: "Event \<Rightarrow> nat option option" where
  "says_focus e =
     (case e of
        WindowsChanged _ f \<Rightarrow> Some f
      | WindowOpenedOrChanged w b \<Rightarrow> if b then Some (Some (w_id w)) else None
      | WindowFocusChanged f \<Rightarrow> Some f
      | _ \<Rightarrow> None)"

definition says_window :: "nat \<Rightarrow> Event \<Rightarrow> Window option option" where
  "says_window i e =
     (case e of
        WindowsChanged ws _ \<Rightarrow> Some (find (\<lambda>w. w_id w = i) (rev ws))
      | WindowOpenedOrChanged w _ \<Rightarrow> if w_id w = i then Some (Some w) else None
      | WindowClosed j \<Rightarrow> if j = i then Some None else None
      | _ \<Rightarrow> None)"

fun latest :: "(Event \<Rightarrow> 'a option) \<Rightarrow> Event list \<Rightarrow> 'a option" where
  "latest f [] = None"
| "latest f (e # es) = (case latest f es of Some x \<Rightarrow> Some x | None \<Rightarrow> f e)"

definition windows_after :: "Event list \<Rightarrow> WindowMap" where
  "windows_after es = fold apply_event es empty_windows"

lemma latest_snoc: "latest f (es @ [e]) = (case f e of Some x \<Rightarrow> Some x | None \<Rightarrow> latest f es)"
  by (induction es) (auto split: option.splits)

lemma latest_None: "latest f es = None \<longleftrightarrow> list_all (\<lambda>e. f e = None) es"
  by (induction es) (auto split: option.splits)

lemma windows_after_snoc: "windows_after (es @ [e]) = apply_event e (windows_after es)"
  by (simp add: windows_after_def)

lemma map_of_windows: "map_of (map (\<lambda>w. (w_id w, w)) ws) i = find (\<lambda>w. w_id w = i) ws"
  by (induction ws) auto

lemma windows_word: "wm_windows (windows_after es) i = (case latest (says_window i) es of Some x \<Rightarrow> x | None \<Rightarrow> None)"
proof (induction es rule: rev_induct)
  case Nil
  then show ?case by (simp add: windows_after_def empty_windows_def)
next
  case (snoc e es)
  then show ?case
    by (cases e) (auto simp: windows_after_snoc latest_snoc apply_event_def says_window_def Let_def rev_map map_of_windows)
qed

text \<open>Who holds the focus: the latest word on it, unless that window has been closed since.\<close>

fun holder :: "Event list \<Rightarrow> FocusId" where
  "holder [] = FidUnknown"
| "holder (e # newest_first) =
     (case says_focus e of
        Some f \<Rightarrow> focus_id f
      | None \<Rightarrow> (case e of WindowClosed i \<Rightarrow> if holder newest_first = FidWindow i then FidNone else holder newest_first
                          | _ \<Rightarrow> holder newest_first))"

lemma focus_word: "wm_focus (windows_after es) = holder (rev es)"
proof (induction es rule: rev_induct)
  case Nil
  then show ?case by (simp add: windows_after_def empty_windows_def)
next
  case (snoc e es)
  then show ?case
    by (cases e) (auto simp: windows_after_snoc apply_event_def says_focus_def Let_def focus_id_def)
qed

lemma holder_window:
  "holder (rev es) = FidWindow i \<longleftrightarrow>
     (\<exists>before e since. es = before @ e # since \<and> says_focus e = Some (Some i) \<and>
        list_all (\<lambda>x. says_focus x = None \<and> x \<noteq> WindowClosed i) since)"
  (is "_ \<longleftrightarrow> (\<exists>b e s. ?Q es b e s)")
proof (induction es rule: rev_induct)
  case (snoc x es)
  have split: "(\<exists>b e s. ?Q (es @ [x]) b e s) \<longleftrightarrow>
      says_focus x = Some (Some i) \<or>
      (says_focus x = None \<and> x \<noteq> WindowClosed i \<and> (\<exists>b e s. ?Q es b e s))" (is "?l \<longleftrightarrow> ?r")
  proof
    assume ?l
    then obtain b e s where q: "?Q (es @ [x]) b e s" by blast
    show ?r
    proof (cases s rule: rev_cases)
      case Nil
      then show ?thesis using q by simp
    next
      case (snoc s' y)
      then have "?Q es b e s'" "says_focus x = None" "x \<noteq> WindowClosed i" using q by auto
      then show ?thesis by blast
    qed
  next
    assume ?r
    then show ?l
    proof
      assume "says_focus x = Some (Some i)"
      then have "?Q (es @ [x]) es x []" by simp
      then show ?l by blast
    next
      assume "says_focus x = None \<and> x \<noteq> WindowClosed i \<and> (\<exists>b e s. ?Q es b e s)"
      then obtain b e s where "?Q es b e s" "says_focus x = None" "x \<noteq> WindowClosed i" by blast
      then have "?Q (es @ [x]) b e (s @ [x])" by simp
      then show ?l by blast
    qed
  qed
  have "holder (rev (es @ [x])) = FidWindow i \<longleftrightarrow>
      says_focus x = Some (Some i) \<or> (says_focus x = None \<and> x \<noteq> WindowClosed i \<and> holder (rev es) = FidWindow i)"
    by (cases x) (auto simp: focus_id_def says_focus_def split: option.splits)
  then show ?case unfolding split snoc.IH .
qed simp

lemma holder_unknown: "holder (rev es) = FidUnknown \<longleftrightarrow> list_all (\<lambda>e. says_focus e = None) es"
  by (induction es rule: rev_induct) (auto simp: focus_id_def split: option.splits Event.splits)

text \<open>
  C26.  The bar's window is the truth of the event stream: a window is taken for the
  focused one exactly when some event gave it the focus, nothing since has moved the
  focus or closed it, and what is known of it is the newest report of that window.
\<close>

theorem focus_is_newest:
  "focus (windows_after es) = FWindow w \<longleftrightarrow>
     (\<exists>before e since. es = before @ e # since \<and> says_focus e = Some (Some (w_id w)) \<and>
        list_all (\<lambda>x. says_focus x = None \<and> x \<noteq> WindowClosed (w_id w)) since) \<and>
     latest (says_window (w_id w)) es = Some (Some w)"
proof -
  have id: "latest (says_window i) es = Some (Some w) \<Longrightarrow> w_id w = i" for i
  proof (induction es rule: rev_induct)
    case (snoc e es)
    then show ?case
      by (cases e) (auto simp: latest_snoc says_window_def find_Some_iff split: if_splits)
  qed simp
  have "focus (windows_after es) = FWindow w \<longleftrightarrow>
      (\<exists>i. holder (rev es) = FidWindow i \<and> latest (says_window i) es = Some (Some w))"
    by (auto simp: focus_def focus_word windows_word split: FocusId.splits option.splits)
  also have "\<dots> \<longleftrightarrow> holder (rev es) = FidWindow (w_id w) \<and> latest (says_window (w_id w)) es = Some (Some w)"
    using id by blast
  finally show ?thesis by (simp only: holder_window)
qed

text \<open>
  The bar calls the focus unknown exactly until the first event that says
  anything of it; the host's strip is never shown for want of information.
\<close>

theorem focus_unknown_iff:
  "focus (windows_after es) = FUnknown \<longleftrightarrow> list_all (\<lambda>e. says_focus e = None) es"
  by (simp add: focus_def focus_word holder_unknown [symmetric] split: FocusId.splits option.splits)

end
