(* ===== verification/Outputs.thy ===== *)
theory Outputs
  imports Main
begin

text \<open>
  \<open>components/label/src/outputs.rs\<close>: the bars by output, a list in the order the
  outputs appeared.
\<close>

type_synonym ('i, 'b) OutputBars = "('i \<times> 'b) list"

definition no_bars :: "('i, 'b) OutputBars" where
  "no_bars = []"

definition update_bars :: "('b \<Rightarrow> 'b) \<Rightarrow> ('i, 'b) OutputBars \<Rightarrow> ('i, 'b) OutputBars" where
  "update_bars f bars = map (\<lambda>(i, b). (i, f b)) bars"

text \<open>\<open>find_mut\<close> with what the caller does to the bar it finds.\<close>

fun find_mut :: "('b \<Rightarrow> bool) \<Rightarrow> ('b \<Rightarrow> 'b) \<Rightarrow> ('i, 'b) OutputBars \<Rightarrow> ('i, 'b) OutputBars" where
  "find_mut P f [] = []"
| "find_mut P f ((i, b) # bars) = (if P b then (i, f b) # bars else (i, b) # find_mut P f bars)"

fun remove_matching :: "('b \<Rightarrow> bool) \<Rightarrow> ('i, 'b) OutputBars \<Rightarrow> ('i, 'b) OutputBars" where
  "remove_matching P [] = []"
| "remove_matching P ((i, b) # bars) = (if P b then bars else (i, b) # remove_matching P bars)"

definition contains_output :: "'i \<Rightarrow> ('i, 'b) OutputBars \<Rightarrow> bool" where
  "contains_output i bars = list_ex (\<lambda>p. fst p = i) bars"

definition insert_output :: "'i \<Rightarrow> 'b \<Rightarrow> ('i, 'b) OutputBars \<Rightarrow> bool \<times> ('i, 'b) OutputBars" where
  "insert_output i b bars =
     (if contains_output i bars then (False, bars) else (True, bars @ [(i, b)]))"

fun remove_output :: "'i \<Rightarrow> ('i, 'b) OutputBars \<Rightarrow> ('i, 'b) OutputBars" where
  "remove_output i [] = []"
| "remove_output i ((j, b) # bars) = (if j = i then bars else (j, b) # remove_output i bars)"

section \<open>One bar an output\<close>

definition one_each :: "('i, 'b) OutputBars \<Rightarrow> bool" where
  "one_each bars = distinct (map fst bars)"

lemma contains_iff: "contains_output i bars \<longleftrightarrow> i \<in> fst ` set bars"
  by (induction bars) (auto simp: contains_output_def)

lemma one_each_insert: "one_each bars \<Longrightarrow> one_each (snd (insert_output i b bars))"
  by (auto simp: one_each_def insert_output_def contains_iff)

lemma set_remove_output: "set (remove_output i bars) \<subseteq> set bars"
  by (induction i bars rule: remove_output.induct) auto

lemma one_each_remove: "one_each bars \<Longrightarrow> one_each (remove_output i bars)"
  by (induction i bars rule: remove_output.induct) (auto simp: one_each_def dest: subsetD [OF set_remove_output])

lemma remove_output_exact:
  "one_each bars \<Longrightarrow> map_of (remove_output i bars) = (map_of bars)(i := None)"
  by (induction i bars rule: remove_output.induct) (auto simp: one_each_def fun_eq_iff map_of_eq_None_iff)

lemma set_remove_matching: "set (remove_matching P bars) \<subseteq> set bars"
  by (induction P bars rule: remove_matching.induct) auto

lemma one_each_remove_matching: "one_each bars \<Longrightarrow> one_each (remove_matching P bars)"
  by (induction P bars rule: remove_matching.induct) (auto simp: one_each_def dest: subsetD [OF set_remove_matching])

lemma keys_update [simp]: "map fst (update_bars f bars) = map fst bars"
  by (auto simp: update_bars_def)

lemma keys_find_mut [simp]: "map fst (find_mut P f bars) = map fst bars"
  by (induction P f bars rule: find_mut.induct) auto

lemma set_find_mut: "set (find_mut P f bars) \<subseteq> set bars \<union> {(i, f b) | i b. (i, b) \<in> set bars \<and> P b}"
  by (induction P f bars rule: find_mut.induct) auto

end
