(* ===== verification/FontData.thy ===== *)
theory FontData
  imports Main
begin

text \<open>
  \<open>components/label/src/font_data.rs\<close>: the glyphs the bar can draw, 20 rows of two
  bytes each by Unicode scalar value, here in the groups of sixteen of the code
  charts.
\<close>

definition GLYPH_WIDTH :: nat where
  "GLYPH_WIDTH = 10"

definition GLYPH_HEIGHT :: nat where
  "GLYPH_HEIGHT = 20"

definition ROW_BYTES :: nat where
  "ROW_BYTES = 2"

definition GLYPHS_002 :: "(nat \<times> nat list) list" where
  "GLYPHS_002 =
    [(32,
       [0x00, 0x00, 0x00, 0x00, 0x00, 0x00, 0x00, 0x00, 0x00, 0x00, 0x00, 0x00, 0x00, 0x00,
        0x00, 0x00, 0x00, 0x00, 0x00, 0x00, 0x00, 0x00, 0x00, 0x00, 0x00, 0x00, 0x00, 0x00,
        0x00, 0x00, 0x00, 0x00, 0x00, 0x00, 0x00, 0x00, 0x00, 0x00, 0x00, 0x00]),
     (33,
       [0x00, 0x00, 0x00, 0x00, 0x00, 0x00, 0x0c, 0x00, 0x0c, 0x00, 0x0c, 0x00, 0x0c, 0x00,
        0x0c, 0x00, 0x0c, 0x00, 0x0c, 0x00, 0x0c, 0x00, 0x0c, 0x00, 0x0c, 0x00, 0x00, 0x00,
        0x0c, 0x00, 0x0c, 0x00, 0x00, 0x00, 0x00, 0x00, 0x00, 0x00, 0x00, 0x00]),
     (34,
       [0x00, 0x00, 0x00, 0x00, 0x00, 0x00, 0x33, 0x00, 0x33, 0x00, 0x33, 0x00, 0x12, 0x00,
        0x00, 0x00, 0x00, 0x00, 0x00, 0x00, 0x00, 0x00, 0x00, 0x00, 0x00, 0x00, 0x00, 0x00,
        0x00, 0x00, 0x00, 0x00, 0x00, 0x00, 0x00, 0x00, 0x00, 0x00, 0x00, 0x00]),
     (35,
       [0x00, 0x00, 0x00, 0x00, 0x00, 0x00, 0x00, 0x00, 0x0d, 0x80, 0x0d, 0x80, 0x0d, 0x80,
        0x3f, 0xc0, 0x1b, 0x00, 0x1b, 0x00, 0x1b, 0x00, 0x7f, 0x80, 0x36, 0x00, 0x36, 0x00,
        0x36, 0x00, 0x00, 0x00, 0x00, 0x00, 0x00, 0x00, 0x00, 0x00, 0x00, 0x00]),
     (36,
       [0x00, 0x00, 0x00, 0x00, 0x00, 0x00, 0x0c, 0x00, 0x3f, 0x00, 0x6d, 0x80, 0x6c, 0x00,
        0x6c, 0x00, 0x6c, 0x00, 0x3f, 0x00, 0x0d, 0x80, 0x0d, 0x80, 0x0d, 0x80, 0x6d, 0x80,
        0x3f, 0x00, 0x0c, 0x00, 0x00, 0x00, 0x00, 0x00, 0x00, 0x00, 0x00, 0x00]),
     (37,
       [0x00, 0x00, 0x00, 0x00, 0x00, 0x00, 0x00, 0x00, 0x39, 0x80, 0x6d, 0x80, 0x6f, 0x00,
        0x3b, 0x00, 0x06, 0x00, 0x06, 0x00, 0x0c, 0x00, 0x0c, 0x00, 0x1b, 0x80, 0x1e, 0xc0,
        0x36, 0xc0, 0x33, 0x80, 0x00, 0x00, 0x00, 0x00, 0x00, 0x00, 0x00, 0x00]),
     (38,
       [0x00, 0x00, 0x00, 0x00, 0x00, 0x00, 0x1c, 0x00, 0x36, 0x00, 0x36, 0x00, 0x36, 0x00,
        0x3c, 0x00, 0x18, 0x00, 0x38, 0x00, 0x6c, 0x00, 0x66, 0xc0, 0x63, 0x80, 0x63, 0x00,
        0x77, 0x80, 0x3c, 0xc0, 0x00, 0x00, 0x00, 0x00, 0x00, 0x00, 0x00, 0x00]),
     (39,
       [0x00, 0x00, 0x00, 0x00, 0x00, 0x00, 0x0c, 0x00, 0x0c, 0x00, 0x0c, 0x00, 0x0c, 0x00,
        0x08, 0x00, 0x00, 0x00, 0x00, 0x00, 0x00, 0x00, 0x00, 0x00, 0x00, 0x00, 0x00, 0x00,
        0x00, 0x00, 0x00, 0x00, 0x00, 0x00, 0x00, 0x00, 0x00, 0x00, 0x00, 0x00]),
     (40,
       [0x00, 0x00, 0x00, 0x00, 0x00, 0x00, 0x03, 0x00, 0x06, 0x00, 0x0c, 0x00, 0x0c, 0x00,
        0x18, 0x00, 0x18, 0x00, 0x18, 0x00, 0x18, 0x00, 0x18, 0x00, 0x0c, 0x00, 0x0c, 0x00,
        0x06, 0x00, 0x03, 0x00, 0x00, 0x00, 0x00, 0x00, 0x00, 0x00, 0x00, 0x00]),
     (41,
       [0x00, 0x00, 0x00, 0x00, 0x00, 0x00, 0x30, 0x00, 0x18, 0x00, 0x0c, 0x00, 0x0c, 0x00,
        0x06, 0x00, 0x06, 0x00, 0x06, 0x00, 0x06, 0x00, 0x06, 0x00, 0x0c, 0x00, 0x0c, 0x00,
        0x18, 0x00, 0x30, 0x00, 0x00, 0x00, 0x00, 0x00, 0x00, 0x00, 0x00, 0x00]),
     (42,
       [0x00, 0x00, 0x00, 0x00, 0x00, 0x00, 0x00, 0x00, 0x00, 0x00, 0x00, 0x00, 0x33, 0x00,
        0x33, 0x00, 0x1e, 0x00, 0x7f, 0x80, 0x1e, 0x00, 0x33, 0x00, 0x33, 0x00, 0x00, 0x00,
        0x00, 0x00, 0x00, 0x00, 0x00, 0x00, 0x00, 0x00, 0x00, 0x00, 0x00, 0x00]),
     (43,
       [0x00, 0x00, 0x00, 0x00, 0x00, 0x00, 0x00, 0x00, 0x00, 0x00, 0x00, 0x00, 0x0c, 0x00,
        0x0c, 0x00, 0x0c, 0x00, 0x7f, 0x80, 0x0c, 0x00, 0x0c, 0x00, 0x0c, 0x00, 0x00, 0x00,
        0x00, 0x00, 0x00, 0x00, 0x00, 0x00, 0x00, 0x00, 0x00, 0x00, 0x00, 0x00]),
     (44,
       [0x00, 0x00, 0x00, 0x00, 0x00, 0x00, 0x00, 0x00, 0x00, 0x00, 0x00, 0x00, 0x00, 0x00,
        0x00, 0x00, 0x00, 0x00, 0x00, 0x00, 0x00, 0x00, 0x00, 0x00, 0x00, 0x00, 0x00, 0x00,
        0x0e, 0x00, 0x0e, 0x00, 0x1c, 0x00, 0x00, 0x00, 0x00, 0x00, 0x00, 0x00]),
     (45,
       [0x00, 0x00, 0x00, 0x00, 0x00, 0x00, 0x00, 0x00, 0x00, 0x00, 0x00, 0x00, 0x00, 0x00,
        0x00, 0x00, 0x00, 0x00, 0x7f, 0x80, 0x00, 0x00, 0x00, 0x00, 0x00, 0x00, 0x00, 0x00,
        0x00, 0x00, 0x00, 0x00, 0x00, 0x00, 0x00, 0x00, 0x00, 0x00, 0x00, 0x00]),
     (46,
       [0x00, 0x00, 0x00, 0x00, 0x00, 0x00, 0x00, 0x00, 0x00, 0x00, 0x00, 0x00, 0x00, 0x00,
        0x00, 0x00, 0x00, 0x00, 0x00, 0x00, 0x00, 0x00, 0x00, 0x00, 0x00, 0x00, 0x0e, 0x00,
        0x0e, 0x00, 0x0e, 0x00, 0x00, 0x00, 0x00, 0x00, 0x00, 0x00, 0x00, 0x00]),
     (47,
       [0x00, 0x00, 0x00, 0x00, 0x00, 0x00, 0x00, 0x00, 0x01, 0x80, 0x01, 0x80, 0x03, 0x00,
        0x03, 0x00, 0x06, 0x00, 0x06, 0x00, 0x0c, 0x00, 0x0c, 0x00, 0x18, 0x00, 0x18, 0x00,
        0x30, 0x00, 0x30, 0x00, 0x00, 0x00, 0x00, 0x00, 0x00, 0x00, 0x00, 0x00])]"

definition GLYPHS_003 :: "(nat \<times> nat list) list" where
  "GLYPHS_003 =
    [(48,
       [0x00, 0x00, 0x00, 0x00, 0x00, 0x00, 0x0c, 0x00, 0x1e, 0x00, 0x33, 0x00, 0x33, 0x00,
        0x61, 0x80, 0x61, 0x80, 0x61, 0x80, 0x61, 0x80, 0x61, 0x80, 0x33, 0x00, 0x33, 0x00,
        0x1e, 0x00, 0x0c, 0x00, 0x00, 0x00, 0x00, 0x00, 0x00, 0x00, 0x00, 0x00]),
     (49,
       [0x00, 0x00, 0x00, 0x00, 0x00, 0x00, 0x0c, 0x00, 0x1c, 0x00, 0x3c, 0x00, 0x6c, 0x00,
        0x0c, 0x00, 0x0c, 0x00, 0x0c, 0x00, 0x0c, 0x00, 0x0c, 0x00, 0x0c, 0x00, 0x0c, 0x00,
        0x0c, 0x00, 0x7f, 0x80, 0x00, 0x00, 0x00, 0x00, 0x00, 0x00, 0x00, 0x00]),
     (50,
       [0x00, 0x00, 0x00, 0x00, 0x00, 0x00, 0x1e, 0x00, 0x33, 0x00, 0x61, 0x80, 0x61, 0x80,
        0x01, 0x80, 0x01, 0x80, 0x03, 0x00, 0x0e, 0x00, 0x18, 0x00, 0x30, 0x00, 0x60, 0x00,
        0x60, 0x00, 0x7f, 0x80, 0x00, 0x00, 0x00, 0x00, 0x00, 0x00, 0x00, 0x00]),
     (51,
       [0x00, 0x00, 0x00, 0x00, 0x00, 0x00, 0x1e, 0x00, 0x33, 0x00, 0x61, 0x80, 0x61, 0x80,
        0x01, 0x80, 0x03, 0x00, 0x0e, 0x00, 0x03, 0x00, 0x01, 0x80, 0x61, 0x80, 0x61, 0x80,
        0x33, 0x00, 0x1e, 0x00, 0x00, 0x00, 0x00, 0x00, 0x00, 0x00, 0x00, 0x00]),
     (52,
       [0x00, 0x00, 0x00, 0x00, 0x00, 0x00, 0x01, 0x00, 0x03, 0x00, 0x07, 0x00, 0x0f, 0x00,
        0x1b, 0x00, 0x33, 0x00, 0x63, 0x00, 0x63, 0x00, 0x7f, 0x80, 0x03, 0x00, 0x03, 0x00,
        0x03, 0x00, 0x03, 0x00, 0x00, 0x00, 0x00, 0x00, 0x00, 0x00, 0x00, 0x00]),
     (53,
       [0x00, 0x00, 0x00, 0x00, 0x00, 0x00, 0x7f, 0x80, 0x60, 0x00, 0x60, 0x00, 0x60, 0x00,
        0x60, 0x00, 0x6e, 0x00, 0x73, 0x00, 0x01, 0x80, 0x01, 0x80, 0x01, 0x80, 0x61, 0x80,
        0x33, 0x00, 0x1e, 0x00, 0x00, 0x00, 0x00, 0x00, 0x00, 0x00, 0x00, 0x00]),
     (54,
       [0x00, 0x00, 0x00, 0x00, 0x00, 0x00, 0x1e, 0x00, 0x33, 0x00, 0x61, 0x00, 0x60, 0x00,
        0x60, 0x00, 0x6e, 0x00, 0x73, 0x00, 0x61, 0x80, 0x61, 0x80, 0x61, 0x80, 0x61, 0x80,
        0x33, 0x00, 0x1e, 0x00, 0x00, 0x00, 0x00, 0x00, 0x00, 0x00, 0x00, 0x00]),
     (55,
       [0x00, 0x00, 0x00, 0x00, 0x00, 0x00, 0x7f, 0x80, 0x01, 0x80, 0x01, 0x80, 0x03, 0x00,
        0x03, 0x00, 0x06, 0x00, 0x06, 0x00, 0x0c, 0x00, 0x0c, 0x00, 0x18, 0x00, 0x18, 0x00,
        0x30, 0x00, 0x30, 0x00, 0x00, 0x00, 0x00, 0x00, 0x00, 0x00, 0x00, 0x00]),
     (56,
       [0x00, 0x00, 0x00, 0x00, 0x00, 0x00, 0x1e, 0x00, 0x33, 0x00, 0x61, 0x80, 0x61, 0x80,
        0x61, 0x80, 0x33, 0x00, 0x1e, 0x00, 0x33, 0x00, 0x61, 0x80, 0x61, 0x80, 0x61, 0x80,
        0x33, 0x00, 0x1e, 0x00, 0x00, 0x00, 0x00, 0x00, 0x00, 0x00, 0x00, 0x00]),
     (57,
       [0x00, 0x00, 0x00, 0x00, 0x00, 0x00, 0x1e, 0x00, 0x33, 0x00, 0x61, 0x80, 0x61, 0x80,
        0x61, 0x80, 0x61, 0x80, 0x33, 0x80, 0x1d, 0x80, 0x01, 0x80, 0x01, 0x80, 0x21, 0x80,
        0x33, 0x00, 0x1e, 0x00, 0x00, 0x00, 0x00, 0x00, 0x00, 0x00, 0x00, 0x00]),
     (58,
       [0x00, 0x00, 0x00, 0x00, 0x00, 0x00, 0x00, 0x00, 0x00, 0x00, 0x00, 0x00, 0x00, 0x00,
        0x00, 0x00, 0x0e, 0x00, 0x0e, 0x00, 0x00, 0x00, 0x00, 0x00, 0x00, 0x00, 0x00, 0x00,
        0x0e, 0x00, 0x0e, 0x00, 0x00, 0x00, 0x00, 0x00, 0x00, 0x00, 0x00, 0x00]),
     (59,
       [0x00, 0x00, 0x00, 0x00, 0x00, 0x00, 0x00, 0x00, 0x00, 0x00, 0x00, 0x00, 0x00, 0x00,
        0x00, 0x00, 0x0e, 0x00, 0x0e, 0x00, 0x00, 0x00, 0x00, 0x00, 0x00, 0x00, 0x00, 0x00,
        0x0e, 0x00, 0x0e, 0x00, 0x1c, 0x00, 0x00, 0x00, 0x00, 0x00, 0x00, 0x00]),
     (60,
       [0x00, 0x00, 0x00, 0x00, 0x00, 0x00, 0x01, 0x00, 0x03, 0x00, 0x06, 0x00, 0x0c, 0x00,
        0x18, 0x00, 0x30, 0x00, 0x60, 0x00, 0x30, 0x00, 0x18, 0x00, 0x0c, 0x00, 0x06, 0x00,
        0x03, 0x00, 0x01, 0x00, 0x00, 0x00, 0x00, 0x00, 0x00, 0x00, 0x00, 0x00]),
     (61,
       [0x00, 0x00, 0x00, 0x00, 0x00, 0x00, 0x00, 0x00, 0x00, 0x00, 0x00, 0x00, 0x00, 0x00,
        0x7f, 0x80, 0x00, 0x00, 0x00, 0x00, 0x00, 0x00, 0x00, 0x00, 0x7f, 0x80, 0x00, 0x00,
        0x00, 0x00, 0x00, 0x00, 0x00, 0x00, 0x00, 0x00, 0x00, 0x00, 0x00, 0x00]),
     (62,
       [0x00, 0x00, 0x00, 0x00, 0x00, 0x00, 0x20, 0x00, 0x30, 0x00, 0x18, 0x00, 0x0c, 0x00,
        0x06, 0x00, 0x03, 0x00, 0x01, 0x80, 0x03, 0x00, 0x06, 0x00, 0x0c, 0x00, 0x18, 0x00,
        0x30, 0x00, 0x20, 0x00, 0x00, 0x00, 0x00, 0x00, 0x00, 0x00, 0x00, 0x00]),
     (63,
       [0x00, 0x00, 0x00, 0x00, 0x00, 0x00, 0x1e, 0x00, 0x33, 0x00, 0x61, 0x80, 0x61, 0x80,
        0x61, 0x80, 0x03, 0x00, 0x06, 0x00, 0x0c, 0x00, 0x0c, 0x00, 0x0c, 0x00, 0x00, 0x00,
        0x0c, 0x00, 0x0c, 0x00, 0x00, 0x00, 0x00, 0x00, 0x00, 0x00, 0x00, 0x00])]"

definition GLYPHS_004 :: "(nat \<times> nat list) list" where
  "GLYPHS_004 =
    [(64,
       [0x00, 0x00, 0x00, 0x00, 0x00, 0x00, 0x1e, 0x00, 0x33, 0x00, 0x61, 0x80, 0x67, 0x80,
        0x6f, 0x80, 0x6d, 0x80, 0x6d, 0x80, 0x6d, 0x80, 0x6f, 0x00, 0x66, 0x00, 0x60, 0x00,
        0x31, 0x80, 0x1f, 0x00, 0x00, 0x00, 0x00, 0x00, 0x00, 0x00, 0x00, 0x00]),
     (65,
       [0x00, 0x00, 0x00, 0x00, 0x00, 0x00, 0x0c, 0x00, 0x1e, 0x00, 0x33, 0x00, 0x33, 0x00,
        0x61, 0x80, 0x61, 0x80, 0x61, 0x80, 0x7f, 0x80, 0x61, 0x80, 0x61, 0x80, 0x61, 0x80,
        0x61, 0x80, 0x61, 0x80, 0x00, 0x00, 0x00, 0x00, 0x00, 0x00, 0x00, 0x00]),
     (66,
       [0x00, 0x00, 0x00, 0x00, 0x00, 0x00, 0x7c, 0x00, 0x66, 0x00, 0x63, 0x00, 0x63, 0x00,
        0x63, 0x00, 0x66, 0x00, 0x7e, 0x00, 0x63, 0x00, 0x61, 0x80, 0x61, 0x80, 0x61, 0x80,
        0x63, 0x00, 0x7e, 0x00, 0x00, 0x00, 0x00, 0x00, 0x00, 0x00, 0x00, 0x00]),
     (67,
       [0x00, 0x00, 0x00, 0x00, 0x00, 0x00, 0x1e, 0x00, 0x33, 0x00, 0x61, 0x80, 0x60, 0x00,
        0x60, 0x00, 0x60, 0x00, 0x60, 0x00, 0x60, 0x00, 0x60, 0x00, 0x60, 0x00, 0x61, 0x80,
        0x33, 0x00, 0x1e, 0x00, 0x00, 0x00, 0x00, 0x00, 0x00, 0x00, 0x00, 0x00]),
     (68,
       [0x00, 0x00, 0x00, 0x00, 0x00, 0x00, 0x7e, 0x00, 0x63, 0x00, 0x61, 0x80, 0x61, 0x80,
        0x61, 0x80, 0x61, 0x80, 0x61, 0x80, 0x61, 0x80, 0x61, 0x80, 0x61, 0x80, 0x61, 0x80,
        0x63, 0x00, 0x7e, 0x00, 0x00, 0x00, 0x00, 0x00, 0x00, 0x00, 0x00, 0x00]),
     (69,
       [0x00, 0x00, 0x00, 0x00, 0x00, 0x00, 0x7f, 0x80, 0x60, 0x00, 0x60, 0x00, 0x60, 0x00,
        0x60, 0x00, 0x60, 0x00, 0x7e, 0x00, 0x60, 0x00, 0x60, 0x00, 0x60, 0x00, 0x60, 0x00,
        0x60, 0x00, 0x7f, 0x80, 0x00, 0x00, 0x00, 0x00, 0x00, 0x00, 0x00, 0x00]),
     (70,
       [0x00, 0x00, 0x00, 0x00, 0x00, 0x00, 0x7f, 0x80, 0x60, 0x00, 0x60, 0x00, 0x60, 0x00,
        0x60, 0x00, 0x60, 0x00, 0x7e, 0x00, 0x60, 0x00, 0x60, 0x00, 0x60, 0x00, 0x60, 0x00,
        0x60, 0x00, 0x60, 0x00, 0x00, 0x00, 0x00, 0x00, 0x00, 0x00, 0x00, 0x00]),
     (71,
       [0x00, 0x00, 0x00, 0x00, 0x00, 0x00, 0x1e, 0x00, 0x33, 0x00, 0x61, 0x80, 0x60, 0x00,
        0x60, 0x00, 0x60, 0x00, 0x67, 0x80, 0x61, 0x80, 0x61, 0x80, 0x61, 0x80, 0x61, 0x80,
        0x33, 0x80, 0x1e, 0x80, 0x00, 0x00, 0x00, 0x00, 0x00, 0x00, 0x00, 0x00]),
     (72,
       [0x00, 0x00, 0x00, 0x00, 0x00, 0x00, 0x61, 0x80, 0x61, 0x80, 0x61, 0x80, 0x61, 0x80,
        0x61, 0x80, 0x61, 0x80, 0x7f, 0x80, 0x61, 0x80, 0x61, 0x80, 0x61, 0x80, 0x61, 0x80,
        0x61, 0x80, 0x61, 0x80, 0x00, 0x00, 0x00, 0x00, 0x00, 0x00, 0x00, 0x00]),
     (73,
       [0x00, 0x00, 0x00, 0x00, 0x00, 0x00, 0x7f, 0x80, 0x0c, 0x00, 0x0c, 0x00, 0x0c, 0x00,
        0x0c, 0x00, 0x0c, 0x00, 0x0c, 0x00, 0x0c, 0x00, 0x0c, 0x00, 0x0c, 0x00, 0x0c, 0x00,
        0x0c, 0x00, 0x7f, 0x80, 0x00, 0x00, 0x00, 0x00, 0x00, 0x00, 0x00, 0x00]),
     (74,
       [0x00, 0x00, 0x00, 0x00, 0x00, 0x00, 0x0f, 0xc0, 0x03, 0x00, 0x03, 0x00, 0x03, 0x00,
        0x03, 0x00, 0x03, 0x00, 0x03, 0x00, 0x03, 0x00, 0x03, 0x00, 0x63, 0x00, 0x63, 0x00,
        0x36, 0x00, 0x1c, 0x00, 0x00, 0x00, 0x00, 0x00, 0x00, 0x00, 0x00, 0x00]),
     (75,
       [0x00, 0x00, 0x00, 0x00, 0x00, 0x00, 0x61, 0x80, 0x61, 0x80, 0x63, 0x00, 0x63, 0x00,
        0x66, 0x00, 0x66, 0x00, 0x7c, 0x00, 0x66, 0x00, 0x66, 0x00, 0x63, 0x00, 0x63, 0x00,
        0x61, 0x80, 0x61, 0x80, 0x00, 0x00, 0x00, 0x00, 0x00, 0x00, 0x00, 0x00]),
     (76,
       [0x00, 0x00, 0x00, 0x00, 0x00, 0x00, 0x60, 0x00, 0x60, 0x00, 0x60, 0x00, 0x60, 0x00,
        0x60, 0x00, 0x60, 0x00, 0x60, 0x00, 0x60, 0x00, 0x60, 0x00, 0x60, 0x00, 0x60, 0x00,
        0x60, 0x00, 0x7f, 0x80, 0x00, 0x00, 0x00, 0x00, 0x00, 0x00, 0x00, 0x00]),
     (77,
       [0x00, 0x00, 0x00, 0x00, 0x00, 0x00, 0x61, 0x80, 0x61, 0x80, 0x73, 0x80, 0x73, 0x80,
        0x7f, 0x80, 0x6d, 0x80, 0x6d, 0x80, 0x6d, 0x80, 0x6d, 0x80, 0x61, 0x80, 0x61, 0x80,
        0x61, 0x80, 0x61, 0x80, 0x00, 0x00, 0x00, 0x00, 0x00, 0x00, 0x00, 0x00]),
     (78,
       [0x00, 0x00, 0x00, 0x00, 0x00, 0x00, 0x61, 0x80, 0x71, 0x80, 0x71, 0x80, 0x79, 0x80,
        0x79, 0x80, 0x6d, 0x80, 0x6d, 0x80, 0x67, 0x80, 0x67, 0x80, 0x63, 0x80, 0x63, 0x80,
        0x61, 0x80, 0x61, 0x80, 0x00, 0x00, 0x00, 0x00, 0x00, 0x00, 0x00, 0x00]),
     (79,
       [0x00, 0x00, 0x00, 0x00, 0x00, 0x00, 0x1e, 0x00, 0x33, 0x00, 0x61, 0x80, 0x61, 0x80,
        0x61, 0x80, 0x61, 0x80, 0x61, 0x80, 0x61, 0x80, 0x61, 0x80, 0x61, 0x80, 0x61, 0x80,
        0x33, 0x00, 0x1e, 0x00, 0x00, 0x00, 0x00, 0x00, 0x00, 0x00, 0x00, 0x00])]"

definition GLYPHS_005 :: "(nat \<times> nat list) list" where
  "GLYPHS_005 =
    [(80,
       [0x00, 0x00, 0x00, 0x00, 0x00, 0x00, 0x7e, 0x00, 0x63, 0x00, 0x61, 0x80, 0x61, 0x80,
        0x61, 0x80, 0x61, 0x80, 0x63, 0x00, 0x7e, 0x00, 0x60, 0x00, 0x60, 0x00, 0x60, 0x00,
        0x60, 0x00, 0x60, 0x00, 0x00, 0x00, 0x00, 0x00, 0x00, 0x00, 0x00, 0x00]),
     (81,
       [0x00, 0x00, 0x00, 0x00, 0x00, 0x00, 0x1e, 0x00, 0x33, 0x00, 0x61, 0x80, 0x61, 0x80,
        0x61, 0x80, 0x61, 0x80, 0x61, 0x80, 0x61, 0x80, 0x61, 0x80, 0x6d, 0x80, 0x67, 0x80,
        0x33, 0x00, 0x1f, 0x00, 0x01, 0x80, 0x00, 0x00, 0x00, 0x00, 0x00, 0x00]),
     (82,
       [0x00, 0x00, 0x00, 0x00, 0x00, 0x00, 0x7e, 0x00, 0x63, 0x00, 0x61, 0x80, 0x61, 0x80,
        0x61, 0x80, 0x61, 0x80, 0x63, 0x00, 0x7e, 0x00, 0x66, 0x00, 0x63, 0x00, 0x63, 0x00,
        0x61, 0x80, 0x61, 0x80, 0x00, 0x00, 0x00, 0x00, 0x00, 0x00, 0x00, 0x00]),
     (83,
       [0x00, 0x00, 0x00, 0x00, 0x00, 0x00, 0x1e, 0x00, 0x33, 0x00, 0x61, 0x80, 0x60, 0x00,
        0x60, 0x00, 0x30, 0x00, 0x1e, 0x00, 0x03, 0x00, 0x01, 0x80, 0x01, 0x80, 0x61, 0x80,
        0x33, 0x00, 0x1e, 0x00, 0x00, 0x00, 0x00, 0x00, 0x00, 0x00, 0x00, 0x00]),
     (84,
       [0x00, 0x00, 0x00, 0x00, 0x00, 0x00, 0x7f, 0x80, 0x0c, 0x00, 0x0c, 0x00, 0x0c, 0x00,
        0x0c, 0x00, 0x0c, 0x00, 0x0c, 0x00, 0x0c, 0x00, 0x0c, 0x00, 0x0c, 0x00, 0x0c, 0x00,
        0x0c, 0x00, 0x0c, 0x00, 0x00, 0x00, 0x00, 0x00, 0x00, 0x00, 0x00, 0x00]),
     (85,
       [0x00, 0x00, 0x00, 0x00, 0x00, 0x00, 0x61, 0x80, 0x61, 0x80, 0x61, 0x80, 0x61, 0x80,
        0x61, 0x80, 0x61, 0x80, 0x61, 0x80, 0x61, 0x80, 0x61, 0x80, 0x61, 0x80, 0x61, 0x80,
        0x33, 0x00, 0x1e, 0x00, 0x00, 0x00, 0x00, 0x00, 0x00, 0x00, 0x00, 0x00]),
     (86,
       [0x00, 0x00, 0x00, 0x00, 0x00, 0x00, 0x61, 0x80, 0x61, 0x80, 0x61, 0x80, 0x61, 0x80,
        0x33, 0x00, 0x33, 0x00, 0x33, 0x00, 0x1e, 0x00, 0x1e, 0x00, 0x1e, 0x00, 0x0c, 0x00,
        0x0c, 0x00, 0x0c, 0x00, 0x00, 0x00, 0x00, 0x00, 0x00, 0x00, 0x00, 0x00]),
     (87,
       [0x00, 0x00, 0x00, 0x00, 0x00, 0x00, 0x61, 0x80, 0x61, 0x80, 0x61, 0x80, 0x61, 0x80,
        0x61, 0x80, 0x6d, 0x80, 0x6d, 0x80, 0x6d, 0x80, 0x6d, 0x80, 0x73, 0x80, 0x73, 0x80,
        0x61, 0x80, 0x61, 0x80, 0x00, 0x00, 0x00, 0x00, 0x00, 0x00, 0x00, 0x00]),
     (88,
       [0x00, 0x00, 0x00, 0x00, 0x00, 0x00, 0x61, 0x80, 0x61, 0x80, 0x33, 0x00, 0x33, 0x00,
        0x1e, 0x00, 0x1e, 0x00, 0x0c, 0x00, 0x1e, 0x00, 0x1e, 0x00, 0x33, 0x00, 0x33, 0x00,
        0x61, 0x80, 0x61, 0x80, 0x00, 0x00, 0x00, 0x00, 0x00, 0x00, 0x00, 0x00]),
     (89,
       [0x00, 0x00, 0x00, 0x00, 0x00, 0x00, 0x61, 0x80, 0x61, 0x80, 0x33, 0x00, 0x33, 0x00,
        0x1e, 0x00, 0x1e, 0x00, 0x0c, 0x00, 0x0c, 0x00, 0x0c, 0x00, 0x0c, 0x00, 0x0c, 0x00,
        0x0c, 0x00, 0x0c, 0x00, 0x00, 0x00, 0x00, 0x00, 0x00, 0x00, 0x00, 0x00]),
     (90,
       [0x00, 0x00, 0x00, 0x00, 0x00, 0x00, 0x7f, 0x80, 0x01, 0x80, 0x01, 0x80, 0x03, 0x00,
        0x06, 0x00, 0x06, 0x00, 0x0c, 0x00, 0x18, 0x00, 0x18, 0x00, 0x30, 0x00, 0x60, 0x00,
        0x60, 0x00, 0x7f, 0x80, 0x00, 0x00, 0x00, 0x00, 0x00, 0x00, 0x00, 0x00]),
     (91,
       [0x00, 0x00, 0x00, 0x00, 0x00, 0x00, 0x3f, 0x00, 0x30, 0x00, 0x30, 0x00, 0x30, 0x00,
        0x30, 0x00, 0x30, 0x00, 0x30, 0x00, 0x30, 0x00, 0x30, 0x00, 0x30, 0x00, 0x30, 0x00,
        0x30, 0x00, 0x3f, 0x00, 0x00, 0x00, 0x00, 0x00, 0x00, 0x00, 0x00, 0x00]),
     (92,
       [0x00, 0x00, 0x00, 0x00, 0x00, 0x00, 0x00, 0x00, 0x30, 0x00, 0x30, 0x00, 0x18, 0x00,
        0x18, 0x00, 0x0c, 0x00, 0x0c, 0x00, 0x06, 0x00, 0x06, 0x00, 0x03, 0x00, 0x03, 0x00,
        0x01, 0x80, 0x01, 0x80, 0x00, 0x00, 0x00, 0x00, 0x00, 0x00, 0x00, 0x00]),
     (93,
       [0x00, 0x00, 0x00, 0x00, 0x00, 0x00, 0x3f, 0x00, 0x03, 0x00, 0x03, 0x00, 0x03, 0x00,
        0x03, 0x00, 0x03, 0x00, 0x03, 0x00, 0x03, 0x00, 0x03, 0x00, 0x03, 0x00, 0x03, 0x00,
        0x03, 0x00, 0x3f, 0x00, 0x00, 0x00, 0x00, 0x00, 0x00, 0x00, 0x00, 0x00]),
     (94,
       [0x00, 0x00, 0x00, 0x00, 0x00, 0x00, 0x0c, 0x00, 0x1e, 0x00, 0x33, 0x00, 0x61, 0x80,
        0x00, 0x00, 0x00, 0x00, 0x00, 0x00, 0x00, 0x00, 0x00, 0x00, 0x00, 0x00, 0x00, 0x00,
        0x00, 0x00, 0x00, 0x00, 0x00, 0x00, 0x00, 0x00, 0x00, 0x00, 0x00, 0x00]),
     (95,
       [0x00, 0x00, 0x00, 0x00, 0x00, 0x00, 0x00, 0x00, 0x00, 0x00, 0x00, 0x00, 0x00, 0x00,
        0x00, 0x00, 0x00, 0x00, 0x00, 0x00, 0x00, 0x00, 0x00, 0x00, 0x00, 0x00, 0x00, 0x00,
        0x00, 0x00, 0x00, 0x00, 0x7f, 0xc0, 0x00, 0x00, 0x00, 0x00, 0x00, 0x00])]"

definition GLYPHS_006 :: "(nat \<times> nat list) list" where
  "GLYPHS_006 =
    [(96,
       [0x00, 0x00, 0x00, 0x00, 0x00, 0x00, 0x18, 0x00, 0x0c, 0x00, 0x06, 0x00, 0x00, 0x00,
        0x00, 0x00, 0x00, 0x00, 0x00, 0x00, 0x00, 0x00, 0x00, 0x00, 0x00, 0x00, 0x00, 0x00,
        0x00, 0x00, 0x00, 0x00, 0x00, 0x00, 0x00, 0x00, 0x00, 0x00, 0x00, 0x00]),
     (97,
       [0x00, 0x00, 0x00, 0x00, 0x00, 0x00, 0x00, 0x00, 0x00, 0x00, 0x00, 0x00, 0x00, 0x00,
        0x00, 0x00, 0x1f, 0x00, 0x31, 0x80, 0x01, 0x80, 0x3f, 0x80, 0x61, 0x80, 0x61, 0x80,
        0x61, 0x80, 0x3e, 0x80, 0x00, 0x00, 0x00, 0x00, 0x00, 0x00, 0x00, 0x00]),
     (98,
       [0x00, 0x00, 0x00, 0x00, 0x00, 0x00, 0x60, 0x00, 0x60, 0x00, 0x60, 0x00, 0x60, 0x00,
        0x60, 0x00, 0x6e, 0x00, 0x73, 0x00, 0x61, 0x80, 0x61, 0x80, 0x61, 0x80, 0x61, 0x80,
        0x73, 0x00, 0x6e, 0x00, 0x00, 0x00, 0x00, 0x00, 0x00, 0x00, 0x00, 0x00]),
     (99,
       [0x00, 0x00, 0x00, 0x00, 0x00, 0x00, 0x00, 0x00, 0x00, 0x00, 0x00, 0x00, 0x00, 0x00,
        0x00, 0x00, 0x1f, 0x00, 0x31, 0x80, 0x60, 0x00, 0x60, 0x00, 0x60, 0x00, 0x60, 0x00,
        0x31, 0x80, 0x1f, 0x00, 0x00, 0x00, 0x00, 0x00, 0x00, 0x00, 0x00, 0x00]),
     (100,
       [0x00, 0x00, 0x00, 0x00, 0x00, 0x00, 0x01, 0x80, 0x01, 0x80, 0x01, 0x80, 0x01, 0x80,
        0x01, 0x80, 0x1d, 0x80, 0x33, 0x80, 0x61, 0x80, 0x61, 0x80, 0x61, 0x80, 0x61, 0x80,
        0x33, 0x80, 0x1d, 0x80, 0x00, 0x00, 0x00, 0x00, 0x00, 0x00, 0x00, 0x00]),
     (101,
       [0x00, 0x00, 0x00, 0x00, 0x00, 0x00, 0x00, 0x00, 0x00, 0x00, 0x00, 0x00, 0x00, 0x00,
        0x00, 0x00, 0x1e, 0x00, 0x33, 0x00, 0x61, 0x80, 0x7f, 0x80, 0x60, 0x00, 0x60, 0x00,
        0x31, 0x80, 0x1f, 0x00, 0x00, 0x00, 0x00, 0x00, 0x00, 0x00, 0x00, 0x00]),
     (102,
       [0x00, 0x00, 0x00, 0x00, 0x00, 0x00, 0x0f, 0x00, 0x19, 0x80, 0x19, 0x80, 0x18, 0x00,
        0x18, 0x00, 0x7e, 0x00, 0x18, 0x00, 0x18, 0x00, 0x18, 0x00, 0x18, 0x00, 0x18, 0x00,
        0x18, 0x00, 0x18, 0x00, 0x00, 0x00, 0x00, 0x00, 0x00, 0x00, 0x00, 0x00]),
     (103,
       [0x00, 0x00, 0x00, 0x00, 0x00, 0x00, 0x00, 0x00, 0x00, 0x00, 0x00, 0x00, 0x00, 0x00,
        0x00, 0x00, 0x3e, 0x80, 0x63, 0x80, 0x63, 0x00, 0x63, 0x00, 0x63, 0x00, 0x3e, 0x00,
        0x60, 0x00, 0x3f, 0x00, 0x61, 0x80, 0x61, 0x80, 0x61, 0x80, 0x3f, 0x00]),
     (104,
       [0x00, 0x00, 0x00, 0x00, 0x00, 0x00, 0x60, 0x00, 0x60, 0x00, 0x60, 0x00, 0x60, 0x00,
        0x60, 0x00, 0x6e, 0x00, 0x73, 0x00, 0x61, 0x80, 0x61, 0x80, 0x61, 0x80, 0x61, 0x80,
        0x61, 0x80, 0x61, 0x80, 0x00, 0x00, 0x00, 0x00, 0x00, 0x00, 0x00, 0x00]),
     (105,
       [0x00, 0x00, 0x00, 0x00, 0x00, 0x00, 0x00, 0x00, 0x00, 0x00, 0x0c, 0x00, 0x0c, 0x00,
        0x00, 0x00, 0x3c, 0x00, 0x0c, 0x00, 0x0c, 0x00, 0x0c, 0x00, 0x0c, 0x00, 0x0c, 0x00,
        0x0c, 0x00, 0x7f, 0x80, 0x00, 0x00, 0x00, 0x00, 0x00, 0x00, 0x00, 0x00]),
     (106,
       [0x00, 0x00, 0x00, 0x00, 0x00, 0x00, 0x00, 0x00, 0x00, 0x00, 0x01, 0x80, 0x01, 0x80,
        0x00, 0x00, 0x07, 0x80, 0x01, 0x80, 0x01, 0x80, 0x01, 0x80, 0x01, 0x80, 0x01, 0x80,
        0x01, 0x80, 0x01, 0x80, 0x31, 0x80, 0x31, 0x80, 0x31, 0x80, 0x1f, 0x00]),
     (107,
       [0x00, 0x00, 0x00, 0x00, 0x00, 0x00, 0x60, 0x00, 0x60, 0x00, 0x60, 0x00, 0x60, 0x00,
        0x60, 0x00, 0x63, 0x00, 0x66, 0x00, 0x6c, 0x00, 0x78, 0x00, 0x7c, 0x00, 0x66, 0x00,
        0x63, 0x00, 0x61, 0x80, 0x00, 0x00, 0x00, 0x00, 0x00, 0x00, 0x00, 0x00]),
     (108,
       [0x00, 0x00, 0x00, 0x00, 0x00, 0x00, 0x3c, 0x00, 0x0c, 0x00, 0x0c, 0x00, 0x0c, 0x00,
        0x0c, 0x00, 0x0c, 0x00, 0x0c, 0x00, 0x0c, 0x00, 0x0c, 0x00, 0x0c, 0x00, 0x0c, 0x00,
        0x0c, 0x00, 0x7f, 0x80, 0x00, 0x00, 0x00, 0x00, 0x00, 0x00, 0x00, 0x00]),
     (109,
       [0x00, 0x00, 0x00, 0x00, 0x00, 0x00, 0x00, 0x00, 0x00, 0x00, 0x00, 0x00, 0x00, 0x00,
        0x00, 0x00, 0x5b, 0x00, 0x7f, 0x80, 0x6d, 0x80, 0x6d, 0x80, 0x6d, 0x80, 0x6d, 0x80,
        0x6d, 0x80, 0x6d, 0x80, 0x00, 0x00, 0x00, 0x00, 0x00, 0x00, 0x00, 0x00]),
     (110,
       [0x00, 0x00, 0x00, 0x00, 0x00, 0x00, 0x00, 0x00, 0x00, 0x00, 0x00, 0x00, 0x00, 0x00,
        0x00, 0x00, 0x6e, 0x00, 0x73, 0x00, 0x61, 0x80, 0x61, 0x80, 0x61, 0x80, 0x61, 0x80,
        0x61, 0x80, 0x61, 0x80, 0x00, 0x00, 0x00, 0x00, 0x00, 0x00, 0x00, 0x00]),
     (111,
       [0x00, 0x00, 0x00, 0x00, 0x00, 0x00, 0x00, 0x00, 0x00, 0x00, 0x00, 0x00, 0x00, 0x00,
        0x00, 0x00, 0x1e, 0x00, 0x33, 0x00, 0x61, 0x80, 0x61, 0x80, 0x61, 0x80, 0x61, 0x80,
        0x33, 0x00, 0x1e, 0x00, 0x00, 0x00, 0x00, 0x00, 0x00, 0x00, 0x00, 0x00])]"

definition GLYPHS_007 :: "(nat \<times> nat list) list" where
  "GLYPHS_007 =
    [(112,
       [0x00, 0x00, 0x00, 0x00, 0x00, 0x00, 0x00, 0x00, 0x00, 0x00, 0x00, 0x00, 0x00, 0x00,
        0x00, 0x00, 0x6e, 0x00, 0x73, 0x00, 0x61, 0x80, 0x61, 0x80, 0x61, 0x80, 0x61, 0x80,
        0x73, 0x00, 0x6e, 0x00, 0x60, 0x00, 0x60, 0x00, 0x60, 0x00, 0x60, 0x00]),
     (113,
       [0x00, 0x00, 0x00, 0x00, 0x00, 0x00, 0x00, 0x00, 0x00, 0x00, 0x00, 0x00, 0x00, 0x00,
        0x00, 0x00, 0x1d, 0x80, 0x33, 0x80, 0x61, 0x80, 0x61, 0x80, 0x61, 0x80, 0x61, 0x80,
        0x33, 0x80, 0x1d, 0x80, 0x01, 0x80, 0x01, 0x80, 0x01, 0x80, 0x01, 0x80]),
     (114,
       [0x00, 0x00, 0x00, 0x00, 0x00, 0x00, 0x00, 0x00, 0x00, 0x00, 0x00, 0x00, 0x00, 0x00,
        0x00, 0x00, 0x6f, 0x00, 0x39, 0x80, 0x30, 0x00, 0x30, 0x00, 0x30, 0x00, 0x30, 0x00,
        0x30, 0x00, 0x30, 0x00, 0x00, 0x00, 0x00, 0x00, 0x00, 0x00, 0x00, 0x00]),
     (115,
       [0x00, 0x00, 0x00, 0x00, 0x00, 0x00, 0x00, 0x00, 0x00, 0x00, 0x00, 0x00, 0x00, 0x00,
        0x00, 0x00, 0x3f, 0x00, 0x61, 0x80, 0x60, 0x00, 0x3f, 0x00, 0x01, 0x80, 0x01, 0x80,
        0x61, 0x80, 0x3f, 0x00, 0x00, 0x00, 0x00, 0x00, 0x00, 0x00, 0x00, 0x00]),
     (116,
       [0x00, 0x00, 0x00, 0x00, 0x00, 0x00, 0x00, 0x00, 0x00, 0x00, 0x18, 0x00, 0x18, 0x00,
        0x18, 0x00, 0x7e, 0x00, 0x18, 0x00, 0x18, 0x00, 0x18, 0x00, 0x18, 0x00, 0x18, 0x00,
        0x19, 0x80, 0x0f, 0x00, 0x00, 0x00, 0x00, 0x00, 0x00, 0x00, 0x00, 0x00]),
     (117,
       [0x00, 0x00, 0x00, 0x00, 0x00, 0x00, 0x00, 0x00, 0x00, 0x00, 0x00, 0x00, 0x00, 0x00,
        0x00, 0x00, 0x61, 0x80, 0x61, 0x80, 0x61, 0x80, 0x61, 0x80, 0x61, 0x80, 0x61, 0x80,
        0x33, 0x80, 0x1d, 0x80, 0x00, 0x00, 0x00, 0x00, 0x00, 0x00, 0x00, 0x00]),
     (118,
       [0x00, 0x00, 0x00, 0x00, 0x00, 0x00, 0x00, 0x00, 0x00, 0x00, 0x00, 0x00, 0x00, 0x00,
        0x00, 0x00, 0x61, 0x80, 0x61, 0x80, 0x33, 0x00, 0x33, 0x00, 0x1e, 0x00, 0x1e, 0x00,
        0x0c, 0x00, 0x0c, 0x00, 0x00, 0x00, 0x00, 0x00, 0x00, 0x00, 0x00, 0x00]),
     (119,
       [0x00, 0x00, 0x00, 0x00, 0x00, 0x00, 0x00, 0x00, 0x00, 0x00, 0x00, 0x00, 0x00, 0x00,
        0x00, 0x00, 0x61, 0x80, 0x61, 0x80, 0x61, 0x80, 0x6d, 0x80, 0x6d, 0x80, 0x6d, 0x80,
        0x7f, 0x80, 0x33, 0x00, 0x00, 0x00, 0x00, 0x00, 0x00, 0x00, 0x00, 0x00]),
     (120,
       [0x00, 0x00, 0x00, 0x00, 0x00, 0x00, 0x00, 0x00, 0x00, 0x00, 0x00, 0x00, 0x00, 0x00,
        0x00, 0x00, 0x61, 0x80, 0x33, 0x00, 0x1e, 0x00, 0x0c, 0x00, 0x0c, 0x00, 0x1e, 0x00,
        0x33, 0x00, 0x61, 0x80, 0x00, 0x00, 0x00, 0x00, 0x00, 0x00, 0x00, 0x00]),
     (121,
       [0x00, 0x00, 0x00, 0x00, 0x00, 0x00, 0x00, 0x00, 0x00, 0x00, 0x00, 0x00, 0x00, 0x00,
        0x00, 0x00, 0x61, 0x80, 0x61, 0x80, 0x61, 0x80, 0x61, 0x80, 0x61, 0x80, 0x61, 0x80,
        0x33, 0x80, 0x1d, 0x80, 0x01, 0x80, 0x61, 0x80, 0x33, 0x00, 0x1e, 0x00]),
     (122,
       [0x00, 0x00, 0x00, 0x00, 0x00, 0x00, 0x00, 0x00, 0x00, 0x00, 0x00, 0x00, 0x00, 0x00,
        0x00, 0x00, 0x3f, 0x80, 0x01, 0x80, 0x03, 0x00, 0x06, 0x00, 0x0c, 0x00, 0x18, 0x00,
        0x30, 0x00, 0x3f, 0x80, 0x00, 0x00, 0x00, 0x00, 0x00, 0x00, 0x00, 0x00]),
     (123,
       [0x00, 0x00, 0x00, 0x00, 0x00, 0x00, 0x07, 0x80, 0x0c, 0x00, 0x0c, 0x00, 0x0c, 0x00,
        0x0c, 0x00, 0x0c, 0x00, 0x78, 0x00, 0x0c, 0x00, 0x0c, 0x00, 0x0c, 0x00, 0x0c, 0x00,
        0x0c, 0x00, 0x07, 0x80, 0x00, 0x00, 0x00, 0x00, 0x00, 0x00, 0x00, 0x00]),
     (124,
       [0x00, 0x00, 0x00, 0x00, 0x00, 0x00, 0x0c, 0x00, 0x0c, 0x00, 0x0c, 0x00, 0x0c, 0x00,
        0x0c, 0x00, 0x0c, 0x00, 0x0c, 0x00, 0x0c, 0x00, 0x0c, 0x00, 0x0c, 0x00, 0x0c, 0x00,
        0x0c, 0x00, 0x0c, 0x00, 0x00, 0x00, 0x00, 0x00, 0x00, 0x00, 0x00, 0x00]),
     (125,
       [0x00, 0x00, 0x00, 0x00, 0x00, 0x00, 0x78, 0x00, 0x0c, 0x00, 0x0c, 0x00, 0x0c, 0x00,
        0x0c, 0x00, 0x0c, 0x00, 0x07, 0x80, 0x0c, 0x00, 0x0c, 0x00, 0x0c, 0x00, 0x0c, 0x00,
        0x0c, 0x00, 0x78, 0x00, 0x00, 0x00, 0x00, 0x00, 0x00, 0x00, 0x00, 0x00]),
     (126,
       [0x00, 0x00, 0x00, 0x00, 0x00, 0x00, 0x39, 0x80, 0x6d, 0x80, 0x67, 0x00, 0x00, 0x00,
        0x00, 0x00, 0x00, 0x00, 0x00, 0x00, 0x00, 0x00, 0x00, 0x00, 0x00, 0x00, 0x00, 0x00,
        0x00, 0x00, 0x00, 0x00, 0x00, 0x00, 0x00, 0x00, 0x00, 0x00, 0x00, 0x00])]"

definition GLYPHS_00A :: "(nat \<times> nat list) list" where
  "GLYPHS_00A =
    [(173,
       [0x00, 0x00, 0x00, 0x00, 0x00, 0x00, 0x00, 0x00, 0x00, 0x00, 0x00, 0x00, 0x00, 0x00,
        0x00, 0x00, 0x00, 0x00, 0x3f, 0x00, 0x00, 0x00, 0x00, 0x00, 0x00, 0x00, 0x00, 0x00,
        0x00, 0x00, 0x00, 0x00, 0x00, 0x00, 0x00, 0x00, 0x00, 0x00, 0x00, 0x00])]"

definition GLYPHS_040 :: "(nat \<times> nat list) list" where
  "GLYPHS_040 =
    [(1025,
       [0x33, 0x00, 0x33, 0x00, 0x00, 0x00, 0x7f, 0x80, 0x60, 0x00, 0x60, 0x00, 0x60, 0x00,
        0x60, 0x00, 0x60, 0x00, 0x7e, 0x00, 0x60, 0x00, 0x60, 0x00, 0x60, 0x00, 0x60, 0x00,
        0x60, 0x00, 0x7f, 0x80, 0x00, 0x00, 0x00, 0x00, 0x00, 0x00, 0x00, 0x00]),
     (1026,
       [0x00, 0x00, 0x00, 0x00, 0x00, 0x00, 0xff, 0x00, 0x18, 0x00, 0x18, 0x00, 0x18, 0x00,
        0x1f, 0x00, 0x19, 0x80, 0x19, 0x80, 0x19, 0x80, 0x19, 0x80, 0x19, 0x80, 0x19, 0x80,
        0x19, 0x80, 0x19, 0x80, 0x01, 0x80, 0x03, 0x00, 0x00, 0x00, 0x00, 0x00]),
     (1027,
       [0x0e, 0x00, 0x18, 0x00, 0x00, 0x00, 0x7f, 0x80, 0x60, 0x00, 0x60, 0x00, 0x60, 0x00,
        0x60, 0x00, 0x60, 0x00, 0x60, 0x00, 0x60, 0x00, 0x60, 0x00, 0x60, 0x00, 0x60, 0x00,
        0x60, 0x00, 0x60, 0x00, 0x00, 0x00, 0x00, 0x00, 0x00, 0x00, 0x00, 0x00]),
     (1028,
       [0x00, 0x00, 0x00, 0x00, 0x00, 0x00, 0x1e, 0x00, 0x33, 0x00, 0x61, 0x80, 0x60, 0x00,
        0x60, 0x00, 0x60, 0x00, 0x7f, 0x00, 0x60, 0x00, 0x60, 0x00, 0x60, 0x00, 0x61, 0x80,
        0x33, 0x00, 0x1e, 0x00, 0x00, 0x00, 0x00, 0x00, 0x00, 0x00, 0x00, 0x00]),
     (1029,
       [0x00, 0x00, 0x00, 0x00, 0x00, 0x00, 0x1e, 0x00, 0x33, 0x00, 0x61, 0x80, 0x60, 0x00,
        0x60, 0x00, 0x30, 0x00, 0x1e, 0x00, 0x03, 0x00, 0x01, 0x80, 0x01, 0x80, 0x61, 0x80,
        0x33, 0x00, 0x1e, 0x00, 0x00, 0x00, 0x00, 0x00, 0x00, 0x00, 0x00, 0x00]),
     (1030,
       [0x00, 0x00, 0x00, 0x00, 0x00, 0x00, 0x7f, 0x80, 0x0c, 0x00, 0x0c, 0x00, 0x0c, 0x00,
        0x0c, 0x00, 0x0c, 0x00, 0x0c, 0x00, 0x0c, 0x00, 0x0c, 0x00, 0x0c, 0x00, 0x0c, 0x00,
        0x0c, 0x00, 0x7f, 0x80, 0x00, 0x00, 0x00, 0x00, 0x00, 0x00, 0x00, 0x00]),
     (1031,
       [0x33, 0x00, 0x33, 0x00, 0x00, 0x00, 0x7f, 0x80, 0x0c, 0x00, 0x0c, 0x00, 0x0c, 0x00,
        0x0c, 0x00, 0x0c, 0x00, 0x0c, 0x00, 0x0c, 0x00, 0x0c, 0x00, 0x0c, 0x00, 0x0c, 0x00,
        0x0c, 0x00, 0x7f, 0x80, 0x00, 0x00, 0x00, 0x00, 0x00, 0x00, 0x00, 0x00]),
     (1032,
       [0x00, 0x00, 0x00, 0x00, 0x00, 0x00, 0x0f, 0x80, 0x01, 0x80, 0x01, 0x80, 0x01, 0x80,
        0x01, 0x80, 0x01, 0x80, 0x01, 0x80, 0x01, 0x80, 0x01, 0x80, 0x61, 0x80, 0x61, 0x80,
        0x33, 0x00, 0x1e, 0x00, 0x00, 0x00, 0x00, 0x00, 0x00, 0x00, 0x00, 0x00]),
     (1033,
       [0x00, 0x00, 0x00, 0x00, 0x00, 0x00, 0x7c, 0x00, 0x6c, 0x00, 0x6c, 0x00, 0x6c, 0x00,
        0x6c, 0x00, 0x6f, 0x00, 0x6d, 0x00, 0x6d, 0x80, 0x6d, 0x80, 0x6d, 0x80, 0x6d, 0x80,
        0x6d, 0x00, 0xcf, 0x00, 0x00, 0x00, 0x00, 0x00, 0x00, 0x00, 0x00, 0x00]),
     (1034,
       [0x00, 0x00, 0x00, 0x00, 0x00, 0x00, 0x6c, 0x00, 0x6c, 0x00, 0x6c, 0x00, 0x6c, 0x00,
        0x6c, 0x00, 0x6c, 0x00, 0x7f, 0x00, 0x6d, 0x00, 0x6d, 0x80, 0x6d, 0x80, 0x6d, 0x80,
        0x6d, 0x00, 0x6f, 0x00, 0x00, 0x00, 0x00, 0x00, 0x00, 0x00, 0x00, 0x00]),
     (1035,
       [0x00, 0x00, 0x00, 0x00, 0x00, 0x00, 0xff, 0x00, 0x18, 0x00, 0x18, 0x00, 0x18, 0x00,
        0x1b, 0x00, 0x1d, 0x80, 0x19, 0x80, 0x19, 0x80, 0x19, 0x80, 0x19, 0x80, 0x19, 0x80,
        0x19, 0x80, 0x19, 0x80, 0x00, 0x00, 0x00, 0x00, 0x00, 0x00, 0x00, 0x00]),
     (1036,
       [0x03, 0x00, 0x06, 0x00, 0x0c, 0x00, 0x61, 0x80, 0x61, 0x80, 0x63, 0x00, 0x63, 0x00,
        0x66, 0x00, 0x66, 0x00, 0x7c, 0x00, 0x66, 0x00, 0x66, 0x00, 0x63, 0x00, 0x63, 0x00,
        0x61, 0x80, 0x61, 0x80, 0x00, 0x00, 0x00, 0x00, 0x00, 0x00, 0x00, 0x00]),
     (1038,
       [0x33, 0x00, 0x1e, 0x00, 0x00, 0x00, 0x61, 0x80, 0x61, 0x80, 0x61, 0x80, 0x61, 0x80,
        0x61, 0x80, 0x61, 0x80, 0x3f, 0x80, 0x01, 0x80, 0x01, 0x80, 0x01, 0x80, 0x01, 0x80,
        0x61, 0x80, 0x3f, 0x00, 0x00, 0x00, 0x00, 0x00, 0x00, 0x00, 0x00, 0x00]),
     (1039,
       [0x00, 0x00, 0x00, 0x00, 0x00, 0x00, 0x61, 0x80, 0x61, 0x80, 0x61, 0x80, 0x61, 0x80,
        0x61, 0x80, 0x61, 0x80, 0x61, 0x80, 0x61, 0x80, 0x61, 0x80, 0x61, 0x80, 0x61, 0x80,
        0x61, 0x80, 0x7f, 0x80, 0x0c, 0x00, 0x0c, 0x00, 0x00, 0x00, 0x00, 0x00])]"

definition GLYPHS_041 :: "(nat \<times> nat list) list" where
  "GLYPHS_041 =
    [(1040,
       [0x00, 0x00, 0x00, 0x00, 0x00, 0x00, 0x0c, 0x00, 0x1e, 0x00, 0x33, 0x00, 0x33, 0x00,
        0x61, 0x80, 0x61, 0x80, 0x61, 0x80, 0x7f, 0x80, 0x61, 0x80, 0x61, 0x80, 0x61, 0x80,
        0x61, 0x80, 0x61, 0x80, 0x00, 0x00, 0x00, 0x00, 0x00, 0x00, 0x00, 0x00]),
     (1041,
       [0x00, 0x00, 0x00, 0x00, 0x00, 0x00, 0x7f, 0x00, 0x60, 0x00, 0x60, 0x00, 0x60, 0x00,
        0x60, 0x00, 0x60, 0x00, 0x7e, 0x00, 0x63, 0x00, 0x61, 0x80, 0x61, 0x80, 0x61, 0x80,
        0x63, 0x00, 0x7e, 0x00, 0x00, 0x00, 0x00, 0x00, 0x00, 0x00, 0x00, 0x00]),
     (1042,
       [0x00, 0x00, 0x00, 0x00, 0x00, 0x00, 0x7c, 0x00, 0x66, 0x00, 0x63, 0x00, 0x63, 0x00,
        0x63, 0x00, 0x66, 0x00, 0x7e, 0x00, 0x63, 0x00, 0x61, 0x80, 0x61, 0x80, 0x61, 0x80,
        0x63, 0x00, 0x7e, 0x00, 0x00, 0x00, 0x00, 0x00, 0x00, 0x00, 0x00, 0x00]),
     (1043,
       [0x00, 0x00, 0x00, 0x00, 0x00, 0x00, 0x7f, 0x80, 0x60, 0x00, 0x60, 0x00, 0x60, 0x00,
        0x60, 0x00, 0x60, 0x00, 0x60, 0x00, 0x60, 0x00, 0x60, 0x00, 0x60, 0x00, 0x60, 0x00,
        0x60, 0x00, 0x60, 0x00, 0x00, 0x00, 0x00, 0x00, 0x00, 0x00, 0x00, 0x00]),
     (1044,
       [0x00, 0x00, 0x00, 0x00, 0x00, 0x00, 0x0f, 0x00, 0x1b, 0x00, 0x33, 0x00, 0x33, 0x00,
        0x33, 0x00, 0x33, 0x00, 0x33, 0x00, 0x33, 0x00, 0x33, 0x00, 0x33, 0x00, 0x33, 0x00,
        0x33, 0x00, 0x7f, 0x80, 0x61, 0x80, 0x61, 0x80, 0x00, 0x00, 0x00, 0x00]),
     (1045,
       [0x00, 0x00, 0x00, 0x00, 0x00, 0x00, 0x7f, 0x80, 0x60, 0x00, 0x60, 0x00, 0x60, 0x00,
        0x60, 0x00, 0x60, 0x00, 0x7e, 0x00, 0x60, 0x00, 0x60, 0x00, 0x60, 0x00, 0x60, 0x00,
        0x60, 0x00, 0x7f, 0x80, 0x00, 0x00, 0x00, 0x00, 0x00, 0x00, 0x00, 0x00]),
     (1046,
       [0x00, 0x00, 0x00, 0x00, 0x00, 0x00, 0x6d, 0x80, 0x6d, 0x80, 0x6d, 0x80, 0x6d, 0x80,
        0x6d, 0x80, 0x3f, 0x00, 0x1e, 0x00, 0x3f, 0x00, 0x6d, 0x80, 0x6d, 0x80, 0x6d, 0x80,
        0x6d, 0x80, 0x6d, 0x80, 0x00, 0x00, 0x00, 0x00, 0x00, 0x00, 0x00, 0x00]),
     (1047,
       [0x00, 0x00, 0x00, 0x00, 0x00, 0x00, 0x1e, 0x00, 0x33, 0x00, 0x61, 0x80, 0x61, 0x80,
        0x01, 0x80, 0x03, 0x00, 0x0e, 0x00, 0x03, 0x00, 0x01, 0x80, 0x61, 0x80, 0x61, 0x80,
        0x33, 0x00, 0x1e, 0x00, 0x00, 0x00, 0x00, 0x00, 0x00, 0x00, 0x00, 0x00]),
     (1048,
       [0x00, 0x00, 0x00, 0x00, 0x00, 0x00, 0x61, 0x80, 0x61, 0x80, 0x61, 0x80, 0x61, 0x80,
        0x63, 0x80, 0x67, 0x80, 0x6f, 0x80, 0x7d, 0x80, 0x79, 0x80, 0x71, 0x80, 0x61, 0x80,
        0x61, 0x80, 0x61, 0x80, 0x00, 0x00, 0x00, 0x00, 0x00, 0x00, 0x00, 0x00]),
     (1049,
       [0x33, 0x00, 0x1e, 0x00, 0x00, 0x00, 0x61, 0x80, 0x61, 0x80, 0x61, 0x80, 0x61, 0x80,
        0x63, 0x80, 0x67, 0x80, 0x6f, 0x80, 0x7d, 0x80, 0x79, 0x80, 0x71, 0x80, 0x61, 0x80,
        0x61, 0x80, 0x61, 0x80, 0x00, 0x00, 0x00, 0x00, 0x00, 0x00, 0x00, 0x00]),
     (1050,
       [0x00, 0x00, 0x00, 0x00, 0x00, 0x00, 0x61, 0x80, 0x61, 0x80, 0x63, 0x00, 0x63, 0x00,
        0x66, 0x00, 0x66, 0x00, 0x7c, 0x00, 0x66, 0x00, 0x66, 0x00, 0x63, 0x00, 0x63, 0x00,
        0x61, 0x80, 0x61, 0x80, 0x00, 0x00, 0x00, 0x00, 0x00, 0x00, 0x00, 0x00]),
     (1051,
       [0x00, 0x00, 0x00, 0x00, 0x00, 0x00, 0x0f, 0x80, 0x19, 0x80, 0x31, 0x80, 0x31, 0x80,
        0x31, 0x80, 0x31, 0x80, 0x31, 0x80, 0x31, 0x80, 0x31, 0x80, 0x31, 0x80, 0x31, 0x80,
        0x71, 0x80, 0x61, 0x80, 0x00, 0x00, 0x00, 0x00, 0x00, 0x00, 0x00, 0x00]),
     (1052,
       [0x00, 0x00, 0x00, 0x00, 0x00, 0x00, 0x61, 0x80, 0x61, 0x80, 0x73, 0x80, 0x73, 0x80,
        0x7f, 0x80, 0x6d, 0x80, 0x6d, 0x80, 0x6d, 0x80, 0x6d, 0x80, 0x61, 0x80, 0x61, 0x80,
        0x61, 0x80, 0x61, 0x80, 0x00, 0x00, 0x00, 0x00, 0x00, 0x00, 0x00, 0x00]),
     (1053,
       [0x00, 0x00, 0x00, 0x00, 0x00, 0x00, 0x61, 0x80, 0x61, 0x80, 0x61, 0x80, 0x61, 0x80,
        0x61, 0x80, 0x61, 0x80, 0x7f, 0x80, 0x61, 0x80, 0x61, 0x80, 0x61, 0x80, 0x61, 0x80,
        0x61, 0x80, 0x61, 0x80, 0x00, 0x00, 0x00, 0x00, 0x00, 0x00, 0x00, 0x00]),
     (1054,
       [0x00, 0x00, 0x00, 0x00, 0x00, 0x00, 0x1e, 0x00, 0x33, 0x00, 0x61, 0x80, 0x61, 0x80,
        0x61, 0x80, 0x61, 0x80, 0x61, 0x80, 0x61, 0x80, 0x61, 0x80, 0x61, 0x80, 0x61, 0x80,
        0x33, 0x00, 0x1e, 0x00, 0x00, 0x00, 0x00, 0x00, 0x00, 0x00, 0x00, 0x00]),
     (1055,
       [0x00, 0x00, 0x00, 0x00, 0x00, 0x00, 0x7f, 0x80, 0x61, 0x80, 0x61, 0x80, 0x61, 0x80,
        0x61, 0x80, 0x61, 0x80, 0x61, 0x80, 0x61, 0x80, 0x61, 0x80, 0x61, 0x80, 0x61, 0x80,
        0x61, 0x80, 0x61, 0x80, 0x00, 0x00, 0x00, 0x00, 0x00, 0x00, 0x00, 0x00])]"

definition GLYPHS_042 :: "(nat \<times> nat list) list" where
  "GLYPHS_042 =
    [(1056,
       [0x00, 0x00, 0x00, 0x00, 0x00, 0x00, 0x7e, 0x00, 0x63, 0x00, 0x61, 0x80, 0x61, 0x80,
        0x61, 0x80, 0x61, 0x80, 0x63, 0x00, 0x7e, 0x00, 0x60, 0x00, 0x60, 0x00, 0x60, 0x00,
        0x60, 0x00, 0x60, 0x00, 0x00, 0x00, 0x00, 0x00, 0x00, 0x00, 0x00, 0x00]),
     (1057,
       [0x00, 0x00, 0x00, 0x00, 0x00, 0x00, 0x1e, 0x00, 0x33, 0x00, 0x61, 0x80, 0x60, 0x00,
        0x60, 0x00, 0x60, 0x00, 0x60, 0x00, 0x60, 0x00, 0x60, 0x00, 0x60, 0x00, 0x61, 0x80,
        0x33, 0x00, 0x1e, 0x00, 0x00, 0x00, 0x00, 0x00, 0x00, 0x00, 0x00, 0x00]),
     (1058,
       [0x00, 0x00, 0x00, 0x00, 0x00, 0x00, 0x7f, 0x80, 0x0c, 0x00, 0x0c, 0x00, 0x0c, 0x00,
        0x0c, 0x00, 0x0c, 0x00, 0x0c, 0x00, 0x0c, 0x00, 0x0c, 0x00, 0x0c, 0x00, 0x0c, 0x00,
        0x0c, 0x00, 0x0c, 0x00, 0x00, 0x00, 0x00, 0x00, 0x00, 0x00, 0x00, 0x00]),
     (1059,
       [0x00, 0x00, 0x00, 0x00, 0x00, 0x00, 0x61, 0x80, 0x61, 0x80, 0x61, 0x80, 0x61, 0x80,
        0x61, 0x80, 0x61, 0x80, 0x3f, 0x80, 0x01, 0x80, 0x01, 0x80, 0x01, 0x80, 0x01, 0x80,
        0x61, 0x80, 0x3f, 0x00, 0x00, 0x00, 0x00, 0x00, 0x00, 0x00, 0x00, 0x00]),
     (1060,
       [0x00, 0x00, 0x00, 0x00, 0x00, 0x00, 0x0c, 0x00, 0x3f, 0x00, 0x6d, 0x80, 0x6d, 0x80,
        0x6d, 0x80, 0x6d, 0x80, 0x6d, 0x80, 0x6d, 0x80, 0x6d, 0x80, 0x6d, 0x80, 0x3f, 0x00,
        0x0c, 0x00, 0x0c, 0x00, 0x00, 0x00, 0x00, 0x00, 0x00, 0x00, 0x00, 0x00]),
     (1061,
       [0x00, 0x00, 0x00, 0x00, 0x00, 0x00, 0x61, 0x80, 0x61, 0x80, 0x33, 0x00, 0x33, 0x00,
        0x1e, 0x00, 0x1e, 0x00, 0x0c, 0x00, 0x1e, 0x00, 0x1e, 0x00, 0x33, 0x00, 0x33, 0x00,
        0x61, 0x80, 0x61, 0x80, 0x00, 0x00, 0x00, 0x00, 0x00, 0x00, 0x00, 0x00]),
     (1062,
       [0x00, 0x00, 0x00, 0x00, 0x00, 0x00, 0x61, 0x80, 0x61, 0x80, 0x61, 0x80, 0x61, 0x80,
        0x61, 0x80, 0x61, 0x80, 0x61, 0x80, 0x61, 0x80, 0x61, 0x80, 0x61, 0x80, 0x61, 0x80,
        0x61, 0x80, 0x7f, 0xc0, 0x00, 0xc0, 0x00, 0xc0, 0x00, 0x00, 0x00, 0x00]),
     (1063,
       [0x00, 0x00, 0x00, 0x00, 0x00, 0x00, 0x61, 0x80, 0x61, 0x80, 0x61, 0x80, 0x61, 0x80,
        0x61, 0x80, 0x61, 0x80, 0x61, 0x80, 0x3f, 0x80, 0x01, 0x80, 0x01, 0x80, 0x01, 0x80,
        0x01, 0x80, 0x01, 0x80, 0x00, 0x00, 0x00, 0x00, 0x00, 0x00, 0x00, 0x00]),
     (1064,
       [0x00, 0x00, 0x00, 0x00, 0x00, 0x00, 0x6d, 0x80, 0x6d, 0x80, 0x6d, 0x80, 0x6d, 0x80,
        0x6d, 0x80, 0x6d, 0x80, 0x6d, 0x80, 0x6d, 0x80, 0x6d, 0x80, 0x6d, 0x80, 0x6d, 0x80,
        0x6d, 0x80, 0x7f, 0x80, 0x00, 0x00, 0x00, 0x00, 0x00, 0x00, 0x00, 0x00]),
     (1065,
       [0x00, 0x00, 0x00, 0x00, 0x00, 0x00, 0x6d, 0x80, 0x6d, 0x80, 0x6d, 0x80, 0x6d, 0x80,
        0x6d, 0x80, 0x6d, 0x80, 0x6d, 0x80, 0x6d, 0x80, 0x6d, 0x80, 0x6d, 0x80, 0x6d, 0x80,
        0x6d, 0x80, 0x7f, 0xc0, 0x00, 0xc0, 0x00, 0xc0, 0x00, 0x00, 0x00, 0x00]),
     (1066,
       [0x00, 0x00, 0x00, 0x00, 0x00, 0x00, 0x78, 0x00, 0x58, 0x00, 0x18, 0x00, 0x18, 0x00,
        0x18, 0x00, 0x1f, 0x00, 0x19, 0x80, 0x19, 0x80, 0x19, 0x80, 0x19, 0x80, 0x19, 0x80,
        0x19, 0x80, 0x1f, 0x00, 0x00, 0x00, 0x00, 0x00, 0x00, 0x00, 0x00, 0x00]),
     (1067,
       [0x00, 0x00, 0x00, 0x00, 0x00, 0x00, 0x61, 0x80, 0x61, 0x80, 0x61, 0x80, 0x61, 0x80,
        0x61, 0x80, 0x79, 0x80, 0x6d, 0x80, 0x6d, 0x80, 0x6d, 0x80, 0x6d, 0x80, 0x6d, 0x80,
        0x6d, 0x80, 0x79, 0x80, 0x00, 0x00, 0x00, 0x00, 0x00, 0x00, 0x00, 0x00]),
     (1068,
       [0x00, 0x00, 0x00, 0x00, 0x00, 0x00, 0x60, 0x00, 0x60, 0x00, 0x60, 0x00, 0x60, 0x00,
        0x60, 0x00, 0x7e, 0x00, 0x63, 0x00, 0x61, 0x80, 0x61, 0x80, 0x61, 0x80, 0x61, 0x80,
        0x63, 0x00, 0x7e, 0x00, 0x00, 0x00, 0x00, 0x00, 0x00, 0x00, 0x00, 0x00]),
     (1069,
       [0x00, 0x00, 0x00, 0x00, 0x00, 0x00, 0x1e, 0x00, 0x33, 0x00, 0x61, 0x80, 0x01, 0x80,
        0x01, 0x80, 0x01, 0x80, 0x3f, 0x80, 0x01, 0x80, 0x01, 0x80, 0x01, 0x80, 0x61, 0x80,
        0x33, 0x00, 0x1e, 0x00, 0x00, 0x00, 0x00, 0x00, 0x00, 0x00, 0x00, 0x00]),
     (1070,
       [0x00, 0x00, 0x00, 0x00, 0x00, 0x00, 0x67, 0x00, 0x6d, 0x80, 0x6d, 0x80, 0x6d, 0x80,
        0x6d, 0x80, 0x6d, 0x80, 0x7d, 0x80, 0x6d, 0x80, 0x6d, 0x80, 0x6d, 0x80, 0x6d, 0x80,
        0x6d, 0x80, 0x67, 0x00, 0x00, 0x00, 0x00, 0x00, 0x00, 0x00, 0x00, 0x00]),
     (1071,
       [0x00, 0x00, 0x00, 0x00, 0x00, 0x00, 0x1f, 0x80, 0x31, 0x80, 0x61, 0x80, 0x61, 0x80,
        0x61, 0x80, 0x61, 0x80, 0x31, 0x80, 0x1f, 0x80, 0x19, 0x80, 0x31, 0x80, 0x31, 0x80,
        0x61, 0x80, 0x61, 0x80, 0x00, 0x00, 0x00, 0x00, 0x00, 0x00, 0x00, 0x00])]"

definition GLYPHS_043 :: "(nat \<times> nat list) list" where
  "GLYPHS_043 =
    [(1072,
       [0x00, 0x00, 0x00, 0x00, 0x00, 0x00, 0x00, 0x00, 0x00, 0x00, 0x00, 0x00, 0x00, 0x00,
        0x00, 0x00, 0x1f, 0x00, 0x31, 0x80, 0x01, 0x80, 0x3f, 0x80, 0x61, 0x80, 0x61, 0x80,
        0x61, 0x80, 0x3e, 0x80, 0x00, 0x00, 0x00, 0x00, 0x00, 0x00, 0x00, 0x00]),
     (1073,
       [0x00, 0x00, 0x00, 0x00, 0x00, 0x00, 0x00, 0x00, 0x01, 0x00, 0x3e, 0x00, 0x60, 0x00,
        0x60, 0x00, 0x3e, 0x00, 0x73, 0x00, 0x61, 0x80, 0x61, 0x80, 0x61, 0x80, 0x61, 0x80,
        0x33, 0x00, 0x1e, 0x00, 0x00, 0x00, 0x00, 0x00, 0x00, 0x00, 0x00, 0x00]),
     (1074,
       [0x00, 0x00, 0x00, 0x00, 0x00, 0x00, 0x00, 0x00, 0x00, 0x00, 0x00, 0x00, 0x00, 0x00,
        0x00, 0x00, 0x7e, 0x00, 0x63, 0x00, 0x63, 0x00, 0x7f, 0x00, 0x61, 0x80, 0x61, 0x80,
        0x61, 0x80, 0x7f, 0x00, 0x00, 0x00, 0x00, 0x00, 0x00, 0x00, 0x00, 0x00]),
     (1075,
       [0x00, 0x00, 0x00, 0x00, 0x00, 0x00, 0x00, 0x00, 0x00, 0x00, 0x00, 0x00, 0x00, 0x00,
        0x00, 0x00, 0x7f, 0x80, 0x60, 0x00, 0x60, 0x00, 0x60, 0x00, 0x60, 0x00, 0x60, 0x00,
        0x60, 0x00, 0x60, 0x00, 0x00, 0x00, 0x00, 0x00, 0x00, 0x00, 0x00, 0x00]),
     (1076,
       [0x00, 0x00, 0x00, 0x00, 0x00, 0x00, 0x00, 0x00, 0x00, 0x00, 0x00, 0x00, 0x00, 0x00,
        0x00, 0x00, 0x0f, 0x00, 0x1b, 0x00, 0x33, 0x00, 0x33, 0x00, 0x33, 0x00, 0x33, 0x00,
        0x33, 0x00, 0x7f, 0x80, 0x61, 0x80, 0x61, 0x80, 0x00, 0x00, 0x00, 0x00]),
     (1077,
       [0x00, 0x00, 0x00, 0x00, 0x00, 0x00, 0x00, 0x00, 0x00, 0x00, 0x00, 0x00, 0x00, 0x00,
        0x00, 0x00, 0x1e, 0x00, 0x33, 0x00, 0x61, 0x80, 0x7f, 0x80, 0x60, 0x00, 0x60, 0x00,
        0x31, 0x80, 0x1f, 0x00, 0x00, 0x00, 0x00, 0x00, 0x00, 0x00, 0x00, 0x00]),
     (1078,
       [0x00, 0x00, 0x00, 0x00, 0x00, 0x00, 0x00, 0x00, 0x00, 0x00, 0x00, 0x00, 0x00, 0x00,
        0x00, 0x00, 0x6d, 0x80, 0x6d, 0x80, 0x6d, 0x80, 0x3f, 0x00, 0x3f, 0x00, 0x6d, 0x80,
        0x6d, 0x80, 0x6d, 0x80, 0x00, 0x00, 0x00, 0x00, 0x00, 0x00, 0x00, 0x00]),
     (1079,
       [0x00, 0x00, 0x00, 0x00, 0x00, 0x00, 0x00, 0x00, 0x00, 0x00, 0x00, 0x00, 0x00, 0x00,
        0x00, 0x00, 0x3f, 0x00, 0x61, 0x80, 0x01, 0x80, 0x1f, 0x00, 0x03, 0x00, 0x01, 0x80,
        0x61, 0x80, 0x3f, 0x00, 0x00, 0x00, 0x00, 0x00, 0x00, 0x00, 0x00, 0x00]),
     (1080,
       [0x00, 0x00, 0x00, 0x00, 0x00, 0x00, 0x00, 0x00, 0x00, 0x00, 0x00, 0x00, 0x00, 0x00,
        0x00, 0x00, 0x61, 0x80, 0x61, 0x80, 0x63, 0x80, 0x67, 0x80, 0x6d, 0x80, 0x79, 0x80,
        0x71, 0x80, 0x61, 0x80, 0x00, 0x00, 0x00, 0x00, 0x00, 0x00, 0x00, 0x00]),
     (1081,
       [0x00, 0x00, 0x00, 0x00, 0x00, 0x00, 0x00, 0x00, 0x00, 0x00, 0x33, 0x00, 0x1e, 0x00,
        0x00, 0x00, 0x61, 0x80, 0x61, 0x80, 0x63, 0x80, 0x67, 0x80, 0x6d, 0x80, 0x79, 0x80,
        0x71, 0x80, 0x61, 0x80, 0x00, 0x00, 0x00, 0x00, 0x00, 0x00, 0x00, 0x00]),
     (1082,
       [0x00, 0x00, 0x00, 0x00, 0x00, 0x00, 0x00, 0x00, 0x00, 0x00, 0x00, 0x00, 0x00, 0x00,
        0x00, 0x00, 0x61, 0x80, 0x63, 0x00, 0x66, 0x00, 0x7c, 0x00, 0x7c, 0x00, 0x66, 0x00,
        0x63, 0x00, 0x61, 0x80, 0x00, 0x00, 0x00, 0x00, 0x00, 0x00, 0x00, 0x00]),
     (1083,
       [0x00, 0x00, 0x00, 0x00, 0x00, 0x00, 0x00, 0x00, 0x00, 0x00, 0x00, 0x00, 0x00, 0x00,
        0x00, 0x00, 0x0f, 0x80, 0x19, 0x80, 0x31, 0x80, 0x31, 0x80, 0x31, 0x80, 0x31, 0x80,
        0x31, 0x80, 0x61, 0x80, 0x00, 0x00, 0x00, 0x00, 0x00, 0x00, 0x00, 0x00]),
     (1084,
       [0x00, 0x00, 0x00, 0x00, 0x00, 0x00, 0x00, 0x00, 0x00, 0x00, 0x00, 0x00, 0x00, 0x00,
        0x00, 0x00, 0x61, 0x80, 0x73, 0x80, 0x7f, 0x80, 0x6d, 0x80, 0x6d, 0x80, 0x6d, 0x80,
        0x61, 0x80, 0x61, 0x80, 0x00, 0x00, 0x00, 0x00, 0x00, 0x00, 0x00, 0x00]),
     (1085,
       [0x00, 0x00, 0x00, 0x00, 0x00, 0x00, 0x00, 0x00, 0x00, 0x00, 0x00, 0x00, 0x00, 0x00,
        0x00, 0x00, 0x61, 0x80, 0x61, 0x80, 0x61, 0x80, 0x7f, 0x80, 0x61, 0x80, 0x61, 0x80,
        0x61, 0x80, 0x61, 0x80, 0x00, 0x00, 0x00, 0x00, 0x00, 0x00, 0x00, 0x00]),
     (1086,
       [0x00, 0x00, 0x00, 0x00, 0x00, 0x00, 0x00, 0x00, 0x00, 0x00, 0x00, 0x00, 0x00, 0x00,
        0x00, 0x00, 0x1e, 0x00, 0x33, 0x00, 0x61, 0x80, 0x61, 0x80, 0x61, 0x80, 0x61, 0x80,
        0x33, 0x00, 0x1e, 0x00, 0x00, 0x00, 0x00, 0x00, 0x00, 0x00, 0x00, 0x00]),
     (1087,
       [0x00, 0x00, 0x00, 0x00, 0x00, 0x00, 0x00, 0x00, 0x00, 0x00, 0x00, 0x00, 0x00, 0x00,
        0x00, 0x00, 0x7f, 0x80, 0x61, 0x80, 0x61, 0x80, 0x61, 0x80, 0x61, 0x80, 0x61, 0x80,
        0x61, 0x80, 0x61, 0x80, 0x00, 0x00, 0x00, 0x00, 0x00, 0x00, 0x00, 0x00])]"

definition GLYPHS_044 :: "(nat \<times> nat list) list" where
  "GLYPHS_044 =
    [(1088,
       [0x00, 0x00, 0x00, 0x00, 0x00, 0x00, 0x00, 0x00, 0x00, 0x00, 0x00, 0x00, 0x00, 0x00,
        0x00, 0x00, 0x6e, 0x00, 0x73, 0x00, 0x61, 0x80, 0x61, 0x80, 0x61, 0x80, 0x61, 0x80,
        0x73, 0x00, 0x6e, 0x00, 0x60, 0x00, 0x60, 0x00, 0x60, 0x00, 0x60, 0x00]),
     (1089,
       [0x00, 0x00, 0x00, 0x00, 0x00, 0x00, 0x00, 0x00, 0x00, 0x00, 0x00, 0x00, 0x00, 0x00,
        0x00, 0x00, 0x1f, 0x00, 0x31, 0x80, 0x60, 0x00, 0x60, 0x00, 0x60, 0x00, 0x60, 0x00,
        0x31, 0x80, 0x1f, 0x00, 0x00, 0x00, 0x00, 0x00, 0x00, 0x00, 0x00, 0x00]),
     (1090,
       [0x00, 0x00, 0x00, 0x00, 0x00, 0x00, 0x00, 0x00, 0x00, 0x00, 0x00, 0x00, 0x00, 0x00,
        0x00, 0x00, 0x7f, 0x80, 0x0c, 0x00, 0x0c, 0x00, 0x0c, 0x00, 0x0c, 0x00, 0x0c, 0x00,
        0x0c, 0x00, 0x0c, 0x00, 0x00, 0x00, 0x00, 0x00, 0x00, 0x00, 0x00, 0x00]),
     (1091,
       [0x00, 0x00, 0x00, 0x00, 0x00, 0x00, 0x00, 0x00, 0x00, 0x00, 0x00, 0x00, 0x00, 0x00,
        0x00, 0x00, 0x61, 0x80, 0x61, 0x80, 0x61, 0x80, 0x61, 0x80, 0x61, 0x80, 0x61, 0x80,
        0x33, 0x80, 0x1d, 0x80, 0x01, 0x80, 0x61, 0x80, 0x33, 0x00, 0x1e, 0x00]),
     (1092,
       [0x00, 0x00, 0x00, 0x00, 0x00, 0x00, 0x00, 0x00, 0x00, 0x00, 0x00, 0x00, 0x0c, 0x00,
        0x0c, 0x00, 0x3f, 0x00, 0x6d, 0x80, 0x6d, 0x80, 0x6d, 0x80, 0x6d, 0x80, 0x6d, 0x80,
        0x6d, 0x80, 0x3f, 0x00, 0x0c, 0x00, 0x0c, 0x00, 0x0c, 0x00, 0x0c, 0x00]),
     (1093,
       [0x00, 0x00, 0x00, 0x00, 0x00, 0x00, 0x00, 0x00, 0x00, 0x00, 0x00, 0x00, 0x00, 0x00,
        0x00, 0x00, 0x61, 0x80, 0x33, 0x00, 0x1e, 0x00, 0x0c, 0x00, 0x0c, 0x00, 0x1e, 0x00,
        0x33, 0x00, 0x61, 0x80, 0x00, 0x00, 0x00, 0x00, 0x00, 0x00, 0x00, 0x00]),
     (1094,
       [0x00, 0x00, 0x00, 0x00, 0x00, 0x00, 0x00, 0x00, 0x00, 0x00, 0x00, 0x00, 0x00, 0x00,
        0x00, 0x00, 0x63, 0x00, 0x63, 0x00, 0x63, 0x00, 0x63, 0x00, 0x63, 0x00, 0x63, 0x00,
        0x63, 0x00, 0x7f, 0x80, 0x01, 0x80, 0x01, 0x80, 0x00, 0x00, 0x00, 0x00]),
     (1095,
       [0x00, 0x00, 0x00, 0x00, 0x00, 0x00, 0x00, 0x00, 0x00, 0x00, 0x00, 0x00, 0x00, 0x00,
        0x00, 0x00, 0x61, 0x80, 0x61, 0x80, 0x61, 0x80, 0x61, 0x80, 0x3f, 0x80, 0x01, 0x80,
        0x01, 0x80, 0x01, 0x80, 0x00, 0x00, 0x00, 0x00, 0x00, 0x00, 0x00, 0x00]),
     (1096,
       [0x00, 0x00, 0x00, 0x00, 0x00, 0x00, 0x00, 0x00, 0x00, 0x00, 0x00, 0x00, 0x00, 0x00,
        0x00, 0x00, 0x6d, 0x80, 0x6d, 0x80, 0x6d, 0x80, 0x6d, 0x80, 0x6d, 0x80, 0x6d, 0x80,
        0x6d, 0x80, 0x7f, 0x80, 0x00, 0x00, 0x00, 0x00, 0x00, 0x00, 0x00, 0x00]),
     (1097,
       [0x00, 0x00, 0x00, 0x00, 0x00, 0x00, 0x00, 0x00, 0x00, 0x00, 0x00, 0x00, 0x00, 0x00,
        0x00, 0x00, 0x6d, 0x80, 0x6d, 0x80, 0x6d, 0x80, 0x6d, 0x80, 0x6d, 0x80, 0x6d, 0x80,
        0x6d, 0x80, 0x7f, 0xc0, 0x00, 0xc0, 0x00, 0xc0, 0x00, 0x00, 0x00, 0x00]),
     (1098,
       [0x00, 0x00, 0x00, 0x00, 0x00, 0x00, 0x00, 0x00, 0x00, 0x00, 0x00, 0x00, 0x00, 0x00,
        0x00, 0x00, 0x70, 0x00, 0x70, 0x00, 0x7f, 0x00, 0x31, 0x80, 0x31, 0x80, 0x31, 0x80,
        0x31, 0x80, 0x3f, 0x00, 0x00, 0x00, 0x00, 0x00, 0x00, 0x00, 0x00, 0x00]),
     (1099,
       [0x00, 0x00, 0x00, 0x00, 0x00, 0x00, 0x00, 0x00, 0x00, 0x00, 0x00, 0x00, 0x00, 0x00,
        0x00, 0x00, 0x61, 0x80, 0x61, 0x80, 0x79, 0x80, 0x6d, 0x80, 0x6d, 0x80, 0x6d, 0x80,
        0x6d, 0x80, 0x79, 0x80, 0x00, 0x00, 0x00, 0x00, 0x00, 0x00, 0x00, 0x00]),
     (1100,
       [0x00, 0x00, 0x00, 0x00, 0x00, 0x00, 0x00, 0x00, 0x00, 0x00, 0x00, 0x00, 0x00, 0x00,
        0x00, 0x00, 0x60, 0x00, 0x60, 0x00, 0x60, 0x00, 0x7f, 0x00, 0x61, 0x80, 0x61, 0x80,
        0x61, 0x80, 0x7f, 0x00, 0x00, 0x00, 0x00, 0x00, 0x00, 0x00, 0x00, 0x00]),
     (1101,
       [0x00, 0x00, 0x00, 0x00, 0x00, 0x00, 0x00, 0x00, 0x00, 0x00, 0x00, 0x00, 0x00, 0x00,
        0x00, 0x00, 0x3f, 0x00, 0x61, 0x80, 0x01, 0x80, 0x01, 0x80, 0x0f, 0x80, 0x01, 0x80,
        0x61, 0x80, 0x3f, 0x00, 0x00, 0x00, 0x00, 0x00, 0x00, 0x00, 0x00, 0x00]),
     (1102,
       [0x00, 0x00, 0x00, 0x00, 0x00, 0x00, 0x00, 0x00, 0x00, 0x00, 0x00, 0x00, 0x00, 0x00,
        0x00, 0x00, 0x67, 0x00, 0x6d, 0x80, 0x6d, 0x80, 0x7d, 0x80, 0x6d, 0x80, 0x6d, 0x80,
        0x6d, 0x80, 0x67, 0x00, 0x00, 0x00, 0x00, 0x00, 0x00, 0x00, 0x00, 0x00]),
     (1103,
       [0x00, 0x00, 0x00, 0x00, 0x00, 0x00, 0x00, 0x00, 0x00, 0x00, 0x00, 0x00, 0x00, 0x00,
        0x00, 0x00, 0x3f, 0x80, 0x61, 0x80, 0x61, 0x80, 0x61, 0x80, 0x3f, 0x80, 0x19, 0x80,
        0x31, 0x80, 0x61, 0x80, 0x00, 0x00, 0x00, 0x00, 0x00, 0x00, 0x00, 0x00])]"

definition GLYPHS_045 :: "(nat \<times> nat list) list" where
  "GLYPHS_045 =
    [(1105,
       [0x00, 0x00, 0x00, 0x00, 0x00, 0x00, 0x00, 0x00, 0x00, 0x00, 0x33, 0x00, 0x33, 0x00,
        0x00, 0x00, 0x1e, 0x00, 0x33, 0x00, 0x61, 0x80, 0x7f, 0x80, 0x60, 0x00, 0x60, 0x00,
        0x31, 0x80, 0x1f, 0x00, 0x00, 0x00, 0x00, 0x00, 0x00, 0x00, 0x00, 0x00]),
     (1106,
       [0x00, 0x00, 0x00, 0x00, 0x00, 0x00, 0x30, 0x00, 0x30, 0x00, 0x7e, 0x00, 0x30, 0x00,
        0x30, 0x00, 0x36, 0x00, 0x3b, 0x00, 0x31, 0x80, 0x31, 0x80, 0x31, 0x80, 0x31, 0x80,
        0x31, 0x80, 0x31, 0x80, 0x01, 0x80, 0x01, 0x80, 0x03, 0x00, 0x06, 0x00]),
     (1107,
       [0x00, 0x00, 0x00, 0x00, 0x00, 0x00, 0x00, 0x00, 0x06, 0x00, 0x0c, 0x00, 0x18, 0x00,
        0x00, 0x00, 0x7f, 0x80, 0x60, 0x00, 0x60, 0x00, 0x60, 0x00, 0x60, 0x00, 0x60, 0x00,
        0x60, 0x00, 0x60, 0x00, 0x00, 0x00, 0x00, 0x00, 0x00, 0x00, 0x00, 0x00]),
     (1108,
       [0x00, 0x00, 0x00, 0x00, 0x00, 0x00, 0x00, 0x00, 0x00, 0x00, 0x00, 0x00, 0x00, 0x00,
        0x00, 0x00, 0x3f, 0x00, 0x61, 0x80, 0x60, 0x00, 0x7c, 0x00, 0x60, 0x00, 0x60, 0x00,
        0x61, 0x80, 0x3f, 0x00, 0x00, 0x00, 0x00, 0x00, 0x00, 0x00, 0x00, 0x00]),
     (1109,
       [0x00, 0x00, 0x00, 0x00, 0x00, 0x00, 0x00, 0x00, 0x00, 0x00, 0x00, 0x00, 0x00, 0x00,
        0x00, 0x00, 0x3f, 0x00, 0x61, 0x80, 0x60, 0x00, 0x3f, 0x00, 0x01, 0x80, 0x01, 0x80,
        0x61, 0x80, 0x3f, 0x00, 0x00, 0x00, 0x00, 0x00, 0x00, 0x00, 0x00, 0x00]),
     (1110,
       [0x00, 0x00, 0x00, 0x00, 0x00, 0x00, 0x00, 0x00, 0x00, 0x00, 0x0c, 0x00, 0x0c, 0x00,
        0x00, 0x00, 0x3c, 0x00, 0x0c, 0x00, 0x0c, 0x00, 0x0c, 0x00, 0x0c, 0x00, 0x0c, 0x00,
        0x0c, 0x00, 0x7f, 0x80, 0x00, 0x00, 0x00, 0x00, 0x00, 0x00, 0x00, 0x00]),
     (1111,
       [0x00, 0x00, 0x00, 0x00, 0x00, 0x00, 0x00, 0x00, 0x33, 0x00, 0x33, 0x00, 0x00, 0x00,
        0x3c, 0x00, 0x0c, 0x00, 0x0c, 0x00, 0x0c, 0x00, 0x0c, 0x00, 0x0c, 0x00, 0x0c, 0x00,
        0x0c, 0x00, 0x7f, 0x80, 0x00, 0x00, 0x00, 0x00, 0x00, 0x00, 0x00, 0x00]),
     (1112,
       [0x00, 0x00, 0x00, 0x00, 0x00, 0x00, 0x00, 0x00, 0x00, 0x00, 0x01, 0x80, 0x01, 0x80,
        0x00, 0x00, 0x07, 0x80, 0x01, 0x80, 0x01, 0x80, 0x01, 0x80, 0x01, 0x80, 0x01, 0x80,
        0x01, 0x80, 0x01, 0x80, 0x31, 0x80, 0x31, 0x80, 0x31, 0x80, 0x1f, 0x00]),
     (1113,
       [0x00, 0x00, 0x00, 0x00, 0x00, 0x00, 0x00, 0x00, 0x00, 0x00, 0x00, 0x00, 0x00, 0x00,
        0x00, 0x00, 0x7c, 0x00, 0x6c, 0x00, 0x6c, 0x00, 0x6f, 0x00, 0x6d, 0x80, 0x6d, 0x80,
        0x6d, 0x80, 0xcf, 0x00, 0x00, 0x00, 0x00, 0x00, 0x00, 0x00, 0x00, 0x00]),
     (1114,
       [0x00, 0x00, 0x00, 0x00, 0x00, 0x00, 0x00, 0x00, 0x00, 0x00, 0x00, 0x00, 0x00, 0x00,
        0x00, 0x00, 0x6c, 0x00, 0x6c, 0x00, 0x6c, 0x00, 0x7f, 0x00, 0x6d, 0x80, 0x6d, 0x80,
        0x6d, 0x80, 0x6f, 0x00, 0x00, 0x00, 0x00, 0x00, 0x00, 0x00, 0x00, 0x00]),
     (1115,
       [0x00, 0x00, 0x00, 0x00, 0x00, 0x00, 0x60, 0x00, 0x60, 0x00, 0x60, 0x00, 0xf8, 0x00,
        0x60, 0x00, 0x6e, 0x00, 0x73, 0x00, 0x61, 0x80, 0x61, 0x80, 0x61, 0x80, 0x61, 0x80,
        0x61, 0x80, 0x61, 0x80, 0x00, 0x00, 0x00, 0x00, 0x00, 0x00, 0x00, 0x00]),
     (1116,
       [0x00, 0x00, 0x00, 0x00, 0x00, 0x00, 0x00, 0x00, 0x06, 0x00, 0x0c, 0x00, 0x18, 0x00,
        0x00, 0x00, 0x63, 0x80, 0x66, 0x00, 0x66, 0x00, 0x7c, 0x00, 0x7c, 0x00, 0x66, 0x00,
        0x63, 0x00, 0x61, 0x80, 0x00, 0x00, 0x00, 0x00, 0x00, 0x00, 0x00, 0x00])]"

definition GLYPHS_211 :: "(nat \<times> nat list) list" where
  "GLYPHS_211 =
    [(8470,
       [0x00, 0x00, 0x00, 0x00, 0x00, 0x00, 0xcc, 0x00, 0xcc, 0x00, 0xcc, 0x00, 0xec, 0x00,
        0xec, 0x00, 0xff, 0x80, 0xfe, 0xc0, 0xde, 0xc0, 0xde, 0xc0, 0xce, 0xc0, 0xcf, 0x80,
        0xcc, 0x00, 0xcf, 0xc0, 0x00, 0x00, 0x00, 0x00, 0x00, 0x00, 0x00, 0x00])]"

definition GLYPHS :: "(nat \<times> nat list) list" where
  "GLYPHS =
    concat [GLYPHS_002,
      GLYPHS_003,
      GLYPHS_004,
      GLYPHS_005,
      GLYPHS_006,
      GLYPHS_007,
      GLYPHS_00A,
      GLYPHS_040,
      GLYPHS_041,
      GLYPHS_042,
      GLYPHS_043,
      GLYPHS_044,
      GLYPHS_045,
      GLYPHS_211]"

lemmas glyph_rows = GLYPHS_002_def GLYPHS_003_def GLYPHS_004_def GLYPHS_005_def GLYPHS_006_def GLYPHS_007_def GLYPHS_00A_def GLYPHS_040_def GLYPHS_041_def GLYPHS_042_def GLYPHS_043_def GLYPHS_044_def GLYPHS_045_def GLYPHS_211_def

end
