(* ===== verification/LabelFont.thy ===== *)
theory LabelFont
  imports LabelStrip FontData
begin

text \<open>
  \<open>components/label/src/font.rs\<close>: the text of the bar is cut to the width of the
  output and drawn glyph by glyph into the pixel buffer.  An index out of range and
  the \<open>expect\<close> of the replacement glyph are panics of the source: \<open>None\<close>.
\<close>

section \<open>Glyphs\<close>

text \<open>The binary search of the standard library, on a table sorted by its keys.\<close>

function bsearch :: "(nat \<times> 'a) list \<Rightarrow> nat \<Rightarrow> nat \<Rightarrow> nat \<Rightarrow> nat option" where
  "bsearch t k lo hi =
     (if lo < hi then
        (let mid = (lo + hi) div 2 in
         if fst (t ! mid) = k then Some mid
         else if fst (t ! mid) < k then bsearch t k (mid + 1) hi
         else bsearch t k lo mid)
      else None)"
  by pat_completeness auto
termination
  by (relation "measure (\<lambda>(t, k, lo, hi). hi - lo)") auto

declare bsearch.simps [simp del]

definition glyph :: "nat \<Rightarrow> nat list option" where
  "glyph ch = map_option (\<lambda>i. snd (GLYPHS ! i)) (bsearch GLYPHS ch 0 (length GLYPHS))"

definition REPLACEMENT :: nat where
  "REPLACEMENT = 63"

definition ELLIPSIS :: string where
  "ELLIPSIS = ''...''"

definition text_width_px :: "string \<Rightarrow> nat" where
  "text_width_px t = GLYPH_WIDTH * char_count t"

definition fit_text :: "string \<Rightarrow> nat \<Rightarrow> string" where
  "fit_text t max_px =
     (if text_width_px t \<le> max_px then t
      else let fits = max_px div GLYPH_WIDTH
           in if fits \<le> length ELLIPSIS then take_chars fits t
              else take_chars (fits - length ELLIPSIS) t @ ELLIPSIS)"

definition glyph_or_replacement :: "nat \<Rightarrow> nat list option" where
  "glyph_or_replacement ch = (case glyph ch of Some g \<Rightarrow> Some g | None \<Rightarrow> glyph REPLACEMENT)"

section \<open>Drawing\<close>

definition put_pixel :: "nat \<Rightarrow> color \<Rightarrow> color list \<Rightarrow> color list option" where
  "put_pixel i fg buf = (if i < length buf then Some (buf[i := fg]) else None)"

definition glyph_bit :: "nat list \<Rightarrow> nat \<Rightarrow> nat \<Rightarrow> bool" where
  "glyph_bit row_bytes col b = ((row_bytes ! (col div 8)) div 2 ^ (7 - col mod 8) mod 2 = b)"

text \<open>The inner loop from column \<open>col\<close>, the outer from row \<open>row\<close>.\<close>

function draw_row :: "nat \<Rightarrow> nat \<Rightarrow> nat \<Rightarrow> nat list \<Rightarrow> color \<Rightarrow> nat \<Rightarrow> color list \<Rightarrow> color list option" where
  "draw_row buf_width x py row_bytes fg col buf =
     (if GLYPH_WIDTH \<le> col then Some buf
      else if buf_width \<le> x + col then Some buf
      else if glyph_bit row_bytes col 1 then
        (case put_pixel (py * buf_width + (x + col)) fg buf of
           None \<Rightarrow> None
         | Some buf1 \<Rightarrow> draw_row buf_width x py row_bytes fg (col + 1) buf1)
      else draw_row buf_width x py row_bytes fg (col + 1) buf)"
  by pat_completeness auto
termination
  by (relation "measure (\<lambda>(w, x, py, r, fg, col, buf). GLYPH_WIDTH - col)") auto

declare draw_row.simps [simp del]

function draw_rows :: "nat \<Rightarrow> nat \<Rightarrow> nat \<Rightarrow> nat \<Rightarrow> nat list \<Rightarrow> color \<Rightarrow> nat \<Rightarrow> color list \<Rightarrow> color list option" where
  "draw_rows buf_width buf_height x y bitmap fg row buf =
     (if GLYPH_HEIGHT \<le> row then Some buf
      else if buf_height \<le> y + row then Some buf
      else if length bitmap < (row + 1) * ROW_BYTES then None
      else
        (case draw_row buf_width x (y + row) (take ROW_BYTES (drop (row * ROW_BYTES) bitmap)) fg 0 buf of
           None \<Rightarrow> None
         | Some buf1 \<Rightarrow> draw_rows buf_width buf_height x y bitmap fg (row + 1) buf1))"
  by pat_completeness auto
termination
  by (relation "measure (\<lambda>(w, h, x, y, b, fg, row, buf). GLYPH_HEIGHT - row)") auto

declare draw_rows.simps [simp del]

definition draw_glyph :: "color list \<Rightarrow> nat \<Rightarrow> nat \<Rightarrow> nat \<Rightarrow> nat \<Rightarrow> nat list \<Rightarrow> color \<Rightarrow> color list option" where
  "draw_glyph buf buf_width buf_height x y bitmap fg = draw_rows buf_width buf_height x y bitmap fg 0 buf"

fun draw_chars :: "nat \<Rightarrow> nat \<Rightarrow> nat \<Rightarrow> color \<Rightarrow> nat \<Rightarrow> nat list \<Rightarrow> color list \<Rightarrow> color list option" where
  "draw_chars buf_width buf_height y fg cursor_x [] buf = Some buf"
| "draw_chars buf_width buf_height y fg cursor_x (ch # rest) buf =
     (case glyph_or_replacement ch of
        None \<Rightarrow> None
      | Some bitmap \<Rightarrow>
          (case draw_glyph buf buf_width buf_height cursor_x y bitmap fg of
             None \<Rightarrow> None
           | Some buf1 \<Rightarrow> draw_chars buf_width buf_height y fg (cursor_x + GLYPH_WIDTH) rest buf1))"

definition draw_text ::
  "color list \<Rightarrow> nat \<Rightarrow> nat \<Rightarrow> nat \<Rightarrow> nat \<Rightarrow> string \<Rightarrow> color \<Rightarrow> color list option" where
  "draw_text buf buf_width buf_height x y t fg = draw_chars buf_width buf_height y fg x (chars t) buf"

section \<open>The table can be searched\<close>

lemma bsearch_sound:
  "bsearch t k lo hi = Some i \<Longrightarrow> i < hi \<and> fst (t ! i) = k"
proof (induction t k lo hi rule: bsearch.induct)
  case (1 t k lo hi)
  let ?m = "(lo + hi) div 2"
  have e: "bsearch t k lo hi = (if lo < hi then (if fst (t ! ?m) = k then Some ?m
      else if fst (t ! ?m) < k then bsearch t k (?m + 1) hi else bsearch t k lo ?m) else None)"
    by (subst bsearch.simps) (simp add: Let_def)
  have "?m < hi" if "lo < hi" using that by simp
  with 1 show ?case unfolding e by (fastforce split: if_splits)
qed

lemma bsearch_complete:
  assumes "sorted_wrt (<) (map fst t)" "i < length t"
  shows "lo \<le> i \<Longrightarrow> i < hi \<Longrightarrow> hi \<le> length t \<Longrightarrow> bsearch t (fst (t ! i)) lo hi = Some i"
proof (induction "hi - lo" arbitrary: lo hi rule: less_induct)
  case less
  let ?m = "(lo + hi) div 2" and ?k = "fst (t ! i)"
  have e: "bsearch t ?k lo hi = (if lo < hi then (if fst (t ! ?m) = ?k then Some ?m
      else if fst (t ! ?m) < ?k then bsearch t ?k (?m + 1) hi else bsearch t ?k lo ?m) else None)"
    by (subst bsearch.simps) (simp add: Let_def)
  have lt: "fst (t ! a) < fst (t ! b)" if "a < b" "b < length t" for a b
    using that assms(1) by (simp add: sorted_wrt_iff_nth_less)
  have m: "lo < hi" "?m < hi" "lo \<le> ?m" "?m < length t" using less.prems by auto
  consider "?m = i" | "?m < i" | "i < ?m" by linarith
  then show ?case
  proof cases
    case 2
    have "bsearch t ?k (?m + 1) hi = Some i"
      by (rule less.hyps) (use m less.prems 2 in auto)
    then show ?thesis unfolding e using lt [OF 2 assms(2)] m by simp
  next
    case 3
    have "bsearch t ?k lo ?m = Some i"
      by (rule less.hyps) (use m less.prems 3 in auto)
    then show ?thesis unfolding e using lt [OF 3 m(4)] m by simp
  qed (use m e in simp)
qed

lemma glyph_codes:
  "map fst GLYPHS = [32..<127] @ [173] @ [1025..<1037] @ [1038..<1104] @ [1105..<1117] @ [8470]"
  by (simp add: GLYPHS_def glyph_rows upt_rec)

lemma glyph_sizes: "list_all (\<lambda>g. length (snd g) = GLYPH_HEIGHT * ROW_BYTES) GLYPHS"
  by (simp add: GLYPHS_def glyph_rows GLYPH_HEIGHT_def ROW_BYTES_def)

lemma glyphs_sorted: "sorted_wrt (<) (map fst GLYPHS)"
  unfolding glyph_codes by (simp only: sorted_wrt_append sorted_wrt_upt set_append set_upt list.set sorted_wrt.simps) auto

lemma glyph_map_of: "glyph ch = map_of GLYPHS ch"
proof (cases "map_of GLYPHS ch")
  case None
  have "bsearch GLYPHS ch 0 (length GLYPHS) = None"
  proof (rule ccontr)
    assume "bsearch GLYPHS ch 0 (length GLYPHS) \<noteq> None"
    then obtain i where "i < length GLYPHS" "fst (GLYPHS ! i) = ch" using bsearch_sound by blast
    then show False using None by (metis map_of_eq_None_iff image_eqI nth_mem)
  qed
  then show ?thesis using None by (simp add: glyph_def)
next
  case (Some g)
  then obtain i where i: "i < length GLYPHS" "GLYPHS ! i = (ch, g)" by (metis in_set_conv_nth map_of_SomeD)
  then have "bsearch GLYPHS ch 0 (length GLYPHS) = Some i"
    using bsearch_complete [OF glyphs_sorted i(1), of 0 "length GLYPHS"] by simp
  then show ?thesis using Some i by (simp add: glyph_def)
qed

lemma glyph_size: "glyph ch = Some g \<Longrightarrow> length g = GLYPH_HEIGHT * ROW_BYTES"
  using glyph_sizes by (auto simp: glyph_map_of list_all_iff dest!: map_of_SomeD)

lemma glyph_iff: "glyph ch \<noteq> None \<longleftrightarrow> ch \<in> set (map fst GLYPHS)"
  by (simp add: glyph_map_of map_of_eq_None_iff)

lemma glyph_known: "ch \<in> {32..<127} \<union> {1038..<1104} \<union> {1105} \<Longrightarrow> glyph ch \<noteq> None"
  unfolding glyph_iff by (simp only: glyph_codes set_append set_upt list.set) auto

definition shape :: "nat \<Rightarrow> nat list" where
  "shape ch = (case glyph ch of Some g \<Rightarrow> g | None \<Rightarrow> the (glyph REPLACEMENT))"

lemma glyph_or_replacement_Some: "glyph_or_replacement ch = Some (shape ch)"
  using glyph_known [of REPLACEMENT]
  by (auto simp: glyph_or_replacement_def shape_def REPLACEMENT_def split: option.split)

lemma shape_size: "length (shape ch) = GLYPH_HEIGHT * ROW_BYTES"
  using glyph_or_replacement_Some [of ch] glyph_size
  by (auto simp: glyph_or_replacement_def split: option.splits)

section \<open>What is drawn\<close>

text \<open>The pixel at \<open>(px, py)\<close> is set by the text \<open>cs\<close> whose corner is at \<open>(x, y)\<close>.\<close>

definition row_of :: "nat list \<Rightarrow> nat \<Rightarrow> nat list" where
  "row_of bitmap r = take ROW_BYTES (drop (r * ROW_BYTES) bitmap)"

definition inked :: "nat list \<Rightarrow> nat \<Rightarrow> nat \<Rightarrow> nat \<Rightarrow> nat \<Rightarrow> bool" where
  "inked cs x y px py \<longleftrightarrow>
     x \<le> px \<and> y \<le> py \<and> (px - x) div GLYPH_WIDTH < length cs \<and> py - y < GLYPH_HEIGHT \<and>
     glyph_bit (row_of (shape (cs ! ((px - x) div GLYPH_WIDTH))) (py - y)) ((px - x) mod GLYPH_WIDTH) 1"

definition painted :: "(nat \<Rightarrow> bool) \<Rightarrow> color \<Rightarrow> color list \<Rightarrow> color list" where
  "painted P fg buf = map (\<lambda>i. if P i then fg else buf ! i) [0..<length buf]"

lemma length_painted [simp]: "length (painted P fg buf) = length buf"
  by (simp add: painted_def)

lemma nth_painted [simp]: "i < length buf \<Longrightarrow> painted P fg buf ! i = (if P i then fg else buf ! i)"
  by (simp add: painted_def)

lemma painted_none: "(\<And>i. i < length buf \<Longrightarrow> \<not> P i) \<Longrightarrow> painted P fg buf = buf"
  by (rule nth_equalityI) auto

lemma painted_painted: "painted Q fg (painted P fg buf) = painted (\<lambda>i. P i \<or> Q i) fg buf"
  by (rule nth_equalityI) auto

lemma painted_cong: "(\<And>i. i < length buf \<Longrightarrow> P i = Q i) \<Longrightarrow> painted P fg buf = painted Q fg buf"
  by (rule nth_equalityI) auto

lemma put_painted: "j < length buf \<Longrightarrow> buf[j := fg] = painted (\<lambda>i. i = j) fg buf"
  by (rule nth_equalityI) auto

lemma pixel_index:
  "px < w \<Longrightarrow> py < h \<Longrightarrow> py * w + px < w * h"
  "px < w \<Longrightarrow> i = py * w + px \<longleftrightarrow> i div w = py \<and> i mod w = px" for i :: nat
proof -
  assume "px < w" "py < h"
  then have "py * w + px < (py + 1) * w" by simp
  also have "\<dots> \<le> h * w" using \<open>py < h\<close> by (intro mult_le_mono1) simp
  finally show "py * w + px < w * h" by (simp add: mult.commute)
next
  assume "px < w"
  then show "i = py * w + px \<longleftrightarrow> i div w = py \<and> i mod w = px"
    by (auto simp: mult.commute)
qed

lemma sum_diff: "a + b = c \<Longrightarrow> c - a = b" for a b c :: nat
  by simp

lemma draw_row_painted:
  assumes "length buf = w * h" "py < h"
  shows "draw_row w x py r fg col buf = Some (painted (\<lambda>i. i div w = py \<and> x + col \<le> i mod w \<and>
           i mod w < x + GLYPH_WIDTH \<and> glyph_bit r (i mod w - x) 1) fg buf)"
  using assms(1)
proof (induction "GLYPH_WIDTH - col" arbitrary: col buf rule: less_induct)
  case less
  let ?P = "\<lambda>c i. i div w = py \<and> x + c \<le> i mod w \<and> i mod w < x + GLYPH_WIDTH \<and> glyph_bit r (i mod w - x) 1"
  have w: "i < length buf \<Longrightarrow> i mod w < w" for i
    using less.prems by (cases "w = 0") auto
  show ?case
  proof (cases "GLYPH_WIDTH \<le> col \<or> w \<le> x + col")
    case True
    then have "painted (?P col) fg buf = buf"
      by (intro painted_none) (use w in fastforce)
    then show ?thesis using True by (subst draw_row.simps) auto
  next
    case False
    then have c: "GLYPH_WIDTH - (col + 1) < GLYPH_WIDTH - col" by arith
    have j: "py * w + (x + col) < length buf" using pixel_index(1) False assms(2) less.prems by simp
    show ?thesis
    proof (cases "glyph_bit r col 1")
      case True
      have "draw_row w x py r fg col buf = draw_row w x py r fg (col + 1) (buf[py * w + (x + col) := fg])"
        using False True j by (subst draw_row.simps) (simp add: put_pixel_def)
      also have "\<dots> = Some (painted (?P (col + 1)) fg (buf[py * w + (x + col) := fg]))"
        by (rule less.hyps [OF c]) (use less.prems in simp)
      also have "\<dots> = Some (painted (?P col) fg buf)"
        unfolding put_painted [OF j] painted_painted
        by (intro arg_cong [of _ _ Some] painted_cong)
          (use False True in \<open>auto simp: pixel_index(2) Suc_le_eq le_less\<close>)
      finally show ?thesis .
    next
      case no: False
      have "draw_row w x py r fg col buf = draw_row w x py r fg (col + 1) buf"
        using False no by (subst draw_row.simps) simp
      also have "\<dots> = Some (painted (?P (col + 1)) fg buf)"
        by (rule less.hyps [OF c]) (use less.prems in simp)
      also have "\<dots> = Some (painted (?P col) fg buf)"
        by (intro arg_cong [of _ _ Some] painted_cong)
          (use no in \<open>auto simp: Suc_le_eq le_less dest: sum_diff\<close>)
      finally show ?thesis .
    qed
  qed
qed

lemma draw_rows_painted:
  assumes "length buf = w * h" "length bitmap = GLYPH_HEIGHT * ROW_BYTES"
  shows "draw_rows w h x y bitmap fg row buf = Some (painted (\<lambda>i. y + row \<le> i div w \<and> i div w < y + GLYPH_HEIGHT \<and>
           x \<le> i mod w \<and> i mod w < x + GLYPH_WIDTH \<and>
           glyph_bit (row_of bitmap (i div w - y)) (i mod w - x) 1) fg buf)"
  using assms(1)
proof (induction "GLYPH_HEIGHT - row" arbitrary: row buf rule: less_induct)
  case less
  let ?P = "\<lambda>r i. y + r \<le> i div w \<and> i div w < y + GLYPH_HEIGHT \<and> x \<le> i mod w \<and> i mod w < x + GLYPH_WIDTH \<and>
     glyph_bit (row_of bitmap (i div w - y)) (i mod w - x) 1"
  have h: "i < length buf \<Longrightarrow> i div w < h" for i
    using less.prems by (simp add: less_mult_imp_div_less mult.commute)
  show ?case
  proof (cases "GLYPH_HEIGHT \<le> row \<or> h \<le> y + row")
    case True
    then have "painted (?P row) fg buf = buf"
      by (intro painted_none) (use h in fastforce)
    then show ?thesis using True by (subst draw_rows.simps) auto
  next
    case False
    then have c: "GLYPH_HEIGHT - (row + 1) < GLYPH_HEIGHT - row" by arith
    let ?R = "\<lambda>i. i div w = y + row \<and> x + 0 \<le> i mod w \<and> i mod w < x + GLYPH_WIDTH \<and> glyph_bit (row_of bitmap row) (i mod w - x) 1"
    have b: "\<not> length bitmap < (row + 1) * ROW_BYTES"
      using False by (simp add: assms(2) not_less ROW_BYTES_def)
    have "draw_row w x (y + row) (row_of bitmap row) fg 0 buf = Some (painted ?R fg buf)"
      by (rule draw_row_painted) (use less.prems False in auto)
    then have "draw_rows w h x y bitmap fg row buf = draw_rows w h x y bitmap fg (row + 1) (painted ?R fg buf)"
      using False b by (subst draw_rows.simps) (simp add: row_of_def)
    also have "\<dots> = Some (painted (?P (row + 1)) fg (painted ?R fg buf))"
      by (rule less.hyps [OF c]) (use less.prems in simp)
    also have "\<dots> = Some (painted (?P row) fg buf)"
      unfolding painted_painted
      by (intro arg_cong [of _ _ Some] painted_cong) (use False in \<open>auto simp: Suc_le_eq le_less dest: sum_diff\<close>)
    finally show ?thesis .
  qed
qed

lemma draw_glyph_painted:
  "length buf = w * h \<Longrightarrow> draw_glyph buf w h x y (shape ch) fg =
     Some (painted (\<lambda>i. inked [ch] x y (i mod w) (i div w)) fg buf)"
  unfolding draw_glyph_def
  by (subst draw_rows_painted [OF _ shape_size])
    (auto simp: inked_def GLYPH_WIDTH_def GLYPH_HEIGHT_def intro!: painted_cong)

lemma inked_Cons:
  "inked (c # cs) x y px py \<longleftrightarrow> inked [c] x y px py \<or> inked cs (x + GLYPH_WIDTH) y px py"
proof (cases "x + GLYPH_WIDTH \<le> px")
  case True
  then obtain k where k: "px = x + GLYPH_WIDTH + k" using le_iff_add by auto
  have "(GLYPH_WIDTH + k) div GLYPH_WIDTH = Suc (k div GLYPH_WIDTH)" "(GLYPH_WIDTH + k) mod GLYPH_WIDTH = k mod GLYPH_WIDTH"
    by (simp_all add: GLYPH_WIDTH_def)
  then show ?thesis by (simp add: inked_def k)
next
  case False
  then have "(px - x) div GLYPH_WIDTH = 0" by (simp add: GLYPH_WIDTH_def)
  then show ?thesis using False by (auto simp: inked_def)
qed

lemma draw_text_painted:
  assumes "length buf = w * h"
  shows "draw_text buf w h x y t fg = Some (painted (\<lambda>i. inked (chars t) x y (i mod w) (i div w)) fg buf)"
proof -
  have "draw_chars w h y fg x cs buf = Some (painted (\<lambda>i. inked cs x y (i mod w) (i div w)) fg buf)"
    if "length buf = w * h" for cs x buf
    using that
  proof (induction cs arbitrary: x buf)
    case Nil
    then show ?case by (simp add: painted_none inked_def)
  next
    case (Cons c cs)
    then show ?case
      by (simp add: glyph_or_replacement_Some draw_glyph_painted painted_painted inked_Cons [of c cs])
  qed
  from this [OF assms] show ?thesis by (simp add: draw_text_def)
qed

text \<open>
  C29.  The text on the bar is drawn and nothing else: into a buffer of the size of the
  bar drawing never panics, whatever the text, and a pixel takes the foreground
  exactly when a glyph (the question mark for an unknown character) has ink there; no
  glyph wraps into the next row, and what is right of the bar or below it is cut.
\<close>

theorem draw_text_exact:
  assumes "length buf = w * h"
  shows "draw_text buf w h x y t fg =
    Some (map (\<lambda>i. if inked (chars t) x y (i mod w) (i div w) then fg else buf ! i) [0..<w * h])"
  using draw_text_painted [OF assms] assms by (simp add: painted_def)

theorem draw_text_exact_witness:
  "draw_text (replicate (30 * 24) 0) 30 24 8 2 ''a'' 1 =
    Some (map (\<lambda>i. if inked (chars ''a'') 8 2 (i mod 30) (i div 30) then 1 else replicate (30 * 24) 0 ! i) [0..<30 * 24])"
  by (rule draw_text_exact) simp

section \<open>What fits\<close>

lemma utf8_step_scalar: "fst (utf8_step s) = Some v \<Longrightarrow> is_scalar v"
proof -
  have b: "byte_of c < 256" for c by (rule of_char_lt)
  have sur: False if "55296 \<le> (a - 224) * 4096 + (c - 128) * 64 + d - (128::nat)" "(a - 224) * 4096 + (c - 128) * 64 + d - 128 \<le> 57343"
    "c < 160" "128 \<le> d" "d < 192" "\<not> a < 224" for a c d
  proof -
    consider "a \<le> 236" | "a = 237" | "238 \<le> a" by linarith
    then show False using that by cases linarith+
  qed
  show "fst (utf8_step s) = Some v \<Longrightarrow> is_scalar v"
    by (auto dest: sur simp: utf8_step_def Let_def second_ok_def is_cont_def is_scalar_def split: list.splits if_splits)
qed

lemma chars_scalar: "list_all is_scalar (chars s)"
proof (induction s rule: chars.induct)
  case (1 s)
  show ?case
  proof (cases "s = []")
    case False
    have "is_scalar (case fst (utf8_step s) of Some c \<Rightarrow> c | None \<Rightarrow> 65533)"
      using utf8_step_scalar [of s] by (auto simp: is_scalar_def split: option.split)
    with 1 False show ?thesis by (subst chars.simps) simp
  qed simp
qed

lemma chars_from_append: "list_all is_scalar a \<Longrightarrow> chars (from_chars a @ s) = a @ chars s"
  by (induction a) (auto simp: from_chars_Cons chars_enc)

lemma chars_take: "chars (take_chars n s) = take n (chars s)"
proof -
  have "list_all is_scalar (take n (chars s))"
    using chars_scalar [of s] by (auto simp: list_all_iff dest: in_set_takeD)
  then show ?thesis by (simp add: take_chars_def chars_from_chars)
qed

text \<open>
  What is written on the bar fits on the output: the text is left as it is when
  it fits, and otherwise is cut between characters and, where there is room for
  them, ends in three dots.
\<close>

theorem fit_text_fits:
  "text_width_px (fit_text t m) \<le> m"
  "chars (fit_text t m) =
     (if char_count t \<le> m div GLYPH_WIDTH then chars t
      else if m div GLYPH_WIDTH \<le> 3 then take (m div GLYPH_WIDTH) (chars t)
      else take (m div GLYPH_WIDTH - 3) (chars t) @ map byte_of ''...'')"
proof -
  have le: "text_width_px t \<le> m \<longleftrightarrow> char_count t \<le> m div GLYPH_WIDTH"
    by (auto simp: text_width_px_def GLYPH_WIDTH_def)
  have ell: "chars (take_chars n t @ ELLIPSIS) = take n (chars t) @ map byte_of ''...''" for n
  proof -
    have "list_all is_scalar (take n (chars t))"
      using chars_scalar [of t] by (auto simp: list_all_iff dest: in_set_takeD)
    then show ?thesis
      unfolding take_chars_def by (simp only: chars_from_append) (simp add: ELLIPSIS_def chars_ascii)
  qed
  show c: "chars (fit_text t m) =
     (if char_count t \<le> m div GLYPH_WIDTH then chars t
      else if m div GLYPH_WIDTH \<le> 3 then take (m div GLYPH_WIDTH) (chars t)
      else take (m div GLYPH_WIDTH - 3) (chars t) @ map byte_of ''...'')"
  proof -
    have "length ELLIPSIS = 3" by (simp add: ELLIPSIS_def)
    then show ?thesis unfolding fit_text_def le Let_def by (simp only: ell chars_take if_distrib [of chars])
  qed
  have "length (chars (fit_text t m)) \<le> m div GLYPH_WIDTH"
    unfolding c by (auto simp: char_count_def)
  then show "text_width_px (fit_text t m) \<le> m"
    by (auto simp: text_width_px_def char_count_def GLYPH_WIDTH_def)
qed

text \<open>The names a strip shows.\<close>

definition strip_names :: "Strip \<Rightarrow> string" where
  "strip_names s =
     (case s of SSpace i _ l \<Rightarrow> i @ l | SOrphan i \<Rightarrow> i | SUnknown i \<Rightarrow> i | SUnverified c \<Rightarrow> c | _ \<Rightarrow> [])"

lemma ascii_glyphs:
  "list_all (\<lambda>c. 32 \<le> byte_of c \<and> byte_of c < 127) s \<Longrightarrow>
     is_ascii s \<and> list_all (\<lambda>ch. glyph ch \<noteq> None) (map byte_of s)"
  using glyph_known by (auto simp: list_all_iff is_ascii_def)

definition drawable :: "string \<Rightarrow> bool" where
  "drawable t = list_all (\<lambda>ch. glyph ch \<noteq> None) (chars t)"

lemma drawable_text:
  assumes "list_all (\<lambda>ch. ch \<in> {32..<127} \<union> {1038..<1104} \<union> {1105}) cs"
  shows "drawable (from_chars cs @ x) = drawable x" "drawable (from_chars cs)"
proof -
  have "list_all is_scalar cs" "list_all (\<lambda>ch. glyph ch \<noteq> None) cs"
    using assms glyph_known by (fastforce simp: list_all_iff is_scalar_def)+
  then show "drawable (from_chars cs @ x) = drawable x" "drawable (from_chars cs)"
    by (simp_all only: drawable_def chars_from_append chars_from_chars list_all_append simp_thms)
qed

lemma drawable_ascii:
  "list_all (\<lambda>c. 32 \<le> byte_of c \<and> byte_of c < 127) s \<Longrightarrow> drawable s"
  "list_all (\<lambda>c. 32 \<le> byte_of c \<and> byte_of c < 127) s \<Longrightarrow> drawable (s @ x) = drawable x"
  using ascii_glyphs [of s] by (simp_all add: drawable_def chars_append_ascii chars_ascii)

lemma drawable_texts:
  "drawable TXT_HOST" "drawable (TXT_SPACE @ x) = drawable x" "drawable (TXT_NO_SPACE @ x) = drawable x"
  "drawable TXT_UNKNOWN_TO_DAEMON" "drawable (TXT_CLAIMS @ x) = drawable x" "drawable TXT_NO_CHECK"
  "drawable TXT_FOCUS_UNKNOWN"
  unfolding TXT_HOST_def TXT_SPACE_def TXT_NO_SPACE_def TXT_UNKNOWN_TO_DAEMON_def TXT_CLAIMS_def
    TXT_NO_CHECK_def TXT_FOCUS_UNKNOWN_def
  by (rule drawable_text, simp)+

text \<open>
  Nothing on the bar is drawn as the replacement character: every character of
  every text the bar composes has a glyph of its own, as long as the names in it are
  printable ASCII.
\<close>

theorem bar_text_drawable:
  assumes "list_all (\<lambda>c. 32 \<le> byte_of c \<and> byte_of c < 127) (strip_names s)"
  shows "list_all (\<lambda>ch. glyph ch \<noteq> None) (chars (bar_text (bar_content s)))"
proof -
  have "drawable (bar_text (bar_content s))"
    using assms by (cases s) (simp_all add: strip_names_def bar_content_def bar_on_def Let_def drawable_texts
        drawable_ascii drawable_ascii(2) [of "'': ''", simplified])
  then show ?thesis by (simp only: drawable_def)
qed

theorem bar_text_drawable_witness:
  "list_all (\<lambda>ch. glyph ch \<noteq> None) (chars (bar_text (bar_content (SSpace ''web'' ''#e03131'' ''standard''))))"
  by (rule bar_text_drawable) (simp add: strip_names_def)

end
