(* ===== verification/Client.thy ===== *)
theory Client
  imports Control
begin

text \<open>
  \<open>lib/proto/src/client.rs\<close>: the client half of a control connection.  The
  request goes out as one line; then frames are read until a terminal one,
  progress texts being handed to the caller in order.  \<open>parse\<close> is
  \<open>serde_json::from_str::<Value>\<close>.  \<open>call\<close> runs the exchange on a connection:
  \<open>dialed\<close> is how far the socket got, and what it delivers.
\<close>

definition MAX_RESPONSE_FRAME_BYTES :: nat where
  "MAX_RESPONSE_FRAME_BYTES = 256 * 1024"

datatype Reply = ReplyOk json | ReplyErr (reply_code: string) (reply_message: string)

datatype client_error =
    NoAnswer frame_error
  | FrameNotJson
  | ProgressNotString
  | OkNotBool
  | NoCode
  | NoMessage
  | NeitherProgressNorOk string

text \<open>What one decoded frame means: a progress text, or the end of the exchange.\<close>

datatype frame_kind = FProgress string | FTerminal Reply | FBad client_error

definition classify :: "string \<Rightarrow> json \<Rightarrow> frame_kind" where
  "classify line v =
     (case jget ''progress'' v of
        Some p \<Rightarrow> (case as_str p of Some t \<Rightarrow> FProgress t | None \<Rightarrow> FBad ProgressNotString)
      | None \<Rightarrow>
          (case jget ''ok'' v of
             Some ok \<Rightarrow>
               (case as_bool ok of
                  None \<Rightarrow> FBad OkNotBool
                | Some True \<Rightarrow>
                    FTerminal (ReplyOk (case jget ''data'' v of Some d \<Rightarrow> d | None \<Rightarrow> JNull))
                | Some False \<Rightarrow>
                    (case Option.bind (jget ''code'' v) as_str of
                       None \<Rightarrow> FBad NoCode
                     | Some code \<Rightarrow>
                         (case Option.bind (jget ''message'' v) as_str of
                            None \<Rightarrow> FBad NoMessage
                          | Some message \<Rightarrow> FTerminal (ReplyErr code message))))
           | None \<Rightarrow> FBad (NeitherProgressNorOk line)))"

lemma read_capped_shrinks:
  "read_capped limit buf r = (Inr line, r') \<Longrightarrow> length r' < length r"
  using read_capped_Inr [of limit buf r line r'] by auto

function exchange_loop ::
  "(string \<Rightarrow> json option) \<Rightarrow> rd list \<Rightarrow> string list \<Rightarrow>
   (client_error + Reply) \<times> string list \<times> rd list" where
  "exchange_loop parse r seen =
     (case read_capped_line MAX_RESPONSE_FRAME_BYTES r of
        (Inl e, r') \<Rightarrow> (Inl (NoAnswer e), seen, r')
      | (Inr line, r') \<Rightarrow>
          (case parse line of
             None \<Rightarrow> (Inl FrameNotJson, seen, r')
           | Some v \<Rightarrow>
               (case classify line v of
                  FProgress t \<Rightarrow> exchange_loop parse r' (seen @ [t])
                | FTerminal reply \<Rightarrow> (Inr reply, seen, r')
                | FBad e \<Rightarrow> (Inl e, seen, r'))))"
  by pat_completeness auto
termination
  by (relation "measure (\<lambda>(_, r, _). length r)")
    (auto simp: read_capped_line_def dest: read_capped_shrinks [OF sym])

declare exchange_loop.simps [simp del]

text \<open>\<open>exchange\<close>: the bytes sent, and what the frame loop makes of the answer.\<close>

definition exchange ::
  "(json \<Rightarrow> string) \<Rightarrow> (string \<Rightarrow> json option) \<Rightarrow> rd list \<Rightarrow> json \<Rightarrow>
   string \<times> (client_error + Reply) \<times> string list \<times> rd list" where
  "exchange print parse reader request =
     (print request @ [CHR 0x0A], exchange_loop parse reader [])"

datatype dialed =
    NotListening
  | NoReadTimeout
  | NoWriteTimeout
  | NotCloned
  | NotWritten
  | Talks "rd list"

datatype call_error = CallConnect | CallReadTimeout | CallWriteTimeout | CallClone | CallSend | CallFailed client_error

definition call ::
  "(json \<Rightarrow> string) \<Rightarrow> (string \<Rightarrow> json option) \<Rightarrow> dialed \<Rightarrow> json \<Rightarrow> (call_error + Reply) \<times> string list" where
  "call print parse d request =
     (case d of
        NotListening \<Rightarrow> (Inl CallConnect, [])
      | NoReadTimeout \<Rightarrow> (Inl CallReadTimeout, [])
      | NoWriteTimeout \<Rightarrow> (Inl CallWriteTimeout, [])
      | NotCloned \<Rightarrow> (Inl CallClone, [])
      | NotWritten \<Rightarrow> (Inl CallSend, [])
      | Talks reader \<Rightarrow>
          (case snd (exchange print parse reader request) of
             (Inl e, ps, _) \<Rightarrow> (Inl (CallFailed e), ps)
           | (Inr reply, ps, _) \<Rightarrow> (Inr reply, ps)))"

section \<open>Reading what the responder wrote\<close>

definition frame_bytes :: "(json \<Rightarrow> string) \<Rightarrow> json \<Rightarrow> rd list" where
  "frame_bytes print v = map RByte (print v) @ [RByte (CHR 0x0A)]"

text \<open>What the client relies on in \<open>serde_json\<close> for one frame.\<close>

definition frame_ok :: "(json \<Rightarrow> string) \<Rightarrow> (string \<Rightarrow> json option) \<Rightarrow> json \<Rightarrow> bool" where
  "frame_ok print parse v \<longleftrightarrow>
     parse (print v) = Some v \<and> no_control (print v) \<and> valid_utf8 (print v) \<and>
     length (print v) < MAX_RESPONSE_FRAME_BYTES"

lemma exchange_loop_frame:
  assumes "frame_ok print parse v"
  shows "exchange_loop parse (frame_bytes print v @ r) seen =
     (case classify (print v) v of
        FProgress t \<Rightarrow> exchange_loop parse r (seen @ [t])
      | FTerminal reply \<Rightarrow> (Inr reply, seen, r)
      | FBad e \<Rightarrow> (Inl e, seen, r))"
proof -
  have "read_capped_line MAX_RESPONSE_FRAME_BYTES (frame_bytes print v @ r) = (Inr (print v), r)"
    using assms by (simp add: read_capped_line_frame frame_ok_def frame_bytes_def)
  then show ?thesis using assms by (subst exchange_loop.simps) (simp add: frame_ok_def)
qed

definition reply_of :: "(ErrorCode \<times> string) + json \<Rightarrow> Reply" where
  "reply_of result =
     (case result of Inr data \<Rightarrow> ReplyOk data | Inl (c, m) \<Rightarrow> ReplyErr (code_str c) m)"

lemma classify_progress: "classify line (progress_frame t) = FProgress t"
  by (simp add: classify_def progress_frame_def)

lemma classify_finish: "classify line (finish_frame result) = FTerminal (reply_of result)"
  by (auto simp: classify_def finish_frame_def reply_of_def split: sum.split prod.split)

lemma exchange_loop_response:
  assumes "\<forall>v \<in> set (response_frames ps result). frame_ok print parse v"
  shows "exchange_loop parse (concat (map (frame_bytes print) (response_frames ps result)) @ rest) seen
     = (Inr (reply_of result), seen @ ps, rest)"
  using assms
proof (induction ps arbitrary: seen)
  case Nil
  then show ?case
    by (simp add: response_frames_def exchange_loop_frame classify_finish)
next
  case (Cons p ps)
  then show ?case
    by (simp add: response_frames_def exchange_loop_frame classify_progress)
qed

text \<open>
  The two halves of the control protocol agree: a client reading the bytes
  a \<open>Responder\<close> wrote gets every progress text in order, then the handler's own
  outcome (the data, or the error code in kebab case with its message), and
  leaves what follows the terminal frame unread.
\<close>

theorem client_reads_response:
  assumes "\<forall>v \<in> set (response_frames ps result). frame_ok print parse v"
  shows "snd (exchange print parse
           (concat (map (frame_bytes print) (response_frames ps result)) @ rest) request)
     = (Inr (reply_of result), ps, rest)"
  using exchange_loop_response [OF assms, of rest "[]"] by (simp add: exchange_def)

definition sample_print :: "json \<Rightarrow> string" where
  "sample_print v = (if v = progress_frame ''p'' then ''P'' else ''F'')"

definition sample_parse :: "string \<Rightarrow> json option" where
  "sample_parse s =
     (if s = ''P'' then Some (progress_frame ''p'')
      else if s = ''F'' then Some (finish_frame (Inl (NoBridge, ''m'')))
      else None)"

theorem client_reads_response_witness:
  "snd (exchange sample_print sample_parse
       (concat (map (frame_bytes sample_print) (response_frames [''p''] (Inl (NoBridge, ''m'')))) @ [RErr])
       JNull) = (Inr (ReplyErr ''no-bridge'' ''m''), [''p''], [RErr])"
proof -
  have "\<forall>v \<in> set (response_frames [''p''] (Inl (NoBridge, ''m''))). frame_ok sample_print sample_parse v"
    by (simp add: response_frames_def frame_ok_def sample_print_def sample_parse_def progress_frame_def
        finish_frame_def no_control_def is_ascii_control_def valid_utf8_ascii MAX_RESPONSE_FRAME_BYTES_def)
  from client_reads_response [OF this, of "[RErr]" JNull] show ?thesis by (simp add: reply_of_def)
qed

text \<open>
  The exchange ends well only on a terminal frame: a reply is never made up
  from a closed connection, and a frame that is neither progress nor terminal is
  an error.
\<close>

lemma exchange_closed:
  "exchange_loop parse [] seen = (Inl (NoAnswer ClosedEarly), seen, [])"
  by (subst exchange_loop.simps) (simp add: read_capped_line_def)

end
