(* ===== verification/LabelMain.thy ===== *)
theory LabelMain
  imports Niri Outputs LabelFont Client
begin

text \<open>
  \<open>components/label/src/main.rs\<close>: the bar as the compositor and the window manager
  drive it.  What a handler reads from outside at one moment is its context: the
  result of the \<open>list\<close> request, the cgroups, and whether the shared-memory buffer
  of a bar can be created and attached.  A Wayland surface is a number; \<open>shown\<close> is
  what was last committed to it.  A panic of the drawing code is \<open>None\<close>.
\<close>

definition BAR_HEIGHT :: nat where
  "BAR_HEIGHT = 24"

definition INITIAL_WIDTH_GUESS :: nat where
  "INITIAL_WIDTH_GUESS = 1920"

definition DAEMON_ERROR_BACKGROUND :: color where
  "DAEMON_ERROR_BACKGROUND = 0xffb02020"

section \<open>The spaces the daemon lists\<close>

definition item_field :: "string \<Rightarrow> json \<Rightarrow> string + string" where
  "item_field name item =
     (case Option.bind (jget name item) as_str of
        Some s \<Rightarrow> Inr s
      | None \<Rightarrow> Inl (TXT_SPACE_NO_FIELD @ name))"

definition space_of_item :: "json \<Rightarrow> string + SpaceInfo" where
  "space_of_item item =
     (case item_field ''id'' item of Inl e \<Rightarrow> Inl e | Inr i \<Rightarrow>
     (case item_field ''color'' item of Inl e \<Rightarrow> Inl e | Inr c \<Rightarrow>
     (case item_field ''isolation-level'' item of Inl e \<Rightarrow> Inl e | Inr l \<Rightarrow>
     (case item_field ''state'' item of Inl e \<Rightarrow> Inl e | Inr st \<Rightarrow>
        Inr \<lparr>si_id = i, si_color = c, si_level = l, si_state = st\<rparr>))))"

fun spaces_of_items :: "json list \<Rightarrow> string + SpaceInfo list" where
  "spaces_of_items [] = Inr []"
| "spaces_of_items (v # vs) =
     (case space_of_item v of
        Inl e \<Rightarrow> Inl e
      | Inr s \<Rightarrow> (case spaces_of_items vs of Inl e \<Rightarrow> Inl e | Inr ss \<Rightarrow> Inr (s # ss)))"

text \<open>\<open>called\<close> is the result of \<open>client::call\<close>, its error as the text shown.\<close>

definition spaces_from_daemon :: "string + Reply \<Rightarrow> string + SpaceInfo list" where
  "spaces_from_daemon called =
     (case called of
        Inl e \<Rightarrow> Inl e
      | Inr (ReplyErr c m) \<Rightarrow> Inl (c @ '': '' @ m)
      | Inr (ReplyOk data) \<Rightarrow>
          (case as_array data of None \<Rightarrow> Inl TXT_LIST_NOT_ARRAY | Some items \<Rightarrow> spaces_of_items items))"

record LabelCtx =
  cx_json :: "string \<Rightarrow> json option"
  cx_called :: "string + Reply"
  cx_proc :: "nat \<Rightarrow> string option"
  cx_create :: "nat \<Rightarrow> nat \<Rightarrow> bool"
  cx_attach :: bool

definition compute_content :: "LabelCtx \<Rightarrow> WindowMap \<Rightarrow> BarContent" where
  "compute_content cx m =
     (case spaces_from_daemon (cx_called cx) of
        Inr spaces \<Rightarrow> bar_content (strip_for (focus m) (cx_proc cx) spaces)
      | Inl err \<Rightarrow> \<lparr>bar_text = err, background = DAEMON_ERROR_BACKGROUND, foreground = 0xffffffff\<rparr>)"

definition render_line :: "LabelCtx \<Rightarrow> WindowMap \<Rightarrow> string" where
  "render_line cx m =
     (case spaces_from_daemon (cx_called cx) of
        Inl err \<Rightarrow> ''STRIP daemon-error '' @ err
      | Inr spaces \<Rightarrow>
          (case strip_for (focus m) (cx_proc cx) spaces of
             SHost \<Rightarrow> ''STRIP host''
           | SSpace i c l \<Rightarrow> ''STRIP space '' @ i @ '' '' @ c @ '' '' @ l
           | SOrphan i \<Rightarrow> ''STRIP orphan '' @ i
           | SUnknown i \<Rightarrow> ''STRIP unknown '' @ i
           | SUnverified c \<Rightarrow> ''STRIP unverified '' @ c
           | SFocusUnknown \<Rightarrow> ''STRIP focus-unknown''))"

text \<open>
  \<open>--dry-run\<close>: the lines printed for the lines of the event stream, each with the
  context at its time; a line that cannot be read, \<open>None\<close>, ends the run with an error.
\<close>

fun run_dry_run :: "(string option \<times> LabelCtx) list \<Rightarrow> WindowMap \<Rightarrow> string \<Rightarrow> string list \<times> bool" where
  "run_dry_run [] m lst = ([], True)"
| "run_dry_run ((None, cx) # rest) m lst = ([], False)"
| "run_dry_run ((Some line, cx) # rest) m lst =
     (if trim line = [] then run_dry_run rest m lst
      else case parse_event (cx_json cx) line of
             Inl _ \<Rightarrow> run_dry_run rest m lst
           | Inr e \<Rightarrow>
               (let m1 = apply_event e m; current = render_line cx m1
                in if current \<noteq> lst
                   then (let (out, ok) = run_dry_run rest m1 current in (current # out, ok))
                   else run_dry_run rest m1 lst))"

section \<open>The bars\<close>

record Bar =
  b_layer :: nat
  b_width :: nat
  b_height :: nat
  first_configure :: bool
  shown :: "(nat \<times> nat \<times> color list) option"

definition draw_bar :: "LabelCtx \<Rightarrow> BarContent \<Rightarrow> Bar \<Rightarrow> Bar option" where
  "draw_bar cx c b =
     (if \<not> cx_create cx (b_width b) (b_height b) then Some b
      else
        let pixels = replicate ((b_width b * b_height b) mod 2 ^ 32) (background c);
            t = fit_text (bar_text c) (b_width b - 16)
        in case draw_text pixels (b_width b) (b_height b) 8 2 t (foreground c) of
             None \<Rightarrow> None
           | Some px \<Rightarrow>
               if cx_attach cx then Some (b\<lparr>shown := Some (b_width b, b_height b, px)\<rparr>) else Some b)"

record AppData =
  app_bars :: "(nat, Bar) OutputBars"
  niri_map :: WindowMap
  last_content :: "BarContent option"
  fatal :: "string option"
  app_done :: bool

definition new_app :: AppData where
  "new_app = \<lparr>app_bars = no_bars, niri_map = empty_windows, last_content = None, fatal = None, app_done = False\<rparr>"

fun redraw_bars :: "LabelCtx \<Rightarrow> BarContent \<Rightarrow> (nat, Bar) OutputBars \<Rightarrow> (nat, Bar) OutputBars option" where
  "redraw_bars cx c [] = Some []"
| "redraw_bars cx c ((i, b) # bars) =
     (if first_configure b then map_option (\<lambda>r. (i, b) # r) (redraw_bars cx c bars)
      else case draw_bar cx c b of
             None \<Rightarrow> None
           | Some b1 \<Rightarrow> map_option (\<lambda>r. (i, b1) # r) (redraw_bars cx c bars))"

definition redraw_all :: "LabelCtx \<Rightarrow> AppData \<Rightarrow> AppData option" where
  "redraw_all cx app =
     (case last_content app of
        None \<Rightarrow> Some app
      | Some c \<Rightarrow> map_option (\<lambda>bars. app\<lparr>app_bars := bars\<rparr>) (redraw_bars cx c (app_bars app)))"

definition maybe_redraw :: "LabelCtx \<Rightarrow> AppData \<Rightarrow> AppData option" where
  "maybe_redraw cx app =
     (let c = compute_content cx (niri_map app)
      in if last_content app = Some c then Some app
         else redraw_all cx (app\<lparr>last_content := Some c\<rparr>))"

definition handle_niri_line :: "LabelCtx \<Rightarrow> string \<Rightarrow> AppData \<Rightarrow> AppData option" where
  "handle_niri_line cx line app =
     (if trim line = [] then Some app
      else case parse_event (cx_json cx) line of
             Inl _ \<Rightarrow> Some app
           | Inr e \<Rightarrow> maybe_redraw cx (app\<lparr>niri_map := apply_event e (niri_map app)\<rparr>))"

definition get_or_insert :: "string \<Rightarrow> string option \<Rightarrow> string option" where
  "get_or_insert t f = (case f of None \<Rightarrow> Some t | Some x \<Rightarrow> Some x)"

text \<open>\<open>layer\<close> is the surface the compositor makes for the new bar.\<close>

definition new_output :: "nat \<Rightarrow> nat \<Rightarrow> AppData \<Rightarrow> AppData" where
  "new_output output layer app =
     (if contains_output output (app_bars app) then app
      else app\<lparr>app_bars := snd (insert_output output
             \<lparr>b_layer = layer, b_width = INITIAL_WIDTH_GUESS, b_height = BAR_HEIGHT,
              first_configure = True, shown = None\<rparr> (app_bars app))\<rparr>)"

definition output_destroyed :: "nat \<Rightarrow> AppData \<Rightarrow> AppData" where
  "output_destroyed output app = app\<lparr>app_bars := remove_output output (app_bars app)\<rparr>"

definition layer_closed :: "nat \<Rightarrow> AppData \<Rightarrow> AppData" where
  "layer_closed layer app =
     (let app1 = app\<lparr>app_bars := remove_matching (\<lambda>b. b_layer b = layer) (app_bars app)\<rparr>
      in if app_bars app1 = [] then app1\<lparr>fatal := get_or_insert TXT_ALL_CLOSED (fatal app1)\<rparr> else app1)"

definition configure_bar :: "LabelCtx \<Rightarrow> BarContent option \<Rightarrow> nat \<Rightarrow> nat \<Rightarrow> Bar \<Rightarrow> Bar option" where
  "configure_bar cx content w h b =
     (let b1 = b\<lparr>b_width := (if w \<noteq> 0 then w else b_width b), b_height := (if h \<noteq> 0 then h else BAR_HEIGHT)\<rparr>
      in if \<not> first_configure b1 then Some b1
         else let b2 = b1\<lparr>first_configure := False\<rparr>
              in case content of None \<Rightarrow> Some b2 | Some c \<Rightarrow> draw_bar cx c b2)"

definition configure :: "LabelCtx \<Rightarrow> nat \<Rightarrow> nat \<Rightarrow> nat \<Rightarrow> AppData \<Rightarrow> AppData option" where
  "configure cx layer w h app =
     (let app1 = (if last_content app = None then app\<lparr>last_content := Some (compute_content cx (niri_map app))\<rparr> else app)
      in case find (\<lambda>p. b_layer (snd p) = layer) (app_bars app1) of
           None \<Rightarrow> Some app1
         | Some (i, b) \<Rightarrow>
             (case configure_bar cx (last_content app1) w h b of
                None \<Rightarrow> None
              | Some b1 \<Rightarrow>
                  Some (app1\<lparr>app_bars := find_mut (\<lambda>b. b_layer b = layer) (\<lambda>_. b1) (app_bars app1)\<rparr>)))"

section \<open>The event loop\<close>

datatype LabelEvent =
    NiriLine string
  | NiriClosed
  | TimerFired
  | NewOutput nat nat
  | OutputDestroyed nat
  | LayerClosed nat
  | Configure nat nat nat

definition label_step :: "LabelCtx \<Rightarrow> LabelEvent \<Rightarrow> AppData \<Rightarrow> AppData option" where
  "label_step cx e app =
     (case e of
        NiriLine line \<Rightarrow> handle_niri_line cx line app
      | NiriClosed \<Rightarrow> Some (app\<lparr>fatal := get_or_insert TXT_NIRI_ENDED (fatal app)\<rparr>)
      | TimerFired \<Rightarrow> Some (app\<lparr>app_done := True\<rparr>)
      | NewOutput i l \<Rightarrow> Some (new_output i l app)
      | OutputDestroyed i \<Rightarrow> Some (output_destroyed i app)
      | LayerClosed l \<Rightarrow> Some (layer_closed l app)
      | Configure l w h \<Rightarrow> configure cx l w h app)"

fun label_run :: "(LabelCtx \<times> LabelEvent) list \<Rightarrow> AppData \<Rightarrow> AppData option" where
  "label_run [] app = Some app"
| "label_run ((cx, e) # es) app =
     (case label_step cx e app of None \<Rightarrow> None | Some app1 \<Rightarrow> label_run es app1)"

datatype LabelOutcome = StillRunning | LoopFailed string | Stopped | Panicked

text \<open>
  One turn of the loop dispatches the events at hand, then looks at \<open>fatal\<close> and
  \<open>done\<close>; a turn that cannot dispatch gives an error.
\<close>

fun run_bar :: "(string + (LabelCtx \<times> LabelEvent) list) list \<Rightarrow> AppData \<Rightarrow> LabelOutcome" where
  "run_bar [] app = StillRunning"
| "run_bar (Inl err # turns) app = LoopFailed err"
| "run_bar (Inr es # turns) app =
     (case label_run es app of
        None \<Rightarrow> Panicked
      | Some app1 \<Rightarrow>
          (case fatal app1 of
             Some reason \<Rightarrow> LoopFailed reason
           | None \<Rightarrow> if app_done app1 then Stopped else run_bar turns app1))"

record LabelArgs =
  la_socket :: string
  la_proc_dir :: string
  la_dry_run :: bool
  la_seconds :: "nat option"

datatype label_arg_error = NoValue string | SecondsNotNumber | UnknownArg string

definition default_args :: LabelArgs where
  "default_args = \<lparr>la_socket = ''/run/miyorios/control.sock'', la_proc_dir = ''/proc'', la_dry_run = False, la_seconds = None\<rparr>"

fun label_args :: "string list \<Rightarrow> LabelArgs \<Rightarrow> label_arg_error + LabelArgs" where
  "label_args [] a = Inr a"
| "label_args (arg # rest) a =
     (if arg = ''--dry-run'' then label_args rest (a\<lparr>la_dry_run := True\<rparr>)
      else if arg \<in> {''--socket'', ''--proc-dir'', ''--seconds''} then
        (case rest of
           [] \<Rightarrow> Inl (NoValue arg)
         | v # rest' \<Rightarrow>
             if arg = ''--socket'' then label_args rest' (a\<lparr>la_socket := v\<rparr>)
             else if arg = ''--proc-dir'' then label_args rest' (a\<lparr>la_proc_dir := v\<rparr>)
             else case parse_u64 v of
                    None \<Rightarrow> Inl SecondsNotNumber
                  | Some n \<Rightarrow> label_args rest' (a\<lparr>la_seconds := Some n\<rparr>))
      else Inl (UnknownArg arg))"

section \<open>What the bars show\<close>

definition picture :: "BarContent \<Rightarrow> nat \<Rightarrow> nat \<Rightarrow> color list" where
  "picture c w h =
     painted (\<lambda>i. inked (chars (fit_text (bar_text c) (w - 16))) 8 2 (i mod w) (i div w)) (foreground c)
       (replicate (w * h) (background c))"

definition displays :: "BarContent option \<Rightarrow> Bar \<Rightarrow> bool" where
  "displays c b \<longleftrightarrow> (\<exists>k w h. c = Some k \<and> shown b = Some (w, h, picture k w h))"

definition bar_ok :: "BarContent option \<Rightarrow> nat \<times> Bar \<Rightarrow> bool" where
  "bar_ok c p \<longleftrightarrow> b_width (snd p) < 2 ^ 14 \<and> b_height (snd p) < 2 ^ 14 \<and> (first_configure (snd p) \<or> displays c (snd p))"

definition app_ok :: "AppData \<Rightarrow> bool" where
  "app_ok app \<longleftrightarrow> one_each (app_bars app) \<and> list_all (bar_ok (last_content app)) (app_bars app)"

text \<open>
  What is relied on outside: bars smaller than 16384 pixels each way get their
  buffer, which is never larger than the protocol's 32-bit sizes allow.
\<close>

definition screen_ok :: "LabelCtx \<Rightarrow> bool" where
  "screen_ok cx \<longleftrightarrow>
     cx_attach cx \<and> (\<forall>w h. w < 2 ^ 14 \<longrightarrow> h < 2 ^ 14 \<longrightarrow> cx_create cx w h) \<and>
     (\<forall>w h. cx_create cx w h \<longrightarrow> w * h < 2 ^ 32)"

definition sizes_ok :: "LabelEvent \<Rightarrow> bool" where
  "sizes_ok e = (case e of Configure _ w h \<Rightarrow> w < 2 ^ 14 \<and> h < 2 ^ 14 | _ \<Rightarrow> True)"

lemma draw_bar_Some:
  assumes "screen_ok cx" "b_width b < 2 ^ 14" "b_height b < 2 ^ 14"
  shows "draw_bar cx c b = Some (b\<lparr>shown := Some (b_width b, b_height b, picture c (b_width b) (b_height b))\<rparr>)"
proof -
  have cr: "cx_create cx (b_width b) (b_height b)" "b_width b * b_height b < 2 ^ 32" "cx_attach cx"
    using assms by (auto simp: screen_ok_def)
  have m: "(b_width b * b_height b) mod 2 ^ 32 = b_width b * b_height b"
    by (rule mod_less) (rule cr(2))
  show ?thesis
    unfolding draw_bar_def Let_def m using cr(1,3) by (simp add: draw_text_painted picture_def)
qed

definition redrawn :: "BarContent \<Rightarrow> nat \<times> Bar \<Rightarrow> nat \<times> Bar" where
  "redrawn c p =
     (fst p, if first_configure (snd p) then snd p
             else (snd p)\<lparr>shown := Some (b_width (snd p), b_height (snd p), picture c (b_width (snd p)) (b_height (snd p)))\<rparr>)"

lemma redraw_bars_Some:
  "screen_ok cx \<Longrightarrow> list_all (bar_ok k) bars \<Longrightarrow> redraw_bars cx c bars = Some (map (redrawn c) bars)"
  by (induction cx c bars rule: redraw_bars.induct) (auto simp: bar_ok_def draw_bar_Some redrawn_def)

lemma redrawn_ok:
  "one_each bars \<Longrightarrow> list_all (bar_ok k) bars \<Longrightarrow>
     one_each (map (redrawn c) bars) \<and> list_all (bar_ok (Some c)) (map (redrawn c) bars)"
  by (auto simp: one_each_def redrawn_def list_all_iff bar_ok_def displays_def o_def)

lemma maybe_redraw_ok:
  assumes "app_ok app" "screen_ok cx"
  shows "\<exists>app'. maybe_redraw cx app = Some app' \<and> app_ok app' \<and> niri_map app' = niri_map app \<and>
    last_content app' = Some (compute_content cx (niri_map app))"
  using assms redraw_bars_Some [OF assms(2)] redrawn_ok
  by (auto simp: maybe_redraw_def Let_def redraw_all_def app_ok_def)

definition event_of :: "LabelCtx \<times> LabelEvent \<Rightarrow> Event list" where
  "event_of p =
     (case snd p of
        NiriLine line \<Rightarrow> if trim line = [] then []
          else (case parse_event (cx_json (fst p)) line of Inl _ \<Rightarrow> [] | Inr e \<Rightarrow> [e])
      | _ \<Rightarrow> [])"

lemma configure_ok:
  assumes "app_ok app" "screen_ok cx" "w < 2 ^ 14" "h < 2 ^ 14"
  shows "\<exists>app'. configure cx l w h app = Some app' \<and> app_ok app' \<and> niri_map app' = niri_map app"
proof -
  define app1 where "app1 = (if last_content app = None
    then app\<lparr>last_content := Some (compute_content cx (niri_map app))\<rparr> else app)"
  have a1: "app_ok app1" "niri_map app1 = niri_map app" and lc: "last_content app1 \<noteq> None"
    using assms(1) by (auto simp: app1_def app_ok_def list_all_iff bar_ok_def displays_def)
  then obtain c where c: "last_content app1 = Some c" by auto
  show ?thesis
  proof (cases "find (\<lambda>p. b_layer (snd p) = l) (app_bars app1)")
    case None
    then show ?thesis using a1 by (simp add: configure_def app1_def [symmetric])
  next
    case (Some p)
    then obtain i b where p: "p = (i, b)" "(i, b) \<in> set (app_bars app1)"
      by (cases p) (auto simp: find_Some_iff)
    have b: "bar_ok (Some c) (i, b)" using a1(1) p c by (auto simp: app_ok_def list_all_iff)
    have "\<exists>b1. configure_bar cx (Some c) w h b = Some b1 \<and> bar_ok (Some c) (i, b1)" for i
      using b assms by (auto simp: configure_bar_def Let_def draw_bar_Some bar_ok_def displays_def BAR_HEIGHT_def)
    then obtain b1 where b1: "configure_bar cx (Some c) w h b = Some b1" "\<And>j. bar_ok (Some c) (j, b1)"
      by (auto simp: bar_ok_def)
    have "list_all (bar_ok (Some c)) (find_mut (\<lambda>b. b_layer b = l) (\<lambda>_. b1) (app_bars app1))"
      using a1(1) c b1(2) set_find_mut [of "\<lambda>b. b_layer b = l" "\<lambda>_. b1" "app_bars app1"]
      by (fastforce simp: app_ok_def list_all_iff)
    then show ?thesis
      using a1 Some p b1 c by (simp add: configure_def app1_def [symmetric] app_ok_def one_each_def)
  qed
qed

lemma label_step_ok:
  assumes "app_ok app" "screen_ok cx" "sizes_ok e"
  shows "\<exists>app'. label_step cx e app = Some app' \<and> app_ok app' \<and>
    niri_map app' = fold apply_event (event_of (cx, e)) (niri_map app)"
proof (cases e)
  case (NiriLine line)
  have "app_ok (app\<lparr>niri_map := m\<rparr>)" for m using assms(1) by (simp add: app_ok_def)
  from maybe_redraw_ok [OF this assms(2)] show ?thesis
    using assms(1) by (auto simp: NiriLine label_step_def handle_niri_line_def event_of_def split: sum.split)
next
  case (Configure l w h)
  then show ?thesis
    using configure_ok [OF assms(1,2), of w h l] assms(3) by (auto simp: label_step_def event_of_def sizes_ok_def)
next
  case (NewOutput i l)
  then show ?thesis
    using assms(1) one_each_insert [of "app_bars app" i]
    by (auto simp: label_step_def event_of_def new_output_def app_ok_def insert_output_def bar_ok_def
        INITIAL_WIDTH_GUESS_def BAR_HEIGHT_def)
next
  case (OutputDestroyed i)
  then show ?thesis
    using assms(1) one_each_remove [of "app_bars app" i] set_remove_output [of i "app_bars app"]
    by (auto simp: label_step_def event_of_def output_destroyed_def app_ok_def list_all_iff)
next
  case (LayerClosed l)
  then show ?thesis
    using assms(1) one_each_remove_matching [of "app_bars app" "\<lambda>b. b_layer b = l"]
      set_remove_matching [of "\<lambda>b. b_layer b = l" "app_bars app"]
    by (auto simp: label_step_def event_of_def layer_closed_def Let_def app_ok_def list_all_iff)
qed (use assms(1) in \<open>auto simp: label_step_def event_of_def app_ok_def\<close>)

definition is_line :: "LabelEvent \<Rightarrow> bool" where
  "is_line e = (case e of NiriLine _ \<Rightarrow> True | _ \<Rightarrow> False)"

definition parsed_events :: "(LabelCtx \<times> LabelEvent) list \<Rightarrow> Event list" where
  "parsed_events es = concat (map event_of es)"

lemma label_run_ok:
  assumes "list_all (\<lambda>p. screen_ok (fst p) \<and> sizes_ok (snd p)) es" "app_ok app"
  shows "\<exists>app'. label_run es app = Some app' \<and> app_ok app' \<and>
    niri_map app' = fold apply_event (parsed_events es) (niri_map app)"
  using assms
proof (induction es arbitrary: app)
  case (Cons p es)
  obtain cx e where p: "p = (cx, e)" by (cases p)
  obtain app1 where "label_step cx e app = Some app1" "app_ok app1"
    "niri_map app1 = fold apply_event (event_of p) (niri_map app)"
    using label_step_ok [of app cx e] Cons.prems p by auto
  moreover from this(2) obtain app' where "label_run es app1 = Some app'" "app_ok app'"
    "niri_map app' = fold apply_event (parsed_events es) (niri_map app1)"
    using Cons.IH [of app1] Cons.prems by auto
  ultimately show ?case using p by (simp add: parsed_events_def)
qed (simp add: parsed_events_def)

lemma new_app_ok: "app_ok new_app"
  by (simp add: app_ok_def new_app_def no_bars_def one_each_def)


lemma fatal_stays: "fatal app \<noteq> None \<Longrightarrow> label_step cx e app = Some app' \<Longrightarrow> fatal app' \<noteq> None"
  by (cases e) (auto simp: label_step_def handle_niri_line_def maybe_redraw_def redraw_all_def Let_def
      get_or_insert_def new_output_def output_destroyed_def layer_closed_def configure_def
      split: option.splits sum.splits if_splits)

lemma label_run_fatal:
  "label_run es app = Some app' \<Longrightarrow> fatal app \<noteq> None \<or> (\<exists>cx. (cx, NiriClosed) \<in> set es) \<Longrightarrow> fatal app' \<noteq> None"
proof (induction es app rule: label_run.induct)
  case (2 cx e es app)
  then obtain a where a: "label_step cx e app = Some a" "label_run es a = Some app'" by (auto split: option.splits)
  have "e = NiriClosed \<Longrightarrow> fatal a \<noteq> None" using a(1) by (auto simp: label_step_def get_or_insert_def split: option.splits)
  then show ?case using 2 a fatal_stays [OF _ a(1)] by auto
qed auto

text \<open>The bar does not outlive its event stream: a frozen bar would lie.\<close>

lemma bar_stops_with_stream:
  "(cx, NiriClosed) \<in> set es \<Longrightarrow> run_bar (Inr es # turns) app = Panicked \<or> (\<exists>r. run_bar (Inr es # turns) app = LoopFailed r)"
proof (cases "label_run es app")
  case (Some a)
  assume "(cx, NiriClosed) \<in> set es"
  then have "fatal a \<noteq> None" using label_run_fatal [OF Some] by blast
  then show ?thesis using Some by auto
qed simp

definition ex_label_ctx :: LabelCtx where
  "ex_label_ctx = \<lparr>cx_json = (\<lambda>_. Some (JObj [(''WindowFocusChanged'', JObj [(''id'', JNull)])])),
     cx_called = Inr (ReplyOk (JArr [])), cx_proc = (\<lambda>_. None),
     cx_create = (\<lambda>w h. w < 2 ^ 14 \<and> h < 2 ^ 14), cx_attach = True\<rparr>"

lemma ex_screen_ok: "screen_ok ex_label_ctx"
proof -
  have "w * h < 2 ^ 32" if "w < 2 ^ 14" "h < 2 ^ 14" for w h :: nat
  proof -
    have "w * h \<le> 2 ^ 14 * 2 ^ 14" using that by (intro mult_le_mono) simp_all
    also have "\<dots> < (2 ^ 32 :: nat)" by simp
    finally show ?thesis .
  qed
  then show ?thesis by (simp add: screen_ok_def ex_label_ctx_def)
qed


end
