(* ===== verification/Replies.thy ===== *)
theory Replies
  imports Handlers LabelMain
begin

text \<open>
  The JSON the handlers of \<open>components/daemon/src/ops.rs\<close> answer with, from the
  \<open>op_reply\<close> they compute.  \<open>wording\<close> is how messages that quote an error of the
  system are put into words; the texts that are fixed are in \<open>Texts\<close>.
\<close>

record wording =
  wd_msg :: "op_msg \<Rightarrow> string"
  wd_detail :: "detail \<Rightarrow> string"
  wd_app :: "app_report \<Rightarrow> string"
  wd_manifest :: "manifest_error option \<Rightarrow> string"

definition state_label :: "SpaceState \<Rightarrow> string" where
  "state_label s =
     (case s of Running \<Rightarrow> ''running'' | SpaceState.Stopped \<Rightarrow> ''stopped'' | Unresponsive \<Rightarrow> ''unresponsive'')"

definition detail_text :: "wording \<Rightarrow> detail \<Rightarrow> string" where
  "detail_text wd d =
     (case d of
        DSays s \<Rightarrow> s
      | DUnmounted \<Rightarrow> TXT_UNMOUNTED
      | DNotConfirmed \<Rightarrow> TXT_NOT_CONFIRMED
      | DWindowOpened \<Rightarrow> TXT_WINDOW_OPENED
      | DUpToDate \<Rightarrow> TXT_UP_TO_DATE
      | DUpdated \<Rightarrow> TXT_UPDATED
      | _ \<Rightarrow> wd_detail wd d)"

definition app_text :: "wording \<Rightarrow> app_report \<Rightarrow> string" where
  "app_text wd r = (case r of AppStarted \<Rightarrow> ''started'' | AppSays s \<Rightarrow> s | _ \<Rightarrow> wd_app wd r)"

section \<open>One reply each\<close>

definition isolation_texts :: "list_row \<Rightarrow> string \<times> string" where
  "isolation_texts r = (case lr_isolation r of Some p \<Rightarrow> p | None \<Rightarrow> (TXT_LEVEL_UNKNOWN, TXT_MANIFEST_UNREAD))"

definition list_item_json :: "list_row \<Rightarrow> json" where
  "list_item_json r =
     (let c = lr_space r in
      JObj [(''id'', JStr (id_str (c_id c))),
            (''profile'', JStr (id_str (c_profile c))),
            (''state'', JStr (state_label (lr_state r))),
            (''cid'', jnat (c_cid c)),
            (''isolation-level'', JStr (fst (isolation_texts r))),
            (''isolation-reason'', JStr (snd (isolation_texts r))),
            (''label'', JStr (label_str (c_label c))),
            (''color'', JStr (color_str (c_color c))),
            (''encrypted'', JBool (c_encrypted c))])"

definition profile_item_json :: "wording \<Rightarrow> profile_row \<Rightarrow> json" where
  "profile_item_json wd r =
     (case pr_manifest r of
        Inr m \<Rightarrow>
          JObj [(''profile'', JStr (pr_name r)), (''template'', JBool (pr_template r)), (''manifest-ok'', JBool True),
                (''isolation-level'', JStr (level (isolation m))), (''isolation-reason'', JStr (reason (isolation m))),
                (''command'', JStr (app_command (app m))), (''manifest-error'', JNull)]
      | Inl e \<Rightarrow>
          JObj [(''profile'', JStr (pr_name r)), (''template'', JBool (pr_template r)), (''manifest-ok'', JBool False),
                (''isolation-level'', JNull), (''isolation-reason'', JNull), (''command'', JNull),
                (''manifest-error'', JStr (wd_manifest wd e))])"

definition describe_json :: "description \<Rightarrow> json" where
  "describe_json d =
     (let c = de_space d; m = de_manifest d in
      JObj [(''id'', JStr (id_str (c_id c))),
            (''profile'', JStr (id_str (c_profile c))),
            (''state'', JStr (state_label (de_state d))),
            (''cid'', jnat (c_cid c)),
            (''uid'', jnat (c_uid c)),
            (''digest'', JStr (c_digest c)),
            (''label'', JStr (label_str (c_label c))),
            (''color'', JStr (color_str (c_color c))),
            (''encrypted'', JBool (c_encrypted c)),
            (''created'', JStr (c_created c)),
            (''description'', JStr (Manifest.description m)),
            (''app'', JObj [(''mode'', JStr (app_mode (app m))), (''command'', JStr (app_command (app m)))]),
            (''resources'', JObj [(''memory-mb'', jnat (memory_mb (resources m))), (''cpus'', jnat (cpus (resources m))),
                (''disk-gb'', jnat (disk_gb (resources m))), (''data-mb'', jnat (data_mb (resources m)))]),
            (''data-qcow2-bytes'', jopt jnat (de_data_bytes d)),
            (''manifest-path'', JStr (display (de_manifest_path d))),
            (''isolation'', JObj [(''level'', JStr (level (isolation m))), (''gpu'', JStr (gpu (isolation m))),
                (''reason'', JStr (reason (isolation m)))]),
            (''network'', JObj [(''via'', JStr (via m))]),
            (''clean-shutdown'', jopt JBool (c_clean c)),
            (''rss-kib'', jopt jnat (de_rss_kib d)),
            (''uptime-secs'', jopt jnat (de_uptime d)),
            (''log-tail'', JArr (map JStr (de_log_tail d)))])"

definition tap_json :: "TapStatus \<Rightarrow> json" where
  "tap_json t = JObj [(''name'', JStr (ts_name t)), (''isolated'', jopt JBool (ts_isolated t))]"

definition tunnel_json :: "TunnelBlock \<Rightarrow> json" where
  "tunnel_json t = JObj [(''ifc'', JStr (ifc t)), (''set'', JStr (t_set t)), (''route'', JStr (route t))]"

definition net_json :: "net_report \<Rightarrow> json" where
  "net_json r =
     (let pci = nr_pci r; mn = nr_miyori_net r; rs = nr_ruleset r in
      JObj [(''bridges'', JObj [(BRIDGE, JBool (nr_bridge r)), (CAPTIVE_BRIDGE, JBool (nr_captive r))]),
            (''taps'', JArr (map tap_json (nr_taps r))),
            (''uplink-pci'', JObj [(''address'', JStr (pci_address pci)), (''present'', JBool (pci_present pci)),
                (''driver'', jopt JStr (pci_driver pci))]),
            (''miyori-net'', JObj [(''running'', JBool (mn_running mn)), (''pid'', jopt jnat (mn_pid mn)),
                (''uplink'', jopt JStr (mn_uplink mn)), (''tunnel'', jopt tunnel_json (mn_tunnel mn))]),
            (''ruleset'', JObj [(''available'', JBool (rs_available rs)), (''text'', JStr (rs_text rs)),
                (''truncated-from'', jopt jnat (rs_truncated_from rs))]),
            (''killswitch_counters'', JStr TXT_COUNTERS)])"

definition built_json :: "SpaceId \<Rightarrow> string \<Rightarrow> path \<Rightarrow> json" where
  "built_json p digest dir =
     JObj [(''profile'', JStr (id_str p)), (''digest'', JStr digest), (''path'', JStr (display dir))]"

definition created_json :: "SpaceId \<Rightarrow> nat \<Rightarrow> nat \<Rightarrow> json" where
  "created_json i cid uid = JObj [(''id'', JStr (id_str i)), (''cid'', jnat cid), (''uid'', jnat uid)]"

definition started_json :: "wording \<Rightarrow> SpaceId \<Rightarrow> nat \<Rightarrow> app_report \<Rightarrow> json" where
  "started_json wd i cid report =
     JObj [(''id'', JStr (id_str i)), (''state'', JStr ''running''), (''cid'', jnat cid),
           (''app'', JStr (app_text wd report))]"

definition stopped_json :: "wording \<Rightarrow> SpaceId \<Rightarrow> bool \<Rightarrow> detail \<Rightarrow> json" where
  "stopped_json wd i graceful d =
     JObj [(''id'', JStr (id_str i)), (''state'', JStr ''stopped''), (''clean-shutdown'', JBool graceful),
           (''detail'', JStr (detail_text wd d))]"

definition window_json :: "wording \<Rightarrow> SpaceId \<Rightarrow> detail \<Rightarrow> json" where
  "window_json wd i d = JObj [(''id'', JStr (id_str i)), (''detail'', JStr (detail_text wd d))]"

definition space_json :: "SpaceId \<Rightarrow> json" where
  "space_json i = JObj [(''id'', JStr (id_str i))]"

definition updated_json :: "wording \<Rightarrow> SpaceId \<Rightarrow> string \<Rightarrow> string \<Rightarrow> detail \<Rightarrow> json" where
  "updated_json wd i old new d =
     JObj [(''id'', JStr (id_str i)), (''from'', JStr old), (''to'', JStr new),
           (''detail'', JStr (detail_text wd d))]"

definition reply_json :: "wording \<Rightarrow> op_reply \<Rightarrow> json" where
  "reply_json wd r =
     (case r of
        RList rows \<Rightarrow> JArr (map list_item_json rows)
      | RProfiles rows \<Rightarrow> JArr (map (profile_item_json wd) rows)
      | RDescribe d \<Rightarrow> describe_json d
      | RBuilt p digest dir \<Rightarrow> built_json p digest dir
      | RCreated i cid uid \<Rightarrow> created_json i cid uid
      | RStarted i cid report \<Rightarrow> started_json wd i cid report
      | RStopped i graceful d \<Rightarrow> stopped_json wd i graceful d
      | RWindow i d \<Rightarrow> window_json wd i d
      | RSpace i \<Rightarrow> space_json i
      | RUpdated i old new d \<Rightarrow> updated_json wd i old new d
      | RNet n \<Rightarrow> net_json n)"

text \<open>What the responder finishes a request with.\<close>

definition outcome :: "wording \<Rightarrow> (ErrorCode \<times> op_msg) + op_reply \<Rightarrow> (ErrorCode \<times> string) + json" where
  "outcome wd r = (case r of Inl (c, m) \<Rightarrow> Inl (c, wd_msg wd m) | Inr v \<Rightarrow> Inr (reply_json wd v))"

section \<open>The bar reads the list\<close>

definition bar_info :: "list_row \<Rightarrow> SpaceInfo" where
  "bar_info r =
     \<lparr>si_id = id_str (c_id (lr_space r)), si_color = color_str (c_color (lr_space r)),
      si_level = fst (isolation_texts r), si_state = state_label (lr_state r)\<rparr>"

lemma space_of_list_item: "space_of_item (list_item_json r) = Inr (bar_info r)"
  by (simp add: space_of_item_def item_field_def list_item_json_def bar_info_def Let_def)

lemma spaces_of_list: "spaces_of_items (map list_item_json rows) = Inr (map bar_info rows)"
  by (induction rows) (simp_all add: space_of_list_item)

text \<open>
  The bar shows what the daemon answered: whatever spaces the daemon lists, with
  or without a readable manifest, the bar gets each of them with the id, the colour,
  the level and the observed state; and when the request fails the bar shows the code
  and message of the daemon on the colour reserved for that.
\<close>

theorem bar_reads_list:
  "compute_content (cx\<lparr>cx_called := Inr (reply_of (outcome wd (Inr (RList rows))))\<rparr>) m =
     bar_content (strip_for (focus m) (cx_proc cx) (map bar_info rows)) \<and>
   compute_content (cx\<lparr>cx_called := Inr (reply_of (outcome wd (Inl (c, msg))))\<rparr>) m =
     \<lparr>bar_text = code_str c @ '': '' @ wd_msg wd msg, background = DAEMON_ERROR_BACKGROUND, foreground = 0xffffffff\<rparr>"
  by (simp_all add: compute_content_def spaces_from_daemon_def reply_of_def outcome_def reply_json_def spaces_of_list)

end
