(* ===== verification/Wording.thy ===== *)
theory Wording
  imports DaemonTexts Replies
begin

text \<open>
  The words of \<open>components/daemon/src/ops.rs\<close> for its refusals and reports: the
  \<open>wording\<close> the daemon has.  \<open>system_texts\<close> are the texts it quotes: errors of the
  system and of the parsers, and \<open>{:?}\<close> of a string.
\<close>

record system_texts =
  st_nonce :: string
  st_health :: "health_cause \<Rightarrow> string"
  st_manifest :: "manifest_error option \<Rightarrow> string"
  st_json :: string
  st_fields :: string
  st_debug :: "string \<Rightarrow> string"

definition health_text :: "system_texts \<Rightarrow> HealthError \<Rightarrow> string" where
  "health_text st e =
     (case e of Timeout \<Rightarrow> TXT_D_TIMEOUT | NonceMismatch \<Rightarrow> TXT_D_NONCE | Io c \<Rightarrow> st_health st c)"

text \<open>A text about one space: its id in quotes.\<close>

definition of_space :: "SpaceId \<Rightarrow> string \<Rightarrow> string" where
  "of_space i t = TXT_D_SPACE @ id_str i @ t"

definition seed_text :: "string \<Rightarrow> string \<Rightarrow> string" where
  "seed_text raw t = ''seed '' @ [CHR 0x22] @ raw @ t"

definition msg_text :: "system_texts \<Rightarrow> op_msg \<Rightarrow> string" where
  "msg_text st m =
     (case m of
        MsgInternal \<Rightarrow> TXT_D_INTERNAL
      | MsgEmptyPassphrase \<Rightarrow> TXT_D_EMPTY_PASS
      | MsgReservedId i \<Rightarrow> ''id '' @ [CHR 0x22] @ id_str i @ TXT_D_RESERVED
      | MsgExists i \<Rightarrow> of_space i TXT_D_EXISTS
      | MsgSpaceNotFound i \<Rightarrow> of_space i TXT_D_NOT_FOUND
      | MsgAlreadyRunning i \<Rightarrow> of_space i TXT_D_RUNNING
      | MsgNotRunning i \<Rightarrow> of_space i TXT_D_STOPPED
      | MsgStopFirst i \<Rightarrow> of_space i TXT_D_STOP_FIRST
      | MsgNoBridge \<Rightarrow> TXT_D_NO_BRIDGE @ BRIDGE @ TXT_D_FIXTURE
      | MsgTemplateMissing p \<Rightarrow> TXT_D_TEMPLATE @ display p @ TXT_D_INCOMPLETE
      | MsgNoSingleTemplate profile p \<Rightarrow>
          TXT_D_FOR_PROFILE @ profile @ TXT_D_NO_SINGLE @ display p @ TXT_D_BUILD @ profile
      | MsgNoLatest profile p \<Rightarrow>
          TXT_D_FOR_PROFILE @ profile @ TXT_D_NO_LATEST @ display p @ TXT_D_BUILD @ profile
      | MsgWrongPassphrase i \<Rightarrow> TXT_D_WRONG_PASS @ id_str i @ [CHR 0x22]
      | MsgDiedAtOnce i \<Rightarrow> TXT_D_QEMU @ id_str i @ TXT_D_DIED_AT_ONCE
      | MsgDiedStarting i \<Rightarrow> TXT_D_QEMU @ id_str i @ TXT_D_DIED_STARTING
      | MsgNeedsPassphrase \<Rightarrow> TXT_D_NEEDS_PASS
      | MsgNotEncrypted \<Rightarrow> TXT_D_NOT_ENCRYPTED
      | MsgNonceUnreadable \<Rightarrow> TXT_D_NONCE_UNREAD @ st_nonce st
      | MsgAgentSays s \<Rightarrow> s
      | MsgAgentRefusedWindow \<Rightarrow> TXT_D_NO_WINDOW
      | MsgAgentUnreachable e \<Rightarrow> TXT_D_UNREACHABLE @ health_text st e
      | MsgProfileNotFound p \<Rightarrow> TXT_D_PROFILE @ p @ TXT_D_NOT_FOUND
      | MsgSeedNoData \<Rightarrow> TXT_D_NO_DATA
      | MsgSeedRelative raw \<Rightarrow> seed_text raw TXT_D_RELATIVE
      | MsgSeedNotDir raw \<Rightarrow> seed_text raw TXT_D_NOT_DIR
      | MsgSeedMissing raw \<Rightarrow> seed_text raw TXT_D_MISSING)"

definition app_report_text :: "system_texts \<Rightarrow> app_report \<Rightarrow> string" where
  "app_report_text st r =
     (case r of
        AppStarted \<Rightarrow> ''started''
      | AppDied \<Rightarrow> TXT_D_APP_DIED
      | AppNoAnswer e \<Rightarrow> TXT_D_APP_NO_ANSWER @ health_text st e
      | AppSays s \<Rightarrow> s
      | AppRefused \<Rightarrow> TXT_D_APP_REFUSED
      | AppFailed e \<Rightarrow> TXT_D_APP_FAILED @ health_text st e)"

definition stop_text :: "system_texts \<Rightarrow> detail \<Rightarrow> string" where
  "stop_text st d =
     (case d of
        DNonceUnreadable \<Rightarrow> TXT_D_NONCE_UNREAD @ st_nonce st
      | DUnreachable e \<Rightarrow> TXT_D_UNREACHABLE @ health_text st e
      | _ \<Rightarrow> [])"

definition daemon_wording :: "system_texts \<Rightarrow> wording" where
  "daemon_wording st =
     \<lparr>wd_msg = msg_text st, wd_detail = stop_text st, wd_app = app_report_text st, wd_manifest = st_manifest st\<rparr>"

section \<open>Refusing a frame\<close>

definition frame_text :: "frame_error \<Rightarrow> string" where
  "frame_text e =
     (case e of
        ReadFailed \<Rightarrow> TXT_D_READ
      | ClosedEarly \<Rightarrow> TXT_D_CLOSED
      | TooLong limit \<Rightarrow> TXT_D_LIMIT @ dec limit @ TXT_D_BYTES
      | ControlByte b \<Rightarrow> TXT_D_CONTROL @ hex02 (byte_of b)
      | NotUtf8 \<Rightarrow> TXT_D_UTF8)"

definition request_text :: "system_texts \<Rightarrow> req_msg \<Rightarrow> string" where
  "request_text st m =
     (case m of
        MsgFrame e \<Rightarrow> frame_text e
      | MsgNotJson \<Rightarrow> TXT_D_NOT_JSON @ st_json st
      | MsgUnknownOp op \<Rightarrow>
          TXT_D_OP @ (case op of Some t \<Rightarrow> ''Some('' @ st_debug st t @ '')'' | None \<Rightarrow> ''None'') @ TXT_D_UNKNOWN
      | MsgBadFields \<Rightarrow> TXT_D_BAD_REQUEST @ st_fields st)"

section \<open>The text the source compares\<close>

text \<open>
  \<open>op_start\<close> looks at the process once more unless the report reads \<open>started\<close>.  The
  source compares the text of the report; in the words of the daemon that is what
  \<open>reads_started\<close> says of the report itself: no other report has that text, and a
  guest that refuses with the detail \<open>started\<close> passes for a started one.
\<close>

lemma starts_with_cyrillic: "TXT_D_APP_NO_ANSWER @ t \<noteq> ''started''" "TXT_D_APP_FAILED @ t \<noteq> ''started''"
    "TXT_D_APP_REFUSED \<noteq> ''started''" "TXT_D_APP_DIED \<noteq> ''started''"
  unfolding daemon_texts by (simp_all add: from_chars_def utf8_enc_def)

lemma reads_started_text: "app_text (daemon_wording st) r = ''started'' \<longleftrightarrow> reads_started r"
  by (cases r) (simp_all add: app_text_def daemon_wording_def app_report_text_def reads_started_def starts_with_cyrillic)

text \<open>Every detail the handlers answer with has its words.\<close>

lemma detail_words:
  "detail_text (daemon_wording st) d =
     (case d of
        DSays s \<Rightarrow> s
      | DUnmounted \<Rightarrow> TXT_UNMOUNTED
      | DNotConfirmed \<Rightarrow> TXT_NOT_CONFIRMED
      | DNonceUnreadable \<Rightarrow> TXT_D_NONCE_UNREAD @ st_nonce st
      | DUnreachable e \<Rightarrow> TXT_D_UNREACHABLE @ health_text st e
      | DWindowOpened \<Rightarrow> TXT_WINDOW_OPENED
      | DUpToDate \<Rightarrow> TXT_UP_TO_DATE
      | DUpdated \<Rightarrow> TXT_UPDATED)"
  by (cases d) (simp_all add: detail_text_def daemon_wording_def stop_text_def)

end
