(* ===== verification/Float64.thy ===== *)
theory Float64
  imports Prelude
begin

text \<open>
  What the program uses of Rust's \<open>f64\<close>: the nearest double to a ratio, parsing,
  the cast to \<open>u64\<close> and printing with one decimal.  A finite double is \<open>m * 2 ^ e\<close>.
\<close>

fun bits :: "nat \<Rightarrow> nat" where
  "bits n = (if n = 0 then 0 else 1 + bits (n div 2))"

declare bits.simps [simp del]

text \<open>The natural number nearest to \<open>a / b\<close>, the even one of two.\<close>

definition near :: "nat \<Rightarrow> nat \<Rightarrow> nat" where
  "near a b =
     (let q = a div b; r = a mod b
      in if 2 * r < b then q else if b < 2 * r then q + 1 else if even q then q else q + 1)"

datatype f64 = NaN | Inf bool | Fin bool nat int

definition scaled :: "nat \<Rightarrow> nat \<Rightarrow> int \<Rightarrow> nat \<times> nat" where
  "scaled a b e = (if 0 \<le> e then (a, b * 2 ^ nat e) else (a * 2 ^ nat (- e), b))"

definition f64_ratio :: "bool \<Rightarrow> nat \<Rightarrow> nat \<Rightarrow> f64" where
  "f64_ratio neg a b =
     (if a = 0 then Fin neg 0 0
      else
        let e0 = int (bits a) - int (bits b) - 53;
            (p0, q0) = scaled a b e0;
            e1 = (if p0 < 2 ^ 53 * q0 then e0 else e0 + 1);
            e2 = max e1 (- 1074);
            (p, q) = scaled a b e2;
            m = near p q
        in if 2 ^ 53 \<le> m \<and> 971 \<le> e2 \<or> 971 < e2 then Inf neg else Fin neg m e2)"

text \<open>\<open>n as f64\<close>, and the division by a power of two, exact in the range used.\<close>

definition f64_of_nat :: "nat \<Rightarrow> f64" where
  "f64_of_nat n = f64_ratio False n 1"

definition f64_shift :: "nat \<Rightarrow> f64 \<Rightarrow> f64" where
  "f64_shift k x = (case x of Fin s m e \<Rightarrow> Fin s m (e - int k) | _ \<Rightarrow> x)"

definition f64_to_u64 :: "f64 \<Rightarrow> nat" where
  "f64_to_u64 x =
     (case x of
        NaN \<Rightarrow> 0
      | Inf neg \<Rightarrow> if neg then 0 else 2 ^ 64 - 1
      | Fin neg m e \<Rightarrow>
          if neg then 0
          else min (2 ^ 64 - 1) (if 0 \<le> e then m * 2 ^ nat e else m div 2 ^ nat (- e)))"

text \<open>\<open>format!("{:.1}", x)\<close> of a double that is not negative: half to even.\<close>

definition f64_fmt1 :: "f64 \<Rightarrow> string" where
  "f64_fmt1 x =
     (case x of
        NaN \<Rightarrow> ''NaN''
      | Inf _ \<Rightarrow> ''inf''
      | Fin _ m e \<Rightarrow>
          (let (p, q) = (if 0 \<le> e then (10 * m * 2 ^ nat e, 1) else (10 * m, 2 ^ nat (- e))); t = near p q
           in dec (t div 10) @ ''.'' @ dec (t mod 10)))"

section \<open>Parsing\<close>

definition lower_ascii :: "string \<Rightarrow> string" where
  "lower_ascii s = map (\<lambda>c. let b = of_char c :: nat in if 65 \<le> b \<and> b \<le> 90 then char_of (b + 32) else c) s"

definition parse_exponent :: "string \<Rightarrow> int option" where
  "parse_exponent s =
     (let (neg, ds) = (case s of c # r \<Rightarrow> if c = CHR ''-'' then (True, r) else if c = CHR ''+'' then (False, r) else (False, s)
                       | [] \<Rightarrow> (False, []))
      in if ds = [] \<or> \<not> list_all is_digit ds then None
         else Some (if neg then - int (digits_val ds) else int (digits_val ds)))"

definition parse_decimal :: "bool \<Rightarrow> string \<Rightarrow> f64 option" where
  "parse_decimal neg s =
     (let ip = takeWhile is_digit s; r1 = dropWhile is_digit s;
          (fp, r2) = (case r1 of c # r \<Rightarrow> if c = CHR ''.'' then (takeWhile is_digit r, dropWhile is_digit r) else ([], r1)
                      | [] \<Rightarrow> ([], []));
          n = digits_val (ip @ fp)
      in if ip = [] \<and> fp = [] then None
         else case (case r2 of [] \<Rightarrow> Some 0
                    | c # r \<Rightarrow> if c = CHR ''e'' \<or> c = CHR ''E'' then parse_exponent r else None) of
                None \<Rightarrow> None
              | Some x \<Rightarrow>
                  (let y = x - int (length fp)
                   in Some (if 0 \<le> y then f64_ratio neg (n * 10 ^ nat y) 1
                            else f64_ratio neg n (10 ^ nat (- y)))))"

definition parse_f64 :: "string \<Rightarrow> f64 option" where
  "parse_f64 s =
     (let (neg, r) = (case s of c # r \<Rightarrow> if c = CHR ''-'' then (True, r) else if c = CHR ''+'' then (False, r) else (False, s)
                      | [] \<Rightarrow> (False, []));
          l = lower_ascii r
      in if l = ''nan'' then Some NaN
         else if l = ''inf'' \<or> l = ''infinity'' then Some (Inf neg)
         else parse_decimal neg r)"

end
