(* ===== verification/GuestAgent.thy ===== *)
theory GuestAgent
  imports AgentHost Float64 Texts Example
begin

text \<open>
  \<open>components/agent/src/main.rs\<close>: the agent in a guest answers one request a
  connection.  \<open>GuestFiles\<close> is what the guest's files and commands give at one
  request; \<open>Guest\<close> is what the agent keeps, the application it started last, with
  the calls it made, in order.
\<close>

definition MAX_AGENT_REQUEST_BYTES :: nat where
  "MAX_AGENT_REQUEST_BYTES = 1024"

definition DATA_MOUNT_POINT :: string where
  "DATA_MOUNT_POINT = ''/data''"

record GuestFiles =
  gf_cmdline :: "string option"
  gf_mounts :: "string option"
  gf_uptime :: "string option"
  gf_umount :: bool
  gf_spawn :: "string + nat"

datatype guest_call = GKill nat | GWait nat | GSync | GUmount string | GSpawn string

record Guest =
  app_child :: "nat option"
  calls :: "guest_call list"

section \<open>What the files say\<close>

definition nonce_from_cmdline :: "string \<Rightarrow> string" where
  "nonce_from_cmdline cmdline =
     (case find_map (strip_prefix ''MIYORI_NONCE='') (split_whitespace cmdline) of Some n \<Rightarrow> n | None \<Rightarrow> [])"

definition current_nonce :: "GuestFiles \<Rightarrow> string" where
  "current_nonce g = (case gf_cmdline g of Some c \<Rightarrow> nonce_from_cmdline c | None \<Rightarrow> [])"

definition uptime_seconds :: "string \<Rightarrow> nat option" where
  "uptime_seconds raw =
     (case split_whitespace raw of
        [] \<Rightarrow> None
      | w # _ \<Rightarrow> map_option f64_to_u64 (parse_f64 w))"

definition current_uptime_secs :: "GuestFiles \<Rightarrow> nat option" where
  "current_uptime_secs g = Option.bind (gf_uptime g) uptime_seconds"

definition mounts_contain :: "string \<Rightarrow> string \<Rightarrow> bool" where
  "mounts_contain mounts target =
     list_ex (\<lambda>l. nth_opt (split_whitespace l) 1 = Some target) (lines mounts)"

section \<open>Replies\<close>

definition health_reply :: "GuestFiles \<Rightarrow> AgentReply" where
  "health_reply g =
     \<lparr>nonce = current_nonce g, ok = True,
      detail = map_option (\<lambda>s. ''uptime='' @ dec s @ ''s'') (current_uptime_secs g), data_unmounted = None\<rparr>"

definition data_mounted :: "GuestFiles \<Rightarrow> bool" where
  "data_mounted g = mounts_contain (case gf_mounts g of Some m \<Rightarrow> m | None \<Rightarrow> []) DATA_MOUNT_POINT"

definition unmount_data :: "GuestFiles \<Rightarrow> Guest \<Rightarrow> bool \<times> Guest" where
  "unmount_data g st =
     (if \<not> data_mounted g then (True, st)
      else (gf_umount g, st\<lparr>calls := calls st @ [GUmount DATA_MOUNT_POINT]\<rparr>))"

definition take_app_child :: "Guest \<Rightarrow> nat option \<times> Guest" where
  "take_app_child st = (app_child st, st\<lparr>app_child := None\<rparr>)"

definition shutdown_reply :: "GuestFiles \<Rightarrow> Guest \<Rightarrow> AgentReply \<times> Guest" where
  "shutdown_reply g st =
     (let n = current_nonce g;
          (child, st1) = take_app_child st;
          st2 = (case child of Some c \<Rightarrow> st1\<lparr>calls := calls st1 @ [GKill c, GWait c]\<rparr> | None \<Rightarrow> st1);
          st3 = st2\<lparr>calls := calls st2 @ [GSync]\<rparr>;
          (unmounted, st4) = unmount_data g st3
      in (\<lparr>nonce = n, ok = unmounted, detail = Some (if unmounted then TXT_UNMOUNTED else TXT_NOT_UNMOUNTED),
           data_unmounted = Some unmounted\<rparr>, st4))"

definition exec_app_reply :: "GuestFiles \<Rightarrow> Guest \<Rightarrow> AgentReply \<times> Guest" where
  "exec_app_reply g st =
     (let n = current_nonce g; st1 = st\<lparr>calls := calls st @ [GSpawn ''/usr/local/bin/miyori-launch'']\<rparr>
      in case gf_spawn g of
           Inr c \<Rightarrow> (\<lparr>nonce = n, ok = True, detail = None, data_unmounted = None\<rparr>, st1\<lparr>app_child := Some c\<rparr>)
         | Inl err \<Rightarrow> (\<lparr>nonce = n, ok = False, detail = Some err, data_unmounted = None\<rparr>, st1))"

definition error_reply :: "GuestFiles \<Rightarrow> string \<Rightarrow> AgentReply" where
  "error_reply g err = \<lparr>nonce = current_nonce g, ok = False, detail = Some err, data_unmounted = None\<rparr>"

text \<open>\<open>frame_text\<close> is how \<open>read_capped_line\<close> words its errors.\<close>

definition read_agent_request ::
  "(string \<Rightarrow> json option) \<Rightarrow> (frame_error \<Rightarrow> string) \<Rightarrow> rd list \<Rightarrow> string + AgentRequest" where
  "read_agent_request parse frame_text r =
     (case fst (read_capped_line MAX_AGENT_REQUEST_BYTES r) of
        Inl e \<Rightarrow> Inl (frame_text e)
      | Inr line \<Rightarrow>
          (case Option.bind (parse line) agent_request_of of
             Some c \<Rightarrow> Inr c
           | None \<Rightarrow> Inl TXT_BAD_REQUEST))"

definition reply_to :: "GuestFiles \<Rightarrow> string + AgentRequest \<Rightarrow> Guest \<Rightarrow> AgentReply \<times> Guest" where
  "reply_to g request st =
     (case request of
        Inr Health \<Rightarrow> (health_reply g, st)
      | Inr Shutdown \<Rightarrow> shutdown_reply g st
      | Inr ExecApp \<Rightarrow> exec_app_reply g st
      | Inl err \<Rightarrow> (error_reply g err, st))"

text \<open>The bytes sent, whether the agent exits after them, and its new state.\<close>

definition handle_guest ::
  "(json \<Rightarrow> string) \<Rightarrow> (string \<Rightarrow> json option) \<Rightarrow> (frame_error \<Rightarrow> string) \<Rightarrow> GuestFiles \<Rightarrow> rd list \<Rightarrow>
   Guest \<Rightarrow> string \<times> bool \<times> Guest" where
  "handle_guest print parse frame_text g r st =
     (let request = read_agent_request parse frame_text r;
          (reply, st1) = reply_to g request st
      in (print (agent_reply_json reply) @ [CHR 0x0A], request = Inr Shutdown, st1))"

text \<open>The connections one after another, until the agent exits; a failed accept is skipped.\<close>

fun agent_main ::
  "(json \<Rightarrow> string) \<Rightarrow> (string \<Rightarrow> json option) \<Rightarrow> (frame_error \<Rightarrow> string) \<Rightarrow>
   (GuestFiles \<times> rd list) option list \<Rightarrow> Guest \<Rightarrow> string list \<times> Guest" where
  "agent_main print parse frame_text [] st = ([], st)"
| "agent_main print parse frame_text (None # conns) st = agent_main print parse frame_text conns st"
| "agent_main print parse frame_text (Some (g, r) # conns) st =
     (let (out, exits, st1) = handle_guest print parse frame_text g r st
      in if exits then ([out], st1)
         else (let (outs, st2) = agent_main print parse frame_text conns st1 in (out # outs, st2)))"

section \<open>The nonce of the boot\<close>

lemma words_acc_word:
  "list_all (\<lambda>c. \<not> is_whitespace c) w \<Longrightarrow>
     words_acc acc (w @ 32 # cs) = (if acc = [] \<and> w = [] then [] else [rev acc @ w]) @ words_acc [] cs"
  by (induction w arbitrary: acc) (auto simp: is_whitespace_def)

lemma split_whitespace_Cons:
  assumes "is_ascii w" "w \<noteq> []" "list_all (\<lambda>c. \<not> is_whitespace (byte_of c)) w"
  shows "split_whitespace (w @ '' '' @ s) = w # split_whitespace s"
proof -
  have "list_all (\<lambda>c. \<not> is_whitespace c) (map byte_of w)" using assms(3) by (simp add: list_all_length)
  then have "words_acc [] (map byte_of w @ 32 # chars s) = [map byte_of w] @ words_acc [] (chars s)"
    using words_acc_word [of "map byte_of w" "[]" "chars s"] assms(2) by simp
  then show ?thesis
    using assms(1) by (simp add: split_whitespace_def chars_append_ascii chars_Cons_ascii from_chars_bytes)
qed

text \<open>A nonce the daemon generates is a word of printable ASCII.\<close>

definition nonce_word :: "string \<Rightarrow> bool" where
  "nonce_word n = list_all (\<lambda>c. 32 < byte_of c \<and> byte_of c < 127) n"

lemma plain_word:
  "list_all (\<lambda>c. 32 < byte_of c \<and> byte_of c < 127) w \<Longrightarrow>
     is_ascii w \<and> list_all (\<lambda>c. \<not> is_whitespace (byte_of c)) w"
  by (auto simp: list_all_iff is_ascii_def is_whitespace_def)

lemma split_plain:
  "w \<noteq> [] \<Longrightarrow> list_all (\<lambda>c. 32 < byte_of c \<and> byte_of c < 127) w \<Longrightarrow>
     split_whitespace (w @ '' '' @ s) = w # split_whitespace s"
  using plain_word [of w] by (intro split_whitespace_Cons) auto

lemma split_words:
  "list_all (\<lambda>w. w \<noteq> [] \<and> list_all (\<lambda>c. 32 < byte_of c \<and> byte_of c < 127) w) ws \<Longrightarrow>
     split_whitespace (concat (map (\<lambda>w. w @ '' '') ws) @ t) = ws @ split_whitespace t"
proof (induction ws)
  case (Cons w ws)
  then show ?case using split_plain [of w "concat (map (\<lambda>w. w @ '' '') ws) @ t"] by simp
qed simp

lemma plain_dec: "list_all (\<lambda>c. 32 < byte_of c \<and> byte_of c < 127) (dec n)"
  by (auto simp: list_all_iff is_digit_def dest!: dec_digits)

lemma nonce_of_append:
  assumes "nonce_word (sr_nonce run)"
  shows "nonce_from_cmdline (build_append run @ [CHR 0x0A]) = sr_nonce run"
proof -
  define tail where "tail = ''MIYORI_APP='' @ sr_app_command run @ '' '' @ ''MIYORI_APP_AUTOSTART=0'' @ [CHR 0x0A]"
  define ws where "ws = [''console=hvc0'', ''root=/dev/vda'', ''rw'', ''init=/usr/local/bin/miyori-init'',
      ''MIYORI_PORT='' @ dec DEFAULT_GUI_PORT, ''MIYORI_CID='' @ dec (sr_cid run),
      ''MIYORI_FLOOD_SECONDS='' @ dec DEFAULT_FLOOD_SECONDS, ''MIYORI_NETROLE='' @ DEFAULT_NETROLE,
      ''MIYORI_PEER_IP='', ''MIYORI_HOST_IPS='', ''MIYORI_ECHO_URL='', ''MIYORI_NONCE='' @ sr_nonce run]"
  have e: "build_append run @ [CHR 0x0A] = concat (map (\<lambda>w. w @ '' '') ws) @ tail"
    by (simp add: build_append_def tail_def ws_def)
  have "list_all (\<lambda>w. w \<noteq> [] \<and> list_all (\<lambda>c. 32 < byte_of c \<and> byte_of c < 127) w) ws"
    using assms by (simp add: ws_def nonce_word_def plain_dec DEFAULT_NETROLE_def del: dec.simps)
  from split_words [OF this] have "split_whitespace (build_append run @ [CHR 0x0A]) = ws @ split_whitespace tail"
    unfolding e .
  then show ?thesis
    by (simp add: nonce_from_cmdline_def ws_def strip_prefix_def DEFAULT_NETROLE_def)
qed

section \<open>Host and guest together\<close>

text \<open>What one frame of the agent's protocol relies on in \<open>serde_json\<close>.\<close>

definition agent_frame_ok :: "(json \<Rightarrow> string) \<Rightarrow> (string \<Rightarrow> json option) \<Rightarrow> nat \<Rightarrow> json \<Rightarrow> bool" where
  "agent_frame_ok print parse limit v \<longleftrightarrow>
     parse (print v) = Some v \<and> no_control (print v) \<and> valid_utf8 (print v) \<and> length (print v) < limit"

lemma read_request_frame:
  assumes "agent_frame_ok print parse MAX_AGENT_REQUEST_BYTES (agent_request_json c)"
  shows "read_agent_request parse frame_text (map RByte (print (agent_request_json c)) @ RByte (CHR 0x0A) # r) = Inr c"
  using assms by (simp add: read_agent_request_def agent_frame_ok_def read_capped_line_frame agent_request_roundtrip)

lemma read_reply_frame:
  assumes "agent_frame_ok print parse MAX_AGENT_REPLY_BYTES (agent_reply_json r)"
  shows "read_agent_reply parse (map RByte (print (agent_reply_json r) @ [CHR 0x0A])) = Inr r"
  using assms by (simp add: read_agent_reply_def agent_frame_ok_def read_capped_line_frame agent_reply_roundtrip)

lemma reply_nonce: "nonce (fst (reply_to g request st)) = current_nonce g"
  by (auto simp: reply_to_def health_reply_def shutdown_reply_def exec_app_reply_def error_reply_def Let_def
      split: sum.split AgentRequest.split prod.splits)

text \<open>
  C30.  The nonce identifies the boot: when the daemon calls the agent of a guest that
  was booted with the command line of \<open>run\<close>, the answer is accepted exactly when the
  daemon expects the nonce of that very run, whatever the space's application command
  adds to the command line; and the accepted answer is the guest's own.
\<close>

theorem guest_handshake:
  assumes "nonce_word (sr_nonce run)" "gf_cmdline g = Some (build_append run @ [CHR 0x0A])"
    and "agent_frame_ok print (json_parse x) MAX_AGENT_REQUEST_BYTES (agent_request_json c)"
    and "agent_frame_ok print (json_parse x) MAX_AGENT_REPLY_BYTES (agent_reply_json (fst (reply_to g (Inr c) st)))"
    and "guest (env w) (now w) = Stream (fst (handle_guest print (json_parse x) frame_text g
           (map RByte (print (agent_request_json c)) @ [RByte (CHR 0x0A)]) st))"
  shows "fst (call_agent x cid n c w) =
    (if n = sr_nonce run then Inr (fst (reply_to g (Inr c) st)) else Inl NonceMismatch)"
proof -
  have "nonce (fst (reply_to g (Inr c) st)) = sr_nonce run"
    using nonce_of_append [OF assms(1)] assms(2) by (simp add: reply_nonce current_nonce_def)
  moreover have "reply_from x (guest (env w) (now w)) = Inr (fst (reply_to g (Inr c) st))"
  proof (cases "reply_to g (Inr c) st")
    case (Pair reply st1)
    then show ?thesis
      using read_request_frame [OF assms(3), of frame_text "[]"] read_reply_frame [OF assms(4)] assms(5)
      by (simp add: reply_from_def handle_guest_def)
  qed
  ultimately show ?thesis by (auto simp: call_agent_def)
qed

text \<open>
  C31.  A guest says its data volume is unmounted only when it is: \<open>/data\<close> is not
  among the mounts or \<open>umount\<close> succeeded, and before that the application the agent
  started last has been killed and waited for and \<open>sync\<close> has run, in this order; then
  the agent exits, and answers nothing after.
\<close>

theorem guest_shutdown:
  assumes "read_agent_request parse frame_text r = Inr Shutdown"
  shows "agent_main print parse frame_text (Some (g, r) # rest) st =
     ([print (agent_reply_json \<lparr>nonce = current_nonce g, ok = \<not> data_mounted g \<or> gf_umount g,
          detail = Some (if \<not> data_mounted g \<or> gf_umount g then TXT_UNMOUNTED else TXT_NOT_UNMOUNTED),
          data_unmounted = Some (\<not> data_mounted g \<or> gf_umount g)\<rparr>) @ [CHR 0x0A]],
      st\<lparr>app_child := None,
         calls := calls st @ (case app_child st of Some c \<Rightarrow> [GKill c, GWait c] | None \<Rightarrow> []) @ [GSync] @
           (if data_mounted g then [GUmount ''/data''] else [])\<rparr>)"
  using assms
  by (simp add: handle_guest_def reply_to_def shutdown_reply_def take_app_child_def unmount_data_def
      DATA_MOUNT_POINT_def Let_def split: option.split)

section \<open>A host and a guest\<close>

definition ex_run :: SpaceRun where
  "ex_run = \<lparr>sr_id = ''web'', sr_cid = 3, sr_uid = 20003, sr_template_dir = [], sr_overlay = [], sr_data = [],
     sr_data_mb = 0, sr_memory_mb = 512, sr_cpus = 1, sr_isolation_level = ''standard'', sr_gpu = ''none'',
     sr_nonce = ''3f9a'', sr_app_command = ''app MIYORI_NONCE=evil'', sr_kvm_gid = 1\<rparr>"

definition ex_files :: GuestFiles where
  "ex_files = \<lparr>gf_cmdline = Some (build_append ex_run @ [CHR 0x0A]), gf_mounts = Some ''/dev/vdb /data ext4'',
     gf_uptime = None, gf_umount = True, gf_spawn = Inr 7\<rparr>"

definition ex_guest :: Guest where
  "ex_guest = \<lparr>app_child = Some 7, calls = []\<rparr>"

definition ex_health :: AgentReply where
  "ex_health = \<lparr>nonce = ''3f9a'', ok = True, detail = None, data_unmounted = None\<rparr>"

definition frame_print :: "json \<Rightarrow> string" where
  "frame_print v = (if v = agent_request_json Health then ''Q'' else ''R'')"

definition frame_parse :: "string \<Rightarrow> json option" where
  "frame_parse s = Some (if s = ''Q'' then agent_request_json Health else agent_reply_json ex_health)"

definition ex_host :: world where
  "ex_host = ex_world\<lparr>env := ex_env\<lparr>guest := (\<lambda>_. Stream [CHR ''R'', CHR 0x0A])\<rparr>\<rparr>"

lemma ex_nonce: "sr_nonce ex_run = ''3f9a''"
  by (simp add: ex_run_def)

lemma ex_cmdline: "gf_cmdline ex_files = Some (build_append ex_run @ [CHR 0x0A])"
  by (simp add: ex_files_def)

lemma ex_reply_to: "reply_to ex_files (Inr Health) ex_guest = (ex_health, ex_guest)"
proof -
  have "nonce_from_cmdline (build_append ex_run @ [CHR 0x0A]) = ''3f9a''"
    using nonce_of_append [of ex_run] by (simp add: nonce_word_def ex_run_def)
  then show ?thesis
    by (simp add: reply_to_def health_reply_def current_nonce_def current_uptime_secs_def ex_files_def ex_health_def)
qed

theorem guest_handshake_witness:
  "fst (call_agent (ex_libs\<lparr>json_parse := frame_parse\<rparr>) 3 ''3f9a'' Health ex_host) = Inr ex_health \<and>
   fst (call_agent (ex_libs\<lparr>json_parse := frame_parse\<rparr>) 3 ''evil'' Health ex_host) = Inl NonceMismatch"
proof -
  have q: "agent_frame_ok frame_print frame_parse MAX_AGENT_REQUEST_BYTES (agent_request_json Health)"
    unfolding frame_print_def frame_parse_def agent_frame_ok_def MAX_AGENT_REQUEST_BYTES_def by code_simp
  have r: "agent_frame_ok frame_print frame_parse MAX_AGENT_REPLY_BYTES (agent_reply_json ex_health)"
    unfolding frame_print_def frame_parse_def agent_frame_ok_def MAX_AGENT_REPLY_BYTES_def ex_health_def by code_simp
  have out: "fst (handle_guest frame_print frame_parse (\<lambda>_. []) ex_files
      (map RByte (frame_print (agent_request_json Health)) @ [RByte (CHR 0x0A)]) ex_guest) = [CHR ''R'', CHR 0x0A]"
    using read_request_frame [OF q, of "\<lambda>_. []" "[]"]
    by (simp add: handle_guest_def ex_reply_to) (simp add: frame_print_def agent_reply_json_def agent_request_json_def)
  have "fst (call_agent (ex_libs\<lparr>json_parse := frame_parse\<rparr>) 3 n Health ex_host) =
      (if n = sr_nonce ex_run then Inr (fst (reply_to ex_files (Inr Health) ex_guest)) else Inl NonceMismatch)" for n
    by (rule guest_handshake [where print = frame_print and frame_text = "\<lambda>_. []" and run = ex_run])
      (simp_all add: q r out ex_reply_to ex_nonce ex_cmdline ex_host_def nonce_word_def)
  then show ?thesis by (simp add: ex_reply_to ex_nonce)
qed

theorem guest_shutdown_witness:
  "agent_main frame_print (\<lambda>_. Some (agent_request_json Shutdown)) (\<lambda>_. [])
     [Some (ex_files, [RByte (CHR ''S''), RByte (CHR 0x0A)]), Some (ex_files, [])] ex_guest =
   ([''R'' @ [CHR 0x0A]], \<lparr>app_child = None, calls = [GKill 7, GWait 7, GSync, GUmount ''/data'']\<rparr>)"
proof -
  have q: "read_agent_request (\<lambda>_. Some (agent_request_json Shutdown)) (\<lambda>_. [])
      [RByte (CHR ''S''), RByte (CHR 0x0A)] = Inr Shutdown"
    by code_simp
  have "split_whitespace (concat (map (\<lambda>w. w @ '' '') [''/dev/vdb'', ''/data'']) @ ''ext4'') =
      [''/dev/vdb'', ''/data''] @ split_whitespace ''ext4''"
    by (rule split_words) simp
  then have "split_whitespace ''/dev/vdb /data ext4'' = ''/dev/vdb'' # ''/data'' # split_whitespace ''ext4''" by simp
  moreover have "lines ''/dev/vdb /data ext4'' = [''/dev/vdb /data ext4'']"
    by code_simp
  ultimately have "data_mounted ex_files" "gf_umount ex_files"
    by (simp_all add: data_mounted_def DATA_MOUNT_POINT_def ex_files_def mounts_contain_def nth_opt_def)
  then show ?thesis
    using guest_shutdown [OF q, of frame_print ex_files "[Some (ex_files, [])]" ex_guest]
    by (simp add: frame_print_def agent_reply_json_def agent_request_json_def ex_guest_def)
qed

end
