(* ===== verification/ManagerView.thy ===== *)
theory ManagerView
  imports Replies Float64 Example
begin

text \<open>
  \<open>components/manager/src/view.rs\<close>: what the manager shows of a reply of the
  daemon.  A reply is the result of the client call: the error text of the
  transport, or the terminal frame.
\<close>

section \<open>Fields\<close>

definition reply_to_value :: "string + Reply \<Rightarrow> string + json" where
  "reply_to_value reply =
     (case reply of
        Inl transport \<Rightarrow> Inl transport
      | Inr (ReplyErr c m) \<Rightarrow> Inl (c @ '': '' @ m)
      | Inr (ReplyOk v) \<Rightarrow> Inr v)"

definition field_str :: "json \<Rightarrow> string \<Rightarrow> string option" where
  "field_str v k = Option.bind (jget k v) as_str"

definition field_bool :: "json \<Rightarrow> string \<Rightarrow> bool option" where
  "field_bool v k = Option.bind (jget k v) as_bool"

definition nullable_field_str :: "json \<Rightarrow> string \<Rightarrow> string option option" where
  "nullable_field_str v k =
     (case jget k v of
        None \<Rightarrow> None
      | Some JNull \<Rightarrow> Some None
      | Some (JStr s) \<Rightarrow> Some (Some s)
      | Some _ \<Rightarrow> None)"

definition nested :: "json \<Rightarrow> string \<Rightarrow> string \<Rightarrow> json option" where
  "nested v obj k = Option.bind (jget obj v) (jget k)"

definition nested_field_str :: "json \<Rightarrow> string \<Rightarrow> string \<Rightarrow> string option" where
  "nested_field_str v obj k = Option.bind (nested v obj k) as_str"

definition nested_num :: "json \<Rightarrow> string \<Rightarrow> string \<Rightarrow> nat option" where
  "nested_num v obj k = Option.bind (nested v obj k) as_u64"

definition or_dash :: "string option \<Rightarrow> string" where
  "or_dash x = (case x of Some s \<Rightarrow> s | None \<Rightarrow> TXT_DASH)"

definition int_str :: "int \<Rightarrow> string" where
  "int_str i = (if i < 0 then ''-'' @ dec (nat (- i)) else dec (nat i))"

definition num_or_dash :: "json \<Rightarrow> string \<Rightarrow> string" where
  "num_or_dash v k = or_dash (map_option int_str (Option.bind (jget k v) as_i64))"

definition nested_num_or_dash :: "json \<Rightarrow> string \<Rightarrow> string \<Rightarrow> string" where
  "nested_num_or_dash v obj k = or_dash (map_option int_str (Option.bind (nested v obj k) as_i64))"

section \<open>The list of spaces\<close>

record SpaceRow =
  sr_space :: string
  sr_label :: string
  sr_color :: string
  sr_profile :: string
  sr_state :: string
  sr_level :: string
  sr_level_reason :: string
  sr_encrypted :: bool

datatype SpacesView = SpacesShown "SpaceRow list" | SpacesUnavailable string

definition space_row :: "json \<Rightarrow> SpaceRow option" where
  "space_row item =
     (case field_str item ''id'' of None \<Rightarrow> None | Some i \<Rightarrow>
     (case field_str item ''label'' of None \<Rightarrow> None | Some l \<Rightarrow>
     (case field_str item ''color'' of None \<Rightarrow> None | Some c \<Rightarrow>
     (case field_str item ''profile'' of None \<Rightarrow> None | Some p \<Rightarrow>
     (case field_str item ''state'' of None \<Rightarrow> None | Some st \<Rightarrow>
     (case field_str item ''isolation-level'' of None \<Rightarrow> None | Some lv \<Rightarrow>
     (case field_str item ''isolation-reason'' of None \<Rightarrow> None | Some rs \<Rightarrow>
        Some \<lparr>sr_space = i, sr_label = l, sr_color = c, sr_profile = p, sr_state = st, sr_level = lv,
              sr_level_reason = rs,
              sr_encrypted = (case field_bool item ''encrypted'' of Some b \<Rightarrow> b | None \<Rightarrow> False)\<rparr>)))))))"

fun rows_of :: "(json \<Rightarrow> 'a option) \<Rightarrow> json list \<Rightarrow> 'a list option" where
  "rows_of f [] = Some []"
| "rows_of f (v # vs) =
     (case f v of None \<Rightarrow> None | Some r \<Rightarrow> map_option (\<lambda>rs. r # rs) (rows_of f vs))"

definition spaces_view :: "string + Reply \<Rightarrow> SpacesView" where
  "spaces_view reply =
     (case reply_to_value reply of
        Inl message \<Rightarrow> SpacesUnavailable message
      | Inr v \<Rightarrow>
          (case as_array v of
             None \<Rightarrow> SpacesUnavailable TXT_NOT_SPACES
           | Some items \<Rightarrow>
               (case rows_of space_row items of
                  Some rows \<Rightarrow> SpacesShown rows
                | None \<Rightarrow> SpacesUnavailable TXT_BAD_SPACE)))"

section \<open>The list of profiles\<close>

record ProfileRow =
  pf_profile :: string
  pf_template :: bool
  pf_manifest_ok :: bool
  pf_level :: "string option"
  pf_error :: "string option"

datatype ProfilesView = ProfilesShown "ProfileRow list" | ProfilesUnavailable string

definition profile_row :: "json \<Rightarrow> ProfileRow option" where
  "profile_row item =
     (case field_str item ''profile'' of None \<Rightarrow> None | Some p \<Rightarrow>
     (case field_bool item ''template'' of None \<Rightarrow> None | Some t \<Rightarrow>
     (case field_bool item ''manifest-ok'' of None \<Rightarrow> None | Some k \<Rightarrow>
     (case nullable_field_str item ''isolation-level'' of None \<Rightarrow> None | Some lv \<Rightarrow>
     (case nullable_field_str item ''manifest-error'' of None \<Rightarrow> None | Some e \<Rightarrow>
        Some \<lparr>pf_profile = p, pf_template = t, pf_manifest_ok = k, pf_level = lv, pf_error = e\<rparr>)))))"

definition profiles_view :: "string + Reply \<Rightarrow> ProfilesView" where
  "profiles_view reply =
     (case reply_to_value reply of
        Inl message \<Rightarrow> ProfilesUnavailable message
      | Inr v \<Rightarrow>
          (case as_array v of
             None \<Rightarrow> ProfilesUnavailable TXT_NOT_PROFILES
           | Some items \<Rightarrow>
               (case rows_of profile_row items of
                  Some rows \<Rightarrow> ProfilesShown rows
                | None \<Rightarrow> ProfilesUnavailable TXT_BAD_PROFILE)))"

section \<open>One space\<close>

record DetailRow =
  dr_key :: string
  dr_value :: string

datatype DetailSection = SpaceSection | IdentitySection | ResourcesSection | NetworkSection

record SpaceDetailRow = DetailRow +
  dr_section :: DetailSection
  dr_mono :: bool

datatype DetailView = SpaceDetail "SpaceDetailRow list" "string list" | DetailUnavailable string

definition app_summary :: "json \<Rightarrow> string" where
  "app_summary v =
     (case (nested_field_str v ''app'' ''mode'', nested_field_str v ''app'' ''command'') of
        (Some m, Some c) \<Rightarrow> m @ TXT_MIDDOT @ c
      | (Some m, None) \<Rightarrow> m
      | (None, Some c) \<Rightarrow> c
      | (None, None) \<Rightarrow> TXT_DASH)"

definition isolation_level_summary :: "json \<Rightarrow> string" where
  "isolation_level_summary v =
     (case nested_field_str v ''isolation'' ''level'' of
        None \<Rightarrow> TXT_DASH
      | Some l \<Rightarrow>
          if l = ''standard'' then l
          else if l = ''reduced'' then
            (let r = (case nested_field_str v ''isolation'' ''reason'' of Some r \<Rightarrow> r | None \<Rightarrow> [])
             in if trim r = [] then TXT_REDUCED_NO_REASON else TXT_REDUCED @ r)
          else l)"

definition mib_or_dash :: "nat option \<Rightarrow> string" where
  "mib_or_dash n = (case n of Some n \<Rightarrow> dec n @ TXT_MIB | None \<Rightarrow> TXT_DASH)"

definition memory_summary :: "json \<Rightarrow> string" where
  "memory_summary v =
     TXT_ORDERED @ mib_or_dash (nested_num v ''resources'' ''memory-mb'') @ TXT_ACTUAL @
     mib_or_dash (map_option (\<lambda>kib. kib div 1024) (Option.bind (jget ''rss-kib'' v) as_u64))"

text \<open>\<open>bytes as f64 / (1024.0 * 1024.0)\<close>, a division by a power of two.\<close>

definition data_volume_summary :: "json \<Rightarrow> string" where
  "data_volume_summary v =
     TXT_ORDERED @ mib_or_dash (nested_num v ''resources'' ''data-mb'') @ TXT_FILE @
     or_dash (map_option (\<lambda>bytes. f64_fmt1 (f64_shift 20 (f64_of_nat bytes)) @ TXT_MIB)
       (Option.bind (jget ''data-qcow2-bytes'' v) as_u64))"

definition yes_no :: "bool \<Rightarrow> string" where
  "yes_no b = (if b then TXT_YES else TXT_NO)"

definition encrypted_summary :: "json \<Rightarrow> string" where
  "encrypted_summary v = yes_no (case field_bool v ''encrypted'' of Some b \<Rightarrow> b | None \<Rightarrow> False)"

definition disk_summary :: "json \<Rightarrow> string" where
  "disk_summary v =
     (case Option.bind (nested v ''resources'' ''disk-gb'') as_i64 of
        Some gb \<Rightarrow> int_str gb @ TXT_GIB
      | None \<Rightarrow> TXT_DASH)"

definition uptime_summary :: "json \<Rightarrow> string" where
  "uptime_summary v =
     (case Option.bind (jget ''uptime-secs'' v) as_u64 of
        None \<Rightarrow> TXT_DASH
      | Some s \<Rightarrow>
          (let hours = s div 3600; minutes = s mod 3600 div 60; seconds = s mod 60
           in if 0 < hours then dec hours @ TXT_HOURS @ dec minutes @ TXT_MIN
              else if 0 < minutes then dec minutes @ TXT_MINUTES @ dec seconds @ TXT_SEC
              else dec seconds @ TXT_SEC))"

definition clean_shutdown_summary :: "json \<Rightarrow> string" where
  "clean_shutdown_summary v =
     (case field_bool v ''clean-shutdown'' of
        Some True \<Rightarrow> TXT_YES
      | Some False \<Rightarrow> TXT_NO
      | None \<Rightarrow> TXT_NEVER_STOPPED)"

definition detail_row :: "string \<Rightarrow> string \<Rightarrow> DetailSection \<Rightarrow> bool \<Rightarrow> SpaceDetailRow" where
  "detail_row k t s m = \<lparr>dr_key = k, dr_value = t, dr_section = s, dr_mono = m\<rparr>"

definition detail_rows :: "json \<Rightarrow> SpaceDetailRow list" where
  "detail_rows v =
     [detail_row KEY_PROFILE (or_dash (field_str v ''profile'')) SpaceSection False,
      detail_row KEY_DESCRIPTION (or_dash (field_str v ''description'')) SpaceSection False,
      detail_row KEY_STATE (or_dash (field_str v ''state'')) SpaceSection False,
      detail_row ''CID'' (num_or_dash v ''cid'') IdentitySection True,
      detail_row ''uid'' (num_or_dash v ''uid'') IdentitySection True,
      detail_row KEY_CREATED (or_dash (field_str v ''created'')) IdentitySection False,
      detail_row KEY_APP (app_summary v) IdentitySection False,
      detail_row KEY_TEMPLATE (or_dash (field_str v ''digest'')) IdentitySection True,
      detail_row KEY_MANIFEST (or_dash (field_str v ''manifest-path'')) IdentitySection True,
      detail_row KEY_NETWORK (or_dash (nested_field_str v ''network'' ''via'')) NetworkSection False,
      detail_row KEY_LEVEL (isolation_level_summary v) NetworkSection False,
      detail_row ''GPU'' (or_dash (nested_field_str v ''isolation'' ''gpu'')) NetworkSection False,
      detail_row KEY_MEMORY (memory_summary v) ResourcesSection False,
      detail_row KEY_DATA (data_volume_summary v) ResourcesSection False,
      detail_row ''CPU'' (nested_num_or_dash v ''resources'' ''cpus'') ResourcesSection False,
      detail_row KEY_DISK (disk_summary v) ResourcesSection False,
      detail_row KEY_ENCRYPTION (encrypted_summary v) ResourcesSection False,
      detail_row KEY_UPTIME (uptime_summary v) SpaceSection False,
      detail_row KEY_CLEAN (clean_shutdown_summary v) SpaceSection False]"

definition log_tail_of :: "json \<Rightarrow> string list" where
  "log_tail_of v =
     (case Option.bind (jget ''log-tail'' v) as_array of
        Some items \<Rightarrow> List.map_filter as_str items
      | None \<Rightarrow> [])"

definition detail_view :: "string + Reply \<Rightarrow> DetailView" where
  "detail_view reply =
     (case reply_to_value reply of
        Inl message \<Rightarrow> DetailUnavailable message
      | Inr v \<Rightarrow> if is_object v then SpaceDetail (detail_rows v) (log_tail_of v) else DetailUnavailable TXT_NOT_DETAIL)"

section \<open>The network\<close>

record NetView =
  nv_rows :: "DetailRow list"
  nv_ruleset_text :: string
  nv_ruleset_note :: string

definition nested_bool :: "json \<Rightarrow> string \<Rightarrow> string \<Rightarrow> bool" where
  "nested_bool v obj k = (case Option.bind (nested v obj k) as_bool of Some b \<Rightarrow> b | None \<Rightarrow> False)"

definition net_row :: "string \<Rightarrow> string \<Rightarrow> DetailRow" where
  "net_row k t = \<lparr>dr_key = k, dr_value = t\<rparr>"

definition tap_row :: "json \<Rightarrow> DetailRow" where
  "tap_row tap =
     net_row (''Tap '' @ or_dash (field_str tap ''name''))
       (if field_bool tap ''isolated'' = Some True then TXT_ISOLATED else TXT_NOT_ISOLATED)"

definition tunnel_text :: "json \<Rightarrow> string" where
  "tunnel_text t =
     ''ifc='' @ or_dash (field_str t ''ifc'') @
     '' set='' @ yes_no (case field_bool t ''set'' of Some b \<Rightarrow> b | None \<Rightarrow> False) @
     '' route='' @ yes_no (case field_bool t ''route'' of Some b \<Rightarrow> b | None \<Rightarrow> False)"

definition tunnel_value :: "json \<Rightarrow> string" where
  "tunnel_value v =
     (case nested v ''miyori-net'' ''tunnel'' of
        None \<Rightarrow> TXT_DASH
      | Some t \<Rightarrow> if t = JNull then TXT_DASH else tunnel_text t)"

definition net_rows :: "json \<Rightarrow> DetailRow list" where
  "net_rows v =
     [net_row (KEY_BRIDGE @ ''br-spaces'') (yes_no (nested_bool v ''bridges'' ''br-spaces'')),
      net_row (KEY_BRIDGE @ ''br-captive'') (yes_no (nested_bool v ''bridges'' ''br-captive''))] @
     (case Option.bind (jget ''taps'' v) as_array of Some taps \<Rightarrow> map tap_row taps | None \<Rightarrow> []) @
     [net_row KEY_PCI (or_dash (nested_field_str v ''uplink-pci'' ''address'') @ TXT_MIDDOT @
        (if nested_bool v ''uplink-pci'' ''present'' then TXT_PLUGGED else TXT_NOT_PLUGGED) @
        TXT_DRIVER @ or_dash (nested_field_str v ''uplink-pci'' ''driver'')),
      net_row ''miyori-net'' (if nested_bool v ''miyori-net'' ''running'' then TXT_UP else TXT_NOT_UP),
      net_row ''miyori-net PID'' (nested_num_or_dash v ''miyori-net'' ''pid''),
      net_row KEY_NET_UPLINK (or_dash (nested_field_str v ''miyori-net'' ''uplink'')),
      net_row KEY_NET_TUNNEL (tunnel_value v),
      net_row KEY_KILLSWITCH (or_dash (field_str v ''killswitch_counters''))]"

definition net_view :: "string + Reply \<Rightarrow> string + NetView" where
  "net_view reply =
     (case reply_to_value reply of
        Inl message \<Rightarrow> Inl message
      | Inr v \<Rightarrow>
          if \<not> is_object v then Inl TXT_NOT_NET
          else
            (let t = (case nested_field_str v ''ruleset'' ''text'' of Some t \<Rightarrow> t | None \<Rightarrow> []);
                 note = (if \<not> nested_bool v ''ruleset'' ''available'' then TXT_NO_RULESET
                         else case nested_num v ''ruleset'' ''truncated-from'' of
                                Some whole \<Rightarrow> TXT_SHOWN @ dec (char_count t) @ TXT_OF @ dec whole @ TXT_CHARS_CUT
                              | None \<Rightarrow> [])
             in Inr \<lparr>nv_rows = net_rows v, nv_ruleset_text = t, nv_ruleset_note = note\<rparr>))"

section \<open>What the manager makes of the daemon's replies\<close>

definition shown_row :: "list_row \<Rightarrow> SpaceRow" where
  "shown_row r =
     (let c = lr_space r in
      \<lparr>sr_space = id_str (c_id c), sr_label = label_str (c_label c), sr_color = color_str (c_color c),
       sr_profile = id_str (c_profile c), sr_state = state_label (lr_state r),
       sr_level = fst (isolation_texts r), sr_level_reason = snd (isolation_texts r),
       sr_encrypted = c_encrypted c\<rparr>)"

lemma space_row_list_item: "space_row (list_item_json r) = Some (shown_row r)"
  by (simp add: space_row_def field_str_def field_bool_def list_item_json_def shown_row_def Let_def)

lemma rows_of_map: "(\<And>x. f (g x) = Some (h x)) \<Longrightarrow> rows_of f (map g xs) = Some (map h xs)"
  by (induction xs) auto

definition shown_profile :: "wording \<Rightarrow> profile_row \<Rightarrow> ProfileRow" where
  "shown_profile wd r =
     \<lparr>pf_profile = pr_name r, pf_template = pr_template r, pf_manifest_ok = \<not> isl (pr_manifest r),
      pf_level = (case pr_manifest r of Inr m \<Rightarrow> Some (level (isolation m)) | Inl _ \<Rightarrow> None),
      pf_error = (case pr_manifest r of Inr m \<Rightarrow> None | Inl e \<Rightarrow> Some (wd_manifest wd e))\<rparr>"

lemma profile_row_item: "profile_row (profile_item_json wd r) = Some (shown_profile wd r)"
  by (cases "pr_manifest r")
    (simp_all add: profile_row_def field_str_def field_bool_def nullable_field_str_def profile_item_json_def shown_profile_def)

lemma rows_of_list: "rows_of space_row (map list_item_json rows) = Some (map shown_row rows)"
  by (rule rows_of_map) (rule space_row_list_item)

lemma rows_of_profiles: "rows_of profile_row (map (profile_item_json wd) ps) = Some (map (shown_profile wd) ps)"
  by (rule rows_of_map) (rule profile_row_item)

lemma reply_frames:
  "reply_of (outcome wd (Inr r)) = ReplyOk (reply_json wd r)"
  "reply_of (outcome wd (Inl (c, msg))) = ReplyErr (code_str c) (wd_msg wd msg)"
  by (simp_all add: reply_of_def outcome_def)

lemma shown_replies:
  "spaces_view (Inr (ReplyOk (reply_json wd (RList rows)))) = SpacesShown (map shown_row rows)"
  "profiles_view (Inr (ReplyOk (reply_json wd (RProfiles ps)))) = ProfilesShown (map (shown_profile wd) ps)"
  "spaces_view (Inr (ReplyErr k m)) = SpacesUnavailable (k @ '': '' @ m)"
  "profiles_view (Inr (ReplyErr k m)) = ProfilesUnavailable (k @ '': '' @ m)"
  "detail_view (Inr (ReplyErr k m)) = DetailUnavailable (k @ '': '' @ m)"
  "spaces_view (Inl e) = SpacesUnavailable e"
  by (simp_all add: spaces_view_def profiles_view_def detail_view_def reply_to_value_def reply_json_def
      rows_of_list rows_of_profiles)

text \<open>
  The manager shows what the daemon answered: a row for every space and every
  profile the daemon lists, with all their values, and nothing for a broken manifest
  but its error; an error of the daemon or of the transport is shown verbatim by
  every view.
\<close>

theorem manager_reads_lists:
  "spaces_view (Inr (reply_of (outcome wd (Inr (RList rows))))) = SpacesShown (map shown_row rows) \<and>
   profiles_view (Inr (reply_of (outcome wd (Inr (RProfiles ps))))) = ProfilesShown (map (shown_profile wd) ps) \<and>
   spaces_view (Inr (reply_of (outcome wd (Inl (c, msg))))) = SpacesUnavailable (code_str c @ '': '' @ wd_msg wd msg) \<and>
   profiles_view (Inr (reply_of (outcome wd (Inl (c, msg))))) = ProfilesUnavailable (code_str c @ '': '' @ wd_msg wd msg) \<and>
   detail_view (Inr (reply_of (outcome wd (Inl (c, msg))))) = DetailUnavailable (code_str c @ '': '' @ wd_msg wd msg) \<and>
   spaces_view (Inl e) = SpacesUnavailable e"
  by (simp only: reply_frames shown_replies simp_thms)

lemma near_scale: "0 < c \<Longrightarrow> near (c * a) (c * b) = near a b"
proof -
  assume c: "0 < c"
  have "(c * a) div (c * b) = a div b" "(c * a) mod (c * b) = c * (a mod b)"
    using c by simp_all
  moreover have "2 * (c * x) < c * y \<longleftrightarrow> 2 * x < y" "c * y < 2 * (c * x) \<longleftrightarrow> y < 2 * x" for x y
    using c by (simp_all add: mult.left_commute)
  ultimately show "near (c * a) (c * b) = near a b" by (simp only: near_def Let_def)
qed

lemma near_1 [simp]: "near a (Suc 0) = a"
  by (simp add: near_def)

lemma bits_1: "bits (Suc 0) = 1"
  by (simp add: bits.simps [of "Suc 0"] bits.simps [of 0])

lemma bits_pow: "0 < n \<Longrightarrow> 2 ^ (bits n - 1) \<le> n \<and> n < 2 ^ bits n \<and> 0 < bits n"
proof (induction n rule: bits.induct)
  case (1 n)
  show ?case
  proof (cases "n div 2 = 0")
    case True
    then have "n = 1" using 1 by simp
    then show ?thesis by (simp add: bits_1)
  next
    case False
    have b: "bits n = Suc (bits (n div 2))" using 1 by (simp add: bits.simps [of n])
    have i: "2 ^ (bits (n div 2) - 1) \<le> n div 2" "n div 2 < 2 ^ bits (n div 2)" "0 < bits (n div 2)"
      using 1 False by auto
    obtain k where k: "bits (n div 2) = Suc k" using i(3) by (cases "bits (n div 2)") auto
    show ?thesis using i by (simp add: b k) linarith
  qed
qed

text \<open>Below 2 ^ 53 bytes the double is exact, so the tenth of a MiB shown is the nearest one.\<close>

lemma fmt_mib:
  assumes "n < 2 ^ 53"
  shows "f64_fmt1 (f64_shift 20 (f64_of_nat n)) =
    (let t = near (10 * n) (2 ^ 20) in dec (t div 10) @ ''.'' @ dec (t mod 10))"
proof (cases "n = 0")
  case True
  then show ?thesis by (simp add: f64_of_nat_def f64_ratio_def f64_shift_def f64_fmt1_def near_def)
next
  case False
  have "bits n \<le> 53"
  proof (rule ccontr)
    assume "\<not> bits n \<le> 53"
    then have "(2 :: nat) ^ 53 \<le> 2 ^ (bits n - 1)" by (intro power_increasing) auto
    then show False using bits_pow [of n] False assms by linarith
  qed
  moreover have bp: "2 ^ (bits n - 1) \<le> n" "n < 2 ^ bits n" "0 < bits n" using bits_pow [of n] False by auto
  ultimately obtain k where k: "54 - bits n = Suc k" by (cases "54 - bits n") auto
  have e: "int (bits n) - 1 - 53 = - int (Suc k)" using k bp(3) \<open>bits n \<le> 53\<close> by linarith
  have big: "\<not> n * 2 ^ Suc k < 2 ^ 53"
  proof -
    have "53 = (bits n - 1) + Suc k" using k bp(3) by linarith
    then have "(2 :: nat) ^ 53 = 2 ^ (bits n - 1) * 2 ^ Suc k" by (simp only: power_add)
    also have "\<dots> \<le> n * 2 ^ Suc k" using bp(1) by (intro mult_le_mono1)
    finally show ?thesis by simp
  qed
  have lt: "n * 2 ^ k < 2 ^ 53"
  proof -
    have "n * 2 ^ k < 2 ^ bits n * 2 ^ k" using bp(2) by simp
    also have "\<dots> = 2 ^ (bits n + k)" by (simp add: power_add)
    also have "bits n + k = 53" using k \<open>bits n \<le> 53\<close> by simp
    finally show ?thesis .
  qed
  have k53: "k \<le> 53" using k by simp
  have sk: "nat (int k + 1) = Suc k" by simp
  have f: "f64_of_nat n = Fin False (n * 2 ^ k) (- int k)"
  proof (cases "k = 0")
    case True
    then show ?thesis using False big lt
      by (simp add: f64_of_nat_def f64_ratio_def bits_1 e Let_def scaled_def)
  next
    case k0: False
    then show ?thesis using False big lt k53 sk
      by (simp add: f64_of_nat_def f64_ratio_def bits_1 e Let_def scaled_def max_def)
  qed
  have "10 * (n * 2 ^ k) = 2 ^ k * (10 * n)" "(2 :: nat) ^ (k + 20) = 2 ^ k * 2 ^ 20"
    by (simp_all add: power_add)
  then have "near (10 * (n * 2 ^ k)) (2 ^ (k + 20)) = near (10 * n) (2 ^ 20)"
    using near_scale [of "2 ^ k"] by (simp only: zero_less_power zero_less_numeral)
  moreover have "nat (20 + int k) = k + 20" by simp
  ultimately show ?thesis by (simp add: f f64_shift_def f64_fmt1_def Let_def)
qed

section \<open>The view of one space\<close>

text \<open>The numbers are \<open>u32\<close> and file sizes, far below what a signed 64-bit number holds.\<close>

definition desc_ok :: "description \<Rightarrow> bool" where
  "desc_ok d \<longleftrightarrow>
     c_cid (de_space d) < 2 ^ 32 \<and> c_uid (de_space d) < 2 ^ 32 \<and>
     cpus (resources (de_manifest d)) < 2 ^ 32 \<and> disk_gb (resources (de_manifest d)) < 2 ^ 32 \<and>
     (case de_data_bytes d of Some n \<Rightarrow> n < 2 ^ 53 | None \<Rightarrow> True)"

definition shown_level :: "Isolation \<Rightarrow> string" where
  "shown_level i =
     (if level i = ''reduced'' then (if trim (reason i) = [] then TXT_REDUCED_NO_REASON else TXT_REDUCED @ reason i)
      else level i)"

definition shown_uptime :: "nat option \<Rightarrow> string" where
  "shown_uptime up =
     (case up of
        None \<Rightarrow> TXT_DASH
      | Some s \<Rightarrow>
          if 3600 \<le> s then dec (s div 3600) @ TXT_HOURS @ dec (s mod 3600 div 60) @ TXT_MIN
          else if 60 \<le> s then dec (s div 60) @ TXT_MINUTES @ dec (s mod 60) @ TXT_SEC
          else dec s @ TXT_SEC)"

definition shown_tenths :: "nat \<Rightarrow> string" where
  "shown_tenths t = dec (t div 10) @ ''.'' @ dec (t mod 10)"

definition shown_detail :: "description \<Rightarrow> (string \<times> string) list" where
  "shown_detail d =
     (let c = de_space d; m = de_manifest d; rs = resources m in
      [(KEY_PROFILE, id_str (c_profile c)), (KEY_DESCRIPTION, Manifest.description m),
       (KEY_STATE, state_label (de_state d)), (''CID'', dec (c_cid c)), (''uid'', dec (c_uid c)),
       (KEY_CREATED, c_created c), (KEY_APP, app_mode (app m) @ TXT_MIDDOT @ app_command (app m)),
       (KEY_TEMPLATE, c_digest c), (KEY_MANIFEST, display (de_manifest_path d)), (KEY_NETWORK, via m),
       (KEY_LEVEL, shown_level (isolation m)), (''GPU'', gpu (isolation m)),
       (KEY_MEMORY, TXT_ORDERED @ dec (memory_mb rs) @ TXT_MIB @ TXT_ACTUAL @
          (case de_rss_kib d of Some kib \<Rightarrow> dec (kib div 1024) @ TXT_MIB | None \<Rightarrow> TXT_DASH)),
       (KEY_DATA, TXT_ORDERED @ dec (data_mb rs) @ TXT_MIB @ TXT_FILE @
          (case de_data_bytes d of Some n \<Rightarrow> shown_tenths (near (10 * n) (2 ^ 20)) @ TXT_MIB | None \<Rightarrow> TXT_DASH)),
       (''CPU'', dec (cpus rs)), (KEY_DISK, dec (disk_gb rs) @ TXT_GIB),
       (KEY_ENCRYPTION, yes_no (c_encrypted c)), (KEY_UPTIME, shown_uptime (de_uptime d)),
       (KEY_CLEAN, case c_clean c of Some b \<Rightarrow> yes_no b | None \<Rightarrow> TXT_NEVER_STOPPED)])"

lemma jget_describe:
  fixes d :: description
  defines "v \<equiv> describe_json d"
  shows "jget ''profile'' v = Some (JStr (id_str (c_profile (de_space d))))"
    "jget ''description'' v = Some (JStr (Manifest.description (de_manifest d)))"
    "jget ''state'' v = Some (JStr (state_label (de_state d)))"
    "jget ''cid'' v = Some (jnat (c_cid (de_space d)))"
    "jget ''uid'' v = Some (jnat (c_uid (de_space d)))"
    "jget ''created'' v = Some (JStr (c_created (de_space d)))"
    "jget ''digest'' v = Some (JStr (c_digest (de_space d)))"
    "jget ''encrypted'' v = Some (JBool (c_encrypted (de_space d)))"
    "jget ''manifest-path'' v = Some (JStr (display (de_manifest_path d)))"
    "jget ''data-qcow2-bytes'' v = Some (jopt jnat (de_data_bytes d))"
    "jget ''clean-shutdown'' v = Some (jopt JBool (c_clean (de_space d)))"
    "jget ''rss-kib'' v = Some (jopt jnat (de_rss_kib d))"
    "jget ''uptime-secs'' v = Some (jopt jnat (de_uptime d))"
    "jget ''log-tail'' v = Some (JArr (map JStr (de_log_tail d)))"
  unfolding v_def describe_json_def Let_def by simp_all

lemma jget_describe_nested:
  fixes d :: description
  defines "v \<equiv> describe_json d" and "m \<equiv> de_manifest d"
  shows "nested v ''app'' ''mode'' = Some (JStr (app_mode (app m)))"
    "nested v ''app'' ''command'' = Some (JStr (app_command (app m)))"
    "nested v ''resources'' ''memory-mb'' = Some (jnat (memory_mb (resources m)))"
    "nested v ''resources'' ''cpus'' = Some (jnat (cpus (resources m)))"
    "nested v ''resources'' ''disk-gb'' = Some (jnat (disk_gb (resources m)))"
    "nested v ''resources'' ''data-mb'' = Some (jnat (data_mb (resources m)))"
    "nested v ''isolation'' ''level'' = Some (JStr (level (isolation m)))"
    "nested v ''isolation'' ''gpu'' = Some (JStr (gpu (isolation m)))"
    "nested v ''isolation'' ''reason'' = Some (JStr (reason (isolation m)))"
    "nested v ''network'' ''via'' = Some (JStr (via m))"
  unfolding v_def m_def describe_json_def Let_def nested_def by simp_all

lemma as_i64_nat: "n < 2 ^ 32 \<Longrightarrow> as_i64 (jnat n) = Some (int n)"
  by (simp add: as_i64_def)

lemma int_str_nat [simp]: "int_str (int n) = dec n"
  by (simp add: int_str_def)

lemma level_shown:
  "isolation_level_summary (describe_json d) = shown_level (isolation (de_manifest d))"
  by (simp add: isolation_level_summary_def nested_field_str_def jget_describe_nested shown_level_def Let_def)

lemma uptime_shown: "uptime_summary (describe_json d) = shown_uptime (de_uptime d)"
proof (cases "de_uptime d")
  case (Some s)
  have h: "0 < s div 3600 \<longleftrightarrow> 3600 \<le> s" by (simp add: div_greater_zero_iff)
  have m: "0 < s div 60 \<longleftrightarrow> 60 \<le> s" by (simp add: div_greater_zero_iff)
  show ?thesis
    using Some h m by (simp add: uptime_summary_def jget_describe jopt_def as_u64_def shown_uptime_def Let_def)
qed (simp add: uptime_summary_def jget_describe jopt_def as_u64_def shown_uptime_def)

lemma volume_shown:
  assumes "desc_ok d"
  shows "data_volume_summary (describe_json d) = TXT_ORDERED @ dec (data_mb (resources (de_manifest d))) @ TXT_MIB @ TXT_FILE @
    (case de_data_bytes d of Some n \<Rightarrow> shown_tenths (near (10 * n) (2 ^ 20)) @ TXT_MIB | None \<Rightarrow> TXT_DASH)"
proof (cases "de_data_bytes d")
  case (Some n)
  then have "n < 2 ^ 53" using assms by (simp add: desc_ok_def)
  from fmt_mib [OF this] show ?thesis
    using Some by (simp add: data_volume_summary_def jget_describe jget_describe_nested nested_num_def as_u64_def
        mib_or_dash_def or_dash_def jopt_def shown_tenths_def Let_def)
qed (simp add: data_volume_summary_def jget_describe jget_describe_nested nested_num_def as_u64_def mib_or_dash_def
      or_dash_def jopt_def)

lemma memory_shown:
  "memory_summary (describe_json d) = TXT_ORDERED @ dec (memory_mb (resources (de_manifest d))) @ TXT_MIB @ TXT_ACTUAL @
     (case de_rss_kib d of Some kib \<Rightarrow> dec (kib div 1024) @ TXT_MIB | None \<Rightarrow> TXT_DASH)"
  by (cases "de_rss_kib d")
    (simp_all add: memory_summary_def jget_describe jget_describe_nested nested_num_def as_u64_def mib_or_dash_def jopt_def)

lemma clean_shown:
  "clean_shutdown_summary (describe_json d) = (case c_clean (de_space d) of Some b \<Rightarrow> yes_no b | None \<Rightarrow> TXT_NEVER_STOPPED)"
  by (cases "c_clean (de_space d)")
    (auto simp: clean_shutdown_summary_def field_bool_def jget_describe jopt_def yes_no_def split: bool.split)

lemma log_tail_shown: "log_tail_of (describe_json d) = de_log_tail d"
  by (simp add: log_tail_of_def jget_describe map_filter_def o_def)

text \<open>
  C32.  The page of a space says what the daemon described: each of its nineteen rows,
  in order, has the value of the configuration, the manifest or the observation, sizes
  in MiB rounded to the nearest unit shown, and the log is the sanitised tail.
\<close>

theorem detail_of_description:
  assumes "desc_ok d"
  shows "\<exists>rows. detail_view (Inr (reply_of (outcome wd (Inr (RDescribe d))))) = SpaceDetail rows (de_log_tail d) \<and>
    map (\<lambda>r. (dr_key r, dr_value r)) rows = shown_detail d"
proof -
  have n: "as_i64 (jnat (c_cid (de_space d))) = Some (int (c_cid (de_space d)))"
    "as_i64 (jnat (c_uid (de_space d))) = Some (int (c_uid (de_space d)))"
    "as_i64 (jnat (cpus (resources (de_manifest d)))) = Some (int (cpus (resources (de_manifest d))))"
    "as_i64 (jnat (disk_gb (resources (de_manifest d)))) = Some (int (disk_gb (resources (de_manifest d))))"
    using assms by (simp_all only: as_i64_nat desc_ok_def)
  have "map (\<lambda>r. (dr_key r, dr_value r)) (detail_rows (describe_json d)) = shown_detail d"
    using assms
    by (simp add: detail_rows_def detail_row_def shown_detail_def Let_def level_shown uptime_shown volume_shown
        memory_shown clean_shown field_str_def field_bool_def nested_field_str_def num_or_dash_def nested_num_or_dash_def
        or_dash_def app_summary_def disk_summary_def encrypted_summary_def jget_describe jget_describe_nested n)
  moreover have "is_object (describe_json d)" by (simp add: is_object_def describe_json_def Let_def)
  ultimately show ?thesis
    by (simp add: detail_view_def reply_frames reply_json_def reply_to_value_def log_tail_shown)
qed

definition ex_wording :: wording where
  "ex_wording = \<lparr>wd_msg = \<lambda>_. [], wd_detail = \<lambda>_. [], wd_app = \<lambda>_. [], wd_manifest = \<lambda>_. []\<rparr>"

definition ex_description :: description where
  "ex_description =
     \<lparr>de_space = ex_config, de_state = Running, de_manifest = ex_manifest, de_manifest_path = [''profiles'', ''web''],
      de_data_bytes = Some 1000000, de_rss_kib = Some 4096, de_uptime = Some 3700, de_log_tail = [''up'']\<rparr>"

lemma detail_of_description_witness:
  "\<exists>rows. detail_view (Inr (reply_of (outcome ex_wording (Inr (RDescribe ex_description))))) = SpaceDetail rows [''up''] \<and>
    map (\<lambda>r. (dr_key r, dr_value r)) rows = shown_detail ex_description"
proof -
  have "desc_ok ex_description"
    by (simp add: desc_ok_def ex_description_def ex_config_def ex_manifest_def)
  from detail_of_description [OF this, of ex_wording] show ?thesis by (simp add: ex_description_def)
qed

section \<open>The view of the network\<close>

definition shown_net :: "net_report \<Rightarrow> (string \<times> string) list" where
  "shown_net r =
     (let mn = nr_miyori_net r; pci = nr_pci r in
      [(KEY_BRIDGE @ ''br-spaces'', yes_no (nr_bridge r)), (KEY_BRIDGE @ ''br-captive'', yes_no (nr_captive r))] @
      map (\<lambda>t. (''Tap '' @ ts_name t, if ts_isolated t = Some True then TXT_ISOLATED else TXT_NOT_ISOLATED)) (nr_taps r) @
      [(KEY_PCI, pci_address pci @ TXT_MIDDOT @ (if pci_present pci then TXT_PLUGGED else TXT_NOT_PLUGGED) @
          TXT_DRIVER @ or_dash (pci_driver pci)),
       (''miyori-net'', if mn_running mn then TXT_UP else TXT_NOT_UP),
       (''miyori-net PID'', or_dash (map_option dec (mn_pid mn))),
       (KEY_NET_UPLINK, or_dash (mn_uplink mn)),
       (KEY_NET_TUNNEL, case mn_tunnel mn of
            None \<Rightarrow> TXT_DASH
          | Some t \<Rightarrow> ''ifc='' @ ifc t @ '' set='' @ TXT_NO @ '' route='' @ TXT_NO),
       (KEY_KILLSWITCH, TXT_COUNTERS)])"

lemma jget_net:
  fixes r :: net_report
  defines "v \<equiv> net_json r"
  shows "nested v ''bridges'' ''br-spaces'' = Some (JBool (nr_bridge r))"
    "nested v ''bridges'' ''br-captive'' = Some (JBool (nr_captive r))"
    "jget ''taps'' v = Some (JArr (map tap_json (nr_taps r)))"
    "nested v ''uplink-pci'' ''address'' = Some (JStr (pci_address (nr_pci r)))"
    "nested v ''uplink-pci'' ''present'' = Some (JBool (pci_present (nr_pci r)))"
    "nested v ''uplink-pci'' ''driver'' = Some (jopt JStr (pci_driver (nr_pci r)))"
    "nested v ''miyori-net'' ''running'' = Some (JBool (mn_running (nr_miyori_net r)))"
    "nested v ''miyori-net'' ''pid'' = Some (jopt jnat (mn_pid (nr_miyori_net r)))"
    "nested v ''miyori-net'' ''uplink'' = Some (jopt JStr (mn_uplink (nr_miyori_net r)))"
    "nested v ''miyori-net'' ''tunnel'' = Some (jopt tunnel_json (mn_tunnel (nr_miyori_net r)))"
    "nested v ''ruleset'' ''available'' = Some (JBool (rs_available (nr_ruleset r)))"
    "nested v ''ruleset'' ''text'' = Some (JStr (rs_text (nr_ruleset r)))"
    "nested v ''ruleset'' ''truncated-from'' = Some (jopt jnat (rs_truncated_from (nr_ruleset r)))"
    "jget ''killswitch_counters'' v = Some (JStr TXT_COUNTERS)"
  unfolding v_def net_json_def Let_def nested_def by (simp_all add: BRIDGE_def CAPTIVE_BRIDGE_def)

lemma tunnel_shown:
  "tunnel_value (net_json r) = (case mn_tunnel (nr_miyori_net r) of
      None \<Rightarrow> TXT_DASH | Some t \<Rightarrow> ''ifc='' @ ifc t @ '' set='' @ TXT_NO @ '' route='' @ TXT_NO)"
  by (cases "mn_tunnel (nr_miyori_net r)")
    (simp_all add: tunnel_value_def jget_net jopt_def tunnel_text_def tunnel_json_def field_str_def field_bool_def
      or_dash_def yes_no_def)

lemma as_str_jopt [simp]: "as_str (jopt JStr x) = x"
  by (simp add: jopt_def split: option.split)

lemma tap_row_shown:
  "(\<lambda>x. (dr_key x, dr_value x)) (tap_row (tap_json t)) =
     (''Tap '' @ ts_name t, if ts_isolated t = Some True then TXT_ISOLATED else TXT_NOT_ISOLATED)"
  by (simp add: tap_row_def tap_json_def net_row_def field_str_def field_bool_def or_dash_def jopt_def split: option.split)

text \<open>
  C33.  The network page says what the daemon observed, with one exception that never
  depends on it: the state of the tunnel.  The daemon sends \<open>set\<close> and \<open>route\<close> as
  texts, the manager reads them as booleans, so every tunnel is shown as not set and
  without a route.
\<close>

theorem net_of_report:
  assumes "case mn_pid (nr_miyori_net r) of Some p \<Rightarrow> p < 2 ^ 32 | None \<Rightarrow> True"
  shows "\<exists>v. net_view (Inr (reply_of (outcome wd (Inr (RNet r))))) = Inr v \<and>
    map (\<lambda>x. (dr_key x, dr_value x)) (nv_rows v) = shown_net r \<and>
    nv_ruleset_text v = rs_text (nr_ruleset r) \<and>
    (nv_ruleset_note v = [] \<longleftrightarrow> rs_available (nr_ruleset r) \<and> rs_truncated_from (nr_ruleset r) = None)"
proof -
  have p: "nested_num_or_dash (net_json r) ''miyori-net'' ''pid'' = or_dash (map_option dec (mn_pid (nr_miyori_net r)))"
    using assms by (cases "mn_pid (nr_miyori_net r)") (simp_all add: nested_num_or_dash_def jget_net jopt_def as_i64_def)
  have taps: "map ((\<lambda>x. (dr_key x, dr_value x)) \<circ> (tap_row \<circ> tap_json)) (nr_taps r) =
      map (\<lambda>t. (''Tap '' @ ts_name t, if ts_isolated t = Some True then TXT_ISOLATED else TXT_NOT_ISOLATED)) (nr_taps r)"
    using tap_row_shown by simp
  have rows: "map (\<lambda>x. (dr_key x, dr_value x)) (net_rows (net_json r)) = shown_net r"
    using taps by (simp add: net_rows_def shown_net_def net_row_def Let_def p tunnel_shown jget_net nested_bool_def
        nested_field_str_def field_str_def or_dash_def)
  have obj: "is_object (net_json r)" by (simp add: is_object_def net_json_def Let_def)
  have hint: "TXT_NO_RULESET \<noteq> []" "TXT_SHOWN \<noteq> []"
    by (simp_all add: TXT_NO_RULESET_def TXT_SHOWN_def from_chars_def)
  show ?thesis
    using rows obj hint
    by (cases "rs_truncated_from (nr_ruleset r)")
      (simp_all add: net_view_def reply_frames reply_json_def reply_to_value_def Let_def nested_field_str_def
        nested_bool_def nested_num_def jget_net jopt_def as_u64_def)
qed

definition ex_net_report :: net_report where
  "ex_net_report =
     \<lparr>nr_bridge = True, nr_captive = False, nr_taps = [],
      nr_pci = \<lparr>pci_address = ''0000:03:00.0'', pci_present = True, pci_driver = None\<rparr>,
      nr_miyori_net = \<lparr>mn_running = True, mn_pid = Some 4242, mn_uplink = None,
        mn_tunnel = Some \<lparr>ifc = ''wg0'', t_set = ''up'', route = ''default''\<rparr>\<rparr>,
      nr_ruleset = \<lparr>rs_available = True, rs_text = ''table'', rs_truncated_from = None\<rparr>\<rparr>"

lemma net_of_report_witness:
  "\<exists>v. net_view (Inr (reply_of (outcome ex_wording (Inr (RNet ex_net_report))))) = Inr v \<and> nv_ruleset_text v = ''table'' \<and>
    nv_ruleset_note v = []"
proof -
  have "case mn_pid (nr_miyori_net ex_net_report) of Some p \<Rightarrow> p < 2 ^ 32 | None \<Rightarrow> True"
    by (simp add: ex_net_report_def)
  from net_of_report [OF this, of ex_wording] show ?thesis by (auto simp: ex_net_report_def)
qed

end
