(* ===== verification/ManagerUi.thy ===== *)
theory ManagerUi
  imports ManagerView
begin

text \<open>
  The rules of the manager's window: the pure functions of
  \<open>components/manager/src/ui.rs\<close> and \<open>widgets.rs\<close>, on the rows the views give.
\<close>

section \<open>A row of the list\<close>

definition hex_channel :: "string \<Rightarrow> nat \<Rightarrow> f64" where
  "hex_channel h i =
     f64_ratio False (case hex_digits 0 (take 2 (drop i h)) of Some n \<Rightarrow> n | None \<Rightarrow> 0) 255"

definition parse_hex_color :: "string \<Rightarrow> f64 \<times> f64 \<times> f64" where
  "parse_hex_color c =
     (let half = f64_ratio False 1 2; fallback = (half, half, half)
      in case strip_prefix ''#'' c of
           None \<Rightarrow> fallback
         | Some h \<Rightarrow>
             if length h \<noteq> 6 \<or> \<not> list_all is_hexdigit h then fallback
             else (hex_channel h 0, hex_channel h 2, hex_channel h 4))"

definition space_row_text :: "SpaceRow \<Rightarrow> string" where
  "space_row_text r =
     sr_space r @ TXT_MIDDOT @ sr_state r @ TXT_MIDDOT @ sr_profile r @ '' ('' @ sr_level r @ '')''"

definition state_css_class :: "string \<Rightarrow> string" where
  "state_css_class st =
     (if st = ''running'' then ''state-running''
      else if st = ''unresponsive'' then ''state-unresponsive''
      else if st = ''stopped'' then ''state-stopped''
      else ''state-unknown'')"

definition state_text :: "string \<Rightarrow> string" where
  "state_text st =
     (if st = ''running'' then TXT_STATE_RUNNING
      else if st = ''stopped'' then TXT_STATE_STOPPED
      else if st = ''unresponsive'' then TXT_STATE_UNRESPONSIVE
      else st)"

definition space_icon :: "string \<Rightarrow> string" where
  "space_icon p =
     (if p = ''tg'' \<or> p = ''telegram'' then ''mail-send-symbolic''
      else if p = ''web'' \<or> p = ''browser'' then ''web-browser-symbolic''
      else if p = ''dev'' \<or> p = ''kali'' then ''utilities-terminal-symbolic''
      else ''application-x-executable-symbolic'')"

section \<open>What the operator may do\<close>

datatype Action = AStart | AStop | AOpenWindow | ABuild | AResetSystem | AResetAll | AUpdateImage | ADestroy

definition action_enabled :: "Action \<Rightarrow> string option \<Rightarrow> bool" where
  "action_enabled a st =
     (case a of
        ABuild \<Rightarrow> True
      | AStart \<Rightarrow> st = Some ''stopped''
      | AStop \<Rightarrow> st = Some ''running'' \<or> st = Some ''unresponsive''
      | AOpenWindow \<Rightarrow> st = Some ''running''
      | _ \<Rightarrow> st = Some ''stopped'')"

definition needs_passphrase :: "string \<Rightarrow> SpaceRow list \<Rightarrow> string \<Rightarrow> bool" where
  "needs_passphrase op sps i \<longleftrightarrow>
     (op = ''start'' \<or> op = ''reset-system'' \<or> op = ''reset-all'' \<or> op = ''update-image'') \<and>
     list_ex (\<lambda>r. sr_space r = i \<and> sr_encrypted r) sps"

datatype ConfirmKind = CkDestroy | CkResetAll | CkResetSystem | CkUpdateImage

definition confirm_message :: "ConfirmKind \<Rightarrow> string \<Rightarrow> string" where
  "confirm_message k i =
     (case k of
        CkDestroy \<Rightarrow> TXT_DESTROY @ i @ TXT_DESTROY_END
      | CkResetAll \<Rightarrow> TXT_RESET_ALL @ i @ TXT_RESET_ALL_END
      | CkResetSystem \<Rightarrow> TXT_RESET_SYSTEM @ i @ TXT_RESET_SYSTEM_END
      | CkUpdateImage \<Rightarrow> TXT_UPDATE @ i @ TXT_UPDATE_END)"

section \<open>Checks of the form\<close>

definition PRESET_LABELS :: "string list" where
  "PRESET_LABELS = [''untrusted'', ''work'', ''personal'', ''banking'', ''testing'']"

definition PRESET_COLORS :: "string list" where
  "PRESET_COLORS =
     [''#e03131'', ''#f08c00'', ''#2f9e44'', ''#0ca678'', ''#1971c2'', ''#4263eb'', ''#9c36b5'', ''#e64980'']"

definition slug_error :: "string \<Rightarrow> string option" where
  "slug_error s =
     (if s = [] then Some TXT_EMPTY
      else case SpaceId_new s of Inl _ \<Rightarrow> Some TXT_SLUG | Inr _ \<Rightarrow> None)"

definition id_error_text :: "string \<Rightarrow> string list \<Rightarrow> string option" where
  "id_error_text s existing =
     (case slug_error s of
        Some why \<Rightarrow> Some why
      | None \<Rightarrow> if s \<in> set existing then Some (TXT_SPACE_Q @ s @ TXT_EXISTS) else None)"

definition accepts_color :: "string \<Rightarrow> bool" where
  "accepts_color s = (case Color_new s of Inr _ \<Rightarrow> True | Inl _ \<Rightarrow> False)"

definition color_error :: "string \<Rightarrow> string option" where
  "color_error s = (if accepts_color s then None else Some TXT_COLOR_FORMAT)"

definition passphrase_error :: "string \<Rightarrow> string \<Rightarrow> string option" where
  "passphrase_error p c =
     (if p = [] \<and> c = [] then None else if p \<noteq> c then Some TXT_PASSPHRASES else None)"

section \<open>Profiles\<close>

datatype ProfileEligibility = Ready | NoTemplate | ManifestBroken string

definition profile_eligibility :: "ProfileRow \<Rightarrow> ProfileEligibility" where
  "profile_eligibility r =
     (if \<not> pf_manifest_ok r then ManifestBroken (case pf_error r of Some e \<Rightarrow> e | None \<Rightarrow> [])
      else if \<not> pf_template r then NoTemplate
      else Ready)"

definition profile_option_text :: "ProfileRow \<Rightarrow> string" where
  "profile_option_text r =
     (case profile_eligibility r of
        Ready \<Rightarrow> pf_profile r @ '' ('' @ or_dash (pf_level r) @ '')''
      | NoTemplate \<Rightarrow> pf_profile r @ '' ('' @ or_dash (pf_level r) @ '')'' @ TXT_NOT_BUILT
      | ManifestBroken _ \<Rightarrow> pf_profile r @ TXT_UNREADABLE)"

definition profile_row_state :: "ProfileRow \<Rightarrow> string" where
  "profile_row_state r =
     (if \<not> pf_manifest_ok r then TXT_ROW_BAD else if pf_template r then TXT_ROW_READY else TXT_ROW_BUILD)"

definition profile_info_text :: "ProfileRow \<Rightarrow> string" where
  "profile_info_text r =
     (case profile_eligibility r of
        Ready \<Rightarrow> TXT_READY @ or_dash (pf_level r) @ TXT_READY_END
      | NoTemplate \<Rightarrow> TXT_NOT_READY @ or_dash (pf_level r) @ TXT_NOT_READY_END
      | ManifestBroken e \<Rightarrow> TXT_MANIFEST_BAD @ e)"

definition profile_for_build :: "SpaceRow list \<Rightarrow> string \<Rightarrow> string option" where
  "profile_for_build sps i = map_option sr_profile (find (\<lambda>r. sr_space r = i) sps)"

definition normalize_profile_input :: "string \<Rightarrow> string option" where
  "normalize_profile_input t = (let s = trim t in if s = [] then None else Some s)"

end
