(* ===== verification/ManagerWindow.thy ===== *)
theory ManagerWindow
  imports ManagerUi
begin

text \<open>
  The window of \<open>components/manager/src/ui.rs\<close> as a state machine.  \<open>Ui\<close> has the
  cells of the struct of that name and, for every widget the code writes, what it
  shows; a function of the model is the function of the code with that name, on the
  whole state.  \<open>ui_sent\<close> are the requests handed to \<open>Daemon::send\<close>, with their ids.
  A signal GTK emits while \<open>reconciling\<close> is set finds its handler returning at once,
  so those emissions are left out; so are the runs of \<open>revalidate\<close> that one more run
  follows at once, which overwrites all they wrote.  \<open>lower\<close> is \<open>str::to_lowercase\<close>, a
  parameter because it rests on the Unicode tables.
\<close>

section \<open>Widgets\<close>

text \<open>One row of the list box of spaces (\<open>SpaceWidgets\<close>).\<close>

record SpaceWidgets =
  w_title :: string
  w_subtitle :: string
  w_color :: "f64 \<times> f64 \<times> f64"
  w_icon :: string
  w_state_class :: string
  w_reduced :: bool
  w_tooltip :: string
  w_visible :: bool

record Details =
  d_root :: bool
  d_tab :: string
  d_values :: "(string \<times> string) list"
  d_stats :: "(string \<times> string) list"
  d_level_warning :: bool
  d_log :: string
  d_header :: bool
  d_title :: string
  d_subtitle :: string
  d_icon :: string
  d_state :: string
  d_state_class :: string
  d_level :: string
  d_reduced :: bool
  d_level_tip :: string
  d_identity :: string
  d_message :: string
  d_message_visible :: bool
  d_message_empty :: bool

record NetPane =
  n_message :: string
  n_message_visible :: bool
  n_rows :: "string list"
  n_note :: string
  n_note_visible :: bool
  n_ruleset :: string

record ProfilePane =
  pp_rows :: "(string \<times> string \<times> string) list"
  pp_selected :: "string option"
  pp_message :: string
  pp_message_visible :: bool
  pp_title :: string
  pp_info :: string

record OperationPanel =
  o_visible :: bool
  o_title :: string
  o_status :: string
  o_error :: bool
  o_clock :: string
  o_spinning :: bool
  o_log :: string

record StatusBar =
  st_connection :: string
  st_connection_error :: bool
  st_text :: string
  st_tip :: string
  st_error :: bool

record Buttons =
  bt_shown :: "Action \<Rightarrow> bool"
  bt_sensitive :: "Action \<Rightarrow> bool"
  bt_create :: bool
  bt_profile_build :: bool

text \<open>The form of a new space; a hint or an error is the text of its label while it is visible.\<close>

record CreateDialog =
  f_profiles :: "ProfileRow list"
  f_options :: "string list"
  f_selected :: nat
  f_dropdown_sensitive :: bool
  f_profile_hint :: "string option"
  f_build_visible :: bool
  f_status :: "string option"
  f_id :: string
  f_id_error :: "string option"
  f_label :: string
  f_label_error :: "string option"
  f_check :: string
  f_manual :: string
  f_color_error :: "string option"
  f_seed :: string
  f_encrypt :: bool
  f_passphrase :: string
  f_confirm :: string
  f_passphrase_error :: "string option"
  f_preview_title :: string
  f_preview_subtitle :: string
  f_preview_color :: "f64 \<times> f64 \<times> f64"
  f_can_create :: bool
  f_can_build :: bool
  f_create_sensitive :: bool
  f_build_sensitive :: bool

datatype PendingKind = KCreate string bool | KPassphrase string string | KOther

record PendingAction =
  pa_id :: nat
  pa_label :: string
  pa_kind :: PendingKind
  pa_started :: nat

text \<open>The small dialogs: confirmation, passphrase (with the text of its entry) and \<open>start now?\<close>.\<close>

datatype Dialog =
    ConfirmDialog ConfirmKind string string
  | PassphraseDialog string string string bool string
  | StartDialog string bool

datatype Page = PageSpaces | PageImages | PageNetwork

record Ui =
  ui_now :: nat
  ui_next_id :: nat
  ui_sent :: "(nat \<times> json) list"
  ui_connected :: bool
  ui_closed :: bool
  ui_reconciling :: bool
  ui_page :: Page
  ui_search :: string
  ui_only_running :: bool
  ui_status :: StatusBar
  ui_panel :: OperationPanel
  ui_progress_lines :: "string list"
  ui_space_rows :: "(string \<times> SpaceWidgets) list"
  ui_list_message :: string
  ui_list_message_visible :: bool
  ui_list_unavailable :: bool
  ui_current_spaces :: "SpaceRow list"
  ui_details :: Details
  ui_selection_epoch :: nat
  ui_detail_request :: "(string \<times> nat) option"
  ui_selected :: "string option"
  ui_pending_select :: "string option"
  ui_profiles :: "ProfileRow list"
  ui_selected_profile :: "string option"
  ui_profile_pane :: ProfilePane
  ui_last_net :: "(string + NetView) option"
  ui_net_pane :: NetPane
  ui_buttons :: Buttons
  ui_latest_list :: nat
  ui_latest_detail :: nat
  ui_latest_net :: nat
  ui_latest_profiles :: nat
  ui_list_again :: bool
  ui_profiles_again :: bool
  ui_pending_action :: "PendingAction option"
  ui_create_dialog :: "CreateDialog option"
  ui_dialogs :: "Dialog list"

section \<open>Requests\<close>

definition next_request_id :: "Ui \<Rightarrow> nat \<times> Ui" where
  "next_request_id ui = (let i = ui_next_id ui + 1 in (i, ui\<lparr>ui_next_id := i\<rparr>))"

definition daemon_send :: "nat \<Rightarrow> json \<Rightarrow> Ui \<Rightarrow> Ui" where
  "daemon_send i request ui = ui\<lparr>ui_sent := ui_sent ui @ [(i, request)]\<rparr>"

definition op_request :: "string \<Rightarrow> json" where
  "op_request op = JObj [(''op'', JStr op)]"

definition space_request :: "string \<Rightarrow> string \<Rightarrow> json" where
  "space_request op i = JObj [(''op'', JStr op), (''space'', JStr i)]"

definition request_profiles_for_dialog :: "Ui \<Rightarrow> Ui" where
  "request_profiles_for_dialog ui =
     (if ui_closed ui \<or> ui_latest_profiles ui \<noteq> 0 then ui
      else let (i, ui1) = next_request_id ui
           in daemon_send i (op_request ''profiles'') (ui1\<lparr>ui_latest_profiles := i\<rparr>))"

definition refresh_list :: "Ui \<Rightarrow> Ui" where
  "refresh_list ui =
     (if ui_closed ui \<or> ui_latest_list ui \<noteq> 0 then ui
      else let (i, ui1) = next_request_id ui
           in daemon_send i (op_request ''list'') (ui1\<lparr>ui_latest_list := i\<rparr>))"

definition refresh_detail :: "string \<Rightarrow> Ui \<Rightarrow> Ui" where
  "refresh_detail space ui =
     (if ui_closed ui \<or> \<not> ui_connected ui \<or> ui_latest_detail ui \<noteq> 0 then ui
      else let (i, ui1) = next_request_id ui
           in daemon_send i (space_request ''describe'' space)
                (ui1\<lparr>ui_latest_detail := i, ui_detail_request := Some (space, ui_selection_epoch ui)\<rparr>))"

definition refresh_net :: "Ui \<Rightarrow> Ui" where
  "refresh_net ui =
     (if ui_closed ui \<or> ui_latest_net ui \<noteq> 0 then ui
      else let (i, ui1) = next_request_id ui
           in daemon_send i (op_request ''net-status'') (ui1\<lparr>ui_latest_net := i\<rparr>))"

text \<open>The three pages; activating another tab runs its handler.\<close>

definition show_page :: "Page \<Rightarrow> Ui \<Rightarrow> Ui" where
  "show_page p ui =
     (let ui1 = ui\<lparr>ui_page := p\<rparr>
      in if ui_page ui = p then ui1
         else case p of
                PageSpaces \<Rightarrow> ui1
              | PageImages \<Rightarrow> request_profiles_for_dialog ui1
              | PageNetwork \<Rightarrow> refresh_net ui1)"

definition poll_refresh :: "Ui \<Rightarrow> Ui" where
  "poll_refresh ui =
     (let ui1 = refresh_list ui;
          ui2 = (case ui_page ui1 of
                   PageNetwork \<Rightarrow> refresh_net ui1
                 | PageImages \<Rightarrow> request_profiles_for_dialog ui1
                 | PageSpaces \<Rightarrow> (case ui_selected ui1 of Some i \<Rightarrow> refresh_detail i ui1 | None \<Rightarrow> ui1))
      in if ui_create_dialog ui2 \<noteq> None then request_profiles_for_dialog ui2 else ui2)"

section \<open>Buttons\<close>

definition selected_state :: "Ui \<Rightarrow> string option" where
  "selected_state ui =
     Option.bind (ui_selected ui)
       (\<lambda>i. map_option sr_state (find (\<lambda>r. sr_space r = i) (ui_current_spaces ui)))"

definition button_visible :: "string option \<Rightarrow> Action \<Rightarrow> bool" where
  "button_visible st a =
     (case a of
        AStart \<Rightarrow> st \<noteq> Some ''running'' \<and> st \<noteq> Some ''unresponsive''
      | AOpenWindow \<Rightarrow> st = Some ''running''
      | AStop \<Rightarrow> st = Some ''running'' \<or> st = Some ''unresponsive''
      | _ \<Rightarrow> True)"

definition live :: "Ui \<Rightarrow> bool" where
  "live ui \<longleftrightarrow> ui_pending_action ui = None \<and> ui_connected ui"

definition sync_action_sensitivity :: "Ui \<Rightarrow> Ui" where
  "sync_action_sensitivity ui =
     (let st = selected_state ui
      in ui\<lparr>ui_buttons :=
               \<lparr>bt_shown = button_visible st,
                bt_sensitive = (\<lambda>a. live ui \<and> action_enabled a st),
                bt_create = live ui,
                bt_profile_build = live ui \<and>
                  (case ui_selected_profile ui of
                     None \<Rightarrow> False
                   | Some i \<Rightarrow> list_ex (\<lambda>p. pf_profile p = i \<and> pf_manifest_ok p) (ui_profiles ui))\<rparr>,
            ui_create_dialog :=
               map_option (\<lambda>f. f\<lparr>f_create_sensitive := live ui \<and> f_can_create f,
                                 f_build_sensitive := live ui \<and> f_can_build f\<rparr>) (ui_create_dialog ui)\<rparr>)"

section \<open>Operations\<close>

definition send_action :: "json \<Rightarrow> string \<Rightarrow> PendingKind \<Rightarrow> Ui \<Rightarrow> Ui" where
  "send_action request what k ui =
     (if ui_closed ui \<or> \<not> ui_connected ui \<or> ui_pending_action ui \<noteq> None then ui
      else
        let (i, ui1) = next_request_id ui;
            ui2 = ui1\<lparr>ui_pending_action := Some \<lparr>pa_id = i, pa_label = what, pa_kind = k, pa_started = ui_now ui\<rparr>,
                      ui_progress_lines := [],
                      ui_panel := \<lparr>o_visible = True, o_title = what, o_status = TXT_IN_PROGRESS, o_error = False,
                                   o_clock = ''0:00'', o_spinning = True, o_log = []\<rparr>,
                      ui_status := (ui_status ui)\<lparr>st_text := what @ TXT_ELLIPSIS, st_tip := what, st_error := False\<rparr>\<rparr>
        in daemon_send i request (sync_action_sensitivity ui2))"

definition open_passphrase_dialog :: "string \<Rightarrow> string \<Rightarrow> string \<Rightarrow> bool \<Rightarrow> Ui \<Rightarrow> Ui" where
  "open_passphrase_dialog i op what wrong ui =
     ui\<lparr>ui_dialogs := ui_dialogs ui @ [PassphraseDialog i op what wrong []]\<rparr>"

definition send_or_ask :: "string \<Rightarrow> string \<Rightarrow> Ui \<Rightarrow> Ui" where
  "send_or_ask op i ui =
     (if needs_passphrase op (ui_current_spaces ui) i
      then open_passphrase_dialog i op (op @ '' '' @ i) False ui
      else send_action (space_request op i) (op @ '' '' @ i) KOther ui)"

definition confirm_and_send :: "ConfirmKind \<Rightarrow> string \<Rightarrow> Ui \<Rightarrow> Ui" where
  "confirm_and_send k op ui =
     (case ui_selected ui of
        None \<Rightarrow> ui
      | Some i \<Rightarrow> ui\<lparr>ui_dialogs := ui_dialogs ui @ [ConfirmDialog k i op]\<rparr>)"

definition drop_dialog :: "nat \<Rightarrow> Ui \<Rightarrow> Ui" where
  "drop_dialog n ui = ui\<lparr>ui_dialogs := take n (ui_dialogs ui) @ drop (Suc n) (ui_dialogs ui)\<rparr>"

definition submit_passphrase :: "nat \<Rightarrow> string \<Rightarrow> string \<Rightarrow> string \<Rightarrow> bool \<Rightarrow> string \<Rightarrow> Ui \<Rightarrow> Ui" where
  "submit_passphrase n i op what wrong p ui =
     (let ui1 = ui\<lparr>ui_dialogs := (ui_dialogs ui)[n := PassphraseDialog i op what wrong []]\<rparr>
      in if p = [] then ui1
         else drop_dialog n
                (send_action (JObj [(''op'', JStr op), (''space'', JStr i), (''passphrase'', JStr p)]) what
                   (KPassphrase op i) ui1))"

definition prompt_start_after_create :: "string \<Rightarrow> bool \<Rightarrow> Ui \<Rightarrow> Ui" where
  "prompt_start_after_create i encrypted ui = ui\<lparr>ui_dialogs := ui_dialogs ui @ [StartDialog i encrypted]\<rparr>"

text \<open>The confirming button of dialog \<open>n\<close>.\<close>

definition confirm_dialog :: "nat \<Rightarrow> Ui \<Rightarrow> Ui" where
  "confirm_dialog n ui =
     (if length (ui_dialogs ui) \<le> n then ui
      else case ui_dialogs ui ! n of
             ConfirmDialog k i op \<Rightarrow> send_or_ask op i (drop_dialog n ui)
           | PassphraseDialog i op what wrong p \<Rightarrow> submit_passphrase n i op what wrong p ui
           | StartDialog i encrypted \<Rightarrow>
               drop_dialog n
                 (if encrypted then open_passphrase_dialog i ''start'' (TXT_STARTING @ i) False ui
                  else send_action (space_request ''start'' i) (TXT_STARTING @ i) KOther ui))"

definition start_build :: "string \<Rightarrow> Ui \<Rightarrow> Ui" where
  "start_build p ui =
     (case normalize_profile_input p of
        None \<Rightarrow> ui
      | Some q \<Rightarrow>
          send_action (JObj [(''op'', JStr ''build''), (''profile'', JStr q)]) (TXT_BUILDING @ q) KOther ui)"

fun push_lines :: "string list \<Rightarrow> string list \<Rightarrow> string list" where
  "push_lines ls [] = ls"
| "push_lines ls (t # ts) =
     (let ls1 = ls @ [take_chars 1024 t] in push_lines (if 200 < length ls1 then tl ls1 else ls1) ts)"

definition append_progress :: "string \<Rightarrow> Ui \<Rightarrow> Ui" where
  "append_progress t ui = ui\<lparr>ui_progress_lines := push_lines (ui_progress_lines ui) (lines t)\<rparr>"

definition render_progress :: "Ui \<Rightarrow> Ui" where
  "render_progress ui = ui\<lparr>ui_panel := (ui_panel ui)\<lparr>o_log := join_str [CHR 0x0A] (ui_progress_lines ui)\<rparr>\<rparr>"

definition form_status :: "string \<Rightarrow> Ui \<Rightarrow> Ui" where
  "form_status t ui = ui\<lparr>ui_create_dialog := map_option (\<lambda>f. f\<lparr>f_status := Some t\<rparr>) (ui_create_dialog ui)\<rparr>"

definition pending_is :: "nat \<Rightarrow> Ui \<Rightarrow> bool" where
  "pending_is i ui = (case ui_pending_action ui of Some a \<Rightarrow> pa_id a = i | None \<Rightarrow> False)"

definition handle_progress :: "nat \<Rightarrow> string \<Rightarrow> Ui \<Rightarrow> Ui" where
  "handle_progress i t ui =
     (if \<not> pending_is i ui then ui
      else let ui1 = append_progress t ui
           in form_status t
                (ui1\<lparr>ui_panel := (ui_panel ui1)\<lparr>o_status := t\<rparr>,
                     ui_status := (ui_status ui1)\<lparr>st_text := t, st_tip := t\<rparr>\<rparr>))"

section \<open>The form of a new space\<close>

definition form_profile :: "CreateDialog \<Rightarrow> ProfileRow option" where
  "form_profile f = (if f_selected f < length (f_profiles f) then Some (f_profiles f ! f_selected f) else None)"

text \<open>One swatch is always active.\<close>

definition effective_color :: "CreateDialog \<Rightarrow> string" where
  "effective_color f = (let manual = trim (f_manual f) in if manual \<noteq> [] then manual else f_check f)"

text \<open>What \<open>revalidate\<close> makes of the profile: may it be used, the hint, may it be built.\<close>

definition profile_check :: "ProfileRow option \<Rightarrow> bool \<times> string option \<times> bool" where
  "profile_check p =
     (case p of
        None \<Rightarrow> (False, Some TXT_NO_PROFILE, False)
      | Some r \<Rightarrow>
          (case profile_eligibility r of
             Ready \<Rightarrow> (True, None, False)
           | NoTemplate \<Rightarrow> (False, Some TXT_HINT_BUILD, True)
           | ManifestBroken e \<Rightarrow> (False, Some (TXT_HINT_BAD @ e), False)))"

definition passphrase_problem :: "CreateDialog \<Rightarrow> string option" where
  "passphrase_problem f =
     (if f_encrypt f
      then (if f_passphrase f = [] then Some TXT_ENTER_PASSPHRASE
            else passphrase_error (f_passphrase f) (f_confirm f))
      else None)"

definition revalidated :: "string list \<Rightarrow> CreateDialog \<Rightarrow> CreateDialog" where
  "revalidated existing f =
     (let (profile_ok, hint, build_visible) = profile_check (form_profile f);
          id_problem = id_error_text (f_id f) existing;
          label_problem = slug_error (f_label f);
          color_problem = color_error (effective_color f);
          pass_problem = passphrase_problem f
      in f\<lparr>f_profile_hint := hint, f_build_visible := build_visible, f_can_build := build_visible,
            f_id_error := id_problem, f_label_error := label_problem, f_color_error := color_problem,
            f_preview_title := (if f_id f = [] then TXT_YOUR_SPACE else f_id f),
            f_preview_subtitle :=
              (case form_profile f of Some p \<Rightarrow> pf_profile p | None \<Rightarrow> TXT_CHOOSE_PROFILE) @ TXT_WITH_LABEL @
              f_label f @ TXT_MIDDOT @ (if f_encrypt f then TXT_ENCRYPTED else TXT_PLAIN),
            f_preview_color := parse_hex_color (effective_color f),
            f_passphrase_error := pass_problem,
            f_can_create := profile_ok \<and> id_problem = None \<and> label_problem = None \<and>
              color_problem = None \<and> pass_problem = None\<rparr>)"

definition set_form :: "(CreateDialog \<Rightarrow> CreateDialog) \<Rightarrow> Ui \<Rightarrow> Ui" where
  "set_form g ui = ui\<lparr>ui_create_dialog := map_option g (ui_create_dialog ui)\<rparr>"

definition revalidate :: "Ui \<Rightarrow> Ui" where
  "revalidate ui =
     sync_action_sensitivity (set_form (revalidated (map sr_space (ui_current_spaces ui))) ui)"

text \<open>The entries of the form and its swatches: a change, then the handler of its signal.\<close>

definition edit_form :: "(CreateDialog \<Rightarrow> CreateDialog) \<Rightarrow> Ui \<Rightarrow> Ui" where
  "edit_form g ui = (if ui_create_dialog ui = None then ui else revalidate (set_form g ui))"

definition no_passphrases :: "CreateDialog \<Rightarrow> CreateDialog" where
  "no_passphrases f = f\<lparr>f_passphrase := [], f_confirm := []\<rparr>"

definition choose_color :: "string \<Rightarrow> CreateDialog \<Rightarrow> CreateDialog" where
  "choose_color c f = f\<lparr>f_check := c, f_manual := []\<rparr>"

definition set_encrypt :: "bool \<Rightarrow> CreateDialog \<Rightarrow> CreateDialog" where
  "set_encrypt on f = (let f1 = f\<lparr>f_encrypt := on\<rparr> in if on then f1 else no_passphrases f1)"

definition new_form :: CreateDialog where
  "new_form =
     \<lparr>f_profiles = [], f_options = [TXT_PROFILES_LOADING], f_selected = 0, f_dropdown_sensitive = False, f_profile_hint = None, f_build_visible = False,
      f_status = None, f_id = [], f_id_error = None, f_label = hd PRESET_LABELS, f_label_error = None,
      f_check = hd PRESET_COLORS, f_manual = [], f_color_error = None, f_seed = [], f_encrypt = False,
      f_passphrase = [], f_confirm = [], f_passphrase_error = None, f_preview_title = TXT_YOUR_SPACE,
      f_preview_subtitle = [], f_preview_color = parse_hex_color (hd PRESET_COLORS), f_can_create = False,
      f_can_build = False, f_create_sensitive = True, f_build_sensitive = True\<rparr>"

definition open_create_dialog :: "Ui \<Rightarrow> Ui" where
  "open_create_dialog ui =
     (if ui_create_dialog ui \<noteq> None then ui
      else request_profiles_for_dialog (revalidate (ui\<lparr>ui_create_dialog := Some new_form\<rparr>)))"

text \<open>The handler of \<open>close_request\<close>: the passphrases go, then the form.\<close>

definition close_form :: "Ui \<Rightarrow> Ui" where
  "close_form ui = (edit_form no_passphrases ui)\<lparr>ui_create_dialog := None\<rparr>"

definition seed_member :: "string \<Rightarrow> (string \<times> json) list" where
  "seed_member t = (let s = trim t in if s = [] then [] else [(''seed'', JStr s)])"

definition passphrase_member :: "CreateDialog \<Rightarrow> (string \<times> json) list" where
  "passphrase_member f =
     (let p = (if f_encrypt f then f_passphrase f else []) in if p = [] then [] else [(''passphrase'', JStr p)])"

definition create_request :: "CreateDialog \<Rightarrow> ProfileRow \<Rightarrow> json" where
  "create_request f p =
     JObj ([(''op'', JStr ''create''), (''space'', JStr (f_id f)), (''profile'', JStr (pf_profile p)),
            (''label'', JStr (f_label f)), (''color'', JStr (effective_color f))] @
           seed_member (f_seed f) @ passphrase_member f)"

definition try_submit_create :: "Ui \<Rightarrow> Ui" where
  "try_submit_create ui0 =
     (let ui = revalidate ui0
      in case ui_create_dialog ui of
           None \<Rightarrow> ui
         | Some f \<Rightarrow>
             if \<not> ui_connected ui \<or> \<not> f_can_create f \<or> ui_pending_action ui \<noteq> None then ui
             else case form_profile f of
                    None \<Rightarrow> ui
                  | Some p \<Rightarrow>
                      close_form
                        (send_action (create_request f p) (TXT_CREATING @ f_id f) (KCreate (f_id f) (f_encrypt f))
                          (edit_form no_passphrases ui)))"

section \<open>Profiles\<close>

definition update_profile_selection :: "Ui \<Rightarrow> Ui" where
  "update_profile_selection ui =
     (let found = Option.bind (ui_selected_profile ui) (\<lambda>i. find (\<lambda>p. pf_profile p = i) (ui_profiles ui));
          pane = (case found of
                    Some p \<Rightarrow> (ui_profile_pane ui)\<lparr>pp_title := pf_profile p, pp_info := profile_info_text p\<rparr>
                  | None \<Rightarrow> (ui_profile_pane ui)\<lparr>pp_title := [], pp_info := []\<rparr>)
      in sync_action_sensitivity (ui\<lparr>ui_profile_pane := pane\<rparr>))"

fun position_of :: "('a \<Rightarrow> bool) \<Rightarrow> 'a list \<Rightarrow> nat option" where
  "position_of P [] = None"
| "position_of P (x # xs) = (if P x then Some 0 else map_option Suc (position_of P xs))"

definition form_profiles :: "ProfileRow list \<Rightarrow> CreateDialog \<Rightarrow> CreateDialog" where
  "form_profiles rows f =
     (let previous = map_option pf_profile (form_profile f);
          f1 = (if f_profiles f = rows then f
                else f\<lparr>f_profiles := rows, f_options := map profile_option_text rows,
                       f_selected := (case position_of (\<lambda>p. Some (pf_profile p) = previous) rows of
                                        Some n \<Rightarrow> n | None \<Rightarrow> 0)\<rparr>)
      in f1\<lparr>f_dropdown_sensitive := f_profiles f1 \<noteq> []\<rparr>)"

definition render_profiles :: "ProfilesView \<Rightarrow> Ui \<Rightarrow> Ui" where
  "render_profiles v ui =
     (let (rows, error) = (case v of ProfilesShown rows \<Rightarrow> (rows, None) | ProfilesUnavailable m \<Rightarrow> ([], Some m));
          keeps = (case ui_selected_profile ui of
                     Some i \<Rightarrow> list_ex (\<lambda>p. pf_profile p = i) rows | None \<Rightarrow> False);
          chosen = (if keeps then ui_selected_profile ui
                    else case rows of p # _ \<Rightarrow> Some (pf_profile p) | [] \<Rightarrow> None);
          list_box = (if ui_profiles ui = rows then pp_rows (ui_profile_pane ui)
                      else map (\<lambda>p. (pf_profile p, space_icon (pf_profile p), profile_row_state p)) rows);
          pane = (ui_profile_pane ui)\<lparr>pp_rows := list_box, pp_selected := chosen,
                    pp_message := (case error of Some m \<Rightarrow> m | None \<Rightarrow> if rows = [] then TXT_NO_PROFILES else []),
                    pp_message_visible := error \<noteq> None \<or> rows = []\<rparr>;
          ui1 = update_profile_selection
                  (ui\<lparr>ui_profiles := rows, ui_selected_profile := chosen, ui_profile_pane := pane\<rparr>)
      in if ui_create_dialog ui1 = None then ui1
         else let ui2 = revalidate (set_form (form_profiles rows) ui1)
              in case error of
                   Some m \<Rightarrow> set_form (\<lambda>f. f\<lparr>f_profile_hint := Some (TXT_PROFILES_UNAVAILABLE @ m)\<rparr>) ui2
                 | None \<Rightarrow> ui2)"

section \<open>The page of a space\<close>

definition split_once :: "string \<Rightarrow> string \<Rightarrow> (string \<times> string) option" where
  "split_once sep t =
     (case find_sub sep t of Some i \<Rightarrow> Some (take i t, drop (i + length sep) t) | None \<Rightarrow> None)"

definition value_text :: "SpaceDetailRow \<Rightarrow> string" where
  "value_text r = (if dr_key r = KEY_STATE then state_text (dr_value r) else dr_value r)"

definition row_value :: "SpaceDetailRow list \<Rightarrow> string \<Rightarrow> string" where
  "row_value rows k = (case find (\<lambda>r. dr_key r = k) rows of Some r \<Rightarrow> dr_value r | None \<Rightarrow> TXT_DASH)"

text \<open>A card: what is shown large, and the note below.\<close>

definition stat_card :: "SpaceDetailRow list \<Rightarrow> string \<Rightarrow> string \<Rightarrow> string \<times> string" where
  "stat_card rows k sep =
     (let raw = row_value rows k
      in case split_once sep raw of Some (before, after) \<Rightarrow> (after, before) | None \<Rightarrow> (raw, []))"

fun set_value :: "string \<Rightarrow> string \<Rightarrow> (string \<times> string) list \<Rightarrow> (string \<times> string) list" where
  "set_value k t [] = []"
| "set_value k t ((k1, t1) # kts) = (if k1 = k then (k1, t) # kts else (k1, t1) # set_value k t kts)"

definition details_update :: "SpaceDetailRow list \<Rightarrow> Details \<Rightarrow> Details" where
  "details_update rows d =
     d\<lparr>d_values := fold (\<lambda>r. set_value (dr_key r) (value_text r)) rows (d_values d),
       d_level_warning :=
         (case find (\<lambda>r. dr_key r = KEY_LEVEL) rows of
            Some r \<Rightarrow> starts_with ''reduced'' (dr_value r)
          | None \<Rightarrow> d_level_warning d),
       d_stats := [stat_card rows KEY_MEMORY TXT_ACTUAL, stat_card rows KEY_DATA TXT_FILE,
                   (row_value rows KEY_UPTIME, TXT_SINCE_START)]\<rparr>"

definition render_detail :: "DetailView \<Rightarrow> Ui \<Rightarrow> Ui" where
  "render_detail v ui =
     (let d = ui_details ui
      in ui\<lparr>ui_details :=
           (case v of
              DetailUnavailable m \<Rightarrow>
                d\<lparr>d_message := m, d_message_empty := False, d_message_visible := True, d_root := False, d_log := []\<rparr>
            | SpaceDetail rows log_tail \<Rightarrow>
                (details_update rows d)\<lparr>d_message_visible := False, d_root := True,
                                         d_log := join_str [CHR 0x0A] log_tail\<rparr>)\<rparr>)"

definition details_of_row :: "SpaceRow \<Rightarrow> Details \<Rightarrow> Details" where
  "details_of_row r d =
     d\<lparr>d_header := True, d_title := sr_space r, d_subtitle := TXT_PROFILE_IS @ sr_profile r,
       d_icon := space_icon (sr_profile r), d_state := state_text (sr_state r),
       d_state_class := state_css_class (sr_state r), d_level := sr_level r,
       d_reduced := sr_level r = ''reduced'', d_level_tip := sr_level_reason r,
       d_identity := TXT_LABEL_IS @ sr_label r\<rparr>"

definition select_space :: "string option \<Rightarrow> Ui \<Rightarrow> Ui" where
  "select_space selected ui =
     (let changed = ui_selected ui \<noteq> selected;
          ui1 = (if changed
                 then ui\<lparr>ui_selection_epoch := ui_selection_epoch ui + 1, ui_selected := selected,
                         ui_details := (ui_details ui)\<lparr>d_root := False, d_tab := ''overview'', d_log := []\<rparr>\<rparr>
                 else ui);
          row = Option.bind selected (\<lambda>i. find (\<lambda>r. sr_space r = i) (ui_current_spaces ui1));
          ui2 = (case row of
                   Some r \<Rightarrow>
                     (let ui3 = ui1\<lparr>ui_details := details_of_row r (ui_details ui1)\<rparr>
                      in if changed \<or> \<not> d_root (ui_details ui3)
                         then refresh_detail (sr_space r)
                                (ui3\<lparr>ui_details := (ui_details ui3)\<lparr>d_message := TXT_LOADING_DETAIL,
                                        d_message_visible := True, d_message_empty := False\<rparr>\<rparr>)
                         else ui3)
                 | None \<Rightarrow>
                     ui1\<lparr>ui_details := (ui_details ui1)\<lparr>d_header := False, d_root := False, d_message_visible := True,
                            d_message := (if ui_current_spaces ui1 = [] then TXT_NO_SPACES_CLICK else TXT_NO_MATCH),
                            d_message_empty := True\<rparr>\<rparr>)
      in sync_action_sensitivity ui2)"

section \<open>The list of spaces\<close>

definition shown_by_filter :: "(string \<Rightarrow> string) \<Rightarrow> Ui \<Rightarrow> SpaceRow \<Rightarrow> bool" where
  "shown_by_filter lower ui r \<longleftrightarrow>
     (\<not> ui_only_running ui \<or> sr_state r = ''running'') \<and>
     contains_sub (lower (sr_space r @ '' '' @ sr_profile r @ '' '' @ sr_label r)) (lower (ui_search ui))"

definition set_visible_rows :: "(SpaceRow \<Rightarrow> bool) \<Rightarrow> SpaceRow list \<Rightarrow> (string \<times> SpaceWidgets) list \<Rightarrow>
    (string \<times> SpaceWidgets) list" where
  "set_visible_rows P rows ws =
     map (\<lambda>(i, w). (i, case find (\<lambda>r. sr_space r = i) (rev rows) of
                          Some r \<Rightarrow> w\<lparr>w_visible := P r\<rparr> | None \<Rightarrow> w)) ws"

definition filter_spaces :: "(string \<Rightarrow> string) \<Rightarrow> Ui \<Rightarrow> Ui" where
  "filter_spaces lower ui =
     (if ui_reconciling ui then ui
      else
        let shown = shown_by_filter lower ui;
            visible = map sr_space (filter shown (ui_current_spaces ui));
            keeps = (case ui_selected ui of Some i \<Rightarrow> i \<in> set visible | None \<Rightarrow> False);
            target = (if keeps then ui_selected ui else case visible of i # _ \<Rightarrow> Some i | [] \<Rightarrow> None);
            ui1 = select_space target
                    (ui\<lparr>ui_space_rows := set_visible_rows shown (ui_current_spaces ui) (ui_space_rows ui)\<rparr>)
        in if ui_connected ui1
           then ui1\<lparr>ui_list_message_visible := visible = [],
                    ui_list_message := (if ui_current_spaces ui1 = [] then TXT_NO_SPACES_FIRST else TXT_NOT_FOUND)\<rparr>
           else ui1)"

definition new_row :: "SpaceRow \<Rightarrow> SpaceWidgets" where
  "new_row r =
     \<lparr>w_title = sr_space r, w_subtitle = [], w_color = parse_hex_color (sr_color r), w_icon = space_icon (sr_profile r),
      w_state_class = [], w_reduced = False, w_tooltip = [], w_visible = True\<rparr>"

definition update_row :: "SpaceRow \<Rightarrow> SpaceWidgets \<Rightarrow> SpaceWidgets" where
  "update_row r w =
     w\<lparr>w_title := sr_space r, w_subtitle := state_text (sr_state r) @ TXT_MIDDOT @ sr_level r,
       w_icon := space_icon (sr_profile r), w_color := parse_hex_color (sr_color r),
       w_state_class := state_css_class (sr_state r), w_reduced := sr_level r = ''reduced'',
       w_tooltip := space_row_text r @ [CHR 0x0A] @ TXT_LABEL_IS @ sr_label r @ [CHR 0x0A] @ sr_level_reason r\<rparr>"

text \<open>\<open>ListBox::insert\<close> appends where the position is past the end.\<close>

definition insert_at :: "nat \<Rightarrow> 'a \<Rightarrow> 'a list \<Rightarrow> 'a list" where
  "insert_at n x xs = take n xs @ x # drop n xs"

definition place_row :: "nat \<Rightarrow> SpaceRow \<Rightarrow> (string \<times> SpaceWidgets) list \<Rightarrow> (string \<times> SpaceWidgets) list" where
  "place_row n r ws =
     (let i = sr_space r;
          ws1 = (if map_of ws i = None then insert_at n (i, new_row r) ws else ws);
          w = the (map_of ws1 i);
          ws2 = (if position_of (\<lambda>p. fst p = i) ws1 = Some n then ws1
                 else insert_at n (i, w) (filter (\<lambda>p. fst p \<noteq> i) ws1))
      in map (\<lambda>p. if fst p = i then (i, update_row r (snd p)) else p) ws2)"

fun place_rows :: "nat \<Rightarrow> SpaceRow list \<Rightarrow> (string \<times> SpaceWidgets) list \<Rightarrow> (string \<times> SpaceWidgets) list" where
  "place_rows n [] ws = ws"
| "place_rows n (r # rs) ws = place_rows (Suc n) rs (place_row n r ws)"

definition reconcile_rows :: "SpaceRow list \<Rightarrow> (string \<times> SpaceWidgets) list \<Rightarrow> (string \<times> SpaceWidgets) list" where
  "reconcile_rows rows ws = place_rows 0 rows (filter (\<lambda>p. fst p \<in> sr_space ` set rows) ws)"

definition render_spaces :: "(string \<Rightarrow> string) \<Rightarrow> SpacesView \<Rightarrow> Ui \<Rightarrow> Ui" where
  "render_spaces lower v ui =
     sync_action_sensitivity
       (case v of
          SpacesUnavailable m \<Rightarrow>
            (let ui1 = select_space None
                   (ui\<lparr>ui_connected := False, ui_selection_epoch := ui_selection_epoch ui + 1,
                       ui_status := (ui_status ui)\<lparr>st_connection := TXT_DISCONNECTED, st_connection_error := True\<rparr>,
                       ui_space_rows := [], ui_current_spaces := []\<rparr>)
             in ui1\<lparr>ui_list_message := m, ui_list_unavailable := True, ui_list_message_visible := True,
                    ui_details := (ui_details ui1)\<lparr>d_message := TXT_SPACES_UNAVAILABLE, d_message_empty := False\<rparr>\<rparr>)
        | SpacesShown rows \<Rightarrow>
            (let ui1 = ui\<lparr>ui_connected := True,
                     ui_status := (ui_status ui)\<lparr>st_connection := TXT_CONNECTED, st_connection_error := False\<rparr>,
                     ui_list_unavailable := False, ui_reconciling := True,
                     ui_space_rows := reconcile_rows rows (ui_space_rows ui), ui_current_spaces := rows\<rparr>;
                 ui2 = (case ui_pending_select ui1 of
                          Some i \<Rightarrow>
                            if list_ex (\<lambda>r. sr_space r = i) rows
                            then ui1\<lparr>ui_pending_select := None, ui_search := [], ui_only_running := False,
                                     ui_selected := Some i, ui_selection_epoch := ui_selection_epoch ui1 + 1,
                                     ui_details := (ui_details ui1)\<lparr>d_root := False, d_log := []\<rparr>\<rparr>
                            else ui1
                        | None \<Rightarrow> ui1)
             in filter_spaces lower (ui2\<lparr>ui_reconciling := False\<rparr>)))"

section \<open>The network\<close>

definition render_net :: "string + NetView \<Rightarrow> Ui \<Rightarrow> Ui" where
  "render_net result ui =
     (if ui_last_net ui = Some result then ui
      else
        let n = ui_net_pane ui
        in ui\<lparr>ui_last_net := Some result,
              ui_net_pane :=
                (case result of
                   Inl m \<Rightarrow>
                     n\<lparr>n_rows := [], n_message := m, n_message_visible := True, n_note_visible := False, n_ruleset := []\<rparr>
                 | Inr v \<Rightarrow>
                     n\<lparr>n_message_visible := False, n_rows := map (\<lambda>r. dr_key r @ '': '' @ dr_value r) (nv_rows v),
                       n_note := (if nv_ruleset_note v = [] then n_note n else TXT_WARNING @ nv_ruleset_note v),
                       n_note_visible := nv_ruleset_note v \<noteq> [], n_ruleset := nv_ruleset_text v\<rparr>)\<rparr>)"

section \<open>Answers\<close>

datatype Update = Progress nat string | Done nat "string + Reply"

definition is_success :: "string + Reply \<Rightarrow> bool" where
  "is_success reply = (case reply of Inr (ReplyOk _) \<Rightarrow> True | _ \<Rightarrow> False)"

definition result_message :: "string \<Rightarrow> string + Reply \<Rightarrow> string" where
  "result_message what reply =
     (case reply of
        Inl transport \<Rightarrow> transport
      | Inr (ReplyErr c m) \<Rightarrow> c @ '': '' @ m
      | Inr (ReplyOk _) \<Rightarrow> what @ TXT_DONE)"

text \<open>The end of the pending operation: its message everywhere it is shown.\<close>

definition show_result :: "bool \<Rightarrow> string \<Rightarrow> Ui \<Rightarrow> Ui" where
  "show_result success m ui =
     (let p = (ui_panel ui)\<lparr>o_spinning := False, o_status := m\<rparr>;
          st = (ui_status ui)\<lparr>st_text := m, st_tip := m\<rparr>;
          ui1 = ui\<lparr>ui_panel := (if success then p else p\<lparr>o_error := True\<rparr>),
                   ui_status := (if success then st else st\<lparr>st_error := True\<rparr>)\<rparr>
      in sync_action_sensitivity (form_status m (render_progress (append_progress m ui1))))"

text \<open>What follows a successful operation: everything is asked for again.\<close>

definition refresh_after :: "PendingAction \<Rightarrow> Ui \<Rightarrow> Ui" where
  "refresh_after a ui =
     (let ui1 = (case pa_kind a of
                   KCreate i encrypted \<Rightarrow> prompt_start_after_create i encrypted (ui\<lparr>ui_pending_select := Some i\<rparr>)
                 | _ \<Rightarrow> ui);
          ui2 = ui1\<lparr>ui_selection_epoch := ui_selection_epoch ui1 + 1\<rparr>;
          ui3 = (if ui_latest_list ui2 \<noteq> 0 then ui2\<lparr>ui_list_again := True\<rparr> else refresh_list ui2);
          ui4 = (case ui_selected ui3 of Some i \<Rightarrow> refresh_detail i ui3 | None \<Rightarrow> ui3)
      in if ui_latest_profiles ui4 \<noteq> 0 then ui4\<lparr>ui_profiles_again := True\<rparr> else request_profiles_for_dialog ui4)"

definition finish_action :: "PendingAction \<Rightarrow> string + Reply \<Rightarrow> Ui \<Rightarrow> Ui" where
  "finish_action a reply ui =
     (let ui1 = show_result (is_success reply) (result_message (pa_label a) reply) ui;
          again = (case reply of Inr (ReplyErr c _) \<Rightarrow> c = ''wrong-passphrase'' | _ \<Rightarrow> False)
      in case (again, pa_kind a) of
           (True, KPassphrase op i) \<Rightarrow> open_passphrase_dialog i op (pa_label a) True ui1
         | _ \<Rightarrow> if is_success reply then refresh_after a ui1 else ui1)"

definition list_done :: "(string \<Rightarrow> string) \<Rightarrow> string + Reply \<Rightarrow> Ui \<Rightarrow> Ui" where
  "list_done lower reply ui =
     (if ui_list_again ui then refresh_list (ui\<lparr>ui_list_again := False\<rparr>)
      else render_spaces lower (spaces_view reply) ui)"

definition detail_done :: "string + Reply \<Rightarrow> Ui \<Rightarrow> Ui" where
  "detail_done reply ui =
     (let ui1 = ui\<lparr>ui_detail_request := None\<rparr>;
          current = (case ui_detail_request ui of
                       Some (i, epoch) \<Rightarrow> ui_selected ui1 = Some i \<and> epoch = ui_selection_epoch ui1
                     | None \<Rightarrow> False)
      in if current \<and> ui_connected ui1 then render_detail (detail_view reply) ui1
         else if ui_connected ui1
         then (case ui_selected ui1 of Some i \<Rightarrow> refresh_detail i ui1 | None \<Rightarrow> ui1)
         else ui1)"

definition profiles_done :: "string + Reply \<Rightarrow> Ui \<Rightarrow> Ui" where
  "profiles_done reply ui =
     (if ui_profiles_again ui then request_profiles_for_dialog (ui\<lparr>ui_profiles_again := False\<rparr>)
      else render_profiles (profiles_view reply) ui)"

definition handle_done :: "(string \<Rightarrow> string) \<Rightarrow> nat \<Rightarrow> string + Reply \<Rightarrow> Ui \<Rightarrow> Ui" where
  "handle_done lower i reply ui =
     (if i = 0 \<or> ui_closed ui then ui
      else if i = ui_latest_list ui then list_done lower reply (ui\<lparr>ui_latest_list := 0\<rparr>)
      else if i = ui_latest_detail ui then detail_done reply (ui\<lparr>ui_latest_detail := 0\<rparr>)
      else if i = ui_latest_net ui then render_net (net_view reply) (ui\<lparr>ui_latest_net := 0\<rparr>)
      else if i = ui_latest_profiles ui then profiles_done reply (ui\<lparr>ui_latest_profiles := 0\<rparr>)
      else case ui_pending_action ui of
             Some a \<Rightarrow> if pa_id a = i then finish_action a reply (ui\<lparr>ui_pending_action := None\<rparr>) else ui
           | None \<Rightarrow> ui)"

definition handle_update :: "(string \<Rightarrow> string) \<Rightarrow> Update \<Rightarrow> Ui \<Rightarrow> Ui" where
  "handle_update lower u ui =
     (case u of Progress i t \<Rightarrow> handle_progress i t ui | Done i reply \<Rightarrow> handle_done lower i reply ui)"

definition is_progress :: "Update \<Rightarrow> bool" where
  "is_progress u = (case u of Progress _ _ \<Rightarrow> True | Done _ _ \<Rightarrow> False)"

definition show_clock :: "Ui \<Rightarrow> Ui" where
  "show_clock ui =
     (case ui_pending_action ui of
        None \<Rightarrow> ui
      | Some a \<Rightarrow>
          (let secs = ui_now ui - pa_started a
           in ui\<lparr>ui_panel := (ui_panel ui)\<lparr>o_clock := dec (secs div 60) @ '':'' @ dec_pad 2 (secs mod 60)\<rparr>\<rparr>))"

text \<open>The timer of 100 ms takes at most 64 updates off the channel; what is left stays there.\<close>

definition poll_updates :: "(string \<Rightarrow> string) \<Rightarrow> Update list \<Rightarrow> Ui \<Rightarrow> Ui \<times> Update list" where
  "poll_updates lower channel ui =
     (if ui_closed ui then (ui, channel)
      else
        let batch = take 64 channel;
            ui1 = fold (handle_update lower) batch ui;
            ui2 = (if list_ex is_progress batch then render_progress ui1 else ui1)
        in (show_clock ui2, drop 64 channel))"

section \<open>Signals\<close>

datatype FormEdit =
    EditId string | EditLabel string | EditManual string | EditPassphrase string | EditConfirm string
  | ChooseColor string | ChooseProfile nat | SetEncrypt bool | SetSeed string

definition form_edit :: "FormEdit \<Rightarrow> Ui \<Rightarrow> Ui" where
  "form_edit e ui =
     (case e of
        EditId t \<Rightarrow> edit_form (\<lambda>f. f\<lparr>f_id := t\<rparr>) ui
      | EditLabel t \<Rightarrow> edit_form (\<lambda>f. f\<lparr>f_label := t\<rparr>) ui
      | EditManual t \<Rightarrow> edit_form (\<lambda>f. f\<lparr>f_manual := t\<rparr>) ui
      | EditPassphrase t \<Rightarrow> edit_form (\<lambda>f. f\<lparr>f_passphrase := t\<rparr>) ui
      | EditConfirm t \<Rightarrow> edit_form (\<lambda>f. f\<lparr>f_confirm := t\<rparr>) ui
      | ChooseColor c \<Rightarrow> edit_form (choose_color c) ui
      | ChooseProfile n \<Rightarrow> edit_form (\<lambda>f. f\<lparr>f_selected := n\<rparr>) ui
      | SetEncrypt on \<Rightarrow> edit_form (set_encrypt on) ui
      | SetSeed t \<Rightarrow> set_form (\<lambda>f. f\<lparr>f_seed := t\<rparr>) ui)"

datatype Signal =
    SpaceRowSelected "string option"
  | ProfileRowSelected "string option"
  | TabToggled Page
  | SearchChanged string
  | FilterToggled bool
  | CreateClicked
  | ActivityClicked
  | ProfileBuildClicked
  | SpaceClicked Action
  | MenuClicked Action
  | BuildClicked
  | CtrlF
  | CloseRequest
  | FiveSeconds
  | DialogConfirmed nat
  | DialogCancelled nat
  | PassphraseTyped nat string
  | FormEdited FormEdit
  | FormBuildClicked
  | FormCreateClicked
  | FormClosed

text \<open>The operation behind a button of the page of a space.\<close>

definition action_op :: "Action \<Rightarrow> string" where
  "action_op a =
     (case a of
        AStart \<Rightarrow> ''start'' | AStop \<Rightarrow> ''stop'' | AOpenWindow \<Rightarrow> ''open-window'' | ABuild \<Rightarrow> ''build''
      | AResetSystem \<Rightarrow> ''reset-system'' | AResetAll \<Rightarrow> ''reset-all'' | AUpdateImage \<Rightarrow> ''update-image''
      | ADestroy \<Rightarrow> ''destroy'')"

definition confirm_kind :: "string \<Rightarrow> ConfirmKind" where
  "confirm_kind op =
     (if op = ''update-image'' then CkUpdateImage
      else if op = ''reset-system'' then CkResetSystem
      else if op = ''reset-all'' then CkResetAll
      else CkDestroy)"

definition build_clicked :: "Ui \<Rightarrow> Ui" where
  "build_clicked ui =
     (let ui1 = show_page PageImages ui;
          found = Option.bind (ui_selected ui1) (profile_for_build (ui_current_spaces ui1));
          ui2 = (case found of Some p \<Rightarrow> ui1\<lparr>ui_selected_profile := Some p\<rparr> | None \<Rightarrow> ui1)
      in request_profiles_for_dialog ui2)"

definition type_passphrase :: "string \<Rightarrow> Dialog \<Rightarrow> Dialog" where
  "type_passphrase t d =
     (case d of PassphraseDialog i op what wrong _ \<Rightarrow> PassphraseDialog i op what wrong t | _ \<Rightarrow> d)"

definition handle_signal :: "(string \<Rightarrow> string) \<Rightarrow> Signal \<Rightarrow> Ui \<Rightarrow> Ui" where
  "handle_signal lower s ui =
     (case s of
        SpaceRowSelected i \<Rightarrow> if ui_reconciling ui then ui else select_space i ui
      | ProfileRowSelected i \<Rightarrow>
          if ui_reconciling ui then ui
          else update_profile_selection (ui\<lparr>ui_selected_profile := i,
                 ui_profile_pane := (ui_profile_pane ui)\<lparr>pp_selected := i\<rparr>\<rparr>)
      | TabToggled p \<Rightarrow> show_page p ui
      | SearchChanged t \<Rightarrow> filter_spaces lower (ui\<lparr>ui_search := t\<rparr>)
      | FilterToggled on \<Rightarrow> filter_spaces lower (ui\<lparr>ui_only_running := on\<rparr>)
      | CreateClicked \<Rightarrow> open_create_dialog ui
      | ActivityClicked \<Rightarrow> request_profiles_for_dialog (show_page PageImages ui)
      | ProfileBuildClicked \<Rightarrow> (case ui_selected_profile ui of Some p \<Rightarrow> start_build p ui | None \<Rightarrow> ui)
      | SpaceClicked a \<Rightarrow> (case ui_selected ui of Some i \<Rightarrow> send_or_ask (action_op a) i ui | None \<Rightarrow> ui)
      | MenuClicked a \<Rightarrow> confirm_and_send (confirm_kind (action_op a)) (action_op a) ui
      | BuildClicked \<Rightarrow> build_clicked ui
      | CtrlF \<Rightarrow> show_page PageSpaces ui
      | CloseRequest \<Rightarrow> close_form (ui\<lparr>ui_closed := True\<rparr>)
      | FiveSeconds \<Rightarrow> if ui_closed ui then ui else poll_refresh ui
      | DialogConfirmed n \<Rightarrow> confirm_dialog n ui
      | DialogCancelled n \<Rightarrow> drop_dialog n ui
      | PassphraseTyped n t \<Rightarrow> ui\<lparr>ui_dialogs := (ui_dialogs ui)[n := type_passphrase t (ui_dialogs ui ! n)]\<rparr>
      | FormEdited e \<Rightarrow> form_edit e ui
      | FormBuildClicked \<Rightarrow>
          (case Option.bind (ui_create_dialog ui) form_profile of
             Some p \<Rightarrow> start_build (pf_profile p) ui
           | None \<Rightarrow> ui)
      | FormCreateClicked \<Rightarrow> try_submit_create ui
      | FormClosed \<Rightarrow> close_form ui)"

text \<open>GTK emits the signal of a button only while it is sensitive and visible.\<close>

definition click_allowed :: "Signal \<Rightarrow> Ui \<Rightarrow> bool" where
  "click_allowed s ui =
     (case s of
        SpaceClicked a \<Rightarrow>
          a \<in> {AStart, AStop, AOpenWindow} \<and> bt_sensitive (ui_buttons ui) a \<and> bt_shown (ui_buttons ui) a
      | MenuClicked a \<Rightarrow>
          a \<in> {AUpdateImage, AResetSystem, AResetAll, ADestroy} \<and> bt_sensitive (ui_buttons ui) a
      | BuildClicked \<Rightarrow> bt_sensitive (ui_buttons ui) ABuild
      | CreateClicked \<Rightarrow> bt_create (ui_buttons ui)
      | ProfileBuildClicked \<Rightarrow> bt_profile_build (ui_buttons ui)
      | FormCreateClicked \<Rightarrow> (case ui_create_dialog ui of Some f \<Rightarrow> f_create_sensitive f | None \<Rightarrow> False)
      | FormBuildClicked \<Rightarrow>
          (case ui_create_dialog ui of Some f \<Rightarrow> f_build_sensitive f \<and> f_build_visible f | None \<Rightarrow> False)
      | _ \<Rightarrow> True)"

section \<open>The window\<close>

definition template_rows :: "SpaceDetailRow list" where
  "template_rows =
     (case detail_view (Inr (ReplyOk (JObj []))) of SpaceDetail rows _ \<Rightarrow> rows | DetailUnavailable _ \<Rightarrow> [])"

definition new_details :: "SpaceDetailRow list \<Rightarrow> Details" where
  "new_details rows =
     \<lparr>d_root = False, d_tab = ''overview'', d_values = map (\<lambda>r. (dr_key r, TXT_DASH)) rows,
      d_stats = [(TXT_DASH, []), (TXT_DASH, []), (TXT_DASH, [])], d_level_warning = False, d_log = [],
      d_header = False, d_title = [], d_subtitle = [], d_icon = [], d_state = [], d_state_class = [], d_level = [],
      d_reduced = False, d_level_tip = [], d_identity = [], d_message = TXT_LOADING_SPACES,
      d_message_visible = True, d_message_empty = False\<rparr>"

definition new_ui :: Ui where
  "new_ui =
     \<lparr>ui_now = 0, ui_next_id = 0, ui_sent = [], ui_connected = False, ui_closed = False, ui_reconciling = False,
      ui_page = PageSpaces, ui_search = [], ui_only_running = False,
      ui_status = \<lparr>st_connection = TXT_CONNECTING, st_connection_error = False, st_text = [], st_tip = [], st_error = False\<rparr>,
      ui_panel = \<lparr>o_visible = False, o_title = [], o_status = [], o_error = False, o_clock = [], o_spinning = False, o_log = []\<rparr>,
      ui_progress_lines = [], ui_space_rows = [], ui_list_message = TXT_LOADING_SPACES, ui_list_message_visible = True,
      ui_list_unavailable = False, ui_current_spaces = [], ui_details = new_details template_rows,
      ui_selection_epoch = 0, ui_detail_request = None, ui_selected = None, ui_pending_select = None, ui_profiles = [],
      ui_selected_profile = None,
      ui_profile_pane = \<lparr>pp_rows = [], pp_selected = None, pp_message = TXT_LOADING_PROFILES, pp_message_visible = True,
                         pp_title = [], pp_info = []\<rparr>,
      ui_last_net = None,
      ui_net_pane = \<lparr>n_message = [], n_message_visible = False, n_rows = [], n_note = [], n_note_visible = False, n_ruleset = []\<rparr>,
      ui_buttons = \<lparr>bt_shown = (\<lambda>_. True), bt_sensitive = (\<lambda>_. True), bt_create = True, bt_profile_build = False\<rparr>,
      ui_latest_list = 0, ui_latest_detail = 0, ui_latest_net = 0, ui_latest_profiles = 0, ui_list_again = False,
      ui_profiles_again = False, ui_pending_action = None, ui_create_dialog = None, ui_dialogs = []\<rparr>"

definition build_window :: Ui where
  "build_window = sync_action_sensitivity (refresh_list new_ui)"

end
