(* ===== verification/ManagerInv.thy ===== *)
theory ManagerInv
  imports ManagerWindow LabelFont
begin

text \<open>
  What every operation of the manager's window keeps: the book-keeping of the requests
  under way, whose details are shown, the bounds of the progress log, and the
  sensitivity of the buttons.
\<close>

section \<open>Requests under way\<close>

definition pending_id :: "Ui \<Rightarrow> nat" where
  "pending_id ui = (case ui_pending_action ui of Some a \<Rightarrow> pa_id a | None \<Rightarrow> 0)"

definition slot_ids :: "Ui \<Rightarrow> nat list" where
  "slot_ids ui = [ui_latest_list ui, ui_latest_detail ui, ui_latest_net ui, ui_latest_profiles ui, pending_id ui]"

definition busy :: "Ui \<Rightarrow> nat list" where
  "busy ui = filter (\<lambda>i. i \<noteq> 0) (slot_ids ui)"

definition slots_ok :: "Ui \<Rightarrow> bool" where
  "slots_ok ui \<longleftrightarrow>
     map fst (ui_sent ui) = [1..<Suc (ui_next_id ui)] \<and> distinct (busy ui) \<and> set (busy ui) \<subseteq> {1..ui_next_id ui} \<and>
     (ui_latest_list ui \<noteq> 0 \<longrightarrow> (ui_latest_list ui, op_request ''list'') \<in> set (ui_sent ui)) \<and>
     (ui_latest_net ui \<noteq> 0 \<longrightarrow> (ui_latest_net ui, op_request ''net-status'') \<in> set (ui_sent ui)) \<and>
     (ui_latest_profiles ui \<noteq> 0 \<longrightarrow> (ui_latest_profiles ui, op_request ''profiles'') \<in> set (ui_sent ui)) \<and>
     (ui_latest_detail ui \<noteq> 0 \<longrightarrow>
        (\<exists>s e. ui_detail_request ui = Some (s, e) \<and> (ui_latest_detail ui, space_request ''describe'' s) \<in> set (ui_sent ui))) \<and>
     (ui_pending_action ui \<noteq> None \<longrightarrow> pending_id ui \<noteq> 0)"

definition lines_ok :: "string list \<Rightarrow> bool" where
  "lines_ok ls \<longleftrightarrow> length ls \<le> 200 \<and> list_all (\<lambda>t. char_count t \<le> 1024) ls"

text \<open>What only operations that ask for something, or that show an answer, change.\<close>

definition core :: "Ui \<Rightarrow> nat \<times> (nat \<times> json) list \<times> bool \<times> bool \<times> (nat \<times> nat \<times> nat \<times> nat) \<times> (string \<times> nat) option \<times>
    PendingAction option" where
  "core ui = (ui_next_id ui, ui_sent ui, ui_closed ui, ui_reconciling ui,
     (ui_latest_list ui, ui_latest_detail ui, ui_latest_net ui, ui_latest_profiles ui), ui_detail_request ui,
     ui_pending_action ui)"

definition same_details :: "Ui \<Rightarrow> Ui \<Rightarrow> bool" where
  "same_details u v \<longleftrightarrow>
     map fst (d_values (ui_details v)) = map fst (d_values (ui_details u)) \<and>
     (d_root (ui_details v) \<longrightarrow>
        d_root (ui_details u) \<and> ui_selected v = ui_selected u \<and> d_values (ui_details v) = d_values (ui_details u) \<and>
        d_log (ui_details v) = d_log (ui_details u))"

definition asks :: "Ui \<Rightarrow> Ui \<Rightarrow> bool" where
  "asks u v \<longleftrightarrow>
     (\<exists>new. ui_sent v = ui_sent u @ new \<and> set (busy v) = set (busy u) \<union> fst ` set new \<and> (ui_closed u \<longrightarrow> new = []))"

definition calm :: "Ui \<Rightarrow> Ui \<Rightarrow> bool" where
  "calm u v \<longleftrightarrow>
     (slots_ok u \<longrightarrow> slots_ok v) \<and> asks u v \<and> same_details u v \<and>
     (lines_ok (ui_progress_lines u) \<longrightarrow> lines_ok (ui_progress_lines v)) \<and>
     ui_closed v = ui_closed u \<and> (\<not> ui_reconciling u \<longrightarrow> \<not> ui_reconciling v)"

lemma calm_refl: "calm u u"
  by (auto simp: calm_def asks_def same_details_def)

lemma asks_trans: "asks u v \<Longrightarrow> asks v w \<Longrightarrow> (ui_closed u \<longrightarrow> ui_closed v) \<Longrightarrow> asks u w"
  unfolding asks_def by (elim exE conjE, rename_tac n m, rule_tac x = "n @ m" in exI) auto

lemma calm_trans: "calm u v \<Longrightarrow> calm v w \<Longrightarrow> calm u w"
  unfolding calm_def by (intro conjI; (elim conjE)?) (auto intro: asks_trans simp: same_details_def)

text \<open>An update of widgets.\<close>

lemma busy_core: "core u = core v \<Longrightarrow> busy u = busy v"
  by (simp add: busy_def slot_ids_def pending_id_def core_def)

lemma slots_ok_core: "core u = core v \<Longrightarrow> slots_ok u = slots_ok v"
  by (simp add: slots_ok_def busy_def slot_ids_def pending_id_def core_def)

lemma calm_core:
  assumes "core u = core v" "same_details u v"
    "lines_ok (ui_progress_lines u) \<longrightarrow> lines_ok (ui_progress_lines v)"
  shows "calm u v"
proof -
  have "asks u v"
    using assms(1) busy_core [OF assms(1)] unfolding asks_def by (intro exI [of _ "[]"]) (simp add: core_def)
  then show ?thesis using assms slots_ok_core [OF assms(1)] by (simp add: calm_def core_def)
qed

lemma calmI:
  assumes "slots_ok u \<longrightarrow> slots_ok v" "asks u v" "same_details u v"
    "lines_ok (ui_progress_lines u) \<longrightarrow> lines_ok (ui_progress_lines v)" "ui_closed v = ui_closed u"
    "ui_reconciling v = ui_reconciling u"
  shows "calm u v"
  using assms by (simp add: calm_def)

lemmas slot_defs = slots_ok_def busy_def slot_ids_def pending_id_def asks_def same_details_def next_request_id_def daemon_send_def

lemma calm_refresh_list: "calm u (refresh_list u)"
proof (cases "ui_closed u \<or> ui_latest_list u \<noteq> 0")
  case False
  then show ?thesis by (intro calmI) (auto simp: refresh_list_def Let_def slot_defs)
qed (simp add: refresh_list_def calm_refl)

lemma calm_refresh_net: "calm u (refresh_net u)"
proof (cases "ui_closed u \<or> ui_latest_net u \<noteq> 0")
  case False
  then show ?thesis by (intro calmI) (auto simp: refresh_net_def Let_def slot_defs)
qed (simp add: refresh_net_def calm_refl)

lemma calm_refresh_profiles: "calm u (request_profiles_for_dialog u)"
proof (cases "ui_closed u \<or> ui_latest_profiles u \<noteq> 0")
  case False
  then show ?thesis by (intro calmI) (auto simp: request_profiles_for_dialog_def Let_def slot_defs)
qed (simp add: request_profiles_for_dialog_def calm_refl)

lemma calm_refresh_detail: "calm u (refresh_detail s u)"
proof (cases "ui_closed u \<or> \<not> ui_connected u \<or> ui_latest_detail u \<noteq> 0")
  case False
  then show ?thesis by (intro calmI) (auto simp: refresh_detail_def Let_def slot_defs)
qed (simp add: refresh_detail_def calm_refl)

lemma calm_sync: "calm u (sync_action_sensitivity u)"
  by (rule calm_core) (simp_all add: sync_action_sensitivity_def core_def same_details_def Let_def)

lemma calm_send_action: "calm u (send_action r w k u)"
proof (cases "ui_closed u \<or> \<not> ui_connected u \<or> ui_pending_action u \<noteq> None")
  case False
  then show ?thesis
    by (intro calmI)
      (auto simp: send_action_def sync_action_sensitivity_def Let_def slot_defs lines_ok_def)
qed (auto simp: send_action_def calm_refl)

section \<open>A relation every operation respects\<close>

text \<open>
  The operations are composed of a few that ask the daemon, select a space or touch
  the form, and of writes to cells and widgets that no rule speaks about.  A relation
  that respects the former respects them all.
\<close>

definition ruled :: "Ui \<Rightarrow> (nat \<times> (nat \<times> json) list \<times> bool \<times> bool \<times> (nat \<times> nat \<times> nat \<times> nat) \<times> (string \<times> nat) option \<times>
    PendingAction option) \<times> string list \<times> bool \<times> SpaceRow list \<times> string option \<times> Details \<times> Buttons \<times> CreateDialog option" where
  "ruled ui = (core ui, ui_progress_lines ui, ui_connected ui, ui_current_spaces ui, ui_selected ui, ui_details ui,
     ui_buttons ui, ui_create_dialog ui)"

definition flags :: "CreateDialog \<Rightarrow> bool \<times> bool \<times> bool \<times> bool" where
  "flags f = (f_can_create f, f_can_build f, f_create_sensitive f, f_build_sensitive f)"

locale window_rule =
  fixes R :: "Ui \<Rightarrow> Ui \<Rightarrow> bool"
  assumes refl: "R u u"
    and trans: "R u v \<Longrightarrow> R v w \<Longrightarrow> R u w"
    and quiet: "ruled u = ruled v \<Longrightarrow> R u v"
    and refresh_list: "R u (refresh_list u)"
    and refresh_detail: "R u (refresh_detail i u)"
    and refresh_net: "R u (refresh_net u)"
    and refresh_profiles: "R u (request_profiles_for_dialog u)"
    and send_action: "R u (send_action r what k u)"
    and sync: "R u (sync_action_sensitivity u)"
    and select_space: "R u (select_space x u)"
    and append_progress: "R u (append_progress t u)"
    and form_note: "(\<And>f. flags (g f) = flags f) \<Longrightarrow> R u (set_form g u)"
    and revalidate: "R u (revalidate (u\<lparr>ui_create_dialog := d\<rparr>))"
    and no_form: "R u (u\<lparr>ui_create_dialog := None\<rparr>)"
begin

lemma after: "R u v \<Longrightarrow> ruled w = ruled v \<Longrightarrow> R u w"
  using trans quiet by metis

lemma before: "ruled u = ruled v \<Longrightarrow> R v w \<Longrightarrow> R u w"
  using trans quiet by metis

lemma show_page: "R u (show_page p u)"
proof -
  let ?v = "u\<lparr>ui_page := p\<rparr>"
  have q: "R u ?v" by (rule quiet) (simp add: ruled_def core_def)
  show ?thesis
    using q trans [OF q refresh_profiles] trans [OF q refresh_net]
    by (auto simp: show_page_def Let_def split: Page.split)
qed

lemma poll_refresh: "R u (poll_refresh u)"
proof -
  have ask: "R u (case ui_page v of PageNetwork \<Rightarrow> refresh_net v | PageImages \<Rightarrow> request_profiles_for_dialog v
      | PageSpaces \<Rightarrow> (case ui_selected v of Some i \<Rightarrow> refresh_detail i v | None \<Rightarrow> v))" if "R u v" for v
    using that trans [OF that refresh_net] trans [OF that refresh_profiles] trans [OF that refresh_detail]
    by (auto split: Page.split option.split)
  show ?thesis
    using ask [OF refresh_list] trans [OF ask [OF refresh_list] refresh_profiles]
    by (simp add: poll_refresh_def Let_def)
qed

lemma dialogs: "R u (u\<lparr>ui_dialogs := ds\<rparr>)"
  by (rule quiet) (simp add: ruled_def core_def)

lemma drop_dialog: "R u (drop_dialog n u)"
  by (simp add: drop_dialog_def dialogs)

lemma open_passphrase: "R u (open_passphrase_dialog i op w b u)"
  by (simp add: open_passphrase_dialog_def dialogs)

lemma send_or_ask: "R u (send_or_ask op i u)"
  by (simp add: send_or_ask_def open_passphrase send_action)

lemma submit_passphrase: "R u (submit_passphrase n i op w b p u)"
  unfolding submit_passphrase_def Let_def
  by (auto intro: dialogs trans [OF trans [OF dialogs send_action] drop_dialog])

lemma confirm_dialog: "R u (confirm_dialog n u)"
  unfolding confirm_dialog_def
  by (auto intro: refl trans [OF drop_dialog send_or_ask] submit_passphrase trans [OF open_passphrase drop_dialog]
      trans [OF send_action drop_dialog] split: Dialog.split)

lemma confirm_and_send: "R u (confirm_and_send k op u)"
  by (simp add: confirm_and_send_def refl dialogs split: option.split)

lemma start_build: "R u (start_build p u)"
  by (simp add: start_build_def refl send_action split: option.split)

lemma build_clicked: "R u (build_clicked u)"
proof -
  have "R u (case x of Some p \<Rightarrow> (show_page PageImages u)\<lparr>ui_selected_profile := Some p\<rparr> | None \<Rightarrow> show_page PageImages u)" for x
    using show_page by (auto split: option.split intro: after [OF show_page] simp: ruled_def core_def)
  then show ?thesis unfolding build_clicked_def Let_def by (rule trans [OF _ refresh_profiles])
qed

lemma edit_form: "R u (edit_form g u)"
  using revalidate by (simp add: edit_form_def refl set_form_def)

lemma form_edit: "R u (form_edit e u)"
  by (cases e) (simp_all add: form_edit_def edit_form form_note flags_def)

lemma open_create_dialog: "R u (open_create_dialog u)"
  using trans [OF revalidate refresh_profiles] by (simp add: open_create_dialog_def refl)

lemma close_form: "R u (close_form u)"
  using trans [OF edit_form no_form] by (simp add: close_form_def)

lemma revalidated_again: "R u (ManagerWindow.revalidate u)"
  using revalidate [of u "ui_create_dialog u"] by simp

lemma try_submit_create: "R u (try_submit_create u)"
  unfolding try_submit_create_def Let_def
  by (auto intro: revalidated_again trans [OF trans [OF trans [OF revalidated_again edit_form] send_action] close_form]
      split: option.split)

lemma filter_spaces: "R u (filter_spaces lower u)"
proof -
  have s: "R u (select_space x (u\<lparr>ui_space_rows := ws\<rparr>))" for x ws
    by (rule before [OF _ select_space]) (simp add: ruled_def core_def)
  have "R u (select_space x (u\<lparr>ui_space_rows := ws\<rparr>)\<lparr>ui_list_message_visible := b, ui_list_message := t\<rparr>)" for x ws b t
    by (rule after [OF s]) (simp add: ruled_def core_def)
  with s show ?thesis by (simp add: filter_spaces_def Let_def refl)
qed

lemma update_profile_selection: "R u (update_profile_selection u)"
  unfolding update_profile_selection_def Let_def
  by (rule before [OF _ sync]) (simp add: ruled_def core_def)

lemma form_status: "R u (form_status t u)"
  using form_note [of "\<lambda>f. f\<lparr>f_status := Some t\<rparr>" u] by (simp add: form_status_def set_form_def flags_def)

lemma render_profiles: "R u (render_profiles v u)"
proof -
  have p: "R u (update_profile_selection (u\<lparr>ui_profiles := rows, ui_selected_profile := c, ui_profile_pane := pane\<rparr>))"
    for rows c pane
    by (rule before [OF _ update_profile_selection]) (simp add: ruled_def core_def)
  have f: "R w (ManagerWindow.revalidate (set_form g w))" for g w
    using revalidate by (simp add: set_form_def)
  have h: "R w (set_form (\<lambda>f. f\<lparr>f_profile_hint := x\<rparr>) (ManagerWindow.revalidate (set_form g w)))" for x g w
    by (rule trans [OF f form_note]) (simp add: flags_def)
  show ?thesis
    by (cases v) (simp_all add: render_profiles_def Let_def p trans [OF p f] trans [OF p h])
qed

lemma render_net: "R u (render_net v u)"
  unfolding render_net_def Let_def by (auto intro: refl quiet simp: ruled_def core_def)

lemma handle_progress: "R u (handle_progress i t u)"
proof -
  have "R u ((append_progress t u)\<lparr>ui_panel := p, ui_status := st\<rparr>)" for p st
    by (rule after [OF append_progress]) (simp add: ruled_def core_def)
  then show ?thesis by (simp add: handle_progress_def Let_def refl trans [OF _ form_status])
qed

lemma render_progress: "R u (render_progress u)"
  by (rule quiet) (simp add: render_progress_def ruled_def core_def)

lemma show_clock: "R u (show_clock u)"
  by (simp add: show_clock_def refl Let_def split: option.split, intro allI impI quiet)
    (simp add: ruled_def core_def)

lemma show_result: "R u (show_result b m u)"
proof -
  have "R u (u\<lparr>ui_panel := p, ui_status := st\<rparr>)" for p st
    by (rule quiet) (simp add: ruled_def core_def)
  then have "R u (sync_action_sensitivity (ManagerWindow.form_status m (ManagerWindow.render_progress
      (ManagerWindow.append_progress m (u\<lparr>ui_panel := p, ui_status := st\<rparr>)))))" for p st
    by (rule trans [OF trans [OF trans [OF trans [OF _ append_progress] render_progress] form_status] sync])
  then show ?thesis by (simp add: show_result_def Let_def)
qed

lemma refresh_after: "R u (refresh_after a u)"
proof -
  define u1 where "u1 = (case pa_kind a of
      KCreate i encrypted \<Rightarrow> prompt_start_after_create i encrypted (u\<lparr>ui_pending_select := Some i\<rparr>) | _ \<Rightarrow> u)"
  define u2 where "u2 = u1\<lparr>ui_selection_epoch := ui_selection_epoch u1 + 1\<rparr>"
  define u3 where "u3 = (if ui_latest_list u2 \<noteq> 0 then u2\<lparr>ui_list_again := True\<rparr> else ManagerWindow.refresh_list u2)"
  define u4 where "u4 = (case ui_selected u3 of Some i \<Rightarrow> ManagerWindow.refresh_detail i u3 | None \<Rightarrow> u3)"
  have "R u u2"
    by (rule quiet)
      (auto simp: u2_def u1_def ruled_def core_def prompt_start_after_create_def split: PendingKind.split)
  moreover have "R u2 u3"
    using refresh_list by (auto simp: u3_def ruled_def core_def intro: quiet)
  moreover have "R u3 u4"
    by (auto simp: u4_def refl refresh_detail split: option.split)
  ultimately have r: "R u u4" by (blast intro: trans)
  have "R u4 (u4\<lparr>ui_profiles_again := True\<rparr>)"
    by (rule quiet) (simp add: ruled_def core_def)
  then have "R u (if ui_latest_profiles u4 \<noteq> 0 then u4\<lparr>ui_profiles_again := True\<rparr> else request_profiles_for_dialog u4)"
    using trans [OF r] refresh_profiles by simp
  then show ?thesis
    unfolding refresh_after_def Let_def u4_def u3_def u2_def u1_def .
qed

lemma after_result: "R (show_result b m u) (finish_action a reply u)"
  if "b = is_success reply" "m = result_message (pa_label a) reply"
  unfolding finish_action_def Let_def that
  by (auto intro: refl refresh_after open_passphrase split: PendingKind.split bool.split)

lemma finish_action: "R u (finish_action a reply u)"
  by (rule trans [OF show_result after_result]) simp_all

lemma profiles_done: "R u (profiles_done reply u)"
proof -
  have "R u (u\<lparr>ui_profiles_again := False\<rparr>)" by (rule quiet) (simp add: ruled_def core_def)
  then show ?thesis
    using trans [OF _ refresh_profiles] render_profiles by (simp add: profiles_done_def)
qed

lemma list_again: "R u (ManagerWindow.refresh_list (u\<lparr>ui_list_again := False\<rparr>))"
  by (rule before [OF _ refresh_list]) (simp add: ruled_def core_def)

text \<open>Every signal of the widgets.\<close>

lemma handle_signal: "s \<noteq> CloseRequest \<Longrightarrow> R u (handle_signal lower s u)"
proof (cases s)
  case (ProfileRowSelected i)
  have "R u (update_profile_selection (u\<lparr>ui_selected_profile := i, ui_profile_pane := p\<rparr>))" for p
    by (rule before [OF _ update_profile_selection]) (simp add: ruled_def core_def)
  then show ?thesis by (simp add: ProfileRowSelected handle_signal_def refl)
next
  case (SearchChanged t)
  have "R u (filter_spaces lower (u\<lparr>ui_search := t\<rparr>))"
    by (rule before [OF _ filter_spaces]) (simp add: ruled_def core_def)
  then show ?thesis by (simp add: SearchChanged handle_signal_def)
next
  case (FilterToggled b)
  have "R u (filter_spaces lower (u\<lparr>ui_only_running := b\<rparr>))"
    by (rule before [OF _ filter_spaces]) (simp add: ruled_def core_def)
  then show ?thesis by (simp add: FilterToggled handle_signal_def)
qed (auto simp: handle_signal_def
    intro: refl select_space show_page open_create_dialog trans [OF show_page refresh_profiles] start_build send_or_ask
      confirm_and_send build_clicked poll_refresh confirm_dialog drop_dialog dialogs
      form_edit try_submit_create close_form
    split: option.split)

end

section \<open>The book-keeping is kept\<close>

lemma push_lines_ok: "lines_ok ls \<Longrightarrow> lines_ok (push_lines ls ts)"
proof (induction ls ts rule: push_lines.induct)
  case (2 ls t ts)
  have "char_count (take_chars 1024 t) \<le> 1024" by (simp add: char_count_def chars_take)
  with 2(2) have "lines_ok (if 200 < length (ls @ [take_chars 1024 t]) then tl (ls @ [take_chars 1024 t])
      else ls @ [take_chars 1024 t])"
    by (cases ls) (auto simp: lines_ok_def)
  from 2(1) [OF refl this] show ?case by (simp add: Let_def)
qed simp

lemma calm_append_progress: "calm u (append_progress t u)"
  by (rule calm_core) (simp_all add: append_progress_def core_def same_details_def push_lines_ok)

lemma calm_set_form: "calm u (u\<lparr>ui_create_dialog := d\<rparr>)"
  by (rule calm_core) (simp_all add: core_def same_details_def)

lemma calm_revalidate: "calm u (revalidate (u\<lparr>ui_create_dialog := d\<rparr>))"
  unfolding revalidate_def set_form_def
  by (rule calm_trans [OF calm_set_form calm_trans [OF calm_set_form calm_sync]])

text \<open>The part of \<open>select_space\<close> before the daemon is asked.\<close>

lemma calm_select_space: "calm u (select_space x u)"
proof -
  define u1 where "u1 = (if ui_selected u \<noteq> x
      then u\<lparr>ui_selection_epoch := ui_selection_epoch u + 1, ui_selected := x,
             ui_details := (ui_details u)\<lparr>d_root := False, d_tab := ''overview'', d_log := []\<rparr>\<rparr> else u)"
  have 1: "calm u u1"
    by (auto intro!: calm_core simp: u1_def core_def same_details_def)
  have 2: "calm u1 (u1\<lparr>ui_details := d\<rparr>)" if "d_values d = d_values (ui_details u1) \<and> (d_root d \<longrightarrow> d_root (ui_details u1) \<and>
      d_log d = d_log (ui_details u1))" for d
    using that by (intro calm_core) (simp_all add: core_def same_details_def)
  note [simp] = details_of_row_def
  show ?thesis
    unfolding select_space_def Let_def u1_def [symmetric]
    by (rule calm_trans [OF _ calm_sync])
      (auto split: option.split
        intro!: calm_trans [OF calm_trans [OF 1 2] calm_refresh_detail] calm_trans [OF 1 2])
qed

interpretation calm: window_rule calm
proof
  show "calm u v" if "ruled u = ruled v" for u v
    using that by (intro calm_core) (simp_all add: ruled_def same_details_def)
  show "calm u (set_form g u)" for g u
    unfolding set_form_def by (rule calm_set_form)
  show "calm u w" if "calm u v" "calm v w" for u v w
    using that by (rule calm_trans)
qed (rule calm_refl calm_refresh_list calm_refresh_detail calm_refresh_net calm_refresh_profiles
      calm_send_action calm_sync calm_select_space calm_append_progress calm_revalidate calm_set_form)+

lemma calm_reconciled: "calm u v \<Longrightarrow> calm u (v\<lparr>ui_reconciling := False\<rparr>)"
  by (simp add: calm_def slots_ok_def busy_def slot_ids_def pending_id_def asks_def same_details_def)

lemma calm_after:
  assumes "calm u v" "core w = core v" "ui_progress_lines w = ui_progress_lines v" "ui_selected w = ui_selected v"
    "d_values (ui_details w) = d_values (ui_details v)" "d_root (ui_details w) \<longrightarrow> ui_details w = ui_details v"
  shows "calm u w"
proof (rule calm_trans [OF assms(1) calm_core])
  show "core v = core w" using assms(2) by (rule sym)
  show "same_details v w" unfolding same_details_def using assms(4,5,6) by metis
  show "lines_ok (ui_progress_lines v) \<longrightarrow> lines_ok (ui_progress_lines w)" using assms(3) by simp
qed

lemma calm_render_spaces: "calm u (render_spaces lower v u)"
proof (cases v)
  case (SpacesUnavailable m)
  let ?u1 = "u\<lparr>ui_connected := False, ui_selection_epoch := ui_selection_epoch u + 1,
     ui_status := (ui_status u)\<lparr>st_connection := TXT_DISCONNECTED, st_connection_error := True\<rparr>,
     ui_space_rows := [], ui_current_spaces := []\<rparr>"
  have "calm u ?u1" by (rule calm_core) (simp_all add: core_def same_details_def)
  from calm_trans [OF this calm_select_space] have 1: "calm u (select_space None ?u1)" .
  have "\<not> d_root (ui_details (select_space None ?u1))"
    by (simp add: select_space_def sync_action_sensitivity_def Let_def)
  then show ?thesis
    unfolding SpacesUnavailable render_spaces_def Let_def SpacesView.case
    by (intro calm_trans [OF _ calm_sync] calm_after [OF 1]) (simp_all add: core_def)
next
  case (SpacesShown rows)
  let ?u1 = "u\<lparr>ui_connected := True,
     ui_status := (ui_status u)\<lparr>st_connection := TXT_CONNECTED, st_connection_error := False\<rparr>,
     ui_list_unavailable := False, ui_reconciling := True,
     ui_space_rows := reconcile_rows rows (ui_space_rows u), ui_current_spaces := rows\<rparr>"
  let ?u2 = "case ui_pending_select ?u1 of
      Some i \<Rightarrow>
        if list_ex (\<lambda>r. sr_space r = i) rows
        then ?u1\<lparr>ui_pending_select := None, ui_search := [], ui_only_running := False,
                 ui_selected := Some i, ui_selection_epoch := ui_selection_epoch ?u1 + 1,
                 ui_details := (ui_details ?u1)\<lparr>d_root := False, d_log := []\<rparr>\<rparr>
        else ?u1
    | None \<Rightarrow> ?u1"
  have "calm u (?u2\<lparr>ui_reconciling := ui_reconciling u\<rparr>)"
    by (rule calm_core) (auto simp: core_def same_details_def split: option.split)
  from calm_reconciled [OF this] have "calm u (?u2\<lparr>ui_reconciling := False\<rparr>)" by simp
  then show ?thesis
    unfolding SpacesShown render_spaces_def Let_def SpacesView.case
    by (rule calm_trans [OF calm_trans [OF _ calm.filter_spaces] calm_sync])
qed

text \<open>An answer first frees the slot of its request.\<close>

definition freed :: "nat \<Rightarrow> Ui \<Rightarrow> Ui" where
  "freed i u =
     (if i = ui_latest_list u then u\<lparr>ui_latest_list := 0\<rparr>
      else if i = ui_latest_detail u then u\<lparr>ui_latest_detail := 0, ui_detail_request := None\<rparr>
      else if i = ui_latest_net u then u\<lparr>ui_latest_net := 0\<rparr>
      else if i = ui_latest_profiles u then u\<lparr>ui_latest_profiles := 0\<rparr>
      else u\<lparr>ui_pending_action := None\<rparr>)"

lemma in_busy:
  "i \<in> set (busy u) \<longleftrightarrow> i \<noteq> 0 \<and> (i = ui_latest_list u \<or> i = ui_latest_detail u \<or> i = ui_latest_net u \<or>
     i = ui_latest_profiles u \<or> i = pending_id u)"
  unfolding busy_def slot_ids_def set_filter by auto

lemma filter_slot:
  assumes "distinct (filter (\<lambda>j. j \<noteq> 0) (xs @ i # ys))" "i \<noteq> (0 :: nat)"
  shows "filter (\<lambda>j. j \<noteq> 0) (xs @ 0 # ys) = filter (\<lambda>j. j \<noteq> i) (filter (\<lambda>j. j \<noteq> 0) (xs @ i # ys))"
proof -
  have "i \<notin> set xs" "i \<notin> set ys" using assms by auto
  then have "filter (\<lambda>x. x \<noteq> 0 \<and> x \<noteq> i) xs = filter (\<lambda>j. j \<noteq> 0) xs"
    "filter (\<lambda>x. x \<noteq> 0 \<and> x \<noteq> i) ys = filter (\<lambda>j. j \<noteq> 0) ys" by (auto intro!: filter_cong)
  then show ?thesis by simp
qed

lemma busy_freed:
  assumes "distinct (busy u)" "i \<in> set (busy u)"
  shows "busy (freed i u) = filter (\<lambda>j. j \<noteq> i) (busy u)"
proof -
  have i: "i \<noteq> 0" using assms(2) in_busy by blast
  from assms(2) consider "i = ui_latest_list u" | "i = ui_latest_detail u" "i \<noteq> ui_latest_list u"
    | "i = ui_latest_net u" "i \<noteq> ui_latest_list u" "i \<noteq> ui_latest_detail u"
    | "i = ui_latest_profiles u" "i \<noteq> ui_latest_list u" "i \<noteq> ui_latest_detail u" "i \<noteq> ui_latest_net u"
    | "i = pending_id u" "i \<noteq> ui_latest_list u" "i \<noteq> ui_latest_detail u" "i \<noteq> ui_latest_net u" "i \<noteq> ui_latest_profiles u"
    unfolding in_busy by blast
  then have "\<exists>xs ys. slot_ids u = xs @ i # ys \<and> slot_ids (freed i u) = xs @ 0 # ys"
  proof cases
    case 1
    then have "slot_ids u = [] @ i # [ui_latest_detail u, ui_latest_net u, ui_latest_profiles u, pending_id u]"
      "slot_ids (freed i u) = [] @ 0 # [ui_latest_detail u, ui_latest_net u, ui_latest_profiles u, pending_id u]"
      by (simp_all add: slot_ids_def freed_def pending_id_def)
    then show ?thesis by blast
  next
    case 2
    then have "slot_ids u = [ui_latest_list u] @ i # [ui_latest_net u, ui_latest_profiles u, pending_id u]"
      "slot_ids (freed i u) = [ui_latest_list u] @ 0 # [ui_latest_net u, ui_latest_profiles u, pending_id u]"
      by (simp_all add: slot_ids_def freed_def pending_id_def)
    then show ?thesis by blast
  next
    case 3
    then have "slot_ids u = [ui_latest_list u, ui_latest_detail u] @ i # [ui_latest_profiles u, pending_id u]"
      "slot_ids (freed i u) = [ui_latest_list u, ui_latest_detail u] @ 0 # [ui_latest_profiles u, pending_id u]"
      by (simp_all add: slot_ids_def freed_def pending_id_def)
    then show ?thesis by blast
  next
    case 4
    then have "slot_ids u = [ui_latest_list u, ui_latest_detail u, ui_latest_net u] @ i # [pending_id u]"
      "slot_ids (freed i u) = [ui_latest_list u, ui_latest_detail u, ui_latest_net u] @ 0 # [pending_id u]"
      by (simp_all add: slot_ids_def freed_def pending_id_def)
    then show ?thesis by blast
  next
    case 5
    then have "slot_ids u = [ui_latest_list u, ui_latest_detail u, ui_latest_net u, ui_latest_profiles u] @ i # []"
      "slot_ids (freed i u) = [ui_latest_list u, ui_latest_detail u, ui_latest_net u, ui_latest_profiles u] @ 0 # []"
      by (simp_all add: slot_ids_def freed_def pending_id_def)
    then show ?thesis by blast
  qed
  then obtain xs ys where x: "slot_ids u = xs @ i # ys" "slot_ids (freed i u) = xs @ 0 # ys" by blast
  from assms(1) have "distinct (filter (\<lambda>j. j \<noteq> 0) (xs @ i # ys))" by (simp only: busy_def x)
  from filter_slot [OF this i] show ?thesis by (simp only: busy_def x)
qed

lemma freed_cells:
  "ui_latest_list (freed i u) \<noteq> 0 \<Longrightarrow> ui_latest_list (freed i u) = ui_latest_list u"
  "ui_latest_net (freed i u) \<noteq> 0 \<Longrightarrow> ui_latest_net (freed i u) = ui_latest_net u"
  "ui_latest_profiles (freed i u) \<noteq> 0 \<Longrightarrow> ui_latest_profiles (freed i u) = ui_latest_profiles u"
  "ui_latest_detail (freed i u) \<noteq> 0 \<Longrightarrow>
     ui_latest_detail (freed i u) = ui_latest_detail u \<and> ui_detail_request (freed i u) = ui_detail_request u"
  "ui_pending_action (freed i u) \<noteq> None \<Longrightarrow> ui_pending_action (freed i u) = ui_pending_action u"
  "ui_sent (freed i u) = ui_sent u" "ui_next_id (freed i u) = ui_next_id u"
  by (simp_all add: freed_def split: if_splits)

lemma freed_slots:
  assumes "slots_ok u" "i \<in> set (busy u)"
  shows "slots_ok (freed i u) \<and> set (busy (freed i u)) = set (busy u) - {i}"
proof -
  have d: "distinct (busy u)" using assms(1) by (simp only: slots_ok_def)
  note b = busy_freed [OF d assms(2)]
  note k = assms(1) [unfolded slots_ok_def]
  have 1: "distinct (busy (freed i u))" "set (busy (freed i u)) = set (busy u) - {i}"
    unfolding b using d by auto
  have 2: "set (busy (freed i u)) \<subseteq> {1..ui_next_id u}" unfolding 1(2) using k by blast
  have 3: "ui_latest_list (freed i u) \<noteq> 0 \<longrightarrow> (ui_latest_list (freed i u), op_request ''list'') \<in> set (ui_sent u)"
    using freed_cells(1) k by metis
  have 4: "ui_latest_net (freed i u) \<noteq> 0 \<longrightarrow> (ui_latest_net (freed i u), op_request ''net-status'') \<in> set (ui_sent u)"
    using freed_cells(2) k by metis
  have 5: "ui_latest_profiles (freed i u) \<noteq> 0 \<longrightarrow>
      (ui_latest_profiles (freed i u), op_request ''profiles'') \<in> set (ui_sent u)"
    using freed_cells(3) k by metis
  have 6: "ui_latest_detail (freed i u) \<noteq> 0 \<longrightarrow> (\<exists>s e. ui_detail_request (freed i u) = Some (s, e) \<and>
      (ui_latest_detail (freed i u), space_request ''describe'' s) \<in> set (ui_sent u))"
    using freed_cells(4) k by metis
  have 7: "ui_pending_action (freed i u) \<noteq> None \<longrightarrow> pending_id (freed i u) \<noteq> 0"
    using freed_cells(5) k unfolding pending_id_def by metis
  show ?thesis
    unfolding slots_ok_def freed_cells(6,7) using 1 2 3 4 5 6 7 k by blast
qed

lemma freed_rest:
  "ui_sent (freed i u) = ui_sent u" "ui_closed (freed i u) = ui_closed u" "ui_details (freed i u) = ui_details u"
  "ui_selected (freed i u) = ui_selected u" "ui_progress_lines (freed i u) = ui_progress_lines u"
  "ui_reconciling (freed i u) = ui_reconciling u" "ui_connected (freed i u) = ui_connected u"
  by (simp_all add: freed_def)

lemma calm_list_done: "calm u (list_done lower r u)"
  by (simp add: list_done_def calm_render_spaces calm.list_again)

lemma done_freed:
  assumes "slots_ok u" "i \<in> set (busy u)" "\<not> ui_closed u"
  shows "calm (freed i u) (handle_done lower i r u) \<or>
    (\<exists>s e rows tail. i = ui_latest_detail u \<and> ui_detail_request u = Some (s, e) \<and> ui_selected u = Some s \<and>
       detail_view r = SpaceDetail rows tail \<and> handle_done lower i r u = render_detail (SpaceDetail rows tail) (freed i u))"
proof -
  have i: "i \<noteq> 0" using assms(2) in_busy by blast
  show ?thesis
  proof (cases "i = ui_latest_detail u \<and> i \<noteq> ui_latest_list u")
    case True
    then have f: "freed i u = u\<lparr>ui_latest_detail := 0, ui_detail_request := None\<rparr>" by (simp add: freed_def)
    have d: "handle_done lower i r u = detail_done r (u\<lparr>ui_latest_detail := 0\<rparr>)"
      using True i assms(3) by (simp add: handle_done_def)
    obtain s e where q: "ui_detail_request u = Some (s, e)"
      using assms(1) i True by (auto simp: slots_ok_def)
    show ?thesis
    proof (cases "detail_view r")
      case (DetailUnavailable m)
      have "calm v (render_detail (DetailUnavailable m) v)" for v
        by (rule calm_core) (simp_all add: render_detail_def core_def same_details_def Let_def)
      then show ?thesis
        using DetailUnavailable by (auto simp: d f detail_done_def Let_def calm_refl calm_refresh_detail split: option.split)
    next
      case (SpaceDetail rows tail)
      show ?thesis
      proof (cases "ui_selected u = Some s \<and> e = ui_selection_epoch u \<and> ui_connected u")
        case True
        then have "handle_done lower i r u = render_detail (SpaceDetail rows tail) (freed i u)"
          using q SpaceDetail by (simp add: d f detail_done_def Let_def)
        then show ?thesis using True q SpaceDetail \<open>i = ui_latest_detail u \<and> i \<noteq> ui_latest_list u\<close> by blast
      next
        case False
        then have "calm (freed i u) (handle_done lower i r u)"
          using q by (auto simp: d f detail_done_def Let_def calm_refl calm_refresh_detail split: option.split)
        then show ?thesis ..
      qed
    qed
  next
    case False
    have "calm v (render_net x v)" for v x by (rule calm.render_net)
    then show ?thesis
      using False i assms calm_list_done calm.profiles_done calm.finish_action
      by (auto simp: handle_done_def freed_def in_busy pending_id_def split: option.splits if_splits)
  qed
qed

lemma done_unexpected: "i \<notin> set (busy u) \<Longrightarrow> handle_done lower i r u = u"
  by (auto simp: handle_done_def in_busy pending_id_def split: option.splits)

end
