(* ===== verification/ManagerRun.thy ===== *)
theory ManagerRun
  imports ManagerInv
begin

text \<open>
  The manager at work: the window, the channel of 128 updates, and a thread for every
  request sent, which reports progress and ends with one answer (\<open>Daemon::send\<close> of
  \<open>components/manager/src/daemon.rs\<close>).  \<open>mg_answers\<close> remembers the answers given.
\<close>

section \<open>The threads\<close>

definition FRAME_TIMEOUT_SECS :: nat where
  "FRAME_TIMEOUT_SECS = 120"

definition request_timeout :: "string \<Rightarrow> nat" where
  "request_timeout op =
     (if op = ''describe'' then 8
      else if op = ''profiles'' \<or> op = ''net-status'' then 10
      else if op = ''list'' then 60
      else FRAME_TIMEOUT_SECS)"

definition progress_update :: "nat \<Rightarrow> string \<Rightarrow> Update" where
  "progress_update i t = Progress i (take_chars 1024 t)"

definition CHANNEL_BOUND :: nat where
  "CHANNEL_BOUND = 128"

text \<open>\<open>try_send\<close> drops the text where the channel is full.\<close>

definition try_send :: "Update \<Rightarrow> Update list \<Rightarrow> Update list" where
  "try_send u ch = (if length ch < CHANNEL_BOUND then ch @ [u] else ch)"

record Manager =
  mg_ui :: Ui
  mg_channel :: "Update list"
  mg_answers :: "(nat \<times> (string + Reply)) list"

definition running_thread :: "nat \<Rightarrow> Manager \<Rightarrow> bool" where
  "running_thread i m \<longleftrightarrow> i \<in> fst ` set (ui_sent (mg_ui m)) \<and> i \<notin> fst ` set (mg_answers m)"

inductive mgr_step :: "(string \<Rightarrow> string) \<Rightarrow> Manager \<Rightarrow> Manager \<Rightarrow> bool" for lower where
  signal: "click_allowed s (mg_ui m) \<Longrightarrow> mgr_step lower m (m\<lparr>mg_ui := handle_signal lower s (mg_ui m)\<rparr>)"
| time: "mgr_step lower m (m\<lparr>mg_ui := (mg_ui m)\<lparr>ui_now := t\<rparr>\<rparr>)"
| poll: "poll_updates lower (mg_channel m) (mg_ui m) = (ui, rest) \<Longrightarrow>
    mgr_step lower m (m\<lparr>mg_ui := ui, mg_channel := rest\<rparr>)"
| tell: "running_thread i m \<Longrightarrow>
    mgr_step lower m (m\<lparr>mg_channel := try_send (progress_update i t) (mg_channel m)\<rparr>)"
| answer: "running_thread i m \<Longrightarrow> length (mg_channel m) < CHANNEL_BOUND \<Longrightarrow>
    mgr_step lower m (m\<lparr>mg_channel := mg_channel m @ [Done i r], mg_answers := mg_answers m @ [(i, r)]\<rparr>)"

definition start_manager :: Manager where
  "start_manager = \<lparr>mg_ui = build_window, mg_channel = [], mg_answers = []\<rparr>"

inductive mgr_reachable :: "(string \<Rightarrow> string) \<Rightarrow> Manager \<Rightarrow> bool" for lower where
  begins: "mgr_reachable lower start_manager"
| steps: "mgr_reachable lower m \<Longrightarrow> mgr_step lower m n \<Longrightarrow> mgr_reachable lower n"

section \<open>Whose details are shown\<close>

lemma set_value_skip: "k \<notin> fst ` set kts \<Longrightarrow> set_value k t kts = kts"
  by (induction kts) auto

lemma set_value_hit: "k \<notin> fst ` set pre \<Longrightarrow> set_value k t (pre @ (k, x) # kts) = pre @ (k, t) # kts"
  by (induction pre) auto

lemma set_values:
  assumes "map fst vals = map k rows" "distinct (map fst pre @ map k rows)"
  shows "fold (\<lambda>r. set_value (k r) (t r)) rows (pre @ vals) = pre @ map (\<lambda>r. (k r, t r)) rows"
  using assms
proof (induction rows arbitrary: pre vals)
  case (Cons r rows)
  then obtain x vs where v: "vals = (k r, x) # vs" "map fst vs = map k rows" by (cases vals) auto
  have "k r \<notin> fst ` set pre" using Cons.prems(2) by auto
  then have "fold (\<lambda>r. set_value (k r) (t r)) (r # rows) (pre @ vals) =
      fold (\<lambda>r. set_value (k r) (t r)) rows ((pre @ [(k r, t r)]) @ vs)"
    by (simp add: v(1) set_value_hit)
  also have "\<dots> = (pre @ [(k r, t r)]) @ map (\<lambda>r. (k r, t r)) rows"
    by (rule Cons.IH [OF v(2)]) (use Cons.prems(2) in auto)
  finally show ?case by simp
qed simp

definition detail_keys :: "string list" where
  "detail_keys = map dr_key (detail_rows (JObj []))"

lemma detail_rows_keys: "map dr_key (detail_rows v) = detail_keys"
  by (simp add: detail_keys_def detail_rows_def detail_row_def)

lemma detail_keys_distinct: "distinct detail_keys"
  unfolding detail_keys_def detail_rows_def detail_row_def
  by (simp add: texts from_chars_def utf8_enc_def)

lemma template_keys: "map dr_key template_rows = detail_keys"
  by (simp add: template_rows_def detail_view_def reply_to_value_def is_object_def detail_rows_keys)

lemma detail_view_keys: "detail_view r = SpaceDetail rows tail \<Longrightarrow> map dr_key rows = detail_keys"
  by (auto simp: detail_view_def detail_rows_keys split: sum.splits if_splits)

lemma details_updated:
  assumes "map fst (d_values d) = detail_keys" "map dr_key rows = detail_keys"
  shows "d_values (details_update rows d) = map (\<lambda>r. (dr_key r, value_text r)) rows"
  using set_values [of "d_values d" dr_key rows "[]" value_text] assms detail_keys_distinct
  by (simp add: details_update_def)

definition shows_answer :: "Ui \<Rightarrow> (nat \<times> (string + Reply)) list \<Rightarrow> bool" where
  "shows_answer ui answers \<longleftrightarrow>
     (d_root (ui_details ui) \<longrightarrow>
        (\<exists>s i r rows tail. ui_selected ui = Some s \<and> (i, space_request ''describe'' s) \<in> set (ui_sent ui) \<and>
           (i, r) \<in> set answers \<and> detail_view r = SpaceDetail rows tail \<and>
           d_values (ui_details ui) = map (\<lambda>q. (dr_key q, value_text q)) rows \<and>
           d_log (ui_details ui) = join_str [CHR 0x0A] tail))"

section \<open>Every request is answered once\<close>

fun done_ids :: "Update list \<Rightarrow> nat list" where
  "done_ids [] = []"
| "done_ids (Done i r # us) = i # done_ids us"
| "done_ids (Progress i t # us) = done_ids us"

text \<open>The requests no answer has reached the window for.\<close>

definition under_way :: "Ui \<Rightarrow> Update list \<Rightarrow> (nat \<times> (string + Reply)) list \<Rightarrow> nat set" where
  "under_way ui ch answers =
     {i \<in> fst ` set (ui_sent ui). i \<notin> fst ` set answers \<or> i \<in> set (done_ids ch)}"

definition mgr_inv :: "Ui \<Rightarrow> Update list \<Rightarrow> (nat \<times> (string + Reply)) list \<Rightarrow> bool" where
  "mgr_inv ui ch answers \<longleftrightarrow>
     slots_ok ui \<and> \<not> ui_reconciling ui \<and> lines_ok (ui_progress_lines ui) \<and>
     map fst (d_values (ui_details ui)) = detail_keys \<and> shows_answer ui answers \<and>
     set (busy ui) = under_way ui ch answers \<and> distinct (done_ids ch) \<and>
     (\<forall>i r. Done i r \<in> set ch \<longrightarrow> (i, r) \<in> set answers) \<and> fst ` set answers \<subseteq> fst ` set (ui_sent ui)"

lemma done_ids_append [simp]: "done_ids (a @ b) = done_ids a @ done_ids b"
  by (induction a rule: done_ids.induct) auto

lemma in_done_ids: "i \<in> set (done_ids ch) \<longleftrightarrow> (\<exists>r. Done i r \<in> set ch)"
  by (induction ch rule: done_ids.induct) auto

lemma slots_fresh:
  assumes "slots_ok v" "ui_sent v = ui_sent u @ new"
  shows "fst ` set new \<inter> fst ` set (ui_sent u) = {}"
proof -
  have "distinct (map fst (ui_sent u @ new))"
    using assms by (metis slots_ok_def distinct_upt)
  then show ?thesis by auto
qed

lemma calm_mgr_inv:
  assumes "mgr_inv u ch answers" "calm u v"
  shows "mgr_inv v ch answers"
proof -
  have ok: "slots_ok v" "\<not> ui_reconciling v" "lines_ok (ui_progress_lines v)"
    using assms unfolding calm_def mgr_inv_def by blast+
  obtain new where new: "ui_sent v = ui_sent u @ new" "set (busy v) = set (busy u) \<union> fst ` set new"
    using assms(2) unfolding calm_def asks_def by blast
  have fresh: "fst ` set new \<inter> fst ` set (ui_sent u) = {}" by (rule slots_fresh [OF ok(1) new(1)])
  have ans: "fst ` set answers \<subseteq> fst ` set (ui_sent u)" and b: "set (busy u) = under_way u ch answers"
    using assms(1) by (simp_all add: mgr_inv_def)
  have "under_way v ch answers = under_way u ch answers \<union> fst ` set new"
    using fresh ans unfolding under_way_def new(1) set_append image_Un by blast
  then have "set (busy v) = under_way v ch answers" using new(2) b by simp
  moreover have "map fst (d_values (ui_details v)) = detail_keys"
    using assms unfolding calm_def same_details_def mgr_inv_def by simp
  moreover have "shows_answer v answers"
    using assms new(1) unfolding calm_def same_details_def mgr_inv_def shows_answer_def by fastforce
  ultimately show ?thesis using assms(1) ok new(1) unfolding mgr_inv_def by auto
qed

lemma freed_mgr_inv:
  assumes "mgr_inv u (Done i r # ch) answers"
  shows "mgr_inv (freed i u) ch answers" "i \<in> set (busy u)"
proof -
  have b: "set (busy u) = under_way u (Done i r # ch) answers"
    and d: "i \<notin> set (done_ids ch)" and a: "(i, r) \<in> set answers" and sub: "fst ` set answers \<subseteq> fst ` set (ui_sent u)"
    using assms by (simp_all add: mgr_inv_def)
  have i: "i \<in> fst ` set answers" using a by force
  with sub have "i \<in> fst ` set (ui_sent u)" by blast
  then show "i \<in> set (busy u)" unfolding b under_way_def by simp
  have ok: "slots_ok u" using assms by (simp add: mgr_inv_def)
  note f = freed_slots [OF ok \<open>i \<in> set (busy u)\<close>]
  have "set (busy (freed i u)) = under_way (freed i u) ch answers"
    using f b d i unfolding under_way_def freed_rest by auto
  then show "mgr_inv (freed i u) ch answers"
    using assms f unfolding mgr_inv_def shows_answer_def freed_rest by auto
qed

lemma render_mgr_inv:
  assumes "mgr_inv u ch answers" "ui_selected u = Some s" "(i, space_request ''describe'' s) \<in> set (ui_sent u)"
    "(i, r) \<in> set answers" "detail_view r = SpaceDetail rows tail"
  shows "mgr_inv (render_detail (SpaceDetail rows tail) u) ch answers"
proof -
  let ?v = "render_detail (SpaceDetail rows tail) u"
  have c: "core ?v = core u" "ui_progress_lines ?v = ui_progress_lines u" "ui_selected ?v = ui_selected u"
    by (simp_all add: render_detail_def core_def Let_def)
  have k: "map fst (d_values (ui_details u)) = detail_keys" using assms(1) by (simp add: mgr_inv_def)
  note keys = detail_view_keys [OF assms(5)]
  have d: "d_values (ui_details ?v) = map (\<lambda>q. (dr_key q, value_text q)) rows"
    "d_log (ui_details ?v) = join_str [CHR 0x0A] tail"
    using details_updated [OF k keys] by (simp_all add: render_detail_def Let_def)
  have s: "ui_sent ?v = ui_sent u" "ui_reconciling ?v = ui_reconciling u" using c(1) by (simp_all add: core_def)
  have "map fst (d_values (ui_details ?v)) = detail_keys" using keys by (simp add: d o_def)
  moreover have "shows_answer ?v answers" unfolding shows_answer_def s c d using assms by blast
  ultimately show ?thesis
    using assms(1) slots_ok_core [OF c(1)] busy_core [OF c(1)]
    unfolding mgr_inv_def under_way_def s c by simp
qed

lemma update_mgr_inv:
  assumes "mgr_inv u (x # ch) answers" "\<not> ui_closed u"
  shows "mgr_inv (handle_update lower x u) ch answers \<and> \<not> ui_closed (handle_update lower x u)"
proof (cases x)
  case (Progress i t)
  have "calm u (handle_update lower x u)" by (simp add: Progress handle_update_def calm.handle_progress)
  moreover have "mgr_inv u ch answers"
    using assms(1) unfolding Progress mgr_inv_def under_way_def by auto
  ultimately show ?thesis using assms(2) calm_mgr_inv unfolding calm_def by blast
next
  case (Done i r)
  note f = freed_mgr_inv [OF assms(1) [unfolded Done]]
  have ok: "slots_ok u" using assms(1) by (simp add: mgr_inv_def)
  have x: "handle_update lower x u = handle_done lower i r u" by (simp add: Done handle_update_def)
  from done_freed [OF ok f(2) assms(2), of lower r] show ?thesis
  proof (elim disjE exE conjE)
    assume c: "calm (freed i u) (handle_done lower i r u)"
    then show ?thesis unfolding x using calm_mgr_inv [OF f(1) c] assms(2) freed_rest(2) by (simp add: calm_def)
  next
    fix s e rows tail
    assume a: "i = ui_latest_detail u" "ui_detail_request u = Some (s, e)" "ui_selected u = Some s"
      "detail_view r = SpaceDetail rows tail" "handle_done lower i r u = render_detail (SpaceDetail rows tail) (freed i u)"
    have "i \<noteq> 0" using f(2) in_busy by blast
    with ok a(1,2) have "(i, space_request ''describe'' s) \<in> set (ui_sent u)" by (auto simp: slots_ok_def)
    moreover have "(i, r) \<in> set answers" using assms(1) by (simp add: Done mgr_inv_def)
    ultimately have "mgr_inv (handle_done lower i r u) ch answers"
      unfolding a(5) using render_mgr_inv [OF f(1)] a(3,4) freed_rest by metis
    moreover have "ui_closed (handle_done lower i r u) = ui_closed u"
      unfolding a(5) using freed_rest(2) by (simp add: render_detail_def Let_def)
    ultimately show ?thesis using assms(2) by (simp add: x)
  qed
qed

lemma updates_mgr_inv:
  "mgr_inv u (xs @ ch) answers \<Longrightarrow> \<not> ui_closed u \<Longrightarrow> mgr_inv (fold (handle_update lower) xs u) ch answers"
proof (induction xs arbitrary: u)
  case (Cons x xs)
  then show ?case using update_mgr_inv [of u x "xs @ ch" answers lower] by simp
qed simp

section \<open>Every state of the manager\<close>

lemma start_mgr_inv: "mgr_inv build_window [] []"
proof -
  have "mgr_inv new_ui [] []"
    by (simp add: mgr_inv_def new_ui_def slots_ok_def busy_def slot_ids_def pending_id_def under_way_def shows_answer_def
        lines_ok_def new_details_def template_keys o_def)
  moreover have "calm new_ui build_window"
    unfolding build_window_def by (rule calm_trans [OF calm_refresh_list calm_sync])
  ultimately show ?thesis by (rule calm_mgr_inv)
qed

lemma closing_mgr_inv: "mgr_inv u ch answers \<Longrightarrow> mgr_inv (u\<lparr>ui_closed := True\<rparr>) ch answers"
proof -
  have "busy (u\<lparr>ui_closed := True\<rparr>) = busy u" by (simp add: busy_def slot_ids_def pending_id_def)
  moreover from this have "slots_ok (u\<lparr>ui_closed := True\<rparr>) = slots_ok u" by (simp add: slots_ok_def pending_id_def)
  ultimately show "mgr_inv u ch answers \<Longrightarrow> mgr_inv (u\<lparr>ui_closed := True\<rparr>) ch answers"
    unfolding mgr_inv_def under_way_def shows_answer_def by simp
qed

lemma signal_mgr_inv:
  assumes "mgr_inv u ch answers"
  shows "mgr_inv (handle_signal lower s u) ch answers"
proof (cases "s = CloseRequest")
  case True
  then have "handle_signal lower s u = close_form (u\<lparr>ui_closed := True\<rparr>)" by (simp add: handle_signal_def)
  then show ?thesis using calm_mgr_inv [OF closing_mgr_inv [OF assms] calm.close_form] by simp
qed (rule calm_mgr_inv [OF assms calm.handle_signal])

lemma poll_mgr_inv:
  assumes "poll_updates lower ch u = (v, rest)" "mgr_inv u ch answers"
  shows "mgr_inv v rest answers"
proof (cases "ui_closed u")
  case False
  let ?w = "fold (handle_update lower) (take 64 ch) u"
  have "mgr_inv u (take 64 ch @ drop 64 ch) answers" using assms(2) by simp
  from updates_mgr_inv [OF this False] have w: "mgr_inv ?w (drop 64 ch) answers" .
  have "mgr_inv (show_clock x) (drop 64 ch) answers" if "mgr_inv x (drop 64 ch) answers" for x
    using that calm.show_clock by (rule calm_mgr_inv)
  with w calm_mgr_inv [OF w calm.render_progress] show ?thesis
    using assms(1) False by (auto simp: poll_updates_def Let_def split: if_splits)
qed (use assms in \<open>simp add: poll_updates_def\<close>)

lemma step_mgr_inv:
  assumes "mgr_step lower m n" "mgr_inv (mg_ui m) (mg_channel m) (mg_answers m)"
  shows "mgr_inv (mg_ui n) (mg_channel n) (mg_answers n)"
  using assms
proof (cases rule: mgr_step.cases)
  case (signal s)
  then show ?thesis using signal_mgr_inv [OF assms(2)] by simp
next
  case (time t)
  have "calm (mg_ui m) ((mg_ui m)\<lparr>ui_now := t\<rparr>)" by (rule calm_core) (simp_all add: core_def same_details_def)
  then show ?thesis using calm_mgr_inv [OF assms(2)] time by simp
next
  case (poll ui rest)
  then show ?thesis using poll_mgr_inv assms(2) by simp
next
  case (tell i t)
  let ?ch = "try_send (progress_update i t) (mg_channel m)"
  have d: "done_ids ?ch = done_ids (mg_channel m)" by (simp add: try_send_def progress_update_def)
  have c: "Done j r \<in> set ?ch \<longleftrightarrow> Done j r \<in> set (mg_channel m)" for j r
    by (auto simp: try_send_def progress_update_def)
  show ?thesis
    using assms(2) unfolding tell(1) mgr_inv_def under_way_def by (simp add: d c)
next
  case (answer i r)
  have i: "i \<in> fst ` set (ui_sent (mg_ui m))" "i \<notin> fst ` set (mg_answers m)"
    using answer by (simp_all add: running_thread_def)
  have n: "i \<notin> set (done_ids (mg_channel m))"
    using i(2) assms(2) unfolding in_done_ids mgr_inv_def by force
  have w: "under_way (mg_ui m) (mg_channel m @ [Done i r]) (mg_answers m @ [(i, r)]) =
      under_way (mg_ui m) (mg_channel m) (mg_answers m)"
    using i by (fastforce simp: under_way_def)
  have s: "shows_answer (mg_ui m) (mg_answers m) \<Longrightarrow> shows_answer (mg_ui m) (mg_answers m @ [(i, r)])"
    unfolding shows_answer_def set_append by blast
  show ?thesis
    using assms(2) n i s unfolding answer(1) mgr_inv_def by (simp add: w)
qed

lemma reachable_mgr_inv: "mgr_reachable lower m \<Longrightarrow> mgr_inv (mg_ui m) (mg_channel m) (mg_answers m)"
proof (induction rule: mgr_reachable.induct)
  case begins
  show ?case by (simp add: start_manager_def start_mgr_inv)
qed (rule step_mgr_inv)

definition is_read :: "json \<Rightarrow> bool" where
  "is_read q \<longleftrightarrow> Option.bind (jget ''op'' q) as_str \<in> {Some ''list'', Some ''describe'', Some ''profiles'', Some ''net-status''}"

lemma reads: "is_read (space_request ''describe'' s)" "is_read (op_request ''list'')" "is_read (op_request ''profiles'')"
  "is_read (op_request ''net-status'')"
  by (simp_all add: is_read_def space_request_def op_request_def)

text \<open>
  C35.  Whatever the operator and the daemon do, and in whatever order answers arrive,
  details on the screen belong to the selected space: they are the answer to a
  \<open>describe\<close> of that space, row by row, with its log.
\<close>

theorem details_of_selected:
  assumes "mgr_reachable lower m" "d_root (ui_details (mg_ui m))"
  shows "\<exists>s i r rows tail. ui_selected (mg_ui m) = Some s \<and>
    (i, space_request ''describe'' s) \<in> set (ui_sent (mg_ui m)) \<and> (i, r) \<in> set (mg_answers m) \<and>
    detail_view r = SpaceDetail rows tail \<and>
    d_values (ui_details (mg_ui m)) = map (\<lambda>q. (dr_key q, value_text q)) rows \<and>
    d_log (ui_details (mg_ui m)) = join_str [CHR 0x0A] tail"
  using reachable_mgr_inv [OF assms(1)] assms(2) unfolding mgr_inv_def shows_answer_def by blast

text \<open>
  C36.  The manager never has more than five requests the window awaits, each of them
  in the slot that is waiting for it, and at most one that is more than a read: the
  pending operation.  The log it shows never has more than 200 lines of at most 1024
  characters.
\<close>

theorem one_operation_at_a_time:
  assumes "mgr_reachable lower m"
  shows "card (under_way (mg_ui m) (mg_channel m) (mg_answers m)) \<le> 5 \<and>
    under_way (mg_ui m) (mg_channel m) (mg_answers m) = set (busy (mg_ui m)) \<and>
    (\<forall>(i, q) \<in> set (ui_sent (mg_ui m)). i \<in> under_way (mg_ui m) (mg_channel m) (mg_answers m) \<longrightarrow>
       is_read q \<or> i = pending_id (mg_ui m)) \<and>
    lines_ok (ui_progress_lines (mg_ui m))"
proof -
  let ?u = "mg_ui m"
  have inv: "mgr_inv ?u (mg_channel m) (mg_answers m)" by (rule reachable_mgr_inv [OF assms])
  then have ok: "slots_ok ?u" and b: "under_way ?u (mg_channel m) (mg_answers m) = set (busy ?u)"
    by (simp_all add: mgr_inv_def)
  have "length (busy ?u) \<le> 5"
    unfolding busy_def by (rule le_trans [OF length_filter_le]) (simp add: slot_ids_def)
  then have "card (set (busy ?u)) \<le> 5" using card_length le_trans by blast
  moreover have "is_read q \<or> i = pending_id ?u" if q: "(i, q) \<in> set (ui_sent ?u)" and i: "i \<in> set (busy ?u)" for i q
  proof -
    have "distinct (map fst (ui_sent ?u))" using ok by (simp add: slots_ok_def)
    then have one: "q = q'" if "(i, q') \<in> set (ui_sent ?u)" for q' using q that by (rule eq_key_imp_eq_value)
    have z: "i \<noteq> 0" and s: "i = ui_latest_list ?u \<or> i = ui_latest_detail ?u \<or> i = ui_latest_net ?u \<or>
        i = ui_latest_profiles ?u \<or> i = pending_id ?u" using i in_busy by blast+
    show ?thesis using s z one ok reads unfolding slots_ok_def by metis
  qed
  ultimately show ?thesis using inv b by (auto simp: mgr_inv_def)
qed

text \<open>A short run: the list arrives, the only space is selected, its description arrives.\<close>

definition ex_list_reply :: "string + Reply" where
  "ex_list_reply =
     Inr (ReplyOk (reply_json ex_wording (RList [\<lparr>lr_space = ex_config, lr_state = Running, lr_isolation = None\<rparr>])))"

definition ex_detail_reply :: "string + Reply" where
  "ex_detail_reply = Inr (ReplyOk (reply_json ex_wording (RDescribe ex_description)))"

definition ex_listed :: Ui where
  "ex_listed = fst (poll_updates id [Done 1 ex_list_reply] build_window)"

definition ex_described :: Ui where
  "ex_described = fst (poll_updates id [Done 2 ex_detail_reply] ex_listed)"

lemma sync_cells [simp]:
  "ui_sent (sync_action_sensitivity u) = ui_sent u" "ui_next_id (sync_action_sensitivity u) = ui_next_id u"
  "ui_latest_detail (sync_action_sensitivity u) = ui_latest_detail u"
  "ui_latest_list (sync_action_sensitivity u) = ui_latest_list u" "ui_connected (sync_action_sensitivity u) = ui_connected u"
  "ui_closed (sync_action_sensitivity u) = ui_closed u" "ui_selected (sync_action_sensitivity u) = ui_selected u"
  "ui_detail_request (sync_action_sensitivity u) = ui_detail_request u"
  "ui_selection_epoch (sync_action_sensitivity u) = ui_selection_epoch u"
  "ui_pending_action (sync_action_sensitivity u) = ui_pending_action u"
  "ui_current_spaces (sync_action_sensitivity u) = ui_current_spaces u"
  by (simp_all add: sync_action_sensitivity_def Let_def)

text \<open>What a run needs of a state that has just asked for the first description.\<close>

definition asked_first :: "Ui \<Rightarrow> SpaceRow \<Rightarrow> Ui \<Rightarrow> bool" where
  "asked_first u r v \<longleftrightarrow>
     ui_sent v = ui_sent u @ [(Suc (ui_next_id u), space_request ''describe'' (sr_space r))] \<and> ui_current_spaces v = [r] \<and>
     ui_latest_detail v = Suc (ui_next_id u) \<and> ui_latest_list v = ui_latest_list u \<and> ui_connected v \<and> \<not> ui_closed v \<and>
     ui_selected v = Some (sr_space r) \<and> ui_detail_request v = Some (sr_space r, ui_selection_epoch v) \<and>
     ui_pending_action v = ui_pending_action u"

lemma select_first:
  assumes "ui_selected u = None" "\<not> ui_closed u" "ui_connected u" "ui_latest_detail u = 0" "ui_current_spaces u = [r]"
  shows "asked_first u r (select_space (Some (sr_space r)) u)"
  using assms
  by (simp add: select_space_def asked_first_def refresh_detail_def next_request_id_def daemon_send_def details_of_row_def
      Let_def)

lemma filter_first:
  assumes "ui_selected u = None" "\<not> ui_closed u" "ui_connected u" "ui_latest_detail u = 0" "ui_current_spaces u = [r]"
    "\<not> ui_reconciling u" "shown_by_filter lower u r"
  shows "asked_first u r (filter_spaces lower u)"
proof -
  define v where "v = select_space (Some (sr_space r)) (u\<lparr>ui_space_rows := set_visible_rows (shown_by_filter lower u) [r] (ui_space_rows u)\<rparr>)"
  have "asked_first u r v"
    using select_first [of "u\<lparr>ui_space_rows := set_visible_rows (shown_by_filter lower u) [r] (ui_space_rows u)\<rparr>" r] assms
    by (simp add: v_def asked_first_def)
  moreover have "asked_first u r (v\<lparr>ui_list_message_visible := b, ui_list_message := t\<rparr>)"
    if "asked_first u r v" for b t
    using that by (simp add: asked_first_def)
  ultimately show ?thesis using assms by (simp add: filter_spaces_def v_def Let_def)
qed

lemma render_first:
  assumes "ui_selected u = None" "\<not> ui_closed u" "ui_latest_detail u = 0" "ui_search u = []" "\<not> ui_only_running u"
    "ui_pending_select u = None"
  shows "asked_first u r (render_spaces id (SpacesShown [r]) u)"
proof -
  define w where "w = u\<lparr>ui_connected := True,
     ui_status := (ui_status u)\<lparr>st_connection := TXT_CONNECTED, st_connection_error := False\<rparr>,
     ui_list_unavailable := False, ui_space_rows := reconcile_rows [r] (ui_space_rows u), ui_current_spaces := [r],
     ui_reconciling := False\<rparr>"
  have "contains_sub x []" for x :: string by (cases x) (simp_all add: contains_sub_def)
  then have "shown_by_filter id w r" using assms by (simp add: shown_by_filter_def w_def)
  then have "asked_first w r (filter_spaces id w)"
    using assms by (intro filter_first) (simp_all add: w_def)
  then have "asked_first u r (sync_action_sensitivity (filter_spaces id w))"
    by (simp add: asked_first_def w_def)
  then show ?thesis using assms by (simp add: render_spaces_def w_def Let_def)
qed

definition ex_shown :: SpaceRow where
  "ex_shown = shown_row \<lparr>lr_space = ex_config, lr_state = Running, lr_isolation = None\<rparr>"

lemma ex_list_view: "spaces_view ex_list_reply = SpacesShown [ex_shown]"
  by (simp add: ex_list_reply_def shown_replies ex_shown_def)

lemma ex_shown_cells: "sr_space ex_shown = ''w''" "sr_state ex_shown = ''running''" "\<not> sr_encrypted ex_shown"
  by (simp_all add: ex_shown_def shown_row_def ex_config_def state_label_def Let_def)

lemma window_cells:
  "ui_selected build_window = None" "\<not> ui_closed build_window" "ui_latest_detail build_window = 0"
  "ui_search build_window = []" "\<not> ui_only_running build_window" "ui_pending_select build_window = None"
  "ui_latest_list build_window = 1" "ui_next_id build_window = 1" "ui_pending_action build_window = None"
  "ui_sent build_window = [(1, op_request ''list'')]" "\<not> ui_list_again build_window"
  by (simp_all add: build_window_def refresh_list_def next_request_id_def daemon_send_def sync_action_sensitivity_def Let_def
      new_ui_def)

lemma poll_one:
  assumes "\<not> ui_closed u" "ui_pending_action (handle_done lower i r u) = None"
  shows "poll_updates lower [Done i r] u = (handle_done lower i r u, [])"
  using assms by (simp add: poll_updates_def handle_update_def is_progress_def show_clock_def)

lemma ex_listed_asked: "asked_first (build_window\<lparr>ui_latest_list := 0\<rparr>) ex_shown ex_listed"
proof -
  let ?u = "build_window\<lparr>ui_latest_list := 0\<rparr>"
  let ?v = "handle_done id 1 ex_list_reply build_window"
  have v: "?v = render_spaces id (spaces_view ex_list_reply) ?u"
    by (simp add: handle_done_def list_done_def window_cells)
  have "asked_first ?u ex_shown ?v"
    unfolding v ex_list_view
    using render_first [of ?u ex_shown] by (simp add: window_cells)
  moreover from this have "ui_pending_action ?v = None" by (simp add: asked_first_def window_cells)
  ultimately show ?thesis
    using window_cells(2) by (simp add: ex_listed_def poll_one)
qed

lemma ex_listed_cells:
  "ui_sent ex_listed = [(1, op_request ''list''), (2, space_request ''describe'' ''w'')]"
  "ui_latest_detail ex_listed = 2" "ui_latest_list ex_listed = 0" "ui_connected ex_listed" "\<not> ui_closed ex_listed"
  "ui_selected ex_listed = Some ''w''" "ui_detail_request ex_listed = Some (''w'', ui_selection_epoch ex_listed)"
  "ui_pending_action ex_listed = None" "ui_current_spaces ex_listed = [ex_shown]"
  using ex_listed_asked by (simp_all add: asked_first_def window_cells ex_shown_cells)

lemma ex_described_is:
  "ex_described = render_detail (detail_view ex_detail_reply) (ex_listed\<lparr>ui_latest_detail := 0, ui_detail_request := None\<rparr>)"
proof -
  let ?v = "handle_done id 2 ex_detail_reply ex_listed"
  have d: "?v = render_detail (detail_view ex_detail_reply) (ex_listed\<lparr>ui_latest_detail := 0, ui_detail_request := None\<rparr>)"
    by (simp add: handle_done_def detail_done_def ex_listed_cells)
  have "ui_pending_action ?v = None" unfolding d by (simp add: render_detail_def Let_def ex_listed_cells)
  then show ?thesis by (simp add: ex_described_def poll_one ex_listed_cells d)
qed

lemma ex_described_shown: "d_root (ui_details ex_described)"
proof -
  have "detail_view ex_detail_reply = SpaceDetail (detail_rows (describe_json ex_description)) (log_tail_of (describe_json ex_description))"
    by (simp add: ex_detail_reply_def detail_view_def reply_to_value_def reply_json_def is_object_def describe_json_def Let_def)
  then show ?thesis unfolding ex_described_is by (simp add: render_detail_def Let_def)
qed

lemma ex_described_cells:
  "ui_selected ex_described = Some ''w''" "ui_current_spaces ex_described = [ex_shown]" "ui_connected ex_described"
  "ui_pending_action ex_described = None" "ui_latest_list ex_described = 0" "\<not> ui_closed ex_described"
  "ui_sent ex_described = ui_sent ex_listed" "ui_latest_detail ex_described = 0"
  by (simp_all add: ex_described_is render_detail_def ex_listed_cells Let_def)

lemma poll_rest: "\<not> ui_closed u \<Longrightarrow> poll_updates lower [x] u = (fst (poll_updates lower [x] u), [])"
  by (simp add: poll_updates_def Let_def)

definition ex_manager :: Manager where
  "ex_manager = \<lparr>mg_ui = ex_described, mg_channel = [],
     mg_answers = [(1, ex_list_reply), (2, ex_detail_reply)]\<rparr>"

lemma ex_manager_reachable: "mgr_reachable id ex_manager"
proof -
  let ?m1 = "\<lparr>mg_ui = build_window, mg_channel = [Done 1 ex_list_reply], mg_answers = [(1, ex_list_reply)]\<rparr>"
  let ?m2 = "\<lparr>mg_ui = ex_listed, mg_channel = [], mg_answers = [(1, ex_list_reply)]\<rparr>"
  let ?m3 = "\<lparr>mg_ui = ex_listed, mg_channel = [Done 2 ex_detail_reply], mg_answers = [(1, ex_list_reply), (2, ex_detail_reply)]\<rparr>"
  have bound: "0 < CHANNEL_BOUND" by (simp add: CHANNEL_BOUND_def)
  have "mgr_reachable id start_manager" by (rule begins)
  moreover have "mgr_step id start_manager ?m1"
    using answer [of 1 start_manager id ex_list_reply] bound
    by (simp add: start_manager_def running_thread_def window_cells)
  moreover have "mgr_step id ?m1 ?m2"
    using poll [of id ?m1 ex_listed "[]"] poll_rest [OF window_cells(2)] by (simp add: ex_listed_def)
  moreover have "mgr_step id ?m2 ?m3"
    using answer [of 2 ?m2 id ex_detail_reply] bound by (simp add: running_thread_def ex_listed_cells)
  moreover have "mgr_step id ?m3 ex_manager"
    using poll [of id ?m3 ex_described "[]"] poll_rest [OF ex_listed_cells(5)] by (simp add: ex_manager_def ex_described_def)
  ultimately show ?thesis by (blast intro: steps)
qed

lemma details_of_selected_witness:
  "\<exists>s i r rows tail. ui_selected ex_described = Some s \<and> (i, space_request ''describe'' s) \<in> set (ui_sent ex_described) \<and>
    (i, r) \<in> {(1, ex_list_reply), (2, ex_detail_reply)} \<and> detail_view r = SpaceDetail rows tail \<and>
    d_values (ui_details ex_described) = map (\<lambda>q. (dr_key q, value_text q)) rows \<and>
    d_log (ui_details ex_described) = join_str [CHR 0x0A] tail"
  using details_of_selected [OF ex_manager_reachable] ex_described_shown by (simp add: ex_manager_def)

lemma one_operation_at_a_time_witness:
  "card (under_way ex_described [] [(1, ex_list_reply), (2, ex_detail_reply)]) \<le> 5 \<and> lines_ok (ui_progress_lines ex_described)"
  using one_operation_at_a_time [OF ex_manager_reachable] unfolding ex_manager_def Manager.simps by blast

end
