(* ===== verification/ManagerProps.thy ===== *)
theory ManagerProps
  imports ManagerRun
begin

text \<open>
  The contracts of the manager's window: the list box is patched into what a fresh one
  would be, buttons follow the state, a form that may be sent is a request the daemon
  accepts, and a successful operation is followed by a new look at everything.
\<close>

section \<open>The list box\<close>

definition kept_visible :: "(string \<times> SpaceWidgets) list \<Rightarrow> SpaceRow \<Rightarrow> bool" where
  "kept_visible ws r = (case map_of ws (sr_space r) of Some w \<Rightarrow> w_visible w | None \<Rightarrow> True)"

definition fresh_row :: "bool \<Rightarrow> SpaceRow \<Rightarrow> string \<times> SpaceWidgets" where
  "fresh_row visible r = (sr_space r, (update_row r (new_row r))\<lparr>w_visible := visible\<rparr>)"

lemma update_row_fresh: "(sr_space r, update_row r w) = fresh_row (w_visible w) r"
  by (simp add: fresh_row_def update_row_def new_row_def)

lemma position_of_append: "(\<And>x. x \<in> set xs \<Longrightarrow> \<not> P x) \<Longrightarrow> P y \<Longrightarrow> position_of P (xs @ y # ys) = Some (length xs)"
  by (induction xs) auto

lemma map_other: "i \<notin> fst ` set ws \<Longrightarrow> map (\<lambda>p. if fst p = i then f p else p) ws = ws"
  by (induction ws) auto

lemma filter_other: "i \<notin> fst ` set ws \<Longrightarrow> filter (\<lambda>p. fst p \<noteq> i) ws = ws"
  by (induction ws) auto

lemma position_before: "position_of P xs = Some n \<Longrightarrow> n < length xs \<and> P (xs ! n)"
  by (induction xs arbitrary: n) (auto split: if_splits)

lemma insert_at_length [simp]: "insert_at (length xs) y (xs @ zs) = xs @ y # zs"
  by (simp add: insert_at_def)

lemma distinct_filter_keys: "distinct (map fst ws) \<Longrightarrow> distinct (map fst (filter P ws))"
  by (simp add: distinct_map inj_on_def)

text \<open>Placing one row behind the rows already placed.\<close>

lemma place_row_prefix:
  assumes "sr_space r \<notin> fst ` set ds" "distinct (map fst rest)"
  shows "place_row (length ds) r (ds @ rest) =
     ds @ fresh_row (kept_visible rest r) r # filter (\<lambda>p. fst p \<noteq> sr_space r) rest"
proof -
  let ?i = "sr_space r"
  have m: "map_of ds ?i = None" using assms(1) by (simp add: map_of_eq_None_iff)
  show ?thesis
  proof (cases "map_of rest ?i")
    case None
    then have n: "?i \<notin> fst ` set rest" by (simp add: map_of_eq_None_iff)
    have p: "position_of (\<lambda>p. fst p = ?i) (ds @ (?i, new_row r) # rest) = Some (length ds)"
      using assms(1) by (intro position_of_append) force+
    show ?thesis
      using None m p n assms(1)
      by (simp add: place_row_def Let_def map_add_def map_other filter_other update_row_fresh kept_visible_def)
        (simp add: fresh_row_def new_row_def update_row_def)
  next
    case (Some w)
    then have "(?i, w) \<in> set rest" by (rule map_of_SomeD)
    then obtain a b where r: "rest = a @ (?i, w) # b" by (auto dest: split_list)
    have ab: "?i \<notin> fst ` set a" "?i \<notin> fst ` set b" using assms(2) r by auto
    have m2: "map_of (ds @ rest) ?i = Some w" using m Some by (simp add: map_add_def)
    have f: "filter (\<lambda>p. fst p \<noteq> ?i) (ds @ rest) = ds @ a @ b" "filter (\<lambda>p. fst p \<noteq> ?i) rest = a @ b"
      using assms(1) ab by (simp_all add: r filter_other)
    have ws2: "(if position_of (\<lambda>p. fst p = ?i) (ds @ rest) = Some (length ds) then ds @ rest
        else insert_at (length ds) (?i, w) (filter (\<lambda>p. fst p \<noteq> ?i) (ds @ rest))) = ds @ (?i, w) # a @ b"
    proof (cases a)
      case Nil
      then have "position_of (\<lambda>p. fst p = ?i) (ds @ rest) = Some (length ds)"
        unfolding r using assms(1) by (simp, intro position_of_append) force+
      then show ?thesis by (simp add: r Nil)
    next
      case (Cons x xs)
      have "fst ((ds @ rest) ! length ds) \<noteq> ?i" using ab(1) by (auto simp: r Cons)
      then have "position_of (\<lambda>p. fst p = ?i) (ds @ rest) \<noteq> Some (length ds)" using position_before by fastforce
      then show ?thesis unfolding f by simp
    qed
    have "place_row (length ds) r (ds @ rest) =
        map (\<lambda>p. if fst p = ?i then (?i, update_row r (snd p)) else p) (ds @ (?i, w) # a @ b)"
      by (simp only: place_row_def Let_def m2 option.distinct if_False option.sel ws2)
    then show ?thesis
      unfolding f(2) using assms(1) ab by (simp add: map_other update_row_fresh kept_visible_def Some)
  qed
qed

lemma place_rows_prefix:
  assumes "distinct (map sr_space rs)" "distinct (map fst rest)" "fst ` set rest \<subseteq> sr_space ` set rs"
    "fst ` set ds \<inter> sr_space ` set rs = {}"
  shows "place_rows (length ds) rs (ds @ rest) = ds @ map (\<lambda>r. fresh_row (kept_visible rest r) r) rs"
  using assms
proof (induction rs arbitrary: ds rest)
  case (Cons r rs)
  let ?d = "fresh_row (kept_visible rest r) r" and ?rest = "filter (\<lambda>p. fst p \<noteq> sr_space r) rest"
  have "sr_space r \<notin> fst ` set ds" using Cons.prems(4) by auto
  then have "place_rows (length ds) (r # rs) (ds @ rest) = place_rows (length (ds @ [?d])) rs ((ds @ [?d]) @ ?rest)"
    using place_row_prefix [OF _ Cons.prems(2)] by simp
  also have "\<dots> = (ds @ [?d]) @ map (\<lambda>r. fresh_row (kept_visible ?rest r) r) rs"
  proof (rule Cons.IH)
    show "distinct (map fst ?rest)" using Cons.prems(2) by (rule distinct_filter_keys)
    show "fst ` set ?rest \<subseteq> sr_space ` set rs" using Cons.prems(3) by auto
    show "fst ` set (ds @ [?d]) \<inter> sr_space ` set rs = {}"
      using Cons.prems(1,4) by (auto simp: fresh_row_def)
  qed (use Cons.prems(1) in simp)
  also have "map (\<lambda>r. fresh_row (kept_visible ?rest r) r) rs = map (\<lambda>r. fresh_row (kept_visible rest r) r) rs"
  proof (rule map_cong [OF refl])
    fix q assume "q \<in> set rs"
    then have "sr_space q \<in> sr_space ` set rs" by (rule imageI)
    then have "sr_space q \<noteq> sr_space r" using Cons.prems(1) by auto
    then have "map_of ?rest (sr_space q) = map_of rest (sr_space q)" by (induction rest) auto
    then show "fresh_row (kept_visible ?rest q) q = fresh_row (kept_visible rest q) q" by (simp add: kept_visible_def)
  qed
  finally show ?case by simp
qed simp

text \<open>
  C37.  The list box of spaces is changed in place, row by row, so that the operator's
  view does not jump; the outcome is the list one would build from scratch: a row per
  space, in the daemon's order, with the current texts, icon, colour and classes, and
  only the visibility the filter had given a row kept.
\<close>

theorem list_reconciled:
  assumes "distinct (map sr_space rows)" "distinct (map fst ws)"
  shows "reconcile_rows rows ws = map (\<lambda>r. fresh_row (kept_visible ws r) r) rows"
proof -
  let ?ws = "filter (\<lambda>p. fst p \<in> sr_space ` set rows) ws"
  have "fst ` set ?ws \<subseteq> sr_space ` set rows" by auto
  from place_rows_prefix [OF assms(1) distinct_filter_keys [OF assms(2)] this, of "[]"]
  have "place_rows 0 rows ?ws = map (\<lambda>r. fresh_row (kept_visible ?ws r) r) rows" by simp
  moreover have "kept_visible ?ws r = kept_visible ws r" if "r \<in> set rows" for r
  proof -
    have "map_of ?ws (sr_space r) = map_of ws (sr_space r)" using that by (induction ws) auto
    then show ?thesis by (simp add: kept_visible_def)
  qed
  ultimately show ?thesis unfolding reconcile_rows_def by simp
qed

definition ex_row :: "string \<Rightarrow> SpaceRow" where
  "ex_row i = \<lparr>sr_space = i, sr_label = ''work'', sr_color = ''#112233'', sr_profile = ''web'', sr_state = ''running'',
     sr_level = ''standard'', sr_level_reason = [], sr_encrypted = False\<rparr>"

lemma list_reconciled_witness:
  "map fst (reconcile_rows [ex_row ''b'', ex_row ''c'', ex_row ''a''] [fresh_row False (ex_row ''a''), fresh_row True (ex_row ''b'')])
     = [''b'', ''c'', ''a'']"
  using list_reconciled [of "[ex_row ''b'', ex_row ''c'', ex_row ''a'']"
      "[fresh_row False (ex_row ''a''), fresh_row True (ex_row ''b'')]"]
  by (simp add: ex_row_def fresh_row_def)

section \<open>Buttons\<close>

definition synced :: "Ui \<Rightarrow> bool" where
  "synced u \<longleftrightarrow>
     bt_shown (ui_buttons u) = button_visible (selected_state u) \<and>
     bt_sensitive (ui_buttons u) = (\<lambda>a. live u \<and> action_enabled a (selected_state u)) \<and>
     bt_create (ui_buttons u) = live u \<and>
     (case ui_create_dialog u of
        Some f \<Rightarrow> f_create_sensitive f = (live u \<and> f_can_create f) \<and> f_build_sensitive f = (live u \<and> f_can_build f)
      | None \<Rightarrow> True)"

definition stays_synced :: "Ui \<Rightarrow> Ui \<Rightarrow> bool" where
  "stays_synced u v \<longleftrightarrow> (synced u \<longrightarrow> synced v)"

lemma synced_sync: "synced (sync_action_sensitivity u)"
  by (simp add: synced_def sync_action_sensitivity_def selected_state_def live_def Let_def split: option.split)

lemma synced_quiet:
  assumes "ui_pending_action u = ui_pending_action v" "ui_connected u = ui_connected v" "ui_selected u = ui_selected v"
    "ui_current_spaces u = ui_current_spaces v" "ui_buttons u = ui_buttons v"
    "map_option flags (ui_create_dialog u) = map_option flags (ui_create_dialog v)"
  shows "synced u = synced v"
  using assms
  by (cases "ui_create_dialog u"; cases "ui_create_dialog v")
    (auto simp: synced_def selected_state_def live_def flags_def)

lemma synced_cells:
  "synced (u\<lparr>ui_latest_list := n\<rparr>) = synced u" "synced (u\<lparr>ui_latest_detail := n\<rparr>) = synced u"
  "synced (u\<lparr>ui_latest_net := n\<rparr>) = synced u" "synced (u\<lparr>ui_latest_profiles := n\<rparr>) = synced u"
  "synced (u\<lparr>ui_closed := b\<rparr>) = synced u" "synced (u\<lparr>ui_now := n\<rparr>) = synced u"
  by (rule synced_quiet; simp)+

lemma synced_asks:
  "synced (refresh_list u) = synced u" "synced (refresh_detail i u) = synced u" "synced (refresh_net u) = synced u"
  "synced (request_profiles_for_dialog u) = synced u"
  by (rule synced_quiet; simp add: refresh_list_def refresh_detail_def refresh_net_def request_profiles_for_dialog_def
        next_request_id_def daemon_send_def Let_def)+

lemma synced_daemon_send: "synced (daemon_send i r u) = synced u"
  by (rule synced_quiet) (simp_all add: daemon_send_def)

lemma synced_send_action: "synced u \<Longrightarrow> synced (send_action r what k u)"
  by (simp add: send_action_def next_request_id_def Let_def synced_daemon_send synced_sync)

interpretation synced: window_rule stays_synced
proof
  show "stays_synced u v" if "ruled u = ruled v" for u v
    using synced_quiet [of u v] that by (simp add: stays_synced_def ruled_def core_def)
  show "stays_synced u (set_form g u)" if "\<And>f. flags (g f) = flags f" for g u
  proof -
    have "flags \<circ> g = flags" using that by (simp add: fun_eq_iff)
    then show ?thesis
      using synced_quiet [of u "set_form g u"] by (simp add: stays_synced_def set_form_def option.map_comp)
  qed
  show "stays_synced u (append_progress t u)" for u t
    using synced_quiet [of u "append_progress t u"] by (simp add: stays_synced_def append_progress_def)
  show "stays_synced u (u\<lparr>ui_create_dialog := None\<rparr>)" for u
    by (simp add: stays_synced_def synced_def selected_state_def live_def)
  show "stays_synced u (select_space x u)" for u x
    by (simp add: stays_synced_def select_space_def synced_sync Let_def)
  show "stays_synced u (revalidate (u\<lparr>ui_create_dialog := d\<rparr>))" for u d
    by (simp add: stays_synced_def revalidate_def synced_sync)
qed (auto simp: stays_synced_def synced_asks synced_send_action synced_sync)

lemma synced_finish: "synced (finish_action a r u)"
proof -
  have "synced (show_result b m u)" for b m by (simp add: show_result_def synced_sync Let_def)
  then show ?thesis using synced.after_result [OF refl refl, of reply a u for reply] by (simp add: stays_synced_def)
qed

lemma synced_done:
  assumes "synced u"
  shows "synced (handle_done lower i r u)"
proof -
  have list: "synced (list_done lower r v)" if "synced v" for v
    using that synced.list_again [of v] by (simp add: list_done_def stays_synced_def render_spaces_def synced_sync)
  have "synced (v\<lparr>ui_detail_request := None\<rparr>) = synced v" "synced (render_detail x v) = synced v" for v x
    by (rule synced_quiet; simp add: render_detail_def Let_def)+
  then have detail: "synced (detail_done r v)" if "synced v" for v
    using that by (simp add: detail_done_def Let_def synced_asks split: option.split)
  have cells: "synced (u\<lparr>ui_latest_list := 0\<rparr>)" "synced (u\<lparr>ui_latest_detail := 0\<rparr>)" "synced (u\<lparr>ui_latest_net := 0\<rparr>)"
    "synced (u\<lparr>ui_latest_profiles := 0\<rparr>)"
    using assms by (simp_all add: synced_cells)
  show ?thesis
    using assms cells list detail synced.render_net synced.profiles_done synced_finish
    by (auto simp: handle_done_def stays_synced_def split: option.split)
qed

lemma synced_step:
  assumes "mgr_step lower m n" "synced (mg_ui m)"
  shows "synced (mg_ui n)"
  using assms
proof (cases rule: mgr_step.cases)
  case (signal s)
  have "synced (close_form (u\<lparr>ui_closed := True\<rparr>))" if "synced u" for u
  proof -
    have "synced (u\<lparr>ui_closed := True\<rparr>)" using that by (simp add: synced_cells)
    then show ?thesis using synced.close_form by (simp add: stays_synced_def)
  qed
  then show ?thesis
    using signal assms(2) synced.handle_signal [of s "mg_ui m" lower]
    by (cases "s = CloseRequest") (simp_all add: stays_synced_def handle_signal_def)
next
  case (time t)
  then show ?thesis using assms(2) by (simp add: synced_cells)
next
  case (poll ui rest)
  have u: "synced (handle_update lower x u)" if "synced u" for x u
    using that synced_done synced.handle_progress by (cases x) (simp_all add: handle_update_def stays_synced_def)
  have f: "synced (fold (handle_update lower) xs u)" if "synced u" for xs u
    using that by (induction xs arbitrary: u) (simp_all add: u)
  show ?thesis
    using poll assms(2) f synced.show_clock synced.render_progress
    by (auto simp: poll_updates_def stays_synced_def Let_def split: if_splits)
qed simp_all

lemma reachable_synced: "mgr_reachable lower m \<Longrightarrow> synced (mg_ui m)"
proof (induction rule: mgr_reachable.induct)
  case begins
  show ?case by (simp add: start_manager_def build_window_def synced_sync)
qed (rule synced_step)

text \<open>
  C38.  A button the operator can press belongs to the state of the selected space in
  the list shown: start, update, reset and destroy to a stopped space, opening a window
  to a running one, stopping to one that runs or does not respond; the daemon is
  connected and no operation is pending.  Pressing it asks for the passphrase of an
  encrypted space, asks for confirmation, or sends exactly that request.
\<close>

theorem clicks_follow_state:
  assumes "mgr_reachable lower m" "click_allowed (SpaceClicked a) (mg_ui m) \<or> click_allowed (MenuClicked a) (mg_ui m)"
  shows "\<exists>r. r \<in> set (ui_current_spaces (mg_ui m)) \<and> ui_selected (mg_ui m) = Some (sr_space r) \<and>
    ui_connected (mg_ui m) \<and> ui_pending_action (mg_ui m) = None \<and>
    sr_state r \<in> (case a of AStop \<Rightarrow> {''running'', ''unresponsive''} | AOpenWindow \<Rightarrow> {''running''} | _ \<Rightarrow> {''stopped''}) \<and>
    (let v = handle_signal lower (SpaceClicked a) (mg_ui m); w = handle_signal lower (MenuClicked a) (mg_ui m) in
       (if needs_passphrase (action_op a) (ui_current_spaces (mg_ui m)) (sr_space r)
        then ui_sent v = ui_sent (mg_ui m) \<and>
             ui_dialogs v = ui_dialogs (mg_ui m) @
               [PassphraseDialog (sr_space r) (action_op a) (action_op a @ '' '' @ sr_space r) False []]
        else ui_closed (mg_ui m) \<or>
             ui_sent v = ui_sent (mg_ui m) @ [(Suc (ui_next_id (mg_ui m)), space_request (action_op a) (sr_space r))]) \<and>
       ui_sent w = ui_sent (mg_ui m) \<and>
       ui_dialogs w = ui_dialogs (mg_ui m) @ [ConfirmDialog (confirm_kind (action_op a)) (sr_space r) (action_op a)])"
proof -
  let ?u = "mg_ui m"
  have s: "synced ?u" by (rule reachable_synced [OF assms(1)])
  have a: "a \<noteq> ABuild" and e: "live ?u" "action_enabled a (selected_state ?u)"
    using assms(2) s by (auto simp: click_allowed_def synced_def)
  then obtain st where st: "selected_state ?u = Some st" by (cases a) (auto simp: action_enabled_def)
  then obtain i r where r: "ui_selected ?u = Some i" "find (\<lambda>r. sr_space r = i) (ui_current_spaces ?u) = Some r" "sr_state r = st"
    by (auto simp: selected_state_def Option.bind_eq_Some_conv)
  have i: "sr_space r = i" "r \<in> set (ui_current_spaces ?u)" using r(2) by (auto simp: find_Some_iff)
  have "sr_state r \<in> (case a of AStop \<Rightarrow> {''running'', ''unresponsive''} | AOpenWindow \<Rightarrow> {''running''} | _ \<Rightarrow> {''stopped''})"
    using a e(2) st r(3) by (cases a) (auto simp: action_enabled_def)
  moreover have "ui_connected ?u" "ui_pending_action ?u = None" using e(1) by (simp_all add: live_def)
  ultimately show ?thesis
    using r(1) i
    by (intro exI [of _ r])
      (simp add: handle_signal_def send_or_ask_def open_passphrase_dialog_def confirm_and_send_def send_action_def
        next_request_id_def daemon_send_def Let_def)
qed

lemma clicks_follow_state_witness:
  "ui_sent (handle_signal id (SpaceClicked AStop) ex_described) =
     ui_sent ex_described @ [(Suc (ui_next_id ex_described), space_request ''stop'' ''w'')]"
proof -
  have "synced ex_described" using reachable_synced [OF ex_manager_reachable] by (simp add: ex_manager_def)
  then have "click_allowed (SpaceClicked AStop) (mg_ui ex_manager)"
    by (simp add: ex_manager_def click_allowed_def synced_def selected_state_def live_def ex_described_cells ex_shown_cells
        action_enabled_def button_visible_def)
  with clicks_follow_state [OF ex_manager_reachable, of AStop] show ?thesis
    by (auto simp: ex_manager_def Let_def needs_passphrase_def action_op_def ex_described_cells ex_shown_cells)
qed

section \<open>The form\<close>

lemma slug_error_None: "slug_error s = None \<longleftrightarrow> is_safe_slug s"
proof -
  have "\<not> is_safe_slug []" by (simp add: is_safe_slug_def)
  then show ?thesis by (auto simp: slug_error_def SpaceId_new_def)
qed

lemma id_error_None: "id_error_text s ids = None \<longleftrightarrow> is_safe_slug s \<and> s \<notin> set ids"
  using slug_error_None [of s] by (auto simp: id_error_text_def split: option.split)

lemma color_error_None: "color_error s = None \<longleftrightarrow> is_rrggbb s"
  by (simp add: color_error_def accepts_color_def Color_new_def)

lemma profile_check_ok: "fst (profile_check p) \<longleftrightarrow> (\<exists>r. p = Some r \<and> profile_eligibility r = Ready)"
  by (auto simp: profile_check_def split: option.split ProfileEligibility.split)

text \<open>What the form holds is what revalidating it keeps.\<close>

lemma revalidated_form:
  assumes "ui_create_dialog u = Some f"
  shows "\<exists>g. ui_create_dialog (revalidate u) = Some g \<and> form_profile g = form_profile f \<and> f_profiles g = f_profiles f \<and>
    (\<forall>p. create_request g p = create_request f p) \<and> f_id g = f_id f \<and> f_encrypt g = f_encrypt f \<and>
    (f_can_create g \<longleftrightarrow> fst (profile_check (form_profile f)) \<and> is_safe_slug (f_id f) \<and>
       f_id f \<notin> sr_space ` set (ui_current_spaces u) \<and> is_safe_slug (f_label f) \<and> is_rrggbb (effective_color f) \<and>
       passphrase_problem f = None)"
  using assms
  by (cases "profile_check (form_profile f)")
    (simp add: revalidate_def set_form_def sync_action_sensitivity_def revalidated_def Let_def create_request_def
      passphrase_member_def effective_color_def form_profile_def slug_error_None id_error_None color_error_None)

definition form_seed :: "CreateDialog \<Rightarrow> string option" where
  "form_seed f = (let s = trim (f_seed f) in if s = [] then None else Some s)"

definition form_passphrase :: "CreateDialog \<Rightarrow> string option" where
  "form_passphrase f = (if f_encrypt f then Some (f_passphrase f) else None)"

lemma create_request_parsed:
  assumes "is_safe_slug (f_id f)" "is_safe_slug (pf_profile p)" "is_safe_slug (f_label f)" "is_rrggbb (effective_color f)"
    "passphrase_problem f = None"
  shows "request_of (create_request f p) =
    Some (Create (SpaceId (f_id f)) (SpaceId (pf_profile p)) (Label (f_label f)) (Color (effective_color f))
      (form_seed f) (form_passphrase f))"
  using assms
  by (auto simp: create_request_def request_of_def request_fields_def create_of_def fields_ok_def seed_member_def
      passphrase_member_def passphrase_problem_def form_seed_def form_passphrase_def Control.f_id_def Control.f_label_def Control.f_color_def f_opt_def
      SpaceId_new_def Label_new_def Color_new_def Let_def split: if_splits)

lemma close_form_sent: "ui_sent (close_form u) = ui_sent u" "ui_create_dialog (close_form u) = None"
  by (simp_all add: close_form_def edit_form_def revalidate_def set_form_def)

lemma no_passphrases_cells:
  "ui_sent (edit_form g u) = ui_sent u" "ui_next_id (edit_form g u) = ui_next_id u" "ui_closed (edit_form g u) = ui_closed u"
  "ui_connected (edit_form g u) = ui_connected u" "ui_pending_action (edit_form g u) = ui_pending_action u"
  "ui_sent (revalidate u) = ui_sent u" "ui_next_id (revalidate u) = ui_next_id u"
  by (simp_all add: edit_form_def revalidate_def set_form_def)


definition ex_profile :: ProfileRow where
  "ex_profile = \<lparr>pf_profile = ''web'', pf_template = True, pf_manifest_ok = True, pf_level = None, pf_error = None\<rparr>"

definition ex_form :: CreateDialog where
  "ex_form = new_form\<lparr>f_profiles := [ex_profile], f_id := ''z''\<rparr>"

lemma ex_form_cells:
  "form_profile ex_form = Some ex_profile" "f_id ex_form = ''z''" "f_label ex_form = ''untrusted''"
  "effective_color ex_form = ''#e03131''" "passphrase_problem ex_form = None" "f_profiles ex_form = [ex_profile]"
  by (simp_all add: form_profile_def ex_form_def new_form_def effective_color_def passphrase_problem_def PRESET_LABELS_def
      PRESET_COLORS_def trim_def)

lemma ex_form_strings: "is_safe_slug ''z''" "is_safe_slug ''untrusted''" "is_safe_slug ''web''" "is_rrggbb ''#e03131''"
  by code_simp+


section \<open>After an operation\<close>

lemma sync_again_cells [simp]:
  "ui_latest_profiles (sync_action_sensitivity u) = ui_latest_profiles u"
  "ui_list_again (sync_action_sensitivity u) = ui_list_again u"
  by (simp_all add: sync_action_sensitivity_def Let_def)

lemma show_result_cells:
  "ui_latest_list (show_result b t u) = ui_latest_list u" "ui_latest_profiles (show_result b t u) = ui_latest_profiles u"
  "ui_next_id (show_result b t u) = ui_next_id u" "ui_closed (show_result b t u) = ui_closed u"
  "ui_pending_action (show_result b t u) = ui_pending_action u"
  by (simp_all add: show_result_def Let_def form_status_def render_progress_def append_progress_def)

definition fresh_request :: "nat \<Rightarrow> bool \<Rightarrow> nat \<Rightarrow> bool" where
  "fresh_request i again n \<longleftrightarrow> i \<noteq> 0 \<and> (again \<or> n < i)"

lemma refresh_after_fresh:
  assumes "\<not> ui_closed u" "n \<le> ui_next_id u"
  shows "fresh_request (ui_latest_list (refresh_after a u)) (ui_list_again (refresh_after a u)) n \<and>
    fresh_request (ui_latest_profiles (refresh_after a u)) (ui_profiles_again (refresh_after a u)) n \<and>
    ui_pending_action (refresh_after a u) = ui_pending_action u \<and> n \<le> ui_next_id (refresh_after a u) \<and>
    \<not> ui_closed (refresh_after a u)"
  using assms
  by (auto simp: refresh_after_def Let_def prompt_start_after_create_def refresh_list_def refresh_detail_def
      request_profiles_for_dialog_def next_request_id_def daemon_send_def fresh_request_def
      split: PendingKind.split option.split)


definition ex_stopping :: Manager where
  "ex_stopping = ex_manager\<lparr>mg_ui := handle_signal id (SpaceClicked AStop) ex_described\<rparr>"

definition ex_pending :: PendingAction where
  "ex_pending = \<lparr>pa_id = Suc (ui_next_id ex_described), pa_label = ''stop w'', pa_kind = KOther, pa_started = ui_now ex_described\<rparr>"

lemma ex_stopping_cells:
  "ui_pending_action (mg_ui ex_stopping) = Some ex_pending" "\<not> ui_closed (mg_ui ex_stopping)"
  by (simp_all add: ex_stopping_def ex_pending_def handle_signal_def ex_described_cells send_or_ask_def needs_passphrase_def
      action_op_def send_action_def next_request_id_def daemon_send_def Let_def)

lemma ex_stopping_reachable: "mgr_reachable id ex_stopping"
proof -
  have "synced ex_described" using reachable_synced [OF ex_manager_reachable] by (simp add: ex_manager_def)
  then have "click_allowed (SpaceClicked AStop) (mg_ui ex_manager)"
    by (simp add: ex_manager_def click_allowed_def synced_def selected_state_def live_def ex_described_cells ex_shown_cells
        action_enabled_def button_visible_def)
  from mgr_step.signal [OF this, of id] show ?thesis
    using steps [OF ex_manager_reachable] by (simp add: ex_stopping_def ex_manager_def)
qed


section \<open>The build button of a space\<close>

text \<open>
  The button selects the profile of the space but leaves the title and the text of the
  page as they were until the profiles arrive: what \<open>ProfileBuildClicked\<close> would build
  is not what the page names.
\<close>

lemma build_clicked_title:
  "ui_profile_pane (build_clicked u) = ui_profile_pane u"
  "Option.bind (ui_selected u) (profile_for_build (ui_current_spaces u)) = Some p \<Longrightarrow>
     ui_selected_profile (build_clicked u) = Some p"
  by (auto simp: build_clicked_def show_page_def request_profiles_for_dialog_def next_request_id_def daemon_send_def Let_def
      split: option.split)

end
