(* ===== verification/OpsNet.thy ===== *)
theory OpsNet
  imports OpsStop
begin

text \<open>
  The network side of the handlers: no tap of a space is ever up before it is
  isolated on the bridge, and what a start leaves behind.
\<close>

section \<open>Operations that leave the links alone\<close>

definition wired :: "world \<Rightarrow> world \<Rightarrow> bool" where
  "wired w w' \<longleftrightarrow> links w' = links w \<and> prefix (commands w) (commands w')"

interpretation wired: step_rel wired
  by unfold_locales (auto simp: wired_def)

named_theorems wired_intros

lemma links_fs [simp]:
  "links (set_node p n w) = links w" "commands (set_node p n w) = commands w"
  "links (del_node p w) = links w" "commands (del_node p w) = commands w"
  "links (tick w) = links w" "commands (tick w) = commands w"
  by (simp_all add: set_node_def del_node_def tick_def)

lemma links_nodes [simp]:
  "links (new_dir p w) = links w" "commands (new_dir p w) = commands w"
  "links (put_content p c w) = links w" "commands (put_content p c w) = commands w"
  "links (change_node p f w) = links w" "commands (change_node p f w) = commands w"
  by (simp_all add: new_dir_def put_content_def change_node_def split: option.split)

lemma links_more [simp]:
  "links (spoil p w) = links w" "commands (spoil p w) = commands w"
  "links (fold new_dir ps w) = links w" "commands (fold new_dir ps w) = commands w"
  by (simp_all add: spoil_def split: option.split) (induction ps arbitrary: w; simp)+

lemma wired_sys:
  "(\<And>w. wired w (f w)) \<Longrightarrow> (\<And>w. wired w (g w)) \<Longrightarrow> wired.holds (sys c f g)"
  by (rule wired.holds_sys) (simp_all add: wired_def)

lemma wired_command:
  "(\<And>w. links (f w) = links w \<and> commands (f w) = commands w) \<Longrightarrow>
   (\<And>w. links (g w) = links w \<and> commands (g w) = commands w) \<Longrightarrow> wired.holds (command argv c f g)"
  unfolding command_def
  by (intro wired.holds_sq wired.holds_tell wired_sys) (simp_all add: wired_def)

lemma wired_tell: "(\<And>w. links (f w) = links w \<and> commands (f w) = commands w) \<Longrightarrow> wired.holds (tell f)"
  by (rule wired.holds_tell) (simp add: wired_def)

lemma wired_looks: "looks.holds f \<Longrightarrow> wired.holds f"
  unfolding looks.holds_def wired.holds_def wired_def by (metis prefix_order.refl time_simps(3,9))

lemma wired_reads [wired_intros]:
  "wired.holds (query q)" "wired.holds (read_to_string p)" "wired.holds (read_bytes p)" "wired.holds (read_link p)"
  "wired.holds (read_dir p)"
  by (intro wired_looks looks_reads looks_query)+

lemma wired_files [wired_intros]:
  "wired.holds (create_dir_all p)" "wired.holds (write_file p c)"
  "wired.holds (set_mode p k)" "wired.holds (chown p u g)" "wired.holds (remove_file p)"
  "wired.holds (remove_dir_all p)" "wired.holds (rename_file p p')" "wired.holds (rename_dir p p')"
  "wired.holds (symlink s p)"
  unfolding create_dir_all_def write_file_def set_mode_def chown_def remove_file_def remove_dir_all_def
    rename_file_def rename_dir_def symlink_def
  by (rule wired_sys; simp add: wired_def split: option.split)+

lemma wired_processes [wired_intros]:
  "wired.holds (try_wait pid)" "wired.holds (kill_process pid)" "wired.holds (call_agent x cid n req)"
  "wired.holds (spawn_process argv exec)" "wired.holds (apply_nft ls)" "wired.holds (link_exists name)"
proof -
  show "wired.holds (try_wait pid)" "wired.holds (call_agent x cid n req)"
    by (simp_all add: wired.holds_def wired_def try_wait_def call_agent_def Let_def)
  show "wired.holds (kill_process pid)"
    unfolding kill_process_def by (rule wired_tell) simp
  show "wired.holds (spawn_process argv exec)"
    unfolding spawn_process_def by (intro wired.holds_intros wired_command) simp_all
  show "wired.holds (apply_nft ls)"
    unfolding apply_nft_def by (rule wired_command) simp_all
  show "wired.holds (link_exists name)"
    unfolding link_exists_def log_command_def
    by (intro wired.holds_sq wired.holds_tell) (simp_all add: wired.holds_def wired_def)
qed

lemma wired_volume [wired_intros]:
  "wired.holds (qemu_img_overlay b p secret)" "wired.holds (qemu_img_blank p n secret)"
  "wired.holds (qemu_img_convert b p secret)" "wired.holds (mkfs_seed spec p)" "wired.holds (truncate_raw p n)"
  unfolding qemu_img_overlay_def qemu_img_blank_def qemu_img_convert_def mkfs_seed_def truncate_raw_def
  by (auto intro!: wired_command wired_sys wired.holds_sq wired_files simp: wired_def split: option.split)

lemma wired_ops [wired_intros]:
  "wired.holds f \<Longrightarrow> wired.holds (internal f)" "wired.holds (refuse c msg)"
  by (auto simp: internal_def refuse_def intro: wired.holds_intros)

lemma wired_poll: "wired.holds alive \<Longrightarrow> wired.holds (poll_agent x cid n alive t0 k)"
proof (induction k)
  case 0
  then show ?case
    by (subst poll_agent.simps) (auto simp: agent_health_def intro!: wired.holds_intros wired_intros)
next
  case (Suc k)
  then show ?case
    by (subst poll_agent.simps)
      (auto simp: agent_health_def intro!: wired.holds_intros wired_intros wired_tell)
qed

lemma wired_app [wired_intros]:
  "wired.holds (child_alive i)" "wired.holds (start_app_via_agent x cid n (child_alive i))"
proof -
  show c: "wired.holds (child_alive i)"
    unfolding child_alive_def by (intro wired.holds_intros wired_intros)
  show "wired.holds (start_app_via_agent x cid n (child_alive i))"
    unfolding start_app_via_agent_def agent_exec_app_def
    by (intro wired.holds_intros wired_intros wired_poll c)
qed

lemma wired_secrets [wired_intros]:
  "wired.holds (write_running_secret run i uid pp)" "wired.holds (remove_running_secret run i)"
  "wired.holds (write_qemu_img_secret cx pw)" "wired.holds (opt_secret cx pw')"
  "wired.holds (cleanup_qemu_img_secret secret)" "wired.holds (write_nonce p n)" "wired.holds (read_nonce run i)"
  "wired.holds generate_nonce" "wired.holds (prepare_space_run_dir d gid)" "wired.holds (tail_of p)"
  "wired.holds (kill_and_reap cx i)" "wired.holds (pid_of run i cid)" "wired.holds (state_of run i cid)"
  unfolding write_running_secret_def remove_running_secret_def write_qemu_img_secret_def opt_secret_def
    cleanup_qemu_img_secret_def write_nonce_def read_nonce_def generate_nonce_def prepare_space_run_dir_def tail_of_def
    kill_and_reap_def state_of_def pid_of_def Let_def
  by (intro wired.holds_intros wired_intros wired_tell wired_command; simp)+

section \<open>No tap is up before it is isolated\<close>

definition taps_closed :: "world \<Rightarrow> bool" where
  "taps_closed w \<longleftrightarrow>
     (\<forall>cid l. al_get (links w) (space_tap cid) = Some l \<longrightarrow> l_up l \<longrightarrow>
        l_isolated l \<and> l_master l = Some BRIDGE)"

lemma wired_closed: "wired.holds f \<Longrightarrow> inv.holds taps_closed f"
  by (simp add: wired.holds_def inv.holds_def keeps_def wired_def taps_closed_def)

text \<open>The tap of a space that is on the bridge, isolated, and up.\<close>

definition tap_on :: "nat \<Rightarrow> nat \<Rightarrow> world \<Rightarrow> bool" where
  "tap_on cid uid w \<longleftrightarrow>
     al_get (links w) (space_tap cid) =
       Some \<lparr>l_uid = uid, l_master = Some BRIDGE, l_isolated = True, l_up = True\<rparr>"

lemma hoare_keeps: "hoare I f (\<lambda>_. I) (\<lambda>_. I) \<Longrightarrow> inv.holds I f"
  by (auto simp: hoare_def inv.holds_def keeps_def split: prod.splits sum.splits) (metis surjective_pairing obj_sumE)

lemma create_tap_hoare:
  "hoare (\<lambda>w. C \<longrightarrow> taps_closed w) (create_tap cid uid) (\<lambda>_ w. (C \<longrightarrow> taps_closed w) \<and> tap_on cid uid w)
     (\<lambda>_ w. C \<longrightarrow> taps_closed w)"
proof -
  let ?t = "space_tap cid" and ?C = "\<lambda>w. C \<longrightarrow> taps_closed w"
  let ?L = "\<lambda>m i w. ?C w \<and> al_get (links w) ?t = Some \<lparr>l_uid = uid, l_master = m, l_isolated = i, l_up = False\<rparr>"
  have "hoare ?C (ip_tuntap_add ?t uid) (\<lambda>_. ?L None False) (\<lambda>_. ?C)"
    by (auto simp: hoare_def ip_tuntap_add_def command_def sq_def bnd_def tell_def sys_def taps_closed_def al.get_put
        split: if_splits)
  moreover have "hoare (?L None False) (ip_set_master ?t BRIDGE) (\<lambda>_. ?L (Some BRIDGE) False) (\<lambda>_. ?C)"
    by (auto simp: hoare_def ip_set_master_def command_def sq_def bnd_def tell_def sys_def taps_closed_def al.get_put
        change_link_def split: if_splits option.splits)
  moreover have "hoare (?L (Some BRIDGE) False) (bridge_isolate ?t) (\<lambda>_. ?L (Some BRIDGE) True) (\<lambda>_. ?C)"
    by (auto simp: hoare_def bridge_isolate_def command_def sq_def bnd_def tell_def sys_def taps_closed_def al.get_put
        change_link_def split: if_splits option.splits)
  moreover have "hoare (?L (Some BRIDGE) True) (ip_set_up ?t) (\<lambda>_ w. ?C w \<and> tap_on cid uid w) (\<lambda>_. ?C)"
    by (auto simp: hoare_def ip_set_up_def command_def sq_def bnd_def tell_def sys_def taps_closed_def al.get_put
        change_link_def tap_on_def split: if_splits option.splits)
  ultimately show ?thesis
    unfolding create_tap_def Let_def by (intro hoare_sq)
qed

lemma inv_taps:
  "inv.holds taps_closed (create_tap cid uid)" "inv.holds taps_closed (delete_tap cid)"
  "inv.holds taps_closed (reap_leftover_tap cid)"
proof -
  show "inv.holds taps_closed (create_tap cid uid)"
    by (rule hoare_keeps, rule hoare_post [OF create_tap_hoare [of True, simplified]]) auto
  show d: "inv.holds taps_closed (delete_tap cid)"
    by (auto simp: inv.holds_def keeps_def delete_tap_def Let_def command_def sq_def bnd_def tell_def sys_def
        taps_closed_def al.get_del split: if_splits)
  show "inv.holds taps_closed (reap_leftover_tap cid)"
    unfolding reap_leftover_tap_def by (intro inv.holds_intros wired_closed wired_intros d)
qed

section \<open>Every handler\<close>

lemma wired_store [wired_intros]:
  "wired.holds (store_load x st)" "wired.holds (update_space x s i f)" "wired.holds (remove_space s i)"
  "wired.holds (create_space x s i p g l k e)" "wired.holds (refresh x s reg)"
proof -
  show "wired.holds (store_load x st)" by (rule wired_looks [OF looks_load])
  show "wired.holds (update_space x s i f)" "wired.holds (remove_space s i)" "wired.holds (create_space x s i p g l k e)"
    "wired.holds (refresh x s reg)"
    unfolding update_space_def write_config_atomically_def remove_space_def create_space_def allocate_cid_def
      ensure_uid_is_free_def now_rfc3339_def refresh_def write_atomically_def Let_def
    by (intro wired.holds_intros wired_intros)+
qed

lemma wired_helpers [wired_intros]:
  "wired.holds (load_store cx)" "wired.holds (space_or_not_found s i)" "wired.holds (load_manifest cx p)"
  "wired.holds (resolve_template_digest st p)" "wired.holds (resolve_latest_digest st p)"
  "wired.holds (require_passphrase_matches_encryption b pw)" "wired.holds (reject_if_running cx i cid)"
  "wired.holds lookup_kvm_gid" "wired.holds (resolve_build_uid cx)" "wired.holds (passwd_entry uid)"
  "wired.holds (observed_state x run j cid)" "wired.holds (death_error i msg t)" "wired.holds (manifest_load x mp)"
  "wired.holds bridge_exists"
  unfolding load_store_def space_or_not_found_def load_manifest_def resolve_template_digest_def bridge_exists_def
    resolve_latest_digest_def require_passphrase_matches_encryption_def reject_if_running_def via_latest_def
    lookup_kvm_gid_def resolve_build_uid_def passwd_entry_def observed_state_def agent_health_def death_error_def
    manifest_load_def Let_def
  by (intro wired.holds_intros wired_intros)+

lemma wired_volumes [wired_intros]:
  "wired.holds (seed_spec_of cx m sd)" "wired.holds (with_secret cx pw (create_volumes td d uid n seed))"
  "wired.holds (with_secret cx pw (\<lambda>secret. sq (qemu_img_overlay b p secret) (own_and_lock_down p uid)))"
  unfolding seed_spec_of_def validate_seed_dir_def resolve_build_gid_def with_secret_def create_volumes_def
    own_and_lock_down_def seed_data_volume_def prepare_staging_dir_def cleanup_staging_def Let_def
  by (intro wired.holds_intros wired_intros)+

lemma wired_build [wired_intros]: "wired.holds (run_streaming argv staging home b)"
proof -
  have "links (fold (\<lambda>(n, c). put_content (f n) c) l w) = links w \<and>
      commands (fold (\<lambda>(n, c). put_content (f n) c) l w) = commands w" for f and l :: "(string \<times> content) list" and w
    by (induction l arbitrary: w) auto
  then have "links (put_built d h b w) = links w \<and> commands (put_built d h b w) = commands w" for d h b w
    by (simp add: put_built_def Let_def)
  then show ?thesis
    unfolding run_streaming_def by (intro wired.holds_intros wired_intros wired_tell wired_command) simp_all
qed

lemma wired_reading_ops:
  "wired.holds (op_list cx)" "wired.holds (op_profiles cx)" "wired.holds (op_describe cx i)"
  "wired.holds (op_net_status cx)"
proof -
  have m: "wired.holds list_space_taps" "wired.holds (pci_status addr)" "wired.holds miyori_net_status" for addr
    unfolding list_space_taps_def tap_status_def pci_status_def miyori_net_status_def console_path_of_def
      read_console_tail_def
    by (intro wired.holds_intros wired_intros)+
  have r: "wired.holds (rss_kib pid)" "wired.holds (tail_sanitized p n k)" for pid p n k
    unfolding rss_kib_def tail_sanitized_def by (intro wired.holds_intros wired_intros)+
  show "wired.holds (op_list cx)" "wired.holds (op_profiles cx)"
    unfolding op_list_def list_row_of_def op_profiles_def describe_profile_def Let_def
    by (intro wired.holds_intros wired_intros)+
  show "wired.holds (op_describe cx i)"
    unfolding op_describe_def by (intro wired.holds_intros wired_intros r)
  have n: "wired.holds (\<lambda>w. (Inr (\<not> faulty w, nft w), tick w))"
    by (simp add: wired.holds_def wired_def)
  show "wired.holds (op_net_status cx)"
    unfolding op_net_status_def by (intro wired.holds_intros wired_intros m n)
qed

lemma wired_changing_ops:
  "wired.holds (op_create cx i p l k sd pw)" "wired.holds (op_build cx p)" "wired.holds (op_open_window cx i)"
  "wired.holds (op_reset_system cx i pw)" "wired.holds (op_reset_all cx i pw)" "wired.holds (op_update_image cx i pw)"
proof -
  show "wired.holds (op_create cx i p l k sd pw)"
    unfolding op_create_def by (intro wired.holds_intros wired_intros)
  show "wired.holds (op_build cx p)"
    unfolding op_build_def resolve_build_gid_def resolve_build_home_def prepare_staging_dir_def cleanup_staging_def
      digest_from_out_dir_def finalize_template_def own_dir_and_its_entries_as_root_def relink_latest_def Let_def
    by (intro wired.holds_intros wired_intros)
  show "wired.holds (op_open_window cx i)" "wired.holds (op_reset_system cx i pw)" "wired.holds (op_reset_all cx i pw)"
    "wired.holds (op_update_image cx i pw)"
    unfolding op_open_window_def agent_exec_app_def op_reset_system_def op_reset_all_def op_update_image_def
      set_digest_def Let_def
    by (intro wired.holds_intros wired_intros)+
qed

lemma wired_qemu [wired_intros]: "wired.holds (qemu_spawn run rd st secret)"
  unfolding qemu_spawn_def by (intro wired.holds_intros wired_intros wired_tell) simp_all

lemma closed_handlers:
  "inv.holds taps_closed (op_start cx i pw)" "inv.holds taps_closed (op_stop cx i)" "inv.holds taps_closed (op_destroy cx i)"
proof -
  note w = wired_intros [THEN wired_closed]
  have vm: "inv.holds taps_closed (started_vm cx c run pid)" for c run pid
    unfolding started_vm_def Let_def
    by (intro inv.holds_intros w inv_taps) (auto intro!: wired_closed wired_tell)
  have l: "inv.holds taps_closed (launch_vm cx c m n gid pw)" for c m n gid
    unfolding launch_vm_def opt_running_secret_def Let_def by (intro inv.holds_intros w inv_taps vm)
  have int: "inv.holds taps_closed f \<Longrightarrow> inv.holds taps_closed (internal f)" for f :: "'a io"
    unfolding internal_def by (rule inv.holds_map_err)
  show "inv.holds taps_closed (op_start cx i pw)"
    unfolding op_start_def Let_def by (intro inv.holds_intros w inv_taps l int)
  show "inv.holds taps_closed (op_stop cx i)"
    unfolding op_stop_def shutdown_via_agent_def agent_shutdown_def set_clean_shutdown_def
    by (intro inv.holds_intros w inv_taps int)
  show "inv.holds taps_closed (op_destroy cx i)"
    unfolding op_destroy_def by (intro inv.holds_intros w inv_taps int)
qed

section \<open>What a start leaves\<close>

text \<open>A predicate that survives what touches neither links, nor the log of commands, nor some files.\<close>

definition steady :: "path set \<Rightarrow> (world \<Rightarrow> bool) \<Rightarrow> bool" where
  "steady S R \<longleftrightarrow> (\<forall>w w'. wired w w' \<longrightarrow> same_at S w w' \<longrightarrow> R w \<longrightarrow> R w')"

lemma hoare_steady:
  assumes "steady S R" "wired.holds f" "same.holds S f"
  shows "hoare R f (\<lambda>_. R) (\<lambda>_ _. True)"
proof -
  have "R w'" if "f w = (r, w')" "R w" for w r w'
    using assms(1) wired.holdsD [OF assms(2) that(1)] same.holdsD [OF assms(3) that(1)] that(2) by (simp add: steady_def)
  then show ?thesis by (fastforce simp: hoare_def split: prod.split sum.split)
qed

lemma hoare_refused: "hoare P (sq f (sq g (sq h (bnd k (death_error i m))))) Q (\<lambda>_ _. True)"
proof -
  have "hoare (\<lambda>_. True) (death_error i m t) Q (\<lambda>_ _. True)" for t
    by (simp add: death_error_def hoare_refuse)
  then show ?thesis
    by (intro hoare_sq [OF hoare_anything] hoare_true_bnd)
qed

lemma started_hoare:
  assumes "steady S R"
  shows "hoare R (started_vm cx c run pid) (\<lambda>r w. (\<exists>a. r = RStarted (c_id c) (c_cid c) a) \<and> R w) (\<lambda>_ _. True)"
  unfolding started_vm_def Let_def
proof (rule hoare_bnd [OF hoare_steady [OF assms]], rule wired_intros, rule same_processes, rule hoare_if, rule hoare_refused)
  have t: "wired.holds (tell (\<lambda>w. w\<lparr>children := g w\<rparr>))" "same.holds S (tell (\<lambda>w. w\<lparr>children := g w\<rparr>))" for g
    by (rule wired_tell, simp) (rule same_fs_tell, simp)
  show "hoare R
     (sq (tell (\<lambda>w. w\<lparr>children := al_put (id_str (c_id c)) pid (children w)\<rparr>))
       (bnd (map_err (\<lambda>_. (Internal, MsgInternal))
              (start_app_via_agent (cx_libs cx) (c_cid c) (sr_nonce run) (child_alive (c_id c)))) (\<lambda>report.
        bnd (if reads_started report then ret True else child_alive (c_id c)) (\<lambda>still_alive.
        if still_alive then ret (RStarted (c_id c) (c_cid c) report)
        else
          sq (kill_and_reap cx (id_str (c_id c)))
         (sq (ignore (delete_tap (c_cid c)))
         (sq (remove_running_secret (cx_run cx) (id_str (c_id c)))
             (bnd (tail_of (log_path (cx_state cx) (id_str (c_id c)))) (death_error (c_id c) (MsgDiedStarting (c_id c))))))))))
     (\<lambda>r w. (\<exists>a. r = RStarted (c_id c) (c_cid c) a) \<and> R w) (\<lambda>_ _. True)"
    by (rule hoare_sq [OF hoare_steady [OF assms t]], rule hoare_bnd [OF hoare_steady [OF assms]],
        intro wired.holds_map_err wired_app, intro same.holds_map_err same_start_app same_processes,
        rule hoare_bnd [OF hoare_steady [OF assms]], intro wired.holds_if wired.holds_ret wired_app,
        intro same.holds_if same.holds_ret same_processes, rule hoare_if, rule hoare_ret, blast, rule hoare_refused)
qed

text \<open>The files of a running space: its nonce and its passphrase.\<close>

definition run_files :: "Ctx \<Rightarrow> SpaceId \<Rightarrow> path set" where
  "run_files cx i = {nonce_path (cx_run cx) (id_str i), pass_file (cx_run cx) (id_str i)}"

lemma run_paths:
  assumes "id_ok i"
  shows "nonce_path (cx_run cx) (id_str i) = cx_run cx @ [id_str i, ''nonce'']"
    "pass_file (cx_run cx) (id_str i) = cx_run cx @ [''secrets'', id_str i, ''pass'']"
    "space_secret_dir (cx_run cx) (id_str i) = cx_run cx @ [''secrets'', id_str i]"
    "secrets_dir (cx_run cx) = cx_run cx @ [''secrets'']"
    "pid_path (cx_run cx) (id_str i) = cx_run cx @ [id_str i, ''qemu.pid'']"
    "pjoin (cx_run cx) (id_str i) = cx_run cx @ [id_str i]"
    "pjoin (spaces_dir (cx_state cx)) (id_str i) = spaces_dir (cx_state cx) @ [id_str i]"
    "log_path (cx_state cx) (id_str i) = spaces_dir (cx_state cx) @ [id_str i, ''last-run.log'']"
  using pjoin_id [OF assms]
  by (simp_all add: nonce_path_def pass_file_def space_secret_dir_def secrets_dir_def pid_path_def log_path_def)

lemma run_apart:
  assumes "ctx_ok cx"
  shows "\<not> prefix (cx_run cx @ r) (spaces_dir (cx_state cx) @ t)" "cx_run cx @ r \<noteq> spaces_dir (cx_state cx) @ t"
    "\<not> prefix (cx_run cx @ r) (spaces_dir (cx_state cx))"
proof -
  show np: "\<not> prefix (cx_run cx @ r) (spaces_dir (cx_state cx) @ t)" for r t
    using assms prefix_same_cases [of "cx_run cx" "spaces_dir (cx_state cx) @ t" "spaces_dir (cx_state cx)"]
    by (auto simp: ctx_ok_def dest: append_prefixD)
  from np [of r t] np [of r "[]"] show "cx_run cx @ r \<noteq> spaces_dir (cx_state cx) @ t"
    "\<not> prefix (cx_run cx @ r) (spaces_dir (cx_state cx))" by auto
qed

lemma same_spawn_run:
  assumes "ctx_ok cx" "id_ok i" "sr_id run = id_str i"
  shows "same.holds (run_files cx i) (qemu_spawn run (cx_run cx) (cx_state cx) secret)"
proof -
  note p = run_paths [OF assms(2), of cx]
  have t: "same.holds (run_files cx i) (tell (\<lambda>w. put_content (log_path (cx_state cx) (id_str i)) (Bytes (console (env w) (now w))) w))"
    using run_apart [OF assms(1)] by (intro same.holds_tell same_put_content) (auto simp: run_files_def p)
  show ?thesis
    unfolding qemu_spawn_def assms(3)
    by (intro same.holds_intros same_create_dir_all same_write same_spawn t)
      (use run_apart [OF assms(1)] in \<open>auto simp: run_files_def p\<close>)
qed

lemma same_secret_nonce:
  assumes "id_ok i" "c_id c = i"
  shows "same.holds {nonce_path (cx_run cx) (id_str i)} (opt_running_secret cx c pw)"
  unfolding opt_running_secret_def write_running_secret_def assms(2) run_paths [OF assms(1)]
  by (intro same.holds_intros frame_intros) auto

text \<open>The passphrase of the request, in a file that only the uid of the space can read.\<close>

definition secret_kept :: "Ctx \<Rightarrow> SpaceConfig \<Rightarrow> string option \<Rightarrow> world \<Rightarrow> bool" where
  "secret_kept cx c pw w \<longleftrightarrow>
     (case pw of
        None \<Rightarrow> True
      | Some pp \<Rightarrow> (\<exists>n. node_at (pass_file (cx_run cx) (id_str (c_id c))) w = Some n \<and>
          kind n = KFile (Bytes pp) \<and> owner n = c_uid c \<and> mode n = 256))"

definition secret_path :: "Ctx \<Rightarrow> SpaceConfig \<Rightarrow> string option \<Rightarrow> path option" where
  "secret_path cx c pw = map_option (\<lambda>_. pass_file (cx_run cx) (id_str (c_id c))) pw"

lemma running_secret_hoare:
  assumes "id_ok (c_id c)"
  shows "hoare (\<lambda>_. True) (opt_running_secret cx c pw)
    (\<lambda>secret w. secret = secret_path cx c pw \<and> secret_kept cx c pw w) (\<lambda>_ _. True)"
proof (cases pw)
  case None
  then show ?thesis by (simp add: opt_running_secret_def secret_path_def secret_kept_def hoare_ret)
next
  case (Some pp)
  let ?p = "pass_file (cx_run cx) (id_str (c_id c))" and ?d = "space_secret_dir (cx_run cx) (id_str (c_id c))"
  have pd: "?p \<noteq> ?d" by (simp add: run_paths [OF assms])
  have 1: "hoare (\<lambda>_. True) (write_file ?p (Bytes pp))
      (\<lambda>_ w. \<exists>n. node_at ?p w = Some n \<and> kind n = KFile (Bytes pp)) (\<lambda>_ _. True)"
    unfolding write_file_def by (rule sys_hoare) (simp add: kind_put_content)
  have 2: "hoare (\<lambda>w. \<exists>n. node_at ?p w = Some n \<and> kind n = KFile (Bytes pp)) (chown ?p (Some (c_uid c)) None)
      (\<lambda>_ w. \<exists>n. node_at ?p w = Some n \<and> kind n = KFile (Bytes pp) \<and> owner n = c_uid c) (\<lambda>_ _. True)"
    unfolding chown_def by (rule sys_hoare) (auto simp: node_change)
  have 3: "hoare (\<lambda>w. \<exists>n. node_at ?p w = Some n \<and> kind n = KFile (Bytes pp) \<and> owner n = c_uid c) (set_mode ?p 256)
      (\<lambda>_. secret_kept cx c pw) (\<lambda>_ _. True)"
    unfolding set_mode_def by (rule sys_hoare) (auto simp: node_change secret_kept_def Some)
  have r: "rests_on {?p} (secret_kept cx c pw)"
    by (simp add: rests_on_def same_at_def secret_kept_def Some)
  have 4: "hoare (secret_kept cx c pw) (chown ?d u g) (\<lambda>_. secret_kept cx c pw) (\<lambda>_ _. True)"
    "hoare (secret_kept cx c pw) (set_mode ?d k) (\<lambda>_. secret_kept cx c pw) (\<lambda>_ _. True)" for u g k
    using pd by (intro hoare_keep [OF _ r] same_chown same_set_mode; simp)+
  have after: "hoare (\<lambda>_. True) g Q (\<lambda>_ _. True) \<Longrightarrow> hoare (\<lambda>_. True) (sq f g) Q (\<lambda>_ _. True)" for f :: "unit io" and g :: "'a io" and Q
    by (rule hoare_sq [OF hoare_anything])
  have "hoare (\<lambda>_. True) (write_running_secret (cx_run cx) (id_str (c_id c)) (c_uid c) pp)
      (\<lambda>q w. q = ?p \<and> secret_kept cx c pw w) (\<lambda>_ _. True)"
    unfolding write_running_secret_def
    by (rule after, rule after, rule after, rule after, rule after, rule hoare_sq [OF 1], rule hoare_sq [OF 2],
        rule hoare_sq [OF 3], rule hoare_sq [OF 4(1)], rule hoare_sq [OF 4(2)]) (simp add: hoare_ret)
  then show ?thesis
    unfolding opt_running_secret_def Some option.case secret_path_def
    by (rule hoare_bnd) (auto intro!: hoare_ret)
qed

text \<open>The commands run since \<open>w0\<close>.\<close>

definition ran_since :: "world \<Rightarrow> string list \<Rightarrow> world \<Rightarrow> bool" where
  "ran_since w0 argv w \<longleftrightarrow> argv \<in> set (drop (length (commands w0)) (commands w))"

definition later :: "world \<Rightarrow> world \<Rightarrow> bool" where
  "later w0 w \<longleftrightarrow> prefix (commands w0) (commands w)"

lemma steady_facts:
  "steady S (tap_on cid uid)" "steady S (later w0)"
  "nonce_path (cx_run cx) (id_str i) \<in> S \<Longrightarrow> steady S (\<lambda>w. bytes_at (nonce_path (cx_run cx) (id_str i)) w = b)"
  "pass_file (cx_run cx) (id_str (c_id c)) \<in> S \<Longrightarrow> steady S (secret_kept cx c pw)"
  by (auto simp: steady_def wired_def same_at_def tap_on_def later_def bytes_at_def secret_kept_def split: option.splits)

lemma steady_ran: "steady S (ran_since w0 argv)"
proof -
  have "set (drop n xs) \<subseteq> set (drop n ys)" if "prefix xs ys" for xs ys :: "string list list" and n
    using that by (auto simp: prefix_def)
  then show ?thesis by (auto simp: steady_def wired_def ran_since_def)
qed

lemma steady_conj: "steady S P \<Longrightarrow> steady S Q \<Longrightarrow> steady S (\<lambda>w. P w \<and> Q w)"
  by (auto simp: steady_def)

lemma ran_spawn_hoare:
  "hoare (later w0) (spawn_process argv exec) (\<lambda>_. ran_since w0 argv) (\<lambda>_ _. True)"
  by (auto simp: hoare_def later_def ran_since_def spawn_process_def command_def sq_def bnd_def ask_def tell_def sys_def
      ret_def prefix_def)

lemma spawn_hoare:
  "hoare (later w0) (qemu_spawn run rd st secret) (\<lambda>_. ran_since w0 (qemu_argv run secret)) (\<lambda>_ _. True)"
proof -
  have st: "hoare (later w0) f (\<lambda>_. later w0) (\<lambda>_ _. True)" if "wired.holds f" for f :: "unit io"
    by (rule hoare_steady [OF steady_facts(2) that, of "{}"]) (simp add: same.holds_def same_at_def)
  have rn: "hoare (ran_since w0 a) f (\<lambda>_. ran_since w0 a) (\<lambda>_ _. True)" if "wired.holds f" for f :: "unit io" and a
    by (rule hoare_steady [OF steady_ran that, of "{}"]) (simp add: same.holds_def same_at_def)
  show ?thesis
    unfolding qemu_spawn_def
    by (rule hoare_sq [OF st], rule wired_intros, rule hoare_sq [OF st], rule wired_intros, rule hoare_sq [OF st],
        rule wired_intros, rule hoare_bnd [OF ran_spawn_hoare], rule hoare_sq [OF rn], rule wired_tell, simp,
        rule hoare_sq [OF rn], rule wired_intros) (rule hoare_ret)
qed

text \<open>The VM of the configuration \<open>c\<close> has been launched since \<open>w0\<close>.\<close>

definition launched :: "Ctx \<Rightarrow> SpaceConfig \<Rightarrow> Manifest \<Rightarrow> string option \<Rightarrow> world \<Rightarrow> world \<Rightarrow> bool" where
  "launched cx c m pw w0 w \<longleftrightarrow>
     (\<exists>n gid. nonce_at cx (c_id c) w = Some n \<and> tap_on (c_cid c) (c_uid c) w \<and> secret_kept cx c pw w \<and>
        ran_since w0 (qemu_argv (run_of cx c m n gid) (secret_path cx c pw)) w)"

definition is_nonce :: "string \<Rightarrow> bool" where
  "is_nonce n \<longleftrightarrow> from_utf8 n = Some n \<and> trim n = n \<and> n \<noteq> []"

lemma launch_hoare:
  assumes cx: "ctx_ok cx" "id_ok (c_id c)" "is_nonce n"
  shows "hoare (\<lambda>w. later w0 w \<and> tap_on (c_cid c) (c_uid c) w \<and>
      bytes_at (nonce_path (cx_run cx) (id_str (c_id c))) w = Some n)
    (launch_vm cx c m n gid pw)
    (\<lambda>r w. (\<exists>a. r = RStarted (c_id c) (c_cid c) a) \<and> launched cx c m pw w0 w) (\<lambda>_ _. True)"
proof -
  let ?N = "\<lambda>w. bytes_at (nonce_path (cx_run cx) (id_str (c_id c))) w = Some n"
  let ?P = "\<lambda>w. later w0 w \<and> tap_on (c_cid c) (c_uid c) w \<and> ?N w"
  let ?S = "run_files cx (c_id c)" and ?R = "\<lambda>w. ?P w \<and> secret_kept cx c pw w"
  let ?run = "run_of cx c m n gid" and ?sec = "secret_path cx c pw"
  let ?L = "\<lambda>w. ?R w \<and> ran_since w0 (qemu_argv ?run ?sec) w"
  let ?Q = "\<lambda>r w. (\<exists>a. r = RStarted (c_id c) (c_cid c) a) \<and> launched cx c m pw w0 w"
  have stP: "steady {nonce_path (cx_run cx) (id_str (c_id c))} ?P"
    by (intro steady_conj steady_facts) simp
  have stR: "steady ?S ?R" and stL: "steady ?S ?L"
    by (intro steady_conj steady_facts steady_ran; simp add: run_files_def)+
  have l: "launched cx c m pw w0 w" if "?L w" for w
    unfolding launched_def using that cx(3)
    by (intro exI [of _ n] exI [of _ gid]) (simp add: nonce_at_def is_nonce_def)
  have "hoare (\<lambda>w. ?P w \<and> True) (opt_running_secret cx c pw)
      (\<lambda>secret w. ?P w \<and> secret = ?sec \<and> secret_kept cx c pw w) (\<lambda>_ w. True \<and> True)"
    by (intro hoare_conj hoare_steady [OF stP] running_secret_hoare same_secret_nonce cx refl)
      (simp add: opt_running_secret_def, intro wired.holds_intros wired_intros)
  then have 1: "hoare ?P (opt_running_secret cx c pw) (\<lambda>secret w. ?R w \<and> secret = ?sec) (\<lambda>_ _. True)"
    by (rule hoare_pre [OF hoare_post]) auto
  have "hoare (\<lambda>w. ?R w \<and> later w0 w) (qemu_spawn ?run (cx_run cx) (cx_state cx) ?sec)
      (\<lambda>_ w. ?R w \<and> ran_since w0 (qemu_argv ?run ?sec) w) (\<lambda>_ w. True \<and> True)"
    by (intro hoare_conj hoare_steady [OF stR] spawn_hoare wired_qemu same_spawn_run cx) (simp add: run_of_def Let_def)
  then have 2: "hoare ?R (qemu_spawn ?run (cx_run cx) (cx_state cx) ?sec) (\<lambda>_. ?L) (\<lambda>_ _. True)"
    by (rule hoare_pre [OF hoare_post]) auto
  have 3: "hoare ?L (started_vm cx c ?run pid) ?Q (\<lambda>_ _. True)" for pid
    by (rule hoare_post [OF started_hoare [OF stL]]) (use l in auto)
  have bad: "hoare (\<lambda>_. True) (sq f (refuse e msg)) ?Q (\<lambda>_ _. True)"
    "hoare (\<lambda>_. True) (sq f (sq g (refuse e msg))) ?Q (\<lambda>_ _. True)" for e msg and f g :: "unit op"
    by (intro hoare_sq [OF hoare_anything] hoare_refuse; simp)+
  show ?thesis
    unfolding launch_vm_def Let_def
  proof (rule hoare_bnd [where R = "\<lambda>r w. \<forall>secret. r = Inr secret \<longrightarrow> ?R w \<and> secret = ?sec"])
    show "hoare ?P (attempt (opt_running_secret cx c pw)) (\<lambda>r w. \<forall>secret. r = Inr secret \<longrightarrow> ?R w \<and> secret = ?sec) (\<lambda>_ _. True)"
      by (rule hoare_attempt, rule hoare_post [OF 1]) simp_all
    have "hoare (\<lambda>w. ?R w \<and> secret = ?sec) (bnd (attempt (qemu_spawn ?run (cx_run cx) (cx_state cx) secret)) (\<lambda>r.
          case r of
            Inr pid \<Rightarrow> started_vm cx c ?run pid
          | Inl _ \<Rightarrow>
              sq (ignore (delete_tap (c_cid c)))
             (sq (remove_running_secret (cx_run cx) (id_str (c_id c)))
                 (refuse Internal MsgInternal)))) ?Q (\<lambda>_ _. True)" for secret
    proof (rule hoare_pure, rule hoare_bnd [where R = "\<lambda>r w. isl r \<or> ?L w"])
      assume s: "secret = ?sec"
      show "hoare ?R (attempt (qemu_spawn ?run (cx_run cx) (cx_state cx) secret)) (\<lambda>r w. isl r \<or> ?L w) (\<lambda>_ _. True)"
        unfolding s by (rule hoare_attempt, rule hoare_post [OF 2]) simp_all
      show "hoare (\<lambda>w. isl r \<or> ?L w) (case r of
            Inr pid \<Rightarrow> started_vm cx c ?run pid
          | Inl _ \<Rightarrow>
              sq (ignore (delete_tap (c_cid c)))
             (sq (remove_running_secret (cx_run cx) (id_str (c_id c)))
                 (refuse Internal MsgInternal))) ?Q (\<lambda>_ _. True)" for r
        using 3 by (cases r) (simp_all add: bad)
    qed
    then show "hoare (\<lambda>w. \<forall>secret. r = Inr secret \<longrightarrow> ?R w \<and> secret = ?sec) (case r of
       Inl _ \<Rightarrow> sq (ignore (delete_tap (c_cid c))) (refuse Internal MsgInternal)
     | Inr secret \<Rightarrow> bnd (attempt (qemu_spawn ?run (cx_run cx) (cx_state cx) secret)) (\<lambda>r.
          case r of
            Inr pid \<Rightarrow> started_vm cx c ?run pid
          | Inl _ \<Rightarrow>
              sq (ignore (delete_tap (c_cid c)))
             (sq (remove_running_secret (cx_run cx) (id_str (c_id c)))
                 (refuse Internal MsgInternal)))) ?Q (\<lambda>_ _. True)" for r
      by (cases r) (simp_all add: bad)
  qed
qed

lemma nonce_hex: "query (\<lambda>w. Some (concat (map (\<lambda>j. hex02 (f w j mod 256)) [0..<16]))) w = (Inr n, w') \<Longrightarrow> is_nonce n"
proof -
  assume "query (\<lambda>w. Some (concat (map (\<lambda>j. hex02 (f w j mod 256)) [0..<16]))) w = (Inr n, w')"
  then have n: "n = concat (map (\<lambda>j. hex02 (f w j mod 256)) [0..<16])" by (auto dest: query_Inr)
  have d: "48 \<le> byte_of (hex_digit k) \<and> byte_of (hex_digit k) < 103" if "k < 16" for k
    using that by (auto simp: hex_digit_def byte_of_char_of)
  have h: "48 \<le> byte_of c \<and> byte_of c < 103" if "c \<in> set (hex02 k)" "k \<le> 255" for c k
    using that d [of "k div 16"] d [of "k mod 16"] by (auto simp: hex02_eq less_mult_imp_div_less)
  have "48 \<le> byte_of c \<and> byte_of c < 103" if c: "c \<in> set n" for c
  proof -
    from c obtain j where "c \<in> set (hex02 (f w j mod 256))" unfolding n by auto
    then show ?thesis by (rule h) (simp add: less_Suc_eq_le [symmetric])
  qed
  then have d: "\<forall>c \<in> set n. byte_of c < 128 \<and> \<not> is_whitespace (byte_of c)" by (fastforce simp: is_whitespace_def)
  then have "is_ascii n" by (simp add: is_ascii_def list_all_iff)
  moreover have "n \<noteq> []" unfolding n by (simp add: upt_rec hex02_eq)
  ultimately show ?thesis
    using d by (simp add: is_nonce_def from_utf8_def valid_utf8_ascii trim_no_space)
qed

lemma later_tap:
  "hoare (later w0) (create_tap cid uid) (\<lambda>_. later w0) (\<lambda>_ _. True)"
  "hoare (later w0) (reap_leftover_tap cid) (\<lambda>_. later w0) (\<lambda>_ _. True)"
proof -
  have c: "hoare (later w0) (command argv p f g) (\<lambda>_. later w0) (\<lambda>_ _. True)"
    if "\<And>w. commands (f w) = commands w" for argv p f g
    by (rule command_hoare) (simp add: that later_def)
  have l: "commands (change_link t f w) = commands w" for t f w
    by (simp add: change_link_def split: option.split)
  show "hoare (later w0) (create_tap cid uid) (\<lambda>_. later w0) (\<lambda>_ _. True)"
    unfolding create_tap_def ip_tuntap_add_def ip_set_master_def bridge_isolate_def ip_set_up_def Let_def
    by (intro hoare_sq [where R = "later w0"] c) (simp_all add: l)
  have r: "hoare (later w0) (link_exists t) (\<lambda>_. later w0) (\<lambda>_ _. True)" for t
    by (rule hoare_steady [OF steady_facts(2), of _ "{}"], intro wired_intros) (simp add: same.holds_def same_at_def)
  show "hoare (later w0) (reap_leftover_tap cid) (\<lambda>_. later w0) (\<lambda>_ _. True)"
    unfolding reap_leftover_tap_def delete_tap_def Let_def
    by (rule hoare_bnd [OF r], intro hoare_if c hoare_ret) simp_all
qed

lemma tap_nonce_hoare:
  assumes "ctx_ok cx" "id_ok (c_id c)" "is_nonce n"
  shows "hoare (\<lambda>w. later w0 w \<and> bytes_at (nonce_path (cx_run cx) (id_str (c_id c))) w = Some n)
    (sq (internal (reap_leftover_tap (c_cid c)))
    (sq (internal (create_tap (c_cid c) (c_uid c)))
        (launch_vm cx c m n gid pw)))
    (\<lambda>r w. (\<exists>a. r = RStarted (c_id c) (c_cid c) a) \<and> launched cx c m pw w0 w) (\<lambda>_ _. True)"
proof -
  let ?p = "nonce_path (cx_run cx) (id_str (c_id c))"
  let ?N = "\<lambda>w. bytes_at ?p w = Some n"
  have N: "hoare ?N f (\<lambda>_. ?N) (\<lambda>_ _. True)" if "same.holds {?p} f" for f :: "unit io"
    by (rule hoare_keep [OF that]) (simp add: rests_on_def same_at_def bytes_at_def)
  have 1: "hoare (\<lambda>w. later w0 w \<and> ?N w) (reap_leftover_tap (c_cid c)) (\<lambda>_ w. later w0 w \<and> ?N w) (\<lambda>_ _. True)"
    by (rule hoare_post [OF hoare_conj [OF later_tap(2) N]], rule same_links) auto
  have "hoare (\<lambda>w. (later w0 w \<and> ?N w) \<and> (False \<longrightarrow> taps_closed w)) (create_tap (c_cid c) (c_uid c))
      (\<lambda>_ w. (later w0 w \<and> ?N w) \<and> (False \<longrightarrow> taps_closed w) \<and> tap_on (c_cid c) (c_uid c) w)
      (\<lambda>_ w. (True \<and> True) \<and> (False \<longrightarrow> taps_closed w))"
    by (intro hoare_conj later_tap create_tap_hoare N same_links)
  then have 2: "hoare (\<lambda>w. later w0 w \<and> ?N w) (create_tap (c_cid c) (c_uid c))
      (\<lambda>_ w. later w0 w \<and> tap_on (c_cid c) (c_uid c) w \<and> ?N w) (\<lambda>_ _. True)"
    by (rule hoare_pre [OF hoare_post]) auto
  show ?thesis
    by (rule hoare_sq [OF hoare_internal [OF 1]], rule hoare_sq [OF hoare_internal [OF 2]], rule launch_hoare [OF assms])
qed

lemma op_start_hoare:
  assumes "ctx_ok cx" "id_ok i" "c_id c = i"
  shows "hoare (\<lambda>w. store_ok (cx_libs cx) (cx_state cx) w \<and>
      config_at (cx_libs cx) (cx_state cx) (id_str i) w = Some c \<and> (later w0 w \<and> manifest_at cx (c_profile c) w = M))
    (op_start cx i pw)
    (\<lambda>r w. (\<exists>a. r = RStarted i (c_cid c) a) \<and> (\<exists>m. M = Some m \<and> launched cx c m pw w0 w)) (\<lambda>_ _. True)"
proof -
  let ?M = "\<lambda>w. manifest_at cx (c_profile c) w = M" and ?mp = "manifest_path (cx_state cx) (id_str (c_profile c))"
  let ?R = "\<lambda>w. later w0 w \<and> ?M w"
  let ?Q = "\<lambda>r w. (\<exists>a. r = RStarted i (c_cid c) a) \<and> (\<exists>m. M = Some m \<and> launched cx c m pw w0 w)"
  have sR: "steady {?mp} ?R"
    by (intro steady_conj steady_facts) (auto simp: steady_def same_at_def manifest_at_def bytes_at_def)
  have R: "hoare ?R f (\<lambda>_. ?R) (\<lambda>_ _. True)" if "wired.holds f" "same.holds {?mp} f" for f :: "'a op"
    by (rule hoare_steady [OF sR that])
  have L: "hoare (later w0) f (\<lambda>_. later w0) (\<lambda>_ _. True)" if "wired.holds f" for f :: "('e, 'a) m"
    by (rule hoare_steady [OF steady_facts(2) that, of "{}"]) (simp add: same.holds_def same_at_def)
  have "hoare ?M (load_manifest cx (id_str (c_profile c))) (\<lambda>m _. M = Some m) (\<lambda>_ _. True)"
    using load_manifest_Inr by (force simp: hoare_def split: prod.split sum.split)
  from hoare_conj [OF L this]
  have 1: "hoare ?R (load_manifest cx (id_str (c_profile c))) (\<lambda>m w. later w0 w \<and> M = Some m) (\<lambda>_ _. True)"
    by (simp add: wired_intros)
  have gen: "hoare (later w0) (internal generate_nonce) (\<lambda>n w. later w0 w \<and> is_nonce n) (\<lambda>_ _. True)"
  proof -
    have "hoare (\<lambda>_. True) generate_nonce (\<lambda>n _. is_nonce n) (\<lambda>_ _. True)"
      using nonce_hex by (fastforce simp: hoare_def generate_nonce_def split: prod.split sum.split)
    from hoare_conj [OF L this] show ?thesis by (intro hoare_internal) (simp add: wired_intros)
  qed
  have wr: "hoare (later w0) (internal (write_nonce p n)) (\<lambda>_ w. later w0 w \<and> bytes_at p w = Some n) (\<lambda>_ _. True)" for p n
  proof -
    have "hoare (\<lambda>_. True) (write_nonce p n) (\<lambda>_ w. bytes_at p w = Some n) (\<lambda>_ _. True)"
      unfolding write_nonce_def write_file_def set_mode_def
      by (rule hoare_sq [where R = "\<lambda>w. bytes_at p w = Some n"]; rule sys_hoare)
        (simp_all add: bytes_put_content bytes_change_mode)
    from hoare_conj [OF L this] show ?thesis by (intro hoare_internal) (simp add: wired_intros)
  qed
  have run: "hoare (later w0)
      (bnd lookup_kvm_gid (\<lambda>gid.
       bnd (internal generate_nonce) (\<lambda>n.
       sq (internal (prepare_space_run_dir (pjoin (cx_run cx) (id_str i)) (cx_socket_gid cx)))
      (sq (internal (write_nonce (nonce_path (cx_run cx) (id_str i)) n))
      (sq (internal (reap_leftover_tap (c_cid c)))
      (sq (internal (create_tap (c_cid c) (c_uid c)))
          (launch_vm cx c m n gid pw))))))) ?Q (\<lambda>_ _. True)" if m: "M = Some m" for m
  proof (rule hoare_bnd [OF L], rule wired_intros, rule hoare_bnd [OF gen], rule hoare_pure,
      rule hoare_sq [OF L], intro wired_intros, rule hoare_sq [OF wr])
    fix gid n assume "is_nonce n"
    from tap_nonce_hoare [OF assms(1) _ this, of c w0 m gid pw] assms(2,3) m
    show "hoare (\<lambda>w. later w0 w \<and> bytes_at (nonce_path (cx_run cx) (id_str i)) w = Some n)
        (sq (internal (reap_leftover_tap (c_cid c))) (sq (internal (create_tap (c_cid c) (c_uid c)))
          (launch_vm cx c m n gid pw))) ?Q (\<lambda>_ _. True)" by simp
  qed
  show ?thesis
    unfolding op_start_def Let_def
  proof (rule hoare_of_space_any)
    fix s :: Store
    show "hoare (\<lambda>w. loaded (cx_libs cx) s w \<and> ?R w)
       (sq (require_passphrase_matches_encryption (c_encrypted c) pw)
       (bnd (state_of (cx_run cx) (id_str i) (c_cid c)) (\<lambda>st.
       if st = Running then refuse SpaceRunning (MsgAlreadyRunning i)
       else
       bnd bridge_exists (\<lambda>br.
       if \<not> br then refuse NoBridge MsgNoBridge
       else
       bnd (load_manifest cx (id_str (c_profile c))) (\<lambda>m.
       bnd (ask (is_file (template_dir_path (cx_state cx) (id_str (c_profile c)) (c_digest c) @ [''root.qcow2'']))) (\<lambda>complete.
       if \<not> complete then refuse TemplateNotFound (MsgTemplateMissing
          (template_dir_path (cx_state cx) (id_str (c_profile c)) (c_digest c)))
       else
       bnd lookup_kvm_gid (\<lambda>gid.
       bnd (internal generate_nonce) (\<lambda>n.
       sq (internal (prepare_space_run_dir (pjoin (cx_run cx) (id_str i)) (cx_socket_gid cx)))
      (sq (internal (write_nonce (nonce_path (cx_run cx) (id_str i)) n))
      (sq (internal (reap_leftover_tap (c_cid c)))
      (sq (internal (create_tap (c_cid c) (c_uid c)))
          (launch_vm cx c m n gid pw)))))))))))) ?Q (\<lambda>_ _. True)"
      by (rule hoare_pre [where P = ?R], rule hoare_sq [OF R], intro wired_intros, intro same_helpers,
          rule hoare_bnd [OF R], intro wired_intros, intro same_reading, rule hoare_if, simp add: hoare_refuse,
          rule hoare_bnd [OF R], intro wired_intros, intro same_links, rule hoare_if, simp add: hoare_refuse,
          rule hoare_bnd [OF 1], rule hoare_pure, rule hoare_bnd [OF L], rule wired.holds_ask, rule hoare_if,
          simp add: hoare_refuse, rule run) simp_all
  qed (use manifest_time in \<open>auto simp: later_def\<close>)
qed


text \<open>
  C8.  No request ever leaves a tap of a space up unless it is isolated on the
  bridge: whichever command fails on the way, a tap that cannot be isolated stays
  down, so that two spaces never exchange frames.
\<close>

theorem taps_isolated:
  assumes "taps_closed w"
  shows "taps_closed (snd (dispatch cx req w))"
proof -
  have "inv.holds taps_closed (dispatch cx req)"
    unfolding dispatch_def
    by (cases req)
      (simp_all add: closed_handlers wired_closed [OF wired_reading_ops(1)] wired_closed [OF wired_reading_ops(2)]
        wired_closed [OF wired_reading_ops(3)] wired_closed [OF wired_reading_ops(4)]
        wired_changing_ops [THEN wired_closed])
  then show ?thesis using assms by (simp add: inv.holds_def keeps_def)
qed


theorem taps_isolated_witness: "taps_closed (snd (dispatch ex_ctx (Stop (SpaceId ''w'')) ex_world2))"
proof (rule taps_isolated)
  have "al_get (links ex_world2) (space_tap cid) = None" for cid
    by (simp add: ex_world2_def ex_world1_def ex_world_def ex_link_def al_get_def space_tap_def)
  then show "taps_closed ex_world2" by (simp add: taps_closed_def)
qed

end
