(* ===== verification/DaemonMain.thy ===== *)
theory DaemonMain
  imports Replies Client OpsNet Args
begin

text \<open>
  \<open>components/daemon/src/main.rs\<close>: the arguments of \<open>miyorid\<close>, its subcommand
  \<open>render\<close>, setting up the control socket, and serving connections.  The serialised
  handlers make a run of the server a sequence of connections; a relative path is
  looked up in the working directory \<open>cwd\<close>.
\<close>

definition DEFAULT_STATE_DIR :: string where
  "DEFAULT_STATE_DIR = ''/var/lib/miyorios''"

definition DEFAULT_RUN_DIR :: string where
  "DEFAULT_RUN_DIR = ''/run/miyorios''"

definition DEFAULT_GROUP :: string where
  "DEFAULT_GROUP = ''miyori''"

definition DEFAULT_REGISTRY :: string where
  "DEFAULT_REGISTRY = ''/etc/miyorios/spaces.toml''"

datatype main_error =
    Arguments arg_error
  | NeedsSource
  | NeedsKind
  | NotMerged merge_error
  | CidTooLarge
  | NoGroup lookup_error
  | HostFailed

section \<open>The subcommand \<open>render\<close>\<close>

datatype Kind = NftKind | RegistryKind

record RenderArgs =
  ra_registry :: "path option"
  ra_state :: "path option"
  ra_kind :: "Kind option"

fun render_args :: "path \<Rightarrow> string list \<Rightarrow> RenderArgs \<Rightarrow> arg_error + RenderArgs" where
  "render_args cwd [] r = Inr r"
| "render_args cwd (a # rest) r =
     (if a = ''--registry'' then
        with_value a rest (\<lambda>v vs. render_args cwd vs (r\<lparr>ra_registry := Some (pjoin cwd v)\<rparr>))
      else if a = ''--state-dir'' then
        with_value a rest (\<lambda>v vs. render_args cwd vs (r\<lparr>ra_state := Some (pjoin cwd v)\<rparr>))
      else if a = ''--kind'' then
        with_value a rest (\<lambda>v vs.
          if v = ''nft'' then render_args cwd vs (r\<lparr>ra_kind := Some NftKind\<rparr>)
          else if v = ''registry'' then render_args cwd vs (r\<lparr>ra_kind := Some RegistryKind\<rparr>)
          else Inl (BadValue a v))
      else Inl (UnknownArg a))"

datatype rendered = Ruleset "nft_line list" | RegistryText string

definition host :: "('e, 'a) m \<Rightarrow> (main_error, 'a) m" where
  "host f = map_err (\<lambda>_. HostFailed) f"

definition run_render :: "libs \<Rightarrow> path \<Rightarrow> string list \<Rightarrow> (main_error, rendered) m" where
  "run_render x cwd args =
     bnd (map_err Arguments (of_result (render_args cwd args \<lparr>ra_registry = None, ra_state = None, ra_kind = None\<rparr>))) (\<lambda>r.
     sq (guard (ra_registry r \<noteq> None \<or> ra_state r \<noteq> None) NeedsSource)
    (bnd (case ra_kind r of Some k \<Rightarrow> ret k | None \<Rightarrow> fail NeedsKind) (\<lambda>k.
     bnd (case ra_registry r of Some p \<Rightarrow> host (load_registry_file x p) | None \<Rightarrow> ret []) (\<lambda>from_registry.
     bnd (case ra_state r of
            Some d \<Rightarrow>
              bnd (host (entries_from_state_dir x d)) (\<lambda>es.
                map_err NotMerged (of_result (merge_entries from_registry es)))
          | None \<Rightarrow> ret from_registry) (\<lambda>entries.
     case k of
       NftKind \<Rightarrow> (case render_nft entries of Some ls \<Rightarrow> ret (Ruleset ls) | None \<Rightarrow> fail CidTooLarge)
     | RegistryKind \<Rightarrow> ret (RegistryText (render_registry x entries)))))))"

section \<open>The server\<close>

record ServerConfig =
  sc_state_dir :: string
  sc_run_dir :: string
  sc_group :: string
  sc_registry :: string
  sc_build_uid :: "nat option"

definition default_config :: ServerConfig where
  "default_config =
     \<lparr>sc_state_dir = DEFAULT_STATE_DIR, sc_run_dir = DEFAULT_RUN_DIR, sc_group = DEFAULT_GROUP,
      sc_registry = DEFAULT_REGISTRY, sc_build_uid = None\<rparr>"

fun server_args :: "string list \<Rightarrow> ServerConfig \<Rightarrow> arg_error + ServerConfig" where
  "server_args [] c = Inr c"
| "server_args (a # rest) c =
     (if a = ''--state-dir'' then with_value a rest (\<lambda>v vs. server_args vs (c\<lparr>sc_state_dir := v\<rparr>))
      else if a = ''--run-dir'' then with_value a rest (\<lambda>v vs. server_args vs (c\<lparr>sc_run_dir := v\<rparr>))
      else if a = ''--group'' then with_value a rest (\<lambda>v vs. server_args vs (c\<lparr>sc_group := v\<rparr>))
      else if a = ''--registry'' then with_value a rest (\<lambda>v vs. server_args vs (c\<lparr>sc_registry := v\<rparr>))
      else if a = ''--build-uid'' then
        with_value a rest (\<lambda>v vs.
          case parse_u32 v of
            None \<Rightarrow> Inl (BadValue a v)
          | Some u \<Rightarrow> server_args vs (c\<lparr>sc_build_uid := Some u\<rparr>))
      else Inl (UnknownArg a))"

definition group_path :: path where
  "group_path = [''etc'', ''group'']"

definition socket_group :: "string \<Rightarrow> (main_error, nat option) m" where
  "socket_group g =
     (if g = [] then ret None
      else bnd (attempt (read_to_string group_path)) (\<lambda>r.
        bnd (map_err NoGroup (of_result (lookup_gid (case r of Inr s \<Rightarrow> Some s | Inl _ \<Rightarrow> None) g)))
          (\<lambda>gid. ret (Some gid))))"

text \<open>\<open>ErrorKind::NotFound\<close> is not an error here.\<close>

definition remove_old_socket :: "path \<Rightarrow> (main_error, unit) m" where
  "remove_old_socket p =
     bnd (ask (\<lambda>w. node_at p w = None)) (\<lambda>absent.
     bnd (attempt (remove_file p)) (\<lambda>r.
       case r of Inr _ \<Rightarrow> ret () | Inl _ \<Rightarrow> if absent then ret () else fail HostFailed))"

datatype warning = GroupNotSet | GroupLeft

definition set_socket_group :: "path \<Rightarrow> nat option \<Rightarrow> (main_error, warning list) m" where
  "set_socket_group p gid =
     (case gid of
        None \<Rightarrow> ret [GroupNotSet]
      | Some g \<Rightarrow>
          bnd (attempt (chown p None (Some g))) (\<lambda>r. ret (case r of Inr _ \<Rightarrow> [] | Inl _ \<Rightarrow> [GroupLeft])))"

definition control_socket :: "path \<Rightarrow> path" where
  "control_socket run = run @ [''control.sock'']"

text \<open>
  \<open>run_server\<close> up to the accept loop: the context of every handler, and what was
  warned of.  \<open>cx0\<close> holds the fields of the model that stand for libraries.
\<close>

definition run_server :: "Ctx \<Rightarrow> path \<Rightarrow> string list \<Rightarrow> (main_error, Ctx \<times> warning list) m" where
  "run_server cx0 cwd args =
     bnd (map_err Arguments (of_result (server_args args default_config))) (\<lambda>c.
     let run = pjoin cwd (sc_run_dir c); sock = control_socket run in
     bnd (socket_group (sc_group c)) (\<lambda>gid.
     sq (host (create_dir_all run))
    (sq (remove_old_socket sock)
    (sq (host (bind_socket sock))
    (sq (host (set_mode sock 432))
    (bnd (set_socket_group sock gid) (\<lambda>warnings.
     ret (cx0\<lparr>cx_state := pjoin cwd (sc_state_dir c), cx_run := run,
       cx_registry := pjoin cwd (sc_registry c), cx_build_uid := sc_build_uid c,
       cx_socket_gid := gid\<rparr>, warnings))))))))"

section \<open>Serving connections\<close>

text \<open>
  One connection: whether the timeout of its reads could be set, what can be read
  from it, and the thread that handles it.
\<close>

record connection =
  cn_timeout_set :: bool
  cn_bytes :: "rd list"
  cn_thread :: string

definition progress_text :: "progress \<Rightarrow> string" where
  "progress_text p = (case p of Waiting \<Rightarrow> TXT_WAIT_AGENT | BuildLine s \<Rightarrow> s)"

text \<open>
  The frames written; the progress of one connection is what its handler has sent.
  \<open>rq\<close> puts the refusal of a frame into words.
\<close>

definition handle_connection ::
  "wording \<Rightarrow> (req_msg \<Rightarrow> string) \<Rightarrow> Ctx \<Rightarrow> connection \<Rightarrow> world \<Rightarrow> json list \<times> world" where
  "handle_connection wd rq cx conn w =
     (if \<not> cn_timeout_set conn then ([], w)
      else
        (case fst (read_request (json_parse (cx_libs cx)) (cn_bytes conn)) of
           Inl (c, msg) \<Rightarrow> (response_frames [] (Inl (c, rq msg)), w)
         | Inr req \<Rightarrow>
             (case dispatch (cx\<lparr>cx_thread := cn_thread conn\<rparr>) req (w\<lparr>sent := []\<rparr>) of
                (r, w') \<Rightarrow> (response_frames (map progress_text (sent w')) (outcome wd r), w'))))"

datatype incoming = Accepted connection | AcceptFailed

fun serve ::
  "wording \<Rightarrow> (req_msg \<Rightarrow> string) \<Rightarrow> Ctx \<Rightarrow> incoming list \<Rightarrow> world \<Rightarrow> json list list \<times> world" where
  "serve wd rq cx [] w = ([], w)"
| "serve wd rq cx (AcceptFailed # cs) w = serve wd rq cx cs w"
| "serve wd rq cx (Accepted c # cs) w =
     (case handle_connection wd rq cx c w of
        (frames, w1) \<Rightarrow> (case serve wd rq cx cs w1 of (rest, w2) \<Rightarrow> (frames # rest, w2)))"

datatype main_result = Printed rendered | Served "warning list" "json list list"

definition daemon_main ::
  "wording \<Rightarrow> (req_msg \<Rightarrow> string) \<Rightarrow> Ctx \<Rightarrow> path \<Rightarrow> incoming list \<Rightarrow> string list \<Rightarrow> (main_error, main_result) m" where
  "daemon_main wd rq cx0 cwd incomings args =
     (case args of
        a # rest \<Rightarrow>
          if a = ''render'' then bnd (run_render (cx_libs cx0) cwd rest) (\<lambda>t. ret (Printed t))
          else bnd (run_server cx0 cwd args) (\<lambda>(cx, warnings) w.
            case serve wd rq cx incomings w of (frames, w') \<Rightarrow> (Inr (Served warnings frames), w'))
      | [] \<Rightarrow>
          bnd (run_server cx0 cwd args) (\<lambda>(cx, warnings) w.
            case serve wd rq cx incomings w of (frames, w') \<Rightarrow> (Inr (Served warnings frames), w')))"

section \<open>The socket is private\<close>

text \<open>A socket of root with this mode and group.\<close>

definition socket_node :: "path \<Rightarrow> nat \<Rightarrow> nat \<Rightarrow> world \<Rightarrow> bool" where
  "socket_node p k g w \<longleftrightarrow> node_at p w = Some \<lparr>kind = KSocket, mode = k, owner = 0, grp = g\<rparr>"

lemma bind_socket_hoare:
  "hoare (\<lambda>_. True) (host (bind_socket p)) (\<lambda>_ w. \<exists>k. socket_node p k 0 w) (\<lambda>_ _. True)"
  unfolding host_def bind_socket_def socket_node_def by (intro hoare_map_err sys_hoare) auto

lemma socket_mode_hoare:
  "hoare (\<lambda>w. \<exists>k. socket_node p k 0 w) (host (set_mode p 432)) (\<lambda>_. socket_node p 432 0) (\<lambda>_ _. True)"
  unfolding host_def set_mode_def socket_node_def by (intro hoare_map_err sys_hoare) (auto simp: node_change)

definition group_as_told :: "path \<Rightarrow> nat option \<Rightarrow> warning list \<Rightarrow> world \<Rightarrow> bool" where
  "group_as_told p gid warnings w \<longleftrightarrow>
     (case gid of
        None \<Rightarrow> warnings = [GroupNotSet] \<and> socket_node p 432 0 w
      | Some g \<Rightarrow> warnings = [] \<and> socket_node p 432 g w \<or> warnings = [GroupLeft] \<and> socket_node p 432 0 w)"

lemma socket_group_hoare:
  "hoare (socket_node p 432 0) (set_socket_group p gid) (\<lambda>ws. group_as_told p gid ws) (\<lambda>_ _. True)"
proof (cases gid)
  case None
  then show ?thesis by (simp add: set_socket_group_def group_as_told_def hoare_ret)
next
  case (Some g)
  have "hoare (socket_node p 432 0) (chown p None (Some g)) (\<lambda>_. socket_node p 432 g) (\<lambda>_. socket_node p 432 0)"
    by (simp add: hoare_def chown_def sys_def socket_node_def node_change)
  then have "hoare (socket_node p 432 0) (attempt (chown p None (Some g)))
      (\<lambda>r. socket_node p 432 (if isl r then 0 else g)) (\<lambda>_ _. True)"
    by (intro hoare_attempt) simp
  then show ?thesis
    unfolding set_socket_group_def Some option.case
    by (rule hoare_bnd) (auto intro!: hoare_ret simp: group_as_told_def Some split: sum.splits)
qed

lemma run_server_hoare:
  "hoare (\<lambda>_. True) (run_server cx0 cwd args)
     (\<lambda>(cx, ws). group_as_told (control_socket (cx_run cx)) (cx_socket_gid cx) ws) (\<lambda>_ _. True)"
  unfolding run_server_def Let_def
  by (intro hoare_bnd [OF hoare_anything] hoare_sq [OF hoare_anything] hoare_sq [OF bind_socket_hoare]
      hoare_sq [OF socket_mode_hoare] hoare_bnd [OF socket_group_hoare] hoare_ret) simp_all

text \<open>
  A server that has come up listens on a socket of root that only its group can
  use besides: mode 0660, the group of \<open>--group\<close> as \<open>/etc/group\<close> has it.  Where that
  group could not be set, or none was asked for, the group is root's, and a warning
  says so.
\<close>

theorem control_socket_private:
  assumes "run_server cx0 cwd args w = (Inr (cx, warnings), w')"
  shows "\<exists>g. node_at (control_socket (cx_run cx)) w' = Some \<lparr>kind = KSocket, mode = 432, owner = 0, grp = g\<rparr> \<and>
     (warnings = [] \<longrightarrow> cx_socket_gid cx = Some g) \<and> (warnings \<noteq> [] \<longrightarrow> g = 0)"
  using hoareD [OF run_server_hoare TrueI assms]
  by (auto simp: group_as_told_def socket_node_def split: option.splits)

section \<open>Every connection is answered\<close>

lemma map_of_own: "map_of kvs k = map_of (filter (\<lambda>kv. fst kv = k) kvs) k"
  by (induction kvs) auto

lemma request_is_known:
  assumes "request_of v = Some r"
  shows "\<exists>t. Option.bind (jget ''op'' v) as_str = Some t \<and> t \<in> set KNOWN_OPS"
proof -
  from assms obtain kvs where v: "v = JObj kvs" by (auto simp: request_of_def split: json.splits)
  from assms v obtain k t where f: "filter (\<lambda>kv. fst kv = ''op'') kvs = [(k, JStr t)]"
      and r: "request_fields t (filter (\<lambda>kv. fst kv \<noteq> ''op'') kvs) = Some r"
    by (auto simp: request_of_def split: list.splits json.splits)
  have "(k, JStr t) \<in> set (filter (\<lambda>kv. fst kv = ''op'') kvs)" unfolding f by simp
  then have "k = ''op''" by simp
  then have "jget ''op'' v = Some (JStr t)"
    unfolding v jget_obj map_of_own [of "rev kvs"] rev_filter [symmetric] f by simp
  moreover have "t \<in> set KNOWN_OPS"
    using r by (simp add: request_fields_def KNOWN_OPS_def split: if_splits)
  ultimately show ?thesis by simp
qed

lemma parse_request_of:
  "parse line = Some v \<Longrightarrow> request_of v = Some r \<Longrightarrow> parse_request parse line = Inr r"
  using request_is_known [of v r] by (auto simp: parse_request_def Let_def)

text \<open>A request line, as the daemon's parser and the reader of the line see it.\<close>

definition request_line_ok :: "(json \<Rightarrow> string) \<Rightarrow> (string \<Rightarrow> json option) \<Rightarrow> json \<Rightarrow> bool" where
  "request_line_ok print parse v \<longleftrightarrow>
     parse (print v) = Some v \<and> no_control (print v) \<and> valid_utf8 (print v) \<and>
     length (print v) < MAX_REQUEST_FRAME_BYTES"

lemma connection_served:
  assumes "request_of v = Some req" "request_line_ok print (json_parse (cx_libs cx)) v"
    and "cn_timeout_set conn" "cn_bytes conn = map RByte (fst (exchange print parse [] v)) @ rest"
    and "dispatch (cx\<lparr>cx_thread := cn_thread conn\<rparr>) req (w\<lparr>sent := []\<rparr>) = (result, w')"
    and "\<forall>f \<in> set (fst (handle_connection wd rq cx conn w)). frame_ok print parse f"
  shows "snd (handle_connection wd rq cx conn w) = w' \<and>
     call print parse (Talks (concat (map (frame_bytes print) (fst (handle_connection wd rq cx conn w))))) v =
       (Inr (reply_of (outcome wd result)), map progress_text (sent w'))"
proof -
  have "read_request (json_parse (cx_libs cx)) (cn_bytes conn) = (Inr req, rest)"
    using assms(1,2,4)
    by (simp add: read_request_def exchange_def read_capped_line_frame parse_request_of request_line_ok_def)
  then have h: "handle_connection wd rq cx conn w =
      (response_frames (map progress_text (sent w')) (outcome wd result), w')"
    using assms(3,5) by (simp add: handle_connection_def)
  from exchange_loop_response [OF assms(6) [unfolded h fst_conv], of "[]" "[]"]
  show ?thesis by (simp add: h call_def exchange_def)
qed

text \<open>
  C24.  A client that sends a request the daemon knows, on a connection whose bytes
  arrive, changes the world as the handler of that request does and receives what the
  handler answered, after the progress texts in their order.  It relies on the client's
  and the daemon's JSON text agreeing (\<open>frame_ok\<close>) and on the frames being short enough.
\<close>

theorem daemon_answers_client:
  assumes "request_of v = Some req" "request_line_ok print (json_parse (cx_libs cx)) v"
    and "cn_timeout_set conn" "cn_bytes conn = map RByte (fst (exchange print parse [] v)) @ rest"
    and "dispatch (cx\<lparr>cx_thread := cn_thread conn\<rparr>) req (w\<lparr>sent := []\<rparr>) = (result, w')"
    and "\<forall>f \<in> set (fst (handle_connection wd rq cx conn w)). frame_ok print parse f"
  shows "snd (handle_connection wd rq cx conn w) = w' \<and>
     call print parse (Talks (concat (map (frame_bytes print) (fst (handle_connection wd rq cx conn w))))) v =
       (Inr (reply_of (outcome wd result)), map progress_text (sent w'))"
  by (rule connection_served [OF assms])

definition store_kept :: "Ctx \<Rightarrow> world \<Rightarrow> bool" where
  "store_kept cx w \<longleftrightarrow> store_ok (cx_libs cx) (cx_state cx) w"

lemma handle_connection_keeps:
  assumes "libs_ok (cx_libs cx)" "ctx_ok cx" "store_kept cx w"
  shows "store_kept cx (snd (handle_connection wd rq cx conn w))"
proof (cases "cn_timeout_set conn")
  case True
  show ?thesis
  proof (cases "fst (read_request (json_parse (cx_libs cx)) (cn_bytes conn))")
    case (Inl e)
    then show ?thesis using assms(3) by (simp add: handle_connection_def split: prod.split)
  next
    case (Inr req)
    let ?cx = "cx\<lparr>cx_thread := cn_thread conn\<rparr>" and ?w = "w\<lparr>sent := []\<rparr>"
    have "request_ok req"
      using Inr parse_request_ok by (auto simp: read_request_def split: prod.splits sum.splits)
    moreover have "store_ok (cx_libs ?cx) (cx_state ?cx) ?w"
      using assms(3) by (simp add: store_kept_def) (rule store_ok_same [OF same_fs], simp_all)
    moreover have "ctx_ok ?cx" using assms(2) by (simp add: ctx_ok_def)
    ultimately have "store_ok (cx_libs cx) (cx_state cx) (snd (dispatch ?cx req ?w))"
      using hoare_anyway [OF dispatch_keeps, of ?cx req] assms(1) by simp
    then show ?thesis
      using Inr True by (auto simp: handle_connection_def store_kept_def split: prod.split)
  qed
qed (use assms(3) in \<open>simp add: handle_connection_def\<close>)

text \<open>What is written to an accepted connection.\<close>

definition answered :: "incoming \<Rightarrow> json list \<Rightarrow> bool" where
  "answered c frames \<longleftrightarrow>
     (\<exists>conn. c = Accepted conn \<and>
        (if cn_timeout_set conn then \<exists>ps r. frames = response_frames ps r else frames = []))"

lemma handle_connection_answers: "answered (Accepted conn) (fst (handle_connection wd rq cx conn w))"
  by (auto simp: answered_def handle_connection_def split: sum.split prod.split)

lemma serve_keeps:
  assumes "libs_ok (cx_libs cx)" "ctx_ok cx" "store_kept cx w"
  shows "store_kept cx (snd (serve wd rq cx cs w)) \<and>
     list_all2 answered (filter (\<lambda>c. c \<noteq> AcceptFailed) cs) (fst (serve wd rq cx cs w))"
  using assms(3)
proof (induction cs arbitrary: w)
  case (Cons c cs)
  show ?case
  proof (cases c)
    case (Accepted conn)
    from Cons.IH [OF handle_connection_keeps [OF assms(1,2) Cons.prems, of wd rq conn]]
      handle_connection_answers [of conn wd rq cx w]
    show ?thesis by (auto simp: Accepted split: prod.split)
  qed (simp add: Cons)
qed simp


section \<open>Examples\<close>

definition ex_words :: wording where
  "ex_words = \<lparr>wd_msg = (\<lambda>_. ''no''), wd_detail = (\<lambda>_. []), wd_app = (\<lambda>_. []), wd_manifest = (\<lambda>_. [])\<rparr>"

definition ex_question :: json where
  "ex_question = request_json (Describe (SpaceId ''v''))"

definition ex_print :: "json \<Rightarrow> string" where
  "ex_print v = (if v = ex_question then ''Q'' else ''F'')"

definition ex_frame :: json where
  "ex_frame = finish_frame (Inl (SpaceNotFound, ''no''))"

definition ex_parse :: "string \<Rightarrow> json option" where
  "ex_parse s = (if s = ''Q'' then Some ex_question else if s = ''F'' then Some ex_frame else None)"

definition ex_server :: Ctx where
  "ex_server = ex_ctx\<lparr>cx_libs := ex_libs\<lparr>json_parse := ex_parse\<rparr>\<rparr>"

definition ex_conn :: connection where
  "ex_conn = \<lparr>cn_timeout_set = True, cn_bytes = [RByte (CHR ''Q''), RByte (CHR 0x0A)], cn_thread = ''7''\<rparr>"


lemma ex_describes:
  "dispatch (ex_server\<lparr>cx_thread := ''7''\<rparr>) (Describe (SpaceId ''v'')) (ex_world\<lparr>sent := []\<rparr>) =
     (Inl (SpaceNotFound, MsgSpaceNotFound (SpaceId ''v'')), ex_world)"
proof -
  have "\<not> path_exists (spaces_dir (cx_state ex_ctx)) ex_world"
    by (simp add: path_exists_def ex_defs)
  then show ?thesis
    by (simp add: dispatch_def op_describe_def load_store_def store_load_def internal_def map_err_def bnd_def ask_def
        ret_def space_or_not_found_def store_get_def refuse_def fail_def ex_server_def ex_world_def)
qed

theorem daemon_answers_client_witness:
  "call ex_print ex_parse (Talks (concat (map (frame_bytes ex_print)
     (fst (handle_connection ex_words (\<lambda>_. ''bad'') ex_server ex_conn ex_world))))) ex_question =
   (Inr (ReplyErr ''space-not-found'' ''no''), [])"
proof -
  have q: "request_of ex_question = Some (Describe (SpaceId ''v''))"
    unfolding ex_question_def by (rule request_of_json) (simp add: request_ok_ex)
  have p: "json_parse (cx_libs ex_server) (ex_print ex_question) = Some ex_question"
    by (simp add: ex_server_def ex_parse_def ex_print_def)
  have "read_request (json_parse (cx_libs ex_server)) (cn_bytes ex_conn) = (Inr (Describe (SpaceId ''v'')), [])"
    using parse_request_of [of "json_parse (cx_libs ex_server)", OF p q]
    by (simp add: read_request_def read_capped_line_def ex_conn_def MAX_REQUEST_FRAME_BYTES_def is_ascii_control_def
        from_utf8_def valid_utf8_ascii ex_print_def)
  then have f: "fst (handle_connection ex_words (\<lambda>_. ''bad'') ex_server ex_conn ex_world) = [ex_frame]"
    using ex_describes
    by (simp add: handle_connection_def ex_conn_def response_frames_def outcome_def ex_words_def ex_frame_def ex_world_def)
  have "\<forall>f \<in> set (fst (handle_connection ex_words (\<lambda>_. ''bad'') ex_server ex_conn ex_world)). frame_ok ex_print ex_parse f"
    unfolding f by (simp add: frame_ok_def ex_print_def ex_parse_def ex_frame_def ex_question_def finish_frame_def
        no_control_def is_ascii_control_def valid_utf8_ascii MAX_RESPONSE_FRAME_BYTES_def)
  moreover have "request_line_ok ex_print (json_parse (cx_libs ex_server)) ex_question"
    using p by (simp add: request_line_ok_def ex_print_def no_control_def is_ascii_control_def valid_utf8_ascii
        MAX_REQUEST_FRAME_BYTES_def)
  ultimately show ?thesis
    using daemon_answers_client [OF q, of ex_print ex_server ex_conn ex_parse "[]" ex_world
        "Inl (SpaceNotFound, MsgSpaceNotFound (SpaceId ''v''))" ex_world ex_words "\<lambda>_. ''bad''"] ex_describes
    by (simp add: ex_conn_def exchange_def ex_print_def outcome_def reply_of_def ex_words_def ex_world_def)
qed

definition ex_args :: "string list" where
  "ex_args = [''--run-dir'', ''/run'', ''--group'', []]"

definition ex_server_config :: ServerConfig where
  "ex_server_config = default_config\<lparr>sc_run_dir := ''/run'', sc_group := []\<rparr>"

lemma ex_args_read: "server_args ex_args default_config = Inr ex_server_config"
  by (simp add: ex_args_def ex_server_config_def)

lemma ex_run_dir: "pjoin [] (sc_run_dir ex_server_config) = [''run'']"
  by (simp add: ex_server_config_def pjoin_def path_of_def)

lemma ex_no_faults: "env w = ex_env \<Longrightarrow> sys c f g w = (if c w then (Inr (), tick (f w)) else (Inl (), tick w))"
  by (simp add: sys_def faulty_def ex_env_def)

lemma ex_comes_up:
  "\<exists>cx w'. run_server ex_ctx [] ex_args ex_world = (Inr (cx, [GroupNotSet]), w') \<and> cx_run cx = [''run'']"
proof -
  let ?run = "[''run'']" and ?sock = "[''run'', ''control.sock'']"
  have t [simp]: "env (tick w) = env w" "env (set_node p n w) = env w" for w p n
    by (simp_all add: tick_def set_node_def)
  have w: "env ex_world = ex_env" "path_exists ?run ex_world" "is_dir ?run ex_world" "node_at ?sock ex_world = None"
    by (simp_all add: path_exists_def is_dir_def ex_defs)
  have c: "create_dir_all ?run ex_world = (Inr (), tick ex_world)"
    using w by (simp add: create_dir_all_def ex_no_faults prefixes_of_def new_dir_def)
  have r: "remove_file ?sock (tick ex_world) = (Inl (), tick (tick ex_world))"
    using w by (simp add: remove_file_def ex_no_faults)
  let ?w = "set_node ?sock \<lparr>kind = KSocket, mode = umask_dir ex_env, owner = 0, grp = 0\<rparr> (tick (tick ex_world))"
  have b: "bind_socket ?sock (tick (tick ex_world)) = (Inr (), tick ?w)"
    using w by (simp add: bind_socket_def ex_no_faults writable_def is_dir_def)
  have m: "set_mode ?sock 432 (tick ?w) = (Inr (), tick (change_node ?sock (\<lambda>n. n\<lparr>mode := 432\<rparr>) (tick ?w)))"
    using w by (simp add: set_mode_def ex_no_faults)
  show ?thesis
    unfolding run_server_def ex_args_read Let_def
    using w(4)
    by (simp add: ex_run_dir map_err_def of_result_def bnd_def sq_def host_def socket_group_def ret_def
        remove_old_socket_def control_socket_def ask_def attempt_def set_socket_group_def c r b m)
       (simp add: ex_server_config_def)
qed

theorem control_socket_private_witness:
  "\<exists>cx w' n. run_server ex_ctx [] ex_args ex_world = (Inr (cx, [GroupNotSet]), w') \<and>
     node_at [''run'', ''control.sock''] w' = Some n \<and> kind n = KSocket \<and> mode n = 432 \<and> grp n = 0"
proof -
  obtain cx w' where r: "run_server ex_ctx [] ex_args ex_world = (Inr (cx, [GroupNotSet]), w')" "cx_run cx = [''run'']"
    using ex_comes_up by blast
  from control_socket_private [OF r(1)] r show ?thesis by (auto simp: control_socket_def)
qed

end
