(* ===== verification/OpsReply.thy ===== *)
theory OpsReply
  imports OpsInv
begin

text \<open>
  What kind of reply each request gets.  \<open>gives\<close> says of an operation what every value
  it returns satisfies, whatever its world and its failures.
\<close>

named_theorems gives_intros

definition gives :: "('a \<Rightarrow> bool) \<Rightarrow> ('e, 'a) m \<Rightarrow> bool" where
  "gives Q f \<longleftrightarrow> (\<forall>w. case fst (f w) of Inr x \<Rightarrow> Q x | Inl _ \<Rightarrow> True)"

lemma givesD: "gives Q f \<Longrightarrow> f w = (Inr x, w') \<Longrightarrow> Q x"
  by (force simp: gives_def dest: spec [of _ w])

lemma gives_ret [gives_intros]: "Q x \<Longrightarrow> gives Q (ret x)"
  by (simp add: gives_def ret_def)

lemma gives_refuse [gives_intros]: "gives Q (refuse c msg)"
  by (simp add: gives_def refuse_def fail_def)

lemma gives_bnd_val: "gives P f \<Longrightarrow> (\<And>x. P x \<Longrightarrow> gives Q (k x)) \<Longrightarrow> gives Q (bnd f k)"
  unfolding gives_def bnd_def by (auto split: prod.split sum.split) (metis fst_conv sum.simps(6))

lemma gives_anything: "gives (\<lambda>_. True) f"
  by (simp add: gives_def split: sum.split)

lemma gives_bnd [gives_intros]: "(\<And>x. gives Q (k x)) \<Longrightarrow> gives Q (bnd f k)"
  by (rule gives_bnd_val [OF gives_anything])

lemma gives_sq [gives_intros]: "gives Q g \<Longrightarrow> gives Q (sq f g)"
  by (simp add: sq_def gives_bnd)

lemma gives_if [gives_intros]: "(b \<Longrightarrow> gives Q f) \<Longrightarrow> (\<not> b \<Longrightarrow> gives Q g) \<Longrightarrow> gives Q (if b then f else g)"
  by simp

lemma gives_sum [gives_intros]:
  "(\<And>y. gives Q (f y)) \<Longrightarrow> (\<And>y. gives Q (g y)) \<Longrightarrow> gives Q (case r of Inl y \<Rightarrow> f y | Inr y \<Rightarrow> g y)"
  by (cases r) simp_all

lemma gives_prod [gives_intros]: "(\<And>y z. gives Q (f y z)) \<Longrightarrow> gives Q (case p of (y, z) \<Rightarrow> f y z)"
  by (cases p) simp_all

lemma gives_let [gives_intros]: "gives Q (f t) \<Longrightarrow> gives Q (Let t f)"
  by simp

lemma gives_map_err [gives_intros]: "gives Q f \<Longrightarrow> gives Q (map_err g f)"
  unfolding gives_def map_err_def by (auto split: prod.split sum.splits) (metis fst_conv sum.simps(6))

lemma gives_internal [gives_intros]: "gives Q f \<Longrightarrow> gives Q (internal f)"
  by (simp add: internal_def gives_map_err)

text \<open>The two lookups that make a reply speak of the right space.\<close>

lemma gives_space: "gives (\<lambda>c. c_id c = i) (space_or_not_found s i)"
  by (auto simp: space_or_not_found_def store_get_def find_Some_iff intro!: gives_intros split: option.split)

lemma gives_allocated: "gives (\<lambda>cid. 3 \<le> cid \<and> cid \<le> MAX_CID) (allocate_cid cs)"
  by (auto simp: gives_def allocate_cid_def bnd_def ask_def ret_def fail_def find_Some_iff nth_append
      dest!: nth_mem split: option.split sum.split)

lemma gives_created:
  "gives (\<lambda>(_, c). c_id c = i \<and> c_profile c = p \<and> 3 \<le> c_cid c \<and> c_cid c \<le> MAX_CID \<and> c_uid c = UID_BASE + c_cid c)
     (create_space x s i p digest l k enc)"
  unfolding create_space_def Let_def
  by (intro gives_sq gives_bnd_val [OF gives_allocated] gives_bnd gives_ret) simp

section \<open>The reply fits the request\<close>

definition about :: "SpaceId \<Rightarrow> op_reply \<Rightarrow> bool" where
  "about i r \<longleftrightarrow> (case r of RSpace j \<Rightarrow> j = i | _ \<Rightarrow> False)"

definition fits :: "Request \<Rightarrow> op_reply \<Rightarrow> bool" where
  "fits req r \<longleftrightarrow>
     (case req of
        Request.List \<Rightarrow> (case r of RList _ \<Rightarrow> True | _ \<Rightarrow> False)
      | Describe i \<Rightarrow> (case r of RDescribe d \<Rightarrow> c_id (de_space d) = i | _ \<Rightarrow> False)
      | Build p \<Rightarrow> (case r of RBuilt q _ _ \<Rightarrow> q = p | _ \<Rightarrow> False)
      | Create i _ _ _ _ _ \<Rightarrow>
          (case r of RCreated j cid uid \<Rightarrow> j = i \<and> 3 \<le> cid \<and> cid \<le> MAX_CID \<and> uid = UID_BASE + cid | _ \<Rightarrow> False)
      | Start i _ \<Rightarrow> (case r of RStarted j _ _ \<Rightarrow> j = i | _ \<Rightarrow> False)
      | Stop i \<Rightarrow> (case r of RStopped j _ _ \<Rightarrow> j = i | _ \<Rightarrow> False)
      | OpenWindow i \<Rightarrow> (case r of RWindow j _ \<Rightarrow> j = i | _ \<Rightarrow> False)
      | ResetSystem i _ \<Rightarrow> about i r
      | ResetAll i _ \<Rightarrow> about i r
      | UpdateImage i _ \<Rightarrow>
          (case r of RUpdated j old new d \<Rightarrow> j = i \<and> (old = new) = (d = DUpToDate) | _ \<Rightarrow> False)
      | Destroy i \<Rightarrow> about i r
      | NetStatus \<Rightarrow> (case r of RNet _ \<Rightarrow> True | _ \<Rightarrow> False)
      | Profiles \<Rightarrow> (case r of RProfiles _ \<Rightarrow> True | _ \<Rightarrow> False))"

lemma gives_reads:
  "gives (fits Request.List) (op_list cx)" "gives (fits NetStatus) (op_net_status cx)"
  "gives (fits Profiles) (op_profiles cx)" "gives (fits (Describe i)) (op_describe cx i)"
  unfolding op_list_def op_net_status_def op_profiles_def op_describe_def
  by (auto simp: fits_def intro!: gives_intros gives_bnd_val [OF gives_space])

lemma gives_op_create: "gives (fits (Create i p l k seed pw)) (op_create cx i p l k seed pw)"
  unfolding op_create_def
  by (rule gives_if, rule gives_refuse, rule gives_if, rule gives_refuse, rule gives_bnd, rule gives_if,
      rule gives_refuse, rule gives_bnd, rule gives_bnd, rule gives_bnd,
      rule gives_bnd_val [OF gives_internal [OF gives_created]])
    (auto simp: fits_def intro!: gives_intros)

lemma gives_started: "c_id c = i \<Longrightarrow> gives (fits (Start i pw)) (started_vm cx c run pid)"
  unfolding started_vm_def death_error_def by (auto simp: fits_def intro!: gives_intros)

lemma gives_start: "gives (fits (Start i pw)) (op_start cx i pw)"
  unfolding op_start_def launch_vm_def
  by (auto simp: fits_def intro!: gives_intros gives_bnd_val [OF gives_space] gives_started)

lemma gives_changes:
  "gives (fits (Build p)) (op_build cx p)" "gives (fits (Stop i)) (op_stop cx i)"
  "gives (fits (OpenWindow i)) (op_open_window cx i)" "gives (fits (ResetSystem i pw)) (op_reset_system cx i pw)"
  "gives (fits (ResetAll i pw)) (op_reset_all cx i pw)" "gives (fits (UpdateImage i pw)) (op_update_image cx i pw)"
  "gives (fits (Destroy i)) (op_destroy cx i)"
  unfolding op_build_def op_stop_def op_open_window_def op_reset_system_def op_reset_all_def op_update_image_def
    op_destroy_def
  by (auto simp: fits_def about_def intro!: gives_intros)

lemma gives_fitting: "gives (fits req) (dispatch cx req)"
  by (cases req) (simp_all add: dispatch_def gives_reads gives_changes gives_op_create gives_start)


section \<open>The list of the example world\<close>

definition ex_row :: list_row where
  "ex_row = \<lparr>lr_space = ex_config, lr_state = Stopped, lr_isolation = Some (''standard'', [])\<rparr>"

lemma ex_reads:
  assumes "env w = ex_env" "fs w = fs ex_world1"
  shows "store_load ex_libs (cx_state ex_ctx) w = (Inr \<lparr>state_dir = cx_state ex_ctx, spaces = [ex_config]\<rparr>, tick (tick w))"
proof -
  let ?sd = "spaces_dir (cx_state ex_ctx)"
  have n: "node_at p w = node_at p ex_world1" for p using assms(2) by (simp add: node_at_def)
  have f: "\<not> faulty w'" if "env w' = ex_env" for w' using that by (simp add: faulty_def ex_env_def)
  have p: "path_exists ?sd w" "is_dir ?sd w" "is_file (config_path (?sd @ [''w''])) w"
    unfolding path_exists_def is_dir_def is_file_def n by (simp_all add: ex_defs)
  have d: "names_in ?sd w = [''w'']"
    unfolding names_in_def assms(2) by (simp add: ex_defs)
  have "bytes_at (config_path (?sd @ [''w''])) w = Some (config_to ex_libs ex_config)"
    unfolding bytes_at_def n by (simp add: ex_defs)
  then have c: "Option.bind (bytes_at (config_path (?sd @ [''w''])) w) from_utf8 = Some (config_to ex_libs ex_config)"
    by (simp add: config_to_utf8 [OF libs_ok_ex])
  have t: "env (tick v) = env v" "path_exists p (tick v) = path_exists p v" "is_file p (tick v) = is_file p v"
    "bytes_at p (tick v) = bytes_at p v" for v p
    by (simp_all add: tick_def path_exists_def is_file_def bytes_at_def node_at_def)
  show ?thesis
    by (simp add: store_load_def bnd_def ask_def ret_def p read_dir_def query_def d f assms(1) load_entry_def t
        read_to_string_def c config_of_to [OF libs_ok_ex config_ok_ex] sort_spaces_def)
qed

text \<open>The example context with another parser of JSON, in any thread.\<close>

definition ex_thread_ctx :: "(string \<Rightarrow> json option) \<Rightarrow> string \<Rightarrow> Ctx" where
  "ex_thread_ctx j t = ex_ctx\<lparr>cx_libs := ex_libs\<lparr>json_parse := j\<rparr>, cx_thread := t\<rparr>"

lemma ex_thread_ctx_simps [simp]:
  "cx_state (ex_thread_ctx j t) = cx_state ex_ctx" "cx_run (ex_thread_ctx j t) = cx_run ex_ctx"
  "cx_libs (ex_thread_ctx j t) = ex_libs\<lparr>json_parse := j\<rparr>"
  "(ex_thread_ctx j t)\<lparr>cx_thread := t'\<rparr> = ex_thread_ctx j t'"
  by (simp_all add: ex_thread_ctx_def)

lemma ex_row_read:
  assumes "env w = ex_env" "fs w = fs ex_world1"
  shows "list_row_of (ex_thread_ctx j t) ex_config w = (Inr ex_row, tick (tick w))"
proof -
  let ?m = "manifest_path (cx_state ex_ctx) ''web''"
  have n: "node_at p w = node_at p ex_world1" for p using assms(2) by (simp add: node_at_def)
  have f: "\<not> faulty w'" if "env w' = ex_env" for w' using that by (simp add: faulty_def ex_env_def)
  have t: "env (tick v) = env v" "bytes_at p (tick v) = bytes_at p v" for v p
    by (simp_all add: tick_def bytes_at_def node_at_def)
  have m: "is_file ?m w" "bytes_at ?m w = Some []"
    unfolding is_file_def bytes_at_def n by (simp_all add: manifest_path_def pjoin_def path_of_def ex_defs)
  have p: "bytes_at (pid_path (cx_run ex_ctx) ''w'') w = None"
    unfolding bytes_at_def n by (simp add: pid_path_def pjoin_def path_of_def ex_defs)
  have "load_manifest (ex_thread_ctx j t) ''web'' w = (Inr ex_manifest, tick w)"
    by (simp add: load_manifest_def bnd_def ask_def m internal_def manifest_load_def map_err_def read_to_string_def
        query_def f assms(1) from_utf8_def valid_utf8_ascii of_result_def manifest_parse_def ex_libs_def ex_manifest_ok)
  moreover have "(observed_state x (cx_run ex_ctx) ''w'' 3 :: (ErrorCode \<times> op_msg, SpaceState) m) (tick w) =
      (Inr Stopped, tick (tick w))" for x
    by (simp add: observed_state_def state_of_def pid_of_def bnd_def attempt_def read_to_string_def query_def t p ret_def)
  moreover have "id_str (c_id ex_config) = ''w''" "id_str (c_profile ex_config) = ''web''" "c_cid ex_config = 3"
    by (simp_all add: ex_config_def)
  ultimately show ?thesis
    by (simp add: list_row_of_def bnd_def attempt_def ret_def ex_row_def) (simp add: ex_manifest_def)
qed

lemma ex_listed1:
  "dispatch (ex_thread_ctx j t) Request.List ex_world1 = (Inr (RList [ex_row]), tick (tick (tick (tick ex_world1))))"
proof -
  have w: "env ex_world1 = ex_env" "env (tick w) = env w" "fs (tick w) = fs w" for w
    by (simp_all add: ex_world1_def ex_world_def tick_def)
  have "config_of (ex_libs\<lparr>json_parse := j\<rparr>) = config_of ex_libs"
    by (simp add: config_of_def fun_eq_iff)
  then have "load_entry (ex_libs\<lparr>json_parse := j\<rparr>) d = load_entry ex_libs d" for d
    by (intro ext) (simp add: load_entry_def cong: if_cong)
  then have "store_load (ex_libs\<lparr>json_parse := j\<rparr>) st = store_load ex_libs st" for st
    by (simp add: store_load_def cong: if_cong)
  then show ?thesis
    by (simp add: dispatch_def op_list_def load_store_def internal_def map_err_def bnd_def ex_reads ex_row_read w ret_def)
qed


end
