(* ===== verification/ManagerMain.thy ===== *)
theory ManagerMain
  imports ManagerRun DaemonMain OpsReply
begin

text \<open>
  \<open>components/manager/src/main.rs\<close> and \<open>Daemon::send\<close>: the arguments of the manager
  and the report of \<open>--dry-run\<close>.  \<open>talk\<close> is one call of the daemon: what
  \<open>client::call\<close> returns for a request, and what the other side is then like.
\<close>

definition DEFAULT_SOCKET :: string where
  "DEFAULT_SOCKET = ''/run/miyorios/control.sock''"

fun manager_args :: "string list \<Rightarrow> string \<times> bool \<Rightarrow> arg_error + string \<times> bool" where
  "manager_args [] c = Inr c"
| "manager_args (a # rest) (sock, dry) =
     (if a = ''--dry-run'' then manager_args rest (sock, True)
      else if a = ''--socket'' then
        with_value a rest (\<lambda>v vs. manager_args vs (v, dry))
      else Inl (UnknownArg a))"

section \<open>One question\<close>

type_synonym 'd talk = "'d \<Rightarrow> json \<Rightarrow> ((call_error + Reply) \<times> string list) \<times> 'd"

text \<open>
  The thread of a request as a reader that keeps up with it sees it; \<open>errs\<close> is the
  chain of causes of an error.
\<close>

definition send :: "(call_error \<Rightarrow> string) \<Rightarrow> nat \<Rightarrow> (call_error + Reply) \<times> string list \<Rightarrow> Update list" where
  "send errs i answer =
     map (progress_update i) (snd answer) @
     [Done i (case fst answer of Inl e \<Rightarrow> Inl (errs e) | Inr r \<Rightarrow> Inr r)]"

datatype out = Out string | Err string

text \<open>An answer to another request is passed over; a channel without senders ends the wait.\<close>

fun await :: "nat \<Rightarrow> Update list \<Rightarrow> out list \<times> (string + Reply)" where
  "await i [] = ([], Inl ''receiving on a closed channel'')"
| "await i (Progress _ t # us) = (case await i us of (os, r) \<Rightarrow> (Err (TXT_ELLIPSIS @ '' '' @ t) # os, r))"
| "await i (Done j r # us) = (if j = i then ([], r) else await i us)"

definition question ::
  "'d talk \<Rightarrow> (call_error \<Rightarrow> string) \<Rightarrow> nat \<Rightarrow> json \<Rightarrow> 'd \<Rightarrow> (out list \<times> (string + Reply)) \<times> 'd" where
  "question talk errs i request d =
     (case talk d request of (answer, d') \<Rightarrow> (await i (send errs i answer), d'))"

section \<open>The report\<close>

definition space_line :: "SpaceRow \<Rightarrow> string" where
  "space_line r =
     TXT_P_SPACE @ sr_space r @ TXT_MIDDOT @ sr_label r @ TXT_MIDDOT @ sr_color r @ TXT_P_PROFILE @ sr_profile r @
     TXT_MIDDOT @ sr_state r @ TXT_P_LEVEL @ sr_level r @
     (if sr_level_reason r = [] then [] else TXT_P_DASH @ sr_level_reason r)"

definition detail_lines :: "DetailView \<Rightarrow> string list" where
  "detail_lines v =
     (case v of
        DetailUnavailable msg \<Rightarrow> [TXT_P_NO_DETAIL @ msg]
      | SpaceDetail rows tail \<Rightarrow>
          map (\<lambda>r. ''  '' @ dr_key r @ '': '' @ dr_value r) rows @ map (\<lambda>l. TXT_P_LOG @ l) tail)"

definition net_lines :: "string + NetView \<Rightarrow> string list" where
  "net_lines v =
     (case v of
        Inl msg \<Rightarrow> [TXT_P_NO_NET @ msg]
      | Inr n \<Rightarrow>
          map (\<lambda>r. TXT_P_NET @ dr_key r @ '': '' @ dr_value r) (nv_rows n) @
          (if nv_ruleset_note n = [] then [] else [TXT_P_RULESET @ nv_ruleset_note n]) @
          map (\<lambda>l. ''  nft| '' @ l) (lines (nv_ruleset_text n)))"

definition print_detail :: "'d talk \<Rightarrow> (call_error \<Rightarrow> string) \<Rightarrow> string \<Rightarrow> 'd \<Rightarrow> out list \<times> 'd" where
  "print_detail talk errs i d =
     (case question talk errs 2 (space_request ''describe'' i) d of
        ((os, reply), d') \<Rightarrow> (os @ map Out (detail_lines (detail_view reply)), d'))"

fun print_rows :: "'d talk \<Rightarrow> (call_error \<Rightarrow> string) \<Rightarrow> SpaceRow list \<Rightarrow> 'd \<Rightarrow> out list \<times> 'd" where
  "print_rows talk errs [] d = ([], d)"
| "print_rows talk errs (r # rs) d =
     (case print_detail talk errs (sr_space r) d of
        (os, d') \<Rightarrow> (case print_rows talk errs rs d' of
          (os2, d'') \<Rightarrow> (Out (space_line r) # os @ os2, d'')))"

definition print_spaces :: "'d talk \<Rightarrow> (call_error \<Rightarrow> string) \<Rightarrow> 'd \<Rightarrow> out list \<times> 'd" where
  "print_spaces talk errs d =
     (case question talk errs 1 (op_request ''list'') d of
        ((os, reply), d') \<Rightarrow>
          (case spaces_view reply of
             SpacesUnavailable msg \<Rightarrow> (os @ [Out (TXT_P_NO_SPACES @ msg)], d')
           | SpacesShown rows \<Rightarrow> (case print_rows talk errs rows d' of (os2, d'') \<Rightarrow> (os @ os2, d''))))"

definition print_net :: "'d talk \<Rightarrow> (call_error \<Rightarrow> string) \<Rightarrow> 'd \<Rightarrow> out list \<times> 'd" where
  "print_net talk errs d =
     (case question talk errs 3 (op_request ''net-status'') d of
        ((os, reply), d') \<Rightarrow> (os @ map Out (net_lines (net_view reply)), d'))"

datatype 'd manager_run = Reported "out list" 'd | WindowOn string

definition manager_main ::
  "(string \<Rightarrow> 'd talk) \<Rightarrow> (call_error \<Rightarrow> string) \<Rightarrow> string list \<Rightarrow> 'd \<Rightarrow> arg_error + 'd manager_run" where
  "manager_main dial errs args d =
     (case manager_args args (DEFAULT_SOCKET, False) of
        Inl e \<Rightarrow> Inl e
      | Inr (sock, False) \<Rightarrow> Inr (WindowOn sock)
      | Inr (sock, True) \<Rightarrow>
          (case print_spaces (dial sock) errs d of
             (os, d') \<Rightarrow> (case print_net (dial sock) errs d' of
               (os2, d'') \<Rightarrow> Inr (Reported (os @ os2) d''))))"

section \<open>The report against the daemon\<close>

lemma await_own: "await i (map (progress_update i) ps @ [Done i r]) =
    (map (\<lambda>t. Err (TXT_ELLIPSIS @ '' '' @ take_chars 1024 t)) ps, r)"
  by (induction ps) (simp_all add: progress_update_def)

text \<open>A question ends with the answer to it, after the progress of its own request.\<close>

lemma question_answered:
  "talk d request = ((answer, ps), d') \<Longrightarrow>
   question talk errs i request d =
     ((map (\<lambda>t. Err (TXT_ELLIPSIS @ '' '' @ take_chars 1024 t)) ps,
       case answer of Inl e \<Rightarrow> Inl (errs e) | Inr r \<Rightarrow> Inr r), d')"
  by (simp add: question_def send_def await_own)

lemma print_rows_lines:
  "subseq (map (\<lambda>r. Out (space_line r)) rows) (fst (print_rows talk errs rows d))"
proof (induction rows arbitrary: d)
  case (Cons r rows)
  obtain os d1 where "print_detail talk errs (sr_space r) d = (os, d1)" by force
  with Cons [of d1] show ?case by (auto split: prod.splits intro: list_emb_append2)
qed simp

text \<open>The modelled daemon at the other end of the socket, each request in a thread \<open>t\<close> of it.\<close>

definition connection_of :: "(json \<Rightarrow> string) \<Rightarrow> (string \<Rightarrow> json option) \<Rightarrow> string \<Rightarrow> json \<Rightarrow> connection" where
  "connection_of print parse t v =
     \<lparr>cn_timeout_set = True, cn_bytes = map RByte (fst (exchange print parse [] v)), cn_thread = t\<rparr>"

definition daemon_talk ::
  "wording \<Rightarrow> (req_msg \<Rightarrow> string) \<Rightarrow> Ctx \<Rightarrow> (json \<Rightarrow> string) \<Rightarrow> (string \<Rightarrow> json option) \<Rightarrow> string \<Rightarrow> world talk" where
  "daemon_talk wd rq cx print parse t w v =
     (case handle_connection wd rq cx (connection_of print parse t v) w of
        (frames, w') \<Rightarrow> (call print parse (Talks (concat (map (frame_bytes print) frames))) v, w'))"

lemma daemon_talk_answers:
  assumes "request_of v = Some req" "request_line_ok print (json_parse (cx_libs cx)) v"
    and "dispatch (cx\<lparr>cx_thread := t\<rparr>) req (w\<lparr>sent := []\<rparr>) = (result, w')"
    and "\<forall>f \<in> set (fst (handle_connection wd rq cx (connection_of print parse t v) w)). frame_ok print parse f"
  shows "daemon_talk wd rq cx print parse t w v =
     ((Inr (reply_of (outcome wd result)), map progress_text (sent w')), w')"
  using connection_served [OF assms(1,2) _ _ _ assms(4), of "[]" result w'] assms(3)
  by (auto simp: daemon_talk_def connection_of_def split: prod.split)

lemma list_requested: "request_of (op_request ''list'') = Some Request.List"
  by (simp add: op_request_def request_of_def request_fields_def)

text \<open>
  C34.  From the disk to the terminal: \<open>miyori-manager --dry-run\<close> against the daemon
  prints a line for every space the daemon lists, in its order, with the id, label,
  colour, profile, observed state and isolation level the daemon found; where the daemon
  refuses, the one line it prints is the code and message of the refusal.
\<close>

theorem report_lists_spaces:
  assumes "request_line_ok print (json_parse (cx_libs cx)) (op_request ''list'')"
    and "dispatch (cx\<lparr>cx_thread := t\<rparr>) Request.List (w\<lparr>sent := []\<rparr>) = (result, w')"
    and "\<forall>f \<in> set (fst (handle_connection wd rq cx (connection_of print parse t (op_request ''list'')) w)).
        frame_ok print parse f"
  shows "case result of
       Inr (RList rows) \<Rightarrow>
         subseq (map (\<lambda>r. Out (space_line (shown_row r))) rows)
           (fst (print_spaces (daemon_talk wd rq cx print parse t) errs w))
     | Inl (c, msg) \<Rightarrow>
         [l \<leftarrow> fst (print_spaces (daemon_talk wd rq cx print parse t) errs w). \<exists>s. l = Out s] =
           [Out (TXT_P_NO_SPACES @ code_str c @ '': '' @ wd_msg wd msg)]
     | _ \<Rightarrow> False"
proof -
  note q = question_answered [of "daemon_talk wd rq cx print parse t", OF daemon_talk_answers [OF list_requested assms],
      of errs 1]
  have e: "[l \<leftarrow> map (\<lambda>t. Err (f t)) ps. \<exists>s. l = Out s] = []" for f and ps :: "string list"
    by (induction ps) simp_all
  show ?thesis
  proof (cases result)
    case (Inl p)
    obtain c msg where p: "p = (c, msg)" by (cases p)
    show ?thesis
      using q by (simp add: Inl p print_spaces_def reply_frames shown_replies e)
  next
    case (Inr r)
    have "fits Request.List r" using givesD [OF gives_fitting assms(2) [unfolded Inr]] .
    then obtain rows where r: "r = RList rows" by (cases r) (auto simp: fits_def)
    obtain os d where p: "print_rows (daemon_talk wd rq cx print parse t) errs (map shown_row rows) w' = (os, d)"
      by force
    have "subseq (map (\<lambda>r. Out (space_line (shown_row r))) rows) os"
      using print_rows_lines [of "map shown_row rows" "daemon_talk wd rq cx print parse t" errs w'] by (simp add: p o_def)
    with q p show ?thesis
      by (auto simp: Inr r print_spaces_def reply_frames shown_replies intro: list_emb_append2)
  qed
qed

text \<open>One space, listed over a wire of two words.\<close>

definition two_print :: "json \<Rightarrow> string" where
  "two_print v = (if v = op_request ''list'' then ''Q'' else ''F'')"

definition two_parse :: "string \<Rightarrow> json option" where
  "two_parse s =
     (if s = ''Q'' then Some (op_request ''list'')
      else Some (finish_frame (outcome ex_words (Inr (RList [ex_row])))))"

theorem report_lists_spaces_witness:
  "subseq [Out (space_line (shown_row ex_row))]
     (fst (print_spaces (daemon_talk ex_words (\<lambda>_. ''bad'') (ex_thread_ctx two_parse ''1'') two_print two_parse ''1'')
       (\<lambda>_. ''error'') ex_world1))"
proof -
  let ?cx = "ex_thread_ctx two_parse ''1''" and ?v = "op_request ''list''"
  have l: "request_line_ok two_print (json_parse (cx_libs ?cx)) ?v"
    by (simp add: request_line_ok_def two_print_def two_parse_def no_control_def is_ascii_control_def valid_utf8_ascii
        MAX_REQUEST_FRAME_BYTES_def)
  have w: "ex_world1\<lparr>sent := []\<rparr> = ex_world1" by (simp add: ex_world1_def ex_world_def)
  have s: "sent (tick w) = sent w" for w by (simp add: tick_def)
  have d: "dispatch (?cx\<lparr>cx_thread := ''1''\<rparr>) Request.List (ex_world1\<lparr>sent := []\<rparr>) =
      (Inr (RList [ex_row]), tick (tick (tick (tick ex_world1))))"
    unfolding w using ex_listed1 by simp
  have "read_request (json_parse (cx_libs ?cx)) (cn_bytes (connection_of two_print two_parse ''1'' ?v)) = (Inr Request.List, [])"
    using parse_request_of [of two_parse "''Q''" ?v, OF _ list_requested]
    by (simp add: connection_of_def exchange_def two_print_def two_parse_def read_request_def read_capped_line_def
        MAX_REQUEST_FRAME_BYTES_def is_ascii_control_def from_utf8_def valid_utf8_ascii)
  then have f: "fst (handle_connection ex_words (\<lambda>_. ''bad'') ?cx (connection_of two_print two_parse ''1'' ?v) ex_world1) =
      [finish_frame (outcome ex_words (Inr (RList [ex_row])))]"
    using d by (simp add: handle_connection_def connection_of_def response_frames_def s w ex_world1_def ex_world_def)
  have "frame_ok two_print two_parse (finish_frame (outcome ex_words (Inr (RList [ex_row]))))"
    by (simp add: frame_ok_def two_print_def two_parse_def op_request_def finish_frame_def outcome_def
        no_control_def is_ascii_control_def valid_utf8_ascii MAX_RESPONSE_FRAME_BYTES_def)
  then have "\<forall>f \<in> set (fst (handle_connection ex_words (\<lambda>_. ''bad'') ?cx (connection_of two_print two_parse ''1'' ?v) ex_world1)).
      frame_ok two_print two_parse f"
    unfolding f by simp
  from report_lists_spaces [OF l d this, of "\<lambda>_. ''error''"] show ?thesis by simp
qed

end
