(* ===== verification/AgentWait.thy ===== *)
theory AgentWait
  imports Example
begin

text \<open>
  The wait for the agent of a starting guest (\<open>start_app_via_agent\<close> of
  \<open>components/daemon/src/ops.rs\<close>) is a loop that only its deadline ends.  The model
  counts rounds instead; here the count is shown to be no restriction where the clock
  runs as the sleep of a round makes it.
\<close>

text \<open>
  \<open>ms\<close> is the time in milliseconds at each tick; a round of the wait is two ticks, the
  call of the agent and the look at the process, and sleeps 300 ms.
\<close>

definition clock_runs :: "env \<Rightarrow> (nat \<Rightarrow> nat) \<Rightarrow> nat \<Rightarrow> bool" where
  "clock_runs e ms start \<longleftrightarrow>
     mono ms \<and> (\<forall>n. secs e n = ms n div 1000) \<and>
     (\<forall>k. ms (start + 2 * k) + 300 \<le> ms (start + 2 * Suc k))"

lemma clock_after_rounds:
  assumes "clock_runs e ms start"
  shows "ms start + 300 * k \<le> ms (start + 2 * k)"
proof (induction k)
  case (Suc k)
  have "ms start + 300 * Suc k = ms start + 300 * k + 300" by simp
  also have "\<dots> \<le> ms (start + 2 * k) + 300" using Suc by simp
  also have "\<dots> \<le> ms (start + 2 * Suc k)" using assms by (simp only: clock_runs_def)
  finally show ?case .
qed simp

lemma deadline_passed:
  assumes "clock_runs e ms start" "AGENT_ROUNDS \<le> k" "start + 2 * k \<le> n"
  shows "\<not> secs e n - secs e start < AGENT_START_DEADLINE"
proof -
  have c: "mono ms" "secs e m = ms m div 1000" for m
    using assms(1) by (simp_all only: clock_runs_def)
  have "ms start + 20 * 1000 \<le> ms start + 300 * k"
    using assms(2) by (simp add: AGENT_ROUNDS_def)
  also have "\<dots> \<le> ms n"
    using clock_after_rounds [OF assms(1), of k] monoD [OF c(1) assms(3)] by (rule order_trans)
  finally have "(ms start + 20 * 1000) div 1000 \<le> ms n div 1000" by (rule div_le_mono)
  then show ?thesis by (simp add: c(2) AGENT_START_DEADLINE_def)
qed

text \<open>One round, as the world sees it.\<close>

lemma health_ticks: "snd (agent_health x cid n w) = tick w"
  by (simp add: agent_health_def bnd_def ret_def call_agent_def split: sum.split)

lemma child_alive_True:
  assumes "child_alive i w = (Inr True, w')"
  shows "w' = tick w"
  using assms
  by (auto simp: child_alive_def bnd_def ask_def ret_def try_wait_def Let_def split: option.splits if_splits)

lemma child_alive_ok: "\<exists>b. fst (child_alive i w) = Inr b"
  by (auto simp: child_alive_def bnd_def ask_def ret_def try_wait_def Let_def split: option.splits)

lemma poll_agent_round:
  "poll_agent x cid n (child_alive i) t0 r w =
     (case fst (agent_health x cid n w) of
        Inr _ \<Rightarrow> (Inr None, tick w)
      | Inl e \<Rightarrow>
          if r = 0 \<or> \<not> secs (env w) (Suc (now w)) - t0 < AGENT_START_DEADLINE
          then (Inr (Some (AppNoAnswer e)), tick w)
          else (case child_alive i (tick w) of
             (Inl e', w') \<Rightarrow> (Inl e', w')
           | (Inr False, w') \<Rightarrow> (Inr (Some AppDied), w')
           | (Inr True, w') \<Rightarrow> poll_agent x cid n (child_alive i) t0 (r - 1) (w'\<lparr>sent := sent w' @ [Waiting]\<rparr>)))"
proof (cases "agent_health x cid n w")
  case (Pair h w1)
  moreover have "w1 = tick w" using health_ticks [of x cid n w] by (simp add: Pair)
  ultimately show ?thesis
    by (subst poll_agent.simps)
      (auto simp: bnd_def attempt_def ret_def ask_def sq_def tell_def tick_def
        split: sum.split nat.split bool.split prod.split)
qed

lemma poll_agent_rounds:
  assumes "clock_runs e ms start" "env w = e" "now w = start + 2 * k"
    and "AGENT_ROUNDS \<le> k + r" "AGENT_ROUNDS \<le> k + r'"
  shows "poll_agent x cid n (child_alive i) (secs e start) r w = poll_agent x cid n (child_alive i) (secs e start) r' w"
  using assms(2-5)
proof (induction "AGENT_ROUNDS - k" arbitrary: k r r' w)
  case 0
  have "\<not> secs (env w) (Suc (now w)) - secs e start < AGENT_START_DEADLINE"
    unfolding 0(2) by (rule deadline_passed [OF assms(1), of k]) (use 0 in auto)
  then show ?case
    unfolding poll_agent_round [of _ _ _ _ _ r] poll_agent_round [of _ _ _ _ _ r'] by (simp split: sum.split)
next
  case (Suc d)
  have r: "r \<noteq> 0" "r' \<noteq> 0" using Suc.hyps(2) Suc.prems by auto
  show ?case
  proof (cases "(child_alive i :: (HealthError, bool) m) (tick w)")
    case (Pair a w1)
    have "poll_agent x cid n (child_alive i) (secs e start) (r - 1) (w1\<lparr>sent := sent w1 @ [Waiting]\<rparr>) =
        poll_agent x cid n (child_alive i) (secs e start) (r' - 1) (w1\<lparr>sent := sent w1 @ [Waiting]\<rparr>)"
      if "a = Inr True"
    proof (rule Suc.hyps(1) [of "Suc k"])
      show "env (w1\<lparr>sent := sent w1 @ [Waiting]\<rparr>) = e"
        "now (w1\<lparr>sent := sent w1 @ [Waiting]\<rparr>) = start + 2 * Suc k"
        using child_alive_True [OF Pair [unfolded that]] Suc.prems by (simp_all add: tick_def)
    qed (use Suc.hyps(2) Suc.prems r in auto)
    then show ?thesis
      unfolding poll_agent_round [of _ _ _ _ _ r] poll_agent_round [of _ _ _ _ _ r'] Pair
      using r by (auto split: sum.split bool.split)
  qed
qed

lemma poll_agent_sends:
  "length (sent (snd (poll_agent x cid n (child_alive i) t0 r w))) \<le> length (sent w) + r"
proof (induction r arbitrary: w)
  case 0
  then show ?case by (simp add: poll_agent_round tick_def split: sum.split)
next
  case (Suc r)
  show ?case
  proof (cases "(child_alive i :: (HealthError, bool) m) (tick w)")
    case (Pair a w1)
    have "sent w1 = sent w"
      using Pair by (auto simp: child_alive_def bnd_def ask_def ret_def try_wait_def Let_def tick_def split: option.splits)
    then show ?thesis
      unfolding poll_agent_round [of _ _ _ _ _ "Suc r"] Pair
      using Suc [of "w1\<lparr>sent := sent w1 @ [Waiting]\<rparr>"] by (auto simp: tick_def split: sum.split bool.split)
  qed
qed



end
