(* ===== verification/Spec2Isabelle.thy ===== *)
theory Spec2Isabelle
  imports OpsGuard OpsVolumes OpsStop ExportEnv GuidMain Wording LabelMain GuestAgent ManagerProps ManagerMain AgentWait
begin

text \<open>
  MiyoriOS runs each task of its user in a virtual machine of its own, a \<^emph>\<open>space\<close>, and
  shows the windows of all of them on one desktop.  Its programs, and how they meet:

  \<^item> \<open>miyorid\<close> (\<open>src/components/daemon\<close>), as root, creates, starts, stops and destroys the
    spaces on requests from a Unix socket, and keeps the registry of spaces and the rules
    of the bridge equal to its store;
  \<^item> \<open>miyori-guid\<close> (\<open>src/components/guid\<close>) takes the graphical connections of the guests,
    finds the space of a connection by the CID the kernel reports and the registry of the
    daemon, and starts one sandboxed proxy for a space;
  \<^item> the agent (\<open>src/components/agent\<close>), in every guest, answers health, shutdown and
    exec-app requests of the daemon, with the nonce of its boot;
  \<^item> the panel (\<open>src/components/label\<close>) says in a bar which space the focused window
    belongs to, from the compositor's events, the cgroups of the proxies and the daemon's
    list;
  \<^item> the manager (\<open>src/components/manager\<close>) is the window, or the printed report, through
    which the user talks to the daemon;
  \<^item> the libraries (\<open>src/lib\<close>) hold the formats they share: registry, manifests, sandbox
    command, control protocol and its client.
\<close>

section \<open>Theories and code\<close>

text \<open>
  Shared ground: \<open>Prelude\<close> (lists, decimal and hexadecimal numbers), \<open>Utf8\<close>, \<open>Path\<close>, \<open>Json\<close>,
  \<open>Table\<close> (association lists; the locales \<open>kv\<close> and \<open>kv_enum\<close> hold the laws of a table), \<open>Args\<close> (command lines),
  \<open>Float64\<close> (the division \<open>{:.1}\<close> prints), and \<open>Texts\<close> and \<open>DaemonTexts\<close>, the program's
  Russian texts by code point.  A Rust \<open>String\<close> is the list of its UTF-8 bytes, an
  unsigned integer is a \<open>nat\<close> whose width is written out where it matters, and an error is
  the left side of a sum.

  \<^item> \<open>src/lib\<close>: \<open>Config\<close> (registry), \<open>Ids\<close>, \<open>Frame\<close> (one line of bounded UTF-8), \<open>Control\<close>
    (requests, responder), \<open>Client\<close>, \<open>AgentProto\<close>, \<open>Profile\<close> and \<open>ExportEnv\<close> (manifests),
    \<open>Sandbox\<close>.
  \<^item> The daemon: \<open>World\<close> is the part of the system it acts on, a record of files, links,
    processes, ruleset and environment; an operation is a function on it, with \<open>bnd\<close> for
    \<open>?\<close>, and every call may fail by the environment's choice.  \<open>Calculus\<close> reasons about such
    operations: relations that every run keeps (locale \<open>step_rel\<close>, interpreted on agreement
    of paths, invariants, links and the passing of time) and \<open>hoare\<close>.  On it stand \<open>Store\<close>,
    \<open>Render\<close>, \<open>Net\<close>, \<open>Qemu\<close>, \<open>AgentHost\<close>, \<open>Observe\<close>, \<open>BuildHost\<close>, \<open>DaemonLib\<close>, the handlers
    \<open>Ops\<close> and \<open>Handlers\<close> (\<open>ops.rs\<close>, up to \<open>dispatch\<close>), \<open>Replies\<close> and \<open>Wording\<close> (the JSON and
    the words of its answers) and \<open>DaemonMain\<close> (\<open>main.rs\<close>: arguments, \<open>render\<close>, the socket,
    \<open>handle_connection\<close> and \<open>serve\<close>).
  \<^item> The broker: \<open>Broker\<close> (\<open>bst\<close> is its table of proxies; \<open>sys_step\<close> opens and closes
    connections, reaps, and lets proxies die) and \<open>GuidMain\<close> (\<open>main.rs\<close>, \<open>peer.rs\<close>).
  \<^item> The agent: \<open>GuestAgent\<close>, with the host's half of the same calls in \<open>AgentHost\<close>.
  \<^item> The panel: \<open>Niri\<close> (event stream), \<open>LabelStrip\<close> (\<open>space.rs\<close>, \<open>strip.rs\<close>, \<open>bar.rs\<close>),
    \<open>Outputs\<close>, \<open>FontData\<close>, \<open>LabelFont\<close>, and \<open>LabelMain\<close> (the event loop; a panic is a value).
  \<^item> The manager: \<open>ManagerView\<close> (replies to rows), \<open>ManagerUi\<close> and \<open>ManagerWindow\<close> (the record
    \<open>Ui\<close> is the state of \<open>ui.rs\<close> with what its widgets show; one function per signal and
    per answer), \<open>ManagerRun\<close> (window, channel and request threads as a step relation)
    and \<open>ManagerMain\<close> (arguments, report).
\<close>

section \<open>What is shown\<close>

text \<open>
  \<^item> Store and handlers (\<open>StoreInv\<close>, \<open>OpsInv\<close>, \<open>OpsFrame\<close>, \<open>OpsGuard\<close>, \<open>OpsVolumes\<close>, \<open>OpsStop\<close>,
    \<open>OpsNet\<close>, \<open>OpsReply\<close>): whatever fails, every request keeps the configurations on disk
    consistent, touches no other space, changes data only where it is asked to, and
    leaves no tap open to other spaces; what each operation has done when it succeeds;
    which reply fits which request.  \<open>AgentWait\<close>: the wait for a guest ends.
  \<^item> From socket to screen: the requests that get past the reader, the round trip of
    requests and frames, the server as a sequence of connections, a client's call as the
    handler of its request (\<open>DaemonMain\<close>), the pages and the report that show what the
    daemon found (\<open>ManagerView\<close>, \<open>ManagerMain\<close>), and the form that the daemon reads as the
    space that was typed (\<open>ManagerProps\<close>).
  \<^item> Registry and ruleset: broker and bridge admit exactly the spaces of the store
    (\<open>Render\<close>, \<open>OpsInv\<close>, \<open>Broker\<close>); the proxy's command is closed against its data (\<open>Sandbox\<close>).
  \<^item> The panel names the right space, stays readable, draws inside its buffer and never
    panics; its window map refines the event stream.
  \<^item> The window: which answer is shown, one operation at a time, patching a list equals
    building it, a new list after a success.  The locale \<open>window_rule\<close> (\<open>ManagerInv\<close>)
    carries a relation through all functions of the window once, and is interpreted on
    \<open>calm\<close> there and on \<open>stays_synced\<close> in \<open>ManagerProps\<close>.
\<close>

section \<open>Bounds and fuel\<close>

text \<open>
  Recursion is structural or has a measure, except that two loops of the source end by a
  clock or by counting: the wait for the agent has 67 rounds of 300 ms, enough for its
  deadline of 20 s (\<open>AgentWait\<close>), and the wait for a proxy's socket has the
  100 rounds of the source.  A request is at most 8 KiB and a response frame at most
  256 KiB; the channel of the manager holds 128 updates and a poll takes at most 64; the
  log of a page is at most 200 lines of 1024 characters, a progress text 1024 characters.
\<close>

section \<open>Parameters\<close>

text \<open>
  The parsers and printers of JSON and TOML (\<open>parse\<close>, \<open>print\<close>, \<open>libs\<close>), with the round trip
  that \<open>libs_ok\<close> and \<open>frame_ok\<close> state of them; Unicode lower case (\<open>lower\<close>); the image
  builder's output (\<open>built\<close>); texts of system errors (\<open>system_texts\<close>, and \<open>wording\<close> where any
  words will do); what the kernel, the compositor and the guests answer (\<open>env\<close>, \<open>transport\<close>,
  the contexts of the panel and of the agent).
\<close>

section \<open>Not modelled\<close>

text \<open>
  \<^item> The byte copy between two sockets of the broker, timeouts of single reads, and the
    time a call takes, except where a deadline decides.
  \<^item> Interleavings of handlers: one that changes state holds the lock of the daemon from its
    first line to its last, so a run is a sequence of them; \<open>list\<close>, \<open>describe\<close>, \<open>profiles\<close> and
    \<open>net-status\<close> take no lock and may in the program see a change half done.
  \<^item> Symbolic links other than the ones the code reads, and what a guest does with its disks.
  \<^item> The layout and style of GTK widgets, dialogs of the toolkit, and the Wayland protocol
    beyond the events the panel handles.
  \<^item> \<open>src/third_party\<close>, shell scripts and image recipes; tests of the crates.
\<close>

end
